(* ===== verification/Prelude.thy ===== *)
theory Prelude
  imports Main "HOL-Library.Word" "HOL-Library.Monad_Syntax"
begin

text \<open>
  Shared vocabulary of the development: the machine integers of the two platforms
  (the 64-bit host that runs the tools, the 32-bit Cortex-M7 target), the error codes, the
  pointer-or-error encoding of bsp/include/bsp_utils.h, and the lemmas about lists, options
  and alignment that several components use.

  Conventions.  A function of the source whose behaviour is undefined on some input (a read
  through NULL, an access outside an array) returns \<open>option\<close> here, and \<open>None\<close> is that
  undefined behaviour.  A function that ends the process returns a sum, \<open>Inl\<close> being the
  exit.  C strings are lists of characters without the terminating NUL.
\<close>

section \<open>Machine integers\<close>

type_synonym u8 = "8 word"
type_synonym u16 = "16 word"
type_synonym u32 = "32 word"
type_synonym u64 = "64 word"

named_theorems wf_intros \<open>facts that establish a well-formedness invariant\<close>
named_theorems layout_simps \<open>facts about offsets, sizes and alignment\<close>

section \<open>Error codes\<close>

abbreviation EINVAL :: int where "EINVAL \<equiv> 22"
abbreviation ENODEV :: int where "ENODEV \<equiv> 19"
abbreviation EBUSY :: int where "EBUSY \<equiv> 16"
abbreviation ENOMEM :: int where "ENOMEM \<equiv> 12"
abbreviation EAGAIN :: int where "EAGAIN \<equiv> 11"
abbreviation EBADF :: int where "EBADF \<equiv> 9"
abbreviation ENXIO :: int where "ENXIO \<equiv> 6"

section \<open>C library\<close>

text \<open>The character classes of the C locale.\<close>

definition isgraph :: "char \<Rightarrow> bool" where
  "isgraph c \<longleftrightarrow> (33::nat) \<le> of_char c \<and> of_char c \<le> (126::nat)"

definition isspace :: "char \<Rightarrow> bool" where
  "isspace c \<longleftrightarrow> of_char c = (32::nat) \<or> ((9::nat) \<le> of_char c \<and> of_char c \<le> (13::nat))"

lemma space_not_graph: "isspace c \<Longrightarrow> \<not> isgraph c"
  by (auto simp: isspace_def isgraph_def)

lemma takeWhile_stop:
  "list_all P s \<Longrightarrow> (t = [] \<or> \<not> P (hd t)) \<Longrightarrow> takeWhile P (s @ t) = s"
  by (induction s) (cases t; auto)+

text \<open>\<open>fgets(line, n + 1, f)\<close>: up to \<open>n\<close> characters, stopping after a newline.\<close>

fun fgets_line :: "nat \<Rightarrow> string \<Rightarrow> string" where
  "fgets_line 0 s = []"
| "fgets_line (Suc n) [] = []"
| "fgets_line (Suc n) (c # s) = (if c = CHR 0x0A then [c] else c # fgets_line n s)"

lemma fgets_line_pos: "s \<noteq> [] \<Longrightarrow> 0 < n \<Longrightarrow> 0 < length (fgets_line n s)"
  by (cases n; cases s) auto

lemma fgets_line_split: "fgets_line n s @ drop (length (fgets_line n s)) s = s"
  by (induction n s rule: fgets_line.induct) auto

lemma fgets_line_length: "length (fgets_line n s) \<le> n"
  by (induction n s rule: fgets_line.induct) auto

lemma fgets_line_newline: "CHR 0x0A \<notin> set (butlast (fgets_line n s))"
  by (induction n s rule: fgets_line.induct) auto

text \<open>The chunks that reading to the end of the file gives.\<close>

function fgets_all :: "nat \<Rightarrow> string \<Rightarrow> string list" where
  "fgets_all n s =
     (if s = [] \<or> n = 0 then []
      else (let l = fgets_line n s in l # fgets_all n (drop (length l) s)))"
  by pat_completeness auto
termination
  by (relation "measure (\<lambda>(n, s). length s)")
     (use fgets_line_pos in \<open>auto simp: Let_def\<close>)

declare fgets_all.simps [simp del]

lemma fgets_all_partition:
  "0 < n \<Longrightarrow> concat (fgets_all n s) = s \<and>
   list_all (\<lambda>l. l \<noteq> [] \<and> length l \<le> n \<and> CHR 0x0A \<notin> set (butlast l)) (fgets_all n s)"
proof (induction n s rule: fgets_all.induct)
  case (1 n s)
  show ?case
  proof (cases "s = []")
    case True
    then show ?thesis by (simp add: fgets_all.simps)
  next
    case False
    let ?l = "fgets_line n s"
    have "?l \<noteq> []" using False 1(2) fgets_line_pos [of s n] by auto
    then show ?thesis
      using 1(1) [OF _ refl 1(2)] fgets_line_newline [of n s] fgets_line_split [of n s]
        fgets_line_length [of n s] False 1(2)
      by (subst (1 2) fgets_all.simps) (simp add: Let_def)
  qed
qed

text \<open>A line that ends in a newline and is short enough is one chunk.\<close>

lemma fgets_line_full:
  "CHR 0x0A \<notin> set l \<Longrightarrow> length l < n \<Longrightarrow> fgets_line n (l @ CHR 0x0A # s) = l @ [CHR 0x0A]"
proof (induction l arbitrary: n)
  case Nil
  then show ?case by (cases n) simp_all
next
  case (Cons c l)
  then show ?case by (cases n) auto
qed

lemma fgets_all_line:
  assumes "CHR 0x0A \<notin> set l" "length l < n"
  shows "fgets_all n (l @ CHR 0x0A # s) = (l @ [CHR 0x0A]) # fgets_all n s"
proof -
  have "n \<noteq> 0" using assms(2) by simp
  then show ?thesis by (subst fgets_all.simps) (simp add: Let_def fgets_line_full [OF assms])
qed

text \<open>What a C function sees of a buffer: the characters before the first NUL.\<close>

definition c_string :: "string \<Rightarrow> string" where
  "c_string s = takeWhile (\<lambda>c. c \<noteq> CHR 0x00) s"

lemma c_string_id: "CHR 0x00 \<notin> set s \<Longrightarrow> c_string s = s"
  by (auto simp: c_string_def takeWhile_eq_all_conv)

section \<open>Lists of options\<close>

lemma those_map_Some [simp]: "those (map Some xs) = Some xs"
  by (induction xs) auto

lemma all_Some: "None \<notin> set zs \<Longrightarrow> \<exists>ys. zs = map Some ys"
proof (induction zs)
  case Nil
  then show ?case by simp
next
  case (Cons z zs)
  then obtain ys where "zs = map Some ys" by auto
  moreover obtain y where "z = Some y" using Cons.prems by (cases z) auto
  ultimately have "z # zs = map Some (y # ys)" by simp
  then show ?case by (rule exI)
qed

section \<open>Words\<close>

lemma unat_pow2:
  assumes "k < 64"
  shows "unat (2 ^ k :: u64) = 2 ^ k"
proof -
  have "(2::int) ^ k < 2 ^ 64" using assms by (intro power_strict_increasing) simp_all
  then have "(2::int) ^ k mod 2 ^ 64 = 2 ^ k" by (intro mod_pos_pos_trivial) simp_all
  then show ?thesis by transfer (simp add: take_bit_eq_mod nat_power_eq)
qed

lemma unat_plus_small: "unat (x :: u64) + unat y < 2 ^ 64 \<Longrightarrow> unat (x + y) = unat x + unat y"
  by (subst unat_plus_if') simp

lemma unat_of_nat_small: "n < 2 ^ 64 \<Longrightarrow> unat (of_nat n :: u64) = n"
  by (simp add: take_bit_eq_mod unsigned_of_nat)

end
