(* ===== verification/Dict.thy ===== *)
theory Dict
  imports Prelude
begin

text \<open>
  The string dictionary of tools/genconfig/dict.c: three parallel arrays (keys, values, hash
  values) searched linearly, doubled when full, with the free slot for a new key searched
  cyclically from position \<open>n\<close>.  The arrays are \<open>option\<close> values, \<open>None\<close> being the NULL
  that a failed allocation leaves behind.  Which allocations succeed is an argument of the
  operations that allocate.
\<close>

unbundle bit_operations_syntax

section \<open>State\<close>

record 'v dictionary =
  d_n :: int
  d_size :: nat
  d_val :: "'v option list option"
  d_key :: "string option list option"
  d_hash :: "u32 list option"

record new_alloc =
  al_struct :: bool
  al_nval :: bool
  al_nkey :: bool
  al_nhash :: bool

record set_alloc =
  al_val :: bool
  al_key :: bool
  al_hash :: bool
  al_dup :: bool

definition DICTMINSZ :: nat where
  "DICTMINSZ = 128"

section \<open>Operations\<close>

text \<open>\<open>char\<close> is signed on the host, so the cast to \<open>unsigned\<close> sign-extends.\<close>

definition char_to_unsigned :: "char \<Rightarrow> u32" where
  "char_to_unsigned c = signed (of_char c :: u8)"

definition hash_round :: "char \<Rightarrow> u32 \<Rightarrow> u32" where
  "hash_round c h0 =
     (let h1 = h0 + char_to_unsigned c;
          h2 = h1 + push_bit 10 h1
      in h2 XOR drop_bit 6 h2)"

definition dictionary_hash :: "string \<Rightarrow> u32" where
  "dictionary_hash key =
     (let h1 = fold hash_round key 0;
          h2 = h1 + push_bit 3 h1;
          h3 = h2 XOR drop_bit 11 h2
      in h3 + push_bit 15 h3)"

definition mem_double :: "bool \<Rightarrow> 'a \<Rightarrow> 'a list \<Rightarrow> nat \<Rightarrow> 'a list option" where
  "mem_double ok zero xs sz =
     (if ok then Some (take sz xs @ replicate sz zero) else None)"

definition xstrdup :: "bool \<Rightarrow> string option \<Rightarrow> string option" where
  "xstrdup ok s = (case s of None \<Rightarrow> None | Some t \<Rightarrow> if ok then Some t else None)"

definition dictionary_new :: "new_alloc \<Rightarrow> int \<Rightarrow> 'v dictionary option" where
  "dictionary_new al req =
     (let sz = (if req < int DICTMINSZ then DICTMINSZ else nat req)
      in if \<not> al_struct al then None
         else Some \<lparr>d_n = 0, d_size = sz,
                    d_val = (if al_nval al then Some (replicate sz None) else None),
                    d_key = (if al_nkey al then Some (replicate sz None) else None),
                    d_hash = (if al_nhash al then Some (replicate sz 0) else None)\<rparr>)"

text \<open>
  The search loop that \<open>dictionary_get\<close>, \<open>dictionary_set\<close> and \<open>dictionary_unset\<close> share:
  the inner option is the index found, the outer \<open>None\<close> a read outside an array.
\<close>

function dict_find ::
  "u32 \<Rightarrow> string \<Rightarrow> string option list \<Rightarrow> u32 list \<Rightarrow> nat \<Rightarrow> nat \<Rightarrow> nat option option" where
  "dict_find h key ks hs sz i =
     (if i < sz then
        (if i < length ks then
           (case ks ! i of
              None \<Rightarrow> dict_find h key ks hs sz (Suc i)
            | Some k \<Rightarrow>
                (if i < length hs then
                   (if h = hs ! i \<and> key = k then Some (Some i)
                    else dict_find h key ks hs sz (Suc i))
                 else None))
         else None)
      else Some None)"
  by pat_completeness auto
termination
  by (relation "measure (\<lambda>(h, key, ks, hs, sz, i). sz - i)") auto

declare dict_find.simps [simp del]

definition dictionary_get ::
  "'v dictionary \<Rightarrow> string \<Rightarrow> 'v option \<Rightarrow> 'v option option" where
  "dictionary_get d key def = do {
     ks \<leftarrow> d_key d;
     hs \<leftarrow> d_hash d;
     r \<leftarrow> dict_find (dictionary_hash key) key ks hs (d_size d) 0;
     case r of
       None \<Rightarrow> Some def
     | Some i \<Rightarrow> do {
         vs \<leftarrow> d_val d;
         if i < length vs then Some (vs ! i) else None
       }
   }"

text \<open>
  \<open>for (i = d->n; d->key[i]; ) if (++i == d->sz) i = 0;\<close>  The loop of the source has no
  bound; the first argument bounds the number of slots looked at, and \<open>free_slot_enough\<close>
  below shows that \<open>d_size\<close> looks always suffice when a slot is free.
\<close>

fun free_slot :: "nat \<Rightarrow> string option list \<Rightarrow> nat \<Rightarrow> nat \<Rightarrow> nat option" where
  "free_slot 0 ks sz i = None"
| "free_slot (Suc fuel) ks sz i =
     (if i < length ks then
        (if ks ! i = None then Some i
         else free_slot fuel ks sz (if Suc i = sz then 0 else Suc i))
      else None)"

definition dict_grow :: "set_alloc \<Rightarrow> 'v dictionary \<Rightarrow> (int \<times> 'v dictionary) option" where
  "dict_grow al d = do {
     vs \<leftarrow> d_val d;
     ks \<leftarrow> d_key d;
     hs \<leftarrow> d_hash d;
     let sz = d_size d;
     let vs' = mem_double (al_val al) None vs sz;
     let ks' = mem_double (al_key al) None ks sz;
     let hs' = mem_double (al_hash al) 0 hs sz;
     let d' = d\<lparr>d_val := vs', d_key := ks', d_hash := hs'\<rparr>;
     if vs' = None \<or> ks' = None \<or> hs' = None then Some (-1, d')
     else Some (0, d'\<lparr>d_size := 2 * sz\<rparr>)
   }"

definition dict_insert_new ::
  "set_alloc \<Rightarrow> 'v dictionary \<Rightarrow> string \<Rightarrow> 'v option \<Rightarrow> (int \<times> 'v dictionary) option" where
  "dict_insert_new al d key val = do {
     vs \<leftarrow> d_val d;
     ks \<leftarrow> d_key d;
     hs \<leftarrow> d_hash d;
     i \<leftarrow> free_slot (d_size d) ks (d_size d) (nat (d_n d));
     if i < length vs \<and> i < length hs then
       Some (0, d\<lparr>d_key := Some (ks[i := xstrdup (al_dup al) (Some key)]),
                  d_val := Some (vs[i := val]),
                  d_hash := Some (hs[i := dictionary_hash key]),
                  d_n := d_n d + 1\<rparr>)
     else None
   }"

definition dict_lookup_slot :: "'v dictionary \<Rightarrow> string \<Rightarrow> nat option option" where
  "dict_lookup_slot d key = do {
     ks \<leftarrow> d_key d;
     hs \<leftarrow> d_hash d;
     dict_find (dictionary_hash key) key ks hs (d_size d) 0
   }"

definition dictionary_set ::
  "set_alloc \<Rightarrow> 'v dictionary option \<Rightarrow> string option \<Rightarrow> 'v option \<Rightarrow>
   (int \<times> 'v dictionary option) option" where
  "dictionary_set al dd kk val =
     (case (dd, kk) of
        (Some d, Some key) \<Rightarrow> do {
          r \<leftarrow> (if d_n d > 0 then dict_lookup_slot d key else Some None);
          case r of
            Some i \<Rightarrow> do {
              vs \<leftarrow> d_val d;
              if i < length vs then Some (0, Some (d\<lparr>d_val := Some (vs[i := val])\<rparr>)) else None
            }
          | None \<Rightarrow> do {
              (rc, d1) \<leftarrow> (if d_n d = int (d_size d) then dict_grow al d else Some (0, d));
              if rc \<noteq> 0 then Some (-1, Some d1)
              else do {
                (rc2, d2) \<leftarrow> dict_insert_new al d1 key val;
                Some (rc2, Some d2)
              }
            }
        }
      | _ \<Rightarrow> Some (-1, dd))"

definition dictionary_unset ::
  "'v dictionary \<Rightarrow> string option \<Rightarrow> 'v dictionary option" where
  "dictionary_unset d kk =
     (case kk of
        None \<Rightarrow> Some d
      | Some key \<Rightarrow> do {
          r \<leftarrow> dict_lookup_slot d key;
          case r of
            None \<Rightarrow> Some d
          | Some i \<Rightarrow> do {
              ks \<leftarrow> d_key d;
              vs \<leftarrow> d_val d;
              hs \<leftarrow> d_hash d;
              if i < length vs then
                Some (d\<lparr>d_key := Some (ks[i := None]),
                        d_val := Some (vs[i := None]),
                        d_hash := Some (hs[i := 0]),
                        d_n := d_n d - 1\<rparr>)
              else None
            }
        })"

section \<open>Invariant and abstraction\<close>

definition key_count :: "string option list \<Rightarrow> nat" where
  "key_count ks = length (filter (\<lambda>k. k \<noteq> None) ks)"

definition keys_unique :: "string option list \<Rightarrow> bool" where
  "keys_unique ks \<longleftrightarrow>
     (\<forall>i < length ks. \<forall>j < length ks.
        case ks ! i of None \<Rightarrow> True | Some k \<Rightarrow> ks ! j = Some k \<longrightarrow> i = j)"

definition hashes_ok :: "string option list \<Rightarrow> u32 list \<Rightarrow> bool" where
  "hashes_ok ks hs \<longleftrightarrow>
     (\<forall>i < length ks. case ks ! i of None \<Rightarrow> True | Some k \<Rightarrow> hs ! i = dictionary_hash k)"

definition arrays_ok ::
  "nat \<Rightarrow> int \<Rightarrow> string option list \<Rightarrow> 'v option list \<Rightarrow> u32 list \<Rightarrow> bool" where
  "arrays_ok sz n ks vs hs \<longleftrightarrow>
     0 < sz \<and> length ks = sz \<and> length vs = sz \<and> length hs = sz \<and>
     n = int (key_count ks) \<and> keys_unique ks \<and> hashes_ok ks hs"

definition dict_wf :: "'v dictionary \<Rightarrow> bool" where
  "dict_wf d \<longleftrightarrow>
     (case (d_key d, d_val d, d_hash d) of
        (Some ks, Some vs, Some hs) \<Rightarrow> arrays_ok (d_size d) (d_n d) ks vs hs
      | _ \<Rightarrow> False)"

definition slot_map :: "string option list \<Rightarrow> 'v option list \<Rightarrow> string \<rightharpoonup> 'v option" where
  "slot_map ks vs = map_of (map (\<lambda>(k, v). (the k, v)) (filter (\<lambda>(k, v). k \<noteq> None) (zip ks vs)))"

definition dict_map :: "'v dictionary \<Rightarrow> string \<rightharpoonup> 'v option" where
  "dict_map d =
     (case (d_key d, d_val d) of (Some ks, Some vs) \<Rightarrow> slot_map ks vs | _ \<Rightarrow> Map.empty)"


section \<open>Lemmas about slots\<close>

lemma keys_uniqueD:
  assumes "keys_unique ks" "i < length ks" "j < length ks" "ks ! i = Some k" "ks ! j = Some k"
  shows "i = j"
proof -
  have "case ks ! i of None \<Rightarrow> True | Some k \<Rightarrow> ks ! j = Some k \<longrightarrow> i = j"
    using assms(1-3) unfolding keys_unique_def by blast
  with assms(4,5) show ?thesis by simp
qed

lemma keys_uniqueI:
  assumes "\<And>i j k. i < length ks \<Longrightarrow> j < length ks \<Longrightarrow> ks ! i = Some k \<Longrightarrow> ks ! j = Some k \<Longrightarrow> i = j"
  shows "keys_unique ks"
  using assms unfolding keys_unique_def by (simp split: option.split)

lemma hashes_okD:
  assumes "hashes_ok ks hs" "i < length ks" "ks ! i = Some k"
  shows "hs ! i = dictionary_hash k"
proof -
  have "case ks ! i of None \<Rightarrow> True | Some k \<Rightarrow> hs ! i = dictionary_hash k"
    using assms(1,2) unfolding hashes_ok_def by blast
  with assms(3) show ?thesis by simp
qed

lemma hashes_okI:
  assumes "\<And>i k. i < length ks \<Longrightarrow> ks ! i = Some k \<Longrightarrow> hs ! i = dictionary_hash k"
  shows "hashes_ok ks hs"
  using assms unfolding hashes_ok_def by (simp split: option.split)

lemma key_count_0: "key_count ks = 0 \<longleftrightarrow> (\<forall>i < length ks. ks ! i = None)"
  by (simp add: key_count_def filter_empty_conv all_set_conv_all_nth)

lemma key_count_le: "key_count ks \<le> length ks"
  by (simp add: key_count_def)

lemma key_count_free: "key_count ks < length ks \<Longrightarrow> \<exists>i < length ks. ks ! i = None"
proof (rule ccontr)
  assume less: "key_count ks < length ks" and no: "\<not> (\<exists>i < length ks. ks ! i = None)"
  then have "\<forall>k \<in> set ks. k \<noteq> None" by (metis in_set_conv_nth)
  then have "filter (\<lambda>k. k \<noteq> None) ks = ks" by (simp add: filter_id_conv)
  with less show False by (simp add: key_count_def)
qed

lemma key_count_simps [simp]:
  "key_count [] = 0"
  "key_count (None # ks) = key_count ks"
  "key_count (Some k # ks) = Suc (key_count ks)"
  by (simp_all add: key_count_def)

lemma key_count_update:
  assumes "i < length ks"
  shows "key_count (ks[i := x]) + (if ks ! i = None then 0 else 1) =
         key_count ks + (if x = None then 0 else 1)"
  using assms
proof (induction ks arbitrary: i)
  case Nil
  then show ?case by simp
next
  case (Cons a ks)
  show ?case
  proof (cases i)
    case 0
    then show ?thesis by (cases a; cases x) simp_all
  next
    case (Suc j)
    with Cons.IH [of j] Cons.prems show ?thesis by (cases a) simp_all
  qed
qed

lemma key_count_append_free: "key_count (ks @ replicate m None) = key_count ks"
  by (simp add: key_count_def)

lemma slot_map_Some:
  assumes "keys_unique ks" and "length vs = length ks"
  shows "slot_map ks vs k = Some v \<longleftrightarrow> (\<exists>i < length ks. ks ! i = Some k \<and> vs ! i = v)"
  using assms
proof (induction ks arbitrary: vs)
  case Nil
  then show ?case by (simp add: slot_map_def)
next
  case (Cons a ks)
  then obtain w ws where vs: "vs = w # ws" and len: "length ws = length ks"
    by (cases vs) auto
  have uni: "keys_unique ks"
  proof (rule keys_uniqueI)
    fix i j k'
    assume "i < length ks" "j < length ks" "ks ! i = Some k'" "ks ! j = Some k'"
    then show "i = j"
      using keys_uniqueD [OF Cons.prems(1), of "Suc i" "Suc j" k'] by simp
  qed
  have fresh: "ks ! i \<noteq> Some b" if "a = Some b" "i < length ks" for i b
    using keys_uniqueD [OF Cons.prems(1), of 0 "Suc i" b] that by auto
  note IH = Cons.IH [OF uni len]
  have ex: "(\<exists>i < length (a # ks). (a # ks) ! i = Some k \<and> vs ! i = v) \<longleftrightarrow>
      (a = Some k \<and> w = v) \<or> (\<exists>i < length ks. ks ! i = Some k \<and> ws ! i = v)"
    by (auto simp: vs less_Suc_eq_0_disj)
  show ?case
  proof (cases a)
    case None
    then show ?thesis using IH ex by (simp add: slot_map_def vs)
  next
    case (Some b)
    then have sm: "slot_map (a # ks) vs = (slot_map ks ws)(b \<mapsto> w)"
      by (simp add: slot_map_def vs)
    show ?thesis
    proof (cases "b = k")
      case True
      then show ?thesis using sm ex fresh [OF Some] Some by auto
    next
      case False
      then show ?thesis using sm ex IH Some by simp
    qed
  qed
qed

lemma option_eqI: "(\<And>v. x = Some v \<longleftrightarrow> y = Some v) \<Longrightarrow> x = y"
  by (cases x; cases y) auto

lemma slot_map_None:
  "keys_unique ks \<Longrightarrow> length vs = length ks \<Longrightarrow>
   slot_map ks vs k = None \<longleftrightarrow> (\<forall>i < length ks. ks ! i \<noteq> Some k)"
  using slot_map_Some [of ks vs k] by (metis not_None_eq)

lemma slot_map_cong:
  assumes "keys_unique ks" "length vs = length ks"
    and "keys_unique ks'" "length vs' = length ks'" "length ks' = length ks"
    and "\<And>j w. j < length ks \<Longrightarrow> (ks ! j = Some x \<and> vs ! j = w) = (ks' ! j = Some x \<and> vs' ! j = w)"
  shows "slot_map ks vs x = slot_map ks' vs' x"
  using assms by (intro option_eqI) (simp add: slot_map_Some cong: conj_cong)

lemma slot_map_at:
  "keys_unique ks \<Longrightarrow> length vs = length ks \<Longrightarrow> i < length ks \<Longrightarrow> ks ! i = Some k \<Longrightarrow>
   slot_map ks vs k = Some (vs ! i)"
  by (subst slot_map_Some) blast+

lemma slot_map_update_val:
  assumes uni: "keys_unique ks" and len: "length vs = length ks" and i: "i < length ks" "ks ! i = Some k"
  shows "slot_map ks (vs[i := v]) = (slot_map ks vs)(k \<mapsto> v)"
proof
  fix x
  show "slot_map ks (vs[i := v]) x = ((slot_map ks vs)(k \<mapsto> v)) x"
  proof (cases "x = k")
    case True
    then show ?thesis using slot_map_at [of ks "vs[i := v]" i k] assms by simp
  next
    case False
    have "slot_map ks (vs[i := v]) x = slot_map ks vs x"
      using assms False by (intro slot_map_cong) (auto simp: nth_list_update)
    with False show ?thesis by simp
  qed
qed

lemma keys_unique_insert:
  assumes "keys_unique ks" "\<forall>j < length ks. ks ! j \<noteq> Some k"
  shows "keys_unique (ks[i := Some k])"
proof (rule keys_uniqueI)
  fix a b k'
  assume ab: "a < length (ks[i := Some k])" "b < length (ks[i := Some k])"
    "ks[i := Some k] ! a = Some k'" "ks[i := Some k] ! b = Some k'"
  then show "a = b"
    using assms(2) keys_uniqueD [OF assms(1), of a b k']
    by (cases "a = i"; cases "b = i") auto
qed

lemma keys_unique_remove:
  assumes "keys_unique ks"
  shows "keys_unique (ks[i := None])"
proof (rule keys_uniqueI)
  fix a b k'
  assume ab: "a < length (ks[i := None])" "b < length (ks[i := None])"
    "ks[i := None] ! a = Some k'" "ks[i := None] ! b = Some k'"
  then show "a = b"
    using keys_uniqueD [OF assms, of a b k'] by (cases "a = i"; cases "b = i") auto
qed

lemma slot_map_insert:
  assumes uni: "keys_unique ks" and len: "length vs = length ks" and i: "i < length ks" "ks ! i = None"
    and new: "\<forall>j < length ks. ks ! j \<noteq> Some k"
  shows "slot_map (ks[i := Some k]) (vs[i := v]) = (slot_map ks vs)(k \<mapsto> v)"
proof
  fix x
  note uni' = keys_unique_insert [OF uni new, of i]
  show "slot_map (ks[i := Some k]) (vs[i := v]) x = ((slot_map ks vs)(k \<mapsto> v)) x"
  proof (cases "x = k")
    case True
    then show ?thesis
      using slot_map_at [of "ks[i := Some k]" "vs[i := v]" i k] uni' len i by simp
  next
    case False
    have "slot_map (ks[i := Some k]) (vs[i := v]) x = slot_map ks vs x"
      using uni uni' len i False by (intro slot_map_cong) (auto simp: nth_list_update)
    with False show ?thesis by simp
  qed
qed

lemma slot_map_remove:
  assumes uni: "keys_unique ks" and len: "length vs = length ks" and i: "i < length ks" "ks ! i = Some k"
  shows "slot_map (ks[i := None]) (vs[i := v]) = (slot_map ks vs)(k := None)"
proof
  fix x
  note uni' = keys_unique_remove [OF uni, of i]
  show "slot_map (ks[i := None]) (vs[i := v]) x = ((slot_map ks vs)(k := None)) x"
  proof (cases "x = k")
    case True
    have "\<forall>j < length ks. ks[i := None] ! j \<noteq> Some k"
      using keys_uniqueD [OF uni i(1) _ i(2)] i(1) by (metis nth_list_update_eq nth_list_update_neq option.distinct(1) length_list_update)
    then have "slot_map (ks[i := None]) (vs[i := v]) k = None"
      using slot_map_None [OF uni', of "vs[i := v]" k] len by simp
    with True show ?thesis by simp
  next
    case False
    have "slot_map (ks[i := None]) (vs[i := v]) x = slot_map ks vs x"
      using uni uni' len i False by (intro slot_map_cong) (auto simp: nth_list_update)
    with False show ?thesis by simp
  qed
qed

lemma slot_map_append_free:
  "length vs = length ks \<Longrightarrow>
   slot_map (ks @ replicate m None) (vs @ replicate m u) = slot_map ks vs"
proof -
  assume len: "length vs = length ks"
  have "filter (\<lambda>(k, v). k \<noteq> None) (zip (replicate m None) (replicate m u)) = []"
    by (induction m) auto
  with len show ?thesis by (simp add: slot_map_def)
qed

lemma hashes_ok_update:
  assumes "hashes_ok ks hs" "length hs = length ks"
  shows "hashes_ok (ks[i := Some k]) (hs[i := dictionary_hash k])"
proof (rule hashes_okI)
  fix j k'
  assume "j < length (ks[i := Some k])" "ks[i := Some k] ! j = Some k'"
  then show "hs[i := dictionary_hash k] ! j = dictionary_hash k'"
    using hashes_okD [OF assms(1), of j k'] assms(2) by (cases "j = i") auto
qed

lemma hashes_ok_remove:
  assumes "hashes_ok ks hs" "length hs = length ks"
  shows "hashes_ok (ks[i := None]) (hs[i := h])"
proof (rule hashes_okI)
  fix j k'
  assume "j < length (ks[i := None])" "ks[i := None] ! j = Some k'"
  then show "hs[i := h] ! j = dictionary_hash k'"
    using hashes_okD [OF assms(1), of j k'] assms(2) by (cases "j = i") auto
qed

section \<open>The search and free-slot loops\<close>

lemma dict_find_some:
  assumes "length ks = sz" "length hs = sz"
  shows "\<exists>r. dict_find h key ks hs sz i = Some r \<and>
    (case r of
       None \<Rightarrow> (\<forall>j. i \<le> j \<and> j < sz \<longrightarrow> \<not> (ks ! j = Some key \<and> hs ! j = h))
     | Some j \<Rightarrow> i \<le> j \<and> j < sz \<and> ks ! j = Some key \<and> hs ! j = h)"
  using assms
proof (induction h key ks hs sz i rule: dict_find.induct)
  case (1 h key ks hs sz i)
  show ?case
  proof (cases "i < sz")
    case False
    then show ?thesis by (subst dict_find.simps) auto
  next
    case True
    show ?thesis
    proof (cases "ks ! i = Some key \<and> h = hs ! i")
      case hit: True
      with True "1.prems" have "dict_find h key ks hs sz i = Some (Some i)"
        by (subst dict_find.simps) simp
      with hit True show ?thesis by auto
    next
      case miss: False
      have step: "dict_find h key ks hs sz i = dict_find h key ks hs sz (Suc i)"
        using True miss "1.prems" by (subst dict_find.simps) (auto split: option.splits)
      obtain r where r: "dict_find h key ks hs sz (Suc i) = Some r"
        and post: "case r of
          None \<Rightarrow> (\<forall>j. Suc i \<le> j \<and> j < sz \<longrightarrow> \<not> (ks ! j = Some key \<and> hs ! j = h))
        | Some j \<Rightarrow> Suc i \<le> j \<and> j < sz \<and> ks ! j = Some key \<and> hs ! j = h"
        using "1.IH" True "1.prems" miss by (cases "ks ! i") auto
      have "case r of
          None \<Rightarrow> (\<forall>j. i \<le> j \<and> j < sz \<longrightarrow> \<not> (ks ! j = Some key \<and> hs ! j = h))
        | Some j \<Rightarrow> i \<le> j \<and> j < sz \<and> ks ! j = Some key \<and> hs ! j = h"
      proof (cases r)
        case None
        have "\<not> (ks ! j = Some key \<and> hs ! j = h)" if "i \<le> j" "j < sz" for j
          using that post None miss by (cases "j = i") auto
        with None show ?thesis by simp
      next
        case (Some j)
        with post show ?thesis by simp
      qed
      with r step show ?thesis by simp
    qed
  qed
qed

text \<open>
  With hashes that agree with the keys, the search finds a slot exactly when the key is stored.
\<close>

lemma dict_find_wf:
  assumes wf: "arrays_ok sz n ks vs hs"
  obtains r where "dict_find (dictionary_hash key) key ks hs sz 0 = Some r"
    and "case r of None \<Rightarrow> \<forall>j < sz. ks ! j \<noteq> Some key | Some j \<Rightarrow> j < sz \<and> ks ! j = Some key"
proof -
  have len: "length ks = sz" "length hs = sz" and ho: "hashes_ok ks hs"
    using wf by (auto simp: arrays_ok_def)
  obtain r where r: "dict_find (dictionary_hash key) key ks hs sz 0 = Some r"
    and post: "case r of
       None \<Rightarrow> (\<forall>j. 0 \<le> j \<and> j < sz \<longrightarrow> \<not> (ks ! j = Some key \<and> hs ! j = dictionary_hash key))
     | Some j \<Rightarrow> 0 \<le> j \<and> j < sz \<and> ks ! j = Some key \<and> hs ! j = dictionary_hash key"
    using dict_find_some [OF len] by blast
  have "case r of None \<Rightarrow> \<forall>j < sz. ks ! j \<noteq> Some key | Some j \<Rightarrow> j < sz \<and> ks ! j = Some key"
    using post hashes_okD [OF ho] len by (auto split: option.splits)
  with r show ?thesis by (rule that)
qed

definition slot_dist :: "nat \<Rightarrow> nat \<Rightarrow> nat \<Rightarrow> nat" where
  "slot_dist sz i j = (if i \<le> j then j - i else sz + j - i)"

lemma free_slot_enough:
  assumes "length ks = sz" "i < sz" "j < sz" "ks ! j = None" "slot_dist sz i j < fuel"
  shows "\<exists>r. free_slot fuel ks sz i = Some r \<and> r < sz \<and> ks ! r = None"
  using assms
proof (induction fuel arbitrary: i)
  case 0
  then show ?case by simp
next
  case (Suc fuel)
  show ?case
  proof (cases "ks ! i = None")
    case True
    with Suc.prems show ?thesis by simp
  next
    case False
    let ?i' = "if Suc i = sz then 0 else Suc i"
    have "i \<noteq> j" using False Suc.prems(4) by auto
    then have "slot_dist sz ?i' j < fuel"
      using Suc.prems by (auto simp: slot_dist_def split: if_splits)
    moreover have "?i' < sz" using Suc.prems by auto
    ultimately obtain r where "free_slot fuel ks sz ?i' = Some r" "r < sz" "ks ! r = None"
      using Suc.IH [of ?i'] Suc.prems by blast
    with False Suc.prems show ?thesis by simp
  qed
qed

lemma free_slot_wf:
  assumes wf: "arrays_ok sz n ks vs hs" and room: "n < int sz"
  obtains i where "free_slot sz ks sz (nat n) = Some i" "i < sz" "ks ! i = None"
proof -
  have len: "length ks = sz" and n: "n = int (key_count ks)"
    using wf by (auto simp: arrays_ok_def)
  then obtain j where j: "j < sz" "ks ! j = None"
    using room key_count_free [of ks] by auto
  have "slot_dist sz (nat n) j < sz"
    using j(1) room n by (auto simp: slot_dist_def)
  moreover have "nat n < sz" using room n by simp
  ultimately show ?thesis
    using free_slot_enough [OF len _ j(1) j(2)] that by blast
qed


section \<open>The operations on well-formed dictionaries\<close>

lemma dict_wfE:
  assumes "dict_wf d"
  obtains ks vs hs where "d_key d = Some ks" "d_val d = Some vs" "d_hash d = Some hs"
    and "arrays_ok (d_size d) (d_n d) ks vs hs"
  using assms by (auto simp: dict_wf_def split: option.splits)

lemma arrays_okD:
  assumes "arrays_ok sz n ks vs hs"
  shows "0 < sz" "length ks = sz" "length vs = sz" "length hs = sz" "n = int (key_count ks)"
    "keys_unique ks" "hashes_ok ks hs"
  using assms by (auto simp: arrays_ok_def)

lemma dict_map_slots:
  "d_key d = Some ks \<Longrightarrow> d_val d = Some vs \<Longrightarrow> dict_map d = slot_map ks vs"
  by (simp add: dict_map_def)

lemma dict_lookup_slot_wf:
  assumes "arrays_ok (d_size d) (d_n d) ks vs hs" "d_key d = Some ks" "d_hash d = Some hs"
  obtains (missing) "dict_lookup_slot d key = Some None" "\<forall>j < d_size d. ks ! j \<noteq> Some key"
  | (found) i where "dict_lookup_slot d key = Some (Some i)" "i < d_size d" "ks ! i = Some key"
proof -
  obtain r where r: "dict_find (dictionary_hash key) key ks hs (d_size d) 0 = Some r"
    and post: "case r of None \<Rightarrow> \<forall>j < d_size d. ks ! j \<noteq> Some key
                       | Some j \<Rightarrow> j < d_size d \<and> ks ! j = Some key"
    using dict_find_wf [OF assms(1)] by blast
  have eq: "dict_lookup_slot d key = Some r"
    using assms(2,3) r by (simp add: dict_lookup_slot_def)
  show ?thesis
  proof (cases r)
    case None
    then show ?thesis using missing eq post by simp
  next
    case (Some j)
    then show ?thesis using found eq post by simp
  qed
qed

lemma dictionary_new_wf [wf_intros]:
  assumes "al_struct al" "al_nval al" "al_nkey al" "al_nhash al"
  shows "\<exists>d. dictionary_new al req = Some d \<and> dict_wf d \<and> dict_map d = Map.empty"
proof -
  let ?sz = "if req < int DICTMINSZ then DICTMINSZ else nat req"
  have "0 < ?sz" by (simp add: DICTMINSZ_def)
  moreover have "keys_unique (replicate ?sz None)" by (rule keys_uniqueI) simp
  moreover have "hashes_ok (replicate ?sz None) (replicate ?sz 0)" by (rule hashes_okI) simp
  moreover have "key_count (replicate ?sz None) = 0" by (simp add: key_count_0)
  moreover have "slot_map (replicate ?sz None) (replicate ?sz None) = Map.empty"
    using slot_map_append_free [of "[]" "[]" ?sz None] by (simp add: slot_map_def)
  ultimately show ?thesis
    using assms by (simp add: dictionary_new_def Let_def dict_wf_def arrays_ok_def dict_map_def)
qed

lemma dictionary_get_wf:
  assumes "dict_wf d"
  shows "dictionary_get d key def = Some (case dict_map d key of None \<Rightarrow> def | Some v \<Rightarrow> v)"
proof -
  obtain ks vs hs where f: "d_key d = Some ks" "d_val d = Some vs" "d_hash d = Some hs"
    and ok: "arrays_ok (d_size d) (d_n d) ks vs hs"
    using assms by (rule dict_wfE)
  note a = arrays_okD [OF ok]
  consider (missing) "dict_lookup_slot d key = Some None" "\<forall>j < d_size d. ks ! j \<noteq> Some key"
    | (found) i where "dict_lookup_slot d key = Some (Some i)" "i < d_size d" "ks ! i = Some key"
    using dict_lookup_slot_wf [OF ok f(1,3), of key] by blast
  then show ?thesis
  proof cases
    case missing
    then have "slot_map ks vs key = None"
      using slot_map_None [of ks vs key] a by simp
    with missing f show ?thesis
      by (simp add: dictionary_get_def dict_lookup_slot_def dict_map_slots)
  next
    case (found i)
    then have "slot_map ks vs key = Some (vs ! i)"
      using slot_map_at [of ks vs i key] a by simp
    with found f a show ?thesis
      by (simp add: dictionary_get_def dict_lookup_slot_def dict_map_slots)
  qed
qed

lemma dict_grow_wf:
  assumes "dict_wf d" "al_val al" "al_key al" "al_hash al" "d_n d = int (d_size d)"
  obtains d' where "dict_grow al d = Some (0, d')" "dict_wf d'" "dict_map d' = dict_map d"
    "d_n d' = d_n d" "d_size d' = 2 * d_size d" "d_n d' < int (d_size d')"
proof -
  obtain ks vs hs where f: "d_key d = Some ks" "d_val d = Some vs" "d_hash d = Some hs"
    and ok: "arrays_ok (d_size d) (d_n d) ks vs hs"
    using assms(1) by (rule dict_wfE)
  note a = arrays_okD [OF ok]
  let ?sz = "d_size d"
  let ?ks = "ks @ replicate ?sz None" and ?vs = "vs @ replicate ?sz None"
  let ?hs = "hs @ replicate ?sz 0"
  let ?d = "d\<lparr>d_val := Some ?vs, d_key := Some ?ks, d_hash := Some ?hs, d_size := 2 * ?sz\<rparr>"
  have eq: "dict_grow al d = Some (0, ?d)"
    using assms f a by (simp add: dict_grow_def mem_double_def Let_def)
  have uni: "keys_unique ?ks"
  proof (rule keys_uniqueI)
    fix i j k
    assume "i < length ?ks" "j < length ?ks" "?ks ! i = Some k" "?ks ! j = Some k"
    then show "i = j"
      using keys_uniqueD [OF a(6), of i j k] by (auto simp: nth_append split: if_splits)
  qed
  have hok: "hashes_ok ?ks ?hs"
  proof (rule hashes_okI)
    fix i k
    assume "i < length ?ks" "?ks ! i = Some k"
    then show "?hs ! i = dictionary_hash k"
      using hashes_okD [OF a(7), of i k] a by (auto simp: nth_append split: if_splits)
  qed
  have "dict_wf ?d"
    using a uni hok by (simp add: dict_wf_def arrays_ok_def key_count_append_free)
  moreover have "dict_map ?d = dict_map d"
    using f a by (simp add: dict_map_def slot_map_append_free)
  moreover have "d_n ?d < int (d_size ?d)" using assms(5) a(1) by simp
  ultimately show ?thesis using that [OF eq] by simp
qed

lemma dict_insert_new_wf:
  assumes "dict_wf d" "al_dup al" "d_n d < int (d_size d)" "dict_map d key = None"
  obtains d' where "dict_insert_new al d key v = Some (0, d')" "dict_wf d'"
    "dict_map d' = (dict_map d)(key \<mapsto> v)" "d_n d' = d_n d + 1" "d_size d' = d_size d"
proof -
  obtain ks vs hs where f: "d_key d = Some ks" "d_val d = Some vs" "d_hash d = Some hs"
    and ok: "arrays_ok (d_size d) (d_n d) ks vs hs"
    using assms(1) by (rule dict_wfE)
  note a = arrays_okD [OF ok]
  obtain i where i: "free_slot (d_size d) ks (d_size d) (nat (d_n d)) = Some i"
    "i < d_size d" "ks ! i = None"
    using free_slot_wf [OF ok assms(3)] by blast
  have new: "\<forall>j < length ks. ks ! j \<noteq> Some key"
    using assms(4) slot_map_None [of ks vs key] a f by (simp add: dict_map_slots)
  let ?d = "d\<lparr>d_key := Some (ks[i := Some key]), d_val := Some (vs[i := v]),
              d_hash := Some (hs[i := dictionary_hash key]), d_n := d_n d + 1\<rparr>"
  have eq: "dict_insert_new al d key v = Some (0, ?d)"
    using f i a assms(2) by (simp add: dict_insert_new_def xstrdup_def)
  have cnt: "key_count (ks[i := Some key]) = Suc (key_count ks)"
    using key_count_update [of i ks "Some key"] i a by simp
  have "dict_wf ?d"
    using a cnt keys_unique_insert [OF a(6) new] hashes_ok_update [OF a(7)]
    by (simp add: dict_wf_def arrays_ok_def)
  moreover have "dict_map ?d = (dict_map d)(key \<mapsto> v)"
    using f slot_map_insert [of ks vs i key v] a i new by (simp add: dict_map_def)
  ultimately show ?thesis using that [OF eq] by simp
qed

definition all_alloc :: "set_alloc \<Rightarrow> bool" where
  "all_alloc al \<longleftrightarrow> al_val al \<and> al_key al \<and> al_hash al \<and> al_dup al"

lemma dictionary_set_wf:
  assumes wf: "dict_wf d" and al: "all_alloc al"
  obtains d' where "dictionary_set al (Some d) (Some key) v = Some (0, Some d')" "dict_wf d'"
    "dict_map d' = (dict_map d)(key \<mapsto> v)"
    "d_n d' = d_n d + (if dict_map d key = None then 1 else 0)"
    "d_size d' = (if dict_map d key = None \<and> d_n d = int (d_size d) then 2 * d_size d else d_size d)"
proof -
  obtain ks vs hs where f: "d_key d = Some ks" "d_val d = Some vs" "d_hash d = Some hs"
    and ok: "arrays_ok (d_size d) (d_n d) ks vs hs"
    using wf by (rule dict_wfE)
  note a = arrays_okD [OF ok]
  have le: "d_n d \<le> int (d_size d)" using a key_count_le [of ks] by simp
  have al': "al_val al" "al_key al" "al_hash al" "al_dup al" using al by (auto simp: all_alloc_def)
  consider (missing) "dict_lookup_slot d key = Some None" "\<forall>j < d_size d. ks ! j \<noteq> Some key"
    | (found) i where "dict_lookup_slot d key = Some (Some i)" "i < d_size d" "ks ! i = Some key"
    using dict_lookup_slot_wf [OF ok f(1,3), of key] by blast
  then show ?thesis
  proof cases
    case (found i)
    have "key_count ks \<noteq> 0" using found a by (auto simp: key_count_0)
    then have n: "0 < d_n d" using a by simp
    let ?d = "d\<lparr>d_val := Some (vs[i := v])\<rparr>"
    have eq: "dictionary_set al (Some d) (Some key) v = Some (0, Some ?d)"
      using found f a n by (simp add: dictionary_set_def)
    have "dict_wf ?d" using ok f by (simp add: dict_wf_def arrays_ok_def)
    moreover have "dict_map ?d = (dict_map d)(key \<mapsto> v)"
      using f slot_map_update_val [of ks vs i key v] a found by (simp add: dict_map_def)
    moreover have "dict_map d key \<noteq> None"
      using slot_map_at [of ks vs i key] a found f by (simp add: dict_map_slots)
    ultimately show ?thesis using that [OF eq] by auto
  next
    case missing
    then have new: "dict_map d key = None"
      using slot_map_None [of ks vs key] a f by (simp add: dict_map_slots)
    have sel: "(if d_n d > 0 then dict_lookup_slot d key else Some None) = Some None"
      using missing by simp
    show ?thesis
    proof (cases "d_n d = int (d_size d)")
      case True
      obtain d1 where g: "dict_grow al d = Some (0, d1)" "dict_wf d1" "dict_map d1 = dict_map d"
        "d_n d1 = d_n d" "d_size d1 = 2 * d_size d" "d_n d1 < int (d_size d1)"
        using dict_grow_wf [OF wf al'(1-3) True] by blast
      obtain d2 where "dict_insert_new al d1 key v = Some (0, d2)" "dict_wf d2"
        "dict_map d2 = (dict_map d1)(key \<mapsto> v)" "d_n d2 = d_n d1 + 1" "d_size d2 = d_size d1"
        using dict_insert_new_wf [OF g(2) al'(4) g(6), of key v] new g(3) by auto
      with g True sel new show ?thesis
        by (intro that [of d2]) (simp_all add: dictionary_set_def)
    next
      case False
      then have room: "d_n d < int (d_size d)" using le by simp
      obtain d2 where "dict_insert_new al d key v = Some (0, d2)" "dict_wf d2"
        "dict_map d2 = (dict_map d)(key \<mapsto> v)" "d_n d2 = d_n d + 1" "d_size d2 = d_size d"
        using dict_insert_new_wf [OF wf al'(4) room new, of v] by blast
      with False sel new show ?thesis
        by (intro that [of d2]) (simp_all add: dictionary_set_def)
    qed
  qed
qed

lemma dictionary_unset_wf:
  assumes wf: "dict_wf d"
  obtains d' where "dictionary_unset d (Some key) = Some d'" "dict_wf d'"
    "dict_map d' = (dict_map d)(key := None)"
    "d_n d' = d_n d - (if dict_map d key = None then 0 else 1)"
proof -
  obtain ks vs hs where f: "d_key d = Some ks" "d_val d = Some vs" "d_hash d = Some hs"
    and ok: "arrays_ok (d_size d) (d_n d) ks vs hs"
    using wf by (rule dict_wfE)
  note a = arrays_okD [OF ok]
  consider (missing) "dict_lookup_slot d key = Some None" "\<forall>j < d_size d. ks ! j \<noteq> Some key"
    | (found) i where "dict_lookup_slot d key = Some (Some i)" "i < d_size d" "ks ! i = Some key"
    using dict_lookup_slot_wf [OF ok f(1,3), of key] by blast
  then show ?thesis
  proof cases
    case missing
    then have new: "dict_map d key = None"
      using slot_map_None [of ks vs key] a f by (simp add: dict_map_slots)
    then have "(dict_map d)(key := None) = dict_map d" by auto
    with missing wf new show ?thesis by (intro that [of d]) (simp_all add: dictionary_unset_def)
  next
    case (found i)
    let ?d = "d\<lparr>d_key := Some (ks[i := None]), d_val := Some (vs[i := None]),
                d_hash := Some (hs[i := 0]), d_n := d_n d - 1\<rparr>"
    have eq: "dictionary_unset d (Some key) = Some ?d"
      using found f a by (simp add: dictionary_unset_def)
    have cnt: "Suc (key_count (ks[i := None])) = key_count ks"
      using key_count_update [of i ks None] found a by simp
    then have "d_n d - 1 = int (key_count (ks[i := None]))" using a(5) by linarith
    then have "dict_wf ?d"
      using a keys_unique_remove [OF a(6)] hashes_ok_remove [OF a(7)]
      by (simp add: dict_wf_def arrays_ok_def)
    moreover have "dict_map ?d = (dict_map d)(key := None)"
      using f slot_map_remove [of ks vs i key None] a found by (simp add: dict_map_def)
    moreover have "dict_map d key \<noteq> None"
      using slot_map_at [of ks vs i key] a found f by (simp add: dict_map_slots)
    ultimately show ?thesis using that [OF eq] by simp
  qed
qed


section \<open>The interface the generator relies on\<close>

text \<open>
  What tools/genconfig/genconfig.c needs of the dictionary: an insertion that succeeds and
  updates a map, and a lookup that reads it.  \<open>put_all\<close> is the argument loop of its
  \<open>main\<close>.
\<close>

locale assoc_store =
  fixes store_map :: "'d \<Rightarrow> string \<rightharpoonup> 'v option"
    and store_ok :: "'d \<Rightarrow> bool"
    and put :: "'d \<Rightarrow> string \<Rightarrow> 'v option \<Rightarrow> (int \<times> 'd option) option"
    and get :: "'d \<Rightarrow> string \<Rightarrow> 'v option \<Rightarrow> 'v option option"
  assumes put_ok: "store_ok d \<Longrightarrow>
      \<exists>d'. put d k v = Some (0, Some d') \<and> store_ok d' \<and> store_map d' = (store_map d)(k \<mapsto> v)"
    and get_ok: "store_ok d \<Longrightarrow>
      get d k def = Some (case store_map d k of None \<Rightarrow> def | Some v \<Rightarrow> v)"
begin

fun put_all :: "'d \<Rightarrow> (string \<times> 'v option) list \<Rightarrow> 'd option" where
  "put_all d [] = Some d"
| "put_all d ((k, v) # kvs) =
     (case put d k v of Some (rc, Some d') \<Rightarrow> put_all d' kvs | _ \<Rightarrow> None)"

lemma put_all_ok:
  "store_ok d \<Longrightarrow>
   \<exists>d'. put_all d kvs = Some d' \<and> store_ok d' \<and> store_map d' = store_map d ++ map_of (rev kvs)"
proof (induction kvs arbitrary: d)
  case Nil
  then show ?case by simp
next
  case (Cons kv kvs)
  obtain k v where kv: "kv = (k, v)" by (cases kv)
  obtain d1 where d1: "put d k v = Some (0, Some d1)" "store_ok d1"
    "store_map d1 = (store_map d)(k \<mapsto> v)"
    using put_ok [OF Cons.prems] by blast
  obtain d2 where d2: "put_all d1 kvs = Some d2" "store_ok d2"
    "store_map d2 = store_map d1 ++ map_of (rev kvs)"
    using Cons.IH [OF d1(2)] by blast
  have "(store_map d)(k \<mapsto> v) ++ map_of (rev kvs) = store_map d ++ map_of (rev (kv # kvs))"
    by (simp add: kv)
  then have "store_map d2 = store_map d ++ map_of (rev (kv # kvs))"
    by (simp only: d2(3) d1(3))
  moreover have "put_all d (kv # kvs) = Some d2" by (simp add: kv d1(1) d2(1))
  ultimately show ?case using d2(2) by blast
qed

lemma get_put_all:
  assumes "store_ok d"
  shows "\<exists>d'. put_all d kvs = Some d' \<and>
    get d' k def =
      Some (case map_of (rev kvs) k of
              Some v \<Rightarrow> v
            | None \<Rightarrow> (case store_map d k of None \<Rightarrow> def | Some v \<Rightarrow> v))"
proof -
  obtain d' where d': "put_all d kvs = Some d'" "store_ok d'"
    "store_map d' = store_map d ++ map_of (rev kvs)"
    using put_all_ok [OF assms] by blast
  with get_ok [OF d'(2), of k def] show ?thesis
    by (simp add: map_add_def split: option.split)
qed

end

definition alloc_fine :: set_alloc where
  "alloc_fine = \<lparr>al_val = True, al_key = True, al_hash = True, al_dup = True\<rparr>"

lemma alloc_fine_all: "all_alloc alloc_fine"
  by (simp add: all_alloc_def alloc_fine_def)

interpretation genstore: assoc_store dict_map dict_wf
  "\<lambda>d k v. dictionary_set alloc_fine (Some d) (Some k) v" dictionary_get
proof (unfold_locales, goal_cases)
  case (1 d k v)
  then show ?case using dictionary_set_wf [OF 1 alloc_fine_all, of k v] by metis
next
  case (2 d k def)
  then show ?case by (rule dictionary_get_wf)
qed

section \<open>Sequences of operations\<close>

datatype 'v dict_op = Put string "'v option" | Del string

primrec dict_step :: "'v dictionary \<Rightarrow> 'v dict_op \<Rightarrow> 'v dictionary option" where
  "dict_step d (Put k v) =
     (case dictionary_set alloc_fine (Some d) (Some k) v of
        Some (rc, Some d') \<Rightarrow> (if rc = 0 then Some d' else None)
      | _ \<Rightarrow> None)"
| "dict_step d (Del k) = dictionary_unset d (Some k)"

primrec dict_run :: "'v dictionary \<Rightarrow> 'v dict_op list \<Rightarrow> 'v dictionary option" where
  "dict_run d [] = Some d"
| "dict_run d (x # xs) = (case dict_step d x of None \<Rightarrow> None | Some d' \<Rightarrow> dict_run d' xs)"

primrec map_step :: "(string \<rightharpoonup> 'v option) \<Rightarrow> 'v dict_op \<Rightarrow> (string \<rightharpoonup> 'v option)" where
  "map_step m (Put k v) = m(k \<mapsto> v)"
| "map_step m (Del k) = m(k := None)"

lemma dict_step_refines:
  assumes "dict_wf d"
  shows "\<exists>d'. dict_step d x = Some d' \<and> dict_wf d' \<and> dict_map d' = map_step (dict_map d) x"
proof (cases x)
  case (Put k v)
  obtain d' where "dictionary_set alloc_fine (Some d) (Some k) v = Some (0, Some d')" "dict_wf d'"
    "dict_map d' = (dict_map d)(k \<mapsto> v)"
    using dictionary_set_wf [OF assms alloc_fine_all, of k v] by blast
  with Put show ?thesis by simp
next
  case (Del k)
  obtain d' where "dictionary_unset d (Some k) = Some d'" "dict_wf d'"
    "dict_map d' = (dict_map d)(k := None)"
    using dictionary_unset_wf [OF assms, of k] by blast
  with Del show ?thesis by simp
qed

lemma dict_run_refines:
  "dict_wf d \<Longrightarrow>
   \<exists>d'. dict_run d xs = Some d' \<and> dict_wf d' \<and> dict_map d' = foldl map_step (dict_map d) xs"
proof (induction xs arbitrary: d)
  case Nil
  then show ?case by simp
next
  case (Cons x xs)
  obtain d1 where "dict_step d x = Some d1" "dict_wf d1" "dict_map d1 = map_step (dict_map d) x"
    using dict_step_refines [OF Cons.prems] by blast
  with Cons.IH [of d1] show ?case by simp
qed

definition new_fine :: new_alloc where
  "new_fine = \<lparr>al_struct = True, al_nval = True, al_nkey = True, al_nhash = True\<rparr>"

section \<open>Properties\<close>


text \<open>
  Growth: inserting a key that is absent from a full dictionary doubles its capacity and
  keeps every stored association; in every other successful insertion the capacity is
  unchanged.  The count grows by one exactly when the key was absent.
\<close>

theorem dictionary_set_growth:
  assumes "dict_wf d"
  shows "\<exists>d'. dictionary_set alloc_fine (Some d) (Some key) v = Some (0, Some d') \<and> dict_wf d' \<and>
    dict_map d' = (dict_map d)(key \<mapsto> v) \<and>
    d_size d' = (if dict_map d key = None \<and> d_n d = int (d_size d) then 2 * d_size d else d_size d) \<and>
    d_n d' = d_n d + (if dict_map d key = None then 1 else 0)"
proof -
  obtain d' where "dictionary_set alloc_fine (Some d) (Some key) v = Some (0, Some d')" "dict_wf d'"
    "dict_map d' = (dict_map d)(key \<mapsto> v)"
    "d_n d' = d_n d + (if dict_map d key = None then 1 else 0)"
    "d_size d' = (if dict_map d key = None \<and> d_n d = int (d_size d) then 2 * d_size d else d_size d)"
    by (rule dictionary_set_wf [OF assms alloc_fine_all])
  then show ?thesis by (intro exI [of _ d']) (intro conjI; assumption)
qed

definition tiny_dict :: "nat dictionary" where
  "tiny_dict = \<lparr>d_n = 1, d_size = 1, d_val = Some [Some 5], d_key = Some [Some ''A''],
                d_hash = Some [dictionary_hash ''A'']\<rparr>"

lemma tiny_dict_wf: "dict_wf tiny_dict"
  by (simp add: tiny_dict_def dict_wf_def arrays_ok_def keys_unique_def hashes_ok_def)

theorem dictionary_set_growth_witness:
  "\<exists>d'. dictionary_set alloc_fine (Some tiny_dict) (Some ''B'') (Some 7) = Some (0, Some d') \<and>
    d_size d' = 2 \<and> d_n d' = 2 \<and> dict_map d' ''A'' = Some (Some 5) \<and> dict_map d' ''B'' = Some (Some 7)"
  using dictionary_set_growth [OF tiny_dict_wf, of "''B''" "Some 7"]
  by (auto simp: tiny_dict_def dict_map_def slot_map_def)

text \<open>
  The error paths of insertion: a NULL dictionary or key is refused with a nonzero code and
  changes nothing; when a full dictionary cannot grow, the call reports failure without
  changing the count or the capacity.
\<close>

theorem dictionary_set_errors:
  assumes wf: "dict_wf e" and full: "d_n e = int (d_size e)" and new: "dict_map e key = None"
    and al: "\<not> (al_val al \<and> al_key al \<and> al_hash al)"
  shows "dictionary_set al None (Some key) v = Some (-1, None) \<and>
    dictionary_set al (Some e) None v = Some (-1, Some e) \<and>
    (\<exists>e'. dictionary_set al (Some e) (Some key) v = Some (-1, Some e') \<and>
       d_n e' = d_n e \<and> d_size e' = d_size e \<and> \<not> dict_wf e')"
proof (intro conjI)
  show "dictionary_set al None (Some key) v = Some (-1, None)" by (simp add: dictionary_set_def)
  show "dictionary_set al (Some e) None v = Some (-1, Some e)" by (simp add: dictionary_set_def)
  obtain ks vs hs where f: "d_key e = Some ks" "d_val e = Some vs" "d_hash e = Some hs"
    and ok: "arrays_ok (d_size e) (d_n e) ks vs hs"
    using wf by (rule dict_wfE)
  note a = arrays_okD [OF ok]
  have "dict_lookup_slot e key = Some None"
    using dict_lookup_slot_wf [OF ok f(1,3), of key] slot_map_None [of ks vs key] a new f
    by (metis dict_map_slots)
  then show "\<exists>e'. dictionary_set al (Some e) (Some key) v = Some (-1, Some e') \<and>
     d_n e' = d_n e \<and> d_size e' = d_size e \<and> \<not> dict_wf e'"
    using f al full a(1)
    by (auto simp: dictionary_set_def dict_grow_def mem_double_def Let_def dict_wf_def split: option.splits)
qed

theorem dictionary_set_errors_witness:
  "\<exists>e'. dictionary_set (alloc_fine\<lparr>al_key := False\<rparr>) (Some tiny_dict) (Some ''B'') (Some 7) =
     Some (-1, Some e') \<and> d_n e' = 1 \<and> d_size e' = 1 \<and> \<not> dict_wf e'"
  using dictionary_set_errors [OF tiny_dict_wf, of "''B''" "alloc_fine\<lparr>al_key := False\<rparr>" "Some 7"]
  by (simp add: tiny_dict_def dict_map_def slot_map_def alloc_fine_def)

end
