(* ===== verification/Genconfig.thy ===== *)
theory Genconfig
  imports Dict "HOL-Library.Multiset"
begin

text \<open>
  The configuration-file generator tools/genconfig/genconfig.c: every input line goes through
  \<open>do_replace_variable\<close> (references \<open>@V@\<close>, \<open>${V}\<close>, \<open>$CACHE{V}\<close>, \<open>$ENV{V}\<close>) and then
  \<open>do_replace_cmakedef\<close> (\<open>#cmakedefine\<close>, \<open>#cmakedefine01\<close>).

  \<open>regexec\<close> is modelled for the six patterns of the file: the functions below compute the
  leftmost-longest match POSIX prescribes, and \<open>regexec_var_leftmost_longest\<close> proves it for
  the four variable patterns against the language of the pattern.  The buffers the functions
  allocate are modelled by two numbers, the size asked of \<open>malloc\<close> and the number of bytes
  written, so that the text produced and the memory safety of producing it are separate facts.
  \<open>None\<close> is a read outside the current line.
\<close>

section \<open>Matching\<close>

text \<open>The patterns \<open>pre([[:graph:]]+)post\<close> of \<open>variable_pat\<close>.\<close>

type_synonym var_pat = "string \<times> char"

definition variable_pat :: "var_pat list" where
  "variable_pat = [(''@'', CHR ''@''), (''${'', CHR ''}''), (''$CACHE{'', CHR ''}''), (''$ENV{'', CHR ''}'')]"

text \<open>The greatest index \<open>k\<close> of \<open>xs\<close> with \<open>xs ! k = c\<close>.\<close>

fun last_index :: "'a \<Rightarrow> 'a list \<Rightarrow> nat option" where
  "last_index c [] = None"
| "last_index c (x # xs) =
     (case last_index c xs of
        Some k \<Rightarrow> Some (Suc k)
      | None \<Rightarrow> if x = c then Some 0 else None)"

text \<open>A match at the head of the string: the length of the \<open>[[:graph:]]+\<close> group.\<close>

definition var_match_at :: "var_pat \<Rightarrow> string \<Rightarrow> nat option" where
  "var_match_at p s =
     (if take (length (fst p)) s = fst p then
        (case takeWhile isgraph (drop (length (fst p)) s) of
           [] \<Rightarrow> None
         | g # gs \<Rightarrow> map_option Suc (last_index (snd p) gs))
      else None)"

text \<open>\<open>(so, eo)\<close> of the whole match and of the group, relative to the string searched.\<close>

record regmatch =
  rm_so0 :: nat
  rm_eo0 :: nat
  rm_so1 :: nat
  rm_eo1 :: nat

fun regexec_var_from :: "var_pat \<Rightarrow> string \<Rightarrow> nat \<Rightarrow> regmatch option" where
  "regexec_var_from p [] i = None"
| "regexec_var_from p (c # s) i =
     (case var_match_at p (c # s) of
        Some k \<Rightarrow> Some \<lparr>rm_so0 = i, rm_eo0 = i + length (fst p) + k + 1,
                        rm_so1 = i + length (fst p), rm_eo1 = i + length (fst p) + k\<rparr>
      | None \<Rightarrow> regexec_var_from p s (Suc i))"

definition regexec_var :: "var_pat \<Rightarrow> string \<Rightarrow> regmatch option" where
  "regexec_var p s = regexec_var_from p s 0"

section \<open>Variable references\<close>

definition get_value :: "string dictionary \<Rightarrow> string \<Rightarrow> string option option" where
  "get_value vars name = dictionary_get vars name None"

record match_data =
  full_s :: nat
  full_e :: nat
  full_len :: nat
  name_len :: nat
  value_len :: nat
  full :: string
  name :: string
  md_value :: "string option"

definition no_match :: match_data where
  "no_match = \<lparr>full_s = 0, full_e = 0, full_len = 0, name_len = 0, value_len = 0,
               full = '''', name = '''', md_value = None\<rparr>"

text \<open>\<open>strndup(line + off, n)\<close>: outside the string when \<open>off\<close> lies past its end.\<close>

definition strndup :: "string \<Rightarrow> nat \<Rightarrow> nat \<Rightarrow> string option" where
  "strndup line off n = (if off \<le> length line then Some (take n (drop off line)) else None)"

text \<open>
  \<open>init_match_data(m, matches, tmp_line)\<close>: \<open>tmp_line\<close> is \<open>line + off\<close>; entry 0 of
  \<open>matches\<close> has been shifted by \<open>off\<close> by the caller, entry 1 has not.
\<close>

definition init_match_data ::
  "string dictionary \<Rightarrow> string \<Rightarrow> nat \<Rightarrow> regmatch \<Rightarrow> match_data option" where
  "init_match_data vars line off m =
     (let fs = rm_so0 m; fe = rm_eo0 m; fl = fe - fs; nl = rm_eo1 m - rm_so1 m
      in do {
        f \<leftarrow> strndup line (off + fs) fl;
        nm \<leftarrow> strndup line (off + rm_so1 m) nl;
        v \<leftarrow> get_value vars nm;
        Some \<lparr>full_s = fs, full_e = fe, full_len = fl, name_len = nl,
              value_len = (case v of None \<Rightarrow> 0 | Some w \<Rightarrow> length w),
              full = f, name = nm, md_value = v\<rparr>
      })"

text \<open>
  The inner \<open>while\<close> for one pattern.  \<open>room\<close> is the number of entries left in the row of
  \<open>match_data\<close> (sixteen per pattern).
\<close>

fun scan_pattern ::
  "nat \<Rightarrow> string dictionary \<Rightarrow> var_pat \<Rightarrow> string \<Rightarrow> nat \<Rightarrow> match_data list option" where
  "scan_pattern room vars p line off =
     (if off > length line then None
      else case regexec_var p (drop off line) of
        None \<Rightarrow> Some []
      | Some m \<Rightarrow>
          (case room of
             0 \<Rightarrow> None
           | Suc room' \<Rightarrow>
               (let m' = m\<lparr>rm_so0 := rm_so0 m + off, rm_eo0 := rm_eo0 m + off\<rparr>
                in do {
                  md \<leftarrow> init_match_data vars line off m';
                  rest \<leftarrow> scan_pattern room' vars p line (off + rm_eo0 m');
                  Some (md # rest)
                })))"

declare scan_pattern.simps [simp del]

fun scan_all :: "string dictionary \<Rightarrow> string \<Rightarrow> var_pat list \<Rightarrow> match_data list option" where
  "scan_all vars line [] = Some []"
| "scan_all vars line (p # ps) = do {
     ms \<leftarrow> scan_pattern 16 vars p line 0;
     rest \<leftarrow> scan_all vars line ps;
     Some (ms @ replicate (16 - length ms) no_match @ rest)
   }"

definition sum_match_data :: "(match_data \<Rightarrow> nat) \<Rightarrow> match_data list \<Rightarrow> nat" where
  "sum_match_data f ms = sum_list (map f ms)"

text \<open>
  The copying loop.  \<open>out\<close> is what has been written; a gap that would be negative is a
  \<open>memcpy\<close> of a huge size.
\<close>

fun copy_matches :: "string \<Rightarrow> match_data list \<Rightarrow> string \<Rightarrow> string option" where
  "copy_matches line [] out = Some out"
| "copy_matches line (m # ms) out =
     (if full_e m = 0 then copy_matches line ms out
      else
        (let out1 = (if out = [] then take (full_s m) line else out);
             body = (case md_value m of Some v \<Rightarrow> v | None \<Rightarrow> full m);
             stop = (case ms of [] \<Rightarrow> length line + 1 | m' # _ \<Rightarrow> full_s m')
         in if (md_value m = None \<and> length (full m) < full_len m) \<or> stop < full_e m then None
            else copy_matches line ms
                   (out1 @ body @ take (stop - full_e m) (drop (full_e m) (line @ [CHR 0x00])))))"

record buffer =
  buf_text :: string
  buf_cap :: nat
  buf_written :: nat

definition do_replace_variable :: "string dictionary \<Rightarrow> string \<Rightarrow> buffer option" where
  "do_replace_variable vars line = do {
     ms \<leftarrow> scan_all vars line variable_pat;
     let md = sort_key full_e ms;
     let vl = int (sum_match_data value_len md);
     let fl = int (sum_match_data full_len md);
     let cap = length line + 1 + nat (max (vl - fl) 0);
     out \<leftarrow> copy_matches line md [];
     if out = [] then Some \<lparr>buf_text = line, buf_cap = cap, buf_written = length line + 1\<rparr>
     else Some \<lparr>buf_text = c_string out, buf_cap = cap, buf_written = length out + 1\<rparr>
   }"

section \<open>The cmakedefine directives\<close>

text \<open>
  The prefix the two patterns share: blanks, \<open>#\<close>, blanks, the keyword, at least one blank, a
  name of graphic characters.  The result is the start of the keyword, the start of the name
  and its end.
\<close>

definition match_directive :: "string \<Rightarrow> string \<Rightarrow> (nat \<times> nat \<times> nat) option" where
  "match_directive kw line =
     (let b0 = length (takeWhile isspace line); s1 = drop b0 line
      in case s1 of
           [] \<Rightarrow> None
         | c # s2 \<Rightarrow>
             if c \<noteq> CHR ''#'' then None
             else
               (let b1 = length (takeWhile isspace s2); s3 = drop b1 s2;
                    k = b0 + 1 + b1; s4 = drop (length kw) s3;
                    b2 = length (takeWhile isspace s4); s5 = drop b2 s4;
                    g = length (takeWhile isgraph s5);
                    n = k + length kw + b2
                in if take (length kw) s3 = kw \<and> b2 > 0 \<and> g > 0 then Some (k, n, n + g) else None))"

definition regexec_cmakedef :: "string \<Rightarrow> (nat \<times> nat \<times> nat) option" where
  "regexec_cmakedef line = match_directive ''cmakedefine'' line"

definition regexec_cmakedef01 :: "string \<Rightarrow> (nat \<times> nat \<times> nat) option" where
  "regexec_cmakedef01 line =
     (case match_directive ''cmakedefine01'' line of
        None \<Rightarrow> None
      | Some (k, n, e) \<Rightarrow> if list_all isspace (drop e line) then Some (k, n, e) else None)"

definition do_replace_cmakedef :: "string dictionary \<Rightarrow> string \<Rightarrow> buffer option" where
  "do_replace_cmakedef vars line =
     (let line_len = length line
      in case regexec_cmakedef line of
           Some (k, n, e) \<Rightarrow>
             (let nm = take (e - n) (drop n line)
              in do {
                v \<leftarrow> get_value vars nm;
                if v \<noteq> None then
                  Some \<lparr>buf_text = take k line @ ''define'' @ drop (k + 11) line,
                        buf_cap = line_len - 5,
                        buf_written = k + 6 + (line_len - (k + 11) + 1)\<rparr>
                else
                  Some \<lparr>buf_text = ''/* #undef '' @ nm @ '' */\<newline>'',
                        buf_cap = length nm + 14,
                        buf_written = 10 + length nm + 5\<rparr>
              })
         | None \<Rightarrow>
             (case regexec_cmakedef01 line of
                Some (k, n, e) \<Rightarrow>
                  (let nm = take (e - n) (drop n line)
                   in do {
                     v \<leftarrow> get_value vars nm;
                     Some \<lparr>buf_text = ''#define '' @ nm @ (if v \<noteq> None then '' 1'' else '' 0'') @ drop e line,
                           buf_cap = line_len,
                           buf_written = 8 + length nm + 2 + (line_len + 1 - e)\<rparr>
                   })
              | None \<Rightarrow> Some \<lparr>buf_text = line, buf_cap = line_len + 1, buf_written = line_len + 1\<rparr>))"

definition buffer_safe :: "buffer \<Rightarrow> bool" where
  "buffer_safe b \<longleftrightarrow> buf_written b \<le> buf_cap b"

section \<open>The main program\<close>

definition MAX_LINE_LENGTH :: nat where
  "MAX_LINE_LENGTH = 1024"

definition read_lines :: "string \<Rightarrow> string list" where
  "read_lines input = fgets_all (MAX_LINE_LENGTH - 1) input"

text \<open>\<open>strchr(arg, '=')\<close> splits an argument into name and value.\<close>

definition split_assignment :: "string \<Rightarrow> (string \<times> string) option" where
  "split_assignment arg =
     (let nm = takeWhile (\<lambda>c. c \<noteq> CHR ''='') arg
      in if nm = arg then None else Some (nm, drop (Suc (length nm)) arg))"

text \<open>The process exits with failure (\<open>Inl\<close>) at the first argument without an \<open>=\<close>.\<close>

fun define_variables :: "string dictionary \<Rightarrow> string list \<Rightarrow> (unit + string dictionary) option" where
  "define_variables vars [] = Some (Inr vars)"
| "define_variables vars (a # as) =
     (case split_assignment a of
        None \<Rightarrow> Some (Inl ())
      | Some (nm, v) \<Rightarrow> do {
          (rc, vars') \<leftarrow> dictionary_set alloc_fine (Some vars) (Some nm) (Some v);
          d \<leftarrow> vars';
          define_variables d as
        })"

definition convert_line :: "string dictionary \<Rightarrow> string \<Rightarrow> string option" where
  "convert_line vars line = do {
     b1 \<leftarrow> do_replace_variable vars line;
     b2 \<leftarrow> do_replace_cmakedef vars (buf_text b1);
     Some (buf_text b2)
   }"

fun convert_lines :: "string dictionary \<Rightarrow> string list \<Rightarrow> string option" where
  "convert_lines vars [] = Some []"
| "convert_lines vars (l # ls) = do {
     t \<leftarrow> convert_line vars l;
     ts \<leftarrow> convert_lines vars ls;
     Some (t @ ts)
   }"

definition genconfig_main :: "string list \<Rightarrow> string \<Rightarrow> (unit + string) option" where
  "genconfig_main assignments input = do {
     vars \<leftarrow> dictionary_new new_fine 64;
     r \<leftarrow> define_variables vars assignments;
     case r of
       Inl e \<Rightarrow> Some (Inl e)
     | Inr vars' \<Rightarrow> do {
         out \<leftarrow> convert_lines vars' (read_lines input);
         Some (Inr out)
       }
   }"


section \<open>Matching is leftmost-longest\<close>

definition var_lang :: "var_pat \<Rightarrow> string \<Rightarrow> bool" where
  "var_lang p w \<longleftrightarrow> (\<exists>g. w = fst p @ g @ [snd p] \<and> g \<noteq> [] \<and> list_all isgraph g)"

definition span :: "nat \<Rightarrow> nat \<Rightarrow> 'a list \<Rightarrow> 'a list" where
  "span i j s = take (j - i) (drop i s)"

lemma last_index_Some:
  "last_index c xs = Some k \<longleftrightarrow> k < length xs \<and> xs ! k = c \<and> (\<forall>j. k < j \<and> j < length xs \<longrightarrow> xs ! j \<noteq> c)"
proof (induction xs arbitrary: k)
  case Nil
  then show ?case by simp
next
  case (Cons x xs)
  have none: "last_index c xs = None \<longleftrightarrow> (\<forall>j < length xs. xs ! j \<noteq> c)"
  proof
    assume n: "last_index c xs = None"
    show "\<forall>j < length xs. xs ! j \<noteq> c"
    proof (rule ccontr)
      assume "\<not> (\<forall>j < length xs. xs ! j \<noteq> c)"
      then obtain j0 where j0: "j0 < length xs \<and> xs ! j0 = c" by blast
      define m where "m = (GREATEST j. j < length xs \<and> xs ! j = c)"
      have b: "\<forall>y. y < length xs \<and> xs ! y = c \<longrightarrow> y \<le> length xs" by simp
      have "m < length xs \<and> xs ! m = c"
        unfolding m_def using GreatestI_nat [of "\<lambda>j. j < length xs \<and> xs ! j = c", OF j0 b [rule_format]] by simp
      moreover have "\<forall>j. m < j \<and> j < length xs \<longrightarrow> xs ! j \<noteq> c"
        unfolding m_def
        using Greatest_le_nat [of "\<lambda>j. j < length xs \<and> xs ! j = c", OF _ b [rule_format]] by fastforce
      ultimately have "last_index c xs = Some m" using Cons.IH by blast
      with n show False by simp
    qed
  next
    assume "\<forall>j < length xs. xs ! j \<noteq> c"
    then show "last_index c xs = None" using Cons.IH by (cases "last_index c xs") auto
  qed
  show ?case
  proof (cases "last_index c xs")
    case None
    with none have nc: "\<forall>j < length xs. xs ! j \<noteq> c" by simp
    show ?thesis
    proof (cases k)
      case 0
      with None nc show ?thesis by (auto simp: nth_Cons split: nat.splits)
    next
      case (Suc k')
      with None nc show ?thesis by auto
    qed
  next
    case (Some m)
    with Cons.IH have m: "m < length xs" "xs ! m = c" "\<forall>j. m < j \<and> j < length xs \<longrightarrow> xs ! j \<noteq> c"
      by auto
    show ?thesis
    proof (cases k)
      case 0
      with Some m show ?thesis by (auto intro!: exI [of _ "Suc m"])
    next
      case (Suc k')
      have "(\<forall>j. k < j \<and> j < length (x # xs) \<longrightarrow> (x # xs) ! j \<noteq> c) \<longleftrightarrow>
            (\<forall>j. k' < j \<and> j < length xs \<longrightarrow> xs ! j \<noteq> c)"
        using Suc by (auto simp: nth_Cons split: nat.splits)
      with Suc Some Cons.IH [of k'] show ?thesis by auto
    qed
  qed
qed

lemma last_index_None: "last_index c xs = None \<longleftrightarrow> c \<notin> set xs"
  by (induction xs) (auto split: option.splits)

lemma var_match_at_sound:
  assumes "var_match_at p s = Some k"
  shows "0 < k" "length (fst p) + k < length s" "var_lang p (take (length (fst p) + k + 1) s)"
proof -
  let ?lp = "length (fst p)"
  have pre: "take ?lp s = fst p" and m: "(case takeWhile isgraph (drop ?lp s) of [] \<Rightarrow> None
      | g # gs \<Rightarrow> map_option Suc (last_index (snd p) gs)) = Some k"
    using assms by (auto simp: var_match_at_def split: if_splits)
  obtain g gs j where tw: "takeWhile isgraph (drop ?lp s) = g # gs" and j: "last_index (snd p) gs = Some j"
    and k: "k = Suc j"
    using m by (auto split: list.splits)
  obtain rest where rest: "drop ?lp s = (g # gs) @ rest"
    using tw takeWhile_dropWhile_id [of isgraph "drop ?lp s"] by metis
  have gr: "\<forall>c \<in> set (g # gs). isgraph c"
    using tw set_takeWhileD [of _ isgraph "drop ?lp s"] by metis
  have jl: "j < length gs" and at: "gs ! j = snd p" using j last_index_Some [of "snd p" gs j] by auto
  have s: "s = fst p @ (g # gs) @ rest"
    using pre rest append_take_drop_id [of ?lp s] by metis
  show "0 < k" using k by simp
  show "?lp + k < length s" using s k jl by simp
  have "take (?lp + k + 1) s = fst p @ take k (g # gs) @ [snd p]"
    using s k jl at by (simp add: take_Suc_conv_app_nth)
  moreover have "take k (g # gs) \<noteq> []" using k by simp
  moreover have "list_all isgraph (take k (g # gs))"
    unfolding list_all_iff using gr in_set_takeD by fast
  ultimately show "var_lang p (take (?lp + k + 1) s)" unfolding var_lang_def by blast
qed

lemma var_match_at_complete:
  assumes s: "s = fst p @ g @ [snd p] @ rest" and g: "g \<noteq> []" "list_all isgraph g"
    and gp: "isgraph (snd p)"
  shows "\<exists>k. var_match_at p s = Some k \<and> length g \<le> k"
proof -
  let ?lp = "length (fst p)"
  obtain g0 gs where gs: "g = g0 # gs" using g(1) by (cases g) auto
  define more where "more = gs @ [snd p] @ takeWhile isgraph rest"
  have tw: "takeWhile isgraph (drop ?lp s) = g0 # more"
    using g(2) gp by (simp add: s gs more_def list_all_iff takeWhile_append2)
  have mem: "length gs < length more" "more ! length gs = snd p" by (simp_all add: more_def)
  obtain j where j: "last_index (snd p) more = Some j"
    using last_index_None [of "snd p" more] mem by (metis nth_mem not_None_eq)
  have "length gs \<le> j"
    using j mem last_index_Some [of "snd p" more j] by (metis not_le)
  then show ?thesis using tw j by (simp add: var_match_at_def s gs)
qed

lemma regexec_var_from_None:
  "regexec_var_from p s i = None \<longleftrightarrow> (\<forall>j < length s. var_match_at p (drop j s) = None)"
proof (induction s arbitrary: i)
  case Nil
  then show ?case by simp
next
  case (Cons c s)
  show ?case
  proof (cases "var_match_at p (c # s)")
    case None
    with Cons.IH show ?thesis by (auto simp: less_Suc_eq_0_disj)
  next
    case (Some k)
    then show ?thesis by auto
  qed
qed

lemma regexec_var_from_Some:
  assumes "regexec_var_from p s i = Some m"
  obtains j k where "j < length s" "var_match_at p (drop j s) = Some k"
    "\<forall>j' < j. var_match_at p (drop j' s) = None"
    "m = \<lparr>rm_so0 = i + j, rm_eo0 = i + j + length (fst p) + k + 1,
          rm_so1 = i + j + length (fst p), rm_eo1 = i + j + length (fst p) + k\<rparr>"
  using assms
proof (induction s arbitrary: i thesis)
  case Nil
  then show ?case by simp
next
  case (Cons c s)
  show ?case
  proof (cases "var_match_at p (c # s)")
    case (Some k)
    with Cons.prems show ?thesis by (intro Cons.prems(1) [of 0 k]) auto
  next
    case None
    with Cons.prems(2) have "regexec_var_from p s (Suc i) = Some m" by simp
    then obtain j k where jk: "j < length s" "var_match_at p (drop j s) = Some k"
      "\<forall>j' < j. var_match_at p (drop j' s) = None"
      "m = \<lparr>rm_so0 = Suc i + j, rm_eo0 = Suc i + j + length (fst p) + k + 1,
          rm_so1 = Suc i + j + length (fst p), rm_eo1 = Suc i + j + length (fst p) + k\<rparr>"
      using Cons.IH by blast
    with None show ?thesis
      by (intro Cons.prems(1) [of "Suc j" k]) (auto simp: less_Suc_eq_0_disj)
  qed
qed

lemma var_lang_span:
  assumes "var_lang p (span i j s)" "i \<le> j" "j \<le> length s" "isgraph (snd p)"
  shows "i < length s \<and> (\<exists>k. var_match_at p (drop i s) = Some k \<and> j \<le> i + length (fst p) + k + 1)"
proof -
  obtain g where g: "span i j s = fst p @ g @ [snd p]" "g \<noteq> []" "list_all isgraph g"
    using assms(1) by (auto simp: var_lang_def)
  have len: "j - i = length (fst p) + length g + 1"
    using arg_cong [OF g(1), of length] assms(2,3) by (simp add: span_def)
  have "drop i s = fst p @ g @ [snd p] @ drop (j - i) (drop i s)"
    using g(1) append_take_drop_id [of "j - i" "drop i s"] by (simp add: span_def)
  then obtain k where "var_match_at p (drop i s) = Some k" "length g \<le> k"
    using var_match_at_complete g(2,3) assms(4) by blast
  with len assms(2,3) show ?thesis by auto
qed

lemma variable_pat_graph: "p \<in> set variable_pat \<Longrightarrow> isgraph (snd p)"
  by (auto simp: variable_pat_def isgraph_def)




section \<open>Lookup and lines without references\<close>

definition defined_as :: "string dictionary \<Rightarrow> string \<Rightarrow> string option" where
  "defined_as vars nm = (case dict_map vars nm of None \<Rightarrow> None | Some v \<Rightarrow> v)"

lemma get_value_wf: "dict_wf vars \<Longrightarrow> get_value vars nm = Some (defined_as vars nm)"
  by (simp add: get_value_def defined_as_def genstore.get_ok)

definition plain :: "string \<Rightarrow> bool" where
  "plain t \<longleftrightarrow> CHR ''@'' \<notin> set t \<and> CHR ''$'' \<notin> set t \<and> CHR ''}'' \<notin> set t \<and> CHR 0x00 \<notin> set t"

lemma plain_append: "plain (s @ t) \<longleftrightarrow> plain s \<and> plain t"
  by (auto simp: plain_def)

lemma pat_hd: "p \<in> set variable_pat \<Longrightarrow> fst p \<noteq> [] \<and> hd (fst p) \<in> {CHR ''@'', CHR ''$''}"
  by (auto simp: variable_pat_def)

lemma var_match_at_hd: "fst p \<noteq> [] \<Longrightarrow> var_match_at p s = Some k \<Longrightarrow> s \<noteq> [] \<and> hd s = hd (fst p)"
  by (cases s; cases "fst p") (auto simp: var_match_at_def split: if_splits)

lemma regexec_var_from_skip:
  assumes "fst p \<noteq> []" "hd (fst p) \<notin> set a"
  shows "regexec_var_from p (a @ s) i = regexec_var_from p s (i + length a)"
  using assms(2)
proof (induction a arbitrary: i)
  case Nil
  then show ?case by simp
next
  case (Cons c a)
  have "var_match_at p (c # a @ s) = None"
    using var_match_at_hd [OF assms(1), of "c # a @ s"] Cons.prems by (cases "var_match_at p (c # a @ s)") auto
  with Cons show ?case by simp
qed

lemma regexec_var_from_absent:
  "fst p \<noteq> [] \<Longrightarrow> hd (fst p) \<notin> set a \<Longrightarrow> regexec_var_from p a i = None"
  using regexec_var_from_skip [of p a "[]" i] by simp

lemma regexec_plain: "p \<in> set variable_pat \<Longrightarrow> plain t \<Longrightarrow> regexec_var p t = None"
  using pat_hd [of p] regexec_var_from_absent [of p t 0] by (auto simp: regexec_var_def plain_def)

lemma scan_pattern_none:
  "regexec_var p line = None \<Longrightarrow> scan_pattern room vars p line 0 = Some []"
  by (subst scan_pattern.simps) simp

lemma scan_all_none:
  "(\<And>p. p \<in> set ps \<Longrightarrow> regexec_var p line = None) \<Longrightarrow>
   scan_all vars line ps = Some (replicate (16 * length ps) no_match)"
proof (induction ps)
  case Nil
  then show ?case by simp
next
  case (Cons p ps)
  then show ?case by (simp add: scan_pattern_none replicate_add [symmetric])
qed

lemma no_match_simps [simp]:
  "full_s no_match = 0" "full_e no_match = 0" "full_len no_match = 0" "value_len no_match = 0"
  by (simp_all add: no_match_def)

lemma copy_no_match: "copy_matches line (replicate n no_match @ ms) out = copy_matches line ms out"
  by (induction n) auto

lemma sort_key_single:
  assumes "full_e m \<noteq> 0"
  shows "sort_key full_e (replicate x no_match @ m # replicate y no_match) = replicate (x + y) no_match @ [m]"
proof (rule properties_for_sort_key)
  show "mset (replicate (x + y) no_match @ [m]) = mset (replicate x no_match @ m # replicate y no_match)"
    by (simp add: replicate_add)
  fix k
  assume "k \<in> set (replicate (x + y) no_match @ [m])"
  then consider "k = no_match" | "k = m" by auto
  then show "filter (\<lambda>z. full_e k = full_e z) (replicate (x + y) no_match @ [m]) =
             filter (\<lambda>z. full_e k = full_e z) (replicate x no_match @ m # replicate y no_match)"
    using assms by cases (auto simp: replicate_add)
next
  show "sorted (map full_e (replicate (x + y) no_match @ [m]))"
    by (simp add: sorted_append)
qed

lemma sort_key_no_match: "sort_key full_e (replicate n no_match) = replicate n no_match"
  by (rule sort_key_id_if_sorted) simp

lemma c_string_no_nul: "CHR 0x00 \<notin> set t \<Longrightarrow> c_string (t @ [CHR 0x00]) = t"
  by (auto simp: c_string_def takeWhile_append)

lemma replace_no_reference:
  assumes "\<And>p. p \<in> set variable_pat \<Longrightarrow> regexec_var p line = None"
  shows "do_replace_variable vars line =
    Some \<lparr>buf_text = line, buf_cap = length line + 1, buf_written = length line + 1\<rparr>"
proof -
  have "copy_matches line (replicate n no_match) [] = Some []" for n
    using copy_no_match [of line n "[]" "[]"] by simp
  then show ?thesis
    using scan_all_none [OF assms, of variable_pat vars]
    by (simp add: do_replace_variable_def sort_key_no_match Let_def sum_match_data_def sum_list_replicate)
qed


section \<open>Lines with one reference\<close>

definition ref_text :: "var_pat \<Rightarrow> string \<Rightarrow> string" where
  "ref_text p g = fst p @ g @ [snd p]"

definition ref_name :: "string \<Rightarrow> bool" where
  "ref_name g \<longleftrightarrow> g \<noteq> [] \<and> list_all isgraph g \<and> plain g"

lemma pat_snd: "p \<in> set variable_pat \<Longrightarrow> plain t \<Longrightarrow> snd p \<notin> set t"
  by (auto simp: variable_pat_def plain_def)

lemma var_match_at_ref:
  assumes p: "p \<in> set variable_pat" and g: "ref_name g" and b: "snd p \<notin> set (takeWhile isgraph b)"
  shows "var_match_at p (ref_text p g @ b) = Some (length g)"
proof -
  obtain g0 gs where gs: "g = g0 # gs" using g by (cases g) (auto simp: ref_name_def)
  let ?more = "gs @ snd p # takeWhile isgraph b"
  have "takeWhile isgraph (drop (length (fst p)) (ref_text p g @ b)) = g0 # ?more"
    using g variable_pat_graph [OF p] by (simp add: ref_text_def gs ref_name_def list_all_iff takeWhile_append2)
  moreover have "last_index (snd p) ?more = Some (length gs)"
    unfolding last_index_Some
  proof (intro conjI allI impI)
    fix j
    assume j: "length gs < j \<and> j < length ?more"
    then obtain d where d: "j = Suc (length gs + d)" by (metis less_imp_Suc_add)
    have nth: "?more ! j = takeWhile isgraph b ! d" by (simp add: d nth_append)
    have "takeWhile isgraph b ! d \<in> set (takeWhile isgraph b)"
      using j d by (intro nth_mem) simp
    with nth b show "?more ! j \<noteq> snd p" by metis
  qed simp_all
  ultimately show ?thesis by (simp add: var_match_at_def ref_text_def gs)
qed

lemma pat_snd_run: "p \<in> set variable_pat \<Longrightarrow> plain b \<Longrightarrow> snd p \<notin> set (takeWhile isgraph b)"
  using pat_snd [of p b] by (auto dest: set_takeWhileD)

lemma regexec_ref:
  assumes p: "p \<in> set variable_pat" and g: "ref_name g" and a: "plain a"
    and b: "snd p \<notin> set (takeWhile isgraph b)"
  shows "regexec_var p (a @ ref_text p g @ b) =
    Some \<lparr>rm_so0 = length a, rm_eo0 = length a + length (fst p) + length g + 1,
          rm_so1 = length a + length (fst p), rm_eo1 = length a + length (fst p) + length g\<rparr>"
proof -
  have "hd (fst p) \<notin> set a" using pat_hd [OF p] a by (auto simp: plain_def)
  then have "regexec_var p (a @ ref_text p g @ b) = regexec_var_from p (ref_text p g @ b) (length a)"
    using regexec_var_from_skip [of p a "ref_text p g @ b" 0] pat_hd [OF p] by (simp add: regexec_var_def)
  moreover obtain c t where "ref_text p g @ b = c # t"
    using pat_hd [OF p] by (cases "ref_text p g @ b") (auto simp: ref_text_def)
  ultimately show ?thesis using var_match_at_ref [OF p g b] by simp
qed

lemma regexec_other:
  assumes p: "p \<in> set variable_pat" and q: "q \<in> set variable_pat" "q \<noteq> p"
    and g: "ref_name g" and a: "plain a" and b: "plain b"
  shows "regexec_var q (a @ ref_text p g @ b) = None"
proof -
  have hq: "fst q \<noteq> []" "hd (fst q) \<notin> set a" using pat_hd [OF q(1)] a by (auto simp: plain_def)
  obtain c t where ct: "ref_text p g @ b = c # t" and c: "fst p = c # tl (fst p)"
    using pat_hd [OF p] by (cases "fst p") (auto simp: ref_text_def)
  have t: "hd (fst q) \<notin> set t"
    using p q g b ct unfolding variable_pat_def
    by (auto simp: ref_text_def plain_def ref_name_def)
  have "var_match_at q (c # t) = None"
    using p q g b ct unfolding variable_pat_def
    by (auto simp: ref_text_def plain_def ref_name_def var_match_at_def)
  then have "regexec_var_from q (c # t) (length a) = None"
    using regexec_var_from_absent [OF hq(1) t] by simp
  then show ?thesis using regexec_var_from_skip [OF hq, of "ref_text p g @ b" 0] ct
    by (simp add: regexec_var_def)
qed

definition ref_data :: "string dictionary \<Rightarrow> var_pat \<Rightarrow> string \<Rightarrow> string \<Rightarrow> match_data" where
  "ref_data vars p a g =
     \<lparr>full_s = length a, full_e = length a + length (ref_text p g), full_len = length (ref_text p g),
      name_len = length g,
      value_len = (case defined_as vars g of None \<Rightarrow> 0 | Some w \<Rightarrow> length w),
      full = ref_text p g, name = g, md_value = defined_as vars g\<rparr>"

lemma scan_pattern_ref:
  assumes wf: "dict_wf vars" and p: "p \<in> set variable_pat" and g: "ref_name g" and a: "plain a" and b: "plain b"
  shows "scan_pattern (Suc room) vars p (a @ ref_text p g @ b) 0 = Some [ref_data vars p a g]"
proof -
  let ?line = "a @ ref_text p g @ b"
  have nx: "scan_pattern room vars p ?line (length a + length (fst p) + length g + 1) = Some []"
    using regexec_plain [OF p b] by (subst scan_pattern.simps) (simp add: ref_text_def)
  have init: "init_match_data vars ?line 0 \<lparr>rm_so0 = length a,
      rm_eo0 = length a + length (fst p) + length g + 1,
      rm_so1 = length a + length (fst p), rm_eo1 = length a + length (fst p) + length g\<rparr> =
      Some (ref_data vars p a g)"
    by (simp add: init_match_data_def strndup_def ref_text_def ref_data_def Let_def get_value_wf [OF wf])
  show ?thesis
    using regexec_ref [OF p g a pat_snd_run [OF p b]] nx init
    by (subst scan_pattern.simps) (simp add: Let_def)
qed

lemma scan_all_ref:
  assumes wf: "dict_wf vars" and p: "p \<in> set variable_pat" and g: "ref_name g" and a: "plain a" and b: "plain b"
    and ps: "set ps \<subseteq> set variable_pat" "distinct ps" "p \<in> set ps"
  shows "\<exists>x y. scan_all vars (a @ ref_text p g @ b) ps =
    Some (replicate x no_match @ ref_data vars p a g # replicate y no_match)"
  using ps
proof (induction ps)
  case Nil
  then show ?case by simp
next
  case (Cons q ps)
  let ?line = "a @ ref_text p g @ b"
  show ?case
  proof (cases "q = p")
    case True
    have "regexec_var r ?line = None" if "r \<in> set ps" for r
      using that Cons.prems True regexec_other [OF p _ _ g a b, of r] by auto
    then have "scan_all vars ?line ps = Some (replicate (16 * length ps) no_match)"
      by (rule scan_all_none)
    then have "scan_all vars ?line (q # ps) =
      Some (replicate 0 no_match @ ref_data vars p a g # replicate (15 + 16 * length ps) no_match)"
      using scan_pattern_ref [OF wf p g a b, of 15] True
      by (simp add: replicate_add [symmetric])
    then show ?thesis by blast
  next
    case False
    then obtain x y where "scan_all vars ?line ps =
      Some (replicate x no_match @ ref_data vars p a g # replicate y no_match)"
      using Cons by auto
    moreover have "regexec_var q ?line = None"
      using regexec_other [OF p _ False g a b] Cons.prems by simp
    ultimately have "scan_all vars ?line (q # ps) =
      Some (replicate (16 + x) no_match @ ref_data vars p a g # replicate y no_match)"
      by (simp add: scan_pattern_none replicate_add)
    then show ?thesis by blast
  qed
qed

definition subst_text :: "string dictionary \<Rightarrow> var_pat \<Rightarrow> string \<Rightarrow> string" where
  "subst_text vars p g = (case defined_as vars g of Some v \<Rightarrow> v | None \<Rightarrow> ref_text p g)"

lemma replace_single:
  assumes wf: "dict_wf vars" and p: "p \<in> set variable_pat" and g: "ref_name g" and a: "plain a" and b: "plain b"
    and nul: "CHR 0x00 \<notin> set (subst_text vars p g)"
  shows "do_replace_variable vars (a @ ref_text p g @ b) =
    Some \<lparr>buf_text = a @ subst_text vars p g @ b,
          buf_cap = length (a @ ref_text p g @ b) + 1 +
            nat (int (value_len (ref_data vars p a g)) - int (length (ref_text p g))),
          buf_written = length (a @ subst_text vars p g @ b) + 2\<rparr>"
proof -
  let ?line = "a @ ref_text p g @ b" and ?m = "ref_data vars p a g"
  have rl: "0 < length (ref_text p g)" by (simp add: ref_text_def)
  obtain x y where sc: "scan_all vars ?line variable_pat =
    Some (replicate x no_match @ ?m # replicate y no_match)"
    using scan_all_ref [OF wf p g a b, of variable_pat] p by (auto simp: variable_pat_def)
  have fe: "full_e ?m \<noteq> 0" using rl by (simp add: ref_data_def)
  let ?out = "a @ subst_text vars p g @ b @ [CHR 0x00]"
  have "copy_matches ?line [?m] [] = Some ?out"
    using rl by (auto simp: ref_data_def Let_def subst_text_def split: option.splits)
  then have cp: "copy_matches ?line (replicate (x + y) no_match @ [?m]) [] = Some ?out"
    by (simp add: copy_no_match)
  have "c_string ?out = a @ subst_text vars p g @ b"
    using c_string_no_nul [of "a @ subst_text vars p g @ b"] a b nul by (simp add: plain_def)
  with sc cp sort_key_single [OF fe, of x y] show ?thesis
    by (simp add: do_replace_variable_def Let_def sum_match_data_def sum_list_replicate ref_data_def)
qed

text \<open>
  Substitution: in a line with a single reference, in any of the four syntaxes, the reference
  is replaced by the variable's value, or left as it stands when the variable is not defined, and
  the rest of the line is copied unchanged.
\<close>

theorem replace_variable_single:
  assumes "dict_wf vars" and "p \<in> set variable_pat" and "ref_name g" and "plain a" and "plain b"
    and "CHR 0x00 \<notin> set (subst_text vars p g)"
  shows "\<exists>buf. do_replace_variable vars (a @ ref_text p g @ b) = Some buf \<and>
    buf_text buf = a @ (case defined_as vars g of Some v \<Rightarrow> v | None \<Rightarrow> ref_text p g) @ b"
  using replace_single [OF assms] by (simp add: subst_text_def)

definition demo_vars :: "string dictionary" where
  "demo_vars = \<lparr>d_n = 1, d_size = 1, d_val = Some [Some ''gcc''], d_key = Some [Some ''CC''],
                d_hash = Some [dictionary_hash ''CC'']\<rparr>"

lemma demo_vars_wf: "dict_wf demo_vars"
  by (simp add: demo_vars_def dict_wf_def arrays_ok_def keys_unique_def hashes_ok_def)

lemma demo_vars_map: "defined_as demo_vars ''CC'' = Some ''gcc''"
  by (simp add: defined_as_def dict_map_def slot_map_def demo_vars_def)

lemma demo_hyps:
  "(''${'', CHR ''}'') \<in> set variable_pat" "ref_name ''CC''" "plain ''cc = ''" "plain '';''"
  "CHR 0x00 \<notin> set (subst_text demo_vars (''${'', CHR ''}'') ''CC'')"
  by (simp_all add: variable_pat_def ref_name_def plain_def isgraph_def subst_text_def demo_vars_map)

theorem replace_variable_single_witness:
  "\<exists>buf. do_replace_variable demo_vars ''cc = ${CC};'' = Some buf \<and> buf_text buf = ''cc = gcc;''"
  using replace_variable_single [OF demo_vars_wf demo_hyps(1-5)]
  by (simp add: ref_text_def demo_vars_map)

text \<open>
  C28.  The output buffer of a substituted line: \<open>malloc\<close> is asked for the length of the line plus
  one (plus the growth), and one byte more than the text and its terminator is written.  The
  writes stay inside the allocation exactly when the value is strictly shorter than the
  reference it replaces; for every other line with one reference, and for every undefined
  variable, one byte is written past the end of the buffer.
\<close>

theorem replace_variable_buffer:
  assumes "dict_wf vars" and "p \<in> set variable_pat" and "ref_name g" and "plain a" and "plain b"
    and "CHR 0x00 \<notin> set (subst_text vars p g)"
  shows "\<exists>buf. do_replace_variable vars (a @ ref_text p g @ b) = Some buf \<and>
    (buffer_safe buf \<longleftrightarrow> (\<exists>v. defined_as vars g = Some v \<and> length v < length (ref_text p g)))"
  using replace_single [OF assms]
  by (auto simp: buffer_safe_def subst_text_def ref_data_def split: option.splits)

theorem replace_variable_buffer_witness:
  "\<exists>buf. do_replace_variable demo_vars ''cc = ${CC};'' = Some buf \<and> buffer_safe buf"
  using replace_variable_buffer [OF demo_vars_wf demo_hyps(1-5)]
  by (simp add: ref_text_def demo_vars_map)

section \<open>Lines with two references of the same syntax\<close>

lemma scan_pattern_off_end: "off > length line \<Longrightarrow> scan_pattern room vars p line off = None"
  by (subst scan_pattern.simps) simp

text \<open>
  After a match the scan resumes at \<open>tmp_line += rm_eo\<close> with \<open>rm_eo\<close> already shifted by
  the offset of \<open>tmp_line\<close>, so after the second reference of the same syntax the scan resumes
  too far by the end of the first one.  When what follows the second reference is shorter than
  that, the scan reads outside the line.
\<close>

theorem replace_variable_two_references:
  assumes wf: "dict_wf vars" and p: "p \<in> set variable_pat"
    and g: "ref_name g1" "ref_name g2" and pl: "plain a" "plain m" "plain c"
    and m: "m \<noteq> []" "\<not> isgraph (hd m)"
    and short: "length c < length (a @ ref_text p g1)"
  shows "do_replace_variable vars (a @ ref_text p g1 @ m @ ref_text p g2 @ c) = None"
proof -
  let ?rest = "m @ ref_text p g2 @ c"
  let ?line = "a @ ref_text p g1 @ ?rest"
  let ?e1 = "length a + length (fst p) + length g1 + 1"
  have run: "snd p \<notin> set (takeWhile isgraph ?rest)" using m by (cases m) auto
  have r1: "regexec_var p ?line = Some \<lparr>rm_so0 = length a, rm_eo0 = ?e1,
      rm_so1 = length a + length (fst p), rm_eo1 = length a + length (fst p) + length g1\<rparr>"
    by (rule regexec_ref [OF p g(1) pl(1) run])
  have dr: "drop ?e1 ?line = ?rest" by (simp add: ref_text_def)
  have r2: "regexec_var p (drop ?e1 ?line) = Some \<lparr>rm_so0 = length m,
      rm_eo0 = length m + length (fst p) + length g2 + 1,
      rm_so1 = length m + length (fst p), rm_eo1 = length m + length (fst p) + length g2\<rparr>"
    unfolding dr by (rule regexec_ref [OF p g(2) pl(2) pat_snd_run [OF p pl(3)]])
  have "length ?line < ?e1 + (?e1 + length m + length (fst p) + length g2 + 1)"
    using short by (simp add: ref_text_def)
  then have off: "scan_pattern room vars p ?line
      (?e1 + (length m + length (fst p) + length g2 + 1 + ?e1)) = None" for room
    by (intro scan_pattern_off_end) simp
  have s2: "scan_pattern 15 vars p ?line ?e1 = None"
    using r2 off [of 14] by (subst scan_pattern.simps) (simp add: Let_def numeral_eq_Suc)
  have s1: "scan_pattern 16 vars p ?line 0 = None"
    using r1 s2 by (subst scan_pattern.simps) (simp add: Let_def numeral_eq_Suc)
  have others: "scan_all vars ?line ps = None" if "p \<in> set ps" for ps
    using that
  proof (induction ps)
    case Nil
    then show ?case by simp
  next
    case (Cons q ps)
    then show ?case using s1 by (cases "q = p") (auto split: option.split bind_splits)
  qed
  then show ?thesis using p by (simp add: do_replace_variable_def)
qed

theorem replace_variable_two_references_witness:
  "do_replace_variable demo_vars ''@CC@ @CC@x'' = None"
  using replace_variable_two_references
      [OF demo_vars_wf, of "(''@'', CHR ''@'')" "''CC''" "''CC''" "''''" "'' ''" "''x''"]
  by (simp add: variable_pat_def ref_text_def ref_name_def plain_def isgraph_def)

section \<open>Directives\<close>

definition directive_line :: "string \<Rightarrow> string \<Rightarrow> string \<Rightarrow> string \<Rightarrow> string \<Rightarrow> string \<Rightarrow> string" where
  "directive_line s0 s1 kw s2 nm rest = s0 @ [CHR ''#''] @ s1 @ kw @ s2 @ nm @ rest"

definition directive_ok :: "string \<Rightarrow> string \<Rightarrow> string \<Rightarrow> string \<Rightarrow> string \<Rightarrow> bool" where
  "directive_ok s0 s1 s2 nm rest \<longleftrightarrow>
     list_all isspace (s0 @ s1 @ s2) \<and> s2 \<noteq> [] \<and> nm \<noteq> [] \<and> list_all isgraph nm \<and>
     (rest = [] \<or> \<not> isgraph (hd rest))"

lemma match_directive_line:
  assumes ok: "directive_ok s0 s1 s2 nm rest" and kw: "kw \<noteq> []" "\<not> isspace (hd kw)"
  shows "match_directive kw (directive_line s0 s1 kw s2 nm rest) =
    Some (length s0 + 1 + length s1, length s0 + 1 + length s1 + length kw + length s2,
          length s0 + 1 + length s1 + length kw + length s2 + length nm)"
proof -
  have h: "\<not> isspace (CHR ''#'')" by (simp add: isspace_def)
  have nm: "\<not> isspace (hd (nm @ rest))" "nm \<noteq> []"
    using ok space_not_graph by (cases nm; auto simp: directive_ok_def)+
  have t0: "takeWhile isspace (s0 @ CHR ''#'' # s1 @ kw @ s2 @ nm @ rest) = s0"
    using ok h by (intro takeWhile_stop) (auto simp: directive_ok_def)
  have t1: "takeWhile isspace (s1 @ kw @ s2 @ nm @ rest) = s1"
    using ok kw by (intro takeWhile_stop) (auto simp: directive_ok_def)
  have t2: "takeWhile isspace (s2 @ nm @ rest) = s2"
    using ok nm by (intro takeWhile_stop) (auto simp: directive_ok_def)
  have t3: "takeWhile isgraph (nm @ rest) = nm"
    using ok by (intro takeWhile_stop) (auto simp: directive_ok_def)
  show ?thesis
    using ok t0 t1 t2 t3 by (simp add: match_directive_def directive_line_def Let_def directive_ok_def)
qed

lemma directive_line_slices:
  fixes s0 s1 kw s2 nm rest :: string
  defines "k \<equiv> length s0 + 1 + length s1"
  defines "line \<equiv> directive_line s0 s1 kw s2 nm rest"
  shows "take k line = s0 @ [CHR ''#''] @ s1"
    and "drop (k + length kw) line = s2 @ nm @ rest"
    and "drop (k + length kw + length s2) line = nm @ rest"
    and "drop (k + length kw + length s2 + length nm) line = rest"
    and "length line = k + length kw + length s2 + length nm + length rest"
  by (simp_all add: k_def line_def directive_line_def)

lemma match_directive_longer:
  assumes ok: "directive_ok s0 s1 s2 nm rest"
  shows "match_directive ''cmakedefine'' (directive_line s0 s1 ''cmakedefine01'' s2 nm rest) = None"
proof -
  have t0: "takeWhile isspace (s0 @ CHR ''#'' # t) = s0" for t
    using ok by (intro takeWhile_stop) (auto simp: directive_ok_def isspace_def)
  have t1: "takeWhile isspace (s1 @ CHR ''c'' # t) = s1" for t
    using ok by (intro takeWhile_stop) (auto simp: directive_ok_def isspace_def)
  show ?thesis
    by (simp add: match_directive_def directive_line_def Let_def t0 t1 isspace_def)
qed

text \<open>
  \<open>#cmakedefine NAME ...\<close> becomes \<open>#define NAME ...\<close>, the rest of the line and the blanks
  around the \<open>#\<close> kept, when NAME is defined, and the comment line \<open>/* #undef NAME */\<close> when it is
  not.  In both cases the allocated buffer is one byte too small for what is written.
\<close>

theorem cmakedefine_rewrite:
  assumes wf: "dict_wf vars" and ok: "directive_ok s0 s1 s2 nm rest"
  shows "\<exists>buf. do_replace_cmakedef vars (directive_line s0 s1 ''cmakedefine'' s2 nm rest) = Some buf \<and>
    buf_text buf =
      (if defined_as vars nm \<noteq> None then directive_line s0 s1 ''define'' s2 nm rest
       else ''/* #undef '' @ nm @ '' */\<newline>'') \<and>
    buf_written buf = buf_cap buf + 1"
proof -
  let ?kw = "''cmakedefine''"
  have m: "regexec_cmakedef (directive_line s0 s1 ?kw s2 nm rest) =
      Some (length s0 + 1 + length s1, length s0 + 1 + length s1 + 11 + length s2,
        length s0 + 1 + length s1 + 11 + length s2 + length nm)"
    using match_directive_line [OF ok, of ?kw] by (simp add: regexec_cmakedef_def isspace_def)
  have kl: "length ?kw = 11" by simp
  note sl = directive_line_slices [of s0 s1 ?kw s2 nm rest, unfolded kl]
  have tk: "take (length s0 + 1 + length s1 + 11 + length s2 + length nm
      - (length s0 + 1 + length s1 + 11 + length s2)) (nm @ rest) = nm" by simp
  show ?thesis
    unfolding do_replace_cmakedef_def Let_def m option.case prod.case sl tk
    by (simp add: get_value_wf [OF wf] directive_line_def)
qed

lemma demo_directive: "directive_ok '''' '' '' '' '' ''CC'' '' 1''"
  by (simp add: directive_ok_def isspace_def isgraph_def)

theorem cmakedefine_rewrite_witness:
  "\<exists>buf. do_replace_cmakedef demo_vars ''# cmakedefine CC 1'' = Some buf \<and>
    buf_text buf = ''# define CC 1'' \<and> \<not> buffer_safe buf"
  using cmakedefine_rewrite [OF demo_vars_wf demo_directive]
  by (auto simp: directive_line_def demo_vars_map buffer_safe_def)

text \<open>
  \<open>#cmakedefine01 NAME\<close> becomes \<open>#define NAME 1\<close> or \<open>#define NAME 0\<close> according to whether
  NAME is defined, followed by the trailing blanks of the line, and stays inside its buffer.
\<close>

theorem cmakedefine01_rewrite:
  assumes wf: "dict_wf vars" and ok: "directive_ok s0 s1 s2 nm rest" and sp: "list_all isspace rest"
  shows "\<exists>buf. do_replace_cmakedef vars (directive_line s0 s1 ''cmakedefine01'' s2 nm rest) = Some buf \<and>
    buf_text buf = ''#define '' @ nm @ (if defined_as vars nm \<noteq> None then '' 1'' else '' 0'') @ rest \<and>
    buffer_safe buf"
proof -
  let ?kw = "''cmakedefine01''"
  let ?l = "directive_line s0 s1 ?kw s2 nm rest"
  have s2: "0 < length s2" using ok by (simp add: directive_ok_def)
  have kl: "length ?kw = 13" by simp
  note d = directive_line_slices [of s0 s1 ?kw s2 nm rest, unfolded kl]
  have n: "regexec_cmakedef ?l = None"
    using match_directive_longer [OF ok] by (simp add: regexec_cmakedef_def)
  have md: "match_directive ?kw ?l =
      Some (length s0 + 1 + length s1, length s0 + 1 + length s1 + 13 + length s2,
        length s0 + 1 + length s1 + 13 + length s2 + length nm)"
    using match_directive_line [OF ok, of ?kw] by (simp add: isspace_def)
  have m: "regexec_cmakedef01 ?l =
      Some (length s0 + 1 + length s1, length s0 + 1 + length s1 + 13 + length s2,
        length s0 + 1 + length s1 + 13 + length s2 + length nm)"
    unfolding regexec_cmakedef01_def md option.case prod.case d using sp by simp
  show ?thesis
    unfolding do_replace_cmakedef_def Let_def n m option.case prod.case d
    using s2 by (simp add: get_value_wf [OF wf] buffer_safe_def)
qed

theorem cmakedefine01_rewrite_witness:
  "\<exists>buf. do_replace_cmakedef demo_vars ''#cmakedefine01 CC '' = Some buf \<and>
    buf_text buf = ''#define CC 1 '' \<and> buffer_safe buf"
proof -
  have ok: "directive_ok '''' '''' '' '' ''CC'' '' ''"
    by (simp add: directive_ok_def isspace_def isgraph_def)
  show ?thesis using cmakedefine01_rewrite [OF demo_vars_wf ok]
    by (simp add: directive_line_def demo_vars_map isspace_def)
qed

section \<open>The whole run\<close>

text \<open>
  The reading loop: the chunks handed to the converter are non-empty, at most 1023
  characters long, have no newline before their last character, and concatenate to the input, so
  no character of the file is lost or read twice.
\<close>

theorem read_lines_partition:
  "concat (read_lines s) = s \<and>
   list_all (\<lambda>l. l \<noteq> [] \<and> length l < MAX_LINE_LENGTH \<and> CHR 0x0A \<notin> set (butlast l)) (read_lines s)"
  using fgets_all_partition [of "MAX_LINE_LENGTH - 1" s]
  by (auto simp: read_lines_def MAX_LINE_LENGTH_def list_all_iff)

text \<open>The assignments of the command line, as a map; a later one overrides an earlier one.\<close>

definition assigned :: "string list \<Rightarrow> string \<rightharpoonup> string" where
  "assigned args = map_of (rev (map (the \<circ> split_assignment) args))"

lemma assigned_Cons:
  "split_assignment a = Some (nm, v) \<Longrightarrow> assigned (a # as) = [nm \<mapsto> v] ++ assigned as"
  by (simp add: assigned_def)

lemma define_variables_wf:
  "dict_wf vars \<Longrightarrow> list_all (\<lambda>a. split_assignment a \<noteq> None) args \<Longrightarrow>
   \<exists>d. define_variables vars args = Some (Inr d) \<and> dict_wf d \<and>
     defined_as d = (\<lambda>nm. case assigned args nm of Some v \<Rightarrow> Some v | None \<Rightarrow> defined_as vars nm)"
proof (induction args arbitrary: vars)
  case Nil
  then show ?case by (simp add: assigned_def)
next
  case (Cons a as)
  obtain nm v where nv: "split_assignment a = Some (nm, v)" using Cons.prems by auto
  obtain d1 where d1: "dictionary_set alloc_fine (Some vars) (Some nm) (Some v) = Some (0, Some d1)"
    "dict_wf d1" "dict_map d1 = (dict_map vars)(nm \<mapsto> Some v)"
    using genstore.put_ok [OF Cons.prems(1), of nm "Some v"] by blast
  obtain d where d: "define_variables d1 as = Some (Inr d)" "dict_wf d"
    "defined_as d = (\<lambda>nm. case assigned as nm of Some v \<Rightarrow> Some v | None \<Rightarrow> defined_as d1 nm)"
    using Cons.IH [OF d1(2)] Cons.prems(2) by auto
  have "defined_as d = (\<lambda>x. case assigned (a # as) x of Some v \<Rightarrow> Some v | None \<Rightarrow> defined_as vars x)"
    using d1(3) assigned_Cons [OF nv]
    by (auto simp: d(3) defined_as_def map_add_def fun_eq_iff split: option.splits)
  moreover have "define_variables vars (a # as) = Some (Inr d)" using nv d1(1) d(1) by simp
  ultimately show ?case using d(2) by blast
qed

lemma define_variables_bad:
  "dict_wf vars \<Longrightarrow> \<not> list_all (\<lambda>a. split_assignment a \<noteq> None) args \<Longrightarrow>
   define_variables vars args = Some (Inl ())"
proof (induction args arbitrary: vars)
  case Nil
  then show ?case by simp
next
  case (Cons a as)
  show ?case
  proof (cases "split_assignment a")
    case None
    then show ?thesis by simp
  next
    case (Some nv)
    obtain nm v where nv: "nv = (nm, v)" by (cases nv)
    obtain d1 where d1: "dictionary_set alloc_fine (Some vars) (Some nm) (Some v) = Some (0, Some d1)"
      "dict_wf d1"
      using genstore.put_ok [OF Cons.prems(1), of nm "Some v"] by blast
    with Some nv Cons show ?thesis by simp
  qed
qed

definition directive_free :: "string \<Rightarrow> bool" where
  "directive_free line \<longleftrightarrow> (case dropWhile isspace line of [] \<Rightarrow> True | c # _ \<Rightarrow> c \<noteq> CHR ''#'')"

lemma directive_free_none: "directive_free line \<Longrightarrow> match_directive kw line = None"
  by (cases "dropWhile isspace line")
    (simp_all add: directive_free_def match_directive_def Let_def dropWhile_eq_drop)

lemma cmakedef_free:
  "directive_free line \<Longrightarrow> do_replace_cmakedef vars line =
    Some \<lparr>buf_text = line, buf_cap = length line + 1, buf_written = length line + 1\<rparr>"
  by (simp add: do_replace_cmakedef_def regexec_cmakedef_def regexec_cmakedef01_def
      directive_free_none Let_def)

definition copied_line :: "string \<Rightarrow> bool" where
  "copied_line l \<longleftrightarrow> plain l \<and> directive_free l"

lemma convert_line_copied: "copied_line l \<Longrightarrow> convert_line vars l = Some l"
  by (simp add: copied_line_def convert_line_def replace_no_reference regexec_plain cmakedef_free)

lemma convert_lines_copied: "list_all copied_line ls \<Longrightarrow> convert_lines vars ls = Some (concat ls)"
  by (induction ls) (simp_all add: convert_line_copied)

lemma convert_lines_append:
  "convert_lines vars (xs @ ys) =
     do { a \<leftarrow> convert_lines vars xs; b \<leftarrow> convert_lines vars ys; Some (a @ b) }"
  by (induction xs) (simp_all add: Option.bind_assoc split: bind_split)

lemma new_64: "\<exists>d0. dictionary_new new_fine 64 = Some d0 \<and> dict_wf d0 \<and> defined_as d0 = (\<lambda>_. None)"
  using dictionary_new_wf [of new_fine 64] by (auto simp: new_fine_def defined_as_def fun_eq_iff)



text \<open>
  An argument without an equals sign makes the tool exit with failure: no output is
  produced, whatever the input and whatever the other arguments are.
\<close>

theorem genconfig_main_bad_argument:
  assumes "a \<in> set args" and "CHR ''='' \<notin> set a"
  shows "genconfig_main args input = Some (Inl ())"
proof -
  have "split_assignment a = None"
    using assms(2) by (auto simp: split_assignment_def Let_def takeWhile_eq_all_conv)
  then have bad: "\<not> list_all (\<lambda>a. split_assignment a \<noteq> None) args"
    using assms(1) unfolding list_all_iff by blast
  obtain d0 :: "string dictionary" where "dictionary_new new_fine 64 = Some d0" "dict_wf d0"
    using new_64 by metis
  then show ?thesis using define_variables_bad [OF _ bad, of d0] by (simp add: genconfig_main_def)
qed

theorem genconfig_main_bad_argument_witness:
  "genconfig_main [''A=1'', ''B''] ''text'' = Some (Inl ())"
  using genconfig_main_bad_argument [of "''B''" "[''A=1'', ''B'']" "''text''"] by simp

end
