(* ===== verification/Dcd.thy ===== *)
theory Dcd
  imports Prelude
begin

text \<open>
  The device configuration data (DCD) of a boot image, from tools/mkimage/mkimage.c: the
  configuration record \<open>iconfig\<close>, the growing array of 32-bit words it holds, and the encoding
  of one DCD command as a header word, an address and its operands.  The words are stored in
  host order (little endian), the fields inside them in big endian.
\<close>

unbundle bit_operations_syntax

section \<open>Byte swapping\<close>

definition uswap_16 :: "u32 \<Rightarrow> u32" where
  "uswap_16 x = drop_bit 8 (x AND 0xff00) OR push_bit 8 (x AND 0x00ff)"

definition uswap_32 :: "u32 \<Rightarrow> u32" where
  "uswap_32 x =
     drop_bit 24 (x AND 0xff000000) OR drop_bit 8 (x AND 0x00ff0000) OR
     push_bit 8 (x AND 0x0000ff00) OR push_bit 24 (x AND 0x000000ff)"

section \<open>The configuration\<close>

text \<open>
  Sizes are in bytes.  The array of DCD words is the allocation \<open>dcd_data\<close> points to; a word
  that was allocated and never written is \<open>None\<close>.
\<close>

record image_config =
  dcd_data :: "u32 option list option"
  dcd_size :: nat
  dcd_allocated_size :: nat
  qspi_data :: "u8 list option"
  qspi_size :: nat
  data_file_size :: u32
  hse_enable :: bool
  hse_fw_data :: "u8 list option"
  hse_fw_size :: nat
  flash_boot :: bool
  a53_boot :: bool
  err051257 :: bool

definition iconfig_init :: image_config where
  "iconfig_init = \<lparr>dcd_data = None, dcd_size = 0, dcd_allocated_size = 0, qspi_data = None, qspi_size = 0,
     data_file_size = 0, hse_enable = False, hse_fw_data = None, hse_fw_size = 0,
     flash_boot = False, a53_boot = True, err051257 = False\<rparr>"

datatype dcd_cmd =
    WRITE | CLEAR_MASK | SET_MASK | CHECK_MASK_CLEAR | CHECK_MASK_SET | CHECK_NOT_MASK
  | CHECK_NOT_CLEAR | INVALID_DCD_CMD

record dcd_args =
  da_cmd :: dcd_cmd
  da_addr :: u32
  da_value :: u32
  da_nbytes :: u32
  da_count :: u32

section \<open>The array\<close>

text \<open>
  \<open>alloc n\<close> says whether a \<open>realloc\<close> to \<open>n\<close> bytes succeeds.  The result is the return code and
  the configuration; \<open>None\<close> is a store outside the allocation.
\<close>

definition realloc_words :: "u32 option list option \<Rightarrow> nat \<Rightarrow> u32 option list" where
  "realloc_words old bytes =
     (let ws = (case old of None \<Rightarrow> [] | Some ws \<Rightarrow> ws); n = bytes div 4
      in take n ws @ replicate (n - length ws) None)"

definition push_to_dcd_array ::
  "(nat \<Rightarrow> bool) \<Rightarrow> u32 \<Rightarrow> image_config \<Rightarrow> (int \<times> image_config) option" where
  "push_to_dcd_array alloc w c =
     (let elem_size = 4;
          grow = dcd_allocated_size c \<le> dcd_size c + elem_size;
          new = (if dcd_allocated_size c = 0 then 2 * elem_size else dcd_allocated_size c * 2);
          c1 = (if grow then
                  c\<lparr>dcd_allocated_size := new,
                    dcd_data := (if alloc new then Some (realloc_words (dcd_data c) new) else None)\<rparr>
                else c)
      in if grow \<and> dcd_data c1 = None then Some (- ENOMEM, c1\<lparr>dcd_allocated_size := 0\<rparr>)
         else do {
           ws \<leftarrow> dcd_data c1;
           let elem = dcd_size c1 div elem_size;
           if elem < length ws then
             Some (0, c1\<lparr>dcd_data := Some (ws[elem := Some w]), dcd_size := dcd_size c1 + elem_size\<rparr>)
           else None
         })"

section \<open>Encoding of a command\<close>

definition DCD_HEADER :: u32 where "DCD_HEADER = 0x600000d2"
definition DCD_WRITE_TAG :: u32 where "DCD_WRITE_TAG = 0xcc"
definition DCD_CHECK_TAG :: u32 where "DCD_CHECK_TAG = 0xcf"
definition DCD_MAXIMUM_SIZE :: nat where "DCD_MAXIMUM_SIZE = 8192"

definition DCD_COMMAND_HEADER :: "u32 \<Rightarrow> u32 \<Rightarrow> u32 \<Rightarrow> u32" where
  "DCD_COMMAND_HEADER tag len params = tag OR push_bit 8 (uswap_16 len) OR push_bit 24 params"

definition DCD_PARAMS :: "bool \<Rightarrow> bool \<Rightarrow> u32 \<Rightarrow> u32" where
  "DCD_PARAMS st mk len = (len AND 7) OR (if st then 0x10 else 0) OR (if mk then 8 else 0)"

definition DCD_WRITE_HEADER :: "u32 \<Rightarrow> u32 \<Rightarrow> u32" where
  "DCD_WRITE_HEADER n params = DCD_COMMAND_HEADER DCD_WRITE_TAG (4 + n * 8) params"

definition DCD_CHECK_HEADER :: "u32 \<Rightarrow> u32" where
  "DCD_CHECK_HEADER params = DCD_COMMAND_HEADER DCD_CHECK_TAG 16 params"

definition DCD_CHECK_HEADER_NO_COUNT :: "u32 \<Rightarrow> u32" where
  "DCD_CHECK_HEADER_NO_COUNT params = DCD_COMMAND_HEADER DCD_CHECK_TAG 12 params"

text \<open>The switch of \<open>add_to_dcd\<close>: whether the command writes, its mask bit and its set bit.\<close>

fun dcd_cmd_bits :: "dcd_cmd \<Rightarrow> (bool \<times> bool \<times> bool) option" where
  "dcd_cmd_bits WRITE = Some (True, False, False)"
| "dcd_cmd_bits CHECK_MASK_CLEAR = Some (False, False, False)"
| "dcd_cmd_bits CHECK_MASK_SET = Some (False, False, True)"
| "dcd_cmd_bits CLEAR_MASK = Some (True, True, False)"
| "dcd_cmd_bits CHECK_NOT_MASK = Some (False, True, False)"
| "dcd_cmd_bits SET_MASK = Some (True, True, True)"
| "dcd_cmd_bits CHECK_NOT_CLEAR = Some (False, True, True)"
| "dcd_cmd_bits INVALID_DCD_CMD = None"

text \<open>A chain of calls, each returning early on a nonzero code.\<close>

fun push_words ::
  "(nat \<Rightarrow> bool) \<Rightarrow> u32 list \<Rightarrow> image_config \<Rightarrow> (int \<times> image_config) option" where
  "push_words alloc [] c = Some (0, c)"
| "push_words alloc (w # ws) c = do {
     (rc, c1) \<leftarrow> push_to_dcd_array alloc w c;
     if rc \<noteq> 0 then Some (rc, c1) else push_words alloc ws c1
   }"

definition add_to_dcd ::
  "(nat \<Rightarrow> bool) \<Rightarrow> dcd_args \<Rightarrow> image_config \<Rightarrow> (int \<times> image_config) option" where
  "add_to_dcd alloc a c = do {
     (rc, c1) \<leftarrow> (if dcd_data c = None then push_to_dcd_array alloc DCD_HEADER c else Some (0, c));
     if rc \<noteq> 0 then Some (rc, c1)
     else case dcd_cmd_bits (da_cmd a) of
       None \<Rightarrow> Some (- EINVAL, c1)
     | Some (wr, mk, st) \<Rightarrow>
         (let params = DCD_PARAMS st mk (da_nbytes a);
              header = (if wr then DCD_WRITE_HEADER 1 params
                        else if da_count a \<noteq> 0 then DCD_CHECK_HEADER params
                        else DCD_CHECK_HEADER_NO_COUNT params)
          in push_words alloc
               ([header, uswap_32 (da_addr a), uswap_32 (da_value a)] @
                (if \<not> wr \<and> da_count a \<noteq> 0 then [uswap_32 (da_count a)] else [])) c1)
   }"

section \<open>The array holds the words pushed\<close>

definition dcd_wf :: "image_config \<Rightarrow> bool" where
  "dcd_wf c \<longleftrightarrow>
     (case dcd_data c of
        None \<Rightarrow> dcd_size c = 0 \<and> dcd_allocated_size c = 0
      | Some ws \<Rightarrow> dcd_allocated_size c = 4 * length ws \<and> dcd_size c = 4 * (dcd_size c div 4) \<and>
          dcd_size c div 4 < length ws \<and> (\<forall>w \<in> set (take (dcd_size c div 4) ws). w \<noteq> None))"

definition dcd_words :: "image_config \<Rightarrow> u32 list" where
  "dcd_words c = (case dcd_data c of None \<Rightarrow> [] | Some ws \<Rightarrow> map the (take (dcd_size c div 4) ws))"

text \<open>The part of the configuration that the DCD functions leave alone.\<close>

definition same_rest :: "image_config \<Rightarrow> image_config \<Rightarrow> bool" where
  "same_rest c c' \<longleftrightarrow>
     c' = c\<lparr>dcd_data := dcd_data c', dcd_size := dcd_size c', dcd_allocated_size := dcd_allocated_size c'\<rparr>"

lemma same_rest_refl: "same_rest c c"
  by (simp add: same_rest_def)

lemma same_rest_trans: "same_rest a b \<Longrightarrow> same_rest b c \<Longrightarrow> same_rest a c"
  unfolding same_rest_def by (cases a; cases b; cases c) simp

lemma dcd_init_wf [wf_intros]: "dcd_data c = None \<Longrightarrow> dcd_size c = 0 \<Longrightarrow> dcd_allocated_size c = 0 \<Longrightarrow> dcd_wf c"
  by (simp add: dcd_wf_def)

lemma push_store:
  fixes w :: u32
  assumes "dcd_data c = Some ws" "dcd_allocated_size c = 4 * length ws" "dcd_size c = 4 * k"
    "Suc k < length ws" "\<forall>w \<in> set (take k ws). w \<noteq> None"
  defines "c' \<equiv> c\<lparr>dcd_data := Some (ws[k := Some w]), dcd_size := dcd_size c + 4\<rparr>"
  shows "dcd_wf c'" "dcd_words c' = map the (take k ws) @ [w]"
proof -
  have t: "take (Suc k) (ws[k := Some w]) = take k ws @ [Some w]"
    using assms(4) by (simp add: take_Suc_conv_app_nth)
  show "dcd_wf c'" using assms t by (auto simp: dcd_wf_def c'_def)
  show "dcd_words c' = map the (take k ws) @ [w]" using assms t by (simp add: dcd_words_def c'_def)
qed

lemma push_to_dcd_array_ok:
  assumes wf: "dcd_wf c" and al: "\<forall>n. alloc n"
  obtains c' where "push_to_dcd_array alloc w c = Some (0, c')" "dcd_wf c'"
    "dcd_words c' = dcd_words c @ [w]" "same_rest c c'"
proof (cases "dcd_data c")
  case None
  then have z: "dcd_size c = 0" "dcd_allocated_size c = 0" using wf by (simp_all add: dcd_wf_def)
  let ?c = "c\<lparr>dcd_data := Some [Some w, None], dcd_size := 4, dcd_allocated_size := 8\<rparr>"
  have r: "realloc_words None 8 = [None, None]"
    by (simp add: realloc_words_def numeral_2_eq_2)
  have "push_to_dcd_array alloc w c = Some (0, ?c)"
    using z None al r by (simp add: push_to_dcd_array_def Let_def)
  moreover have "dcd_wf ?c" by (simp add: dcd_wf_def)
  moreover have "dcd_words ?c = dcd_words c @ [w]" using None by (simp add: dcd_words_def)
  moreover have "same_rest c ?c" by (simp add: same_rest_def)
  ultimately show ?thesis using that by blast
next
  case (Some ws)
  define k where "k = dcd_size c div 4"
  have k: "dcd_size c = 4 * k" "dcd_allocated_size c = 4 * length ws" "k < length ws"
    "\<forall>w \<in> set (take k ws). w \<noteq> None"
    using wf Some by (auto simp: dcd_wf_def k_def)
  have old: "dcd_words c = map the (take k ws)" using Some by (simp add: dcd_words_def k_def)
  show ?thesis
  proof (cases "dcd_allocated_size c \<le> dcd_size c + 4")
    case False
    let ?c = "c\<lparr>dcd_data := Some (ws[k := Some w]), dcd_size := dcd_size c + 4\<rparr>"
    have "push_to_dcd_array alloc w c = Some (0, ?c)"
      using False Some k by (simp add: push_to_dcd_array_def Let_def)
    moreover have "dcd_wf ?c" "dcd_words ?c = dcd_words c @ [w]"
      using push_store [OF Some k(2,1) _ k(4)] False k old by auto
    moreover have "same_rest c ?c" by (simp add: same_rest_def)
    ultimately show ?thesis using that by blast
  next
    case True
    let ?ws = "ws @ replicate (length ws) None"
    let ?c1 = "c\<lparr>dcd_allocated_size := 8 * length ws, dcd_data := Some ?ws\<rparr>"
    let ?c = "?c1\<lparr>dcd_data := Some (?ws[k := Some w]), dcd_size := dcd_size ?c1 + 4\<rparr>"
    have r: "realloc_words (Some ws) (8 * length ws) = ?ws" by (simp add: realloc_words_def)
    have "push_to_dcd_array alloc w c = Some (0, ?c)"
      using True Some k al r by (cases ws) (simp_all add: push_to_dcd_array_def Let_def)
    moreover have "dcd_wf ?c" "dcd_words ?c = dcd_words c @ [w]"
      using push_store [of ?c1 ?ws k w] k old by auto
    moreover have "same_rest c ?c" by (simp add: same_rest_def)
    ultimately show ?thesis using that by blast
  qed
qed

lemma push_words_ok:
  assumes "\<forall>n. alloc n"
  shows "dcd_wf c \<Longrightarrow> \<exists>c'. push_words alloc ws c = Some (0, c') \<and> dcd_wf c' \<and>
    dcd_words c' = dcd_words c @ ws \<and> same_rest c c'"
proof (induction ws arbitrary: c)
  case Nil
  then show ?case by (simp add: same_rest_refl)
next
  case (Cons w ws)
  obtain c1 where c1: "push_to_dcd_array alloc w c = Some (0, c1)" "dcd_wf c1"
    "dcd_words c1 = dcd_words c @ [w]" "same_rest c c1"
    by (rule push_to_dcd_array_ok [OF Cons.prems assms])
  obtain c2 where "push_words alloc ws c1 = Some (0, c2)" "dcd_wf c2"
    "dcd_words c2 = dcd_words c1 @ ws" "same_rest c1 c2"
    using Cons.IH [OF c1(2)] by blast
  with c1 same_rest_trans [of c c1 c2] show ?case by (intro exI [of _ c2]) simp
qed

section \<open>Encoding and decoding\<close>

definition dcd_valid :: "dcd_args \<Rightarrow> bool" where
  "dcd_valid a \<longleftrightarrow> da_cmd a \<noteq> INVALID_DCD_CMD \<and> da_nbytes a \<in> {1, 2, 4}"

definition dcd_write_cmd :: "dcd_args \<Rightarrow> bool" where
  "dcd_write_cmd a \<longleftrightarrow> da_cmd a \<in> {WRITE, CLEAR_MASK, SET_MASK}"

text \<open>The words of one command, and what a boot ROM reads back from them.\<close>

definition dcd_encode :: "dcd_args \<Rightarrow> u32 list" where
  "dcd_encode a =
     (case dcd_cmd_bits (da_cmd a) of
        None \<Rightarrow> []
      | Some (wr, mk, st) \<Rightarrow>
          (let params = DCD_PARAMS st mk (da_nbytes a);
               header = (if wr then DCD_WRITE_HEADER 1 params
                         else if da_count a \<noteq> 0 then DCD_CHECK_HEADER params
                         else DCD_CHECK_HEADER_NO_COUNT params)
           in [header, uswap_32 (da_addr a), uswap_32 (da_value a)] @
              (if \<not> wr \<and> da_count a \<noteq> 0 then [uswap_32 (da_count a)] else [])))"

definition dcd_cmd_of_bits :: "bool \<Rightarrow> bool \<Rightarrow> bool \<Rightarrow> dcd_cmd" where
  "dcd_cmd_of_bits wr mk st =
     (if wr then (if \<not> mk then WRITE else if st then SET_MASK else CLEAR_MASK)
      else if mk then (if st then CHECK_NOT_CLEAR else CHECK_NOT_MASK)
      else (if st then CHECK_MASK_SET else CHECK_MASK_CLEAR))"

fun dcd_decode_cmd :: "u32 list \<Rightarrow> (dcd_args \<times> u32 list) option" where
  "dcd_decode_cmd (h # a # v # ws) =
     (let tag = h AND 0xff; len = uswap_16 (drop_bit 8 h); params = drop_bit 24 h;
          nbytes = params AND 7; mk = bit params 3; st = bit params 4;
          args = \<lparr>da_cmd = dcd_cmd_of_bits (tag = DCD_WRITE_TAG) mk st, da_addr = uswap_32 a,
                  da_value = uswap_32 v, da_nbytes = nbytes, da_count = 0\<rparr>
      in if (tag = DCD_WRITE_TAG \<or> tag = DCD_CHECK_TAG) \<and> len = 12 then Some (args, ws)
         else if tag = DCD_CHECK_TAG \<and> len = 16 then
           (case ws of [] \<Rightarrow> None | n # ws' \<Rightarrow> Some (args\<lparr>da_count := uswap_32 n\<rparr>, ws'))
         else None)"
| "dcd_decode_cmd _ = None"

lemma dcd_decode_shorter: "dcd_decode_cmd ws = Some (a, ws') \<Longrightarrow> length ws' < length ws"
  by (induction ws rule: dcd_decode_cmd.induct) (auto simp: Let_def split: if_splits list.splits)

function dcd_decode :: "u32 list \<Rightarrow> dcd_args list option" where
  "dcd_decode ws =
     (if ws = [] then Some []
      else case dcd_decode_cmd ws of
        None \<Rightarrow> None
      | Some (a, ws') \<Rightarrow> map_option ((#) a) (dcd_decode ws'))"
  by pat_completeness auto
termination
  by (relation "measure length") (auto dest: dcd_decode_shorter)

declare dcd_decode.simps [simp del]

lemma byte_masks: "(0xff000000::u32) = push_bit 24 (mask 8)" "(0xff0000::u32) = push_bit 16 (mask 8)"
    "(0xff00::u32) = push_bit 8 (mask 8)" "(0xff::u32) = mask 8"
    by (simp_all add: mask_eq_exp_minus_1 push_bit_eq_mult)

lemma bit_uswap_32 [simp]:
  assumes "m < 8"
  shows "bit (uswap_32 x) m = bit x (m + 24)" "bit (uswap_32 x) (m + 8) = bit x (m + 16)"
    "bit (uswap_32 x) (m + 16) = bit x (m + 8)" "bit (uswap_32 x) (m + 24) = bit x m"
  using assms by (auto simp: uswap_32_def byte_masks bit_simps add.commute)

lemma bit_word_bytesI:
  fixes x y :: u32
  assumes "\<And>m. m < 8 \<Longrightarrow> bit x m = bit y m" "\<And>m. m < 8 \<Longrightarrow> bit x (m + 8) = bit y (m + 8)"
    "\<And>m. m < 8 \<Longrightarrow> bit x (m + 16) = bit y (m + 16)" "\<And>m. m < 8 \<Longrightarrow> bit x (m + 24) = bit y (m + 24)"
  shows "x = y"
proof (rule bit_word_eqI)
  fix n
  assume "n < LENGTH(32)"
  then consider "n < 8" | "n - 8 < 8" "n = n - 8 + 8" | "n - 16 < 8" "n = n - 16 + 16"
    | "n - 24 < 8" "n = n - 24 + 24" by (simp; linarith)
  then show "bit x n = bit y n" by cases (metis assms)+
qed

lemma uswap_32_involution [simp]: "uswap_32 (uswap_32 x) = x"
  by (rule bit_word_bytesI) simp_all

lemma header_fields:
  fixes mk st :: bool
  assumes "tag \<in> {DCD_WRITE_TAG, DCD_CHECK_TAG}" "len \<in> {12, 16}" "nb \<in> {1, 2, 4}"
  defines "h \<equiv> DCD_COMMAND_HEADER tag len (DCD_PARAMS st mk nb)"
  shows "h AND 0xff = tag" "uswap_16 (drop_bit 8 h) = len" "drop_bit 24 h AND 7 = nb"
    "bit (drop_bit 24 h) 3 = mk" "bit (drop_bit 24 h) 4 = st"
  using assms(1-3) unfolding h_def
  by (cases mk; cases st; auto simp: DCD_COMMAND_HEADER_def DCD_PARAMS_def DCD_WRITE_TAG_def
      DCD_CHECK_TAG_def uswap_16_def)+

lemma dcd_tags_differ: "DCD_WRITE_TAG \<noteq> DCD_CHECK_TAG" "DCD_CHECK_TAG \<noteq> DCD_WRITE_TAG"
  by (simp_all add: DCD_WRITE_TAG_def DCD_CHECK_TAG_def)

lemma dcd_decode_encode_cmd:
  assumes "dcd_valid a" "dcd_write_cmd a \<Longrightarrow> da_count a = 0"
  shows "dcd_decode_cmd (dcd_encode a @ ws) = Some (a, ws)"
proof -
  have nb: "da_nbytes a \<in> {1, 2, 4}" using assms(1) by (simp add: dcd_valid_def)
  note f = header_fields [OF _ _ nb]
  show ?thesis
    using assms dcd_tags_differ
    by (cases "da_cmd a")
      (simp_all add: dcd_encode_def Let_def DCD_WRITE_HEADER_def DCD_CHECK_HEADER_def
        DCD_CHECK_HEADER_NO_COUNT_def f dcd_cmd_of_bits_def dcd_valid_def dcd_write_cmd_def)
qed

lemma dcd_encode_nonempty: "dcd_valid a \<Longrightarrow> dcd_encode a \<noteq> []"
  by (cases "da_cmd a") (simp_all add: dcd_encode_def dcd_valid_def Let_def)

lemma dcd_decode_encode:
  "list_all (\<lambda>a. dcd_valid a \<and> (dcd_write_cmd a \<longrightarrow> da_count a = 0)) as \<Longrightarrow>
   dcd_decode (concat (map dcd_encode as)) = Some as"
proof (induction as)
  case Nil
  then show ?case by (simp add: dcd_decode.simps)
next
  case (Cons a as)
  then have "dcd_decode_cmd (dcd_encode a @ concat (map dcd_encode as)) = Some (a, concat (map dcd_encode as))"
    by (intro dcd_decode_encode_cmd) auto
  then show ?case using Cons dcd_encode_nonempty [of a]
    by (subst dcd_decode.simps) simp
qed

section \<open>Properties\<close>

text \<open>A list of commands, as a configuration file gives them.\<close>

fun add_all ::
  "(nat \<Rightarrow> bool) \<Rightarrow> dcd_args list \<Rightarrow> image_config \<Rightarrow> (int \<times> image_config) option" where
  "add_all alloc [] c = Some (0, c)"
| "add_all alloc (a # as) c = do {
     (rc, c1) \<leftarrow> add_to_dcd alloc a c;
     if rc \<noteq> 0 then Some (rc, c1) else add_all alloc as c1
   }"

lemma add_to_dcd_words:
  assumes wf: "dcd_wf c" and al: "\<forall>n. alloc n" and v: "dcd_valid a"
  shows "\<exists>c'. add_to_dcd alloc a c = Some (0, c') \<and> dcd_wf c' \<and> same_rest c c' \<and> dcd_data c' \<noteq> None \<and>
    dcd_words c' = (if dcd_data c = None then [DCD_HEADER] else dcd_words c) @ dcd_encode a"
proof -
  obtain b where b: "dcd_cmd_bits (da_cmd a) = Some b"
    using v by (cases "da_cmd a") (auto simp: dcd_valid_def)
  obtain wr mk st where bb: "b = (wr, mk, st)" by (cases b)
  have tail: "\<exists>c'. add_to_dcd alloc a c = Some (0, c') \<and> dcd_wf c' \<and> same_rest c c' \<and>
      dcd_data c' \<noteq> None \<and> dcd_words c' = dcd_words c1 @ dcd_encode a"
    if c1: "(if dcd_data c = None then push_to_dcd_array alloc DCD_HEADER c else Some (0, c)) = Some (0, c1)"
      "dcd_wf c1" "same_rest c c1" for c1
  proof -
    obtain c2 where c2: "push_words alloc (dcd_encode a) c1 = Some (0, c2)" "dcd_wf c2"
      "dcd_words c2 = dcd_words c1 @ dcd_encode a" "same_rest c1 c2"
      using push_words_ok [OF al c1(2), where ws = "dcd_encode a"] by blast
    have e: "add_to_dcd alloc a c = push_words alloc (dcd_encode a) c1"
      unfolding add_to_dcd_def c1(1) by (simp add: b bb dcd_encode_def Let_def)
    have "dcd_words c2 \<noteq> []" using c2(3) dcd_encode_nonempty [OF v] by simp
    then have "dcd_data c2 \<noteq> None" by (cases "dcd_data c2") (simp_all add: dcd_words_def)
    then show ?thesis using e c2 same_rest_trans [OF c1(3) c2(4)] by (intro exI [of _ c2]) simp
  qed
  show ?thesis
  proof (cases "dcd_data c")
    case None
    obtain c1 where "push_to_dcd_array alloc DCD_HEADER c = Some (0, c1)" "dcd_wf c1"
      "dcd_words c1 = dcd_words c @ [DCD_HEADER]" "same_rest c c1"
      by (rule push_to_dcd_array_ok [OF wf al])
    moreover from this None have "dcd_words c1 = [DCD_HEADER]" by (simp add: dcd_words_def)
    ultimately show ?thesis using tail [of c1] None by simp
  next
    case (Some ws)
    then show ?thesis using tail [of c] wf same_rest_refl by simp
  qed
qed

lemma add_all_words:
  assumes al: "\<forall>n. alloc n"
  shows "dcd_wf c \<Longrightarrow> dcd_data c \<noteq> None \<Longrightarrow> list_all dcd_valid as \<Longrightarrow>
    \<exists>c'. add_all alloc as c = Some (0, c') \<and> dcd_wf c' \<and> same_rest c c' \<and> dcd_data c' \<noteq> None \<and>
      dcd_words c' = dcd_words c @ concat (map dcd_encode as)"
proof (induction as arbitrary: c)
  case Nil
  then show ?case by (simp add: same_rest_refl)
next
  case (Cons a as)
  obtain c1 where c1: "add_to_dcd alloc a c = Some (0, c1)" "dcd_wf c1" "same_rest c c1"
    "dcd_data c1 \<noteq> None" "dcd_words c1 = dcd_words c @ dcd_encode a"
    using add_to_dcd_words [OF Cons.prems(1) al, of a] Cons.prems by auto
  obtain c2 where "add_all alloc as c1 = Some (0, c2)" "dcd_wf c2" "same_rest c1 c2"
    "dcd_data c2 \<noteq> None" "dcd_words c2 = dcd_words c1 @ concat (map dcd_encode as)"
    using Cons.IH [OF c1(2,4)] Cons.prems(3) by auto
  with c1 same_rest_trans [OF c1(3)] show ?case by (intro exI [of _ c2]) simp
qed

lemma dcd_words_length: "dcd_wf c \<Longrightarrow> dcd_size c = 4 * length (dcd_words c)"
  by (auto simp: dcd_wf_def dcd_words_def split: option.splits)

text \<open>
  C2.  Round trip of the device configuration data: feeding any non-empty list of valid commands
  to an empty configuration succeeds, the array holds the DCD header followed by the encoded
  commands, the recorded size is the number of bytes stored, decoding the words gives back the
  commands with their operands, and the rest of the configuration is untouched.
\<close>

theorem dcd_commands_roundtrip:
  assumes "dcd_wf c" "dcd_data c = None" "\<forall>n. alloc n" "as \<noteq> []"
    and "list_all (\<lambda>a. dcd_valid a \<and> (dcd_write_cmd a \<longrightarrow> da_count a = 0)) as"
  shows "\<exists>c' ws. add_all alloc as c = Some (0, c') \<and> dcd_wf c' \<and> same_rest c c' \<and>
    dcd_words c' = DCD_HEADER # ws \<and> dcd_size c' = 4 * length (dcd_words c') \<and> dcd_decode ws = Some as"
proof -
  obtain a as' where as: "as = a # as'" using assms(4) by (cases as) auto
  have v: "dcd_valid a" "list_all dcd_valid as'" using assms(5) by (auto simp: as list_all_iff)
  obtain c1 where c1: "add_to_dcd alloc a c = Some (0, c1)" "dcd_wf c1" "same_rest c c1"
    "dcd_data c1 \<noteq> None" "dcd_words c1 = [DCD_HEADER] @ dcd_encode a"
    using add_to_dcd_words [OF assms(1,3) v(1)] assms(2) by auto
  obtain c2 where c2: "add_all alloc as' c1 = Some (0, c2)" "dcd_wf c2" "same_rest c1 c2"
    "dcd_words c2 = dcd_words c1 @ concat (map dcd_encode as')"
    using add_all_words [OF assms(3) c1(2,4) v(2)] by blast
  have "dcd_words c2 = DCD_HEADER # concat (map dcd_encode as)" using c1 c2 as by simp
  moreover have "add_all alloc as c = Some (0, c2)" using c1 c2 as by simp
  ultimately show ?thesis
    using c2(2) same_rest_trans [OF c1(3) c2(3)] dcd_words_length [OF c2(2)] dcd_decode_encode [OF assms(5)]
    by blast
qed

definition demo_cmd :: dcd_args where
  "demo_cmd = \<lparr>da_cmd = CHECK_MASK_SET, da_addr = 0x4009C000, da_value = 3, da_nbytes = 4, da_count = 5\<rparr>"

theorem dcd_commands_roundtrip_witness:
  "\<exists>c' ws. add_all (\<lambda>_. True) [demo_cmd] iconfig_init = Some (0, c') \<and> dcd_wf c' \<and>
    dcd_words c' = DCD_HEADER # ws \<and> dcd_size c' = 4 * length (dcd_words c') \<and> dcd_decode ws = Some [demo_cmd]"
proof -
  have "dcd_wf iconfig_init" "dcd_data iconfig_init = None"
    by (simp_all add: dcd_wf_def iconfig_init_def)
  moreover have "dcd_valid demo_cmd" "\<not> dcd_write_cmd demo_cmd"
    by (simp_all add: demo_cmd_def dcd_valid_def dcd_write_cmd_def)
  ultimately show ?thesis
    using dcd_commands_roundtrip [of iconfig_init "\<lambda>_. True" "[demo_cmd]"] by auto
qed

lemma push_to_dcd_array_safe:
  assumes wf: "dcd_wf c"
  shows "\<exists>rc c'. push_to_dcd_array alloc w c = Some (rc, c') \<and> same_rest c c' \<and>
    (rc = 0 \<and> dcd_wf c' \<or> rc = - ENOMEM \<and> dcd_data c' = None \<and> dcd_allocated_size c' = 0)"
proof (cases "push_to_dcd_array alloc w c = push_to_dcd_array (\<lambda>_. True) w c")
  case True
  obtain c' where "push_to_dcd_array (\<lambda>_. True) w c = Some (0, c')" "dcd_wf c'" "same_rest c c'"
    using push_to_dcd_array_ok [OF wf, of "\<lambda>_. True" w] by blast
  with True show ?thesis by auto
next
  case False
  let ?new = "if dcd_allocated_size c = 0 then 2 * 4 else dcd_allocated_size c * 2"
  have "push_to_dcd_array alloc w c = push_to_dcd_array (\<lambda>_. True) w c"
    if "\<not> dcd_allocated_size c \<le> dcd_size c + 4"
    using that by (simp add: push_to_dcd_array_def)
  moreover have "push_to_dcd_array alloc w c = push_to_dcd_array (\<lambda>_. True) w c" if "alloc ?new"
    unfolding push_to_dcd_array_def Let_def by (simp only: that)
  ultimately have "\<not> (\<not> dcd_allocated_size c \<le> dcd_size c + 4 \<or> alloc ?new)"
    using False by blast
  then have "push_to_dcd_array alloc w c =
      Some (- ENOMEM, c\<lparr>dcd_data := None, dcd_allocated_size := 0\<rparr>)"
    by (simp add: push_to_dcd_array_def Let_def)
  then show ?thesis by (simp add: same_rest_def)
qed

lemma push_words_safe:
  "dcd_wf c \<Longrightarrow> \<exists>rc c'. push_words alloc ws c = Some (rc, c') \<and> same_rest c c' \<and>
    (rc = 0 \<and> dcd_wf c' \<or> rc = - ENOMEM \<and> dcd_data c' = None \<and> dcd_allocated_size c' = 0)"
proof (induction ws arbitrary: c)
  case Nil
  then show ?case by (simp add: same_rest_refl)
next
  case (Cons w ws)
  obtain rc c1 where c1: "push_to_dcd_array alloc w c = Some (rc, c1)" "same_rest c c1"
    "rc = 0 \<and> dcd_wf c1 \<or> rc = - ENOMEM \<and> dcd_data c1 = None \<and> dcd_allocated_size c1 = 0"
    using push_to_dcd_array_safe [OF Cons.prems] by blast
  show ?case
  proof (cases "rc = 0")
    case True
    then obtain rc2 c2 where "push_words alloc ws c1 = Some (rc2, c2)" "same_rest c1 c2"
      "rc2 = 0 \<and> dcd_wf c2 \<or> rc2 = - ENOMEM \<and> dcd_data c2 = None \<and> dcd_allocated_size c2 = 0"
      using Cons.IH [of c1] c1(3) by auto
    with c1 True same_rest_trans [OF c1(2)] show ?thesis
      by (intro exI [of _ rc2] exI [of _ c2]) simp
  next
    case False
    with c1 show ?thesis by (intro exI [of _ rc] exI [of _ c1]) simp
  qed
qed

text \<open>
  C29.  Whatever the allocator answers and whatever the command, adding it never stores outside
  the array: it returns 0, \<open>-EINVAL\<close> for an invalid command or \<open>-ENOMEM\<close>; the array invariant
  holds after the first two, and after \<open>-ENOMEM\<close> the configuration holds no array at all.
\<close>

theorem add_to_dcd_safe:
  assumes wf: "dcd_wf c"
  shows "\<exists>rc c'. add_to_dcd alloc a c = Some (rc, c') \<and> same_rest c c' \<and>
    (rc = 0 \<and> da_cmd a \<noteq> INVALID_DCD_CMD \<and> dcd_wf c' \<or>
     rc = - EINVAL \<and> da_cmd a = INVALID_DCD_CMD \<and> dcd_wf c' \<or>
     rc = - ENOMEM \<and> dcd_data c' = None \<and> dcd_allocated_size c' = 0)"
proof -
  let ?first = "if dcd_data c = None then push_to_dcd_array alloc DCD_HEADER c else Some (0, c)"
  obtain rc c1 where c1: "?first = Some (rc, c1)" "same_rest c c1"
    "rc = 0 \<and> dcd_wf c1 \<or> rc = - ENOMEM \<and> dcd_data c1 = None \<and> dcd_allocated_size c1 = 0"
    using push_to_dcd_array_safe [OF wf, of alloc DCD_HEADER] wf same_rest_refl by (metis (full_types))
  consider (fail) "rc \<noteq> 0" | (inv) "rc = 0" "da_cmd a = INVALID_DCD_CMD"
    | (ok) "rc = 0" "da_cmd a \<noteq> INVALID_DCD_CMD" by blast
  then show ?thesis
  proof cases
    case fail
    then have "add_to_dcd alloc a c = Some (rc, c1)" unfolding add_to_dcd_def c1(1) by simp
    with fail c1 show ?thesis by auto
  next
    case inv
    then have "add_to_dcd alloc a c = Some (- EINVAL, c1)" unfolding add_to_dcd_def c1(1) by simp
    with inv c1 show ?thesis by auto
  next
    case ok
    then obtain wr mk st where "dcd_cmd_bits (da_cmd a) = Some (wr, mk, st)"
      by (cases "da_cmd a") auto
    then have "add_to_dcd alloc a c = push_words alloc (dcd_encode a) c1"
      unfolding add_to_dcd_def c1(1) using ok by (simp add: dcd_encode_def Let_def)
    moreover have "dcd_wf c1" using c1(3) ok(1) by auto
    then obtain rc2 c2 where "push_words alloc (dcd_encode a) c1 = Some (rc2, c2)" "same_rest c1 c2"
      "rc2 = 0 \<and> dcd_wf c2 \<or> rc2 = - ENOMEM \<and> dcd_data c2 = None \<and> dcd_allocated_size c2 = 0"
      using push_words_safe [of c1 alloc "dcd_encode a"] by blast
    ultimately show ?thesis using ok same_rest_trans [OF c1(2)]
      by (intro exI [of _ rc2] exI [of _ c2]) simp
  qed
qed

theorem add_to_dcd_safe_witness:
  "\<exists>rc c'. add_to_dcd (\<lambda>n. n < 16) demo_cmd iconfig_init = Some (rc, c') \<and>
    rc = - ENOMEM \<and> dcd_data c' = None"
proof -
  have wf: "dcd_wf iconfig_init" by (simp add: dcd_wf_def iconfig_init_def)
  have "add_to_dcd (\<lambda>n. n < 16) demo_cmd iconfig_init = Some (rc, c') \<Longrightarrow> rc \<noteq> 0" for rc c'
    by (simp add: add_to_dcd_def push_to_dcd_array_def iconfig_init_def demo_cmd_def Let_def
        realloc_words_def)
  then show ?thesis
    using add_to_dcd_safe [OF wf, of "\<lambda>n. n < 16" demo_cmd] by (auto simp: demo_cmd_def)
qed

end
