(* ===== verification/Qsort.thy ===== *)
theory Qsort
  imports Main "HOL-Library.Multiset"
begin

text \<open>
  The C library's \<open>qsort\<close> as an interface: for a comparison function that orders the elements
  consistently it returns a permutation of them that the comparison accepts as sorted; the order
  of equal elements is left open, as in the standard.  The tools rely on nothing else.  An
  insertion sort is one implementation, used where a concrete run is computed.
\<close>

definition consistent_cmp :: "('a \<Rightarrow> 'a \<Rightarrow> int) \<Rightarrow> bool" where
  "consistent_cmp cmp \<longleftrightarrow>
     (\<forall>x y. (cmp x y < 0) = (cmp y x > 0)) \<and> (\<forall>x y z. cmp x y \<le> 0 \<longrightarrow> cmp y z \<le> 0 \<longrightarrow> cmp x z \<le> 0)"

lemma consistent_total: "consistent_cmp cmp \<Longrightarrow> cmp x y \<le> 0 \<or> cmp y x \<le> 0"
  unfolding consistent_cmp_def by (metis linorder_not_less order.strict_implies_order)

lemma consistent_trans: "consistent_cmp cmp \<Longrightarrow> cmp x y \<le> 0 \<Longrightarrow> cmp y z \<le> 0 \<Longrightarrow> cmp x z \<le> 0"
  unfolding consistent_cmp_def by blast

locale qsort_ok =
  fixes qs :: "('a \<Rightarrow> 'a \<Rightarrow> int) \<Rightarrow> 'a list \<Rightarrow> 'a list"
  assumes permutes: "consistent_cmp cmp \<Longrightarrow> mset (qs cmp xs) = mset xs"
    and sorts: "consistent_cmp cmp \<Longrightarrow> sorted_wrt (\<lambda>x y. cmp x y \<le> 0) (qs cmp xs)"
begin

lemma set_qs: "consistent_cmp cmp \<Longrightarrow> set (qs cmp xs) = set xs"
  using permutes [of cmp xs] mset_eq_setD by blast

lemma length_qs: "consistent_cmp cmp \<Longrightarrow> length (qs cmp xs) = length xs"
  using permutes [of cmp xs] mset_eq_length by blast

lemma distinct_qs: "consistent_cmp cmp \<Longrightarrow> distinct (qs cmp xs) = distinct xs"
  using permutes [of cmp xs] mset_eq_imp_distinct_iff by blast

lemma qs_singleton: "consistent_cmp cmp \<Longrightarrow> qs cmp [x] = [x]"
  using permutes [of cmp "[x]"] by simp

text \<open>The last element of the sorted array is an upper bound.\<close>

lemma last_qs:
  assumes "consistent_cmp cmp" "x \<in> set xs"
  shows "cmp x (last (qs cmp xs)) \<le> 0"
proof -
  have s: "sorted_wrt (\<lambda>x y. cmp x y \<le> 0) (qs cmp xs)" by (rule sorts [OF assms(1)])
  have m: "x \<in> set (qs cmp xs)" using assms set_qs by blast
  then obtain ys y where ys: "qs cmp xs = ys @ [y]" by (cases "qs cmp xs" rule: rev_cases) auto
  have "cmp y y \<le> 0" using consistent_total [OF assms(1), of y y] by blast
  then show ?thesis using s m by (auto simp: ys sorted_wrt_append)
qed

end

fun insert_by :: "('a \<Rightarrow> 'a \<Rightarrow> int) \<Rightarrow> 'a \<Rightarrow> 'a list \<Rightarrow> 'a list" where
  "insert_by cmp x [] = [x]"
| "insert_by cmp x (y # ys) = (if cmp x y \<le> 0 then x # y # ys else y # insert_by cmp x ys)"

fun isort :: "('a \<Rightarrow> 'a \<Rightarrow> int) \<Rightarrow> 'a list \<Rightarrow> 'a list" where
  "isort cmp [] = []"
| "isort cmp (x # xs) = insert_by cmp x (isort cmp xs)"

lemma mset_insert_by: "mset (insert_by cmp x xs) = add_mset x (mset xs)"
  by (induction xs) auto

lemma set_insert_by: "set (insert_by cmp x xs) = insert x (set xs)"
  by (induction xs) auto

lemma sorted_insert_by:
  assumes "consistent_cmp cmp"
  shows "sorted_wrt (\<lambda>x y. cmp x y \<le> 0) xs \<Longrightarrow> sorted_wrt (\<lambda>x y. cmp x y \<le> 0) (insert_by cmp x xs)"
proof (induction xs)
  case Nil
  then show ?case by simp
next
  case (Cons y ys)
  show ?case
  proof (cases "cmp x y \<le> 0")
    case True
    then show ?thesis using Cons.prems consistent_trans [OF assms, of x y] by auto
  next
    case False
    then have "cmp y x \<le> 0" using consistent_total [OF assms, of x y] by blast
    then show ?thesis using False Cons by (auto simp: set_insert_by)
  qed
qed

interpretation insertion: qsort_ok isort
proof
  fix cmp :: "'a \<Rightarrow> 'a \<Rightarrow> int" and xs :: "'a list"
  assume c: "consistent_cmp cmp"
  show "mset (isort cmp xs) = mset xs" by (induction xs) (auto simp: mset_insert_by)
  show "sorted_wrt (\<lambda>x y. cmp x y \<le> 0) (isort cmp xs)"
    by (induction xs) (auto simp: sorted_insert_by [OF c])
qed

end
