(* ===== verification/Layout.thy ===== *)
theory Layout
  imports Dcd Qsort
begin

text \<open>
  The layout of a boot image, from tools/mkimage/mkimage.c: the components of a
  \<open>struct program_image\<close>, the placement of the components with an automatic offset, and the
  header that precedes the application code.

  Pointers to components of the one \<open>image_layout\<close> are member names (\<open>part\<close>), \<open>None\<close> is NULL,
  and the structure is a map from names to components.  \<open>size_t\<close> is 64 bits wide, as on the
  hosts that run the tool.  The C library's \<open>qsort\<close> is a parameter, since its order of equal
  elements is not specified; the locale \<open>qsort_ok\<close> states what the standard promises of it.
\<close>

section \<open>Data\<close>

record image_comp =
  ic_offset :: u64
  ic_size :: u64
  ic_padding :: u64
  ic_alignment :: u64
  ic_data :: "u64 option"

datatype part =
  MBR_RESERVED | IVT | QSPI_PARAMS | DCD | HSE_FW | HSE_SYS_IMG | APP_CODE | CODE

type_synonym program_image = "part \<Rightarrow> image_comp"

definition AUTO_OFFSET :: u64 where "AUTO_OFFSET = - 1"
definition MBR_SIZE :: u64 where "MBR_SIZE = 0x1000"
definition QSPI_IVT_OFFSET :: u64 where "QSPI_IVT_OFFSET = 0"
definition SD_IVT_OFFSET :: u64 where "SD_IVT_OFFSET = 0x1000"
definition QSPI_PARAMS_OFFSET :: u64 where "QSPI_PARAMS_OFFSET = 0x200"
definition QSPI_PARAMS_SIZE :: u64 where "QSPI_PARAMS_SIZE = 0x200"
definition HSE_FW_MAX_SIZE :: u64 where "HSE_FW_MAX_SIZE = 0x80000"
definition HSE_SYS_IMG_MAX_SIZE :: u64 where "HSE_SYS_IMG_MAX_SIZE = 0xc000"
definition BOOTROM_QSPI_ALIGNMENT :: u64 where "BOOTROM_QSPI_ALIGNMENT = 8"
definition BOOTROM_SD_ALIGNMENT :: u64 where "BOOTROM_SD_ALIGNMENT = 0x200"
definition SZ_1K :: u64 where "SZ_1K = 0x400"

text \<open>\<open>sizeof(struct ivt)\<close> and \<open>sizeof(struct application_boot_code)\<close>; both are packed.\<close>

definition sizeof_ivt :: u64 where "sizeof_ivt = 256"
definition sizeof_app_code :: u64 where "sizeof_app_code = 64"

definition comp_of :: "u64 \<Rightarrow> u64 \<Rightarrow> u64 \<Rightarrow> image_comp" where
  "comp_of off sz al =
     \<lparr>ic_offset = off, ic_size = sz, ic_padding = 0, ic_alignment = al, ic_data = None\<rparr>"

fun image_layout_init :: program_image where
  "image_layout_init MBR_RESERVED = comp_of 0 MBR_SIZE 0"
| "image_layout_init IVT = comp_of 0 sizeof_ivt 0"
| "image_layout_init QSPI_PARAMS = comp_of QSPI_PARAMS_OFFSET QSPI_PARAMS_SIZE 0"
| "image_layout_init DCD = comp_of AUTO_OFFSET (of_nat DCD_MAXIMUM_SIZE) 0"
| "image_layout_init HSE_FW = comp_of AUTO_OFFSET HSE_FW_MAX_SIZE 0"
| "image_layout_init HSE_SYS_IMG = comp_of AUTO_OFFSET HSE_SYS_IMG_MAX_SIZE 0"
| "image_layout_init APP_CODE = comp_of AUTO_OFFSET sizeof_app_code 0"
| "image_layout_init CODE = comp_of AUTO_OFFSET 0 8"

definition apply_err051257_workaround :: "image_config \<Rightarrow> bool" where
  "apply_err051257_workaround c \<longleftrightarrow> err051257 c \<and> flash_boot c"

definition get_padding :: "image_config \<Rightarrow> u64" where
  "get_padding c = (if apply_err051257_workaround c then SZ_1K else 0)"

section \<open>Placement\<close>

definition ROUND :: "u64 \<Rightarrow> u64 \<Rightarrow> u64" where
  "ROUND a b = (a + b - 1) AND NOT (b - 1)"

definition image_parts_comp :: "program_image \<Rightarrow> part option \<Rightarrow> part option \<Rightarrow> int" where
  "image_parts_comp img p1 p2 =
     (case (p1, p2) of
        (None, None) \<Rightarrow> 0
      | (None, Some _) \<Rightarrow> -1
      | (Some _, None) \<Rightarrow> 1
      | (Some a, Some b) \<Rightarrow>
          (if ic_offset (img b) > ic_offset (img a) then -1
           else if ic_offset (img b) < ic_offset (img a) then 1 else 0))"

definition is_in_overlap :: "image_comp \<Rightarrow> image_comp \<Rightarrow> bool" where
  "is_in_overlap c1 c2 =
     (let end1 = ic_offset c1 + ic_size c1 + ic_padding c1;
          end2 = ic_offset c2 + ic_size c2 + ic_padding c2
      in end1 > ic_offset c2 \<and> end2 > ic_offset c1)"

definition set_offset :: "part \<Rightarrow> u64 \<Rightarrow> program_image \<Rightarrow> program_image" where
  "set_offset p off img = img(p := (img p)\<lparr>ic_offset := off\<rparr>)"

definition place_after :: "part \<Rightarrow> part \<Rightarrow> program_image \<Rightarrow> program_image" where
  "place_after a b img =
     (let off = ic_offset (img a) + ic_size (img a) + ic_padding (img a);
          al = ic_alignment (img b)
      in set_offset b (if al \<noteq> 0 then ROUND off al else off) img)"

text \<open>The search for an empty spot between existing allocations, over neighbouring parts.\<close>

fun find_gap :: "part \<Rightarrow> part list \<Rightarrow> program_image \<Rightarrow> program_image" where
  "find_gap c (p # q # ps) img =
     (let img1 = place_after p c img
      in if is_in_overlap (img1 c) (img1 q) then find_gap c (q # ps) (set_offset c AUTO_OFFSET img1)
         else if is_in_overlap (img1 c) (img1 p) then find_gap c (q # ps) (set_offset c AUTO_OFFSET img1)
         else img1)"
| "find_gap c _ img = img"

type_synonym part_sort =
  "(part option \<Rightarrow> part option \<Rightarrow> int) \<Rightarrow> part option list \<Rightarrow> part option list"

text \<open>
  The allocation loop.  The first list is \<open>parts[0 .. aindex)\<close>, the second
  \<open>parts[aindex .. n_parts)\<close>; a NULL among the sorted pointers would be dereferenced (\<open>None\<close>).
\<close>

fun alloc_loop ::
  "part_sort \<Rightarrow> part list \<Rightarrow> part list \<Rightarrow> program_image \<Rightarrow> (part list \<times> program_image) option" where
  "alloc_loop qs ps [] img = Some (ps, img)"
| "alloc_loop qs ps (c # cs) img =
     (if ps = [] then alloc_loop qs [c] cs (set_offset c 0 img)
      else
        (let img1 = find_gap c ps img
         in if ic_offset (img1 c) \<noteq> AUTO_OFFSET then do {
              ps' \<leftarrow> those (qs (image_parts_comp img1) (map Some (ps @ [c])));
              alloc_loop qs ps' cs img1
            }
            else alloc_loop qs (ps @ [c]) cs (place_after (last ps) c img1)))"

definition s32_compute_dyn_offsets ::
  "part_sort \<Rightarrow> part option list \<Rightarrow> program_image \<Rightarrow> (part option list \<times> program_image) option" where
  "s32_compute_dyn_offsets qs parts img = do {
     let sorted_parts = qs (image_parts_comp img) parts;
     let empty = takeWhile (\<lambda>p. p = None) sorted_parts;
     ps \<leftarrow> those (dropWhile (\<lambda>p. p = None) sorted_parts);
     let fixed = takeWhile (\<lambda>p. ic_offset (img p) \<noteq> AUTO_OFFSET) ps;
     let auto_ps = dropWhile (\<lambda>p. ic_offset (img p) \<noteq> AUTO_OFFSET) ps;
     (ps', img') \<leftarrow> alloc_loop qs fixed auto_ps img;
     Some (empty @ map Some ps', img')
   }"

definition set_padding :: "image_config \<Rightarrow> part option list \<Rightarrow> program_image \<Rightarrow> program_image" where
  "set_padding conf parts img =
     (\<lambda>p. if Some p \<in> set parts then (img p)\<lparr>ic_padding := get_padding conf\<rparr> else img p)"

section \<open>The components present in an image\<close>

definition get_image_qspi_params :: "image_config \<Rightarrow> part option" where
  "get_image_qspi_params c = (if flash_boot c then Some QSPI_PARAMS else None)"

definition get_image_hse_fw :: "image_config \<Rightarrow> part option" where
  "get_image_hse_fw c = (if hse_enable c then Some HSE_FW else None)"

definition get_image_hse_sys_img :: "image_config \<Rightarrow> part option" where
  "get_image_hse_sys_img c = (if hse_enable c then Some HSE_SYS_IMG else None)"

definition get_image_mbr :: "image_config \<Rightarrow> part option" where
  "get_image_mbr c = (if \<not> flash_boot c then Some MBR_RESERVED else None)"

definition get_image_dcd :: "image_config \<Rightarrow> part option" where
  "get_image_dcd c = (if dcd_size c = 0 then None else Some DCD)"

text \<open>\<open>Inl\<close> is the exit of the process.\<close>

definition set_headers_size :: "image_config \<Rightarrow> program_image \<Rightarrow> string + program_image" where
  "set_headers_size c img =
     (let img1 = img(DCD := (img DCD)\<lparr>ic_size := of_nat (dcd_size c)\<rparr>)
      in if ic_size (img1 DCD) > of_nat DCD_MAXIMUM_SIZE then Inl ''DCD area exceeds the maximum allowed size''
         else
           (let img2 = img1(HSE_FW := (img1 HSE_FW)\<lparr>ic_size := of_nat (hse_fw_size c)\<rparr>)
            in if ic_size (img2 HSE_FW) > HSE_FW_MAX_SIZE
               then Inl ''HSE FW area exceeds the maximum allowed size''
               else Inr img2))"

definition set_headers_alignment :: "image_config \<Rightarrow> program_image \<Rightarrow> program_image" where
  "set_headers_alignment c img =
     (let al = (if flash_boot c then BOOTROM_QSPI_ALIGNMENT else BOOTROM_SD_ALIGNMENT)
      in (\<lambda>p. if p \<in> {DCD, HSE_FW, HSE_SYS_IMG, APP_CODE} then (img p)\<lparr>ic_alignment := al\<rparr> else img p))"

definition layout_parts :: "image_config \<Rightarrow> part option list" where
  "layout_parts c = [get_image_mbr c, get_image_qspi_params c, Some IVT, get_image_dcd c,
     get_image_hse_fw c, get_image_hse_sys_img c]"

text \<open>
  The result: the return code, the header size, the zeroed header (\<open>None\<close> when \<open>calloc\<close>
  failed, which \<open>ok\<close> decides) and the layout.
\<close>

record built_layout =
  bl_rc :: int
  bl_header_size :: u64
  bl_image :: "u8 list option"
  bl_layout :: program_image

definition s32g2xx_build_layout ::
  "part_sort \<Rightarrow> bool \<Rightarrow> image_config \<Rightarrow> program_image \<Rightarrow> (string + built_layout) option" where
  "s32g2xx_build_layout qs ok conf img =
     (case set_headers_size conf img of
        Inl msg \<Rightarrow> Some (Inl msg)
      | Inr img1 \<Rightarrow> do {
          let img2 = set_headers_alignment conf img1;
          let img3 = set_padding conf (layout_parts conf) img2;
          (parts, img4) \<leftarrow> s32_compute_dyn_offsets qs (layout_parts conf) img3;
          last_comp \<leftarrow> last parts;
          let img5 = place_after last_comp APP_CODE img4;
          let img6 = place_after APP_CODE CODE img5;
          let hs = ic_offset (img6 APP_CODE) + ic_size (img6 APP_CODE);
          if ok then Some (Inr \<lparr>bl_rc = 0, bl_header_size = hs,
                                bl_image = Some (replicate (unat hs) 0), bl_layout = img6\<rparr>)
          else Some (Inr \<lparr>bl_rc = - ENOMEM, bl_header_size = hs, bl_image = None, bl_layout = img6\<rparr>)
        })"

section \<open>Rounding\<close>

lemma ROUND_unat:
  assumes "k < 64" "unat x + 2 ^ k < 2 ^ 64"
  shows "unat (ROUND x (2 ^ k)) = (unat x + 2 ^ k - 1) div 2 ^ k * 2 ^ k"
proof -
  let ?y = "x + 2 ^ k - 1"
  have p: "unat (2 ^ k :: u64) = 2 ^ k" using assms(1) by (rule unat_pow2)
  have p1: "Suc 0 \<le> 2 ^ k" by simp
  have s: "unat (x + 2 ^ k) = unat x + 2 ^ k" using assms p by (subst unat_plus_if') simp
  have y: "unat ?y = unat x + 2 ^ k - 1"
    using s p1 by (subst unat_sub) (simp_all add: word_le_nat_alt trans_le_add2)
  have "?y AND NOT (2 ^ k - 1) = push_bit k (drop_bit k ?y)"
    unfolding mask_eq_exp_minus_1 [symmetric] by (rule bit_word_eqI) (auto simp: bit_simps)
  also have "unat \<dots> = take_bit 64 (push_bit k (drop_bit k (unat ?y)))"
  proof -
    have "take_bit 64 (unat ?y) = unat ?y" using y assms(2) by (intro take_bit_nat_eq_self) simp
    then show ?thesis by (simp add: unsigned_push_bit_eq unsigned_drop_bit_eq)
  qed
  also have "push_bit k (drop_bit k (unat ?y)) = unat ?y div 2 ^ k * 2 ^ k"
    by (simp add: push_bit_eq_mult drop_bit_eq_div)
  also have "take_bit 64 \<dots> = \<dots>"
  proof -
    have "unat ?y div 2 ^ k * 2 ^ k \<le> unat ?y" by simp
    also have "\<dots> < 2 ^ 64" using y assms by simp
    finally show ?thesis by (simp add: take_bit_eq_mod)
  qed
  finally show ?thesis unfolding y ROUND_def .
qed

lemma ROUND_bounds:
  assumes "k < 64" "unat x + 2 ^ k < 2 ^ 64"
  shows "unat x \<le> unat (ROUND x (2 ^ k))" "unat (ROUND x (2 ^ k)) < unat x + 2 ^ k"
    "2 ^ k dvd unat (ROUND x (2 ^ k))"
proof -
  let ?p = "2 ^ k :: nat"
  have p: "0 < ?p" by simp
  have e: "unat (ROUND x (2 ^ k)) = (unat x + ?p - 1) div ?p * ?p" by (rule ROUND_unat [OF assms])
  have d: "(unat x + ?p - 1) div ?p * ?p + (unat x + ?p - 1) mod ?p = unat x + ?p - 1"
    by (rule div_mult_mod_eq)
  have m: "(unat x + ?p - 1) mod ?p < ?p" using p by simp
  show "unat x \<le> unat (ROUND x (2 ^ k))" "unat (ROUND x (2 ^ k)) < unat x + 2 ^ k"
    using d m p unfolding e by linarith+
  show "2 ^ k dvd unat (ROUND x (2 ^ k))" unfolding e by simp
qed

text \<open>Rounding up never passes an aligned bound.\<close>

lemma ROUND_below:
  assumes "k < 64" "unat x + 2 ^ k < 2 ^ 64" "unat x \<le> y" "2 ^ k dvd y"
  shows "unat (ROUND x (2 ^ k)) \<le> y"
proof (rule ccontr)
  assume "\<not> unat (ROUND x (2 ^ k)) \<le> y"
  then have "y < unat (ROUND x (2 ^ k))" by simp
  moreover have "2 ^ k dvd unat (ROUND x (2 ^ k)) - y"
    using ROUND_bounds(3) [OF assms(1,2)] assms(4) by (rule dvd_diff_nat)
  ultimately have "2 ^ k \<le> unat (ROUND x (2 ^ k)) - y" by (intro dvd_imp_le) simp_all
  with \<open>y < unat (ROUND x (2 ^ k))\<close> have "y + 2 ^ k \<le> unat (ROUND x (2 ^ k))" by linarith
  then show False using ROUND_bounds(2) [OF assms(1,2)] assms(3) by linarith
qed

section \<open>Sorting the components\<close>

lemma image_parts_comp_consistent: "consistent_cmp (image_parts_comp img)"
  unfolding consistent_cmp_def image_parts_comp_def
  by (auto split: option.splits)

lemma image_parts_comp_le:
  "image_parts_comp img (Some a) (Some b) \<le> 0 \<longleftrightarrow> unat (ic_offset (img a)) \<le> unat (ic_offset (img b))"
  by (auto simp: image_parts_comp_def word_le_nat_alt word_less_nat_alt)

lemma sort_parts:
  assumes "qsort_ok qs"
  obtains ys where "qs (image_parts_comp img) (map Some xs) = map Some ys" "mset ys = mset xs"
    "sorted_wrt (\<lambda>p q. unat (ic_offset (img p)) \<le> unat (ic_offset (img q))) ys"
proof -
  let ?zs = "qs (image_parts_comp img) (map Some xs)"
  note c = image_parts_comp_consistent [of img]
  have m: "mset ?zs = mset (map Some xs)" by (rule qsort_ok.permutes [OF assms c])
  have "None \<notin> set ?zs" using mset_eq_setD [OF m] by auto
  then obtain ys where z: "?zs = map Some ys" using all_Some by blast
  have "image_mset Some (mset ys) = image_mset Some (mset xs)" using m z by simp
  then have "mset ys = mset xs" by (rule injD [OF multiset.inj_map [OF inj_Some]])
  moreover have "sorted_wrt (\<lambda>p q. unat (ic_offset (img p)) \<le> unat (ic_offset (img q))) ys"
    using qsort_ok.sorts [OF assms c, of "map Some xs"] by (simp add: z sorted_wrt_map image_parts_comp_le)
  ultimately show ?thesis using that z by blast
qed

section \<open>Allocated components\<close>

text \<open>Offsets, sizes and paddings as natural numbers; \<open>uend\<close> includes the padding.\<close>

definition uoff :: "program_image \<Rightarrow> part \<Rightarrow> nat" where
  "uoff img p = unat (ic_offset (img p))"

definition usize :: "program_image \<Rightarrow> part \<Rightarrow> nat" where
  "usize img p = unat (ic_size (img p))"

definition upad :: "program_image \<Rightarrow> part \<Rightarrow> nat" where
  "upad img p = unat (ic_padding (img p))"

definition uend :: "program_image \<Rightarrow> part \<Rightarrow> nat" where
  "uend img p = uoff img p + usize img p + upad img p"

definition disjoint_parts :: "program_image \<Rightarrow> part set \<Rightarrow> bool" where
  "disjoint_parts img A \<longleftrightarrow>
     (\<forall>p \<in> A. \<forall>q \<in> A. p \<noteq> q \<longrightarrow>
        uoff img p + usize img p \<le> uoff img q \<or> uoff img q + usize img q \<le> uoff img p)"

text \<open>Components already placed: sorted, pairwise disjoint, aligned to \<open>2 ^ k\<close>, not empty.\<close>

definition placed :: "nat \<Rightarrow> nat \<Rightarrow> program_image \<Rightarrow> part list \<Rightarrow> bool" where
  "placed k pad img ps \<longleftrightarrow>
     distinct ps \<and> sorted_wrt (\<lambda>p q. uoff img p \<le> uoff img q) ps \<and> disjoint_parts img (set ps) \<and>
     (\<forall>p \<in> set ps. 2 ^ k dvd uoff img p \<and> 0 < usize img p \<and> upad img p = pad)"

text \<open>Components still to place, and the address space they can take.\<close>

definition waiting :: "nat \<Rightarrow> nat \<Rightarrow> program_image \<Rightarrow> part list \<Rightarrow> bool" where
  "waiting k pad img cs \<longleftrightarrow>
     distinct cs \<and> (\<forall>c \<in> set cs. ic_offset (img c) = AUTO_OFFSET \<and> ic_alignment (img c) = 2 ^ k \<and>
       0 < usize img c \<and> upad img c = pad)"

definition span_of :: "nat \<Rightarrow> program_image \<Rightarrow> part \<Rightarrow> nat" where
  "span_of k img c = 2 ^ k + usize img c + upad img c"

definition fits :: "nat \<Rightarrow> program_image \<Rightarrow> part list \<Rightarrow> part list \<Rightarrow> bool" where
  "fits k img ps cs \<longleftrightarrow> (\<forall>p \<in> set ps. uend img p + (\<Sum>c\<leftarrow>cs. span_of k img c) < 2 ^ 31)"

text \<open>Only offsets of components of \<open>A\<close> differ.\<close>

definition only_offsets :: "part set \<Rightarrow> program_image \<Rightarrow> program_image \<Rightarrow> bool" where
  "only_offsets A img img' \<longleftrightarrow>
     (\<forall>p. img' p = (img p)\<lparr>ic_offset := ic_offset (img' p)\<rparr>) \<and> (\<forall>p. p \<notin> A \<longrightarrow> img' p = img p)"

lemma only_offsets_refl: "only_offsets A img img"
  by (simp add: only_offsets_def)

lemma only_offsets_set: "only_offsets {c} img (set_offset c off img)"
  by (simp add: only_offsets_def set_offset_def)

lemma only_offsets_trans:
  "only_offsets A i j \<Longrightarrow> only_offsets B j k \<Longrightarrow> only_offsets (A \<union> B) i k"
proof -
  assume a: "only_offsets A i j" and b: "only_offsets B j k"
  have "k p = (i p)\<lparr>ic_offset := ic_offset (k p)\<rparr>" for p
  proof -
    obtain v where v: "j p = (i p)\<lparr>ic_offset := v\<rparr>" using a unfolding only_offsets_def by blast
    obtain w where w: "k p = (j p)\<lparr>ic_offset := w\<rparr>" using b unfolding only_offsets_def by blast
    show ?thesis by (simp add: w v)
  qed
  moreover have "k p = i p" if "p \<notin> A \<union> B" for p
  proof -
    have "j p = i p" using a that unfolding only_offsets_def by blast
    moreover have "k p = j p" using b that unfolding only_offsets_def by blast
    ultimately show ?thesis by (simp only:)
  qed
  ultimately show ?thesis unfolding only_offsets_def by blast
qed

lemma only_offsets_fields:
  assumes "only_offsets A img img'"
  shows "usize img' p = usize img p" "upad img' p = upad img p"
    "ic_alignment (img' p) = ic_alignment (img p)"
proof -
  have "img' p = (img p)\<lparr>ic_offset := ic_offset (img' p)\<rparr>"
    using assms by (simp add: only_offsets_def)
  then obtain v where v: "img' p = (img p)\<lparr>ic_offset := v\<rparr>" by blast
  show "usize img' p = usize img p" "upad img' p = upad img p"
    "ic_alignment (img' p) = ic_alignment (img p)"
    by (simp_all add: v usize_def upad_def)
qed

lemma set_offset_simps [simp]:
  "ic_offset (set_offset c off img p) = (if p = c then off else ic_offset (img p))"
  "usize (set_offset c off img) p = usize img p" "upad (set_offset c off img) p = upad img p"
  "uoff (set_offset c off img) p = (if p = c then unat off else uoff img p)"
  "ic_alignment (set_offset c off img p) = ic_alignment (img p)"
  by (simp_all add: set_offset_def usize_def upad_def uoff_def)

lemma set_offset_back: "ic_offset (img c) = off \<Longrightarrow> set_offset c off (set_offset c x img) = img"
  by (auto simp: set_offset_def)

lemma place_after_other: "p \<noteq> b \<Longrightarrow> place_after a b img p = img p"
  by (simp add: place_after_def set_offset_def Let_def)

lemma place_after_back:
  "ic_offset (img b) = off \<Longrightarrow> set_offset b off (place_after a b img) = img"
  by (simp add: place_after_def set_offset_back Let_def)

lemma find_gap_step:
  assumes "c \<noteq> p" "c \<noteq> q" "ic_offset (img c) = AUTO_OFFSET"
  shows "find_gap c (p # q # ps) img =
    (if is_in_overlap (place_after p c img c) (img q) \<or> is_in_overlap (place_after p c img c) (img p)
     then find_gap c (q # ps) img else place_after p c img)"
  using assms by (simp add: Let_def place_after_other place_after_back)

lemma find_gap_cases:
  assumes "ic_offset (img c) = AUTO_OFFSET"
  shows "c \<notin> set ps \<Longrightarrow> find_gap c ps img = img \<or>
    (\<exists>xs p q ys. ps = xs @ p # q # ys \<and> find_gap c ps img = place_after p c img \<and>
       \<not> is_in_overlap (place_after p c img c) (img q))"
proof (induction ps)
  case Nil
  then show ?case by simp
next
  case (Cons p ps)
  show ?case
  proof (cases ps)
    case Nil
    then show ?thesis by simp
  next
    case (Cons q rest)
    then have s: "find_gap c (p # ps) img =
      (if is_in_overlap (place_after p c img c) (img q) \<or> is_in_overlap (place_after p c img c) (img p)
       then find_gap c ps img else place_after p c img)"
      using Cons.prems find_gap_step [of c p q img rest] assms by (simp del: find_gap.simps)
    show ?thesis
    proof (cases "find_gap c (p # ps) img = find_gap c ps img")
      case True
      from Cons.IH Cons.prems consider "find_gap c ps img = img"
        | xs p' q' ys where "ps = xs @ p' # q' # ys" "find_gap c ps img = place_after p' c img"
          "\<not> is_in_overlap (place_after p' c img c) (img q')" by auto
      then show ?thesis
      proof cases
        case 1
        then show ?thesis using True by simp
      next
        case (2 xs p' q' ys)
        then have "p # ps = (p # xs) @ p' # q' # ys" by simp
        then show ?thesis using 2 True by metis
      qed
    next
      case False
      then have f: "find_gap c (p # ps) img = place_after p c img"
        "\<not> is_in_overlap (place_after p c img c) (img q)" using s by (auto split: if_splits)
      have "p # ps = [] @ p # q # rest" using Cons by simp
      then show ?thesis using f by metis
    qed
  qed
qed

section \<open>The allocation loop\<close>

text \<open>Placing \<open>c\<close> behind \<open>p\<close>: an aligned offset, at most one alignment unit after the end of \<open>p\<close>.\<close>

lemma place_after_bounds:
  assumes "k < 40" "ic_alignment (img c) = 2 ^ k" "uend img p + span_of k img c < 2 ^ 40" "p \<noteq> c"
  defines "img' \<equiv> place_after p c img"
  shows "only_offsets {c} img img'" "2 ^ k dvd uoff img' c" "uend img p \<le> uoff img' c"
    "uoff img' c < uend img p + 2 ^ k" "uend img' c \<le> uend img p + span_of k img c"
    "ic_offset (img' c) \<noteq> AUTO_OFFSET"
    "\<And>y. uend img p \<le> y \<Longrightarrow> 2 ^ k dvd y \<Longrightarrow> uoff img' c \<le> y"
proof -
  let ?e = "ic_offset (img p) + ic_size (img p) + ic_padding (img p)"
  have "unat (2 ^ k :: u64) \<noteq> 0" using unat_pow2 [of k] assms(1) by simp
  then have nz: "(2::u64) ^ k \<noteq> 0" by (rule contrapos_nn) (simp only: unat_0)
  have sm: "uend img p < 2 ^ 40" using assms(3) by (simp add: span_of_def)
  have e: "unat ?e = uend img p"
    using sm by (simp add: uend_def uoff_def usize_def upad_def unat_plus_small)
  have eq: "img' = set_offset c (ROUND ?e (2 ^ k)) img"
    using assms(2) nz by (simp add: img'_def place_after_def Let_def)
  have r: "k < 64" "unat ?e + 2 ^ k < 2 ^ 64"
    using assms(1,3) e by (simp_all add: span_of_def)
  show "only_offsets {c} img img'" unfolding eq by (rule only_offsets_set)
  show "2 ^ k dvd uoff img' c" "uend img p \<le> uoff img' c" and lt: "uoff img' c < uend img p + 2 ^ k"
    using ROUND_bounds [OF r] e by (simp_all add: eq)
  show "uend img' c \<le> uend img p + span_of k img c"
    using lt by (simp add: uend_def eq span_of_def)
  have "uoff img' c < 2 ^ 40" using lt assms(3) by (simp add: span_of_def)
  then show "ic_offset (img' c) \<noteq> AUTO_OFFSET" by (auto simp: uoff_def AUTO_OFFSET_def unsigned_minus_1_eq_mask mask_eq_exp_minus_1)
  show "uoff img' c \<le> y" if "uend img p \<le> y" "2 ^ k dvd y" for y
    using ROUND_below [OF r, of y] e that by (simp add: eq)
qed

lemma only_offsets_same:
  "only_offsets A img img' \<Longrightarrow> p \<notin> A \<Longrightarrow> uoff img' p = uoff img p \<and> uend img' p = uend img p"
  by (simp add: only_offsets_def uoff_def uend_def usize_def upad_def)

lemma overlap_unat:
  assumes "uend a p < 2 ^ 64" "uend b q < 2 ^ 64"
  shows "is_in_overlap (a p) (b q) \<longleftrightarrow> uoff b q < uend a p \<and> uoff a p < uend b q"
proof -
  have "unat (ic_offset (a p) + ic_size (a p) + ic_padding (a p)) = uend a p"
    "unat (ic_offset (b q) + ic_size (b q) + ic_padding (b q)) = uend b q"
    using assms by (simp_all add: uend_def uoff_def usize_def upad_def unat_plus_small)
  then show ?thesis by (simp add: is_in_overlap_def Let_def word_less_nat_alt uoff_def)
qed

lemma placed_pair:
  assumes "placed k pad img ps" "p \<in> set ps" "q \<in> set ps" "p \<noteq> q" "uoff img p \<le> uoff img q"
  shows "uoff img p + usize img p \<le> uoff img q"
proof -
  have "uoff img p + usize img p \<le> uoff img q \<or> uoff img q + usize img q \<le> uoff img p"
    using assms(1-4) unfolding placed_def disjoint_parts_def by blast
  moreover have "0 < usize img q" using assms(1,3) unfolding placed_def by blast
  ultimately show ?thesis using assms(5) by linarith
qed

text \<open>A placed list extended with a component that is disjoint from all of it, in sorted order.\<close>

lemma placed_extend:
  assumes pl: "placed k pad img ps" and o: "only_offsets {c} img img'" and c: "c \<notin> set ps"
    and al: "2 ^ k dvd uoff img' c" "0 < usize img c" "upad img c = pad"
    and dis: "\<And>p. p \<in> set ps \<Longrightarrow> uoff img p + usize img p \<le> uoff img' c \<or> uoff img' c + usize img c \<le> uoff img p"
    and perm: "mset ps' = mset (ps @ [c])" and srt: "sorted_wrt (\<lambda>p q. uoff img' p \<le> uoff img' q) ps'"
  shows "placed k pad img' ps'"
proof -
  note f = only_offsets_fields [OF o]
  have off: "uoff img' p = uoff img p" if "p \<in> set ps" for p
    using only_offsets_same [OF o, of p] that c by auto
  have st: "set ps' = insert c (set ps)" using mset_eq_setD [OF perm] by simp
  have d: "distinct ps'" using mset_eq_imp_distinct_iff [OF perm] pl c by (simp add: placed_def)
  have "disjoint_parts img' (set ps')"
    unfolding disjoint_parts_def
  proof (intro ballI impI)
    fix p q
    assume pq: "p \<in> set ps'" "q \<in> set ps'" "p \<noteq> q"
    have old: "uoff img p + usize img p \<le> uoff img q \<or> uoff img q + usize img q \<le> uoff img p"
      if "p \<in> set ps" "q \<in> set ps"
      using pl pq(3) that unfolding placed_def disjoint_parts_def by blast
    consider "p = c" "q \<in> set ps" | "q = c" "p \<in> set ps" | "p \<in> set ps" "q \<in> set ps"
      using pq unfolding st by blast
    then show "uoff img' p + usize img' p \<le> uoff img' q \<or> uoff img' q + usize img' q \<le> uoff img' p"
      using dis old by cases (simp_all add: f off disj_commute)
  qed
  moreover have "\<forall>p \<in> set ps'. 2 ^ k dvd uoff img' p \<and> 0 < usize img' p \<and> upad img' p = pad"
    using pl al unfolding placed_def st by (auto simp: f off)
  ultimately show ?thesis using d srt by (simp add: placed_def)
qed

lemma last_is_max:
  "sorted_wrt (\<lambda>p q. uoff img p \<le> uoff img q) ps \<Longrightarrow> p \<in> set ps \<Longrightarrow> uoff img p \<le> uoff img (last ps)"
  by (induction ps rule: rev_induct) (auto simp: sorted_wrt_append)

lemma sum_span_cong:
  "only_offsets A img img' \<Longrightarrow> (\<Sum>c\<leftarrow>cs. span_of k img' c) = (\<Sum>c\<leftarrow>cs. span_of k img c)"
  by (simp add: span_of_def only_offsets_fields cong: map_cong)

text \<open>One round of the loop, at the end of the placed components or in a gap between them.\<close>

lemma place_last:
  assumes k: "k < 31" "2 ^ k dvd pad" and pl: "placed k pad img ps" and ne: "ps \<noteq> []"
    and w: "waiting k pad img (c # cs)" and c: "c \<notin> set ps"
    and fit: "fits k img ps (c # cs)"
  defines "img' \<equiv> place_after (last ps) c img"
  shows "placed k pad img' (ps @ [c])" "fits k img' (ps @ [c]) cs" "only_offsets {c} img img'"
    "waiting k pad img' cs"
proof -
  let ?l = "last ps"
  have l: "?l \<in> set ps" "?l \<noteq> c" using ne c by auto
  have b: "uend img ?l + span_of k img c + (\<Sum>c\<leftarrow>cs. span_of k img c) < 2 ^ 31"
    using fit l(1) by (simp add: fits_def add.assoc)
  have wc: "ic_alignment (img c) = 2 ^ k" "0 < usize img c" "upad img c = pad"
    using w by (simp_all add: waiting_def)
  have "uend img ?l + span_of k img c < 2 ^ 31" using b by linarith
  then have b1: "uend img ?l + span_of k img c < 2 ^ 40" by simp
  have k40: "k < 40" using k(1) by simp
  note pa = place_after_bounds [OF k40 wc(1) b1 l(2), folded img'_def]
  show o: "only_offsets {c} img img'" by (rule pa(1))
  have srt: "sorted_wrt (\<lambda>p q. uoff img p \<le> uoff img q) ps" using pl by (simp add: placed_def)
  have top: "uoff img p + usize img p \<le> uoff img' c" if p: "p \<in> set ps" for p
  proof -
    have "uoff img p + usize img p \<le> uend img ?l"
    proof (cases "p = ?l")
      case True
      then show ?thesis by (simp add: uend_def)
    next
      case False
      have "uoff img p \<le> uoff img ?l" using last_is_max [OF srt p] .
      then have "uoff img p + usize img p \<le> uoff img ?l"
        using placed_pair [OF pl p l(1) False] by simp
      then show ?thesis by (simp add: uend_def)
    qed
    then show ?thesis using pa(3) by linarith
  qed
  have same: "uoff img' p = uoff img p" if "p \<in> set ps" for p
  proof -
    have "p \<notin> {c}" using that c by auto
    then show ?thesis using only_offsets_same [OF o, of p] by simp
  qed
  have srt': "sorted_wrt (\<lambda>p q. uoff img' p \<le> uoff img' q) (ps @ [c])"
  proof -
    have "sorted_wrt (\<lambda>p q. uoff img' p \<le> uoff img' q) ps"
      using srt by (rule sorted_wrt_mono_rel [rotated]) (simp add: same)
    moreover have "uoff img' p \<le> uoff img' c" if "p \<in> set ps" for p
      using top [OF that] by (simp add: same that)
    ultimately show ?thesis by (simp add: sorted_wrt_append)
  qed
  show "placed k pad img' (ps @ [c])"
    by (rule placed_extend [OF pl o c pa(2) wc(2,3) _ _ srt']) (use top in auto)
  have "uend img' p + (\<Sum>c\<leftarrow>cs. span_of k img c) < 2 ^ 31" if "p \<in> set (ps @ [c])" for p
  proof (cases "p = c")
    case True
    then show ?thesis using pa(5) b unfolding True by linarith
  next
    case False
    then have "p \<in> set ps" using that by simp
    then have "uend img p + (span_of k img c + (\<Sum>c\<leftarrow>cs. span_of k img c)) < 2 ^ 31"
      using fit by (simp add: fits_def)
    then show ?thesis using only_offsets_same [OF o, of p] False by simp
  qed
  then show "fits k img' (ps @ [c]) cs" unfolding fits_def sum_span_cong [OF o] by blast
  show "waiting k pad img' cs"
    using w o unfolding waiting_def only_offsets_def by (auto simp: usize_def upad_def)
qed

lemma place_gap:
  assumes k: "k < 31" "2 ^ k dvd pad" and pl: "placed k pad img ps"
    and w: "waiting k pad img (c # cs)" and c: "c \<notin> set ps"
    and fit: "fits k img ps (c # cs)"
    and pq: "ps = xs @ p # q # ys" "\<not> is_in_overlap (place_after p c img c) (img q)"
  defines "img' \<equiv> place_after p c img"
  assumes ps': "mset ps' = mset (ps @ [c])" "sorted_wrt (\<lambda>p q. uoff img' p \<le> uoff img' q) ps'"
  shows "placed k pad img' ps'" "fits k img' ps' cs" "only_offsets {c} img img'"
    "waiting k pad img' cs" "ic_offset (img' c) \<noteq> AUTO_OFFSET"
proof -
  have p: "p \<in> set ps" "p \<noteq> c" and q: "q \<in> set ps" "q \<noteq> c" "p \<noteq> q"
    using pq(1) c pl by (auto simp: placed_def)
  have b: "uend img r + span_of k img c + (\<Sum>c\<leftarrow>cs. span_of k img c) < 2 ^ 31" if "r \<in> set ps" for r
    using fit that by (simp add: fits_def add.assoc)
  have wc: "ic_alignment (img c) = 2 ^ k" "0 < usize img c" "upad img c = pad"
    using w by (simp_all add: waiting_def)
  have "uend img p + span_of k img c < 2 ^ 31" using b [OF p(1)] by linarith
  then have b1: "uend img p + span_of k img c < 2 ^ 40" by simp
  have k40: "k < 40" using k(1) by simp
  note pa = place_after_bounds [OF k40 wc(1) b1 p(2), folded img'_def]
  show o: "only_offsets {c} img img'" by (rule pa(1))
  show "ic_offset (img' c) \<noteq> AUTO_OFFSET" by (rule pa(6))
  have srt: "sorted_wrt (\<lambda>p q. uoff img p \<le> uoff img q) ps" using pl by (simp add: placed_def)
  have le: "uoff img p \<le> uoff img q" using srt pq(1) by (simp add: sorted_wrt_append)
  have gap: "uoff img p + usize img p \<le> uoff img q" by (rule placed_pair [OF pl p(1) q(1,3) le])
  have att: "2 ^ k dvd uoff img q" "0 < usize img q" "upad img q = pad" "upad img p = pad"
    using pl p q by (simp_all add: placed_def)
  have "uoff img' c \<le> uoff img q + pad"
    by (rule pa(7)) (use gap att k(2) in \<open>auto simp: uend_def\<close>)
  then have "uoff img' c < uend img q" using att by (simp add: uend_def)
  moreover have "uend img' c < 2 ^ 31" "uend img q < 2 ^ 31"
    using pa(5) b [OF p(1)] b [OF q(1)] by linarith+
  then have "uend img' c < 2 ^ 64" "uend img q < 2 ^ 64" by simp_all
  ultimately have below: "uend img' c \<le> uoff img q"
    using pq(2) overlap_unat [of img' c img q] by (simp add: img'_def [symmetric])
  have sz: "uoff img' c + usize img c \<le> uend img' c"
    using only_offsets_fields [OF o, of c] by (simp add: uend_def)
  have dis: "uoff img r + usize img r \<le> uoff img' c \<or> uoff img' c + usize img c \<le> uoff img r"
    if r: "r \<in> set ps" for r
  proof -
    consider "r \<in> set (xs @ [p])" | "r \<in> set (q # ys)" using r pq(1) by auto
    then show ?thesis
    proof cases
      case 1
      then have le: "uoff img r \<le> uoff img p" using srt pq(1) by (auto simp: sorted_wrt_append)
      have "uoff img r + usize img r \<le> uend img p"
      proof (cases "r = p")
        case True
        then show ?thesis by (simp add: uend_def)
      next
        case False
        then show ?thesis using placed_pair [OF pl r p(1) False le] by (simp add: uend_def)
      qed
      then show ?thesis using pa(3) by linarith
    next
      case 2
      then have "uoff img q \<le> uoff img r" using srt pq(1) by (auto simp: sorted_wrt_append)
      then show ?thesis using below sz by linarith
    qed
  qed
  show "placed k pad img' ps'"
    by (rule placed_extend [OF pl o c pa(2) wc(2,3) dis ps'])
  have "uend img' r + (\<Sum>c\<leftarrow>cs. span_of k img c) < 2 ^ 31" if "r \<in> set ps'" for r
  proof (cases "r = c")
    case True
    then show ?thesis using pa(5) b [OF p(1)] unfolding True by linarith
  next
    case False
    then have "r \<in> set ps" using that mset_eq_setD [OF ps'(1)] by auto
    then have "uend img r + (\<Sum>c\<leftarrow>cs. span_of k img c) < 2 ^ 31" using b [of r] by linarith
    then show ?thesis using only_offsets_same [OF o, of r] False by simp
  qed
  then show "fits k img' ps' cs" unfolding fits_def sum_span_cong [OF o] by blast
  show "waiting k pad img' cs"
    using w o unfolding waiting_def only_offsets_def by (auto simp: usize_def upad_def)
qed

text \<open>The whole loop: a permutation of all components, placed, with only offsets changed.\<close>

lemma alloc_loop_placed:
  assumes k: "k < 31" "2 ^ k dvd pad" and qs: "qsort_ok qs"
  shows "placed k pad img ps \<Longrightarrow> ps \<noteq> [] \<Longrightarrow> waiting k pad img cs \<Longrightarrow> fits k img ps cs \<Longrightarrow>
    set ps \<inter> set cs = {} \<Longrightarrow>
    \<exists>ps' img'. alloc_loop qs ps cs img = Some (ps', img') \<and> placed k pad img' ps' \<and>
      mset ps' = mset ps + mset cs \<and> only_offsets (set cs) img img' \<and> fits k img' ps' []"
proof (induction cs arbitrary: ps img)
  case Nil
  then show ?case by (simp add: only_offsets_refl)
next
  case (Cons c cs)
  have c: "c \<notin> set ps" using Cons.prems(5) by simp
  have auto_c: "ic_offset (img c) = AUTO_OFFSET" using Cons.prems(3) by (simp add: waiting_def)
  have ccs: "c \<notin> set cs" using Cons.prems(3) by (simp add: waiting_def)
  have finish: "\<exists>ps' img'. alloc_loop qs qs1 cs img1 = Some (ps', img') \<and> placed k pad img' ps' \<and>
      mset ps' = mset ps + mset (c # cs) \<and> only_offsets (set (c # cs)) img img' \<and> fits k img' ps' []"
    if 1: "placed k pad img1 qs1" "fits k img1 qs1 cs" "only_offsets {c} img img1" "waiting k pad img1 cs"
      "mset qs1 = mset (ps @ [c])" for qs1 img1
  proof -
    have st: "set qs1 = insert c (set ps)" using mset_eq_setD [OF 1(5)] by simp
    obtain ps' img' where r: "alloc_loop qs qs1 cs img1 = Some (ps', img')" "placed k pad img' ps'"
      "mset ps' = mset qs1 + mset cs" "only_offsets (set cs) img1 img'" "fits k img' ps' []"
      using Cons.IH [OF 1(1) _ 1(4,2)] st ccs Cons.prems(5) by fastforce
    have "only_offsets ({c} \<union> set cs) img img'" by (rule only_offsets_trans [OF 1(3) r(4)])
    with r 1(5) show ?thesis by simp
  qed
  from find_gap_cases [of img c, OF auto_c c]
  consider (none) "find_gap c ps img = img"
    | (gap) xs p q ys where "ps = xs @ p # q # ys" "find_gap c ps img = place_after p c img"
        "\<not> is_in_overlap (place_after p c img c) (img q)" by blast
  then show ?case
  proof cases
    case none
    note pl = place_last [OF k Cons.prems(1,2,3) c Cons.prems(4)]
    have "alloc_loop qs ps (c # cs) img = alloc_loop qs (ps @ [c]) cs (place_after (last ps) c img)"
      using none auto_c Cons.prems(2) by simp
    then show ?thesis using finish [OF pl] by simp
  next
    case gap
    let ?i = "place_after p c img"
    obtain qs1 where s: "qs (image_parts_comp ?i) (map Some (ps @ [c])) = map Some qs1"
      "mset qs1 = mset (ps @ [c])" "sorted_wrt (\<lambda>p q. uoff ?i p \<le> uoff ?i q) qs1"
      unfolding uoff_def by (rule sort_parts [OF qs])
    note pl = place_gap [OF k Cons.prems(1,3) c Cons.prems(4) gap(1,3) s(2,3)]
    have "alloc_loop qs ps (c # cs) img = alloc_loop qs qs1 cs ?i"
      using gap(2) pl(5) Cons.prems(2) s(1) by (simp add: Let_def)
    then show ?thesis using finish [OF pl(1-4) s(2)] by simp
  qed
qed

section \<open>The computation of all offsets\<close>

definition present :: "part option list \<Rightarrow> part list" where
  "present parts = map the (filter (\<lambda>p. p \<noteq> None) parts)"

lemma present_simps [simp]:
  "present [] = []" "present (None # ps) = present ps" "present (Some p # ps) = p # present ps"
  by (simp_all add: present_def)

lemma present_replicate: "present (replicate n None @ map Some ys) = ys"
  by (induction n) (simp_all add: present_def comp_def)

lemma mset_present: "mset (present xs) = image_mset the (filter_mset (\<lambda>p. p \<noteq> None) (mset xs))"
  by (simp add: present_def mset_filter)

lemma sorted_nulls_first:
  "sorted_wrt (\<lambda>x y. image_parts_comp img x y \<le> 0) zs \<Longrightarrow>
   \<exists>n ys. zs = replicate n None @ map Some ys"
proof (induction zs)
  case Nil
  then show ?case by (intro exI [of _ 0] exI [of _ "[]"]) simp
next
  case (Cons z zs)
  then obtain n ys where zs: "zs = replicate n None @ map Some ys" by auto
  show ?case
  proof (cases z)
    case None
    then have "z # zs = replicate (Suc n) None @ map Some ys" using zs by simp
    then show ?thesis by blast
  next
    case (Some p)
    have "n = 0"
    proof (rule ccontr)
      assume "n \<noteq> 0"
      then have "None \<in> set zs" using zs by simp
      then have "image_parts_comp img z None \<le> 0" using Cons.prems by auto
      then show False using Some by (simp add: image_parts_comp_def)
    qed
    then have "z # zs = replicate 0 None @ map Some (p # ys)" using zs Some by simp
    then show ?thesis by blast
  qed
qed

lemma auto_offset_max: "unat AUTO_OFFSET \<le> unat x \<Longrightarrow> x = AUTO_OFFSET"
proof -
  assume "unat AUTO_OFFSET \<le> unat x"
  then have "AUTO_OFFSET \<le> x" by (simp add: word_le_nat_alt)
  then show ?thesis by (simp add: AUTO_OFFSET_def word_order.extremum_unique)
qed

lemma autos_last:
  "sorted_wrt (\<lambda>p q. uoff img p \<le> uoff img q) ys \<Longrightarrow>
   c \<in> set (dropWhile (\<lambda>p. ic_offset (img p) \<noteq> AUTO_OFFSET) ys) \<Longrightarrow> ic_offset (img c) = AUTO_OFFSET"
proof (induction ys)
  case Nil
  then show ?case by simp
next
  case (Cons y ys)
  show ?case
  proof (cases "ic_offset (img y) = AUTO_OFFSET")
    case True
    then have "c = y \<or> uoff img y \<le> uoff img c" using Cons.prems by auto
    then show ?thesis using True auto_offset_max [of "ic_offset (img c)"] by (auto simp: uoff_def)
  next
    case False
    then show ?thesis using Cons by simp
  qed
qed

definition autos :: "program_image \<Rightarrow> part option list \<Rightarrow> part set" where
  "autos img parts = {p \<in> set (present parts). ic_offset (img p) = AUTO_OFFSET}"

definition fixeds :: "program_image \<Rightarrow> part option list \<Rightarrow> part set" where
  "fixeds img parts = {p \<in> set (present parts). ic_offset (img p) \<noteq> AUTO_OFFSET}"

lemma sum_list_bound: "(\<forall>c \<in> set cs. f c \<le> (B::nat)) \<Longrightarrow> (\<Sum>c\<leftarrow>cs. f c) \<le> length cs * B"
  by (induction cs) auto

lemma s32_compute_dyn_offsets_placed:
  assumes k: "k < 31" "2 ^ k dvd pad" and qs: "qsort_ok qs"
    and dist: "distinct (present parts)" and len: "length (present parts) \<le> 8"
    and fixed: "fixeds img parts \<noteq> {}" "disjoint_parts img (fixeds img parts)"
      "\<And>p. p \<in> fixeds img parts \<Longrightarrow> 2 ^ k dvd uoff img p \<and> 0 < usize img p \<and> upad img p = pad \<and> uend img p < 2 ^ 27"
    and auto_ps: "\<And>p. p \<in> autos img parts \<Longrightarrow>
        ic_alignment (img p) = 2 ^ k \<and> 0 < usize img p \<and> upad img p = pad \<and> span_of k img p < 2 ^ 27"
  shows "\<exists>n ps img'. s32_compute_dyn_offsets qs parts img = Some (replicate n None @ map Some ps, img') \<and>
    ps \<noteq> [] \<and> mset ps = mset (present parts) \<and> placed k pad img' ps \<and>
    only_offsets (autos img parts) img img' \<and> fits k img' ps []"
proof -
  let ?zs = "qs (image_parts_comp img) parts"
  note c = image_parts_comp_consistent [of img]
  have srt: "sorted_wrt (\<lambda>x y. image_parts_comp img x y \<le> 0) ?zs" by (rule qsort_ok.sorts [OF qs c])
  then obtain n ys where z: "?zs = replicate n None @ map Some ys" using sorted_nulls_first by blast
  have m: "mset ys = mset (present parts)"
    using qsort_ok.permutes [OF qs c, of parts] z present_replicate [of n ys] by (metis mset_present)
  have st: "set ys = set (present parts)" by (rule mset_eq_setD [OF m])
  have sy: "sorted_wrt (\<lambda>p q. uoff img p \<le> uoff img q) ys"
    using srt by (simp add: z sorted_wrt_append sorted_wrt_map image_parts_comp_le uoff_def)
  let ?P = "\<lambda>p. ic_offset (img p) \<noteq> AUTO_OFFSET"
  let ?f = "takeWhile ?P ys" and ?a = "dropWhile ?P ys"
  have fa: "ys = ?f @ ?a" by simp
  have f: "set ?f = fixeds img parts" and a: "set ?a = autos img parts"
  proof -
    have fin: "p \<in> set ?f \<Longrightarrow> ?P p" and ain: "p \<in> set ?a \<Longrightarrow> \<not> ?P p" for p
      using set_takeWhileD [of p ?P ys] autos_last [OF sy, of p] by auto
    have un: "set ?f \<union> set ?a = set (present parts)" using st arg_cong [OF fa, of set] by (simp only: set_append)
    show "set ?f = fixeds img parts" "set ?a = autos img parts"
      using fin ain un unfolding fixeds_def autos_def by blast+
  qed
  have dy: "distinct (?f @ ?a)" using mset_eq_imp_distinct_iff [OF m] dist by simp
  have sf: "sorted_wrt (\<lambda>p q. uoff img p \<le> uoff img q) (?f @ ?a)" using sy by simp
  have pl: "placed k pad img ?f"
    using dy sf fixed(2,3) unfolding placed_def f by (auto simp: sorted_wrt_append)
  have wa: "waiting k pad img ?a"
    using dy auto_ps unfolding waiting_def a by (auto simp: autos_def)
  have "length ?f + length ?a = length (present parts)"
    using mset_eq_length [OF m] arg_cong [OF fa, of length] by (simp only: length_append)
  then have "length ?a \<le> 8" using len by linarith
  moreover have "(\<Sum>c\<leftarrow>?a. span_of k img c) \<le> length ?a * 2 ^ 27"
    by (rule sum_list_bound) (use auto_ps a in \<open>auto intro: less_imp_le\<close>)
  ultimately have tot: "(\<Sum>c\<leftarrow>?a. span_of k img c) \<le> 2 ^ 30" by simp
  have fit: "fits k img ?f ?a"
    unfolding fits_def f
  proof
    fix p
    assume "p \<in> fixeds img parts"
    then have "uend img p < 2 ^ 27" using fixed(3) by blast
    then show "uend img p + (\<Sum>c\<leftarrow>?a. span_of k img c) < 2 ^ 31" using tot by simp
  qed
  have ne: "?f \<noteq> []" using f fixed(1) by auto
  have dj: "set ?f \<inter> set ?a = {}" using dy unfolding distinct_append by blast
  obtain ps' img' where r: "alloc_loop qs ?f ?a img = Some (ps', img')" "placed k pad img' ps'"
    "mset ps' = mset ?f + mset ?a" "only_offsets (set ?a) img img'" "fits k img' ps' []"
    using alloc_loop_placed [OF k qs pl ne wa fit dj] by blast
  have tw: "takeWhile (\<lambda>p. p = None) ?zs = replicate n None" "dropWhile (\<lambda>p. p = None) ?zs = map Some ys"
    unfolding z by (induction n) (cases ys; simp)+
  have "mset ps' = mset (present parts)"
    using r(3) m arg_cong [OF fa, of mset] by (simp only: mset_append)
  moreover have "ps' \<noteq> []" using ne r(3) by auto
  moreover have "s32_compute_dyn_offsets qs parts img = Some (replicate n None @ map Some ps', img')"
    by (simp add: s32_compute_dyn_offsets_def tw r(1))
  ultimately show ?thesis using r(2,4,5) unfolding a by blast
qed

section \<open>The layout that is built\<close>

definition conf_ok :: "image_config \<Rightarrow> bool" where
  "conf_ok c \<longleftrightarrow> dcd_size c \<le> DCD_MAXIMUM_SIZE \<and> hse_fw_size c \<le> unat HSE_FW_MAX_SIZE \<and>
     (hse_enable c \<longrightarrow> 0 < hse_fw_size c)"

text \<open>The layout after a \<open>BOOT_FROM\<close> line has set the offset of the image vector table.\<close>

definition boot_layout :: "image_config \<Rightarrow> program_image" where
  "boot_layout c =
     set_offset IVT (if flash_boot c then QSPI_IVT_OFFSET else SD_IVT_OFFSET) image_layout_init"

definition boot_alignment :: "image_config \<Rightarrow> nat" where
  "boot_alignment c = (if flash_boot c then 3 else 9)"

definition sized_layout :: "image_config \<Rightarrow> program_image" where
  "sized_layout c = (boot_layout c)
     (DCD := (boot_layout c DCD)\<lparr>ic_size := of_nat (dcd_size c)\<rparr>,
      HSE_FW := (boot_layout c HSE_FW)\<lparr>ic_size := of_nat (hse_fw_size c)\<rparr>)"

definition ready_layout :: "image_config \<Rightarrow> program_image" where
  "ready_layout c = set_padding c (layout_parts c) (set_headers_alignment c (sized_layout c))"

lemma layout_consts [layout_simps]:
  "unat sizeof_ivt = 256" "unat sizeof_app_code = 64" "unat MBR_SIZE = 4096" "unat QSPI_PARAMS_SIZE = 512"
  "unat QSPI_PARAMS_OFFSET = 512" "unat QSPI_IVT_OFFSET = 0" "unat SD_IVT_OFFSET = 4096"
  "unat HSE_FW_MAX_SIZE = 524288" "unat HSE_SYS_IMG_MAX_SIZE = 49152" "unat SZ_1K = 1024"
  "BOOTROM_QSPI_ALIGNMENT = 2 ^ 3" "BOOTROM_SD_ALIGNMENT = 2 ^ 9" "DCD_MAXIMUM_SIZE = 8192"
  by (simp_all add: sizeof_ivt_def sizeof_app_code_def MBR_SIZE_def QSPI_PARAMS_SIZE_def
      QSPI_PARAMS_OFFSET_def QSPI_IVT_OFFSET_def SD_IVT_OFFSET_def HSE_FW_MAX_SIZE_def
      HSE_SYS_IMG_MAX_SIZE_def SZ_1K_def BOOTROM_QSPI_ALIGNMENT_def BOOTROM_SD_ALIGNMENT_def
      DCD_MAXIMUM_SIZE_def)

lemma not_auto [layout_simps]:
  "QSPI_IVT_OFFSET \<noteq> AUTO_OFFSET" "SD_IVT_OFFSET \<noteq> AUTO_OFFSET" "QSPI_PARAMS_OFFSET \<noteq> AUTO_OFFSET"
  "(0::u64) \<noteq> AUTO_OFFSET"
  by (simp_all add: QSPI_IVT_OFFSET_def SD_IVT_OFFSET_def QSPI_PARAMS_OFFSET_def AUTO_OFFSET_def)

lemma set_headers_size_ok:
  assumes "conf_ok c"
  shows "set_headers_size c (boot_layout c) = Inr (sized_layout c)"
proof -
  have "dcd_size c < 2 ^ 64" "hse_fw_size c < 2 ^ 64" "dcd_size c \<le> 8192" "hse_fw_size c \<le> 524288"
    using assms by (simp_all add: conf_ok_def layout_simps)
  then have "\<not> (of_nat (dcd_size c) :: u64) > of_nat DCD_MAXIMUM_SIZE"
    "\<not> (of_nat (hse_fw_size c) :: u64) > HSE_FW_MAX_SIZE"
    by (simp_all add: word_less_nat_alt unat_of_nat_small layout_simps)
  then show ?thesis by (simp add: set_headers_size_def sized_layout_def Let_def)
qed

definition boot_padding :: "image_config \<Rightarrow> nat" where
  "boot_padding c = (if err051257 c \<and> flash_boot c then 1024 else 0)"

lemma padding_unat: "unat (get_padding c) = boot_padding c"
  by (simp add: get_padding_def apply_err051257_workaround_def boot_padding_def layout_simps)

lemma ready_offsets:
  "ic_offset (ready_layout c MBR_RESERVED) = 0"
  "ic_offset (ready_layout c IVT) = (if flash_boot c then QSPI_IVT_OFFSET else SD_IVT_OFFSET)"
  "ic_offset (ready_layout c QSPI_PARAMS) = QSPI_PARAMS_OFFSET"
  "ic_offset (ready_layout c DCD) = AUTO_OFFSET"
  "ic_offset (ready_layout c HSE_FW) = AUTO_OFFSET"
  "ic_offset (ready_layout c HSE_SYS_IMG) = AUTO_OFFSET"
  by (simp_all add: ready_layout_def set_padding_def set_headers_alignment_def sized_layout_def
      boot_layout_def comp_of_def Let_def set_offset_def)

lemma ready_sizes:
  assumes "conf_ok c"
  shows "usize (ready_layout c) MBR_RESERVED = 4096" "usize (ready_layout c) IVT = 256"
    "usize (ready_layout c) QSPI_PARAMS = 512" "usize (ready_layout c) DCD = dcd_size c"
    "usize (ready_layout c) HSE_FW = hse_fw_size c" "usize (ready_layout c) HSE_SYS_IMG = 49152"
    "usize (ready_layout c) APP_CODE = 64" "usize (ready_layout c) CODE = 0"
proof -
  have "dcd_size c < 2 ^ 64" "hse_fw_size c < 2 ^ 64"
    using assms by (simp_all add: conf_ok_def layout_simps)
  then show "usize (ready_layout c) MBR_RESERVED = 4096" "usize (ready_layout c) IVT = 256"
    "usize (ready_layout c) QSPI_PARAMS = 512" "usize (ready_layout c) DCD = dcd_size c"
    "usize (ready_layout c) HSE_FW = hse_fw_size c" "usize (ready_layout c) HSE_SYS_IMG = 49152"
    "usize (ready_layout c) APP_CODE = 64" "usize (ready_layout c) CODE = 0"
    by (simp_all add: usize_def ready_layout_def set_padding_def set_headers_alignment_def
        sized_layout_def boot_layout_def comp_of_def Let_def set_offset_def unat_of_nat_small layout_simps)
qed

lemma ready_attrs:
  "Some p \<in> set (layout_parts c) \<Longrightarrow> upad (ready_layout c) p = boot_padding c"
  "p \<in> {DCD, HSE_FW, HSE_SYS_IMG, APP_CODE} \<Longrightarrow> ic_alignment (ready_layout c p) = 2 ^ boot_alignment c"
  "upad (ready_layout c) APP_CODE = 0" "upad (ready_layout c) CODE = 0" "ic_alignment (ready_layout c CODE) = 8"
  by (auto simp: upad_def ready_layout_def set_padding_def padding_unat set_headers_alignment_def
      boot_alignment_def layout_parts_def get_image_mbr_def get_image_qspi_params_def get_image_dcd_def
      get_image_hse_fw_def get_image_hse_sys_img_def sized_layout_def boot_layout_def comp_of_def
      set_offset_def layout_simps split: if_splits)

lemmas part_getters = layout_parts_def get_image_mbr_def get_image_qspi_params_def get_image_dcd_def
  get_image_hse_fw_def get_image_hse_sys_img_def

lemma fixed_auto_parts:
  "fixeds (ready_layout c) (layout_parts c) =
     (if flash_boot c then {QSPI_PARAMS, IVT} else {MBR_RESERVED, IVT})"
  "autos (ready_layout c) (layout_parts c) =
     (if dcd_size c = 0 then {} else {DCD}) \<union> (if hse_enable c then {HSE_FW, HSE_SYS_IMG} else {})"
  by (auto simp: fixeds_def autos_def part_getters ready_offsets layout_simps split: if_splits)

lemma ready_placed:
  assumes qs: "qsort_ok qs" and ok: "conf_ok c"
  shows "\<exists>n ps img'. s32_compute_dyn_offsets qs (layout_parts c) (ready_layout c) =
      Some (replicate n None @ map Some ps, img') \<and>
    ps \<noteq> [] \<and> mset ps = mset (present (layout_parts c)) \<and>
    placed (boot_alignment c) (boot_padding c) img' ps \<and>
    only_offsets (autos (ready_layout c) (layout_parts c)) (ready_layout c) img' \<and>
    fits (boot_alignment c) img' ps []"
proof (rule s32_compute_dyn_offsets_placed [OF _ _ qs])
  note sz = ready_sizes [OF ok]
  have lim: "dcd_size c \<le> 8192" "hse_fw_size c \<le> 524288" "hse_enable c \<Longrightarrow> 0 < hse_fw_size c"
    using ok by (simp_all add: conf_ok_def layout_simps)
  show "boot_alignment c < 31" by (simp add: boot_alignment_def)
  show "2 ^ boot_alignment c dvd boot_padding c"
    by (simp add: boot_alignment_def boot_padding_def)
  show "distinct (present (layout_parts c))" "length (present (layout_parts c)) \<le> 8"
    by (simp_all add: part_getters)
  show "fixeds (ready_layout c) (layout_parts c) \<noteq> {}"
    unfolding fixed_auto_parts by simp
  show "disjoint_parts (ready_layout c) (fixeds (ready_layout c) (layout_parts c))"
    unfolding fixed_auto_parts
    by (simp add: disjoint_parts_def uoff_def ready_offsets sz layout_simps)
  show "2 ^ boot_alignment c dvd uoff (ready_layout c) p \<and> 0 < usize (ready_layout c) p \<and>
      upad (ready_layout c) p = boot_padding c \<and> uend (ready_layout c) p < 2 ^ 27"
    if "p \<in> fixeds (ready_layout c) (layout_parts c)" for p
  proof -
    have "Some p \<in> set (layout_parts c)"
      using that unfolding fixed_auto_parts by (auto simp: part_getters split: if_splits)
    then have pad: "upad (ready_layout c) p = boot_padding c" by (rule ready_attrs)
    show ?thesis
      using that unfolding fixed_auto_parts uend_def pad
      by (auto simp: uoff_def ready_offsets sz layout_simps boot_alignment_def boot_padding_def split: if_splits)
  qed
  show "ic_alignment (ready_layout c p) = 2 ^ boot_alignment c \<and> 0 < usize (ready_layout c) p \<and>
      upad (ready_layout c) p = boot_padding c \<and> span_of (boot_alignment c) (ready_layout c) p < 2 ^ 27"
    if "p \<in> autos (ready_layout c) (layout_parts c)" for p
  proof -
    have "Some p \<in> set (layout_parts c)"
      using that unfolding fixed_auto_parts by (auto simp: part_getters split: if_splits)
    then have pad: "upad (ready_layout c) p = boot_padding c" by (rule ready_attrs)
    show ?thesis
      using that lim unfolding fixed_auto_parts span_of_def pad
      by (auto simp: ready_attrs sz boot_alignment_def boot_padding_def split: if_splits)
  qed
qed

lemma build_layout_facts:
  assumes qs: "qsort_ok qs" and ok: "conf_ok c"
  shows "\<exists>b. s32g2xx_build_layout qs True c (boot_layout c) = Some (Inr b) \<and> bl_rc b = 0 \<and>
    disjoint_parts (bl_layout b) (set (present (layout_parts c))) \<and>
    (\<forall>p \<in> set (present (layout_parts c)). 2 ^ boot_alignment c dvd uoff (bl_layout b) p \<and>
       usize (bl_layout b) p = usize (ready_layout c) p \<and>
       uoff (bl_layout b) p + usize (ready_layout c) p \<le> uoff (bl_layout b) APP_CODE) \<and>
    2 ^ boot_alignment c dvd uoff (bl_layout b) APP_CODE \<and>
    uoff (bl_layout b) IVT = (if flash_boot c then 0 else 4096) \<and>
    (\<not> flash_boot c \<longrightarrow> uoff (bl_layout b) MBR_RESERVED = 0) \<and>
    unat (bl_header_size b) = uoff (bl_layout b) APP_CODE + 64 \<and> unat (bl_header_size b) < 2 ^ 32 \<and>
    unat (bl_header_size b) \<le> uoff (bl_layout b) CODE \<and> 8 dvd uoff (bl_layout b) CODE \<and>
    bl_image b = Some (replicate (unat (bl_header_size b)) 0)"
proof -
  let ?k = "boot_alignment c"
  obtain n ps img' where r: "s32_compute_dyn_offsets qs (layout_parts c) (ready_layout c) =
      Some (replicate n None @ map Some ps, img')" "ps \<noteq> []" "mset ps = mset (present (layout_parts c))"
    "placed ?k (boot_padding c) img' ps"
    "only_offsets (autos (ready_layout c) (layout_parts c)) (ready_layout c) img'" "fits ?k img' ps []"
    using ready_placed [OF assms] by blast
  note sz = ready_sizes [OF ok]
  let ?A = "set (present (layout_parts c))"
  have st: "set ps = ?A" by (rule mset_eq_setD [OF r(3)])
  have app: "APP_CODE \<notin> ?A" "CODE \<notin> ?A" "IVT \<in> ?A" by (simp_all add: part_getters)
  note f = only_offsets_fields [OF r(5)]
  let ?l = "last ps"
  have l: "?l \<in> ?A" "?l \<noteq> APP_CODE"
  proof -
    show m: "?l \<in> ?A" using last_in_set [OF r(2)] unfolding st .
    show "?l \<noteq> APP_CODE" by (rule notI) (use m app(1) in \<open>simp only: simp_thms\<close>)
  qed
  have el: "uend img' p < 2 ^ 31" if "p \<in> ?A" for p using r(6) that st by (simp add: fits_def)
  have k: "?k < 31" "(2::nat) ^ ?k \<le> 512" by (simp_all add: boot_alignment_def)
  let ?i5 = "place_after ?l APP_CODE img'"
  have al: "ic_alignment (img' APP_CODE) = 2 ^ ?k" using ready_attrs(2) [of APP_CODE c] by (simp add: f)
  have sp: "span_of ?k img' APP_CODE = 2 ^ ?k + 64"
    by (simp add: span_of_def f sz ready_attrs)
  have b5: "uend img' ?l + span_of ?k img' APP_CODE < 2 ^ 32" using el [OF l(1)] k(2) unfolding sp by simp
  then have "uend img' ?l + span_of ?k img' APP_CODE < 2 ^ 40" by simp
  note p5 = place_after_bounds [OF _ al this l(2)]
  note p5 = p5(1,2,3,5) [OF less_trans [OF k(1)], simplified]
  note f5 = only_offsets_fields [OF p5(1)]
  have e5: "uend ?i5 APP_CODE = uoff ?i5 APP_CODE + 64" by (simp add: uend_def f5 f sz ready_attrs)
  have hs: "unat (ic_offset (?i5 APP_CODE) + ic_size (?i5 APP_CODE)) = uoff ?i5 APP_CODE + 64"
  proof -
    have "usize ?i5 APP_CODE = 64" by (simp add: f5 f sz)
    moreover have "uoff ?i5 APP_CODE + 64 < 2 ^ 64" using p5(4) b5 e5 by simp
    ultimately show ?thesis by (simp add: uoff_def usize_def unat_plus_small)
  qed
  let ?i6 = "place_after APP_CODE CODE ?i5"
  have al6: "ic_alignment (?i5 CODE) = 2 ^ 3" using ready_attrs(5) [of c] by (simp add: f5 f)
  have "span_of 3 ?i5 CODE < 2 ^ 34"
    by (simp add: span_of_def f5 f sz ready_attrs)
  then have "uend ?i5 APP_CODE + span_of 3 ?i5 CODE < 2 ^ 40" using p5(4) b5 by simp
  note p6 = place_after_bounds(1-3) [OF _ al6 this, simplified]
  have o6: "uoff ?i6 p = uoff ?i5 p" if "p \<noteq> CODE" for p
    using only_offsets_same [OF p6(1), of p] that by simp
  have o5: "uoff ?i5 p = uoff img' p" if "p \<noteq> APP_CODE" for p
    using only_offsets_same [OF p5(1), of p] that by simp
  have pl: "disjoint_parts img' ?A" "\<And>p. p \<in> ?A \<Longrightarrow> 2 ^ ?k dvd uoff img' p"
    and srt: "sorted_wrt (\<lambda>p q. uoff img' p \<le> uoff img' q) ps"
    using r(4) unfolding placed_def st by blast+
  have neq: "p \<noteq> APP_CODE" "p \<noteq> CODE" if "p \<in> ?A" for p using that app by blast+
  have off: "uoff ?i6 p = uoff img' p" "usize ?i6 p = usize img' p" if "p \<in> ?A" for p
    using o6 [of p] o5 [of p] neq [OF that] only_offsets_fields [OF p6(1)] f5 by simp_all
  have app6: "uoff ?i6 APP_CODE = uoff ?i5 APP_CODE" by (rule o6) simp
  have before: "uoff img' p + usize img' p \<le> uoff ?i5 APP_CODE" if "p \<in> ?A" for p
  proof -
    have "uoff img' p + usize img' p \<le> uend img' ?l"
    proof (cases "p = ?l")
      case True
      then show ?thesis by (simp add: uend_def)
    next
      case False
      have p: "p \<in> set ps" "?l \<in> set ps" using that last_in_set [OF r(2)] unfolding st .
      show ?thesis
        using placed_pair [OF r(4) p False last_is_max [OF srt p(1)]] by (simp add: uend_def)
    qed
    then show ?thesis using p5(3) by linarith
  qed
  have ivt: "uoff ?i6 IVT = (if flash_boot c then 0 else 4096)"
  proof -
    have "uoff img' IVT = uoff (ready_layout c) IVT"
      using only_offsets_same [OF r(5), of IVT] unfolding fixed_auto_parts by (auto split: if_splits)
    then show ?thesis using off [OF app(3)] by (simp add: uoff_def ready_offsets layout_simps)
  qed
  have mbr: "uoff ?i6 MBR_RESERVED = 0" if "\<not> flash_boot c"
  proof -
    have "uoff img' MBR_RESERVED = uoff (ready_layout c) MBR_RESERVED"
      using only_offsets_same [OF r(5), of MBR_RESERVED] unfolding fixed_auto_parts by (auto split: if_splits)
    moreover have "MBR_RESERVED \<in> ?A" using that by (simp add: part_getters)
    ultimately show ?thesis using off by (simp add: uoff_def ready_offsets)
  qed
  let ?hs = "ic_offset (?i5 APP_CODE) + ic_size (?i5 APP_CODE)"
  let ?b = "\<lparr>bl_rc = 0, bl_header_size = ?hs, bl_image = Some (replicate (unat ?hs) 0), bl_layout = ?i6\<rparr>"
  have i6app: "?i6 APP_CODE = ?i5 APP_CODE" by (rule place_after_other) simp
  have lp: "last (replicate n None @ map Some ps) = Some ?l" using r(2) by (simp add: last_map)
  have "s32g2xx_build_layout qs True c (boot_layout c) = Some (Inr ?b)"
    unfolding s32g2xx_build_layout_def set_headers_size_ok [OF ok] sum.case Let_def
      ready_layout_def [symmetric] r(1)
    by (simp add: lp i6app)
  moreover have "bl_rc ?b = 0" "bl_image ?b = Some (replicate (unat (bl_header_size ?b)) 0)" by simp_all
  moreover have "disjoint_parts (bl_layout ?b) ?A"
    using pl(1) off unfolding disjoint_parts_def by simp
  moreover have "\<forall>p \<in> ?A. 2 ^ ?k dvd uoff (bl_layout ?b) p \<and>
       usize (bl_layout ?b) p = usize (ready_layout c) p \<and>
       uoff (bl_layout ?b) p + usize (ready_layout c) p \<le> uoff (bl_layout ?b) APP_CODE"
    using pl(2) off before app6 f by simp
  moreover have "2 ^ ?k dvd uoff (bl_layout ?b) APP_CODE" using p5(2) app6 by simp
  moreover have "unat (bl_header_size ?b) = uoff (bl_layout ?b) APP_CODE + 64" using hs app6 by simp
  moreover have "unat (bl_header_size ?b) < 2 ^ 32" using hs p5(4) b5 e5 by simp
  moreover have "unat (bl_header_size ?b) \<le> uoff (bl_layout ?b) CODE" using hs p6(3) e5 by simp
  moreover have "8 dvd uoff (bl_layout ?b) CODE" using p6(2) by simp
  ultimately show ?thesis using ivt mbr by (intro exI [of _ ?b]) simp
qed



end
