(* ===== verification/Mkconfig.thy ===== *)
theory Mkconfig
  imports Layout
begin

text \<open>
  The configuration-file parser of tools/mkimage/mkimage.c: \<open>build_conf\<close> reads the file line by
  line and \<open>parse_config_line\<close> hands each line to the handler of its first word, which updates
  the two globals \<open>iconfig\<close> and \<open>image_layout\<close>.

  \<open>sscanf\<close> is modelled for the formats of the file, conversion by conversion.  The files the
  configuration names are an environment.  \<open>None\<close> is undefined behaviour: a token copied
  beyond its buffer, or a number that does not fit its variable.
\<close>

section \<open>State and environment\<close>

record tool_state =
  ts_conf :: image_config
  ts_layout :: program_image

definition tool_init :: tool_state where
  "tool_init = \<lparr>ts_conf = iconfig_init, ts_layout = image_layout_init\<rparr>"

text \<open>
  A file is its contents or the \<open>errno\<close> of opening it; \<open>he_alloc n\<close> says whether an allocation of \<open>n\<close>
  bytes succeeds, \<open>he_calloc\<close> whether that of the image header does.
\<close>

record host_env =
  he_file :: "string \<Rightarrow> int + u8 list"
  he_alloc :: "nat \<Rightarrow> bool"
  he_calloc :: bool

type_synonym handler_result = "(int \<times> tool_state) option"

section \<open>Scanning\<close>

definition ltrim :: "string \<Rightarrow> string" where
  "ltrim s = dropWhile isspace s"

definition scan_set :: "(char \<Rightarrow> bool) \<Rightarrow> string \<Rightarrow> (string \<times> string) option" where
  "scan_set P s = (let t = takeWhile P s in if t = [] then None else Some (t, dropWhile P s))"

definition scan_lit :: "string \<Rightarrow> string \<Rightarrow> string option" where
  "scan_lit l s = (if take (length l) s = l then Some (drop (length l) s) else None)"

definition hex_digits :: string where
  "hex_digits = ''0123456789abcdef''"

definition hex_val :: "char \<Rightarrow> nat option" where
  "hex_val c =
     (let n = of_char c :: nat
      in if 48 \<le> n \<and> n \<le> 57 then Some (n - 48)
         else if 97 \<le> n \<and> n \<le> 102 then Some (n - 87)
         else if 65 \<le> n \<and> n \<le> 70 then Some (n - 55) else None)"

definition hex_value :: "string \<Rightarrow> nat" where
  "hex_value ds = foldl (\<lambda>n c. 16 * n + the (hex_val c)) 0 ds"

text \<open>
  The \<open>%x\<close> conversion: blanks, a sign, an optional \<open>0x\<close>, digits.  The outer \<open>None\<close> is a value that
  an \<open>unsigned int\<close> cannot hold, the inner one a matching failure.
\<close>

definition scan_hex :: "string \<Rightarrow> (u32 \<times> string) option option" where
  "scan_hex s =
     (let s1 = dropWhile isspace s;
          neg = (s1 \<noteq> [] \<and> hd s1 = CHR ''-'');
          s2 = (if s1 \<noteq> [] \<and> hd s1 \<in> {CHR ''-'', CHR ''+''} then tl s1 else s1);
          s3 = (if take 2 s2 \<in> {''0x'', ''0X''} then drop 2 s2 else s2);
          ds = takeWhile (\<lambda>c. hex_val c \<noteq> None) s3;
          n = hex_value ds
      in if ds = [] then Some None
         else if n \<ge> 2 ^ 32 \<or> (neg \<and> n \<noteq> 0) then None
         else Some (Some (of_nat n, drop (length ds) s3)))"

text \<open>\<open>%*[^0]0x%x\<close>: skip to a zero, then a hexadecimal number.\<close>

definition scan_field :: "string \<Rightarrow> (u32 \<times> string) option option" where
  "scan_field s =
     (case scan_set (\<lambda>c. c \<noteq> CHR ''0'') s of
        None \<Rightarrow> Some None
      | Some (_, s1) \<Rightarrow> (case scan_lit ''0x'' s1 of None \<Rightarrow> Some None | Some s2 \<Rightarrow> scan_hex s2))"

text \<open>Up to \<open>n\<close> such fields; the conversions stop at the first one that does not match.\<close>

fun scan_fields :: "nat \<Rightarrow> string \<Rightarrow> u32 list option" where
  "scan_fields 0 s = Some []"
| "scan_fields (Suc n) s = do {
     r \<leftarrow> scan_field s;
     case r of
       None \<Rightarrow> Some []
     | Some (v, s') \<Rightarrow> do { vs \<leftarrow> scan_fields n s'; Some (v # vs) }
   }"

definition no_blank :: "char \<Rightarrow> bool" where
  "no_blank c \<longleftrightarrow> c \<noteq> CHR '' '' \<and> c \<noteq> CHR 0x09"

definition strncmp_tag :: "string \<Rightarrow> string \<Rightarrow> bool" where
  "strncmp_tag tag line \<longleftrightarrow> take (length tag) line = tag"

section \<open>The handlers\<close>

datatype boot_cpu = M7_0_BOOT | A53_0_BOOT | INVALID_BOOT_CPU

definition bcpus :: "(string \<times> boot_cpu) list" where
  "bcpus = [(''m7'', M7_0_BOOT), (''a53'', A53_0_BOOT)]"

text \<open>The first entry whose name is a prefix of the line.\<close>

fun first_prefix :: "(string \<times> 'a) list \<Rightarrow> 'a \<Rightarrow> string \<Rightarrow> 'a" where
  "first_prefix [] d line = d"
| "first_prefix ((nm, v) # xs) d line = (if strncmp_tag nm line then v else first_prefix xs d line)"

definition parse_boot_core :: "host_env \<Rightarrow> string \<Rightarrow> tool_state \<Rightarrow> handler_result" where
  "parse_boot_core env line st =
     (case first_prefix bcpus INVALID_BOOT_CPU line of
        M7_0_BOOT \<Rightarrow> Some (0, st\<lparr>ts_conf := (ts_conf st)\<lparr>a53_boot := False\<rparr>\<rparr>)
      | A53_0_BOOT \<Rightarrow> Some (0, st\<lparr>ts_conf := (ts_conf st)\<lparr>a53_boot := True\<rparr>\<rparr>)
      | INVALID_BOOT_CPU \<Rightarrow> Some (- EINVAL, st))"

datatype boot_type = QSPI_BOOT | SD_BOOT | EMMC_BOOT | INVALID_BOOT

definition bsources :: "(string \<times> boot_type) list" where
  "bsources = [(''qspi'', QSPI_BOOT), (''sd'', SD_BOOT), (''emmc'', EMMC_BOOT)]"

definition parse_boot_cmd :: "host_env \<Rightarrow> string \<Rightarrow> tool_state \<Rightarrow> handler_result" where
  "parse_boot_cmd env line st =
     (let boot = first_prefix bsources INVALID_BOOT line
      in if boot = INVALID_BOOT then Some (- EINVAL, st)
         else if boot = QSPI_BOOT then
           Some (0, st\<lparr>ts_conf := (ts_conf st)\<lparr>flash_boot := True\<rparr>,
                       ts_layout := set_offset IVT QSPI_IVT_OFFSET (ts_layout st)\<rparr>)
         else Some (0, st\<lparr>ts_layout := set_offset IVT SD_IVT_OFFSET (ts_layout st)\<rparr>))"

text \<open>
  \<open>map_file\<close>: the return code, and the new data and size when they are stored.  \<open>mmap\<close> refuses an
  empty file; the size has been stored by then and the data pointer is not a mapping (\<open>None\<close>).
\<close>

definition map_file :: "host_env \<Rightarrow> string \<Rightarrow> int \<times> (u8 list option \<times> nat) option" where
  "map_file env path =
     (case he_file env path of
        Inl errno \<Rightarrow> (- errno, None)
      | Inr bytes \<Rightarrow> if bytes = [] then (- EINVAL, Some (None, 0))
                     else (0, Some (Some bytes, length bytes)))"

definition parse_hse_cmd :: "host_env \<Rightarrow> string \<Rightarrow> tool_state \<Rightarrow> handler_result" where
  "parse_hse_cmd env line st =
     (let cap = min (length line) 256
      in if \<not> he_alloc env cap then Some (- ENOMEM, st)
         else case scan_lit [CHR 0x22] line of
           None \<Rightarrow> Some (- EINVAL, st)
         | Some s1 \<Rightarrow>
             (case scan_set (\<lambda>c. c \<noteq> CHR 0x22) s1 of
                None \<Rightarrow> Some (- EINVAL, st)
              | Some (path, _) \<Rightarrow>
                  if cap < length path + 1 then None
                  else
                    (let c1 = (ts_conf st)\<lparr>hse_enable := True\<rparr>; (rc, upd) = map_file env path
                     in Some (rc, st\<lparr>ts_conf :=
                          (case upd of None \<Rightarrow> c1
                           | Some (d, n) \<Rightarrow> c1\<lparr>hse_fw_data := d, hse_fw_size := n\<rparr>)\<rparr>))))"

definition dcd_cmds :: "(string \<times> dcd_cmd) list" where
  "dcd_cmds = [(''WRITE'', WRITE), (''CLEAR_MASK'', CLEAR_MASK), (''SET_MASK'', SET_MASK),
     (''CHECK_MASK_CLEAR'', CHECK_MASK_CLEAR), (''CHECK_MASK_SET'', CHECK_MASK_SET),
     (''CHECK_NOT_MASK'', CHECK_NOT_MASK), (''CHECK_NOT_CLEAR'', CHECK_NOT_CLEAR)]"

text \<open>\<open>char cmd[sizeof(dcd_cmds) / 2]\<close>, seven pointers of eight bytes.\<close>

definition dcd_cmd_buffer :: nat where
  "dcd_cmd_buffer = length dcd_cmds * 8 div 2"

text \<open>The loop does not stop at a match, so the last one counts.\<close>

fun last_equal :: "(string \<times> 'a) list \<Rightarrow> 'a \<Rightarrow> string \<Rightarrow> 'a" where
  "last_equal [] d s = d"
| "last_equal ((nm, v) # xs) d s = last_equal xs (if s = nm then v else d) s"

definition get_dcd_cmd_args :: "string \<Rightarrow> (int \<times> dcd_args option) option" where
  "get_dcd_cmd_args line =
     (case scan_set no_blank line of
        None \<Rightarrow> Some (- EINVAL, None)
      | Some (cmd, s1) \<Rightarrow>
          if dcd_cmd_buffer < length cmd + 1 then None
          else do {
            fs \<leftarrow> scan_fields 4 s1;
            if 1 + length fs < 4 then Some (- EINVAL, None)
            else
              (let c = last_equal dcd_cmds INVALID_DCD_CMD cmd;
                   a = \<lparr>da_cmd = c, da_addr = fs ! 1, da_value = fs ! 2, da_nbytes = fs ! 0,
                        da_count = (if 1 + length fs = 4 then 0 else fs ! 3)\<rparr>
               in if c = INVALID_DCD_CMD then Some (- EINVAL, None)
                  else if da_nbytes a \<notin> {1, 2, 4} then Some (- EINVAL, None)
                  else Some (0, Some a))
          })"

definition parse_dcd_cmd :: "host_env \<Rightarrow> string \<Rightarrow> tool_state \<Rightarrow> handler_result" where
  "parse_dcd_cmd env line st = do {
     (rc, a) \<leftarrow> get_dcd_cmd_args line;
     case a of
       None \<Rightarrow> Some (rc, st)
     | Some args \<Rightarrow> do {
         (rc2, c) \<leftarrow> add_to_dcd (he_alloc env) args (ts_conf st);
         Some (rc2, st\<lparr>ts_conf := c\<rparr>)
       }
   }"

definition parse_qspi_cmd :: "host_env \<Rightarrow> string \<Rightarrow> tool_state \<Rightarrow> handler_result" where
  "parse_qspi_cmd env line st =
     (let (rc, upd) = map_file env line
      in Some (rc, st\<lparr>ts_conf :=
           (case upd of None \<Rightarrow> ts_conf st
            | Some (d, n) \<Rightarrow> (ts_conf st)\<lparr>qspi_data := d, qspi_size := n\<rparr>)\<rparr>))"

text \<open>\<open>char cmd_str[sizeof(data_file_cmds)]\<close>, one pointer.\<close>

definition data_file_cmds :: "string list" where
  "data_file_cmds = [''SIZE'']"

definition data_file_cmd_buffer :: nat where
  "data_file_cmd_buffer = length data_file_cmds * 8"

definition parse_data_file_cmd :: "host_env \<Rightarrow> string \<Rightarrow> tool_state \<Rightarrow> handler_result" where
  "parse_data_file_cmd env line st =
     (case scan_set no_blank line of
        None \<Rightarrow> Some (- EINVAL, st)
      | Some (cmd, s1) \<Rightarrow>
          if data_file_cmd_buffer < length cmd + 1 then None
          else do {
            fs \<leftarrow> scan_fields 1 s1;
            if 1 + length fs < 2 then Some (- EINVAL, st)
            else if cmd \<notin> set data_file_cmds then Some (- EINVAL, st)
            else Some (0, st\<lparr>ts_conf := (ts_conf st)\<lparr>data_file_size := hd fs\<rparr>\<rparr>)
          })"

definition parse_err051257 :: "host_env \<Rightarrow> string \<Rightarrow> tool_state \<Rightarrow> handler_result" where
  "parse_err051257 env line st = Some (0, st\<lparr>ts_conf := (ts_conf st)\<lparr>err051257 := True\<rparr>\<rparr>)"

section \<open>Lines and files\<close>

definition parsers :: "(string \<times> (host_env \<Rightarrow> string \<Rightarrow> tool_state \<Rightarrow> handler_result)) list" where
  "parsers = [(''BOOT_CORE'', parse_boot_core), (''BOOT_FROM'', parse_boot_cmd), (''HSE_FW'', parse_hse_cmd),
     (''DCD'', parse_dcd_cmd), (''QSPI_PARAMS_FILE'', parse_qspi_cmd), (''DATA_FILE'', parse_data_file_cmd),
     (''ERR051257_WORKAROUND'', parse_err051257)]"

definition parse_config_line :: "host_env \<Rightarrow> string \<Rightarrow> tool_state \<Rightarrow> handler_result" where
  "parse_config_line env line st =
     (case find (\<lambda>(tag, _). strncmp_tag tag line) parsers of
        None \<Rightarrow> Some (- EINVAL, st)
      | Some (tag, h) \<Rightarrow> h env (ltrim (drop (length tag) line)) st)"

text \<open>One pass of the loop: the line of a chunk, \<open>None\<close> when it is skipped.\<close>

definition conf_line :: "string \<Rightarrow> string option" where
  "conf_line chunk =
     (let line = ltrim (c_string chunk)
      in if line = [] \<or> hd line = CHR ''#'' then None
         else if last line = CHR 0x0A then Some (butlast line) else Some line)"

fun conf_lines :: "host_env \<Rightarrow> string list \<Rightarrow> tool_state \<Rightarrow> handler_result" where
  "conf_lines env [] st = Some (0, st)"
| "conf_lines env (l # ls) st =
     (case conf_line l of
        None \<Rightarrow> conf_lines env ls st
      | Some line \<Rightarrow> do {
          (rc, st1) \<leftarrow> parse_config_line env line st;
          if rc \<noteq> 0 then Some (rc, st1) else conf_lines env ls st1
        })"

definition build_conf :: "host_env \<Rightarrow> string \<Rightarrow> tool_state \<Rightarrow> handler_result" where
  "build_conf env text st = conf_lines env (fgets_all 255 text) st"

text \<open>\<open>s32cc_parse_config\<close>; \<open>Inl\<close> is the exit when the file cannot be opened.\<close>

definition s32cc_parse_config ::
  "host_env \<Rightarrow> string option \<Rightarrow> tool_state \<Rightarrow> (string + int \<times> tool_state) option" where
  "s32cc_parse_config env conf st =
     (case conf of
        None \<Rightarrow> Some (Inl ''Could not open input file'')
      | Some text \<Rightarrow> map_option Inr (build_conf env text st))"

section \<open>Printing and scanning numbers\<close>

fun to_hex :: "nat \<Rightarrow> string" where
  "to_hex n = (if n < 16 then [hex_digits ! n] else to_hex (n div 16) @ [hex_digits ! (n mod 16)])"

declare to_hex.simps [simp del]

lemma less_16_cases:
  "d < 16 \<Longrightarrow> d \<in> {0, 1, 2, 3, 4, 5, 6, 7, 8, 9, 10, 11, 12, 13, 14, 15 :: nat}"
  by (simp add: eval_nat_numeral less_Suc_eq disj_ac)

lemma hex_digit:
  assumes "d < 16"
  shows "hex_val (hex_digits ! d) = Some d" "\<not> isspace (hex_digits ! d)" "hex_digits ! d \<noteq> CHR ''-''"
    "hex_digits ! d \<noteq> CHR ''+''"
  using less_16_cases [OF assms]
  by (auto simp: hex_digits_def hex_val_def isspace_def numeral_eq_Suc)

lemma to_hex_digits: "list_all (\<lambda>c. hex_val c \<noteq> None) (to_hex n)"
  by (induction n rule: to_hex.induct) (subst to_hex.simps, auto simp: hex_digit)

lemma to_hex_nonempty: "to_hex n \<noteq> []"
  by (subst to_hex.simps) simp

lemma to_hex_hd: "\<exists>d < 16. hd (to_hex n) = hex_digits ! d"
proof (induction n rule: to_hex.induct)
  case (1 n)
  show ?case
  proof (cases "n < 16")
    case True
    then show ?thesis by (subst to_hex.simps) auto
  next
    case False
    with 1 show ?thesis by (subst to_hex.simps) (simp add: to_hex_nonempty)
  qed
qed

lemma hex_value_append: "hex_value (ds @ [c]) = 16 * hex_value ds + the (hex_val c)"
  by (simp add: hex_value_def)

lemma hex_value_to_hex: "hex_value (to_hex n) = n"
proof (induction n rule: to_hex.induct)
  case (1 n)
  show ?case
  proof (cases "n < 16")
    case True
    then have "to_hex n = [hex_digits ! n]" by (subst to_hex.simps) simp
    then show ?thesis using True by (simp add: hex_value_def hex_digit)
  next
    case False
    then have "to_hex n = to_hex (n div 16) @ [hex_digits ! (n mod 16)]" by (subst to_hex.simps) simp
    then show ?thesis using 1 [OF False] by (simp add: hex_value_append hex_digit)
  qed
qed

text \<open>What may follow a number for the scan to stop there.\<close>

definition ends_number :: "string \<Rightarrow> bool" where
  "ends_number s \<longleftrightarrow> s = [] \<or> hd s = CHR '' ''"

lemma ends_number_hex: "ends_number s \<Longrightarrow> s = [] \<or> \<not> hex_val (hd s) \<noteq> None"
  by (auto simp: ends_number_def hex_val_def)

lemma hex_take2:
  assumes "ends_number s"
  shows "take 2 (to_hex n @ s) \<notin> {''0x'', ''0X''}"
proof
  assume a: "take 2 (to_hex n @ s) \<in> {''0x'', ''0X''}"
  obtain c cs where h: "to_hex n = c # cs" using to_hex_nonempty [of n] by (cases "to_hex n") auto
  show False
  proof (cases cs)
    case Nil
    then show False using a h assms by (cases s) (auto simp: ends_number_def numeral_2_eq_2)
  next
    case (Cons d ds)
    then have "hex_val d \<noteq> None" using to_hex_digits [of n] h by simp
    then show False using a h Cons by (auto simp: numeral_2_eq_2 hex_val_def)
  qed
qed

lemma scan_hex_print:
  assumes "ends_number s" "n < 2 ^ 32"
  shows "scan_hex (to_hex n @ s) = Some (Some (of_nat n, s))"
proof -
  let ?t = "to_hex n @ s"
  obtain d where d: "d < 16" "hd (to_hex n) = hex_digits ! d" using to_hex_hd by blast
  have hd: "hd ?t = hex_digits ! d" "?t \<noteq> []" using d to_hex_nonempty [of n] by (simp_all add: hd_append)
  have sp: "dropWhile isspace ?t = ?t" using hd hex_digit(2) [OF d(1)] by (cases ?t) auto
  have sg: "hd ?t \<notin> {CHR ''-'', CHR ''+''}" "hd ?t \<noteq> CHR ''-''"
    using hd hex_digit(3,4) [OF d(1)] by auto
  have tw: "takeWhile (\<lambda>c. hex_val c \<noteq> None) ?t = to_hex n"
    by (rule takeWhile_stop [OF to_hex_digits ends_number_hex [OF assms(1)]])
  show ?thesis
    using assms(2) sg hex_take2 [OF assms(1), of n] to_hex_nonempty [of n]
    unfolding scan_hex_def Let_def sp
    by (simp del: take_append not_None_eq add: tw hex_value_to_hex hd(2))
qed

definition hex_field :: "u32 \<Rightarrow> string" where
  "hex_field v = '' 0x'' @ to_hex (unat v)"

lemma scan_field_print: "ends_number s \<Longrightarrow> scan_field (hex_field v @ s) = Some (Some (v, s))"
proof -
  assume e: "ends_number s"
  have "unat v < 2 ^ 32" using unsigned_less [of v] by simp
  then have "scan_hex (to_hex (unat v) @ s) = Some (Some (v, s))" using scan_hex_print [OF e] by simp
  then show ?thesis by (simp add: scan_field_def hex_field_def scan_set_def scan_lit_def Let_def)
qed

lemma ends_number_field [simp]: "ends_number (hex_field v @ s)" "ends_number []"
  by (simp_all add: ends_number_def hex_field_def)

lemma scan_fields_print:
  "n = length vs \<Longrightarrow> ends_number s \<Longrightarrow> scan_fields n (concat (map hex_field vs) @ s) = Some vs"
proof (induction vs arbitrary: n)
  case Nil
  then show ?case by simp
next
  case (Cons v vs)
  have "ends_number (concat (map hex_field vs) @ s)" using Cons.prems by (cases vs) simp_all
  with Cons show ?case by (simp add: scan_field_print)
qed

lemma scan_fields_short: "scan_fields (Suc n) [] = Some []"
  by (simp add: scan_field_def scan_set_def)

section \<open>Configuration lines for DCD commands\<close>

fun dcd_name :: "dcd_cmd \<Rightarrow> string" where
  "dcd_name WRITE = ''WRITE''"
| "dcd_name CLEAR_MASK = ''CLEAR_MASK''"
| "dcd_name SET_MASK = ''SET_MASK''"
| "dcd_name CHECK_MASK_CLEAR = ''CHECK_MASK_CLEAR''"
| "dcd_name CHECK_MASK_SET = ''CHECK_MASK_SET''"
| "dcd_name CHECK_NOT_MASK = ''CHECK_NOT_MASK''"
| "dcd_name CHECK_NOT_CLEAR = ''CHECK_NOT_CLEAR''"
| "dcd_name INVALID_DCD_CMD = ''?''"

definition dcd_fields :: "dcd_args \<Rightarrow> u32 list" where
  "dcd_fields a = [da_nbytes a, da_addr a, da_value a] @ (if da_count a = 0 then [] else [da_count a])"

definition dcd_line :: "dcd_args \<Rightarrow> string" where
  "dcd_line a = dcd_name (da_cmd a) @ concat (map hex_field (dcd_fields a))"

lemma dcd_name_facts:
  "list_all no_blank (dcd_name c)" "dcd_name c \<noteq> []" "length (dcd_name c) \<le> 16"
  "c \<noteq> INVALID_DCD_CMD \<Longrightarrow> last_equal dcd_cmds INVALID_DCD_CMD (dcd_name c) = c"
  "\<not> isspace (hd (dcd_name c))" "CHR 0x0A \<notin> set (dcd_name c)" "CHR 0x00 \<notin> set (dcd_name c)"
  by (cases c; simp add: no_blank_def dcd_cmds_def isspace_def)+

lemma scan_dcd_fields: "scan_fields 4 (concat (map hex_field (dcd_fields a))) = Some (dcd_fields a)"
proof (cases "da_count a = 0")
  case False
  then show ?thesis using scan_fields_print [of 4 "dcd_fields a" "[]"] by (simp add: dcd_fields_def)
next
  case True
  have e: "ends_number (concat (map hex_field vs))" for vs by (cases vs) simp_all
  have e1: "ends_number (hex_field v)" for v using ends_number_field(1) [of v "[]"] by simp
  have l: "scan_field (hex_field v) = Some (Some (v, []))" for v
    using scan_field_print [of "[]" v] by simp
  show ?thesis
    using True by (simp add: dcd_fields_def numeral_eq_Suc scan_field_print e1 l scan_field_def [of "[]"] scan_set_def)
qed

lemma get_dcd_cmd_args_print:
  assumes "dcd_valid a"
  shows "get_dcd_cmd_args (dcd_line a) = Some (0, Some a)"
proof -
  let ?r = "concat (map hex_field (dcd_fields a))"
  have r: "?r \<noteq> []" "\<not> no_blank (hd ?r)" by (simp_all add: dcd_fields_def hex_field_def no_blank_def)
  have tw: "takeWhile no_blank (dcd_line a) = dcd_name (da_cmd a)"
    unfolding dcd_line_def using takeWhile_stop [OF dcd_name_facts(1)] r by blast
  then have dw: "dropWhile no_blank (dcd_line a) = ?r"
    by (simp add: dropWhile_eq_drop dcd_line_def)
  have s: "scan_set no_blank (dcd_line a) = Some (dcd_name (da_cmd a), ?r)"
    using dcd_name_facts(2) by (simp add: scan_set_def Let_def tw dw)
  have "\<not> dcd_cmd_buffer < length (dcd_name (da_cmd a)) + 1"
    using dcd_name_facts(3) [of "da_cmd a"] by (simp add: dcd_cmd_buffer_def dcd_cmds_def)
  moreover have "last_equal dcd_cmds INVALID_DCD_CMD (dcd_name (da_cmd a)) = da_cmd a"
    using assms by (intro dcd_name_facts(4)) (simp add: dcd_valid_def)
  ultimately show ?thesis
    using assms by (simp add: get_dcd_cmd_args_def s scan_dcd_fields)
      (simp add: dcd_fields_def Let_def dcd_valid_def)
qed

text \<open>
  Printing a valid command as a configuration line and parsing it gives it back, all five
  fields included: the format string of \<open>get_dcd_cmd_args\<close> is faithful.
\<close>

theorem dcd_line_roundtrip:
  assumes "dcd_valid a"
  shows "get_dcd_cmd_args (dcd_line a) = Some (0, Some a)"
  by (rule get_dcd_cmd_args_print [OF assms])

theorem dcd_line_roundtrip_witness:
  "get_dcd_cmd_args (dcd_line demo_cmd) = Some (0, Some demo_cmd)"
  by (rule dcd_line_roundtrip) (simp add: demo_cmd_def dcd_valid_def)

text \<open>
  The unbounded \<open>%[^ \t]\<close> conversions: a first word of 28 characters or more in a DCD line, or
  of 8 or more in a DATA_FILE line, overruns the buffer it is copied to.
\<close>

theorem config_word_overflow:
  assumes "list_all no_blank w" and "rest = [] \<or> \<not> no_blank (hd rest)"
  shows "(28 \<le> length w \<longrightarrow> get_dcd_cmd_args (w @ rest) = None) \<and>
    (8 \<le> length w \<longrightarrow> parse_data_file_cmd env (w @ rest) st = None)"
proof -
  have "takeWhile no_blank (w @ rest) = w" by (rule takeWhile_stop [OF assms])
  then have s: "scan_set no_blank (w @ rest) = Some (w, dropWhile no_blank (w @ rest))" if "w \<noteq> []"
    using that by (simp add: scan_set_def Let_def)
  show ?thesis
  proof (cases "w = []")
    case True
    then show ?thesis by simp
  next
    case False
    then show ?thesis
      by (simp add: get_dcd_cmd_args_def parse_data_file_cmd_def s dcd_cmd_buffer_def dcd_cmds_def
          data_file_cmd_buffer_def data_file_cmds_def)
  qed
qed

definition demo_env :: host_env where
  "demo_env = \<lparr>he_file = (\<lambda>p. if p = ''hse.bin'' then Inr [1, 2, 3] else Inl 2), he_alloc = (\<lambda>_. True), he_calloc = True\<rparr>"

theorem config_word_overflow_witness:
  "parse_data_file_cmd demo_env ''MAXIMUM_SIZE 0x10'' tool_init = None"
proof -
  have "list_all no_blank ''MAXIMUM_SIZE''" "'' 0x10'' = [] \<or> \<not> no_blank (hd '' 0x10'')"
    by (simp_all add: no_blank_def)
  from config_word_overflow [OF this, of demo_env tool_init] show ?thesis by simp
qed

section \<open>A file of DCD commands\<close>

lemma to_hex_length: "n < 16 ^ k \<Longrightarrow> 0 < k \<Longrightarrow> length (to_hex n) \<le> k"
proof (induction n arbitrary: k rule: to_hex.induct)
  case (1 n)
  show ?case
  proof (cases "n < 16")
    case True
    then show ?thesis using 1(3) by (subst to_hex.simps) simp
  next
    case False
    then obtain m where m: "k = Suc m" "0 < m" using 1(2,3) by (cases k; cases "k - 1") auto
    then have "n div 16 < 16 ^ m" using 1(2) by (simp add: less_mult_imp_div_less mult.commute)
    then have "length (to_hex (n div 16)) \<le> m" using 1(1) [OF False] m(2) by blast
    then show ?thesis using False m(1) by (subst to_hex.simps) simp
  qed
qed

lemma hex_field_length: "length (hex_field v) \<le> 11"
proof -
  have "unat v < 2 ^ 32" using unsigned_less [of v] by simp
  then have "unat v < 16 ^ 8" by simp
  from to_hex_length [OF this] show ?thesis by (simp add: hex_field_def)
qed

lemma hex_field_chars: "CHR 0x0A \<notin> set (hex_field v)" "CHR 0x00 \<notin> set (hex_field v)"
proof -
  have no: "hex_val (CHR 0x0A) = None" "hex_val (CHR 0x00) = None"
    by (simp_all add: hex_val_def)
  have "c \<in> set (to_hex n) \<Longrightarrow> hex_val c \<noteq> None" for c n
    using to_hex_digits [of n] by (auto simp: list_all_iff)
  then have "CHR 0x0A \<notin> set (to_hex (unat v))" "CHR 0x00 \<notin> set (to_hex (unat v))"
    using no by metis+
  then show "CHR 0x0A \<notin> set (hex_field v)" "CHR 0x00 \<notin> set (hex_field v)"
    by (simp_all add: hex_field_def)
qed

lemma dcd_line_facts:
  "length (dcd_line a) \<le> 60" "CHR 0x0A \<notin> set (dcd_line a)" "CHR 0x00 \<notin> set (dcd_line a)"
proof -
  have "length (concat (map hex_field (dcd_fields a))) \<le> 44"
    using hex_field_length [of "da_nbytes a"] hex_field_length [of "da_addr a"]
      hex_field_length [of "da_value a"] hex_field_length [of "da_count a"]
    by (simp add: dcd_fields_def)
  then show "length (dcd_line a) \<le> 60" using dcd_name_facts(3) [of "da_cmd a"]
    by (simp add: dcd_line_def)
  show "CHR 0x0A \<notin> set (dcd_line a)" "CHR 0x00 \<notin> set (dcd_line a)"
    using hex_field_chars dcd_name_facts(6,7) [of "da_cmd a"] by (auto simp: dcd_line_def dcd_fields_def)
qed

definition dcd_file :: "dcd_args list \<Rightarrow> string" where
  "dcd_file as = concat (map (\<lambda>a. ''DCD '' @ dcd_line a @ [CHR 0x0A]) as)"

lemma dcd_file_chunks: "fgets_all 255 (dcd_file as) = map (\<lambda>a. ''DCD '' @ dcd_line a @ [CHR 0x0A]) as"
proof (induction as)
  case Nil
  then show ?case by (simp add: dcd_file_def fgets_all.simps)
next
  case (Cons a as)
  have "fgets_all 255 ((''DCD '' @ dcd_line a) @ CHR 0x0A # dcd_file as) =
      ((''DCD '' @ dcd_line a) @ [CHR 0x0A]) # fgets_all 255 (dcd_file as)"
    by (rule fgets_all_line) (use dcd_line_facts [of a] in auto)
  then show ?case using Cons by (simp add: dcd_file_def)
qed

lemma conf_line_dcd: "conf_line (''DCD '' @ dcd_line a @ [CHR 0x0A]) = Some (''DCD '' @ dcd_line a)"
proof -
  have c: "c_string (''DCD '' @ dcd_line a @ [CHR 0x0A]) = ''DCD '' @ dcd_line a @ [CHR 0x0A]"
    by (rule c_string_id) (use dcd_line_facts(3) [of a] in auto)
  show ?thesis unfolding conf_line_def c by (simp add: ltrim_def isspace_def butlast_append Let_def)
qed

lemma parse_config_line_dcd:
  assumes "dcd_valid a"
  shows "parse_config_line env (''DCD '' @ dcd_line a) st =
    map_option (\<lambda>(rc, c). (rc, st\<lparr>ts_conf := c\<rparr>)) (add_to_dcd (he_alloc env) a (ts_conf st))"
proof -
  have "dcd_line a \<noteq> []" "\<not> isspace (hd (dcd_line a))"
    using dcd_name_facts(2,5) by (simp_all add: dcd_line_def)
  moreover have sp: "isspace (CHR '' '')" by (simp add: isspace_def)
  ultimately have l: "ltrim ('' '' @ dcd_line a) = dcd_line a"
    using sp by (cases "dcd_line a") (simp_all add: ltrim_def)
  have "parse_config_line env (''DCD '' @ dcd_line a) st = parse_dcd_cmd env (dcd_line a) st"
    using l by (simp add: parse_config_line_def parsers_def strncmp_tag_def)
  then show ?thesis
    by (simp add: parse_dcd_cmd_def get_dcd_cmd_args_print [OF assms] map_conv_bind_option case_prod_unfold comp_def)
qed

lemma conf_lines_dcd:
  "list_all dcd_valid as \<Longrightarrow>
   conf_lines env (map (\<lambda>a. ''DCD '' @ dcd_line a @ [CHR 0x0A]) as) st =
   map_option (\<lambda>(rc, c). (rc, st\<lparr>ts_conf := c\<rparr>)) (add_all (he_alloc env) as (ts_conf st))"
proof (induction as arbitrary: st)
  case Nil
  then show ?case by simp
next
  case (Cons a as)
  then show ?case
    by (cases "add_to_dcd (he_alloc env) a (ts_conf st)")
      (auto simp: conf_line_dcd [simplified] parse_config_line_dcd [simplified])
qed

text \<open>
  C10.  From text to device configuration data: reading a configuration file that lists valid DCD
  commands one per line succeeds and leaves in \<open>iconfig\<close> an array of words, headed by the DCD
  header, from which the same commands decode; nothing else of the state changes.
\<close>

theorem build_conf_dcd_file:
  assumes valid: "list_all (\<lambda>a. dcd_valid a \<and> (dcd_write_cmd a \<longrightarrow> da_count a = 0)) as" and ne: "as \<noteq> []"
    and env: "\<forall>n. he_alloc env n" and st: "dcd_wf (ts_conf st)" "dcd_data (ts_conf st) = None"
  shows "\<exists>st' ws. build_conf env (dcd_file as) st = Some (0, st') \<and> ts_layout st' = ts_layout st \<and>
    same_rest (ts_conf st) (ts_conf st') \<and> dcd_wf (ts_conf st') \<and>
    dcd_words (ts_conf st') = DCD_HEADER # ws \<and> dcd_decode ws = Some as"
proof -
  obtain a as' where as: "as = a # as'" using ne by (cases as) auto
  have v: "list_all dcd_valid as" using valid by (simp add: list_all_iff)
  then have va: "dcd_valid a" "list_all dcd_valid as'" by (simp_all add: as)
  obtain c1 where c1: "add_to_dcd (he_alloc env) a (ts_conf st) = Some (0, c1)" "dcd_wf c1"
    "same_rest (ts_conf st) c1" "dcd_data c1 \<noteq> None" "dcd_words c1 = [DCD_HEADER] @ dcd_encode a"
    using add_to_dcd_words [OF st(1) env va(1)] st(2) by auto
  obtain c2 where c2: "add_all (he_alloc env) as' c1 = Some (0, c2)" "dcd_wf c2" "same_rest c1 c2"
    "dcd_words c2 = dcd_words c1 @ concat (map dcd_encode as')"
    using add_all_words [OF env c1(2,4) va(2)] by blast
  have "build_conf env (dcd_file as) st = Some (0, st\<lparr>ts_conf := c2\<rparr>)"
    unfolding build_conf_def dcd_file_chunks conf_lines_dcd [OF v] using c1(1) c2(1) by (simp add: as)
  moreover have "dcd_words c2 = DCD_HEADER # concat (map dcd_encode as)" using c1(5) c2(4) as by simp
  ultimately show ?thesis
    using c2(2) same_rest_trans [OF c1(3) c2(3)] dcd_decode_encode [OF valid]
    by (intro exI [of _ "st\<lparr>ts_conf := c2\<rparr>"] exI [of _ "concat (map dcd_encode as)"]) simp
qed

theorem build_conf_dcd_file_witness:
  "\<exists>st' ws. build_conf demo_env (dcd_file [demo_cmd]) tool_init = Some (0, st') \<and>
    dcd_words (ts_conf st') = DCD_HEADER # ws \<and> dcd_decode ws = Some [demo_cmd]"
proof -
  have "list_all (\<lambda>a. dcd_valid a \<and> (dcd_write_cmd a \<longrightarrow> da_count a = 0)) [demo_cmd]"
    by (simp add: demo_cmd_def dcd_valid_def dcd_write_cmd_def)
  moreover have "dcd_wf (ts_conf tool_init)" "dcd_data (ts_conf tool_init) = None"
    by (simp_all add: tool_init_def iconfig_init_def dcd_wf_def)
  ultimately show ?thesis
    using build_conf_dcd_file [of "[demo_cmd]" demo_env tool_init] by (auto simp: demo_env_def)
qed

section \<open>Other handlers\<close>

text \<open>A failed open reports a positive \<open>errno\<close>, as POSIX promises.\<close>

definition errno_positive :: "host_env \<Rightarrow> bool" where
  "errno_positive env \<longleftrightarrow> (\<forall>path e. he_file env path = Inl e \<longrightarrow> 0 < e)"

text \<open>
  The HSE firmware line: for every line a configuration file can contain, the path fits the
  buffer allocated for it, so the handler always returns; a quoted path of a non-empty readable
  file enables HSE with that file's contents and size, and a line that is not a quoted path
  changes nothing.
\<close>

theorem parse_hse_cmd_safe:
  assumes len: "length line \<le> 256" and al: "he_alloc env (length line)" and env: "errno_positive env"
  shows "\<exists>rc st'. parse_hse_cmd env line st = Some (rc, st') \<and>
    (rc = 0 \<longrightarrow> (\<exists>path rest bytes. line = [CHR 0x22] @ path @ rest \<and> CHR 0x22 \<notin> set path \<and>
       he_file env path = Inr bytes \<and> st' = st\<lparr>ts_conf := (ts_conf st)\<lparr>hse_enable := True,
         hse_fw_data := Some bytes, hse_fw_size := length bytes\<rparr>\<rparr> \<and> bytes \<noteq> []))"
proof -
  have cap: "min (length line) 256 = length line" using len by simp
  show ?thesis
  proof (cases "scan_lit [CHR 0x22] line")
    case None
    then show ?thesis using al by (simp add: parse_hse_cmd_def cap)
  next
    case (Some s1)
    then have line: "line = CHR 0x22 # s1" by (cases line) (auto simp: scan_lit_def split: if_splits)
    show ?thesis
    proof (cases "scan_set (\<lambda>c. c \<noteq> CHR 0x22) s1")
      case None
      then show ?thesis using al Some by (simp add: parse_hse_cmd_def cap)
    next
      case (Some ps)
      obtain path r where ps: "ps = (path, r)" by (cases ps)
      have p: "path = takeWhile (\<lambda>c. c \<noteq> CHR 0x22) s1" "path \<noteq> []" "r = dropWhile (\<lambda>c. c \<noteq> CHR 0x22) s1"
        using Some ps by (auto simp: scan_set_def Let_def split: if_splits)
      have s1: "s1 = path @ r" using p by simp
      have nq: "CHR 0x22 \<notin> set path" using p(1) by (auto dest: set_takeWhileD)
      have "\<not> length line < length path + 1" using line s1 by simp
      then have "parse_hse_cmd env line st =
          (let c1 = (ts_conf st)\<lparr>hse_enable := True\<rparr>; (rc, upd) = map_file env path
           in Some (rc, st\<lparr>ts_conf :=
                (case upd of None \<Rightarrow> c1 | Some (d, n) \<Rightarrow> c1\<lparr>hse_fw_data := d, hse_fw_size := n\<rparr>)\<rparr>))"
        using al \<open>scan_lit [CHR 0x22] line = Some s1\<close> Some ps by (simp add: parse_hse_cmd_def cap)
      moreover have "line = [CHR 0x22] @ path @ r" using line s1 by simp
      ultimately show ?thesis using nq
        using env by (cases "he_file env path") (auto simp: map_file_def Let_def errno_positive_def)
    qed
  qed
qed

theorem parse_hse_cmd_safe_witness:
  "\<exists>rc st'. parse_hse_cmd demo_env (CHR 0x22 # ''hse.bin'' @ [CHR 0x22]) tool_init = Some (rc, st')"
proof -
  have "errno_positive demo_env" "\<And>n. he_alloc demo_env n"
    by (simp_all add: demo_env_def errno_positive_def)
  then show ?thesis
    using parse_hse_cmd_safe [of "CHR 0x22 # ''hse.bin'' @ [CHR 0x22]" demo_env tool_init] by simp blast
qed

text \<open>
  \<open>BOOT_FROM\<close> lines: QSPI selects the flash layout and the SD and eMMC sources move the image
  vector table to 4096, but neither clears \<open>flash_boot\<close>, so an SD line after a QSPI line leaves
  a flash image whose vector table is not where the boot ROM looks for it.
\<close>

theorem parse_boot_cmd_sources:
  assumes "src \<in> {''sd'', ''emmc''}"
  shows "\<exists>st1 st2. parse_boot_cmd env (''qspi'' @ rest) st = Some (0, st1) \<and>
    flash_boot (ts_conf st1) \<and> ic_offset (ts_layout st1 IVT) = QSPI_IVT_OFFSET \<and>
    parse_boot_cmd env (src @ rest) st = Some (0, st2) \<and>
    flash_boot (ts_conf st2) = flash_boot (ts_conf st) \<and> ic_offset (ts_layout st2 IVT) = SD_IVT_OFFSET \<and>
    (\<exists>st3. parse_boot_cmd env (src @ rest) st1 = Some (0, st3) \<and>
       flash_boot (ts_conf st3) \<and> ic_offset (ts_layout st3 IVT) = SD_IVT_OFFSET)"
  using assms by (auto simp: parse_boot_cmd_def bsources_def strncmp_tag_def Let_def)

theorem parse_boot_cmd_sources_witness:
  "\<exists>st1. parse_boot_cmd demo_env ''qspi'' tool_init = Some (0, st1) \<and> flash_boot (ts_conf st1)"
  using parse_boot_cmd_sources [of "''sd''" demo_env "''''" tool_init] by auto

end
