(* ===== verification/Bytes.thy ===== *)
theory Bytes
  imports Prelude
begin

text \<open>
  Byte buffers: stores and loads of 8, 16 and 32-bit little-endian fields at an offset, with
  \<open>None\<close> for an access outside the buffer, and the laws that let a proof read back a field through
  a sequence of stores.
\<close>

definition poke :: "nat \<Rightarrow> u8 list \<Rightarrow> u8 list \<Rightarrow> u8 list option" where
  "poke off bs buf =
     (if off + length bs \<le> length buf then Some (take off buf @ bs @ drop (off + length bs) buf) else None)"

definition peek :: "nat \<Rightarrow> nat \<Rightarrow> u8 list \<Rightarrow> u8 list option" where
  "peek off n buf = (if off + n \<le> length buf then Some (take n (drop off buf)) else None)"

definition le16 :: "u16 \<Rightarrow> u8 list" where
  "le16 w = [ucast w, ucast (drop_bit 8 w)]"

definition le32 :: "u32 \<Rightarrow> u8 list" where
  "le32 w = [ucast w, ucast (drop_bit 8 w), ucast (drop_bit 16 w), ucast (drop_bit 24 w)]"

fun un_le16 :: "u8 list \<Rightarrow> u16" where
  "un_le16 [a, b] = or (ucast a) (push_bit 8 (ucast b))"
| "un_le16 _ = 0"

fun un_le32 :: "u8 list \<Rightarrow> u32" where
  "un_le32 [a, b, c, d] =
     or (ucast a) (or (push_bit 8 (ucast b)) (or (push_bit 16 (ucast c)) (push_bit 24 (ucast d))))"
| "un_le32 _ = 0"

definition peek8 :: "nat \<Rightarrow> u8 list \<Rightarrow> u8 option" where
  "peek8 off buf = map_option hd (peek off 1 buf)"

definition peek16 :: "nat \<Rightarrow> u8 list \<Rightarrow> u16 option" where
  "peek16 off buf = map_option un_le16 (peek off 2 buf)"

definition peek32 :: "nat \<Rightarrow> u8 list \<Rightarrow> u32 option" where
  "peek32 off buf = map_option un_le32 (peek off 4 buf)"

text \<open>A sequence of stores.\<close>

fun pokes :: "(nat \<times> u8 list) list \<Rightarrow> u8 list \<Rightarrow> u8 list option" where
  "pokes [] buf = Some buf"
| "pokes ((off, bs) # ws) buf = do { b \<leftarrow> poke off bs buf; pokes ws b }"

lemma le16_inverse [simp]: "un_le16 (le16 w) = w"
proof (rule bit_word_eqI)
  fix n
  assume "n < LENGTH(16)"
  then consider "n < 8" | "8 \<le> n" "n < 16" by (simp; linarith)
  then show "bit (un_le16 (le16 w)) n \<longleftrightarrow> bit w n"
    unfolding le16_def by cases (auto simp: bit_simps)
qed

lemma le32_inverse [simp]: "un_le32 (le32 w) = w"
proof (rule bit_word_eqI)
  fix n
  assume "n < LENGTH(32)"
  then consider "n < 8" | "8 \<le> n" "n < 16" | "16 \<le> n" "n < 24" | "24 \<le> n" "n < 32" by (simp; linarith)
  then show "bit (un_le32 (le32 w)) n \<longleftrightarrow> bit w n"
    unfolding le32_def by cases (auto simp: bit_simps)
qed

lemma le_lengths [simp]: "length (le16 v) = 2" "length (le32 w) = 4"
  by (simp_all add: le16_def le32_def)

lemma poke_length: "poke off bs buf = Some buf' \<Longrightarrow> length buf' = length buf"
  by (auto simp: poke_def split: if_splits)

lemma peek_poke_same:
  "poke off bs buf = Some buf' \<Longrightarrow> peek off (length bs) buf' = Some bs"
  by (auto simp: poke_def peek_def split: if_splits)

lemma peek_poke_other:
  assumes "poke off bs buf = Some buf'" "i + n \<le> off \<or> off + length bs \<le> i"
  shows "peek i n buf' = peek i n buf"
proof -
  have e: "off + length bs \<le> length buf" "buf' = take off buf @ bs @ drop (off + length bs) buf"
    using assms(1) by (auto simp: poke_def split: if_splits)
  have "take n (drop i buf') = take n (drop i buf)" if "i + n \<le> length buf"
  proof (rule nth_equalityI)
    show "length (take n (drop i buf')) = length (take n (drop i buf))"
      using poke_length [OF assms(1)] by simp
    fix j
    assume "j < length (take n (drop i buf'))"
    then show "take n (drop i buf') ! j = take n (drop i buf) ! j"
      using e assms(2) that by (auto simp: nth_append)
  qed
  then show ?thesis using poke_length [OF assms(1)] by (simp add: peek_def)
qed

lemma pokes_length: "pokes ws buf = Some buf' \<Longrightarrow> length buf' = length buf"
  by (induction ws arbitrary: buf) (auto split: bind_splits dest: poke_length)

lemma pokes_append: "pokes (xs @ ys) buf = do { b \<leftarrow> pokes xs buf; pokes ys b }"
  by (induction xs arbitrary: buf) (auto split: bind_splits)

lemma pokes_total:
  "list_all (\<lambda>(off, bs). off + length bs \<le> length buf) ws \<Longrightarrow> \<exists>buf'. pokes ws buf = Some buf'"
proof (induction ws arbitrary: buf)
  case Nil
  then show ?case by simp
next
  case (Cons w ws)
  obtain off bs where w: "w = (off, bs)" by (cases w)
  obtain b where b: "poke off bs buf = Some b" using Cons.prems w by (auto simp: poke_def)
  then have "list_all (\<lambda>(off, bs). off + length bs \<le> length b) ws"
    using Cons.prems poke_length [OF b] by simp
  from Cons.IH [OF this] show ?case using b w by simp
qed

lemma peek_pokes_other:
  "pokes ws buf = Some buf' \<Longrightarrow> list_all (\<lambda>(off, bs). i + n \<le> off \<or> off + length bs \<le> i) ws \<Longrightarrow>
   peek i n buf' = peek i n buf"
proof (induction ws arbitrary: buf)
  case Nil
  then show ?case by simp
next
  case (Cons w ws)
  obtain off bs where w: "w = (off, bs)" by (cases w)
  obtain b where b: "poke off bs buf = Some b" "pokes ws b = Some buf'"
    using Cons.prems w by (auto split: bind_splits)
  have "peek i n buf' = peek i n b" using Cons.IH [OF b(2)] Cons.prems(2) by simp
  also have "\<dots> = peek i n buf" by (rule peek_poke_other [OF b(1)]) (use Cons.prems(2) w in simp)
  finally show ?case .
qed

text \<open>The last store to a range decides what is read there.\<close>

lemma peek_pokes:
  assumes "pokes (xs @ (off, bs) # ys) buf = Some buf'"
    and "list_all (\<lambda>(o', b). off + length bs \<le> o' \<or> o' + length b \<le> off) ys"
  shows "peek off (length bs) buf' = Some bs"
proof -
  obtain b1 b2 where b: "poke off bs b1 = Some b2" "pokes ys b2 = Some buf'"
    using assms(1) by (auto simp: pokes_append split: bind_splits)
  show ?thesis using peek_pokes_other [OF b(2) assms(2)] peek_poke_same [OF b(1)] by simp
qed

lemma peek_part:
  "peek off n buf = Some bs \<Longrightarrow> j + m \<le> n \<Longrightarrow> peek (off + j) m buf = Some (take m (drop j bs))"
  by (auto simp: peek_def min_def drop_take add.commute split: if_splits)

text \<open>A store is read back when every other store of the sequence is disjoint from it.\<close>

definition apart :: "nat \<Rightarrow> nat \<Rightarrow> nat \<times> u8 list \<Rightarrow> bool" where
  "apart i n w \<longleftrightarrow> i + n \<le> fst w \<or> fst w + length (snd w) \<le> i"

lemma peek_store:
  assumes "pokes ws buf = Some buf'" "(off, bs) \<in> set ws"
    and "\<And>w. w \<in> set ws \<Longrightarrow> w = (off, bs) \<or> apart off (length bs) w"
  shows "peek off (length bs) buf' = Some bs"
proof -
  obtain xs ys where ws: "ws = xs @ (off, bs) # ys" "(off, bs) \<notin> set ys"
    using split_list_last [OF assms(2)] by blast
  have "list_all (\<lambda>(o', b). off + length bs \<le> o' \<or> o' + length b \<le> off) ys"
    using assms(3) ws by (fastforce simp: list_all_iff apart_def)
  then show ?thesis using peek_pokes assms(1) ws(1) by blast
qed

lemma peek_untouched:
  "pokes ws buf = Some buf' \<Longrightarrow> (\<And>w. w \<in> set ws \<Longrightarrow> apart i n w) \<Longrightarrow> peek i n buf' = peek i n buf"
  by (rule peek_pokes_other) (assumption, unfold list_all_iff apart_def case_prod_unfold, blast)

text \<open>Stores into a prefix are the same stores into the whole buffer.\<close>

lemma poke_prefix: "poke off bs v = Some v' \<Longrightarrow> poke off bs (v @ r) = Some (v' @ r)"
  by (auto simp: poke_def split: if_splits)

lemma pokes_prefix: "pokes ws v = Some v' \<Longrightarrow> pokes ws (v @ r) = Some (v' @ r)"
proof (induction ws arbitrary: v)
  case Nil
  then show ?case by simp
next
  case (Cons x ws)
  obtain off bs where x: "x = (off, bs)" by (cases x)
  obtain b where "poke off bs v = Some b" "pokes ws b = Some v'"
    using Cons.prems x by (auto split: bind_splits)
  then show ?case using Cons.IH poke_prefix x by simp
qed

lemma pokes_inside: "pokes ws buf = Some buf' \<Longrightarrow> w \<in> set ws \<Longrightarrow> fst w + length (snd w) \<le> length buf"
proof (induction ws arbitrary: buf)
  case Nil
  then show ?case by simp
next
  case (Cons x ws)
  obtain off bs where x: "x = (off, bs)" by (cases x)
  obtain b where b: "poke off bs buf = Some b" "pokes ws b = Some buf'"
    using Cons.prems x by (auto split: bind_splits)
  show ?case
  proof (cases "w = x")
    case True
    then show ?thesis using b(1) x by (auto simp: poke_def split: if_splits)
  next
    case False
    then show ?thesis using Cons.IH [OF b(2)] Cons.prems(2) poke_length [OF b(1)] by simp
  qed
qed

text \<open>What lies behind all stores is unchanged.\<close>

lemma poke_tail:
  assumes "poke off bs buf = Some buf'" "off + length bs \<le> n"
  shows "drop n buf' = drop n buf"
proof -
  have e: "buf' = take off buf @ bs @ drop (off + length bs) buf" "off + length bs \<le> length buf"
    using assms(1) by (auto simp: poke_def split: if_splits)
  then have "drop n buf' = drop (n - (off + length bs)) (drop (off + length bs) buf)"
    using assms(2) by (simp add: min_def)
  then show ?thesis using assms(2) by simp
qed

lemma pokes_tail:
  "pokes ws buf = Some buf' \<Longrightarrow> (\<And>w. w \<in> set ws \<Longrightarrow> fst w + length (snd w) \<le> n) \<Longrightarrow>
   drop n buf' = drop n buf"
proof (induction ws arbitrary: buf)
  case Nil
  then show ?case by simp
next
  case (Cons x ws)
  obtain off bs where x: "x = (off, bs)" by (cases x)
  obtain b where b: "poke off bs buf = Some b" "pokes ws b = Some buf'"
    using Cons.prems(1) x by (auto split: bind_splits)
  have "off + length bs \<le> n" using Cons.prems(2) [of x] x by simp
  then have "drop n b = drop n buf" by (rule poke_tail [OF b(1)])
  moreover have "drop n buf' = drop n b" by (rule Cons.IH [OF b(2)]) (rule Cons.prems(2), simp)
  ultimately show ?case by simp
qed

end
