(* ===== verification/Mkimage.thy ===== *)
theory Mkimage
  imports Mkconfig Bytes
begin

text \<open>
  Writing and reading the image header, from tools/mkimage/mkimage.c: \<open>s32cc_set_header\<close> fills
  the image vector table, the DCD area and the application header of the mapped output file, and
  \<open>get_ivt_from_raw_blob\<close>, \<open>s32cc_verify_header\<close> and \<open>s32cc_print_header\<close> read them back.

  The mapped file is a list of bytes; a pointer into it is an offset.  \<open>struct ivt\<close> and
  \<open>struct application_boot_code\<close> are packed, their fields little endian at the offsets named
  below.  \<open>Inl\<close> is an exit with its message, \<open>None\<close> an access outside the mapping.
\<close>

section \<open>Constants and field offsets\<close>

definition IVT_TAG :: u8 where "IVT_TAG = 0xd1"
definition IVT_VERSION :: u8 where "IVT_VERSION = 0x60"
definition APPLICATION_BOOT_CODE_TAG :: u8 where "APPLICATION_BOOT_CODE_TAG = 0xd5"
definition APPLICATION_BOOT_CODE_VERSION :: u8 where "APPLICATION_BOOT_CODE_VERSION = 0x60"
definition BOOT_TARGET_MASK :: u32 where "BOOT_TARGET_MASK = 3"
definition BCW_BOOT_TARGET_M7_0 :: u32 where "BCW_BOOT_TARGET_M7_0 = 0"
definition BCW_BOOT_TARGET_A53_0 :: u32 where "BCW_BOOT_TARGET_A53_0 = 1"
definition DCD_HEADER_LENGTH_OFFSET :: nat where "DCD_HEADER_LENGTH_OFFSET = 1"

text \<open>Offsets of the fields of \<open>struct ivt\<close>.\<close>

datatype ivt_field =
  ivt_tag | ivt_length | ivt_version | ivt_dcd_pointer | ivt_hse_firmware_pointer
  | ivt_application_boot_code_pointer | ivt_boot_configuration_word | ivt_hse_sys_img_pointer

primrec ivt_off :: "ivt_field \<Rightarrow> nat" where
  "ivt_off ivt_tag = 0"
| "ivt_off ivt_length = 1"
| "ivt_off ivt_version = 3"
| "ivt_off ivt_dcd_pointer = 16"
| "ivt_off ivt_hse_firmware_pointer = 24"
| "ivt_off ivt_application_boot_code_pointer = 32"
| "ivt_off ivt_boot_configuration_word = 40"
| "ivt_off ivt_hse_sys_img_pointer = 52"

datatype app_field = app_tag | app_version | app_ram_start_pointer | app_ram_entry_pointer | app_code_length

primrec app_off :: "app_field \<Rightarrow> nat" where
  "app_off app_tag = 0"
| "app_off app_version = 3"
| "app_off app_ram_start_pointer = 4"
| "app_off app_ram_entry_pointer = 8"
| "app_off app_code_length = 12"

section \<open>Reserved memory\<close>

definition reserved_sram :: "(u64 \<times> u64) list" where
  "reserved_sram = [(0x34002000, 0x34002fff), (0x34008000, 0x34079c00)]"

text \<open>\<open>image_length\<close> is an \<open>int\<close>: a length of \<open>2 ^ 31\<close> or more is negative.\<close>

definition enforce_reserved_ranges :: "u64 \<Rightarrow> u32 \<Rightarrow> string option" where
  "enforce_reserved_ranges image_start image_length =
     (let image_end = image_start + of_int (sint image_length)
      in if list_ex (\<lambda>(s, e). image_start < e \<and> image_end > s) reserved_sram
         then Some ''Loading data forbidden, range is reserved'' else None)"

section \<open>Setting the header\<close>

definition ROUND32 :: "u32 \<Rightarrow> u32 \<Rightarrow> u32" where
  "ROUND32 a b = (a + b - 1) AND NOT (b - 1)"

record tool_params =
  tp_addr :: u32
  tp_ep :: u32

definition part_off :: "program_image \<Rightarrow> part \<Rightarrow> nat" where
  "part_off img p = unat (ic_offset (img p))"

definition set_data_pointers :: "image_config \<Rightarrow> program_image \<Rightarrow> program_image" where
  "set_data_pointers c img =
     (\<lambda>p. if p \<in> {IVT, DCD, APP_CODE, HSE_FW} \<or> (p = QSPI_PARAMS \<and> flash_boot c)
          then (img p)\<lparr>ic_data := Some (ic_offset (img p))\<rparr> else img p)"

text \<open>The bytes \<open>memcpy\<close> takes from the DCD array; \<open>None\<close> when an unwritten word is among them.\<close>

definition dcd_bytes :: "image_config \<Rightarrow> u8 list option" where
  "dcd_bytes c = do {
     ws \<leftarrow> dcd_data c;
     vs \<leftarrow> those (take (dcd_size c div 4) ws);
     Some (concat (map le32 vs))
   }"

definition dcd_stores :: "image_config \<Rightarrow> program_image \<Rightarrow> (nat \<times> u8 list) list option" where
  "dcd_stores c img =
     (if dcd_data c = None then Some []
      else do {
        bs \<leftarrow> dcd_bytes c;
        Some [(part_off img DCD, bs),
              (part_off img DCD + DCD_HEADER_LENGTH_OFFSET, le16 (ucast (uswap_16 (of_nat (dcd_size c)))))]
      })"

definition ivt_stores :: "image_config \<Rightarrow> program_image \<Rightarrow> (nat \<times> u8 list) list" where
  "ivt_stores c img =
     (let ivt = (\<lambda>f. part_off img IVT + ivt_off f)
      in [(ivt ivt_tag, [IVT_TAG]),
          (ivt ivt_length, le16 (ucast (uswap_16 (ucast sizeof_ivt)))),
          (ivt ivt_version, [IVT_VERSION])] @
         (if dcd_data c \<noteq> None then [(ivt ivt_dcd_pointer, le32 (ucast (ic_offset (img DCD))))] else []) @
         [(ivt ivt_boot_configuration_word,
           le32 (if a53_boot c then BCW_BOOT_TARGET_A53_0 else BCW_BOOT_TARGET_M7_0)),
          (ivt ivt_application_boot_code_pointer, le32 (ucast (ic_offset (img APP_CODE))))] @
         (if hse_enable c then
            [(ivt ivt_hse_firmware_pointer, le32 (ucast (ic_offset (img HSE_FW)))),
             (ivt ivt_hse_sys_img_pointer, le32 (ucast (ic_offset (img HSE_SYS_IMG))))]
          else []))"

definition image_code_length :: "image_config \<Rightarrow> nat \<Rightarrow> u32" where
  "image_code_length c st_size =
     ROUND32 (if data_file_size c \<noteq> 0 then data_file_size c else of_nat st_size) 512"

definition app_stores ::
  "image_config \<Rightarrow> program_image \<Rightarrow> nat \<Rightarrow> tool_params \<Rightarrow> (nat \<times> u8 list) list" where
  "app_stores c img st_size tp =
     (let app = (\<lambda>f. part_off img APP_CODE + app_off f)
      in [(app app_tag, [APPLICATION_BOOT_CODE_TAG]),
          (app app_version, [APPLICATION_BOOT_CODE_VERSION]),
          (app app_code_length, le32 (image_code_length c st_size)),
          (app app_ram_start_pointer, le32 (tp_addr tp)),
          (app app_ram_entry_pointer, le32 (tp_ep tp))])"

text \<open>\<open>memcpy\<close> from a NULL pointer of zero bytes stores nothing; of more it is undefined.\<close>

definition copy_stores :: "nat \<Rightarrow> u8 list option \<Rightarrow> nat \<Rightarrow> (nat \<times> u8 list) list option" where
  "copy_stores off data n =
     (case data of
        None \<Rightarrow> if n = 0 then Some [] else None
      | Some bs \<Rightarrow> if n \<le> length bs then Some [(off, take n bs)] else None)"

definition s32cc_set_header ::
  "tool_state \<Rightarrow> nat \<Rightarrow> tool_params \<Rightarrow> u8 list \<Rightarrow> (string + u8 list \<times> tool_state) option" where
  "s32cc_set_header st st_size tp buf =
     (let c = ts_conf st; img = set_data_pointers c (ts_layout st)
      in if dcd_data c \<noteq> None \<and> dcd_size c > DCD_MAXIMUM_SIZE then Some (Inl ''DCD exceeds the maximum size'')
         else do {
           ds \<leftarrow> dcd_stores c img;
           b1 \<leftarrow> pokes (ds @ ivt_stores c img) buf;
           if tp_ep tp < tp_addr tp then Some (Inl ''The entrypoint is higher than the load address'')
           else do {
             b2 \<leftarrow> pokes (app_stores c img st_size tp) b1;
             if \<not> flash_boot c \<and> enforce_reserved_ranges (ucast (tp_addr tp)) (image_code_length c st_size) \<noteq> None
             then Some (Inl ''Loading data forbidden, range is reserved'')
             else do {
               qs \<leftarrow> (if flash_boot c then copy_stores (part_off img QSPI_PARAMS) (qspi_data c) (qspi_size c)
                      else Some []);
               hs \<leftarrow> (if hse_enable c then copy_stores (part_off img HSE_FW) (hse_fw_data c) (hse_fw_size c)
                      else Some []);
               b3 \<leftarrow> pokes (qs @ hs) b2;
               let img' = img(CODE := (img CODE)\<lparr>ic_size :=
                     of_nat st_size - ic_offset (img APP_CODE) - ic_size (img APP_CODE)\<rparr>);
               Some (Inr (b3, st\<lparr>ts_layout := img'\<rparr>))
             }
           }
         })"

section \<open>Reading the header\<close>

definition is_ivt_header :: "u8 list \<Rightarrow> nat \<Rightarrow> bool option" where
  "is_ivt_header buf off = do {
     t \<leftarrow> peek8 (off + ivt_off ivt_tag) buf;
     v \<leftarrow> peek8 (off + ivt_off ivt_version) buf;
     l \<leftarrow> peek16 (off + ivt_off ivt_length) buf;
     Some (t = IVT_TAG \<and> v = IVT_VERSION \<and> l = ucast (uswap_16 (ucast sizeof_ivt)))
   }"

text \<open>The offset of the vector table found and whether it is the QSPI one.\<close>

definition get_ivt_from_raw_blob :: "u8 list \<Rightarrow> int \<Rightarrow> (nat \<times> bool) option option" where
  "get_ivt_from_raw_blob buf sz =
     (let sd = unat SD_IVT_OFFSET
      in if sz < 256 then Some None
         else do {
           q \<leftarrow> is_ivt_header buf 0;
           if q then Some (Some (0, True))
           else if sz < int sd + 256 then Some None
           else do {
             s \<leftarrow> is_ivt_header buf sd;
             Some (if s then Some (sd, False) else None)
           }
         })"

definition s32cc_verify_header :: "u8 list \<Rightarrow> int \<Rightarrow> int option" where
  "s32cc_verify_header buf image_size = do {
     r \<leftarrow> get_ivt_from_raw_blob buf image_size;
     Some (if r = None then -1 else 0)
   }"

record layout_comp =
  lc_offset :: u32
  lc_size :: u32
  lc_desc :: string

definition layout_comparator :: "layout_comp \<Rightarrow> layout_comp \<Rightarrow> int" where
  "layout_comparator a b = sint (lc_offset a - lc_offset b)"

text \<open>What \<open>s32cc_print_header\<close> prints.\<close>

record header_report =
  hr_layout :: "layout_comp list"
  hr_boot_target :: u32
  hr_qspi :: bool
  hr_load :: u32
  hr_entry :: u32

definition no_comp :: layout_comp where
  "no_comp = \<lparr>lc_offset = 0, lc_size = 0, lc_desc = ''''\<rparr>"

definition print_layout :: "layout_comp list \<Rightarrow> layout_comp list" where
  "print_layout comps = filter (\<lambda>c. \<not> (lc_offset c = 0 \<and> lc_size c = 0)) comps"

definition s32cc_print_header ::
  "((layout_comp \<Rightarrow> layout_comp \<Rightarrow> int) \<Rightarrow> layout_comp list \<Rightarrow> layout_comp list) \<Rightarrow> u8 list \<Rightarrow>
   header_report option option" where
  "s32cc_print_header qs data = do {
     r \<leftarrow> get_ivt_from_raw_blob data (int (unat SD_IVT_OFFSET) + 256);
     case r of
       None \<Rightarrow> Some None
     | Some (ivt, qspi_boot) \<Rightarrow> do {
         bcw \<leftarrow> peek32 (ivt + ivt_off ivt_boot_configuration_word) data;
         let ivt_comp = \<lparr>lc_offset = of_nat ivt, lc_size = ucast sizeof_ivt, lc_desc = ''IVT''\<rparr>;
         let qspi = (if qspi_boot then \<lparr>lc_offset = ucast QSPI_PARAMS_OFFSET, lc_size = ucast QSPI_PARAMS_SIZE,
                                         lc_desc = ''QSPI Parameters''\<rparr> else no_comp);
         dp \<leftarrow> peek32 (ivt + ivt_off ivt_dcd_pointer) data;
         dcd \<leftarrow> (if dp \<noteq> 0 then do {
                    len \<leftarrow> peek16 (unat dp + DCD_HEADER_LENGTH_OFFSET) data;
                    Some \<lparr>lc_offset = dp, lc_size = uswap_16 (ucast len), lc_desc = ''DCD''\<rparr>
                  } else Some no_comp);
         fp \<leftarrow> peek32 (ivt + ivt_off ivt_hse_firmware_pointer) data;
         let hse_fw = (if fp \<noteq> 0 then \<lparr>lc_offset = fp, lc_size = 0, lc_desc = ''HSE Firmware''\<rparr> else no_comp);
         sp \<leftarrow> peek32 (ivt + ivt_off ivt_hse_sys_img_pointer) data;
         let hse_img = (if sp \<noteq> 0 then \<lparr>lc_offset = sp, lc_size = ucast HSE_SYS_IMG_MAX_SIZE,
                                         lc_desc = ''HSE SYS Image''\<rparr> else no_comp);
         ap \<leftarrow> peek32 (ivt + ivt_off ivt_application_boot_code_pointer) data;
         let app_hdr = \<lparr>lc_offset = ap, lc_size = ucast sizeof_app_code, lc_desc = ''AppBootCode Header''\<rparr>;
         cl \<leftarrow> peek32 (unat ap + app_off app_code_length) data;
         let app_comp = \<lparr>lc_offset = ap + ucast sizeof_app_code, lc_size = cl, lc_desc = ''Application''\<rparr>;
         load \<leftarrow> peek32 (unat ap + app_off app_ram_start_pointer) data;
         entry \<leftarrow> peek32 (unat ap + app_off app_ram_entry_pointer) data;
         Some (Some \<lparr>hr_layout = print_layout (qs layout_comparator
                        [ivt_comp, qspi, dcd, hse_fw, hse_img, app_hdr, app_comp]),
                     hr_boot_target = bcw AND BOOT_TARGET_MASK, hr_qspi = qspi_boot,
                     hr_load = load, hr_entry = entry\<rparr>)
       }
   }"

text \<open>Parameter checks.  The statements after the \<open>return\<close> of the first branch are unreachable.\<close>

record tool_flags =
  tf_dflag :: bool
  tf_eflag :: bool
  tf_fflag :: bool
  tf_lflag :: bool
  tf_xflag :: bool
  tf_imagename :: string

definition s32cc_check_params :: "tool_flags option \<Rightarrow> int" where
  "s32cc_check_params pp =
     (case pp of
        None \<Rightarrow> - EINVAL
      | Some p \<Rightarrow>
          if \<not> tf_lflag p \<and> tf_imagename p = '''' then - EINVAL
          else if tf_lflag p then
            of_bool ((tf_dflag p \<and> (tf_fflag p \<or> tf_lflag p)) \<or>
                     (tf_fflag p \<and> (tf_dflag p \<or> tf_lflag p)) \<or>
                     (tf_lflag p \<and> (tf_dflag p \<or> tf_fflag p)))
          else 0)"

definition s32cc_check_image_type :: "nat \<Rightarrow> int" where
  "s32cc_check_image_type t = (if t = 1 then 0 else 1)"

text \<open>
  \<open>s32cc_vrec_header\<close>: the configuration is parsed and the layout built; the return code of the
  layout is ignored, and the header size is stored in 32 bits.
\<close>

record vrec_result =
  vr_state :: tool_state
  vr_header_size :: u32
  vr_hdr :: "u8 list option"

definition s32cc_vrec_header ::
  "part_sort \<Rightarrow> host_env \<Rightarrow> string option \<Rightarrow> tool_state \<Rightarrow> (string + vrec_result) option" where
  "s32cc_vrec_header qs env conf st = do {
     r \<leftarrow> s32cc_parse_config env conf st;
     case r of
       Inl e \<Rightarrow> Some (Inl e)
     | Inr (rc, st1) \<Rightarrow>
         if rc \<noteq> 0 then Some (Inl ''exit(ret)'')
         else do {
           b \<leftarrow> s32g2xx_build_layout qs (he_calloc env) (ts_conf st1) (ts_layout st1);
           case b of
             Inl e \<Rightarrow> Some (Inl e)
           | Inr bl \<Rightarrow> Some (Inr \<lparr>vr_state = st1\<lparr>ts_layout := bl_layout bl\<rparr>,
                                  vr_header_size = ucast (bl_header_size bl), vr_hdr = bl_image bl\<rparr>)
         }
   }"

section \<open>The stores of a header stay in their components\<close>

definition inside :: "program_image \<Rightarrow> part \<Rightarrow> nat \<Rightarrow> nat \<times> u8 list \<Rightarrow> bool" where
  "inside img p n w \<longleftrightarrow> part_off img p \<le> fst w \<and> fst w + length (snd w) \<le> part_off img p + n"

lemma inside_apart:
  "inside img p n w \<Longrightarrow> i + k \<le> part_off img p \<or> part_off img p + n \<le> i \<Longrightarrow> apart i k w"
  by (auto simp: inside_def apart_def)

lemma ivt_stores_inside: "w \<in> set (ivt_stores c img) \<Longrightarrow> inside img IVT 256 w"
  by (auto simp: ivt_stores_def inside_def Let_def split: if_splits)

lemma app_stores_inside: "w \<in> set (app_stores c img n tp) \<Longrightarrow> inside img APP_CODE 64 w"
  by (auto simp: app_stores_def inside_def Let_def)

lemma copy_stores_inside:
  "copy_stores (part_off img p) data n = Some ws \<Longrightarrow> w \<in> set ws \<Longrightarrow> inside img p n w"
  by (auto simp: copy_stores_def inside_def split: option.splits if_splits)

lemma those_length: "those xs = Some ys \<Longrightarrow> length ys = length xs"
  by (induction xs arbitrary: ys) (auto split: option.splits)

lemma length_words: "length (concat (map le32 ws)) = 4 * length ws"
  by (induction ws) auto

lemma dcd_bytes_words:
  assumes "dcd_wf c" "dcd_data c \<noteq> None"
  shows "dcd_bytes c = Some (concat (map le32 (dcd_words c)))"
proof -
  obtain ws where ws: "dcd_data c = Some ws" using assms(2) by blast
  let ?t = "take (dcd_size c div 4) ws"
  have "None \<notin> set ?t" using assms(1) ws by (auto simp: dcd_wf_def)
  then obtain ys where "?t = map Some ys" using all_Some by blast
  then show ?thesis using ws by (simp add: dcd_bytes_def dcd_words_def comp_def)
qed

lemma dcd_stores_inside:
  assumes "dcd_wf c"
  shows "\<exists>ws. dcd_stores c img = Some ws \<and>
    (dcd_data c = None \<longrightarrow> ws = []) \<and>
    (4 \<le> dcd_size c \<longrightarrow> (\<forall>w \<in> set ws. inside img DCD (dcd_size c) w))"
proof (cases "dcd_data c = None")
  case True
  then show ?thesis by (simp add: dcd_stores_def)
next
  case False
  have "length (concat (map le32 (dcd_words c))) = dcd_size c"
    using dcd_words_length [OF assms] by (simp add: length_words)
  then show ?thesis using False dcd_bytes_words [OF assms False]
    by (auto simp: dcd_stores_def inside_def DCD_HEADER_LENGTH_OFFSET_def)
qed

section \<open>The whole header\<close>

text \<open>The data the configuration refers to is there, and fits the area reserved for it.\<close>

definition files_ok :: "image_config \<Rightarrow> bool" where
  "files_ok c \<longleftrightarrow> dcd_wf c \<and> (dcd_data c = None \<longleftrightarrow> dcd_size c = 0) \<and>
     (flash_boot c \<longrightarrow> qspi_size c \<le> 512 \<and>
        (case qspi_data c of None \<Rightarrow> qspi_size c = 0 | Some bs \<Rightarrow> length bs = qspi_size c)) \<and>
     (hse_enable c \<longrightarrow> (\<exists>bs. hse_fw_data c = Some bs \<and> length bs = hse_fw_size c))"

definition layout_facts :: "image_config \<Rightarrow> program_image \<Rightarrow> nat \<Rightarrow> bool" where
  "layout_facts c img hs \<longleftrightarrow>
     disjoint_parts img (set (present (layout_parts c))) \<and>
     (\<forall>p \<in> set (present (layout_parts c)). usize img p = usize (ready_layout c) p \<and>
        part_off img p + usize img p \<le> part_off img APP_CODE) \<and>
     part_off img IVT = (if flash_boot c then 0 else 4096) \<and> hs = part_off img APP_CODE + 64 \<and> hs < 2 ^ 32"

text \<open>The ranges of two components present are apart.\<close>

lemma parts_apart:
  assumes "layout_facts c img hs" "p \<in> set (present (layout_parts c))" "q \<in> set (present (layout_parts c))" "p \<noteq> q"
    "usize (ready_layout c) p = n" "usize (ready_layout c) q = m"
  shows "part_off img p + n \<le> part_off img q \<or> part_off img q + m \<le> part_off img p"
proof -
  have "usize img p = n" "usize img q = m"
    using assms unfolding layout_facts_def by blast+
  moreover have "uoff img p + usize img p \<le> uoff img q \<or> uoff img q + usize img q \<le> uoff img p"
    using assms(1-4) unfolding layout_facts_def disjoint_parts_def by blast
  ultimately show ?thesis by (simp add: part_off_def uoff_def)
qed

lemma part_before_app:
  assumes "layout_facts c img hs" "p \<in> set (present (layout_parts c))" "usize (ready_layout c) p = n"
  shows "part_off img p + n \<le> part_off img APP_CODE"
proof -
  have "usize img p = n" "part_off img p + usize img p \<le> part_off img APP_CODE"
    using assms unfolding layout_facts_def by blast+
  then show ?thesis by simp
qed

lemma data_pointers_off [simp]: "part_off (set_data_pointers c img) p = part_off img p"
  by (simp add: part_off_def set_data_pointers_def)

lemma data_pointers_offset [simp]: "ic_offset (set_data_pointers c img p) = ic_offset (img p)"
  by (simp add: set_data_pointers_def)

definition payload_stores :: "image_config \<Rightarrow> program_image \<Rightarrow> (nat \<times> u8 list) list option" where
  "payload_stores c img = do {
     qs \<leftarrow> (if flash_boot c then copy_stores (part_off img QSPI_PARAMS) (qspi_data c) (qspi_size c) else Some []);
     hs \<leftarrow> (if hse_enable c then copy_stores (part_off img HSE_FW) (hse_fw_data c) (hse_fw_size c) else Some []);
     Some (qs @ hs)
   }"

lemma payload_stores_ok:
  assumes "files_ok c"
  shows "\<exists>ws. payload_stores c img = Some ws \<and>
    (\<forall>w \<in> set ws. (flash_boot c \<and> inside img QSPI_PARAMS 512 w) \<or>
                 (hse_enable c \<and> inside img HSE_FW (hse_fw_size c) w))"
proof -
  have q: "\<exists>ws. (if flash_boot c then copy_stores (part_off img QSPI_PARAMS) (qspi_data c) (qspi_size c) else Some []) = Some ws \<and>
      (\<forall>w \<in> set ws. flash_boot c \<and> inside img QSPI_PARAMS 512 w)"
    using assms by (auto simp: files_ok_def copy_stores_def inside_def split: option.splits)
  have h: "\<exists>ws. (if hse_enable c then copy_stores (part_off img HSE_FW) (hse_fw_data c) (hse_fw_size c) else Some []) = Some ws \<and>
      (\<forall>w \<in> set ws. hse_enable c \<and> inside img HSE_FW (hse_fw_size c) w)"
    using assms by (auto simp: files_ok_def copy_stores_def inside_def)
  from q h show ?thesis by (fastforce simp: payload_stores_def)
qed

definition header_stores ::
  "image_config \<Rightarrow> program_image \<Rightarrow> nat \<Rightarrow> tool_params \<Rightarrow> (nat \<times> u8 list) list option" where
  "header_stores c img n tp = do {
     ds \<leftarrow> dcd_stores c img;
     ps \<leftarrow> payload_stores c img;
     Some (ds @ ivt_stores c img @ app_stores c img n tp @ ps)
   }"

lemma present_parts:
  "IVT \<in> set (present (layout_parts c))"
  "dcd_size c \<noteq> 0 \<Longrightarrow> DCD \<in> set (present (layout_parts c))"
  "flash_boot c \<Longrightarrow> QSPI_PARAMS \<in> set (present (layout_parts c))"
  "hse_enable c \<Longrightarrow> HSE_FW \<in> set (present (layout_parts c))"
  "\<not> flash_boot c \<Longrightarrow> MBR_RESERVED \<in> set (present (layout_parts c))"
  by (simp_all add: part_getters)

text \<open>Where the stores of a header lie.\<close>

lemma header_stores_where:
  assumes f: "files_ok c" and ok: "conf_ok c" and lf: "layout_facts c img hs"
  shows "\<exists>ds ps. header_stores c img n tp = Some (ds @ ivt_stores c img @ app_stores c img n tp @ ps) \<and>
    dcd_stores c img = Some ds \<and> payload_stores c img = Some ps \<and>
    (\<forall>w \<in> set (ds @ ps). \<exists>p. p \<in> set (present (layout_parts c)) \<and> p \<noteq> IVT \<and> p \<noteq> MBR_RESERVED \<and>
        inside img p (usize (ready_layout c) p) w)"
proof -
  have wf: "dcd_wf c" "dcd_data c = None \<longleftrightarrow> dcd_size c = 0" using f by (simp_all add: files_ok_def)
  note sz = ready_sizes [OF ok]
  obtain ds where ds: "dcd_stores c img = Some ds" "dcd_data c = None \<longrightarrow> ds = []"
    "4 \<le> dcd_size c \<longrightarrow> (\<forall>w \<in> set ds. inside img DCD (dcd_size c) w)"
    using dcd_stores_inside [OF wf(1)] by blast
  obtain ps where ps: "payload_stores c img = Some ps"
    "\<forall>w \<in> set ps. (flash_boot c \<and> inside img QSPI_PARAMS 512 w) \<or>
                 (hse_enable c \<and> inside img HSE_FW (hse_fw_size c) w)"
    using payload_stores_ok [OF f] by blast
  have big: "4 \<le> dcd_size c" if "dcd_data c \<noteq> None"
  proof -
    have "dcd_size c = 4 * length (dcd_words c)" by (rule dcd_words_length [OF wf(1)])
    then show ?thesis using that wf(2) by (cases "dcd_words c") auto
  qed
  have "\<exists>p. p \<in> set (present (layout_parts c)) \<and> p \<noteq> IVT \<and> p \<noteq> MBR_RESERVED \<and>
        inside img p (usize (ready_layout c) p) w" if w: "w \<in> set (ds @ ps)" for w
  proof -
    consider (d) "w \<in> set ds" | (p) "w \<in> set ps" using w by auto
    then show ?thesis
    proof cases
      case d
      then have nd: "dcd_data c \<noteq> None" using ds(2) by auto
      then have "inside img DCD (usize (ready_layout c) DCD) w" using ds(3) big d sz(4) by simp
      moreover have "dcd_size c \<noteq> 0" using big [OF nd] by simp
      ultimately show ?thesis using present_parts(2) [of c] by blast
    next
      case p
      then have "(flash_boot c \<and> inside img QSPI_PARAMS 512 w) \<or> (hse_enable c \<and> inside img HSE_FW (hse_fw_size c) w)"
        using ps(2) by blast
      then show ?thesis
      proof
        assume a: "flash_boot c \<and> inside img QSPI_PARAMS 512 w"
        then have "inside img QSPI_PARAMS (usize (ready_layout c) QSPI_PARAMS) w" using sz(3) by simp
        then show ?thesis using present_parts(3) a by blast
      next
        assume a: "hse_enable c \<and> inside img HSE_FW (hse_fw_size c) w"
        then have "inside img HSE_FW (usize (ready_layout c) HSE_FW) w" using sz(5) by simp
        then show ?thesis using present_parts(4) a by blast
      qed
    qed
  qed
  moreover have "header_stores c img n tp = Some (ds @ ivt_stores c img @ app_stores c img n tp @ ps)"
    by (simp add: header_stores_def ds(1) ps(1))
  ultimately show ?thesis using ds(1) ps(1) by blast
qed

lemma header_stores_fit:
  assumes f: "files_ok c" and ok: "conf_ok c" and lf: "layout_facts c img hs" and len: "hs \<le> length buf"
    and W: "header_stores c img n tp = Some ws"
  shows "\<exists>buf'. pokes ws buf = Some buf'"
proof (rule pokes_total)
  obtain ds ps where dp: "header_stores c img n tp = Some (ds @ ivt_stores c img @ app_stores c img n tp @ ps)"
    "\<forall>w \<in> set (ds @ ps). \<exists>p. p \<in> set (present (layout_parts c)) \<and> p \<noteq> IVT \<and> p \<noteq> MBR_RESERVED \<and>
        inside img p (usize (ready_layout c) p) w"
    using header_stores_where [OF f ok lf] by blast
  have hs: "hs = part_off img APP_CODE + 64" using lf by (simp add: layout_facts_def)
  have "fst w + length (snd w) \<le> length buf" if w: "w \<in> set ws" for w
  proof -
    consider (a) "w \<in> set (ds @ ps)" | (b) "w \<in> set (ivt_stores c img)" | (c) "w \<in> set (app_stores c img n tp)"
      using w dp(1) W by auto
    then show ?thesis
    proof cases
      case a
      then obtain p where "p \<in> set (present (layout_parts c))" "inside img p (usize (ready_layout c) p) w"
        using dp(2) by blast
      with part_before_app [OF lf this(1) refl] show ?thesis using hs len by (simp add: inside_def)
    next
      case b
      then show ?thesis
        using ivt_stores_inside [OF b] part_before_app [OF lf present_parts(1) refl] ready_sizes(2) [OF ok] hs len
        by (simp add: inside_def)
    next
      case c
      then show ?thesis using app_stores_inside [OF c] hs len by (simp add: inside_def)
    qed
  qed
  then show "list_all (\<lambda>(off, bs). off + length bs \<le> length buf) ws"
    by (simp add: list_all_iff case_prod_unfold)
qed

lemma set_header_run:
  assumes f: "files_ok (ts_conf st)" and ok: "conf_ok (ts_conf st)"
    and lf: "layout_facts (ts_conf st) (set_data_pointers (ts_conf st) (ts_layout st)) hs" and len: "hs \<le> length buf"
  obtains ws buf' st' where
    "header_stores (ts_conf st) (set_data_pointers (ts_conf st) (ts_layout st)) n tp = Some ws"
    "pokes ws buf = Some buf'"
    "s32cc_set_header st n tp buf =
      (if tp_ep tp < tp_addr tp then Some (Inl ''The entrypoint is higher than the load address'')
       else if \<not> flash_boot (ts_conf st) \<and>
           enforce_reserved_ranges (ucast (tp_addr tp)) (image_code_length (ts_conf st) n) \<noteq> None
       then Some (Inl ''Loading data forbidden, range is reserved'')
       else Some (Inr (buf', st')))"
proof -
  let ?c = "ts_conf st" and ?img = "set_data_pointers (ts_conf st) (ts_layout st)"
  obtain ds ps where dp: "header_stores ?c ?img n tp = Some (ds @ ivt_stores ?c ?img @ app_stores ?c ?img n tp @ ps)"
    "dcd_stores ?c ?img = Some ds" "payload_stores ?c ?img = Some ps"
    using header_stores_where [OF f ok lf] by blast
  obtain b where b: "pokes (ds @ ivt_stores ?c ?img @ app_stores ?c ?img n tp @ ps) buf = Some b"
    using header_stores_fit [OF f ok lf len dp(1)] by blast
  then obtain b1 b2 where b12: "pokes (ds @ ivt_stores ?c ?img) buf = Some b1"
    "pokes (app_stores ?c ?img n tp) b1 = Some b2" "pokes ps b2 = Some b"
    by (auto simp: pokes_append split: bind_splits)
  obtain qs hs where qh: "(if flash_boot ?c then copy_stores (part_off ?img QSPI_PARAMS) (qspi_data ?c) (qspi_size ?c) else Some []) = Some qs"
    "(if hse_enable ?c then copy_stores (part_off ?img HSE_FW) (hse_fw_data ?c) (hse_fw_size ?c) else Some []) = Some hs"
    "ps = qs @ hs"
    using dp(3) by (auto simp: payload_stores_def split: bind_splits)
  have "\<not> dcd_size ?c > DCD_MAXIMUM_SIZE" using ok by (simp add: conf_ok_def)
  then have "\<exists>st'. s32cc_set_header st n tp buf =
      (if tp_ep tp < tp_addr tp then Some (Inl ''The entrypoint is higher than the load address'')
       else if \<not> flash_boot ?c \<and> enforce_reserved_ranges (ucast (tp_addr tp)) (image_code_length ?c n) \<noteq> None
       then Some (Inl ''Loading data forbidden, range is reserved'')
       else Some (Inr (b, st')))"
    unfolding s32cc_set_header_def Let_def dp(2) b12 qh using b12(1,3) by (simp add: qh(3) b12 dp(2))
  then show ?thesis using that dp(1) b by blast
qed

section \<open>Reading back what was written\<close>

lemma ivt_stores_apart:
  "v \<in> set (ivt_stores c img) \<Longrightarrow> w \<in> set (ivt_stores c img) \<Longrightarrow>
   w = v \<or> apart (fst v) (length (snd v)) w"
  unfolding ivt_stores_def Let_def by (auto simp: apart_def)

lemma app_stores_apart:
  "v \<in> set (app_stores c img n tp) \<Longrightarrow> w \<in> set (app_stores c img n tp) \<Longrightarrow>
   w = v \<or> apart (fst v) (length (snd v)) w"
  unfolding app_stores_def Let_def by (auto simp: apart_def)

text \<open>A store of the vector table or of the application header is read back.\<close>

lemma fixed_store_read:
  assumes f: "files_ok c" and ok: "conf_ok c" and lf: "layout_facts c img hs"
    and W: "header_stores c img n tp = Some ws" "pokes ws buf = Some buf'"
    and v: "v \<in> set (ivt_stores c img) \<or> v \<in> set (app_stores c img n tp)"
  shows "peek (fst v) (length (snd v)) buf' = Some (snd v)"
proof -
  obtain ds ps where dp: "header_stores c img n tp = Some (ds @ ivt_stores c img @ app_stores c img n tp @ ps)"
    "\<forall>w \<in> set (ds @ ps). \<exists>p. p \<in> set (present (layout_parts c)) \<and> p \<noteq> IVT \<and> p \<noteq> MBR_RESERVED \<and>
        inside img p (usize (ready_layout c) p) w"
    using header_stores_where [OF f ok lf] by blast
  have ivt: "part_off img IVT + 256 \<le> part_off img APP_CODE"
    by (rule part_before_app [OF lf present_parts(1) ready_sizes(2) [OF ok]])
  have other: "apart (fst v) (length (snd v)) w" if w: "w \<in> set (ds @ ps)" for w
  proof -
    obtain p where p: "p \<in> set (present (layout_parts c))" "p \<noteq> IVT" "inside img p (usize (ready_layout c) p) w"
      using dp(2) w by blast
    have "fst v + length (snd v) \<le> part_off img p \<or> part_off img p + usize (ready_layout c) p \<le> fst v"
      using v
    proof
      assume "v \<in> set (ivt_stores c img)"
      then have "inside img IVT 256 v" by (rule ivt_stores_inside)
      moreover have "part_off img IVT + 256 \<le> part_off img p \<or>
          part_off img p + usize (ready_layout c) p \<le> part_off img IVT"
        using parts_apart [OF lf present_parts(1) p(1) p(2)[symmetric] ready_sizes(2) [OF ok] refl] .
      ultimately show ?thesis unfolding inside_def by linarith
    next
      assume "v \<in> set (app_stores c img n tp)"
      then have "inside img APP_CODE 64 v" by (rule app_stores_inside)
      with part_before_app [OF lf p(1) refl] show ?thesis unfolding inside_def by linarith
    qed
    then show ?thesis by (rule inside_apart [OF p(3)])
  qed
  have all: "w = v \<or> apart (fst v) (length (snd v)) w" if w: "w \<in> set ws" for w
  proof -
    consider (a) "w \<in> set (ds @ ps)" | (b) "w \<in> set (ivt_stores c img)" | (c) "w \<in> set (app_stores c img n tp)"
      using w dp(1) W(1) by auto
    then show ?thesis
    proof cases
      case a
      then show ?thesis using other by blast
    next
      case b
      show ?thesis using v
      proof
        assume "v \<in> set (ivt_stores c img)"
        then show ?thesis using ivt_stores_apart b by blast
      next
        assume "v \<in> set (app_stores c img n tp)"
        then show ?thesis using ivt_stores_inside [OF b] app_stores_inside [of v c img n tp] ivt
          by (simp add: inside_def apart_def)
      qed
    next
      case c
      show ?thesis using v
      proof
        assume "v \<in> set (app_stores c img n tp)"
        then show ?thesis using app_stores_apart c by blast
      next
        assume "v \<in> set (ivt_stores c img)"
        then show ?thesis using ivt_stores_inside [of v c img] app_stores_inside [OF c] ivt
          by (simp add: inside_def apart_def)
      qed
    qed
  qed
  have "v \<in> set ws" using v dp(1) W(1) by auto
  then have "(fst v, snd v) \<in> set ws" by simp
  from peek_store [OF W(2) this] show ?thesis using all by simp
qed

text \<open>The reserved boot record of an SD image is not written.\<close>

lemma mbr_untouched:
  assumes f: "files_ok c" and ok: "conf_ok c" and lf: "layout_facts c img hs" and sd: "\<not> flash_boot c"
    and mbr: "part_off img MBR_RESERVED = 0"
    and W: "header_stores c img n tp = Some ws" "pokes ws buf = Some buf'"
  shows "peek 0 1 buf' = peek 0 1 buf"
proof (rule peek_untouched [OF W(2)])
  obtain ds ps where dp: "header_stores c img n tp = Some (ds @ ivt_stores c img @ app_stores c img n tp @ ps)"
    "\<forall>w \<in> set (ds @ ps). \<exists>p. p \<in> set (present (layout_parts c)) \<and> p \<noteq> IVT \<and> p \<noteq> MBR_RESERVED \<and>
        inside img p (usize (ready_layout c) p) w"
    using header_stores_where [OF f ok lf] by blast
  have m: "MBR_RESERVED \<in> set (present (layout_parts c))" by (rule present_parts(5) [OF sd])
  have ivt: "part_off img IVT = 4096" using lf sd by (simp add: layout_facts_def)
  have app: "4096 \<le> part_off img APP_CODE"
    using part_before_app [OF lf m ready_sizes(1) [OF ok]] mbr by simp
  fix w
  assume w: "w \<in> set ws"
  consider (a) "w \<in> set (ds @ ps)" | (b) "w \<in> set (ivt_stores c img)" | (c) "w \<in> set (app_stores c img n tp)"
    using w dp(1) W(1) by auto
  then show "apart 0 1 w"
  proof cases
    case a
    then obtain p where p: "p \<in> set (present (layout_parts c))" "p \<noteq> MBR_RESERVED"
      "inside img p (usize (ready_layout c) p) w"
      using dp(2) by blast
    have "4096 \<le> part_off img p \<or> part_off img p + usize (ready_layout c) p \<le> 0"
      using parts_apart [OF lf m p(1) p(2)[symmetric] ready_sizes(1) [OF ok] refl] mbr by simp
    then show ?thesis using p(3) by (auto simp: inside_def apart_def)
  next
    case b
    then show ?thesis using ivt_stores_inside [OF b] ivt by (simp add: inside_def apart_def)
  next
    case c
    then show ?thesis using app_stores_inside [OF c] app by (simp add: inside_def apart_def)
  qed
qed

text \<open>The layout that \<open>s32g2xx_build_layout\<close> returns has the facts used above.\<close>

lemma built_layout_facts:
  assumes qs: "qsort_ok qs" and ok: "conf_ok c"
    and b: "s32g2xx_build_layout qs True c (boot_layout c) = Some (Inr b)"
  shows "layout_facts c (bl_layout b) (unat (bl_header_size b))"
    "\<not> flash_boot c \<Longrightarrow> part_off (bl_layout b) MBR_RESERVED = 0"
    "unat (bl_header_size b) < 2 ^ 32"
proof -
  obtain b' where b': "s32g2xx_build_layout qs True c (boot_layout c) = Some (Inr b')"
    "disjoint_parts (bl_layout b') (set (present (layout_parts c)))"
    "\<forall>p \<in> set (present (layout_parts c)). 2 ^ boot_alignment c dvd uoff (bl_layout b') p \<and>
       usize (bl_layout b') p = usize (ready_layout c) p \<and>
       uoff (bl_layout b') p + usize (ready_layout c) p \<le> uoff (bl_layout b') APP_CODE"
    "uoff (bl_layout b') IVT = (if flash_boot c then 0 else 4096)"
    "\<not> flash_boot c \<longrightarrow> uoff (bl_layout b') MBR_RESERVED = 0"
    "unat (bl_header_size b') = uoff (bl_layout b') APP_CODE + 64" "unat (bl_header_size b') < 2 ^ 32"
    using build_layout_facts [OF qs ok] by blast
  then have "b' = b" using b by simp
  with b' show "layout_facts c (bl_layout b) (unat (bl_header_size b))"
    "\<not> flash_boot c \<Longrightarrow> part_off (bl_layout b) MBR_RESERVED = 0" "unat (bl_header_size b) < 2 ^ 32"
    unfolding layout_facts_def part_off_def uoff_def by auto
qed

lemma pointers_layout_facts: "layout_facts c (set_data_pointers c' img) hs = layout_facts c img hs"
proof -
  have "uoff (set_data_pointers c' img) p = uoff img p" "usize (set_data_pointers c' img) p = usize img p" for p
    by (simp_all add: uoff_def usize_def set_data_pointers_def)
  then show ?thesis by (simp add: layout_facts_def disjoint_parts_def)
qed

text \<open>Bytes of the vector table that no field store covers keep what the mapping held.\<close>

lemma ivt_hole_read:
  assumes f: "files_ok c" and ok: "conf_ok c" and lf: "layout_facts c img hs"
    and W: "header_stores c img n tp = Some ws" "pokes ws buf = Some buf'"
    and i: "i + k \<le> 256" and hole: "\<And>w. w \<in> set (ivt_stores c img) \<Longrightarrow> apart (part_off img IVT + i) k w"
  shows "peek (part_off img IVT + i) k buf' = peek (part_off img IVT + i) k buf"
proof (rule peek_untouched [OF W(2)])
  obtain ds ps where dp: "header_stores c img n tp = Some (ds @ ivt_stores c img @ app_stores c img n tp @ ps)"
    "\<forall>w \<in> set (ds @ ps). \<exists>p. p \<in> set (present (layout_parts c)) \<and> p \<noteq> IVT \<and> p \<noteq> MBR_RESERVED \<and>
        inside img p (usize (ready_layout c) p) w"
    using header_stores_where [OF f ok lf] by blast
  have ivt: "part_off img IVT + 256 \<le> part_off img APP_CODE"
    by (rule part_before_app [OF lf present_parts(1) ready_sizes(2) [OF ok]])
  fix w
  assume w: "w \<in> set ws"
  consider (a) "w \<in> set (ds @ ps)" | (b) "w \<in> set (ivt_stores c img)" | (c) "w \<in> set (app_stores c img n tp)"
    using w dp(1) W(1) by auto
  then show "apart (part_off img IVT + i) k w"
  proof cases
    case a
    then obtain p where p: "p \<in> set (present (layout_parts c))" "p \<noteq> IVT"
      "inside img p (usize (ready_layout c) p) w"
      using dp(2) by blast
    have "part_off img IVT + 256 \<le> part_off img p \<or> part_off img p + usize (ready_layout c) p \<le> part_off img IVT"
      by (rule parts_apart [OF lf present_parts(1) p(1) p(2)[symmetric] ready_sizes(2) [OF ok] refl])
    then show ?thesis using i by (intro inside_apart [OF p(3)]) linarith
  next
    case b
    then show ?thesis by (rule hole)
  next
    case c
    then show ?thesis using app_stores_inside [OF c] ivt i by (simp add: inside_def apart_def)
  qed
qed

text \<open>Components other than the first one do not start at 0.\<close>

lemma part_not_at_0:
  assumes ok: "conf_ok c" and lf: "layout_facts c img hs" and mbr: "\<not> flash_boot c \<Longrightarrow> part_off img MBR_RESERVED = 0"
    and p: "p \<in> set (present (layout_parts c))" "p \<noteq> IVT" "p \<noteq> MBR_RESERVED" "0 < usize (ready_layout c) p"
  shows "part_off img p \<noteq> 0"
proof (cases "flash_boot c")
  case True
  then have "part_off img IVT = 0" using lf by (simp add: layout_facts_def)
  then show ?thesis
    using parts_apart [OF lf present_parts(1) p(1) p(2)[symmetric] ready_sizes(2) [OF ok] refl] p(4) by auto
next
  case False
  then show ?thesis
    using parts_apart [OF lf present_parts(5) [OF False] p(1) p(3)[symmetric] ready_sizes(1) [OF ok] refl] p(4)
      mbr [OF False] by auto
qed

lemma uswap_16_twice:
  assumes "x < 0x10000"
  shows "uswap_16 (ucast (ucast (uswap_16 x) :: u16)) = x"
proof (rule bit_word_eqI)
  fix n
  assume "n < LENGTH(32)"
  have u: "unat x < 2 ^ 16" using assms by (simp add: word_less_nat_alt)
  have hi: "\<not> bit x m" if "16 \<le> m" for m
  proof -
    have "unat x < 2 ^ m" using u that by (meson less_le_trans one_le_numeral power_increasing)
    then have "\<not> bit (unat x) m" by (simp add: bit_iff_odd)
    then show ?thesis by (simp add: bit_unsigned_iff bit_imp_le_length)
  qed
  have m: "(0xff00::u32) = push_bit 8 (mask 8)" "(0xff::u32) = mask 8"
    by (simp_all add: mask_eq_exp_minus_1 push_bit_eq_mult)
  consider "n < 8" | "8 \<le> n" "n < 16" | "16 \<le> n" by linarith
  then show "bit (uswap_16 (ucast (ucast (uswap_16 x) :: u16))) n = bit x n"
    using hi unfolding uswap_16_def m by cases (auto simp: bit_simps)
qed

text \<open>The length field that \<open>set_header\<close> stores over the second and third byte of the DCD.\<close>

lemma dcd_length_read:
  assumes f: "files_ok c" and ok: "conf_ok c" and lf: "layout_facts c img hs" and d: "dcd_data c \<noteq> None"
    and W: "header_stores c img n tp = Some ws" "pokes ws buf = Some buf'"
  shows "peek (part_off img DCD + 1) 2 buf' = Some (le16 (ucast (uswap_16 (of_nat (dcd_size c)))))"
    "4 \<le> dcd_size c" "peek (part_off img DCD + 3) (dcd_size c - 3) buf' =
      Some (drop 3 (concat (map le32 (dcd_words c))))"
proof -
  have wf: "dcd_wf c" "dcd_size c \<noteq> 0" using f d by (simp_all add: files_ok_def)
  have sz: "dcd_size c = 4 * length (dcd_words c)" by (rule dcd_words_length [OF wf(1)])
  then show four: "4 \<le> dcd_size c" using wf(2) by (cases "dcd_words c") auto
  let ?bs = "concat (map le32 (dcd_words c))" and ?l = "le16 (ucast (uswap_16 (of_nat (dcd_size c))))"
  have lb: "length ?bs = dcd_size c" using sz by (simp add: length_words)
  obtain ps where ps: "payload_stores c img = Some ps"
    "\<forall>w \<in> set ps. (flash_boot c \<and> inside img QSPI_PARAMS 512 w) \<or>
                 (hse_enable c \<and> inside img HSE_FW (hse_fw_size c) w)"
    using payload_stores_ok [OF f] by blast
  let ?rest = "ivt_stores c img @ app_stores c img n tp @ ps"
  have ws: "ws = [(part_off img DCD, ?bs)] @ (part_off img DCD + 1, ?l) # ?rest"
    using W(1) d dcd_bytes_words [OF wf(1) d] ps(1)
    by (simp add: header_stores_def dcd_stores_def DCD_HEADER_LENGTH_OFFSET_def)
  note dp = present_parts(2) [OF wf(2)]
  note rs = ready_sizes [OF ok]
  have out: "apart (part_off img DCD + i) k w" if w: "w \<in> set ?rest" and ik: "i + k \<le> dcd_size c" for w i k
  proof -
    consider (b) "w \<in> set (ivt_stores c img)" | (c) "w \<in> set (app_stores c img n tp)"
      | (q) "flash_boot c" "inside img QSPI_PARAMS 512 w" | (h) "hse_enable c" "inside img HSE_FW (hse_fw_size c) w"
      using w ps(2) unfolding set_append by blast
    then show ?thesis
    proof cases
      case b
      then show ?thesis using ivt_stores_inside [OF b] ik
          parts_apart [OF lf dp present_parts(1) _ rs(4,2)] by (auto simp: inside_def apart_def)
    next
      case c
      then show ?thesis using app_stores_inside [OF c] ik part_before_app [OF lf dp rs(4)]
        by (auto simp: inside_def apart_def)
    next
      case q
      then show ?thesis using ik parts_apart [OF lf dp present_parts(3) [OF q(1)] _ rs(4,3)]
        by (auto simp: inside_def apart_def)
    next
      case h
      then show ?thesis using ik parts_apart [OF lf dp present_parts(4) [OF h(1)] _ rs(4,5)]
        by (auto simp: inside_def apart_def)
    qed
  qed
  obtain b1 b2 where b: "poke (part_off img DCD) ?bs buf = Some b1" "poke (part_off img DCD + 1) ?l b1 = Some b2"
    "pokes ?rest b2 = Some buf'"
    using W(2) unfolding ws by (auto split: bind_splits)
  have "peek (part_off img DCD + 1) (length ?l) buf' = peek (part_off img DCD + 1) (length ?l) b2"
    by (rule peek_untouched [OF b(3)]) (rule out; use four in simp)
  then show "peek (part_off img DCD + 1) 2 buf' = Some ?l" using peek_poke_same [OF b(2)] by simp
  have "peek (part_off img DCD + 3) (dcd_size c - 3) buf' = peek (part_off img DCD + 3) (dcd_size c - 3) b2"
    by (rule peek_untouched [OF b(3)]) (rule out; use four in simp)
  also have "\<dots> = peek (part_off img DCD + 3) (dcd_size c - 3) b1"
    by (rule peek_poke_other [OF b(2)]) simp
  also have "\<dots> = Some (take (dcd_size c - 3) (drop 3 ?bs))"
    by (rule peek_part [OF peek_poke_same [OF b(1)]]) (use lb four in simp)
  finally show "peek (part_off img DCD + 3) (dcd_size c - 3) buf' = Some (drop 3 ?bs)" using lb by simp
qed

definition ivt_place :: "image_config \<Rightarrow> nat" where
  "ivt_place c = (if flash_boot c then 0 else 4096)"

lemma ivt_found:
  assumes f: "files_ok c" and ok: "conf_ok c" and lf: "layout_facts c img hs"
    and mbr: "\<not> flash_boot c \<Longrightarrow> part_off img MBR_RESERVED = 0"
    and W: "header_stores c img n tp = Some ws" "pokes ws buf = Some buf'"
    and len: "hs \<le> length buf" and zero: "take 1 buf = [0]"
    and sz: "int (ivt_place c) + 256 \<le> sz"
  shows "get_ivt_from_raw_blob buf' sz = Some (Some (ivt_place c, flash_boot c))"
proof -
  have pl: "part_off img IVT = ivt_place c" using lf by (simp add: layout_facts_def ivt_place_def)
  have rd: "peek (fst v) (length (snd v)) buf' = Some (snd v)" if "v \<in> set (ivt_stores c img)" for v
    using fixed_store_read [OF f ok lf W] that by blast
  have "(part_off img IVT + 0, [IVT_TAG]) \<in> set (ivt_stores c img)"
    "(part_off img IVT + 3, [IVT_VERSION]) \<in> set (ivt_stores c img)"
    "(part_off img IVT + 1, le16 (ucast (uswap_16 (ucast sizeof_ivt)))) \<in> set (ivt_stores c img)"
    by (simp_all add: ivt_stores_def Let_def)
  from this [THEN rd] have here: "is_ivt_header buf' (ivt_place c) = Some True"
    by (simp add: is_ivt_header_def peek8_def peek16_def pl)
  show ?thesis
  proof (cases "flash_boot c")
    case True
    then show ?thesis using here sz by (simp add: get_ivt_from_raw_blob_def ivt_place_def)
  next
    case False
    have "hs = part_off img APP_CODE + 64" using lf by (simp add: layout_facts_def)
    moreover have "part_off img IVT + 256 \<le> part_off img APP_CODE"
      by (rule part_before_app [OF lf present_parts(1) ready_sizes(2) [OF ok]])
    ultimately have l: "256 \<le> length buf'" using len pokes_length [OF W(2)] by simp
    have "peek 0 1 buf' = peek 0 1 buf" by (rule mbr_untouched [OF f ok lf False mbr [OF False] W])
    then have "peek8 0 buf' = Some 0" using zero l pokes_length [OF W(2)] by (simp add: peek8_def peek_def)
    then have "is_ivt_header buf' 0 = Some False"
      using l by (simp add: is_ivt_header_def peek8_def peek16_def peek_def IVT_TAG_def)
    then show ?thesis using here sz False
      by (simp add: get_ivt_from_raw_blob_def ivt_place_def layout_simps)
  qed
qed

text \<open>The state \<open>s32cc_vrec_header\<close> leaves for \<open>s32cc_set_header\<close>, and the mapped output file.\<close>

definition built_state :: "image_config \<Rightarrow> built_layout \<Rightarrow> tool_state" where
  "built_state c b = \<lparr>ts_conf = c, ts_layout = bl_layout b\<rparr>"

definition load_allowed :: "image_config \<Rightarrow> nat \<Rightarrow> tool_params \<Rightarrow> bool" where
  "load_allowed c n tp \<longleftrightarrow> tp_addr tp \<le> tp_ep tp \<and>
     (flash_boot c \<or> enforce_reserved_ranges (ucast (tp_addr tp)) (image_code_length c n) = None)"


lemma demo_build:
  obtains b where "s32g2xx_build_layout isort True iconfig_init (boot_layout iconfig_init) = Some (Inr b)"
    "unat (bl_header_size b) < 2 ^ 32"
  using build_layout_facts [OF insertion.qsort_ok_axioms, of iconfig_init]
  by (auto simp: conf_ok_def iconfig_init_def)

lemma demo_conf: "conf_ok iconfig_init" "files_ok iconfig_init"
  by (simp_all add: conf_ok_def files_ok_def iconfig_init_def dcd_wf_def)


section \<open>The report of a header\<close>

definition expected_comps :: "image_config \<Rightarrow> program_image \<Rightarrow> nat \<Rightarrow> layout_comp list" where
  "expected_comps c img n =
    [\<lparr>lc_offset = of_nat (ivt_place c), lc_size = 256, lc_desc = ''IVT''\<rparr>,
     if flash_boot c then \<lparr>lc_offset = 0x200, lc_size = 0x200, lc_desc = ''QSPI Parameters''\<rparr> else no_comp,
     if dcd_data c \<noteq> None then \<lparr>lc_offset = of_nat (part_off img DCD), lc_size = of_nat (dcd_size c),
       lc_desc = ''DCD''\<rparr> else no_comp,
     if hse_enable c then \<lparr>lc_offset = of_nat (part_off img HSE_FW), lc_size = 0, lc_desc = ''HSE Firmware''\<rparr>
       else no_comp,
     if hse_enable c then \<lparr>lc_offset = of_nat (part_off img HSE_SYS_IMG), lc_size = 0xc000,
       lc_desc = ''HSE SYS Image''\<rparr> else no_comp,
     \<lparr>lc_offset = of_nat (part_off img APP_CODE), lc_size = 64, lc_desc = ''AppBootCode Header''\<rparr>,
     \<lparr>lc_offset = of_nat (part_off img APP_CODE) + 64, lc_size = image_code_length c n,
       lc_desc = ''Application''\<rparr>]"

lemma ucast_part_off: "ucast (ic_offset (img p)) = (of_nat (part_off img p) :: u32)"
  by (simp add: part_off_def)

lemma of_nat_u32: "n < 2 ^ 32 \<Longrightarrow> unat (of_nat n :: u32) = n"
  by (simp add: unsigned_of_nat take_bit_nat_eq_self)

lemma small_consts:
  "(ucast sizeof_ivt :: u32) = 256" "(ucast sizeof_app_code :: u32) = 64" "(ucast QSPI_PARAMS_OFFSET :: u32) = 0x200"
  "(ucast QSPI_PARAMS_SIZE :: u32) = 0x200" "(ucast HSE_SYS_IMG_MAX_SIZE :: u32) = 0xc000"
  by (simp_all add: sizeof_ivt_def sizeof_app_code_def QSPI_PARAMS_OFFSET_def QSPI_PARAMS_SIZE_def
      HSE_SYS_IMG_MAX_SIZE_def)

lemma peek32_store: "peek off (length (le32 w)) buf = Some (le32 w) \<Longrightarrow> peek32 off buf = Some w"
  by (simp add: peek32_def)

lemma peek32_zero: "peek off 4 buf = Some [0, 0, 0, 0] \<Longrightarrow> peek32 off buf = Some 0"
  by (simp add: peek32_def)

lemma peek_zeros: "take hs buf = replicate hs 0 \<Longrightarrow> hs \<le> length buf \<Longrightarrow> i + k \<le> hs \<Longrightarrow>
  peek i k buf = Some (replicate k 0)"
proof -
  assume a: "take hs buf = replicate hs 0" "hs \<le> length buf" "i + k \<le> hs"
  have "take k (drop i buf) = take k (drop i (take hs buf))"
    using a(3) by (simp add: drop_take min_def)
  then show ?thesis using a by (simp add: peek_def)
qed

lemma print_header_fields:
  assumes f: "files_ok c" and ok: "conf_ok c" and lf: "layout_facts c img hs"
    and mbr: "\<not> flash_boot c \<Longrightarrow> part_off img MBR_RESERVED = 0"
    and W: "header_stores c img n tp = Some ws" "pokes ws buf = Some buf'"
    and len: "hs \<le> length buf" and zero: "take hs buf = replicate hs 0"
  shows "s32cc_print_header qs buf' = Some (Some
    \<lparr>hr_layout = print_layout (qs layout_comparator (expected_comps c img n)),
     hr_boot_target = (if a53_boot c then 1 else 0), hr_qspi = flash_boot c,
     hr_load = tp_addr tp, hr_entry = tp_ep tp\<rparr>)"
proof -
  have pl: "part_off img IVT = ivt_place c" using lf by (simp add: layout_facts_def ivt_place_def)
  have hs: "hs = part_off img APP_CODE + 64" "hs < 2 ^ 32" using lf by (simp_all add: layout_facts_def)
  have ivt_end: "ivt_place c + 256 \<le> part_off img APP_CODE"
    using part_before_app [OF lf present_parts(1) ready_sizes(2) [OF ok]] pl by simp
  have lt: "part_off img p < 2 ^ 32" if "p \<in> set (present (layout_parts c)) \<or> p = APP_CODE" for p
    using that hs part_before_app [OF lf _ refl, of p] by auto
  have z1: "take 1 buf = [0]"
    using arg_cong [OF zero, of "take 1"] hs(1) by (simp add: min_def)
  have g: "get_ivt_from_raw_blob buf' (int (unat SD_IVT_OFFSET) + 256) = Some (Some (ivt_place c, flash_boot c))"
    by (rule ivt_found [OF f ok lf mbr W len z1]) (simp_all add: ivt_place_def layout_simps)
  have rd: "peek (fst v) (length (snd v)) buf' = Some (snd v)"
    if "v \<in> set (ivt_stores c img) \<or> v \<in> set (app_stores c img n tp)" for v
    by (rule fixed_store_read [OF f ok lf W that])
  have rd32: "peek32 off buf' = Some w"
    if "(off, le32 w) \<in> set (ivt_stores c img) \<or> (off, le32 w) \<in> set (app_stores c img n tp)" for off w
    using rd [OF that] by (intro peek32_store) (simp only: fst_conv snd_conv)
  have hole: "peek32 (ivt_place c + i) buf' = Some 0"
    if "i + 4 \<le> 256" "\<And>w. w \<in> set (ivt_stores c img) \<Longrightarrow> apart (part_off img IVT + i) 4 w" for i
  proof -
    have "peek (ivt_place c + i) 4 buf' = peek (ivt_place c + i) 4 buf"
      using ivt_hole_read [OF f ok lf W that] pl by simp
    also have "\<dots> = Some (replicate 4 0)" by (rule peek_zeros [OF zero len]) (use that(1) ivt_end hs in simp)
    finally show ?thesis by (intro peek32_zero) (simp add: numeral_eq_Suc)
  qed
  have bcw: "peek32 (ivt_place c + 40) buf' =
      Some (if a53_boot c then BCW_BOOT_TARGET_A53_0 else BCW_BOOT_TARGET_M7_0)"
    by (rule rd32) (simp add: ivt_stores_def Let_def pl)
  have ap: "peek32 (ivt_place c + 32) buf' = Some (of_nat (part_off img APP_CODE))"
    by (rule rd32) (simp add: ivt_stores_def Let_def pl ucast_part_off)
  have uap: "unat (of_nat (part_off img APP_CODE) :: u32) = part_off img APP_CODE"
    by (rule of_nat_u32) (rule lt, simp)
  have app: "peek32 (part_off img APP_CODE + 12) buf' = Some (image_code_length c n)"
    "peek32 (part_off img APP_CODE + 4) buf' = Some (tp_addr tp)"
    "peek32 (part_off img APP_CODE + 8) buf' = Some (tp_ep tp)"
    by (rule rd32, simp add: app_stores_def Let_def)+
  have dcd: "peek32 (ivt_place c + 16) buf' = Some (if dcd_data c \<noteq> None then of_nat (part_off img DCD) else 0)"
  proof (cases "dcd_data c = None")
    case True
    then have "peek32 (ivt_place c + 16) buf' = Some 0"
      by (intro hole) (auto simp: ivt_stores_def Let_def apart_def)
    with True show ?thesis by simp
  next
    case False
    then have "peek32 (ivt_place c + 16) buf' = Some (of_nat (part_off img DCD))"
      by (intro rd32) (simp add: ivt_stores_def Let_def pl ucast_part_off)
    with False show ?thesis by simp
  qed
  have fp: "peek32 (ivt_place c + 24) buf' = Some (if hse_enable c then of_nat (part_off img HSE_FW) else 0)"
    "peek32 (ivt_place c + 52) buf' = Some (if hse_enable c then of_nat (part_off img HSE_SYS_IMG) else 0)"
  proof -
    have "peek32 (ivt_place c + 24) buf' = Some 0" "peek32 (ivt_place c + 52) buf' = Some 0" if "\<not> hse_enable c"
      by (intro hole; use that in \<open>auto simp: ivt_stores_def Let_def apart_def\<close>)+
    moreover have "peek32 (ivt_place c + 24) buf' = Some (of_nat (part_off img HSE_FW))"
      "peek32 (ivt_place c + 52) buf' = Some (of_nat (part_off img HSE_SYS_IMG))" if "hse_enable c"
      by (intro rd32; use that in \<open>simp add: ivt_stores_def Let_def pl ucast_part_off\<close>)+
    ultimately show "peek32 (ivt_place c + 24) buf' = Some (if hse_enable c then of_nat (part_off img HSE_FW) else 0)"
      "peek32 (ivt_place c + 52) buf' = Some (if hse_enable c then of_nat (part_off img HSE_SYS_IMG) else 0)"
      by auto
  qed
  have nz: "(of_nat (part_off img p) :: u32) \<noteq> 0"
    if "p \<in> set (present (layout_parts c))" "p \<noteq> IVT" "p \<noteq> MBR_RESERVED" "0 < usize (ready_layout c) p" for p
  proof -
    have "part_off img p \<noteq> 0" by (rule part_not_at_0 [OF ok lf mbr that])
    moreover have "unat (of_nat (part_off img p) :: u32) = part_off img p"
      by (rule of_nat_u32) (rule lt, simp add: that(1))
    ultimately show ?thesis by (metis unat_0)
  qed
  have dlen: "peek16 (Suc (part_off img DCD)) buf' = Some (ucast (uswap_16 (of_nat (dcd_size c))))"
    "uswap_16 (ucast (ucast (uswap_16 (of_nat (dcd_size c))) :: u16)) = of_nat (dcd_size c)"
    "(of_nat (part_off img DCD) :: u32) \<noteq> 0" "unat (of_nat (part_off img DCD) :: u32) = part_off img DCD"
    if d: "dcd_data c \<noteq> None"
  proof -
    note dl = dcd_length_read [OF f ok lf d W]
    show "peek16 (Suc (part_off img DCD)) buf' = Some (ucast (uswap_16 (of_nat (dcd_size c))))"
      using dl(1) by (simp add: peek16_def)
    have le: "dcd_size c \<le> 8192" using ok by (simp add: conf_ok_def layout_simps)
    then have "(of_nat (dcd_size c) :: u32) < 0x10000" by (simp add: word_less_nat_alt of_nat_u32)
    then show "uswap_16 (ucast (ucast (uswap_16 (of_nat (dcd_size c))) :: u16)) = of_nat (dcd_size c)"
      by (rule uswap_16_twice)
    have p: "DCD \<in> set (present (layout_parts c))" using dl(2) by (intro present_parts(2)) simp
    show "(of_nat (part_off img DCD) :: u32) \<noteq> 0" by (rule nz [OF p]) (use dl(2) ready_sizes(4) [OF ok] in simp_all)
    show "unat (of_nat (part_off img DCD) :: u32) = part_off img DCD" by (rule of_nat_u32) (rule lt, simp add: p)
  qed
  have hnz: "(of_nat (part_off img HSE_FW) :: u32) \<noteq> 0" "(of_nat (part_off img HSE_SYS_IMG) :: u32) \<noteq> 0"
    if h: "hse_enable c"
  proof -
    have "0 < hse_fw_size c" using ok h by (simp add: conf_ok_def)
    then show "(of_nat (part_off img HSE_FW) :: u32) \<noteq> 0"
      by (intro nz) (simp_all add: present_parts(4) [OF h] ready_sizes(5) [OF ok])
    show "(of_nat (part_off img HSE_SYS_IMG) :: u32) \<noteq> 0"
      by (intro nz) (simp_all add: part_getters h ready_sizes(6) [OF ok])
  qed
  have bt: "(if a53_boot c then BCW_BOOT_TARGET_A53_0 else BCW_BOOT_TARGET_M7_0) AND BOOT_TARGET_MASK =
      (if a53_boot c then 1 else 0)"
    by (simp add: BCW_BOOT_TARGET_A53_0_def BCW_BOOT_TARGET_M7_0_def BOOT_TARGET_MASK_def)
  show ?thesis
    unfolding s32cc_print_header_def g
    by (cases "dcd_data c = None"; cases "hse_enable c")
      (simp_all add: bcw ap uap app dcd fp dlen hnz bt expected_comps_def small_consts
        DCD_HEADER_LENGTH_OFFSET_def Let_def)
qed

lemma big_endian_length:
  assumes "n \<le> 8192"
  shows "le16 (ucast (uswap_16 (of_nat n))) = [of_nat (n div 256), of_nat n]"
proof -
  have m: "(0xff00::u32) = push_bit 8 (mask 8)" "(0xff::u32) = mask 8"
    by (simp_all add: mask_eq_exp_minus_1 push_bit_eq_mult)
  have u: "unat (of_nat n :: u32) = n" using assms by (intro of_nat_u32) simp
  have lo: "ucast (drop_bit 8 (ucast (uswap_16 (of_nat n)) :: u16)) = (of_nat n :: u8)"
    unfolding uswap_16_def m by (rule bit_word_eqI) (simp add: bit_simps)
  have dv: "n div 256 = drop_bit 8 n" by (simp add: drop_bit_eq_div)
  have hi: "ucast (ucast (uswap_16 (of_nat n)) :: u16) = (of_nat (n div 256) :: u8)"
    unfolding uswap_16_def m
    unfolding dv by (rule bit_word_eqI) (auto simp: bit_simps add.commute)
  show ?thesis by (simp add: le16_def lo hi)
qed

text \<open>What a run of \<open>s32cc_set_header\<close> that does not exit leaves in the mapping.\<close>

lemma set_header_result:
  assumes qs: "qsort_ok qs" and ok: "conf_ok c" and f: "files_ok c"
    and b: "s32g2xx_build_layout qs True c (boot_layout c) = Some (Inr b)"
    and len: "unat (bl_header_size b) \<le> length buf" and load: "load_allowed c n tp"
  obtains ws buf' st' where "s32cc_set_header (built_state c b) n tp buf = Some (Inr (buf', st'))"
    "header_stores c (set_data_pointers c (bl_layout b)) n tp = Some ws" "pokes ws buf = Some buf'"
    "layout_facts c (set_data_pointers c (bl_layout b)) (unat (bl_header_size b))"
    "\<not> flash_boot c \<Longrightarrow> part_off (set_data_pointers c (bl_layout b)) MBR_RESERVED = 0"
proof -
  note bf = built_layout_facts [OF qs ok b]
  let ?st = "built_state c b" and ?img = "set_data_pointers c (bl_layout b)"
  have lf: "layout_facts c ?img (unat (bl_header_size b))" using bf(1) by (simp add: pointers_layout_facts)
  have st: "ts_conf ?st = c" "ts_layout ?st = bl_layout b" by (simp_all add: built_state_def)
  have f': "files_ok (ts_conf ?st)" "conf_ok (ts_conf ?st)"
    "layout_facts (ts_conf ?st) (set_data_pointers (ts_conf ?st) (ts_layout ?st)) (unat (bl_header_size b))"
    using f ok lf by (simp_all add: built_state_def)
  obtain ws buf' st' where r:
    "header_stores c ?img n tp = Some ws" "pokes ws buf = Some buf'"
    "s32cc_set_header ?st n tp buf =
      (if tp_ep tp < tp_addr tp then Some (Inl ''The entrypoint is higher than the load address'')
       else if \<not> flash_boot c \<and> enforce_reserved_ranges (ucast (tp_addr tp)) (image_code_length c n) \<noteq> None
       then Some (Inl ''Loading data forbidden, range is reserved'')
       else Some (Inr (buf', st')))"
    by (rule set_header_run [OF f' len, unfolded st])
  have "s32cc_set_header ?st n tp buf = Some (Inr (buf', st'))"
    using r(3) load by (auto simp: load_allowed_def not_less)
  then show ?thesis using that r(1,2) lf bf(2) by simp
qed

text \<open>
  C9.  Listing an image shows what it was built from: on the file that \<open>s32cc_set_header\<close>
  produced over a zeroed header, \<open>s32cc_print_header\<close> reports the offset and size of exactly the
  components of the configuration (the DCD length read back from the DCD itself), the boot core,
  the vector table's place, the load address and the entry point.
\<close>

theorem print_header_roundtrip:
  assumes qs: "qsort_ok qs" and ok: "conf_ok c" and f: "files_ok c"
    and b: "s32g2xx_build_layout qs True c (boot_layout c) = Some (Inr b)"
    and len: "unat (bl_header_size b) \<le> length buf" and load: "load_allowed c n tp"
    and zero: "take (unat (bl_header_size b)) buf = replicate (unat (bl_header_size b)) 0"
  shows "\<exists>buf' st'. s32cc_set_header (built_state c b) n tp buf = Some (Inr (buf', st')) \<and>
    s32cc_print_header srt buf' = Some (Some
      \<lparr>hr_layout = print_layout (srt layout_comparator (expected_comps c (bl_layout b) n)),
       hr_boot_target = (if a53_boot c then 1 else 0), hr_qspi = flash_boot c,
       hr_load = tp_addr tp, hr_entry = tp_ep tp\<rparr>)"
proof -
  obtain ws buf' st' where r: "s32cc_set_header (built_state c b) n tp buf = Some (Inr (buf', st'))"
    "header_stores c (set_data_pointers c (bl_layout b)) n tp = Some ws" "pokes ws buf = Some buf'"
    "layout_facts c (set_data_pointers c (bl_layout b)) (unat (bl_header_size b))"
    "\<not> flash_boot c \<Longrightarrow> part_off (set_data_pointers c (bl_layout b)) MBR_RESERVED = 0"
    using set_header_result [OF qs ok f b len load] by metis
  have "expected_comps c (set_data_pointers c (bl_layout b)) n = expected_comps c (bl_layout b) n"
    by (simp add: expected_comps_def)
  with print_header_fields [OF f ok r(4,5,2,3) len zero, of srt] r(1) show ?thesis by simp
qed

theorem print_header_roundtrip_witness:
  "\<exists>b buf' st' rep. s32g2xx_build_layout isort True iconfig_init (boot_layout iconfig_init) = Some (Inr b) \<and>
     s32cc_set_header (built_state iconfig_init b) 1000 \<lparr>tp_addr = 0x34100000, tp_ep = 0x34100040\<rparr>
       (replicate (unat (bl_header_size b)) 0) = Some (Inr (buf', st')) \<and>
     s32cc_print_header isort buf' = Some (Some rep) \<and> hr_entry rep = 0x34100040 \<and> hr_boot_target rep = 1"
proof -
  obtain b where b: "s32g2xx_build_layout isort True iconfig_init (boot_layout iconfig_init) = Some (Inr b)"
    by (rule demo_build)
  have "load_allowed iconfig_init 1000 \<lparr>tp_addr = 0x34100000, tp_ep = 0x34100040\<rparr>"
    by (simp add: load_allowed_def iconfig_init_def enforce_reserved_ranges_def image_code_length_def
        ROUND32_def reserved_sram_def)
  moreover have "a53_boot iconfig_init" by (simp add: iconfig_init_def)
  ultimately show ?thesis
    using print_header_roundtrip [OF insertion.qsort_ok_axioms demo_conf b, of "replicate (unat (bl_header_size b)) 0"
        1000 "\<lparr>tp_addr = 0x34100000, tp_ep = 0x34100040\<rparr>" isort] b by auto
qed

text \<open>
  C27.  The DCD area of the written image: the two bytes after the tag hold the length in big
  endian, the version byte is kept, and behind the header word follow the words of the
  configuration's array, from which the boot ROM decodes the configured commands.
\<close>

theorem set_header_dcd:
  assumes qs: "qsort_ok qs" and ok: "conf_ok c" and f: "files_ok c"
    and b: "s32g2xx_build_layout qs True c (boot_layout c) = Some (Inr b)"
    and len: "unat (bl_header_size b) \<le> length buf" and load: "load_allowed c n tp"
    and words: "dcd_words c = DCD_HEADER # ws"
  shows "\<exists>buf' st'. s32cc_set_header (built_state c b) n tp buf = Some (Inr (buf', st')) \<and>
    (let dcd = part_off (bl_layout b) DCD
     in peek (dcd + 1) 2 buf' = Some [of_nat (dcd_size c div 256), of_nat (dcd_size c)] \<and>
        peek (dcd + 3) (dcd_size c - 3) buf' = Some (0x60 # concat (map le32 ws)))"
proof -
  let ?img = "set_data_pointers c (bl_layout b)"
  obtain hw buf' st' where r: "s32cc_set_header (built_state c b) n tp buf = Some (Inr (buf', st'))"
    "header_stores c ?img n tp = Some hw" "pokes hw buf = Some buf'"
    "layout_facts c ?img (unat (bl_header_size b))"
    using set_header_result [OF qs ok f b len load] by metis
  have d: "dcd_data c \<noteq> None" using words by (cases "dcd_data c") (simp_all add: dcd_words_def)
  note dl = dcd_length_read [OF f ok r(4) d r(2,3)]
  have "dcd_size c \<le> 8192" using ok by (simp add: conf_ok_def layout_simps)
  then have be: "le16 (ucast (uswap_16 (of_nat (dcd_size c)))) = [of_nat (dcd_size c div 256), of_nat (dcd_size c)]"
    by (rule big_endian_length)
  have h4: "le32 DCD_HEADER = [0xd2, 0, 0, 0x60]" by (simp add: le32_def DCD_HEADER_def)
  have tl3: "drop 3 (concat (map le32 (dcd_words c))) = 0x60 # concat (map le32 ws)"
    using h4 by (simp add: words eval_nat_numeral)
  show ?thesis
    unfolding Let_def
    using r(1) dl(1) [unfolded data_pointers_off be] dl(3) [unfolded data_pointers_off tl3] by blast
qed

definition demo_dcd_conf :: image_config where
  "demo_dcd_conf = iconfig_init\<lparr>dcd_data := Some [Some DCD_HEADER, Some 0x60000cc, None],
     dcd_size := 8, dcd_allocated_size := 12\<rparr>"

lemma demo_dcd_conf: "conf_ok demo_dcd_conf" "files_ok demo_dcd_conf" "dcd_words demo_dcd_conf = [DCD_HEADER, 0x60000cc]"
  by (simp_all add: conf_ok_def files_ok_def demo_dcd_conf_def iconfig_init_def dcd_wf_def dcd_words_def
      layout_simps)

theorem set_header_dcd_witness:
  "\<exists>b buf' st'. s32g2xx_build_layout isort True demo_dcd_conf (boot_layout demo_dcd_conf) = Some (Inr b) \<and>
     s32cc_set_header (built_state demo_dcd_conf b) 1000 \<lparr>tp_addr = 0x34100000, tp_ep = 0x34100040\<rparr>
       (replicate (unat (bl_header_size b)) 0) = Some (Inr (buf', st')) \<and>
     peek (part_off (bl_layout b) DCD + 1) 2 buf' = Some [0, 8]"
proof -
  obtain b where b: "s32g2xx_build_layout isort True demo_dcd_conf (boot_layout demo_dcd_conf) = Some (Inr b)"
    using build_layout_facts [OF insertion.qsort_ok_axioms demo_dcd_conf(1)] by blast
  have "load_allowed demo_dcd_conf 1000 \<lparr>tp_addr = 0x34100000, tp_ep = 0x34100040\<rparr>"
    by (simp add: load_allowed_def demo_dcd_conf_def iconfig_init_def enforce_reserved_ranges_def
        image_code_length_def ROUND32_def reserved_sram_def)
  moreover have "dcd_size demo_dcd_conf = 8" by (simp add: demo_dcd_conf_def)
  ultimately show ?thesis
    using set_header_dcd [OF insertion.qsort_ok_axioms demo_dcd_conf(1,2) b, of "replicate (unat (bl_header_size b)) 0"
        1000 "\<lparr>tp_addr = 0x34100000, tp_ep = 0x34100040\<rparr>" "[0x60000cc]"] b
    by (auto simp: demo_dcd_conf(3) Let_def)
qed

end
