(* ===== verification/Mktool.thy ===== *)
theory Mktool
  imports Mkimage
begin

text \<open>
  The command line of the image tool, tools/mkimage/main.c: option processing, the padding copy of
  the data file, and the two runs of \<open>main\<close>, building an image and listing one.

  \<open>getopt\<close> belongs to the C library: its result, the recognised options with their arguments and
  the remaining operands, is the input of \<open>process_args\<close>.  The files are those of the environment
  of the configuration parser; the result of a build is the contents of the output file.  A
  mapping covers whole pages, so a store behind the last mapped page is \<open>None\<close>.  \<open>Inl\<close> is an exit
  with failure.
\<close>

section \<open>Options\<close>

record tool_args =
  ta_addr :: u32
  ta_ep :: u32
  ta_dflag :: bool
  ta_eflag :: bool
  ta_lflag :: bool
  ta_imagename :: string
  ta_datafile :: "string option"
  ta_imagefile :: "string option"

definition params_init :: tool_args where
  "params_init = \<lparr>ta_addr = 0, ta_ep = 0, ta_dflag = False, ta_eflag = False, ta_lflag = False,
     ta_imagename = '''', ta_datafile = None, ta_imagefile = None\<rparr>"

text \<open>\<open>strtoull(s, &ptr, 16)\<close>: the value, capped at 64 bits, and what is left of the string.\<close>

definition strtoull16 :: "string \<Rightarrow> nat \<times> string" where
  "strtoull16 s =
     (let s1 = dropWhile isspace s;
          neg = (s1 \<noteq> [] \<and> hd s1 = CHR ''-'');
          s2 = (if s1 \<noteq> [] \<and> hd s1 \<in> {CHR ''-'', CHR ''+''} then tl s1 else s1);
          s3 = (if take 2 s2 \<in> {''0x'', ''0X''} \<and> drop 2 s2 \<noteq> [] \<and> hex_val (hd (drop 2 s2)) \<noteq> None
                then drop 2 s2 else s2);
          ds = takeWhile (\<lambda>c. hex_val c \<noteq> None) s3;
          n = hex_value ds
      in if ds = [] then (0, s)
         else (if n \<ge> 2 ^ 64 then 2 ^ 64 - 1 else if neg then (2 ^ 64 - n) mod 2 ^ 64 else n,
               drop (length ds) s3))"

fun process_opts :: "(char \<times> string) list \<Rightarrow> tool_args \<Rightarrow> string + tool_args" where
  "process_opts [] p = Inr p"
| "process_opts ((opt, optarg) # rest) p =
     (if opt = CHR ''a'' then
        (let (v, ptr) = strtoull16 optarg
         in if ptr \<noteq> [] then Inl ''invalid load address'' else process_opts rest (p\<lparr>ta_addr := of_nat v\<rparr>))
      else if opt = CHR ''d'' then process_opts rest (p\<lparr>ta_datafile := Some optarg, ta_dflag := True\<rparr>)
      else if opt = CHR ''e'' then
        (let (v, ptr) = strtoull16 optarg
         in if ptr \<noteq> [] then Inl ''invalid entry point''
            else process_opts rest (p\<lparr>ta_ep := of_nat v, ta_eflag := True\<rparr>))
      else if opt = CHR ''l'' then process_opts rest (p\<lparr>ta_lflag := True\<rparr>)
      else if opt = CHR ''n'' then process_opts rest (p\<lparr>ta_imagename := optarg\<rparr>)
      else Inl ''Invalid option'')"

definition process_args :: "(char \<times> string) list \<Rightarrow> string list \<Rightarrow> string + tool_args" where
  "process_args opts operands =
     (case process_opts opts params_init of
        Inl e \<Rightarrow> Inl e
      | Inr p \<Rightarrow>
          (let p' = (case operands of [] \<Rightarrow> p | f # _ \<Rightarrow> p\<lparr>ta_imagefile := Some f\<rparr>)
           in if ta_imagefile p' = None then Inl ''Missing output filename'' else Inr p'))"

section \<open>Copying the data file\<close>

text \<open>The loop that writes \<open>pad\<close> zero bytes in pieces of at most 4096.\<close>

function pad_writes :: "nat \<Rightarrow> u8 list list" where
  "pad_writes pad = (if pad = 0 then [] else (let todo = min 4096 pad in replicate todo 0 # pad_writes (pad - todo)))"
  by pat_completeness auto
termination
  by (relation "measure id") (auto simp: Let_def)

declare pad_writes.simps [simp del]

definition copy_file :: "u8 list \<Rightarrow> u8 list \<Rightarrow> nat \<Rightarrow> string + u8 list" where
  "copy_file out data pad =
     (if data = [] then Inl ''Can't read''
      else
        (let out1 = out @ data; tail = length data mod 4
         in Inr (if pad = 1 \<and> tail \<noteq> 0 then out1 @ replicate (4 - tail) 0
                 else if pad > 1 then out1 @ concat (pad_writes pad) else out1)))"

section \<open>The two runs\<close>

definition page_round :: "nat \<Rightarrow> nat" where
  "page_round n = (n + 4095) div 4096 * 4096"

definition text_of :: "u8 list \<Rightarrow> string" where
  "text_of bs = map (\<lambda>b. char_of (unat b)) bs"

definition config_text :: "host_env \<Rightarrow> string \<Rightarrow> string option" where
  "config_text env path = (case he_file env path of Inl _ \<Rightarrow> None | Inr bs \<Rightarrow> Some (text_of bs))"

definition flags_of :: "tool_args \<Rightarrow> tool_flags" where
  "flags_of p = \<lparr>tf_dflag = ta_dflag p, tf_eflag = ta_eflag p, tf_fflag = False, tf_lflag = ta_lflag p,
     tf_xflag = False, tf_imagename = ta_imagename p\<rparr>"

type_synonym comp_sort =
  "(layout_comp \<Rightarrow> layout_comp \<Rightarrow> int) \<Rightarrow> layout_comp list \<Rightarrow> layout_comp list"

text \<open>\<open>mkimage -l\<close>.\<close>

definition list_image :: "comp_sort \<Rightarrow> u8 list \<Rightarrow> (string + header_report option) option" where
  "list_image srt file =
     (if file = [] then Some (Inl ''Can't read'')
      else do {
        rc \<leftarrow> s32cc_verify_header file (int (length file));
        if rc \<noteq> 0 then Some (Inl ''Can't verify head'')
        else map_option Inr (s32cc_print_header srt file)
      })"

text \<open>
  Building.  The length of the mapping is taken from the data file (\<open>fstat(dfd, ...)\<close>), not from
  the output file.
\<close>

definition build_image ::
  "part_sort \<Rightarrow> comp_sort \<Rightarrow> host_env \<Rightarrow> tool_args \<Rightarrow> (string + u8 list \<times> header_report option) option" where
  "build_image qs srt env p =
     (case ta_datafile p of
        None \<Rightarrow> Some (Inl ''Can't open'')
      | Some path \<Rightarrow>
          (case he_file env path of
             Inl _ \<Rightarrow> Some (Inl ''Can't open'')
           | Inr data \<Rightarrow> do {
               r \<leftarrow> s32cc_vrec_header qs env (config_text env (ta_imagename p)) tool_init;
               case r of
                 Inl e \<Rightarrow> Some (Inl e)
               | Inr v \<Rightarrow>
                   (case vr_hdr v of
                      None \<Rightarrow> Some (Inl ''Write error'')
                    | Some hdr \<Rightarrow>
                        (case copy_file (take (unat (vr_header_size v)) hdr) data 0 of
                           Inl e \<Rightarrow> Some (Inl e)
                         | Inr file \<Rightarrow> do {
                             let map_len = page_round (length data);
                             let view = take map_len file;
                             s \<leftarrow> s32cc_set_header (vr_state v) (length data)
                                   \<lparr>tp_addr = ta_addr p, tp_ep = ta_ep p\<rparr> view;
                             case s of
                               Inl e \<Rightarrow> Some (Inl e)
                             | Inr (view', _) \<Rightarrow> do {
                                 rep \<leftarrow> s32cc_print_header srt view';
                                 Some (Inr (view' @ drop map_len file, rep))
                               }
                           }))
             }))"

datatype tool_result = Listed "header_report option" | Built "u8 list" "header_report option"

definition mkimage_main ::
  "part_sort \<Rightarrow> comp_sort \<Rightarrow> host_env \<Rightarrow> (char \<times> string) list \<Rightarrow> string list \<Rightarrow> (string + tool_result) option" where
  "mkimage_main qs srt env opts operands =
     (case process_args opts operands of
        Inl e \<Rightarrow> Some (Inl e)
      | Inr p \<Rightarrow>
          if s32cc_check_params (Some (flags_of p)) \<noteq> 0 then Some (Inl ''Bad parameters for image type'')
          else
            (let p1 = (if ta_eflag p then p else p\<lparr>ta_ep := ta_addr p\<rparr>)
             in if ta_lflag p1 then
                  (case he_file env (the (ta_imagefile p1)) of
                     Inl _ \<Rightarrow> Some (Inl ''Can't open'')
                   | Inr file \<Rightarrow> do {
                       r \<leftarrow> list_image srt file;
                       case r of Inl e \<Rightarrow> Some (Inl e) | Inr rep \<Rightarrow> Some (Inr (Listed rep))
                     })
                else do {
                  r \<leftarrow> build_image qs srt env p1;
                  case r of Inl e \<Rightarrow> Some (Inl e) | Inr (file, rep) \<Rightarrow> Some (Inr (Built file rep))
                }))"

section \<open>Properties\<close>

lemma pad_writes_zeros:
  "concat (pad_writes pad) = replicate pad 0 \<and> list_all (\<lambda>w. length w \<le> 4096) (pad_writes pad)"
proof (induction pad rule: pad_writes.induct)
  case (1 pad)
  show ?case
  proof (cases "pad = 0")
    case True
    then show ?thesis by (simp add: pad_writes.simps)
  next
    case False
    then have "pad_writes pad = replicate (min 4096 pad) 0 # pad_writes (pad - min 4096 pad)"
      by (subst pad_writes.simps) (simp add: Let_def)
    then show ?thesis using 1 [OF False refl] by (simp add: replicate_add [symmetric])
  qed
qed

text \<open>
  Copying the data file appends its bytes to the header and then the padding asked for: to a
  multiple of four bytes for 1, exactly \<open>pad\<close> zero bytes, in pieces of at most 4096, for more,
  nothing for 0; an empty data file ends the tool.
\<close>

theorem copy_file_spec:
  "copy_file out data pad =
    (if data = [] then Inl ''Can't read''
     else Inr (out @ data @ replicate (if pad = 1 then (4 - length data mod 4) mod 4 else pad) 0))"
  using pad_writes_zeros [of pad] by (auto simp: copy_file_def Let_def mod_Suc)

text \<open>What a configuration and a data file must satisfy for a build.\<close>

definition build_ready ::
  "part_sort \<Rightarrow> host_env \<Rightarrow> tool_args \<Rightarrow> string \<Rightarrow> u8 list \<Rightarrow> tool_state \<Rightarrow> built_layout \<Rightarrow> bool" where
  "build_ready qs env p path data st b \<longleftrightarrow>
     ta_datafile p = Some path \<and> he_file env path = Inr data \<and> data \<noteq> [] \<and> he_calloc env \<and>
     (\<exists>text. config_text env (ta_imagename p) = Some text \<and> build_conf env text tool_init = Some (0, st)) \<and>
     ts_layout st = boot_layout (ts_conf st) \<and> conf_ok (ts_conf st) \<and> files_ok (ts_conf st) \<and>
     s32g2xx_build_layout qs True (ts_conf st) (boot_layout (ts_conf st)) = Some (Inr b) \<and>
     load_allowed (ts_conf st) (length data) \<lparr>tp_addr = ta_addr p, tp_ep = ta_ep p\<rparr>"

lemma ready_vrec:
  assumes qs: "qsort_ok qs" and r: "build_ready qs env p path data st b"
  shows "s32cc_vrec_header qs env (config_text env (ta_imagename p)) tool_init =
    Some (Inr \<lparr>vr_state = st\<lparr>ts_layout := bl_layout b\<rparr>, vr_header_size = ucast (bl_header_size b),
               vr_hdr = Some (replicate (unat (bl_header_size b)) 0)\<rparr>)"
    "unat (ucast (bl_header_size b) :: u32) = unat (bl_header_size b)"
    "st\<lparr>ts_layout := bl_layout b\<rparr> = built_state (ts_conf st) b"
proof -
  have ok: "conf_ok (ts_conf st)"
    and b: "s32g2xx_build_layout qs True (ts_conf st) (boot_layout (ts_conf st)) = Some (Inr b)"
    using r by (simp_all add: build_ready_def)
  have im: "bl_image b = Some (replicate (unat (bl_header_size b)) 0)"
    using build_layout_facts [OF qs ok] b by auto
  show "s32cc_vrec_header qs env (config_text env (ta_imagename p)) tool_init =
    Some (Inr \<lparr>vr_state = st\<lparr>ts_layout := bl_layout b\<rparr>, vr_header_size = ucast (bl_header_size b),
               vr_hdr = Some (replicate (unat (bl_header_size b)) 0)\<rparr>)"
    using r b im by (auto simp: build_ready_def s32cc_vrec_header_def s32cc_parse_config_def)
  have "unat (bl_header_size b) < 2 ^ 32" by (rule built_layout_facts(3) [OF qs ok b])
  then show "unat (ucast (bl_header_size b) :: u32) = unat (bl_header_size b)"
    by (simp add: unsigned_ucast_eq take_bit_nat_eq_self)
  show "st\<lparr>ts_layout := bl_layout b\<rparr> = built_state (ts_conf st) b"
    by (simp add: built_state_def)
qed


lemma page_round_ge: "n \<le> page_round n"
proof -
  have "(n + 4095) div 4096 * 4096 + (n + 4095) mod 4096 = n + 4095" by (rule div_mult_mod_eq)
  moreover have "(n + 4095) mod 4096 < 4096" by (rule mod_less_divisor) simp
  ultimately show ?thesis unfolding page_round_def by linarith
qed

definition demo_files :: "string \<Rightarrow> nat \<Rightarrow> host_env" where
  "demo_files text n = \<lparr>he_file = (\<lambda>path. if path = ''conf'' then Inr (map of_char text)
       else if path = ''data'' then Inr (replicate n 7) else Inl 2),
     he_alloc = (\<lambda>_. True), he_calloc = True\<rparr>"

definition demo_args :: tool_args where
  "demo_args = params_init\<lparr>ta_addr := 0x34100000, ta_ep := 0x34100040, ta_imagename := ''conf'',
     ta_datafile := Some ''data''\<rparr>"

text \<open>The two configuration files of one line, and the states they lead to.\<close>

definition demo_text :: "bool \<Rightarrow> string" where
  "demo_text flash = (if flash then ''BOOT_FROM qspi'' else ''BOOT_FROM sd'') @ [CHR 0x0A]"

definition demo_state :: "bool \<Rightarrow> tool_state" where
  "demo_state flash = \<lparr>ts_conf = iconfig_init\<lparr>flash_boot := flash\<rparr>,
     ts_layout = set_offset IVT (if flash then QSPI_IVT_OFFSET else SD_IVT_OFFSET) image_layout_init\<rparr>"

lemma demo_state_facts:
  "conf_ok (ts_conf (demo_state fl))" "files_ok (ts_conf (demo_state fl))"
  "ts_layout (demo_state fl) = boot_layout (ts_conf (demo_state fl))"
  by (simp_all add: demo_state_def conf_ok_def files_ok_def iconfig_init_def dcd_wf_def boot_layout_def)

lemma demo_build_conf: "build_conf env (demo_text fl) tool_init = Some (0, demo_state fl)"
proof -
  have "fgets_all 255 (''BOOT_FROM qspi'' @ CHR 0x0A # []) = (''BOOT_FROM qspi'' @ [CHR 0x0A]) # fgets_all 255 []"
    "fgets_all 255 (''BOOT_FROM sd'' @ CHR 0x0A # []) = (''BOOT_FROM sd'' @ [CHR 0x0A]) # fgets_all 255 []"
    by (rule fgets_all_line; simp)+
  moreover have "fgets_all 255 [] = []" by (simp add: fgets_all.simps)
  ultimately have c: "fgets_all 255 (demo_text fl) = [demo_text fl]" by (cases fl) (simp_all add: demo_text_def)
  have "conf_line (demo_text fl) = Some (if fl then ''BOOT_FROM qspi'' else ''BOOT_FROM sd'')"
    by (simp add: conf_line_def demo_text_def c_string_def ltrim_def isspace_def)
  moreover have "parse_config_line env (if fl then ''BOOT_FROM qspi'' else ''BOOT_FROM sd'') tool_init =
      Some (0, demo_state fl)"
    by (simp add: parse_config_line_def parsers_def strncmp_tag_def ltrim_def isspace_def parse_boot_cmd_def
        bsources_def demo_state_def tool_init_def iconfig_init_def)
  ultimately show ?thesis by (simp add: build_conf_def c)
qed

lemma demo_config_text: "config_text (demo_files (demo_text fl) n) ''conf'' = Some (demo_text fl)"
proof -
  have "text_of (map of_char (demo_text True)) = demo_text True"
    "text_of (map of_char (demo_text False)) = demo_text False" by code_simp+
  then show ?thesis by (cases fl) (simp_all add: config_text_def demo_files_def)
qed

lemma demo_ready:
  assumes "s32g2xx_build_layout isort True (ts_conf (demo_state fl)) (boot_layout (ts_conf (demo_state fl))) =
      Some (Inr b)" "0 < n" "fl \<or> n = 1"
  shows "build_ready isort (demo_files (demo_text fl) n) demo_args ''data'' (replicate n 7) (demo_state fl) b"
proof -
  have "load_allowed (ts_conf (demo_state fl)) n \<lparr>tp_addr = 0x34100000, tp_ep = 0x34100040\<rparr>"
    using assms(3) by (auto simp: load_allowed_def demo_state_def iconfig_init_def enforce_reserved_ranges_def
        image_code_length_def ROUND32_def reserved_sram_def)
  then show ?thesis
    using assms(1,2) demo_state_facts [of fl] demo_build_conf [of "demo_files (demo_text fl) n" fl]
      demo_config_text [of fl n]
    by (simp add: build_ready_def demo_args_def demo_files_def)
qed


text \<open>
  The mapping is sized by the data file: when the data, in whole pages, ends before the
  application header, the build stores outside the mapping it made of the output file.
\<close>

theorem mkimage_short_data:
  assumes qs: "qsort_ok qs" and r: "build_ready qs env p path data st b"
    and short: "page_round (length data) < unat (bl_header_size b) - 48"
  shows "build_image qs srt env p = None"
proof -
  let ?c = "ts_conf st" and ?hs = "unat (bl_header_size b)" and ?n = "length data"
  let ?tp = "\<lparr>tp_addr = ta_addr p, tp_ep = ta_ep p\<rparr>"
  let ?img = "set_data_pointers ?c (bl_layout b)"
  have ok: "conf_ok ?c" and f: "files_ok ?c" and load: "load_allowed ?c ?n ?tp" and ne: "data \<noteq> []"
    and b: "s32g2xx_build_layout qs True ?c (boot_layout ?c) = Some (Inr b)"
    using r by (simp_all add: build_ready_def)
  note v = ready_vrec [OF qs r]
  let ?file = "replicate ?hs 0 @ data"
  let ?view = "take (page_round ?n) ?file"
  have path: "ta_datafile p = Some path" "he_file env path = Inr data" using r by (simp_all add: build_ready_def)
  have cf: "copy_file (take (unat (ucast (bl_header_size b) :: u32)) (replicate ?hs 0)) data 0 = Inr ?file"
    using ne by (simp add: copy_file_def Let_def v(2))
  have hs: "?hs = part_off ?img APP_CODE + 64"
    using built_layout_facts(1) [OF qs ok b] by (simp add: layout_facts_def)
  have "(part_off ?img APP_CODE + 12, le32 (image_code_length ?c ?n)) \<in> set (app_stores ?c ?img ?n ?tp)"
    by (simp add: app_stores_def Let_def)
  moreover have "length ?view < part_off ?img APP_CODE + 12 + length (le32 (image_code_length ?c ?n))"
    using short hs by simp
  ultimately have bad: "pokes (app_stores ?c ?img ?n ?tp) b1 = None" if "length b1 = length ?view" for b1
    using pokes_inside [of "app_stores ?c ?img ?n ?tp" b1] that
    by (metis fst_conv snd_conv linorder_not_less not_Some_eq)
  have "s32cc_set_header (built_state ?c b) ?n ?tp ?view = None"
  proof -
    obtain ds where ds: "dcd_stores ?c ?img = Some ds"
      using dcd_stores_inside [of ?c ?img] f unfolding files_ok_def by blast
    have sz: "\<not> dcd_size ?c > DCD_MAXIMUM_SIZE" using ok by (simp add: conf_ok_def)
    have ep: "\<not> ta_ep p < ta_addr p" using load by (simp add: load_allowed_def not_less)
    show ?thesis
    proof (cases "pokes (ds @ ivt_stores ?c ?img) ?view")
      case None
      then show ?thesis using ds sz by (simp add: s32cc_set_header_def built_state_def Let_def)
    next
      case (Some b1)
      then show ?thesis using ds sz ep bad [OF pokes_length [OF Some]]
        by (simp add: s32cc_set_header_def built_state_def Let_def)
    qed
  qed
  then show ?thesis
    unfolding build_image_def path option.case sum.case v(1) bind.bind_lunit vrec_result.simps cf Let_def v(3)
    by simp
qed

theorem mkimage_short_data_witness:
  "build_image isort isort (demo_files (demo_text False) 1) demo_args = None"
proof -
  let ?c = "ts_conf (demo_state False)"
  obtain b where b: "s32g2xx_build_layout isort True ?c (boot_layout ?c) = Some (Inr b)"
    using build_layout_facts [OF insertion.qsort_ok_axioms demo_state_facts(1)] by blast
  have lf: "layout_facts ?c (bl_layout b) (unat (bl_header_size b))"
    by (rule built_layout_facts(1) [OF insertion.qsort_ok_axioms demo_state_facts(1) b])
  have "part_off (bl_layout b) IVT + 256 \<le> part_off (bl_layout b) APP_CODE"
    by (rule part_before_app [OF lf present_parts(1) ready_sizes(2) [OF demo_state_facts(1)]])
  then have "page_round 1 < unat (bl_header_size b) - 48"
    using lf by (simp add: layout_facts_def demo_state_def page_round_def)
  moreover have "build_ready isort (demo_files (demo_text False) 1) demo_args ''data'' (replicate 1 7) (demo_state False) b"
    by (rule demo_ready [OF b]) simp_all
  ultimately show ?thesis
    using mkimage_short_data [OF insertion.qsort_ok_axioms] by fastforce
qed

end
