(* ===== verification/Slist.thy ===== *)
theory Slist
  imports Prelude
begin

text \<open>
  The intrusive singly linked list of include/zephyr/sys/slist.h, generated from the templates of
  include/zephyr/sys/list_gen.h.  A node is the object that embeds it, a pointer is an \<open>option\<close>
  with \<open>None\<close> for NULL, and the \<open>next\<close> fields of all nodes are one map that the operations
  update.  A list head is the pair of its two pointers.  The loops of the macros follow the
  \<open>next\<close> fields, which may be cyclic, so they are partial functions: \<open>None\<close> is a loop that does
  not end, or (for operations without a loop) a read through NULL.
\<close>

section \<open>State and operations\<close>

record 'a slist =
  sl_head :: "'a option"
  sl_tail :: "'a option"

type_synonym 'a nexts = "'a \<Rightarrow> 'a option"
type_synonym 'a lists = "'a nexts \<times> 'a slist"

definition sys_slist_init :: "'a slist \<Rightarrow> 'a slist" where
  "sys_slist_init l = l\<lparr>sl_head := None, sl_tail := None\<rparr>"

definition sys_slist_is_empty :: "'a slist \<Rightarrow> bool" where
  "sys_slist_is_empty l \<longleftrightarrow> sl_head l = None"

definition sys_slist_peek_next :: "'a nexts \<Rightarrow> 'a option \<Rightarrow> 'a option" where
  "sys_slist_peek_next nx p = (case p of None \<Rightarrow> None | Some n \<Rightarrow> nx n)"

definition sys_slist_prepend :: "'a \<Rightarrow> 'a lists \<Rightarrow> 'a lists" where
  "sys_slist_prepend n s =
     (let nx = (fst s)(n := sl_head (snd s));
          l = (snd s)\<lparr>sl_head := Some n\<rparr>
      in (nx, if sl_tail l = None then l\<lparr>sl_tail := sl_head l\<rparr> else l))"

definition sys_slist_append :: "'a \<Rightarrow> 'a lists \<Rightarrow> 'a lists" where
  "sys_slist_append n s =
     (let nx = (fst s)(n := None); l = snd s
      in case sl_tail l of
           None \<Rightarrow> (nx, l\<lparr>sl_tail := Some n, sl_head := Some n\<rparr>)
         | Some t \<Rightarrow> (nx(t := Some n), l\<lparr>sl_tail := Some n\<rparr>))"

definition sys_slist_append_list :: "'a option \<Rightarrow> 'a option \<Rightarrow> 'a lists \<Rightarrow> 'a lists" where
  "sys_slist_append_list hd_p tl_p s =
     (if hd_p \<noteq> None \<and> tl_p \<noteq> None then
        (case sl_tail (snd s) of
           None \<Rightarrow> (fst s, (snd s)\<lparr>sl_head := hd_p, sl_tail := tl_p\<rparr>)
         | Some t \<Rightarrow> ((fst s)(t := hd_p), (snd s)\<lparr>sl_tail := tl_p\<rparr>))
      else s)"

definition sys_slist_merge_slist ::
  "'a nexts \<Rightarrow> 'a slist \<Rightarrow> 'a slist \<Rightarrow> 'a nexts \<times> 'a slist \<times> 'a slist" where
  "sys_slist_merge_slist nx l m =
     (let (nx', l') = sys_slist_append_list (sl_head m) (sl_tail m) (nx, l)
      in (nx', l', sys_slist_init m))"

definition sys_slist_insert :: "'a option \<Rightarrow> 'a \<Rightarrow> 'a lists \<Rightarrow> 'a lists" where
  "sys_slist_insert prev n s =
     (case prev of
        None \<Rightarrow> sys_slist_prepend n s
      | Some p \<Rightarrow>
          (if fst s p = None then sys_slist_append n s
           else (let nx = (fst s)(n := fst s p) in (nx(p := Some n), snd s))))"

definition sys_slist_get_not_empty :: "'a lists \<Rightarrow> ('a \<times> 'a lists) option" where
  "sys_slist_get_not_empty s =
     (case sl_head (snd s) of
        None \<Rightarrow> None
      | Some n \<Rightarrow>
          (let l = (snd s)\<lparr>sl_head := fst s n\<rparr>
           in Some (n, (fst s, if sl_tail l = Some n then l\<lparr>sl_tail := sl_head l\<rparr> else l))))"

definition sys_slist_get :: "'a lists \<Rightarrow> ('a option \<times> 'a lists) option" where
  "sys_slist_get s =
     (if sys_slist_is_empty (snd s) then Some (None, s)
      else map_option (\<lambda>(n, s'). (Some n, s')) (sys_slist_get_not_empty s))"

definition sys_slist_remove :: "'a option \<Rightarrow> 'a \<Rightarrow> 'a lists \<Rightarrow> 'a lists" where
  "sys_slist_remove prev n s =
     (let nx = fst s; l = snd s;
          s' = (case prev of
                  None \<Rightarrow>
                    (let l1 = l\<lparr>sl_head := nx n\<rparr>
                     in (nx, if sl_tail l1 = Some n then l1\<lparr>sl_tail := sl_head l1\<rparr> else l1))
                | Some p \<Rightarrow>
                    (nx(p := nx n), if sl_tail l = Some n then l\<lparr>sl_tail := Some p\<rparr> else l))
      in ((fst s')(n := None), snd s'))"

text \<open>
  The loop of \<open>SYS_SLIST_FOR_EACH_NODE\<close> and \<open>SYS_SLIST_FOR_EACH_CONTAINER\<close>: the body may leave
  it with a result (a \<open>return\<close>); the \<open>next\<close> fields do not change while it goes on.
\<close>

partial_function (option) for_each ::
  "'a nexts \<Rightarrow> ('a \<Rightarrow> 's \<Rightarrow> 's \<times> 'r option) \<Rightarrow> 'a option \<Rightarrow> 's \<Rightarrow> ('s \<times> 'r option) option" where
  "for_each nx body c s =
     (case c of
        None \<Rightarrow> Some (s, None)
      | Some n \<Rightarrow>
          (case body n s of
             (s', Some r) \<Rightarrow> Some (s', Some r)
           | (s', None) \<Rightarrow> for_each nx body (nx n) s'))"

definition find_body ::
  "'a lists \<Rightarrow> 'a \<Rightarrow> 'a \<Rightarrow> 'a option \<Rightarrow> 'a option \<times> 'a lists option" where
  "find_body s n test prev =
     (if test = n then (prev, Some (sys_slist_remove prev n s)) else (Some test, None))"

definition sys_slist_find_and_remove :: "'a \<Rightarrow> 'a lists \<Rightarrow> (bool \<times> 'a lists) option" where
  "sys_slist_find_and_remove n s =
     map_option (\<lambda>(_, r). case r of Some s' \<Rightarrow> (True, s') | None \<Rightarrow> (False, s))
       (for_each (fst s) (find_body s n) (sl_head (snd s)) None)"

definition sys_slist_len :: "'a lists \<Rightarrow> nat option" where
  "sys_slist_len s =
     map_option fst (for_each (fst s) (\<lambda>_ n. (Suc n, None :: unit option)) (sl_head (snd s)) 0)"

section \<open>The list a heap represents\<close>

fun path :: "'a nexts \<Rightarrow> 'a option \<Rightarrow> 'a list \<Rightarrow> 'a option \<Rightarrow> bool" where
  "path nx p [] q = (p = q)"
| "path nx p (x # xs) q = (p = Some x \<and> path nx (nx x) xs q)"

lemma path_append [simp]: "path nx p (xs @ ys) q = (\<exists>r. path nx p xs r \<and> path nx r ys q)"
  by (induction xs arbitrary: p) auto

lemma path_upd [simp]: "n \<notin> set xs \<Longrightarrow> path (nx(n := v)) p xs q = path nx p xs q"
  by (induction xs arbitrary: p) auto

lemma path_cong: "(\<And>x. x \<in> set xs \<Longrightarrow> nx' x = nx x) \<Longrightarrow> path nx' p xs q = path nx p xs q"
  by (induction xs arbitrary: p) auto

lemma path_None [simp]: "path nx None xs None = (xs = [])"
  by (cases xs) auto

lemma path_unique: "path nx p xs None \<Longrightarrow> path nx p ys None \<Longrightarrow> xs = ys"
proof (induction xs arbitrary: p ys)
  case Nil
  then show ?case by (cases ys) auto
next
  case (Cons x xs)
  then show ?case by (cases ys) auto
qed

lemma path_distinct: "path nx p xs None \<Longrightarrow> distinct xs"
proof (induction xs arbitrary: p)
  case (Cons x xs)
  have "x \<notin> set xs"
  proof
    assume "x \<in> set xs"
    then obtain ys zs where xs: "xs = ys @ x # zs" by (auto simp: in_set_conv_decomp)
    with Cons.prems have "path nx (nx x) zs None" "path nx (nx x) xs None" by auto
    from path_unique [OF this] have "length zs = length xs" by simp
    with xs show False by simp
  qed
  then show ?case using Cons by auto
qed simp

definition slist_rep :: "'a lists \<Rightarrow> 'a list \<Rightarrow> bool" where
  "slist_rep s xs \<longleftrightarrow>
     path (fst s) (sl_head (snd s)) xs None \<and>
     sl_tail (snd s) = (if xs = [] then None else Some (last xs))"

lemma slist_rep_distinct: "slist_rep s xs \<Longrightarrow> distinct xs"
  unfolding slist_rep_def using path_distinct by blast

lemma slist_rep_unique: "slist_rep s xs \<Longrightarrow> slist_rep s ys \<Longrightarrow> xs = ys"
  unfolding slist_rep_def using path_unique by blast

lemma slist_rep_head: "slist_rep s xs \<Longrightarrow> sl_head (snd s) = (case xs of [] \<Rightarrow> None | x # _ \<Rightarrow> Some x)"
  unfolding slist_rep_def by (cases xs) auto

lemma slist_rep_next:
  assumes "slist_rep s (ys @ x # zs)"
  shows "fst s x = (case zs of [] \<Rightarrow> None | z # _ \<Rightarrow> Some z)"
  using assms unfolding slist_rep_def by (cases zs) auto

named_theorems slist_rep_intros \<open>each operation refines the operation on lists\<close>

lemma slist_init_rep [slist_rep_intros]: "slist_rep (nx, sys_slist_init l) []"
  by (simp add: slist_rep_def sys_slist_init_def)

lemma prepend_rep [slist_rep_intros]:
  "slist_rep s xs \<Longrightarrow> n \<notin> set xs \<Longrightarrow> slist_rep (sys_slist_prepend n s) (n # xs)"
  by (auto simp: slist_rep_def sys_slist_prepend_def Let_def split: if_splits)

lemma append_rep [slist_rep_intros]:
  assumes "slist_rep s xs" "n \<notin> set xs"
  shows "slist_rep (sys_slist_append n s) (xs @ [n])"
proof (cases xs rule: rev_cases)
  case Nil
  then show ?thesis using assms by (auto simp: slist_rep_def sys_slist_append_def Let_def)
next
  case (snoc ys y)
  have "y \<notin> set ys" using slist_rep_distinct [OF assms(1)] snoc by simp
  then show ?thesis using assms snoc
    by (auto simp: slist_rep_def sys_slist_append_def Let_def)
qed

lemma append_list_rep:
  assumes s: "slist_rep s xs" and h: "path (fst s) hp ys None"
    and t: "tp = (if ys = [] then None else Some (last ys))" and d: "set xs \<inter> set ys = {}"
  shows "slist_rep (sys_slist_append_list hp tp s) (xs @ ys)"
proof (cases "ys = []")
  case True
  then show ?thesis using assms by (simp add: sys_slist_append_list_def)
next
  case y: False
  then obtain y ys' where ys: "ys = y # ys'" by (cases ys) auto
  with h have hp: "hp = Some y" by simp
  show ?thesis
  proof (cases xs rule: rev_cases)
    case Nil
    then show ?thesis using assms ys hp by (auto simp: slist_rep_def sys_slist_append_list_def)
  next
    case (snoc zs z)
    have "z \<notin> set zs" using slist_rep_distinct [OF s] snoc by simp
    moreover have "z \<notin> set ys" using d snoc by auto
    ultimately show ?thesis using assms ys hp snoc
      by (auto simp: slist_rep_def sys_slist_append_list_def)
  qed
qed

lemma merge_rep:
  assumes "slist_rep (nx, l) xs" "slist_rep (nx, m) ys" "set xs \<inter> set ys = {}"
    "sys_slist_merge_slist nx l m = (nx', l', m')"
  shows "slist_rep (nx', l') (xs @ ys) \<and> slist_rep (nx', m') []"
proof -
  have "slist_rep (sys_slist_append_list (sl_head m) (sl_tail m) (nx, l)) (xs @ ys)"
    by (rule append_list_rep [OF assms(1) _ _ assms(3)])
      (use assms(2) in \<open>auto simp: slist_rep_def\<close>)
  then show ?thesis using assms(4)
    by (auto simp: sys_slist_merge_slist_def slist_init_rep split: prod.splits)
qed

lemma insert_rep:
  assumes "slist_rep s (xs @ p # ys)" "n \<notin> set (xs @ p # ys)"
  shows "slist_rep (sys_slist_insert (Some p) n s) (xs @ p # n # ys)"
proof (cases ys)
  case Nil
  then have "fst s p = None" using slist_rep_next [OF assms(1)] by simp
  then show ?thesis using append_rep [OF assms] Nil by (simp add: sys_slist_insert_def)
next
  case (Cons y zs)
  have np: "fst s p = Some y" using slist_rep_next [OF assms(1)] Cons by simp
  have "distinct (xs @ p # ys)" by (rule slist_rep_distinct [OF assms(1)])
  then show ?thesis using assms np Cons
    by (auto simp: slist_rep_def sys_slist_insert_def Let_def)
qed

lemma get_rep:
  assumes "slist_rep s (x # xs)"
  shows "\<exists>s'. sys_slist_get s = Some (Some x, s') \<and> slist_rep s' xs"
proof -
  have "distinct (x # xs)" by (rule slist_rep_distinct [OF assms])
  then have "xs \<noteq> [] \<longrightarrow> last xs \<noteq> x" by auto
  then show ?thesis using assms
    by (cases xs) (auto simp: slist_rep_def sys_slist_get_def sys_slist_is_empty_def
        sys_slist_get_not_empty_def Let_def)
qed

lemma get_empty_rep: "slist_rep s [] \<Longrightarrow> sys_slist_get s = Some (None, s)"
  by (simp add: slist_rep_def sys_slist_get_def sys_slist_is_empty_def)

definition prev_of :: "'a list \<Rightarrow> 'a option" where
  "prev_of xs = (if xs = [] then None else Some (last xs))"

lemma remove_rep:
  assumes "slist_rep s (xs @ n # ys)"
  shows "slist_rep (sys_slist_remove (prev_of xs) n s) (xs @ ys)"
proof (cases xs rule: rev_cases)
  case Nil
  have d: "distinct (n # ys)" using slist_rep_distinct [OF assms] Nil by simp
  then have "ys \<noteq> [] \<longrightarrow> last ys \<noteq> n" by auto
  then show ?thesis using assms Nil d
    by (cases ys) (auto simp: slist_rep_def sys_slist_remove_def prev_of_def Let_def)
next
  case (snoc zs z)
  have d: "distinct (zs @ [z] @ n # ys)" using slist_rep_distinct [OF assms] snoc by simp
  then have "ys \<noteq> [] \<longrightarrow> last ys \<noteq> n" by auto
  then show ?thesis using assms snoc d
    by (auto simp: slist_rep_def sys_slist_remove_def prev_of_def Let_def)
qed

text \<open>A loop over a represented list runs its body on the elements in order.\<close>

fun list_loop :: "('a \<Rightarrow> 's \<Rightarrow> 's \<times> 'r option) \<Rightarrow> 'a list \<Rightarrow> 's \<Rightarrow> 's \<times> 'r option" where
  "list_loop body [] s = (s, None)"
| "list_loop body (x # xs) s =
     (case body x s of (s', Some r) \<Rightarrow> (s', Some r) | (s', None) \<Rightarrow> list_loop body xs s')"

lemma for_each_list:
  "path nx c xs None \<Longrightarrow> for_each nx body c s = Some (list_loop body xs s)"
proof (induction xs arbitrary: c s)
  case Nil
  then show ?case by (simp add: for_each.simps)
next
  case (Cons x xs)
  then show ?case by (subst for_each.simps) (auto split: prod.splits option.splits)
qed

lemma list_loop_fold: "list_loop (\<lambda>x s. (f x s, None)) xs s = (fold f xs s, None)"
  by (induction xs arbitrary: s) auto

text \<open>A loop that meets a node whose \<open>next\<close> field points to itself never ends.\<close>

lemma for_each_self_loop:
  assumes "nx n = Some n" "\<And>s. snd (body n s) = None"
  shows "for_each nx body (Some n) s = None"
proof (rule ccontr)
  assume "for_each nx body (Some n) s \<noteq> None"
  then obtain y where y: "for_each nx body (Some n) s = Some y" by blast
  have "\<not> (nx = nx \<and> body = body \<and> Some n = Some n)"
  proof (rule for_each.raw_induct [where P = "\<lambda>nx' body' c s y.
        \<not> (nx' = nx \<and> body' = body \<and> c = Some n)", OF _ y])
    fix f nx' body' c s y
    assume IH: "\<And>nx' body' c s y. f nx' body' c s = Some y \<Longrightarrow>
                  \<not> (nx' = nx \<and> body' = body \<and> c = Some n)"
      and step: "(case c of None \<Rightarrow> Some (s, None)
                  | Some n \<Rightarrow>
                      (case body' n s of
                         (s', None) \<Rightarrow> f nx' body' (nx' n) s'
                       | (s', Some r) \<Rightarrow> Some (s', Some r))) = Some y"
    show "\<not> (nx' = nx \<and> body' = body \<and> c = Some n)"
    proof
      assume e: "nx' = nx \<and> body' = body \<and> c = Some n"
      obtain s' where "body n s = (s', None)" using assms(2) [of s] by (cases "body n s") auto
      with step e assms(1) have "f nx body (Some n) s' = Some y" by simp
      then show False using IH by blast
    qed
  qed
  then show False by simp
qed

lemma find_loop:
  "list_loop (find_body s n) xs prev =
     (if n \<in> set xs
      then (let ys = takeWhile (\<lambda>x. x \<noteq> n) xs; p = (if ys = [] then prev else Some (last ys))
            in (p, Some (sys_slist_remove p n s)))
      else (if xs = [] then prev else Some (last xs), None))"
  by (induction xs arbitrary: prev) (auto simp: find_body_def Let_def)

lemma find_and_remove_rep:
  assumes "slist_rep s xs"
  shows "\<exists>s'. sys_slist_find_and_remove n s = Some (n \<in> set xs, s') \<and> slist_rep s' (remove1 n xs)"
proof (cases "n \<in> set xs")
  case False
  then show ?thesis using assms
    by (intro exI [of _ s])
      (auto simp: sys_slist_find_and_remove_def slist_rep_def for_each_list find_loop remove1_idem)
next
  case True
  then obtain ys zs where xs: "xs = ys @ n # zs" and ys: "n \<notin> set ys"
    using split_list_first by fastforce
  then have tw: "takeWhile (\<lambda>x. x \<noteq> n) xs = ys"
    by (metis (mono_tags, lifting) list.sel(1) takeWhile_stop list_all_iff)
  have p: "path (fst s) (sl_head (snd s)) xs None" using assms by (simp add: slist_rep_def)
  have "slist_rep (sys_slist_remove (prev_of ys) n s) (ys @ zs)"
    using assms unfolding xs by (rule remove_rep)
  moreover have "remove1 n xs = ys @ zs" using xs ys by (simp add: remove1_append)
  ultimately show ?thesis
    using True by (simp add: sys_slist_find_and_remove_def for_each_list [OF p] find_loop tw
        prev_of_def Let_def)
qed

lemma len_loop: "list_loop (\<lambda>_ n. (Suc n, None)) xs n = (n + length xs, None)"
  by (induction xs arbitrary: n) auto

lemma len_rep: "slist_rep s xs \<Longrightarrow> sys_slist_len s = Some (length xs)"
  unfolding slist_rep_def sys_slist_len_def by (auto simp: for_each_list [where xs = xs] len_loop)

section \<open>The interface the module list relies on\<close>

locale intrusive_list =
  fixes rep :: "'s \<Rightarrow> 'a list \<Rightarrow> bool"
    and add_last :: "'a \<Rightarrow> 's \<Rightarrow> 's"
    and del :: "'a \<Rightarrow> 's \<Rightarrow> (bool \<times> 's) option"
  assumes rep_distinct: "rep s xs \<Longrightarrow> distinct xs"
    and rep_unique: "rep s xs \<Longrightarrow> rep s ys \<Longrightarrow> xs = ys"
    and add_rep: "rep s xs \<Longrightarrow> n \<notin> set xs \<Longrightarrow> rep (add_last n s) (xs @ [n])"
    and del_rep: "rep s xs \<Longrightarrow> \<exists>s'. del n s = Some (n \<in> set xs, s') \<and> rep s' (remove1 n xs)"
begin

lemma add_many:
  "rep s xs \<Longrightarrow> distinct ns \<Longrightarrow> set ns \<inter> set xs = {} \<Longrightarrow> rep (fold add_last ns s) (xs @ ns)"
proof (induction ns arbitrary: s xs)
  case (Cons n ns)
  have "rep (add_last n s) (xs @ [n])" using Cons.prems by (intro add_rep) auto
  then have "rep (fold add_last ns (add_last n s)) ((xs @ [n]) @ ns)"
    using Cons.prems by (intro Cons.IH) auto
  then show ?case by simp
qed simp

lemma add_del:
  assumes "rep s xs" "n \<notin> set xs"
  shows "\<exists>s'. del n (add_last n s) = Some (True, s') \<and> rep s' xs"
  using del_rep [OF add_rep [OF assms], of n] assms(2) by (auto simp: remove1_append)

lemma del_twice:
  assumes "rep s xs" "del n s = Some (b, s')"
  shows "\<exists>s''. del n s' = Some (False, s'') \<and> rep s'' (remove1 n xs)"
proof -
  have r: "rep s' (remove1 n xs)" using del_rep [OF assms(1), of n] assms(2) by auto
  have n: "n \<notin> set (remove1 n xs)" using rep_distinct [OF assms(1)] by simp
  then show ?thesis using del_rep [OF r, of n] by (simp add: remove1_idem)
qed

end

interpretation sl: intrusive_list slist_rep sys_slist_append sys_slist_find_and_remove
  by unfold_locales (rule slist_rep_distinct slist_rep_unique append_rep find_and_remove_rep; assumption)+

section \<open>Every sequence of operations refines the operations on lists\<close>

datatype 'a list_op = Prepend 'a | Append 'a | Insert "'a option" 'a | Get | Find_remove 'a

datatype 'a op_result = Done | Got "'a option" | Found bool

fun slist_step :: "'a list_op \<Rightarrow> 'a lists \<Rightarrow> ('a op_result \<times> 'a lists) option" where
  "slist_step (Prepend n) s = Some (Done, sys_slist_prepend n s)"
| "slist_step (Append n) s = Some (Done, sys_slist_append n s)"
| "slist_step (Insert p n) s = Some (Done, sys_slist_insert p n s)"
| "slist_step Get s = map_option (\<lambda>(r, s'). (Got r, s')) (sys_slist_get s)"
| "slist_step (Find_remove n) s = map_option (\<lambda>(r, s'). (Found r, s')) (sys_slist_find_and_remove n s)"

fun slist_run :: "'a list_op list \<Rightarrow> 'a lists \<Rightarrow> ('a op_result list \<times> 'a lists) option" where
  "slist_run [] s = Some ([], s)"
| "slist_run (op # ops) s = do {
     (r, s') \<leftarrow> slist_step op s;
     (rs, s'') \<leftarrow> slist_run ops s';
     Some (r # rs, s'')
   }"

fun insert_after :: "'a \<Rightarrow> 'a \<Rightarrow> 'a list \<Rightarrow> 'a list" where
  "insert_after p n [] = []"
| "insert_after p n (x # xs) = (if x = p then x # n # xs else x # insert_after p n xs)"

fun list_step :: "'a list_op \<Rightarrow> 'a list \<Rightarrow> 'a op_result \<times> 'a list" where
  "list_step (Prepend n) xs = (Done, n # xs)"
| "list_step (Append n) xs = (Done, xs @ [n])"
| "list_step (Insert None n) xs = (Done, n # xs)"
| "list_step (Insert (Some p) n) xs = (Done, insert_after p n xs)"
| "list_step Get xs = (case xs of [] \<Rightarrow> (Got None, []) | x # ys \<Rightarrow> (Got (Some x), ys))"
| "list_step (Find_remove n) xs = (Found (n \<in> set xs), remove1 n xs)"

fun list_run :: "'a list_op list \<Rightarrow> 'a list \<Rightarrow> 'a op_result list \<times> 'a list" where
  "list_run [] xs = ([], xs)"
| "list_run (op # ops) xs =
     (let (r, ys) = list_step op xs; (rs, zs) = list_run ops ys in (r # rs, zs))"

text \<open>A node is added only when it is not on the list, and only after a node that is.\<close>

fun op_allowed :: "'a list_op \<Rightarrow> 'a list \<Rightarrow> bool" where
  "op_allowed (Prepend n) xs = (n \<notin> set xs)"
| "op_allowed (Append n) xs = (n \<notin> set xs)"
| "op_allowed (Insert p n) xs = (n \<notin> set xs \<and> (case p of None \<Rightarrow> True | Some m \<Rightarrow> m \<in> set xs))"
| "op_allowed Get xs = True"
| "op_allowed (Find_remove n) xs = True"

fun ops_allowed :: "'a list_op list \<Rightarrow> 'a list \<Rightarrow> bool" where
  "ops_allowed [] xs = True"
| "ops_allowed (op # ops) xs = (op_allowed op xs \<and> ops_allowed ops (snd (list_step op xs)))"

lemma insert_after_split: "p \<notin> set xs \<Longrightarrow> insert_after p n (xs @ p # ys) = xs @ p # n # ys"
  by (induction xs) auto

lemma slist_step_refines:
  assumes "slist_rep s xs" "op_allowed op xs"
  shows "\<exists>s'. slist_step op s = Some (fst (list_step op xs), s') \<and>
              slist_rep s' (snd (list_step op xs))"
proof (cases op)
  case (Prepend n)
  then show ?thesis using assms prepend_rep [OF assms(1)] by simp
next
  case (Append n)
  then show ?thesis using assms append_rep [OF assms(1)] by simp
next
  case (Insert p n)
  show ?thesis
  proof (cases p)
    case None
    then show ?thesis using Insert assms prepend_rep [OF assms(1)]
      by (simp add: sys_slist_insert_def)
  next
    case (Some m)
    then obtain ys zs where xs: "xs = ys @ m # zs" "m \<notin> set ys"
      using Insert assms(2) split_list_first [of m xs] by auto
    then show ?thesis using Insert Some assms insert_rep [of s ys m zs n]
      by (simp add: insert_after_split)
  qed
next
  case Get
  then show ?thesis using assms get_rep get_empty_rep by (cases xs) fastforce+
next
  case (Find_remove n)
  then show ?thesis using find_and_remove_rep [OF assms(1), of n] by auto
qed

text \<open>
  C6.  The linked list implements lists.  Any sequence of \<open>prepend\<close>, \<open>append\<close>, \<open>insert\<close>,
  \<open>get\<close> and \<open>find_and_remove\<close> on a list head that represents a list of nodes, in which a node is
  added only while it is not on the list, ends, never reads through NULL, returns what the
  operations on lists return, and leaves a list head that represents their result.
\<close>

theorem slist_run_refines:
  assumes "slist_rep s xs" "ops_allowed ops xs"
  shows "\<exists>s'. slist_run ops s = Some (fst (list_run ops xs), s') \<and>
              slist_rep s' (snd (list_run ops xs))"
  using assms
proof (induction ops arbitrary: s xs)
  case Nil
  then show ?case by simp
next
  case (Cons op ops)
  obtain s' where s': "slist_step op s = Some (fst (list_step op xs), s')"
      "slist_rep s' (snd (list_step op xs))"
    using slist_step_refines Cons.prems by fastforce
  with Cons.prems Cons.IH [OF s'(2)] show ?case by (auto simp: split_beta Let_def)
qed

definition example_ops :: "nat list_op list" where
  "example_ops = [Append 1, Prepend 2, Insert (Some 2) 3, Find_remove 1, Get, Find_remove 7]"

definition empty_lists :: "'a lists" where
  "empty_lists = (\<lambda>_. None, \<lparr>sl_head = None, sl_tail = None\<rparr>)"

lemma empty_lists_rep: "slist_rep empty_lists []"
  by (simp add: slist_rep_def empty_lists_def)

lemma slist_run_refines_witness:
  "\<exists>s'. slist_run example_ops empty_lists =
      Some ([Done, Done, Done, Found True, Got (Some 2), Found False], s') \<and> slist_rep s' [3]"
  using slist_run_refines [of empty_lists "[]" example_ops]
  by (simp add: empty_lists_rep example_ops_def)

end
