(* ===== verification/Hal.thy ===== *)
theory Hal
  imports Prelude
begin

text \<open>
  The boundary between the board support package and the vendor's hardware abstraction layer.
  What the BSP does to the hardware is a list of events in program order: calls of HAL functions
  with the parameter structures they are given, clock gates, accesses to memory-mapped registers,
  characters sent to the trace port and text printed.  A call that reports a status gets it from
  an environment that sees everything done before; so does a read of a register.  The parameter
  structures are those of hal/include with their fields; a structure the BSP clears and of which
  it sets some fields only is a record of those fields.
\<close>

unbundle bit_operations_syntax

section \<open>Parameter structures\<close>

datatype hal_status = HAL_OK | HAL_ERROR | HAL_BUSY | HAL_TIMEOUT

record gpio_init =
  gpio_pin :: u32
  gpio_mode :: u32
  gpio_pull :: u32
  gpio_speed :: u32
  gpio_alternate :: u32

record dma_init =
  dma_request :: u32
  dma_direction :: u32
  dma_periph_inc :: u32
  dma_mem_inc :: u32
  dma_periph_align :: u32
  dma_mem_align :: u32
  dma_mode :: u32
  dma_priority :: u32
  dma_fifo_mode :: u32
  dma_fifo_threshold :: u32
  dma_mem_burst :: u32
  dma_periph_burst :: u32

record uart_init =
  uart_baud_rate :: u32
  uart_word_length :: u32
  uart_stop_bits :: u32
  uart_parity :: u32
  uart_mode :: u32
  uart_hw_flow_ctl :: u32
  uart_over_sampling :: u32
  uart_one_bit_sampling :: u32
  uart_clock_prescaler :: u32
  uart_adv_feature_init :: u32

record rgb_color =
  col_blue :: u8
  col_green :: u8
  col_red :: u8

record ltdc_init =
  ltdc_hs_polarity :: u32
  ltdc_vs_polarity :: u32
  ltdc_de_polarity :: u32
  ltdc_pc_polarity :: u32
  ltdc_horizontal_sync :: u32
  ltdc_vertical_sync :: u32
  ltdc_accumulated_hbp :: u32
  ltdc_accumulated_vbp :: u32
  ltdc_accumulated_active_w :: u32
  ltdc_accumulated_active_h :: u32
  ltdc_total_width :: u32
  ltdc_total_heigh :: u32
  ltdc_backcolor :: rgb_color

record layer_cfg =
  lyr_window_x0 :: u32
  lyr_window_x1 :: u32
  lyr_window_y0 :: u32
  lyr_window_y1 :: u32
  lyr_pixel_format :: u32
  lyr_alpha :: u32
  lyr_alpha0 :: u32
  lyr_blending_factor1 :: u32
  lyr_blending_factor2 :: u32
  lyr_fb_start_adress :: u32
  lyr_image_width :: u32
  lyr_image_height :: u32
  lyr_backcolor :: rgb_color

record tim_base_init =
  tim_prescaler :: u32
  tim_counter_mode :: u32
  tim_period :: u32
  tim_clock_division :: u32
  tim_repetition_counter :: u32
  tim_auto_reload_preload :: u32

record tim_oc_init =
  oc_mode :: u32
  oc_pulse :: u32
  oc_polarity :: u32
  oc_n_polarity :: u32
  oc_fast_mode :: u32
  oc_idle_state :: u32
  oc_n_idle_state :: u32

record tim_master =
  master_output_trigger :: u32
  master_output_trigger2 :: u32
  master_slave_mode :: u32

record sdram_init =
  sd_bank :: u32
  sd_column_bits :: u32
  sd_row_bits :: u32
  sd_data_width :: u32
  sd_internal_banks :: u32
  sd_cas_latency :: u32
  sd_write_protection :: u32
  sd_clock_period :: u32
  sd_read_burst :: u32
  sd_read_pipe_delay :: u32

record sdram_timing =
  st_load_to_active :: u32
  st_exit_self_refresh :: u32
  st_self_refresh_time :: u32
  st_row_cycle :: u32
  st_write_recovery :: u32
  st_rp_delay :: u32
  st_rcd_delay :: u32

record sdram_command =
  sc_mode :: u32
  sc_target :: u32
  sc_auto_refresh :: u32
  sc_mode_register :: u32

record mpu_region =
  mpu_enable :: u8
  mpu_number :: u8
  mpu_base_address :: u32
  mpu_size :: u8
  mpu_sub_region_disable :: u8
  mpu_type_ext_field :: u8
  mpu_access_permission :: u8
  mpu_disable_exec :: u8
  mpu_is_shareable :: u8
  mpu_is_cacheable :: u8
  mpu_is_bufferable :: u8

record pll_init =
  pll_state :: u32
  pll_source :: u32
  pll_m :: u32
  pll_n :: u32
  pll_p :: u32
  pll_q :: u32
  pll_r :: u32
  pll_rge :: u32
  pll_vcosel :: u32
  pll_fracn :: u32

record osc_init =
  osc_type :: u32
  osc_hse_state :: u32
  osc_lse_state :: u32
  osc_hsi_state :: u32
  osc_hsi_calibration :: u32
  osc_lsi_state :: u32
  osc_hsi48_state :: u32
  osc_csi_state :: u32
  osc_csi_calibration :: u32
  osc_pll :: pll_init

record clk_init =
  clk_type :: u32
  clk_sysclk_source :: u32
  clk_sysclk_divider :: u32
  clk_ahb_divider :: u32
  clk_apb3_divider :: u32
  clk_apb1_divider :: u32
  clk_apb2_divider :: u32
  clk_apb4_divider :: u32

record pll3_init =
  pll3_m :: u32
  pll3_n :: u32
  pll3_p :: u32
  pll3_q :: u32
  pll3_r :: u32
  pll3_rge :: u32
  pll3_vcosel :: u32
  pll3_fracn :: u32

record periph_clk_init =
  pc_selection :: u64
  pc_pll3 :: pll3_init
  pc_fmc :: u32
  pc_usart16 :: u32

definition zero_gpio :: gpio_init where
  "zero_gpio = \<lparr>gpio_pin = 0, gpio_mode = 0, gpio_pull = 0, gpio_speed = 0, gpio_alternate = 0\<rparr>"

definition zero_pll3 :: pll3_init where
  "zero_pll3 = \<lparr>pll3_m = 0, pll3_n = 0, pll3_p = 0, pll3_q = 0, pll3_r = 0, pll3_rge = 0,
     pll3_vcosel = 0, pll3_fracn = 0\<rparr>"

definition zero_periph_clk :: periph_clk_init where
  "zero_periph_clk = \<lparr>pc_selection = 0, pc_pll3 = zero_pll3, pc_fmc = 0, pc_usart16 = 0\<rparr>"

section \<open>Events\<close>

text \<open>
  Peripherals are named by their base address.  A clock gate is named by the name that the macro
  \<open>__HAL_RCC_<name>_CLK_ENABLE\<close> or \<open>_DISABLE\<close> has.
\<close>

datatype rcc_event =
    Periph_clk_config periph_clk_init
  | Osc_config osc_init
  | Clock_config clk_init u32
  | Pwr_supply u32

datatype gpio_event =
    Gpio_init u32 gpio_init
  | Gpio_deinit u32 u32
  | Gpio_write u32 u16 bool
  | Gpio_toggle u32 u16

datatype core_event =
    Nvic_priority int u32 u32
  | Nvic_enable int
  | Nvic_disable int
  | Enable_icache
  | Enable_dcache
  | Clean_dcache
  | Invalidate_dcache
  | Clean_invalidate_dcache
  | Disable_irq

datatype ltdc_event =
    Ltdc_init u32 ltdc_init
  | Ltdc_disable_dither
  | Ltdc_config_layer layer_cfg nat
  | Ltdc_line_event u32
  | Ltdc_clear_flag u32

datatype tim_event =
    Tim_pwm_init u32 tim_base_init
  | Tim_master_sync u32 tim_master
  | Tim_pwm_config u32 tim_oc_init u32
  | Tim_set_compare u32 u32 u32
  | Tim_pwm_start u32 u32

datatype sdram_event =
    Sdram_init u32 sdram_init sdram_timing
  | Sdram_command u32 sdram_command u32
  | Sdram_refresh_rate u32 u32

datatype hal_event =
    Hal_init
  | Delay u32
  | Syscfg_compensation u32
  | Enable_compensation
  | Dma_init u32 dma_init
  | Uart_init u32 uart_init
  | Uart_disable_fifo u32

datatype event =
    Clk string bool
  | Rcc rcc_event
  | Gpio gpio_event
  | Core core_event
  | Ltdc ltdc_event
  | Tim tim_event
  | Sdram sdram_event
  | Hal hal_event
  | Reg_read u32
  | Reg_write u32 u32
  | Itm_char u8 u32
  | Print string
  | Assert_failed

type_synonym log = "event list"

text \<open>The environment: the status of a HAL call and the value of a register, given the past.\<close>

record hal_env =
  hal_answer :: "log \<Rightarrow> event \<Rightarrow> hal_status"
  reg_value :: "log \<Rightarrow> u32 \<Rightarrow> u32"

definition hal_ok :: "hal_env \<Rightarrow> bool" where
  "hal_ok env \<longleftrightarrow> (\<forall>l e. hal_answer env l e = HAL_OK)"

text \<open>
  A call whose status the code tests: the call is logged, then the rest runs or an error code
  is returned.
\<close>

definition hal_try :: "hal_env \<Rightarrow> event \<Rightarrow> int \<Rightarrow> (log \<Rightarrow> int \<times> log) \<Rightarrow> log \<Rightarrow> int \<times> log" where
  "hal_try env e err rest l =
     (if hal_answer env l e \<noteq> HAL_OK then (err, l @ [e]) else rest (l @ [e]))"

lemma hal_try_ok [simp]: "hal_ok env \<Longrightarrow> hal_try env e err rest l = rest (l @ [e])"
  by (simp add: hal_try_def hal_ok_def)

lemma hal_try_cases:
  assumes "hal_try env e err rest l = r"
  obtains (fail) "hal_answer env l e \<noteq> HAL_OK" "r = (err, l @ [e])"
    | (ok) "hal_answer env l e = HAL_OK" "rest (l @ [e]) = r"
  using assms by (auto simp: hal_try_def split: if_splits)

definition ok_env :: hal_env where
  "ok_env = \<lparr>hal_answer = \<lambda>_ _. HAL_OK, reg_value = \<lambda>_ _. 0\<rparr>"

lemma hal_ok_env [simp]: "hal_ok ok_env"
  by (simp add: hal_ok_def ok_env_def)

text \<open>The clock gates that a log leaves open.\<close>

fun clocks :: "log \<Rightarrow> string set \<Rightarrow> string set" where
  "clocks [] s = s"
| "clocks (Clk n b # l) s = clocks l (if b then insert n s else s - {n})"
| "clocks (_ # l) s = clocks l s"

lemma clocks_append [simp]: "clocks (l @ m) s = clocks m (clocks l s)"
  by (induction l s rule: clocks.induct) auto

section \<open>Checked steps\<close>

text \<open>\<open>res = f(...); if (res) return res;\<close> followed by the rest.\<close>

definition check :: "int \<times> 's \<Rightarrow> ('s \<Rightarrow> (int \<times> 's) option) \<Rightarrow> (int \<times> 's) option" where
  "check rs k = (if fst rs \<noteq> 0 then Some rs else k (snd rs))"

lemma check_ok [simp]: "check rs k = Some (0, t) \<longleftrightarrow> fst rs = 0 \<and> k (snd rs) = Some (0, t)"
  by (cases rs) (auto simp: check_def)

lemma check_zero [simp]: "check (0, s) k = k s"
  by (simp add: check_def)

lemma check_error: "r \<noteq> 0 \<Longrightarrow> check (r, s) k = Some (r, s)"
  by (simp add: check_def)

section \<open>Registers\<close>

definition modify_reg :: "hal_env \<Rightarrow> u32 \<Rightarrow> (u32 \<Rightarrow> u32) \<Rightarrow> log \<Rightarrow> log" where
  "modify_reg env a f l = l @ [Reg_read a, Reg_write a (f (reg_value env l a))]"

definition SET_BIT :: "hal_env \<Rightarrow> u32 \<Rightarrow> u32 \<Rightarrow> log \<Rightarrow> log" where
  "SET_BIT env a b = modify_reg env a (\<lambda>v. v OR b)"

definition CLEAR_BIT :: "hal_env \<Rightarrow> u32 \<Rightarrow> u32 \<Rightarrow> log \<Rightarrow> log" where
  "CLEAR_BIT env a b = modify_reg env a (\<lambda>v. v AND NOT b)"

definition MODIFY_REG :: "hal_env \<Rightarrow> u32 \<Rightarrow> u32 \<Rightarrow> u32 \<Rightarrow> log \<Rightarrow> log" where
  "MODIFY_REG env a clear set_mask = modify_reg env a (\<lambda>v. (v AND NOT clear) OR set_mask)"

lemma bits_below:
  assumes "(x :: 'a::len word) < 2 ^ k" "k \<le> n"
  shows "\<not> bit x n"
proof
  assume b: "bit x n"
  then have "bit (x AND mask k) n" using less_mask_eq [OF assms(1)] by simp
  then show False using assms(2) by (simp add: bit_simps)
qed

lemma bit_below: "(x :: 'a::len word) < 2 ^ k \<Longrightarrow> bit x n \<Longrightarrow> n < k"
  using bits_below [of x k n] by (auto simp: not_le [symmetric])

text \<open>\<open>(v & ~clear) | put\<close>, the value that a register gets.\<close>

definition modified :: "u32 \<Rightarrow> u32 \<Rightarrow> u32 \<Rightarrow> u32" where
  "modified clear put v = (v AND NOT clear) OR put"

lemma bit_modified: "bit (modified c p v) n \<longleftrightarrow> bit v n \<and> \<not> bit c n \<or> bit p n"
  using bit_imp_le_length [of v n] by (auto simp: modified_def bit_simps)

lemma modified_and: "c AND p = p \<Longrightarrow> modified c p v AND c = p"
  by (rule bit_word_eqI) (auto simp: bit_modified bit_and_iff dest: arg_cong [where f = "\<lambda>x. bit x _"])

text \<open>
  \<open>while (READ_BIT(reg, msk));\<close>  The loop ends when the hardware clears the bits; if it never
  does, the value is \<open>None\<close>.
\<close>

partial_function (option) wait_clear :: "hal_env \<Rightarrow> u32 \<Rightarrow> u32 \<Rightarrow> log \<Rightarrow> log option" where
  "wait_clear env a msk l =
     (let l' = l @ [Reg_read a]
      in if reg_value env l a AND msk \<noteq> 0 then wait_clear env a msk l' else Some l')"

partial_function (option) wait_set :: "hal_env \<Rightarrow> u32 \<Rightarrow> u32 \<Rightarrow> log \<Rightarrow> log option" where
  "wait_set env a msk l =
     (let l' = l @ [Reg_read a]
      in if reg_value env l a AND msk = 0 then wait_set env a msk l' else Some l')"

lemma wait_clear_now: "reg_value env l a AND msk = 0 \<Longrightarrow> wait_clear env a msk l = Some (l @ [Reg_read a])"
  by (subst wait_clear.simps) (simp add: Let_def)

lemma wait_set_now: "reg_value env l a AND msk \<noteq> 0 \<Longrightarrow> wait_set env a msk l = Some (l @ [Reg_read a])"
  by (subst wait_set.simps) (simp add: Let_def)

text \<open>A wait ends after at most \<open>n\<close> reads when the bits change within \<open>n\<close> reads.\<close>

lemma wait_clear_within:
  assumes "reg_value env (l @ replicate n (Reg_read a)) a AND msk = 0"
  shows "\<exists>k \<le> n. wait_clear env a msk l = Some (l @ replicate (Suc k) (Reg_read a))"
  using assms
proof (induction n arbitrary: l)
  case 0
  then show ?case by (auto simp: wait_clear_now)
next
  case (Suc n)
  show ?case
  proof (cases "reg_value env l a AND msk = 0")
    case True
    then show ?thesis by (intro exI [of _ 0]) (simp add: wait_clear_now)
  next
    case False
    then have "wait_clear env a msk l = wait_clear env a msk (l @ [Reg_read a])"
      by (subst wait_clear.simps) (simp add: Let_def)
    moreover obtain k where "k \<le> n"
        "wait_clear env a msk (l @ [Reg_read a]) = Some ((l @ [Reg_read a]) @ replicate (Suc k) (Reg_read a))"
      using Suc.IH [of "l @ [Reg_read a]"] Suc.prems by auto
    ultimately show ?thesis by (intro exI [of _ "Suc k"]) simp
  qed
qed

end
