(* ===== verification/Stm32.thy ===== *)
theory Stm32
  imports Hal
begin

text \<open>
  The constants of the device headers that the board support package uses: peripheral addresses
  with the sums that define them, interrupt and DMA request numbers, GPIO encodings.
\<close>

named_theorems base_defs \<open>the addresses of the peripherals\<close>
named_theorems hal_consts \<open>the other constants of the device headers\<close>

subsection \<open>Bus and peripheral addresses (cmsis/include/stm32h743xx.h)\<close>

definition PERIPH_BASE :: u32 where
  [base_defs]: "PERIPH_BASE = 0x40000000"

definition D2_APB1PERIPH_BASE :: u32 where
  [base_defs]: "D2_APB1PERIPH_BASE = PERIPH_BASE"

definition D2_APB2PERIPH_BASE :: u32 where
  [base_defs]: "D2_APB2PERIPH_BASE = PERIPH_BASE + 0x00010000"

definition D2_AHB1PERIPH_BASE :: u32 where
  [base_defs]: "D2_AHB1PERIPH_BASE = PERIPH_BASE + 0x00020000"

definition D2_AHB2PERIPH_BASE :: u32 where
  [base_defs]: "D2_AHB2PERIPH_BASE = PERIPH_BASE + 0x08020000"

definition D1_APB1PERIPH_BASE :: u32 where
  [base_defs]: "D1_APB1PERIPH_BASE = PERIPH_BASE + 0x10000000"

definition D1_AHB1PERIPH_BASE :: u32 where
  [base_defs]: "D1_AHB1PERIPH_BASE = PERIPH_BASE + 0x12000000"

definition D3_APB1PERIPH_BASE :: u32 where
  [base_defs]: "D3_APB1PERIPH_BASE = PERIPH_BASE + 0x18000000"

definition D3_AHB1PERIPH_BASE :: u32 where
  [base_defs]: "D3_AHB1PERIPH_BASE = PERIPH_BASE + 0x18020000"

definition MDMA_BASE :: u32 where
  [base_defs]: "MDMA_BASE = D1_AHB1PERIPH_BASE + 0x0000"

definition TIM2_BASE :: u32 where
  [base_defs]: "TIM2_BASE = D2_APB1PERIPH_BASE + 0x0000"

definition TIM4_BASE :: u32 where
  [base_defs]: "TIM4_BASE = D2_APB1PERIPH_BASE + 0x0800"

definition TIM5_BASE :: u32 where
  [base_defs]: "TIM5_BASE = D2_APB1PERIPH_BASE + 0x0C00"

definition TIM6_BASE :: u32 where
  [base_defs]: "TIM6_BASE = D2_APB1PERIPH_BASE + 0x1000"

definition TIM7_BASE :: u32 where
  [base_defs]: "TIM7_BASE = D2_APB1PERIPH_BASE + 0x1400"

definition TIM12_BASE :: u32 where
  [base_defs]: "TIM12_BASE = D2_APB1PERIPH_BASE + 0x1800"

definition TIM13_BASE :: u32 where
  [base_defs]: "TIM13_BASE = D2_APB1PERIPH_BASE + 0x1C00"

definition TIM14_BASE :: u32 where
  [base_defs]: "TIM14_BASE = D2_APB1PERIPH_BASE + 0x2000"

definition LPTIM1_BASE :: u32 where
  [base_defs]: "LPTIM1_BASE = D2_APB1PERIPH_BASE + 0x2400"

definition SPI2_BASE :: u32 where
  [base_defs]: "SPI2_BASE = D2_APB1PERIPH_BASE + 0x3800"

definition SPI3_BASE :: u32 where
  [base_defs]: "SPI3_BASE = D2_APB1PERIPH_BASE + 0x3C00"

definition SPDIFRX_BASE :: u32 where
  [base_defs]: "SPDIFRX_BASE = D2_APB1PERIPH_BASE + 0x4000"

definition USART2_BASE :: u32 where
  [base_defs]: "USART2_BASE = D2_APB1PERIPH_BASE + 0x4400"

definition USART3_BASE :: u32 where
  [base_defs]: "USART3_BASE = D2_APB1PERIPH_BASE + 0x4800"

definition UART4_BASE :: u32 where
  [base_defs]: "UART4_BASE = D2_APB1PERIPH_BASE + 0x4C00"

definition UART5_BASE :: u32 where
  [base_defs]: "UART5_BASE = D2_APB1PERIPH_BASE + 0x5000"

definition I2C1_BASE :: u32 where
  [base_defs]: "I2C1_BASE = D2_APB1PERIPH_BASE + 0x5400"

definition I2C2_BASE :: u32 where
  [base_defs]: "I2C2_BASE = D2_APB1PERIPH_BASE + 0x5800"

definition I2C3_BASE :: u32 where
  [base_defs]: "I2C3_BASE = D2_APB1PERIPH_BASE + 0x5C00"

definition CEC_BASE :: u32 where
  [base_defs]: "CEC_BASE = D2_APB1PERIPH_BASE + 0x6C00"

definition DAC1_BASE :: u32 where
  [base_defs]: "DAC1_BASE = D2_APB1PERIPH_BASE + 0x7400"

definition UART7_BASE :: u32 where
  [base_defs]: "UART7_BASE = D2_APB1PERIPH_BASE + 0x7800"

definition UART8_BASE :: u32 where
  [base_defs]: "UART8_BASE = D2_APB1PERIPH_BASE + 0x7C00"

definition CRS_BASE :: u32 where
  [base_defs]: "CRS_BASE = D2_APB1PERIPH_BASE + 0x8400"

definition SWPMI1_BASE :: u32 where
  [base_defs]: "SWPMI1_BASE = D2_APB1PERIPH_BASE + 0x8800"

definition OPAMP_BASE :: u32 where
  [base_defs]: "OPAMP_BASE = D2_APB1PERIPH_BASE + 0x9000"

definition MDIOS_BASE :: u32 where
  [base_defs]: "MDIOS_BASE = D2_APB1PERIPH_BASE + 0x9400"

definition FDCAN1_BASE :: u32 where
  [base_defs]: "FDCAN1_BASE = D2_APB1PERIPH_BASE + 0xA000"

definition FDCAN2_BASE :: u32 where
  [base_defs]: "FDCAN2_BASE = D2_APB1PERIPH_BASE + 0xA400"

definition TIM1_BASE :: u32 where
  [base_defs]: "TIM1_BASE = D2_APB2PERIPH_BASE + 0x0000"

definition TIM8_BASE :: u32 where
  [base_defs]: "TIM8_BASE = D2_APB2PERIPH_BASE + 0x0400"

definition USART1_BASE :: u32 where
  [base_defs]: "USART1_BASE = D2_APB2PERIPH_BASE + 0x1000"

definition USART6_BASE :: u32 where
  [base_defs]: "USART6_BASE = D2_APB2PERIPH_BASE + 0x1400"

definition SPI1_BASE :: u32 where
  [base_defs]: "SPI1_BASE = D2_APB2PERIPH_BASE + 0x3000"

definition SPI4_BASE :: u32 where
  [base_defs]: "SPI4_BASE = D2_APB2PERIPH_BASE + 0x3400"

definition TIM15_BASE :: u32 where
  [base_defs]: "TIM15_BASE = D2_APB2PERIPH_BASE + 0x4000"

definition TIM16_BASE :: u32 where
  [base_defs]: "TIM16_BASE = D2_APB2PERIPH_BASE + 0x4400"

definition TIM17_BASE :: u32 where
  [base_defs]: "TIM17_BASE = D2_APB2PERIPH_BASE + 0x4800"

definition SPI5_BASE :: u32 where
  [base_defs]: "SPI5_BASE = D2_APB2PERIPH_BASE + 0x5000"

definition SAI1_BASE :: u32 where
  [base_defs]: "SAI1_BASE = D2_APB2PERIPH_BASE + 0x5800"

definition SAI2_BASE :: u32 where
  [base_defs]: "SAI2_BASE = D2_APB2PERIPH_BASE + 0x5C00"

definition SAI3_BASE :: u32 where
  [base_defs]: "SAI3_BASE = D2_APB2PERIPH_BASE + 0x6000"

definition DFSDM1_BASE :: u32 where
  [base_defs]: "DFSDM1_BASE = D2_APB2PERIPH_BASE + 0x7000"

definition HRTIM1_BASE :: u32 where
  [base_defs]: "HRTIM1_BASE = D2_APB2PERIPH_BASE + 0x7400"

definition DMA1_BASE :: u32 where
  [base_defs]: "DMA1_BASE = D2_AHB1PERIPH_BASE + 0x0000"

definition DMA2_BASE :: u32 where
  [base_defs]: "DMA2_BASE = D2_AHB1PERIPH_BASE + 0x0400"

definition ADC1_BASE :: u32 where
  [base_defs]: "ADC1_BASE = D2_AHB1PERIPH_BASE + 0x2000"

definition ADC2_BASE :: u32 where
  [base_defs]: "ADC2_BASE = D2_AHB1PERIPH_BASE + 0x2100"

definition USB1_OTG_HS_PERIPH_BASE :: u32 where
  [base_defs]: "USB1_OTG_HS_PERIPH_BASE = 0x40040000"

definition USB2_OTG_FS_PERIPH_BASE :: u32 where
  [base_defs]: "USB2_OTG_FS_PERIPH_BASE = 0x40080000"

definition DCMI_BASE :: u32 where
  [base_defs]: "DCMI_BASE = D2_AHB2PERIPH_BASE + 0x0000"

definition RNG_BASE :: u32 where
  [base_defs]: "RNG_BASE = D2_AHB2PERIPH_BASE + 0x1800"

definition SDMMC2_BASE :: u32 where
  [base_defs]: "SDMMC2_BASE = D2_AHB2PERIPH_BASE + 0x2400"

definition DLYB_SDMMC2_BASE :: u32 where
  [base_defs]: "DLYB_SDMMC2_BASE = D2_AHB2PERIPH_BASE + 0x2800"

definition LTDC_BASE :: u32 where
  [base_defs]: "LTDC_BASE = D1_APB1PERIPH_BASE + 0x1000"

definition WWDG1_BASE :: u32 where
  [base_defs]: "WWDG1_BASE = D1_APB1PERIPH_BASE + 0x3000"

definition DMA2D_BASE :: u32 where
  [base_defs]: "DMA2D_BASE = D1_AHB1PERIPH_BASE + 0x1000"

definition JPGDEC_BASE :: u32 where
  [base_defs]: "JPGDEC_BASE = D1_AHB1PERIPH_BASE + 0x3000"

definition FMC_R_BASE :: u32 where
  [base_defs]: "FMC_R_BASE = D1_AHB1PERIPH_BASE + 0x4000"

definition QSPI_R_BASE :: u32 where
  [base_defs]: "QSPI_R_BASE = D1_AHB1PERIPH_BASE + 0x5000"

definition DLYB_QSPI_BASE :: u32 where
  [base_defs]: "DLYB_QSPI_BASE = D1_AHB1PERIPH_BASE + 0x6000"

definition SDMMC1_BASE :: u32 where
  [base_defs]: "SDMMC1_BASE = D1_AHB1PERIPH_BASE + 0x7000"

definition DLYB_SDMMC1_BASE :: u32 where
  [base_defs]: "DLYB_SDMMC1_BASE = D1_AHB1PERIPH_BASE + 0x8000"

definition SYSCFG_BASE :: u32 where
  [base_defs]: "SYSCFG_BASE = D3_APB1PERIPH_BASE + 0x0400"

definition LPUART1_BASE :: u32 where
  [base_defs]: "LPUART1_BASE = D3_APB1PERIPH_BASE + 0x0C00"

definition SPI6_BASE :: u32 where
  [base_defs]: "SPI6_BASE = D3_APB1PERIPH_BASE + 0x1400"

definition I2C4_BASE :: u32 where
  [base_defs]: "I2C4_BASE = D3_APB1PERIPH_BASE + 0x1C00"

definition LPTIM2_BASE :: u32 where
  [base_defs]: "LPTIM2_BASE = D3_APB1PERIPH_BASE + 0x2400"

definition LPTIM3_BASE :: u32 where
  [base_defs]: "LPTIM3_BASE = D3_APB1PERIPH_BASE + 0x2800"

definition LPTIM4_BASE :: u32 where
  [base_defs]: "LPTIM4_BASE = D3_APB1PERIPH_BASE + 0x2C00"

definition LPTIM5_BASE :: u32 where
  [base_defs]: "LPTIM5_BASE = D3_APB1PERIPH_BASE + 0x3000"

definition COMP12_BASE :: u32 where
  [base_defs]: "COMP12_BASE = D3_APB1PERIPH_BASE + 0x3800"

definition VREFBUF_BASE :: u32 where
  [base_defs]: "VREFBUF_BASE = D3_APB1PERIPH_BASE + 0x3C00"

definition RTC_BASE :: u32 where
  [base_defs]: "RTC_BASE = D3_APB1PERIPH_BASE + 0x4000"

definition SAI4_BASE :: u32 where
  [base_defs]: "SAI4_BASE = D3_APB1PERIPH_BASE + 0x5400"

definition GPIOA_BASE :: u32 where
  [base_defs]: "GPIOA_BASE = D3_AHB1PERIPH_BASE + 0x0000"

definition GPIOB_BASE :: u32 where
  [base_defs]: "GPIOB_BASE = D3_AHB1PERIPH_BASE + 0x0400"

definition GPIOC_BASE :: u32 where
  [base_defs]: "GPIOC_BASE = D3_AHB1PERIPH_BASE + 0x0800"

definition GPIOD_BASE :: u32 where
  [base_defs]: "GPIOD_BASE = D3_AHB1PERIPH_BASE + 0x0C00"

definition GPIOE_BASE :: u32 where
  [base_defs]: "GPIOE_BASE = D3_AHB1PERIPH_BASE + 0x1000"

definition GPIOF_BASE :: u32 where
  [base_defs]: "GPIOF_BASE = D3_AHB1PERIPH_BASE + 0x1400"

definition GPIOG_BASE :: u32 where
  [base_defs]: "GPIOG_BASE = D3_AHB1PERIPH_BASE + 0x1800"

definition GPIOH_BASE :: u32 where
  [base_defs]: "GPIOH_BASE = D3_AHB1PERIPH_BASE + 0x1C00"

definition GPIOI_BASE :: u32 where
  [base_defs]: "GPIOI_BASE = D3_AHB1PERIPH_BASE + 0x2000"

definition GPIOJ_BASE :: u32 where
  [base_defs]: "GPIOJ_BASE = D3_AHB1PERIPH_BASE + 0x2400"

definition GPIOK_BASE :: u32 where
  [base_defs]: "GPIOK_BASE = D3_AHB1PERIPH_BASE + 0x2800"

definition CRC_BASE :: u32 where
  [base_defs]: "CRC_BASE = D3_AHB1PERIPH_BASE + 0x4C00"

definition BDMA_BASE :: u32 where
  [base_defs]: "BDMA_BASE = D3_AHB1PERIPH_BASE + 0x5400"

definition ADC3_BASE :: u32 where
  [base_defs]: "ADC3_BASE = D3_AHB1PERIPH_BASE + 0x6000"

definition HSEM_BASE :: u32 where
  [base_defs]: "HSEM_BASE = D3_AHB1PERIPH_BASE + 0x6400"

definition ETH_BASE :: u32 where
  [base_defs]: "ETH_BASE = D2_AHB1PERIPH_BASE + 0x8000"

definition DMA1_Stream0_BASE :: u32 where
  [base_defs]: "DMA1_Stream0_BASE = DMA1_BASE + 0x010"

definition DMA1_Stream1_BASE :: u32 where
  [base_defs]: "DMA1_Stream1_BASE = DMA1_BASE + 0x028"

definition DMA1_Stream2_BASE :: u32 where
  [base_defs]: "DMA1_Stream2_BASE = DMA1_BASE + 0x040"

definition DMA1_Stream3_BASE :: u32 where
  [base_defs]: "DMA1_Stream3_BASE = DMA1_BASE + 0x058"

definition DMA1_Stream4_BASE :: u32 where
  [base_defs]: "DMA1_Stream4_BASE = DMA1_BASE + 0x070"

definition DMA1_Stream5_BASE :: u32 where
  [base_defs]: "DMA1_Stream5_BASE = DMA1_BASE + 0x088"

definition DMA1_Stream6_BASE :: u32 where
  [base_defs]: "DMA1_Stream6_BASE = DMA1_BASE + 0x0A0"

definition DMA1_Stream7_BASE :: u32 where
  [base_defs]: "DMA1_Stream7_BASE = DMA1_BASE + 0x0B8"

definition DMA2_Stream0_BASE :: u32 where
  [base_defs]: "DMA2_Stream0_BASE = DMA2_BASE + 0x010"

definition DMA2_Stream1_BASE :: u32 where
  [base_defs]: "DMA2_Stream1_BASE = DMA2_BASE + 0x028"

definition DMA2_Stream2_BASE :: u32 where
  [base_defs]: "DMA2_Stream2_BASE = DMA2_BASE + 0x040"

definition DMA2_Stream3_BASE :: u32 where
  [base_defs]: "DMA2_Stream3_BASE = DMA2_BASE + 0x058"

definition DMA2_Stream4_BASE :: u32 where
  [base_defs]: "DMA2_Stream4_BASE = DMA2_BASE + 0x070"

definition DMA2_Stream5_BASE :: u32 where
  [base_defs]: "DMA2_Stream5_BASE = DMA2_BASE + 0x088"

definition DMA2_Stream6_BASE :: u32 where
  [base_defs]: "DMA2_Stream6_BASE = DMA2_BASE + 0x0A0"

definition DMA2_Stream7_BASE :: u32 where
  [base_defs]: "DMA2_Stream7_BASE = DMA2_BASE + 0x0B8"

subsection \<open>Interrupt numbers\<close>

definition NonMaskableInt_IRQn :: int where
  [hal_consts]: "NonMaskableInt_IRQn = -14"

definition DMA1_Stream0_IRQn :: int where
  [hal_consts]: "DMA1_Stream0_IRQn = 11"

definition DMA1_Stream1_IRQn :: int where
  [hal_consts]: "DMA1_Stream1_IRQn = 12"

definition DMA1_Stream2_IRQn :: int where
  [hal_consts]: "DMA1_Stream2_IRQn = 13"

definition DMA1_Stream3_IRQn :: int where
  [hal_consts]: "DMA1_Stream3_IRQn = 14"

definition DMA1_Stream4_IRQn :: int where
  [hal_consts]: "DMA1_Stream4_IRQn = 15"

definition DMA1_Stream5_IRQn :: int where
  [hal_consts]: "DMA1_Stream5_IRQn = 16"

definition DMA1_Stream6_IRQn :: int where
  [hal_consts]: "DMA1_Stream6_IRQn = 17"

definition DMA1_Stream7_IRQn :: int where
  [hal_consts]: "DMA1_Stream7_IRQn = 47"

definition DMA2_Stream0_IRQn :: int where
  [hal_consts]: "DMA2_Stream0_IRQn = 56"

definition DMA2_Stream1_IRQn :: int where
  [hal_consts]: "DMA2_Stream1_IRQn = 57"

definition DMA2_Stream2_IRQn :: int where
  [hal_consts]: "DMA2_Stream2_IRQn = 58"

definition DMA2_Stream3_IRQn :: int where
  [hal_consts]: "DMA2_Stream3_IRQn = 59"

definition DMA2_Stream4_IRQn :: int where
  [hal_consts]: "DMA2_Stream4_IRQn = 60"

definition DMA2_Stream5_IRQn :: int where
  [hal_consts]: "DMA2_Stream5_IRQn = 68"

definition DMA2_Stream6_IRQn :: int where
  [hal_consts]: "DMA2_Stream6_IRQn = 69"

definition DMA2_Stream7_IRQn :: int where
  [hal_consts]: "DMA2_Stream7_IRQn = 70"

definition LTDC_IRQn :: int where
  [hal_consts]: "LTDC_IRQn = 88"

subsection \<open>DMA requests\<close>

definition DMA_REQUEST_USART1_TX :: u32 where
  [hal_consts]: "DMA_REQUEST_USART1_TX = 0x2a"

definition DMA_REQUEST_USART1_RX :: u32 where
  [hal_consts]: "DMA_REQUEST_USART1_RX = 0x29"

definition DMA_REQUEST_USART2_TX :: u32 where
  [hal_consts]: "DMA_REQUEST_USART2_TX = 0x2c"

definition DMA_REQUEST_USART2_RX :: u32 where
  [hal_consts]: "DMA_REQUEST_USART2_RX = 0x2b"

definition DMA_REQUEST_USART3_TX :: u32 where
  [hal_consts]: "DMA_REQUEST_USART3_TX = 0x2e"

definition DMA_REQUEST_USART3_RX :: u32 where
  [hal_consts]: "DMA_REQUEST_USART3_RX = 0x2d"

definition DMA_REQUEST_UART4_TX :: u32 where
  [hal_consts]: "DMA_REQUEST_UART4_TX = 0x40"

definition DMA_REQUEST_UART4_RX :: u32 where
  [hal_consts]: "DMA_REQUEST_UART4_RX = 0x3f"

definition DMA_REQUEST_UART5_TX :: u32 where
  [hal_consts]: "DMA_REQUEST_UART5_TX = 0x42"

definition DMA_REQUEST_UART5_RX :: u32 where
  [hal_consts]: "DMA_REQUEST_UART5_RX = 0x41"

definition DMA_REQUEST_USART6_TX :: u32 where
  [hal_consts]: "DMA_REQUEST_USART6_TX = 0x48"

definition DMA_REQUEST_USART6_RX :: u32 where
  [hal_consts]: "DMA_REQUEST_USART6_RX = 0x47"

definition DMA_REQUEST_UART7_TX :: u32 where
  [hal_consts]: "DMA_REQUEST_UART7_TX = 0x50"

definition DMA_REQUEST_UART7_RX :: u32 where
  [hal_consts]: "DMA_REQUEST_UART7_RX = 0x4f"

definition DMA_REQUEST_UART8_TX :: u32 where
  [hal_consts]: "DMA_REQUEST_UART8_TX = 0x52"

definition DMA_REQUEST_UART8_RX :: u32 where
  [hal_consts]: "DMA_REQUEST_UART8_RX = 0x51"

subsection \<open>GPIO pins\<close>

definition GPIO_PIN_0 :: u16 where
  [hal_consts]: "GPIO_PIN_0 = 0x1"

definition GPIO_PIN_1 :: u16 where
  [hal_consts]: "GPIO_PIN_1 = 0x2"

definition GPIO_PIN_2 :: u16 where
  [hal_consts]: "GPIO_PIN_2 = 0x4"

definition GPIO_PIN_3 :: u16 where
  [hal_consts]: "GPIO_PIN_3 = 0x8"

definition GPIO_PIN_4 :: u16 where
  [hal_consts]: "GPIO_PIN_4 = 0x10"

definition GPIO_PIN_5 :: u16 where
  [hal_consts]: "GPIO_PIN_5 = 0x20"

definition GPIO_PIN_6 :: u16 where
  [hal_consts]: "GPIO_PIN_6 = 0x40"

definition GPIO_PIN_7 :: u16 where
  [hal_consts]: "GPIO_PIN_7 = 0x80"

definition GPIO_PIN_8 :: u16 where
  [hal_consts]: "GPIO_PIN_8 = 0x100"

definition GPIO_PIN_9 :: u16 where
  [hal_consts]: "GPIO_PIN_9 = 0x200"

definition GPIO_PIN_10 :: u16 where
  [hal_consts]: "GPIO_PIN_10 = 0x400"

definition GPIO_PIN_11 :: u16 where
  [hal_consts]: "GPIO_PIN_11 = 0x800"

definition GPIO_PIN_12 :: u16 where
  [hal_consts]: "GPIO_PIN_12 = 0x1000"

definition GPIO_PIN_13 :: u16 where
  [hal_consts]: "GPIO_PIN_13 = 0x2000"

definition GPIO_PIN_14 :: u16 where
  [hal_consts]: "GPIO_PIN_14 = 0x4000"

definition GPIO_PIN_15 :: u16 where
  [hal_consts]: "GPIO_PIN_15 = 0x8000"

subsection \<open>GPIO modes\<close>

definition GPIO_MODE_OUTPUT_PP :: u32 where
  [hal_consts]: "GPIO_MODE_OUTPUT_PP = 0x1"

definition GPIO_MODE_AF_PP :: u32 where
  [hal_consts]: "GPIO_MODE_AF_PP = 0x2"

definition GPIO_NOPULL :: u32 where
  [hal_consts]: "GPIO_NOPULL = 0x0"

definition GPIO_SPEED_FREQ_LOW :: u32 where
  [hal_consts]: "GPIO_SPEED_FREQ_LOW = 0x0"

definition GPIO_SPEED_FREQ_VERY_HIGH :: u32 where
  [hal_consts]: "GPIO_SPEED_FREQ_VERY_HIGH = 0x3"

subsection \<open>GPIO alternate functions\<close>

definition GPIO_AF0_TRACE :: u8 where
  [hal_consts]: "GPIO_AF0_TRACE = 0x0"

definition GPIO_AF2_TIM12 :: u8 where
  [hal_consts]: "GPIO_AF2_TIM12 = 0x2"

definition GPIO_AF4_USART1 :: u8 where
  [hal_consts]: "GPIO_AF4_USART1 = 0x4"

definition GPIO_AF6_UART4 :: u8 where
  [hal_consts]: "GPIO_AF6_UART4 = 0x6"

definition GPIO_AF7_USART1 :: u8 where
  [hal_consts]: "GPIO_AF7_USART1 = 0x7"

definition GPIO_AF7_USART2 :: u8 where
  [hal_consts]: "GPIO_AF7_USART2 = 0x7"

definition GPIO_AF7_USART3 :: u8 where
  [hal_consts]: "GPIO_AF7_USART3 = 0x7"

definition GPIO_AF7_USART6 :: u8 where
  [hal_consts]: "GPIO_AF7_USART6 = 0x7"

definition GPIO_AF7_UART7 :: u8 where
  [hal_consts]: "GPIO_AF7_UART7 = 0x7"

definition GPIO_AF8_UART4 :: u8 where
  [hal_consts]: "GPIO_AF8_UART4 = 0x8"

definition GPIO_AF8_UART5 :: u8 where
  [hal_consts]: "GPIO_AF8_UART5 = 0x8"

definition GPIO_AF8_UART8 :: u8 where
  [hal_consts]: "GPIO_AF8_UART8 = 0x8"

definition GPIO_AF9_LTDC :: u8 where
  [hal_consts]: "GPIO_AF9_LTDC = 0x9"

definition GPIO_AF11_UART7 :: u8 where
  [hal_consts]: "GPIO_AF11_UART7 = 0xb"

definition GPIO_AF12_FMC :: u8 where
  [hal_consts]: "GPIO_AF12_FMC = 0xc"

definition GPIO_AF14_LTDC :: u8 where
  [hal_consts]: "GPIO_AF14_LTDC = 0xe"

definition GPIO_AF14_UART5 :: u8 where
  [hal_consts]: "GPIO_AF14_UART5 = 0xe"
end
