(* ===== verification/Bsp_utils.thy ===== *)
theory Bsp_utils
  imports Stm32
begin

text \<open>
  bsp/bsp_utils.c and bsp/include/bsp_utils.h: pointers that carry error codes, the tables of
  buses and peripherals, the search for a peripheral by address or by name, and the switch that
  gates a peripheral's clock.
\<close>

section \<open>Error pointers\<close>

text \<open>Pointers and \<open>long\<close> have 32 bits on the target; NULL is 0.\<close>

definition MAX_ERRNO :: u32 where
  "MAX_ERRNO = 4095"

definition ERR_PTR :: "int \<Rightarrow> u32" where
  "ERR_PTR e = word_of_int e"

definition PTR_ERR :: "u32 \<Rightarrow> int" where
  "PTR_ERR p = sint p"

definition IS_ERR_VALUE :: "u32 \<Rightarrow> bool" where
  "IS_ERR_VALUE x \<longleftrightarrow> - MAX_ERRNO \<le> x"

definition IS_ERR :: "u32 \<Rightarrow> bool" where
  "IS_ERR p \<longleftrightarrow> IS_ERR_VALUE p"

definition IS_ERR_OR_NULL :: "u32 \<Rightarrow> bool" where
  "IS_ERR_OR_NULL p \<longleftrightarrow> p = 0 \<or> IS_ERR_VALUE p"

text \<open>
  \<open>CALL_IF_NOT_NULL_RET_PTR\<close> and \<open>CALL_IF_NOT_NULL_RET_INT\<close>: the value without a function is
  NULL and \<open>-1\<close>.  A function changes a world of its own.
\<close>

definition CALL_IF_NOT_NULL_RET_PTR :: "(u32 \<Rightarrow> 'w \<Rightarrow> u32 \<times> 'w) option \<Rightarrow> u32 \<Rightarrow> 'w \<Rightarrow> u32 \<times> 'w" where
  "CALL_IF_NOT_NULL_RET_PTR f x w = (case f of None \<Rightarrow> (0, w) | Some g \<Rightarrow> g x w)"

definition CALL_IF_NOT_NULL_RET_INT :: "(u32 \<Rightarrow> 'w \<Rightarrow> int \<times> 'w) option \<Rightarrow> u32 \<Rightarrow> 'w \<Rightarrow> int \<times> 'w" where
  "CALL_IF_NOT_NULL_RET_INT f x w = (case f of None \<Rightarrow> (-1, w) | Some g \<Rightarrow> g x w)"

definition SET_VAL_IF_ZERO :: "'a::zero \<Rightarrow> 'a \<Rightarrow> 'a" where
  "SET_VAL_IF_ZERO v d = (if v = 0 then d else v)"

section \<open>The tables\<close>

datatype freq_fn = HAL_RCC_GetPCLK1Freq | HAL_RCC_GetPCLK2Freq | HAL_RCC_GetHCLKFreq | HAL_RCCEx_GetD1PCLK1Freq | HAL_RCCEx_GetD3PCLK1Freq

record bus_des =
  bus_lo :: u32
  bus_hi :: u32
  bus_name :: string
  bus_get_freq :: freq_fn

record periph_des =
  pd_lo :: u32
  pd_hi :: u32
  pd_name :: "string option"
  pd_bus :: "bus_des option"

definition bsp_utils_bus_des :: "bus_des list" where
  "bsp_utils_bus_des =
    [\<lparr>bus_lo = 0x40000000, bus_hi = 0x4000D400, bus_name = ''apb1'', bus_get_freq = HAL_RCC_GetPCLK1Freq\<rparr>,
     \<lparr>bus_lo = 0x40010000, bus_hi = 0x40017800, bus_name = ''apb2'', bus_get_freq = HAL_RCC_GetPCLK2Freq\<rparr>,
     \<lparr>bus_lo = 0x40020000, bus_hi = 0x400C0000, bus_name = ''ahb1'', bus_get_freq = HAL_RCC_GetHCLKFreq\<rparr>,
     \<lparr>bus_lo = 0x48020000, bus_hi = 0x48022C00, bus_name = ''ahb2'', bus_get_freq = HAL_RCC_GetHCLKFreq\<rparr>,
     \<lparr>bus_lo = 0x50000000, bus_hi = 0x50004000, bus_name = ''apb3'', bus_get_freq = HAL_RCCEx_GetD1PCLK1Freq\<rparr>,
     \<lparr>bus_lo = 0x51000000, bus_hi = 0x52009000, bus_name = ''ahb3'', bus_get_freq = HAL_RCC_GetHCLKFreq\<rparr>,
     \<lparr>bus_lo = 0x58000000, bus_hi = 0x58006C00, bus_name = ''apb4'', bus_get_freq = HAL_RCCEx_GetD3PCLK1Freq\<rparr>,
     \<lparr>bus_lo = 0x58020000, bus_hi = 0x580267FF, bus_name = ''ahb4'', bus_get_freq = HAL_RCC_GetHCLKFreq\<rparr>]"

definition BSP_UTILS_APB1_DES :: bus_des where
  "BSP_UTILS_APB1_DES = bsp_utils_bus_des ! 0"

definition BSP_UTILS_APB2_DES :: bus_des where
  "BSP_UTILS_APB2_DES = bsp_utils_bus_des ! 1"

definition BSP_UTILS_AHB1_DES :: bus_des where
  "BSP_UTILS_AHB1_DES = bsp_utils_bus_des ! 2"

definition BSP_UTILS_AHB2_DES :: bus_des where
  "BSP_UTILS_AHB2_DES = bsp_utils_bus_des ! 3"

definition BSP_UTILS_APB3_DES :: bus_des where
  "BSP_UTILS_APB3_DES = bsp_utils_bus_des ! 4"

definition BSP_UTILS_AHB3_DES :: bus_des where
  "BSP_UTILS_AHB3_DES = bsp_utils_bus_des ! 5"

definition BSP_UTILS_APB4_DES :: bus_des where
  "BSP_UTILS_APB4_DES = bsp_utils_bus_des ! 6"

definition BSP_UTILS_AHB4_DES :: bus_des where
  "BSP_UTILS_AHB4_DES = bsp_utils_bus_des ! 7"

definition periph_entry :: "u32 \<Rightarrow> u32 \<Rightarrow> string \<Rightarrow> bus_des \<Rightarrow> periph_des" where
  "periph_entry lo hi n b = \<lparr>pd_lo = lo, pd_hi = hi, pd_name = Some n, pd_bus = Some b\<rparr>"

definition bsp_utils_periph_des :: "periph_des list" where
  "bsp_utils_periph_des =
    [periph_entry 0x40000000 0x400003FF ''TIM2'' BSP_UTILS_APB1_DES,
     periph_entry 0x40000400 0x400007FF ''TIM3'' BSP_UTILS_APB1_DES,
     periph_entry 0x40000800 0x40000BFF ''TIM4'' BSP_UTILS_APB1_DES,
     periph_entry 0x40000C00 0x40000FFF ''TIM5'' BSP_UTILS_APB1_DES,
     periph_entry 0x40001000 0x400013FF ''TIM6'' BSP_UTILS_APB1_DES,
     periph_entry 0x40001400 0x400017FF ''TIM7'' BSP_UTILS_APB1_DES,
     periph_entry 0x40001800 0x40001BFF ''TIM12'' BSP_UTILS_APB1_DES,
     periph_entry 0x40001C00 0x40001FFF ''TIM13'' BSP_UTILS_APB1_DES,
     periph_entry 0x40002000 0x400023FF ''TIM14'' BSP_UTILS_APB1_DES,
     periph_entry 0x40002400 0x400027FF ''LPTIM1'' BSP_UTILS_APB1_DES,
     periph_entry 0x40002C00 0x40002FFF ''RESERVED'' BSP_UTILS_APB1_DES,
     periph_entry 0x40003800 0x40003BFF ''SPI2'' BSP_UTILS_APB1_DES,
     periph_entry 0x40003C00 0x40003FFF ''SPI3'' BSP_UTILS_APB1_DES,
     periph_entry 0x40004000 0x400043FF ''SPDIFRX'' BSP_UTILS_APB1_DES,
     periph_entry 0x40004400 0x400047FF ''USART2'' BSP_UTILS_APB1_DES,
     periph_entry 0x40004800 0x40004BFF ''USART3'' BSP_UTILS_APB1_DES,
     periph_entry 0x40004C00 0x40004FFF ''UART4'' BSP_UTILS_APB1_DES,
     periph_entry 0x40005000 0x400053FF ''UART5'' BSP_UTILS_APB1_DES,
     periph_entry 0x40005400 0x400057FF ''I2C1'' BSP_UTILS_APB1_DES,
     periph_entry 0x40005800 0x40005BFF ''I2C2'' BSP_UTILS_APB1_DES,
     periph_entry 0x40005C00 0x40005FFF ''I2C3'' BSP_UTILS_APB1_DES,
     periph_entry 0x40006C00 0x40006FFF ''HDMI_CEC'' BSP_UTILS_APB1_DES,
     periph_entry 0x40007400 0x400077FF ''DAC1'' BSP_UTILS_APB1_DES,
     periph_entry 0x40007800 0x40007BFF ''UART7'' BSP_UTILS_APB1_DES,
     periph_entry 0x40007C00 0x40007FFF ''UART8'' BSP_UTILS_APB1_DES,
     periph_entry 0x40008400 0x400087FF ''CRS'' BSP_UTILS_APB1_DES,
     periph_entry 0x40008800 0x40008BFF ''SWPMI'' BSP_UTILS_APB1_DES,
     periph_entry 0x40009000 0x400093FF ''OPAMP'' BSP_UTILS_APB1_DES,
     periph_entry 0x40009400 0x400097FF ''MDIOS'' BSP_UTILS_APB1_DES,
     periph_entry 0x4000A000 0x4000A3FF ''FDCAN1'' BSP_UTILS_APB1_DES,
     periph_entry 0x4000A400 0x4000A7FF ''FDCAN2'' BSP_UTILS_APB1_DES,
     periph_entry 0x4000A800 0x4000D3FF ''FDCAN'' BSP_UTILS_APB1_DES,
     periph_entry 0x40010000 0x400103FF ''TIM1'' BSP_UTILS_APB2_DES,
     periph_entry 0x40010400 0x400107FF ''TIM8'' BSP_UTILS_APB2_DES,
     periph_entry 0x40011000 0x400113FF ''USART1'' BSP_UTILS_APB2_DES,
     periph_entry 0x40011400 0x400117FF ''USART6'' BSP_UTILS_APB2_DES,
     periph_entry 0x40013000 0x400133FF ''SPI1'' BSP_UTILS_APB2_DES,
     periph_entry 0x40013400 0x400137FF ''SPI4'' BSP_UTILS_APB2_DES,
     periph_entry 0x40014000 0x400143FF ''TIM15'' BSP_UTILS_APB2_DES,
     periph_entry 0x40014400 0x400147FF ''TIM16'' BSP_UTILS_APB2_DES,
     periph_entry 0x40014800 0x40014BFF ''TIM17'' BSP_UTILS_APB2_DES,
     periph_entry 0x40015000 0x400153FF ''SPI5'' BSP_UTILS_APB2_DES,
     periph_entry 0x40015800 0x40015BFF ''SAI1'' BSP_UTILS_APB2_DES,
     periph_entry 0x40015C00 0x40015FFF ''SAI2'' BSP_UTILS_APB2_DES,
     periph_entry 0x40016000 0x400163FF ''SAI3'' BSP_UTILS_APB2_DES,
     periph_entry 0x40017000 0x400173FF ''DFSDM1'' BSP_UTILS_APB2_DES,
     periph_entry 0x40017400 0x400177FF ''HRT1M'' BSP_UTILS_APB2_DES,
     periph_entry 0x40020000 0x400203FF ''DMA1'' BSP_UTILS_AHB1_DES,
     periph_entry 0x40020400 0x400207FF ''DMA2'' BSP_UTILS_AHB1_DES,
     periph_entry 0x40020800 0x40020BFF ''DMAMUX1'' BSP_UTILS_AHB1_DES,
     periph_entry 0x40022000 0x400223FF ''ADC'' BSP_UTILS_AHB1_DES,
     periph_entry 0x40024400 0x400247FF ''RESERVED'' BSP_UTILS_AHB1_DES,
     periph_entry 0x40028000 0x400293FF ''MAC'' BSP_UTILS_AHB1_DES,
     periph_entry 0x40040000 0x4007FFFF ''OTG_HS'' BSP_UTILS_AHB1_DES,
     periph_entry 0x40080000 0x400BFFFF ''OTG_FS'' BSP_UTILS_AHB1_DES,
     periph_entry 0x48020000 0x480203FF ''DCMI'' BSP_UTILS_AHB2_DES,
     periph_entry 0x48021000 0x480213FF ''CRYPTO'' BSP_UTILS_AHB2_DES,
     periph_entry 0x48021400 0x480217FF ''HASH'' BSP_UTILS_AHB2_DES,
     periph_entry 0x48021800 0x48021BFF ''RNG'' BSP_UTILS_AHB2_DES,
     periph_entry 0x48022400 0x480227FF ''SDMMC2'' BSP_UTILS_AHB2_DES,
     periph_entry 0x48022800 0x48022BFF ''DLYB_SDMMC2'' BSP_UTILS_AHB2_DES,
     periph_entry 0x50000000 0x50000FFF ''RESERVED'' BSP_UTILS_APB3_DES,
     periph_entry 0x50001000 0x50001FFF ''LTDC'' BSP_UTILS_APB3_DES,
     periph_entry 0x50003000 0x50003FFF ''WWDG1'' BSP_UTILS_APB3_DES,
     periph_entry 0x51000000 0x510FFFFF ''GPV'' BSP_UTILS_AHB3_DES,
     periph_entry 0x52000000 0x52000FFF ''MDMA'' BSP_UTILS_AHB3_DES,
     periph_entry 0x52001000 0x52001FFF ''DMA2D'' BSP_UTILS_AHB3_DES,
     periph_entry 0x52002000 0x52002FFF ''Flash'' BSP_UTILS_AHB3_DES,
     periph_entry 0x52003000 0x52003FFF ''JPEG'' BSP_UTILS_AHB3_DES,
     periph_entry 0x52004000 0x52004FFF ''FMC'' BSP_UTILS_AHB3_DES,
     periph_entry 0x52005000 0x52005FFF ''QSPI'' BSP_UTILS_AHB3_DES,
     periph_entry 0x52006000 0x52006FFF ''DLYB_QSPI'' BSP_UTILS_AHB3_DES,
     periph_entry 0x52007000 0x52007FFF ''SDMMC1'' BSP_UTILS_AHB3_DES,
     periph_entry 0x52008000 0x52008FFF ''DLYB_SDMMC1'' BSP_UTILS_AHB3_DES,
     periph_entry 0x58000000 0x580003FF ''EXTI'' BSP_UTILS_APB4_DES,
     periph_entry 0x58000400 0x580007FF ''SYSCFG'' BSP_UTILS_APB4_DES,
     periph_entry 0x58000C00 0x58000FFF ''LPUART1'' BSP_UTILS_APB4_DES,
     periph_entry 0x58001400 0x580017FF ''SPI6'' BSP_UTILS_APB4_DES,
     periph_entry 0x58001C00 0x58001FFF ''I2C4'' BSP_UTILS_APB4_DES,
     periph_entry 0x58002400 0x580027FF ''LPTIM2'' BSP_UTILS_APB4_DES,
     periph_entry 0x58002800 0x58002BFF ''LPTIM3'' BSP_UTILS_APB4_DES,
     periph_entry 0x58002C00 0x58002FFF ''LPTIM4'' BSP_UTILS_APB4_DES,
     periph_entry 0x58003000 0x580033FF ''LPTIM5'' BSP_UTILS_APB4_DES,
     periph_entry 0x58003800 0x58003BFF ''COMP1_COMP2'' BSP_UTILS_APB4_DES,
     periph_entry 0x58003C00 0x58003FFF ''VREF'' BSP_UTILS_APB4_DES,
     periph_entry 0x58003C00 0x58003FFF ''VREFBUF'' BSP_UTILS_APB4_DES,
     periph_entry 0x58004000 0x580043FF ''RTC'' BSP_UTILS_APB4_DES,
     periph_entry 0x58004800 0x58004BFF ''IWDG1'' BSP_UTILS_APB4_DES,
     periph_entry 0x58004C00 0x58004FFF ''RESERVED'' BSP_UTILS_APB4_DES,
     periph_entry 0x58005400 0x580057FF ''SAI4'' BSP_UTILS_APB4_DES,
     periph_entry 0x58006400 0x58006BFF ''RESERVED'' BSP_UTILS_APB4_DES,
     periph_entry 0x58020000 0x580203FF ''GPIOA'' BSP_UTILS_APB4_DES,
     periph_entry 0x58020400 0x580207FF ''GPIOB'' BSP_UTILS_APB4_DES,
     periph_entry 0x58020800 0x58020BFF ''GPIOC'' BSP_UTILS_APB4_DES,
     periph_entry 0x58020C00 0x58020FFF ''GPIOD'' BSP_UTILS_APB4_DES,
     periph_entry 0x58021000 0x580213FF ''GPIOE'' BSP_UTILS_APB4_DES,
     periph_entry 0x58021400 0x580217FF ''GPIOF'' BSP_UTILS_APB4_DES,
     periph_entry 0x58021800 0x58021BFF ''GPIOG'' BSP_UTILS_APB4_DES,
     periph_entry 0x58021C00 0x58021FFF ''GPIOH'' BSP_UTILS_APB4_DES,
     periph_entry 0x58022000 0x580223FF ''GPIOI'' BSP_UTILS_APB4_DES,
     periph_entry 0x58022400 0x580227FF ''GPIOJ'' BSP_UTILS_APB4_DES,
     periph_entry 0x58022800 0x58022BFF ''GPIOK'' BSP_UTILS_APB4_DES,
     periph_entry 0x58024400 0x580247FF ''RCC'' BSP_UTILS_APB4_DES,
     periph_entry 0x58024800 0x58024BFF ''PWR'' BSP_UTILS_APB4_DES,
     periph_entry 0x58024C00 0x58024FFF ''CRC'' BSP_UTILS_APB4_DES,
     periph_entry 0x58025400 0x580257FF ''BDMA'' BSP_UTILS_APB4_DES,
     periph_entry 0x58025800 0x58025BFF ''DMAMUX2'' BSP_UTILS_APB4_DES,
     periph_entry 0x58026000 0x580263FF ''ADC3'' BSP_UTILS_APB4_DES,
     periph_entry 0x58026400 0x580267FF ''HSEM'' BSP_UTILS_APB4_DES]"

section \<open>Operations\<close>

text \<open>
  \<open>while (tab[i++].addr_lo < addr && i < n);\<close>  The value of \<open>i\<close> after the loop; \<open>None\<close> would
  be a read behind the table.
\<close>

function periph_seek :: "periph_des list \<Rightarrow> u32 \<Rightarrow> nat \<Rightarrow> nat option" where
  "periph_seek tab a i =
     (if i < length tab
      then (if pd_lo (tab ! i) < a \<and> Suc i < length tab then periph_seek tab a (Suc i)
            else Some (Suc i))
      else None)"
  by pat_completeness auto
termination
  by (relation "measure (\<lambda>(tab, a, i). length tab - i)") auto

declare periph_seek.simps [simp del]

text \<open>\<open>!strncmp(a, b, n)\<close> on strings without NUL.\<close>

definition strncmp_eq :: "nat \<Rightarrow> string \<Rightarrow> string \<Rightarrow> bool" where
  "strncmp_eq n a b \<longleftrightarrow> take n a = take n b"

fun periph_by_name :: "periph_des list \<Rightarrow> string \<Rightarrow> periph_des option" where
  "periph_by_name [] n = None"
| "periph_by_name (e # es) n =
     (case pd_name e of
        None \<Rightarrow> periph_by_name es n
      | Some m \<Rightarrow> if strncmp_eq 10 m n then Some e else periph_by_name es n)"

definition bsp_utils_get_periph :: "periph_des \<Rightarrow> (int + periph_des) option" where
  "bsp_utils_get_periph des =
     (let tab = bsp_utils_periph_des
      in if pd_lo des \<noteq> 0 then do {
           i \<leftarrow> periph_seek tab (pd_lo des) 0;
           if pd_hi (tab ! (i - 1)) < pd_lo des then Some (Inl (- ENODEV))
           else Some (Inr (tab ! (i - 1)))
         }
         else (case pd_name des of
             Some n \<Rightarrow>
               (case periph_by_name tab n of
                  None \<Rightarrow> Some (Inl (- ENODEV))
                | Some e \<Rightarrow> Some (Inr e))
           | None \<Rightarrow> Some (Inl (- EINVAL))))"

text \<open>The cases of the switch, with the clocks that each gates.\<close>

definition clk_cases :: "(u32 \<times> string list) list" where
  "clk_cases =
    [(MDMA_BASE, [''MDMA'']),
     (TIM2_BASE, [''TIM2'']),
     (TIM4_BASE, [''TIM4'']),
     (TIM5_BASE, [''TIM5'']),
     (TIM6_BASE, [''TIM6'']),
     (TIM7_BASE, [''TIM7'']),
     (TIM12_BASE, [''TIM12'']),
     (TIM13_BASE, [''TIM13'']),
     (TIM14_BASE, [''TIM14'']),
     (LPTIM1_BASE, [''LPTIM1'']),
     (SPI2_BASE, [''SPI2'']),
     (SPI3_BASE, [''SPI3'']),
     (SPDIFRX_BASE, [''SPDIFRX'']),
     (USART2_BASE, [''USART2'']),
     (USART3_BASE, [''USART3'']),
     (UART4_BASE, [''UART4'']),
     (UART5_BASE, [''UART5'']),
     (I2C1_BASE, [''I2C1'']),
     (I2C2_BASE, [''I2C2'']),
     (I2C3_BASE, [''I2C3'']),
     (CEC_BASE, [''CEC'']),
     (DAC1_BASE, [''DAC12'']),
     (UART7_BASE, [''UART7'']),
     (UART8_BASE, [''UART8'']),
     (CRS_BASE, [''CRS'']),
     (SWPMI1_BASE, [''SWPMI1'']),
     (OPAMP_BASE, [''OPAMP'']),
     (MDIOS_BASE, [''MDIOS'']),
     (FDCAN1_BASE, [''FDCAN'']),
     (FDCAN2_BASE, [''FDCAN'']),
     (TIM1_BASE, [''TIM1'']),
     (TIM8_BASE, [''TIM8'']),
     (USART1_BASE, [''USART1'']),
     (USART6_BASE, [''USART6'']),
     (SPI1_BASE, [''SPI1'']),
     (SPI4_BASE, [''SPI4'']),
     (TIM15_BASE, [''TIM15'']),
     (TIM16_BASE, [''TIM16'']),
     (TIM17_BASE, [''TIM17'']),
     (SPI5_BASE, [''SPI5'']),
     (SAI1_BASE, [''SAI1'']),
     (SAI2_BASE, [''SAI2'']),
     (SAI3_BASE, [''SAI3'']),
     (DFSDM1_BASE, [''DFSDM1'']),
     (HRTIM1_BASE, [''HRTIM1'']),
     (DMA1_BASE, [''DMA1'']),
     (DMA2_BASE, [''DMA2'']),
     (ADC1_BASE, [''ADC12'']),
     (ADC2_BASE, [''ADC12'']),
     (ETH_BASE, [''ETH1MAC'', ''ETH1RX'', ''ETH1TX'']),
     (USB1_OTG_HS_PERIPH_BASE, [''USB1_OTG_HS'']),
     (USB2_OTG_FS_PERIPH_BASE, [''USB2_OTG_FS'']),
     (DCMI_BASE, [''DCMI'']),
     (RNG_BASE, [''RNG'']),
     (SDMMC2_BASE, [''SDMMC2'']),
     (DLYB_SDMMC2_BASE, [''SDMMC2'']),
     (LTDC_BASE, [''LTDC'']),
     (WWDG1_BASE, [''WWDG1'']),
     (DMA2D_BASE, [''DMA2D'']),
     (JPGDEC_BASE, [''JPGDECEN'']),
     (FMC_R_BASE, [''FMC'']),
     (QSPI_R_BASE, [''QSPI'']),
     (DLYB_QSPI_BASE, [''QSPI'']),
     (SDMMC1_BASE, [''SDMMC1'']),
     (DLYB_SDMMC1_BASE, [''SDMMC1'']),
     (SYSCFG_BASE, [''SYSCFG'']),
     (LPUART1_BASE, [''LPUART1'']),
     (SPI6_BASE, [''SPI6'']),
     (I2C4_BASE, [''I2C4'']),
     (LPTIM2_BASE, [''LPTIM2'']),
     (LPTIM3_BASE, [''LPTIM3'']),
     (LPTIM4_BASE, [''LPTIM4'']),
     (LPTIM5_BASE, [''LPTIM5'']),
     (COMP12_BASE, [''COMP12'']),
     (VREFBUF_BASE, [''VREF'']),
     (RTC_BASE, [''RTC'']),
     (SAI4_BASE, [''SAI4'']),
     (GPIOA_BASE, [''GPIOA'']),
     (GPIOB_BASE, [''GPIOB'']),
     (GPIOC_BASE, [''GPIOC'']),
     (GPIOD_BASE, [''GPIOD'']),
     (GPIOE_BASE, [''GPIOE'']),
     (GPIOF_BASE, [''GPIOF'']),
     (GPIOG_BASE, [''GPIOG'']),
     (GPIOH_BASE, [''GPIOH'']),
     (GPIOI_BASE, [''GPIOI'']),
     (GPIOJ_BASE, [''GPIOJ'']),
     (GPIOK_BASE, [''GPIOK'']),
     (CRC_BASE, [''CRC'']),
     (BDMA_BASE, [''BDMA'']),
     (ADC3_BASE, [''ADC3'']),
     (HSEM_BASE, [''HSEM''])]"

text \<open>\<open>ENABLE\<close> is 1 and \<open>DISABLE\<close> is 0; the descriptor is overwritten when a match is found.\<close>

definition DISABLE :: int where
  "DISABLE = 0"

definition ENABLE :: int where
  "ENABLE = 1"

definition bsp_utils_periph_clk :: "periph_des \<Rightarrow> int \<Rightarrow> log \<Rightarrow> (int \<times> periph_des \<times> log) option" where
  "bsp_utils_periph_clk des state l = do {
     res \<leftarrow> bsp_utils_get_periph des;
     let des' = (case res of Inl _ \<Rightarrow> des | Inr d \<Rightarrow> d);
     Some
       (if state \<noteq> DISABLE \<and> state \<noteq> ENABLE then (- EINVAL, des', l)
        else
          (case res of
             Inl _ \<Rightarrow> (- ENODEV, des', l)
           | Inr d \<Rightarrow>
               (case map_of clk_cases (pd_lo d) of
                  None \<Rightarrow> (- EINVAL, des', l)
                | Some ns \<Rightarrow> (0, des', l @ map (\<lambda>n. Clk n (state \<noteq> DISABLE)) ns))))
   }"

definition zero_periph :: periph_des where
  "zero_periph = \<lparr>pd_lo = 0, pd_hi = 0, pd_name = None, pd_bus = None\<rparr>"

section \<open>Error pointers\<close>

lemma PTR_ERR_ERR_PTR: "- (2 ^ 31) \<le> e \<Longrightarrow> e < 2 ^ 31 \<Longrightarrow> PTR_ERR (ERR_PTR e) = e"
  by (simp add: PTR_ERR_def ERR_PTR_def signed_of_int signed_take_bit_int_eq_self)

lemma IS_ERR_uint: "IS_ERR p \<longleftrightarrow> 2 ^ 32 - 4095 \<le> uint p"
  by (simp add: IS_ERR_def IS_ERR_VALUE_def MAX_ERRNO_def word_le_def)

lemma uint_ERR_PTR:
  assumes "- (2 ^ 31) \<le> e" "e < 2 ^ 31"
  shows "uint (ERR_PTR e) = (if e < 0 then 2 ^ 32 + e else e)"
proof (cases "e < 0")
  case True
  have "uint (ERR_PTR e) = e mod 2 ^ 32" by (simp add: ERR_PTR_def uint_word_of_int)
  also have "\<dots> = (e + 2 ^ 32) mod 2 ^ 32" by simp
  also have "\<dots> = e + 2 ^ 32" using True assms by (intro mod_pos_pos_trivial) simp_all
  finally show ?thesis using True by simp
next
  case False
  then show ?thesis using assms by (simp add: ERR_PTR_def uint_word_of_int)
qed

lemma IS_ERR_ERR_PTR:
  "- (2 ^ 31) \<le> e \<Longrightarrow> e < 2 ^ 31 \<Longrightarrow> IS_ERR (ERR_PTR e) \<longleftrightarrow> - 4095 \<le> e \<and> e < 0"
  by (cases "e < 0") (simp_all add: IS_ERR_uint uint_ERR_PTR, linarith)

lemma IS_ERR_OR_NULL_alt: "IS_ERR_OR_NULL p \<longleftrightarrow> p = 0 \<or> IS_ERR p"
  by (simp add: IS_ERR_OR_NULL_def IS_ERR_def)

section \<open>The search by address\<close>

lemma periph_seek_find:
  "i < length tab \<Longrightarrow>
   \<exists>k. periph_seek tab a i = Some (Suc k) \<and> i \<le> k \<and> k < length tab \<and>
       (\<forall>j. i \<le> j \<and> j < k \<longrightarrow> pd_lo (tab ! j) < a) \<and>
       (a \<le> pd_lo (tab ! k) \<or> Suc k = length tab)"
proof (induction tab a i rule: periph_seek.induct)
  case (1 tab a i)
  show ?case
  proof (cases "pd_lo (tab ! i) < a \<and> Suc i < length tab")
    case True
    obtain k where k: "periph_seek tab a (Suc i) = Some (Suc k)" "Suc i \<le> k" "k < length tab"
        "\<forall>j. Suc i \<le> j \<and> j < k \<longrightarrow> pd_lo (tab ! j) < a" "a \<le> pd_lo (tab ! k) \<or> Suc k = length tab"
      using 1(1) [OF 1(2) True conjunct2 [OF True]] by (elim exE conjE)
    have "pd_lo (tab ! j) < a" if "i \<le> j" "j < k" for j
      using that k(4) True by (cases "j = i") auto
    moreover have "periph_seek tab a i = periph_seek tab a (Suc i)"
      using 1(2) True by (subst periph_seek.simps) simp
    ultimately show ?thesis using k by (intro exI [of _ k]) auto
  next
    case False
    then have "periph_seek tab a i = Some (Suc i)" using 1(2) by (subst periph_seek.simps) auto
    then show ?thesis using False 1(2) by (intro exI [of _ i]) auto
  qed
qed

text \<open>The first entry that starts at or above the address, or the last entry.\<close>

definition entry_at :: "u32 \<Rightarrow> periph_des" where
  "entry_at a =
     (case find (\<lambda>e. a \<le> pd_lo e) bsp_utils_periph_des of
        Some e \<Rightarrow> e
      | None \<Rightarrow> last bsp_utils_periph_des)"

lemma find_nth:
  assumes "k < length xs" "P (xs ! k)" "\<And>j. j < k \<Longrightarrow> \<not> P (xs ! j)"
  shows "find P xs = Some (xs ! k)"
  unfolding find_Some_iff by (intro exI [of _ k] conjI allI impI assms refl)

lemma table_nonempty: "bsp_utils_periph_des \<noteq> []"
  by (simp add: bsp_utils_periph_des_def)

lemma get_periph_addr:
  assumes "pd_lo des \<noteq> 0"
  shows "bsp_utils_get_periph des =
    Some (if pd_hi (entry_at (pd_lo des)) < pd_lo des then Inl (- ENODEV)
          else Inr (entry_at (pd_lo des)))"
proof -
  let ?t = bsp_utils_periph_des and ?a = "pd_lo des"
  obtain k where k: "periph_seek ?t ?a 0 = Some (Suc k)" "k < length ?t"
      "\<forall>j. j < k \<longrightarrow> pd_lo (?t ! j) < ?a" "?a \<le> pd_lo (?t ! k) \<or> Suc k = length ?t"
    using periph_seek_find [of 0 ?t ?a] table_nonempty by auto
  have "?t ! k = entry_at ?a"
  proof (cases "?a \<le> pd_lo (?t ! k)")
    case True
    have "find (\<lambda>e. ?a \<le> pd_lo e) ?t = Some (?t ! k)"
      using k(2,3) True by (intro find_nth) (auto simp: not_le)
    then show ?thesis by (simp add: entry_at_def)
  next
    case False
    then have last: "Suc k = length ?t" using k(4) by simp
    have "\<not> ?a \<le> pd_lo e" if e: "e \<in> set ?t" for e
    proof -
      obtain j where j: "j < length ?t" "e = ?t ! j" using e by (auto simp: in_set_conv_nth)
      then show ?thesis using False k(3) last by (cases "j = k") (auto simp: not_le)
    qed
    then have "find (\<lambda>e. ?a \<le> pd_lo e) ?t = None" by (auto simp: find_None_iff)
    moreover have "k = length ?t - 1" using last by simp
    ultimately show ?thesis using table_nonempty by (simp add: entry_at_def last_conv_nth)
  qed
  then show ?thesis using assms k(1) by (simp add: bsp_utils_get_periph_def Let_def)
qed

lemma get_periph_total: "\<exists>r. bsp_utils_get_periph des = Some r"
proof (cases "pd_lo des = 0")
  case True
  then show ?thesis
    by (auto simp: bsp_utils_get_periph_def Let_def split: option.splits)
next
  case False
  then show ?thesis by (simp add: get_periph_addr)
qed

text \<open>Checks of the table itself, by computation.\<close>

lemma table_ranges: "list_all (\<lambda>e. pd_lo e \<le> pd_hi e) bsp_utils_periph_des"
  by code_simp

text \<open>Entry \<open>d\<close> lies above entry \<open>e\<close>, or has the same range (VREF and VREFBUF do).\<close>

definition entry_below :: "periph_des \<Rightarrow> periph_des \<Rightarrow> bool" where
  "entry_below e d \<longleftrightarrow>
     pd_hi e < pd_lo d \<and> pd_lo d \<le> pd_hi d \<or> pd_lo e = pd_lo d \<and> pd_hi e = pd_hi d"

lemma entry_below_trans: "transp entry_below"
  by (rule transpI) (auto simp: entry_below_def)

lemma table_successive: "successively entry_below bsp_utils_periph_des"
  by code_simp

lemma table_ascending: "sorted_wrt entry_below bsp_utils_periph_des"
  using table_successive by (simp add: successively_conv_sorted_wrt entry_below_trans)

lemma table_member_cases:
  assumes "e \<in> set bsp_utils_periph_des" "d \<in> set bsp_utils_periph_des"
  shows "e = d \<or> entry_below e d \<or> entry_below d e"
proof -
  let ?t = bsp_utils_periph_des
  obtain i j where i: "i < length ?t" "e = ?t ! i" and j: "j < length ?t" "d = ?t ! j"
    using assms by (auto simp: in_set_conv_nth)
  show ?thesis
    using sorted_wrt_nth_less [OF table_ascending, of i j] sorted_wrt_nth_less [OF table_ascending, of j i] i j
    by (cases i j rule: linorder_cases) auto
qed

lemma table_range: "e \<in> set bsp_utils_periph_des \<Longrightarrow> pd_lo e \<le> pd_hi e"
  using table_ranges by (simp add: list_all_iff)

lemma table_low: "list_all (\<lambda>e. pd_lo e \<noteq> 0) bsp_utils_periph_des"
  by code_simp

lemma table_last: "list_all (\<lambda>e. pd_lo e < pd_lo (last bsp_utils_periph_des)) (butlast bsp_utils_periph_des)"
  by code_simp

lemma entry_at_found:
  assumes "e \<in> set bsp_utils_periph_des" "a \<le> pd_lo e"
  shows "entry_at a \<in> set bsp_utils_periph_des \<and> a \<le> pd_lo (entry_at a)"
proof -
  let ?P = "\<lambda>e. a \<le> pd_lo e"
  obtain d where d: "find ?P bsp_utils_periph_des = Some d"
    using assms find_None_iff [of ?P bsp_utils_periph_des] by (cases "find ?P bsp_utils_periph_des") auto
  then have "d \<in> set bsp_utils_periph_des \<and> a \<le> pd_lo d" by (auto simp: find_Some_iff)
  then show ?thesis using d by (simp add: entry_at_def)
qed

lemma entry_at_first:
  assumes "e \<in> set bsp_utils_periph_des" "a \<le> pd_lo e"
  shows "pd_lo (entry_at a) \<le> pd_lo e"
proof -
  let ?t = bsp_utils_periph_des and ?P = "\<lambda>e. a \<le> pd_lo e"
  obtain d where d: "find ?P ?t = Some d"
    using assms find_None_iff [of ?P ?t] by (cases "find ?P ?t") auto
  then obtain k where k: "k < length ?t" "d = ?t ! k" "\<And>j. j < k \<Longrightarrow> \<not> ?P (?t ! j)"
    by (auto simp: find_Some_iff)
  obtain j where j: "j < length ?t" "e = ?t ! j" using assms(1) by (auto simp: in_set_conv_nth)
  with assms(2) k(3) have "k \<le> j" by (meson not_le)
  then have "d = e \<or> entry_below d e"
    using sorted_wrt_nth_less [OF table_ascending, of k j] j k(2) by (cases "k = j") auto
  then have "pd_lo d \<le> pd_lo e"
    using table_range [of d] k by (auto simp: entry_below_def)
  then show ?thesis using d by (simp add: entry_at_def)
qed

text \<open>
  Searching a peripheral by address.  An address that is the start of an entry of the table
  finds an entry with that range.  An address inside the range of any entry but the last, other
  than its start, always finds a different peripheral, one that lies completely above the
  address, although the comment of the function says that the address may be anywhere in the
  range.  The search never reads outside the table.
\<close>

theorem get_periph_by_address:
  assumes "e \<in> set (butlast bsp_utils_periph_des)" "pd_lo e \<le> pd_lo des" "pd_lo des \<le> pd_hi e"
  shows "\<exists>d. bsp_utils_get_periph des = Some (Inr d) \<and>
             (if pd_lo des = pd_lo e then pd_lo d = pd_lo e \<and> pd_hi d = pd_hi e
              else pd_lo des < pd_lo d)"
proof -
  let ?t = bsp_utils_periph_des and ?a = "pd_lo des"
  have e: "e \<in> set ?t" using assms(1) by (rule in_set_butlastD)
  have l: "last ?t \<in> set ?t" using table_nonempty by simp
  have el: "pd_lo e < pd_lo (last ?t)" using table_last assms(1) by (simp add: list_all_iff)
  have nz: "?a \<noteq> 0" using table_low e assms(2) by (auto simp: list_all_iff)
  have "entry_below e (last ?t)"
    using table_member_cases [OF e l] el table_range [OF e] table_range [OF l]
    by (auto simp: entry_below_def)
  with el assms(3) have al: "?a \<le> pd_lo (last ?t)" by (auto simp: entry_below_def)
  let ?d = "entry_at ?a"
  have d: "?d \<in> set ?t" "?a \<le> pd_lo ?d" using entry_at_found [OF l al] by auto
  have "\<not> pd_hi ?d < ?a" using d table_range [OF d(1)] by auto
  then have "bsp_utils_get_periph des = Some (Inr ?d)" using nz by (simp add: get_periph_addr)
  moreover have "pd_lo ?d = pd_lo e \<and> pd_hi ?d = pd_hi e" if "?a = pd_lo e"
    using entry_at_first [OF e, of ?a] that d table_member_cases [OF e d(1)]
      table_range [OF e] table_range [OF d(1)]
    by (auto simp: entry_below_def)
  moreover have "?a < pd_lo ?d" if "?a \<noteq> pd_lo e"
    using that d assms(2,3) table_member_cases [OF e d(1)] table_range [OF d(1)]
    by (auto simp: entry_below_def less_le)
  ultimately show ?thesis by auto
qed

lemma get_periph_by_address_witness:
  "\<exists>d. bsp_utils_get_periph (zero_periph\<lparr>pd_lo := 0x40020010\<rparr>) = Some (Inr d) \<and> 0x40020010 < pd_lo d"
proof -
  have "periph_entry 0x40020000 0x400203FF ''DMA1'' BSP_UTILS_AHB1_DES \<in> set (butlast bsp_utils_periph_des)"
    by (simp add: bsp_utils_periph_des_def)
  from get_periph_by_address [OF this, of "zero_periph\<lparr>pd_lo := 0x40020010\<rparr>"] show ?thesis
    by (simp add: zero_periph_def periph_entry_def)
qed

section \<open>The search by name and the clock switch\<close>

lemma get_periph_name:
  "pd_lo des = 0 \<Longrightarrow> pd_name des = Some n \<Longrightarrow>
   bsp_utils_get_periph des =
     Some (case periph_by_name bsp_utils_periph_des n of None \<Rightarrow> Inl (- ENODEV) | Some e \<Rightarrow> Inr e)"
  by (simp add: bsp_utils_get_periph_def Let_def split: option.splits)

text \<open>
  Only ten characters of a name are compared.  Searching the peripheral \<open>DLYB_SDMMC1\<close> by
  name finds the entry of \<open>DLYB_SDMMC2\<close>, and enabling the clock of the one enables the clock of
  the other.
\<close>

theorem get_periph_name_truncated:
  "bsp_utils_get_periph (zero_periph\<lparr>pd_name := Some ''DLYB_SDMMC1''\<rparr>) =
     Some (Inr (periph_entry 0x48022800 0x48022BFF ''DLYB_SDMMC2'' BSP_UTILS_AHB2_DES)) \<and>
   map_option (\<lambda>(r, _, l). (r, l))
     (bsp_utils_periph_clk (zero_periph\<lparr>pd_name := Some ''DLYB_SDMMC1''\<rparr>) ENABLE []) =
     Some (0, [Clk ''SDMMC2'' True])"
  by code_simp

text \<open>
  The streams of the DMA controllers lie inside the register ranges of DMA1 and DMA2.
\<close>

definition dma1_streams :: "u32 list" where
  "dma1_streams = [DMA1_Stream0_BASE, DMA1_Stream1_BASE, DMA1_Stream2_BASE, DMA1_Stream3_BASE,
     DMA1_Stream4_BASE, DMA1_Stream5_BASE, DMA1_Stream6_BASE, DMA1_Stream7_BASE]"

definition dma2_streams :: "u32 list" where
  "dma2_streams = [DMA2_Stream0_BASE, DMA2_Stream1_BASE, DMA2_Stream2_BASE, DMA2_Stream3_BASE,
     DMA2_Stream4_BASE, DMA2_Stream5_BASE, DMA2_Stream6_BASE, DMA2_Stream7_BASE]"

definition dma2_entry :: periph_des where
  "dma2_entry = periph_entry 0x40020400 0x400207FF ''DMA2'' BSP_UTILS_AHB1_DES"

definition dmamux1_entry :: periph_des where
  "dmamux1_entry = periph_entry 0x40020800 0x40020BFF ''DMAMUX1'' BSP_UTILS_AHB1_DES"

lemma dma1_entry_at: "list_all (\<lambda>a. entry_at a = dma2_entry) dma1_streams"
  by code_simp

lemma dma2_entry_at: "list_all (\<lambda>a. entry_at a = dmamux1_entry) dma2_streams"
  by code_simp

lemma periph_clk_addr:
  assumes "pd_lo des \<noteq> 0" "pd_lo des \<le> pd_hi (entry_at (pd_lo des))"
  shows "bsp_utils_periph_clk des ENABLE l =
    Some (case map_of clk_cases (pd_lo (entry_at (pd_lo des))) of
            None \<Rightarrow> (- EINVAL, entry_at (pd_lo des), l)
          | Some ns \<Rightarrow> (0, entry_at (pd_lo des), l @ map (\<lambda>n. Clk n True) ns))"
  using assms by (simp add: bsp_utils_periph_clk_def get_periph_addr Let_def ENABLE_def DISABLE_def not_less
      split: option.splits)

text \<open>The clock gates of a peripheral with an own entry and an own case.\<close>

definition clk_at :: "u32 \<Rightarrow> string list option" where
  "clk_at a =
     (if a \<noteq> 0 \<and> a \<le> pd_hi (entry_at a) then map_of clk_cases (pd_lo (entry_at a)) else None)"

lemma periph_clk_at:
  "clk_at (pd_lo des) = Some ns \<Longrightarrow>
   bsp_utils_periph_clk des ENABLE l =
     Some (0, entry_at (pd_lo des), l @ map (\<lambda>n. Clk n True) ns)"
  by (simp add: clk_at_def periph_clk_addr split: if_splits)

lemma dma_clk_cases:
  "map_of clk_cases (pd_lo dma2_entry) = Some [''DMA2''] \<and> map_of clk_cases (pd_lo dmamux1_entry) = None"
  by code_simp

lemma stream_ranges:
  "list_all (\<lambda>a. a \<noteq> 0 \<and> a \<le> pd_hi dma2_entry) dma1_streams \<and>
   list_all (\<lambda>a. a \<noteq> 0 \<and> a \<le> pd_hi dmamux1_entry) dma2_streams"
  by code_simp

text \<open>
  Gating the clock of a DMA stream gates the wrong controller.  The address of a stream of
  DMA1 enables the clock of DMA2, never that of DMA1, and reports success; the address of a
  stream of DMA2 is refused with \<open>-EINVAL\<close> and enables nothing.
\<close>

theorem dma_stream_clock:
  "(a \<in> set dma1_streams \<longrightarrow>
      bsp_utils_periph_clk (zero_periph\<lparr>pd_lo := a\<rparr>) ENABLE l = Some (0, dma2_entry, l @ [Clk ''DMA2'' True])) \<and>
   (a \<in> set dma2_streams \<longrightarrow>
      bsp_utils_periph_clk (zero_periph\<lparr>pd_lo := a\<rparr>) ENABLE l = Some (- EINVAL, dmamux1_entry, l))"
proof (intro conjI impI)
  assume a: "a \<in> set dma1_streams"
  have "entry_at a = dma2_entry" "a \<noteq> 0" "a \<le> pd_hi dma2_entry"
    using a dma1_entry_at stream_ranges by (auto simp: list_all_iff)
  then show "bsp_utils_periph_clk (zero_periph\<lparr>pd_lo := a\<rparr>) ENABLE l =
      Some (0, dma2_entry, l @ [Clk ''DMA2'' True])"
    using periph_clk_addr [of "zero_periph\<lparr>pd_lo := a\<rparr>" l] dma_clk_cases by simp
next
  assume a: "a \<in> set dma2_streams"
  have "entry_at a = dmamux1_entry" "a \<noteq> 0" "a \<le> pd_hi dmamux1_entry"
    using a dma2_entry_at stream_ranges by (auto simp: list_all_iff)
  then show "bsp_utils_periph_clk (zero_periph\<lparr>pd_lo := a\<rparr>) ENABLE l =
      Some (- EINVAL, dmamux1_entry, l)"
    using periph_clk_addr [of "zero_periph\<lparr>pd_lo := a\<rparr>" l] dma_clk_cases by simp
qed

lemma dma_stream_clock_witness:
  "bsp_utils_periph_clk (zero_periph\<lparr>pd_lo := DMA1_Stream0_BASE\<rparr>) ENABLE [] =
     Some (0, dma2_entry, [Clk ''DMA2'' True])"
  using dma_stream_clock [of DMA1_Stream0_BASE "[]"] by (simp add: dma1_streams_def)

end
