(* ===== verification/Bsp_module.thy ===== *)
theory Bsp_module
  imports Slist Bsp_utils
begin

text \<open>
  The module list of bsp/bsp_module.c and bsp/include/bsp_module.h.  A module is registered on an
  intrusive list and goes through \<open>prepare\<close>, \<open>setup\<close> and \<open>desetup\<close>, callbacks of its own that
  act on a world the list does not see.  What \<open>printf\<close> reports is kept as a list of messages: the
  operation, the error number, the name and the version.
\<close>

section \<open>State\<close>

datatype bsp_module_state = LIVE | COMING | GOING

record 'w bsp_module =
  mod_state :: bsp_module_state
  mod_name :: string
  mod_version :: string
  mod_descriptor :: u32
  mod_setup :: "(u32 \<Rightarrow> 'w \<Rightarrow> int \<times> 'w) option"
  mod_desetup :: "(u32 \<Rightarrow> 'w \<Rightarrow> int \<times> 'w) option"
  mod_prepare :: "(u32 \<Rightarrow> 'w \<Rightarrow> u32 \<times> 'w) option"

datatype message = Message string int string string

record ('a, 'w) mods =
  ms_list :: "'a lists"
  ms_mod :: "'a \<Rightarrow> 'w bsp_module"
  ms_world :: 'w
  ms_out :: "message list"

definition BSP_MODULE_NAME_LEN :: nat where
  "BSP_MODULE_NAME_LEN = 64"

section \<open>Operations\<close>

definition bsp_module_append :: "'a \<Rightarrow> ('a, 'w) mods \<Rightarrow> int \<times> ('a, 'w) mods" where
  "bsp_module_append m s =
     (- EBUSY,
      if mod_state (ms_mod s m) \<noteq> LIVE then s\<lparr>ms_list := sys_slist_append m (ms_list s)\<rparr> else s)"

definition bsp_module_remove :: "'a \<Rightarrow> ('a, 'w) mods \<Rightarrow> (int \<times> ('a, 'w) mods) option" where
  "bsp_module_remove m s =
     (if mod_state (ms_mod s m) \<noteq> LIVE then
        map_option (\<lambda>(_, l). (0, s\<lparr>ms_list := l\<rparr>)) (sys_slist_find_and_remove m (ms_list s))
      else Some (- EBUSY, s))"

definition bsp_module_init :: "('a, 'w) mods \<Rightarrow> ('a, 'w) mods" where
  "bsp_module_init s = s\<lparr>ms_list := (fst (ms_list s), sys_slist_init (snd (ms_list s)))\<rparr>"

definition BSP_MODULE_FOR_EACH ::
  "('a \<Rightarrow> 's \<Rightarrow> 's \<times> 'r option) \<Rightarrow> 'a lists \<Rightarrow> 's \<Rightarrow> ('s \<times> 'r option) option" where
  "BSP_MODULE_FOR_EACH body l = for_each (fst l) body (sl_head (snd l))"

definition bsp_module_find :: "string \<Rightarrow> ('a, 'w) mods \<Rightarrow> 'a option option" where
  "bsp_module_find n s =
     map_option snd
       (BSP_MODULE_FOR_EACH
          (\<lambda>m u. (u :: unit,
             if strncmp_eq BSP_MODULE_NAME_LEN (mod_name (ms_mod s m)) n then Some m else None))
          (ms_list s) ())"

definition say :: "string \<Rightarrow> int \<Rightarrow> 'w bsp_module \<Rightarrow> message" where
  "say f e m = Message f e (mod_name m) (mod_version m)"

definition prepare_one :: "'a \<Rightarrow> ('a, 'w) mods \<Rightarrow> ('a, 'w) mods" where
  "prepare_one m s =
     (let md = ms_mod s m;
          (tmp_des, w) = CALL_IF_NOT_NULL_RET_PTR (mod_prepare md) (mod_descriptor md) (ms_world s)
      in if IS_ERR_OR_NULL tmp_des
         then s\<lparr>ms_world := w,
                ms_out := ms_out s @ [say ''bsp_module_prepare'' (- PTR_ERR tmp_des) md],
                ms_mod := (ms_mod s)(m := md\<lparr>mod_state := GOING\<rparr>)\<rparr>
         else s\<lparr>ms_world := w,
                ms_mod := (ms_mod s)(m := md\<lparr>mod_descriptor := tmp_des, mod_state := COMING\<rparr>)\<rparr>)"

definition bsp_module_prepare_all :: "('a, 'w) mods \<Rightarrow> ('a, 'w) mods option" where
  "bsp_module_prepare_all s =
     map_option fst
       (BSP_MODULE_FOR_EACH (\<lambda>m s. (prepare_one m s, None :: unit option)) (ms_list s) s)"

definition setup_one :: "'a \<Rightarrow> ('a, 'w) mods \<Rightarrow> ('a, 'w) mods" where
  "setup_one m s =
     (let md = ms_mod s m
      in if mod_state md \<noteq> COMING then s
         else (let (res, w) = CALL_IF_NOT_NULL_RET_INT (mod_setup md) (mod_descriptor md) (ms_world s)
               in if res \<noteq> 0
                  then s\<lparr>ms_world := w, ms_out := ms_out s @ [say ''bsp_module_setup'' (- res) md],
                         ms_mod := (ms_mod s)(m := md\<lparr>mod_state := GOING\<rparr>)\<rparr>
                  else s\<lparr>ms_world := w, ms_mod := (ms_mod s)(m := md\<lparr>mod_state := LIVE\<rparr>)\<rparr>))"

definition bsp_module_setup_all :: "('a, 'w) mods \<Rightarrow> ('a, 'w) mods option" where
  "bsp_module_setup_all s =
     map_option fst
       (BSP_MODULE_FOR_EACH (\<lambda>m s. (setup_one m s, None :: unit option)) (ms_list s) s)"

definition desetup_one :: "'a \<Rightarrow> ('a, 'w) mods \<Rightarrow> ('a, 'w) mods" where
  "desetup_one m s =
     (let md = ms_mod s m
      in if mod_state md = GOING then s
         else (let (res, w) = CALL_IF_NOT_NULL_RET_INT (mod_desetup md) (mod_descriptor md) (ms_world s);
                   out = (if res \<noteq> 0 then [say ''bsp_module_desetup'' (- res) md] else [])
               in s\<lparr>ms_world := w, ms_out := ms_out s @ out,
                    ms_mod := (ms_mod s)(m := md\<lparr>mod_state := GOING\<rparr>)\<rparr>))"

definition bsp_module_desetup_all :: "('a, 'w) mods \<Rightarrow> ('a, 'w) mods option" where
  "bsp_module_desetup_all s =
     map_option fst
       (BSP_MODULE_FOR_EACH (\<lambda>m s. (desetup_one m s, None :: unit option)) (ms_list s) s)"

section \<open>Loops over a well-formed list\<close>

abbreviation registered :: "('a, 'w) mods \<Rightarrow> 'a list \<Rightarrow> bool" where
  "registered s xs \<equiv> slist_rep (ms_list s) xs"

lemma FOR_EACH_rep:
  "slist_rep l xs \<Longrightarrow> BSP_MODULE_FOR_EACH body l s = Some (list_loop body xs s)"
  by (simp add: BSP_MODULE_FOR_EACH_def slist_rep_def for_each_list)

lemma all_loops:
  assumes "registered s xs"
  shows "bsp_module_prepare_all s = Some (fold prepare_one xs s)"
    and "bsp_module_setup_all s = Some (fold setup_one xs s)"
    and "bsp_module_desetup_all s = Some (fold desetup_one xs s)"
  by (simp_all add: bsp_module_prepare_all_def bsp_module_setup_all_def bsp_module_desetup_all_def
      FOR_EACH_rep [OF assms] list_loop_fold)

text \<open>What each callback step changes: the state and descriptor of its module, nothing else.\<close>

definition same_module :: "'w bsp_module \<Rightarrow> 'w bsp_module \<Rightarrow> bool" where
  "same_module a b \<longleftrightarrow>
     mod_name a = mod_name b \<and> mod_version a = mod_version b \<and> mod_setup a = mod_setup b \<and>
     mod_desetup a = mod_desetup b \<and> mod_prepare a = mod_prepare b"

definition frame_but :: "'a set \<Rightarrow> ('a, 'w) mods \<Rightarrow> ('a, 'w) mods \<Rightarrow> bool" where
  "frame_but X s t \<longleftrightarrow>
     ms_list t = ms_list s \<and> (\<forall>m. same_module (ms_mod t m) (ms_mod s m)) \<and>
     (\<forall>m. m \<notin> X \<longrightarrow> ms_mod t m = ms_mod s m) \<and> (\<exists>o'. ms_out t = ms_out s @ o')"

lemma frame_refl: "frame_but X s s"
  by (simp add: frame_but_def same_module_def)

lemma frame_trans: "frame_but X s t \<Longrightarrow> frame_but Y t u \<Longrightarrow> frame_but (X \<union> Y) s u"
  unfolding frame_but_def same_module_def by (auto simp: fun_eq_iff)

lemma step_frames:
  "frame_but {m} s (prepare_one m s)" "frame_but {m} s (setup_one m s)" "frame_but {m} s (desetup_one m s)"
  by (auto simp: frame_but_def same_module_def prepare_one_def setup_one_def desetup_one_def Let_def
      split: prod.splits)

lemma fold_frame:
  "(\<And>m s. frame_but {m} s (f m s)) \<Longrightarrow> frame_but (set xs) s (fold f xs s)"
proof (induction xs arbitrary: s)
  case Nil
  then show ?case by (simp add: frame_refl)
next
  case (Cons x xs)
  have "frame_but ({x} \<union> set xs) s (fold f xs (f x s))"
    by (rule frame_trans [OF Cons.prems Cons.IH]) (rule Cons.prems)
  then show ?case by simp
qed

text \<open>
  A fact that a step establishes between its module before and after it, and that more messages
  do not break, holds for every module after the loop.
\<close>

lemma fold_establishes:
  assumes step: "\<And>m s. frame_but {m} s (f m s)"
    and est: "\<And>m s. P (ms_mod s m) (ms_mod (f m s) m) (set (ms_out (f m s)))"
    and mono: "\<And>a b X Y. P a b X \<Longrightarrow> X \<subseteq> Y \<Longrightarrow> P a b Y"
  shows "distinct xs \<Longrightarrow> m \<in> set xs \<Longrightarrow>
    P (ms_mod s m) (ms_mod (fold f xs s) m) (set (ms_out (fold f xs s)))"
proof (induction xs arbitrary: s)
  case (Cons x xs)
  show ?case
  proof (cases "m = x")
    case True
    have fr: "frame_but (set xs) (f x s) (fold f xs (f x s))" by (rule fold_frame) (rule step)
    have "m \<notin> set xs" using Cons.prems True by simp
    then have "ms_mod (fold f xs (f x s)) m = ms_mod (f x s) m"
        "set (ms_out (f x s)) \<subseteq> set (ms_out (fold f xs (f x s)))"
      using fr by (auto simp: frame_but_def)
    then show ?thesis using est [of s x] mono True by simp
  next
    case False
    then have "ms_mod (f x s) m = ms_mod s m" using step [of x s] by (simp add: frame_but_def)
    then show ?thesis using Cons.IH [of "f x s"] Cons.prems False by simp
  qed
qed simp

section \<open>Bringing all modules up\<close>

definition prepared :: "'w bsp_module \<Rightarrow> 'w bsp_module \<Rightarrow> message set \<Rightarrow> bool" where
  "prepared a b out \<longleftrightarrow>
     (\<exists>w. let p = fst (CALL_IF_NOT_NULL_RET_PTR (mod_prepare a) (mod_descriptor a) w)
          in if IS_ERR_OR_NULL p
             then mod_state b = GOING \<and> mod_descriptor b = mod_descriptor a \<and>
                  say ''bsp_module_prepare'' (- PTR_ERR p) a \<in> out
             else mod_state b = COMING \<and> mod_descriptor b = p)"

definition set_up :: "'w bsp_module \<Rightarrow> 'w bsp_module \<Rightarrow> message set \<Rightarrow> bool" where
  "set_up a b out \<longleftrightarrow>
     (if mod_state a = COMING
      then mod_descriptor b = mod_descriptor a \<and>
           (\<exists>w. let r = fst (CALL_IF_NOT_NULL_RET_INT (mod_setup a) (mod_descriptor a) w)
                in if r \<noteq> 0 then mod_state b = GOING \<and> say ''bsp_module_setup'' (- r) a \<in> out
                   else mod_state b = LIVE)
      else b = a)"

lemma prepare_all_prepared:
  assumes "distinct xs" "m \<in> set xs"
  shows "prepared (ms_mod s m) (ms_mod (fold prepare_one xs s) m) (set (ms_out (fold prepare_one xs s)))"
proof (rule fold_establishes [where P = prepared, OF step_frames(1) _ _ assms])
  show "prepared (ms_mod s m) (ms_mod (prepare_one m s) m) (set (ms_out (prepare_one m s)))" for m s
    unfolding prepared_def
    by (rule exI [of _ "ms_world s"]) (auto simp: prepare_one_def Let_def split: prod.splits)
qed (auto simp: prepared_def Let_def split: if_splits)

lemma setup_all_set_up:
  assumes "distinct xs" "m \<in> set xs"
  shows "set_up (ms_mod s m) (ms_mod (fold setup_one xs s) m) (set (ms_out (fold setup_one xs s)))"
proof (rule fold_establishes [where P = set_up, OF step_frames(2) _ _ assms])
  show "set_up (ms_mod s m) (ms_mod (setup_one m s) m) (set (ms_out (setup_one m s)))" for m s
  proof (cases "mod_state (ms_mod s m) = COMING")
    case True
    obtain r w where c: "CALL_IF_NOT_NULL_RET_INT (mod_setup (ms_mod s m))
        (mod_descriptor (ms_mod s m)) (ms_world s) = (r, w)" by fastforce
    have "fst (CALL_IF_NOT_NULL_RET_INT (mod_setup (ms_mod s m))
        (mod_descriptor (ms_mod s m)) (ms_world s)) = r" using c by simp
    then show ?thesis using True c unfolding set_up_def
      by (intro if_P [THEN iffD2] conjI exI [of _ "ms_world s"]; simp add: setup_one_def Let_def)
  qed (simp add: set_up_def setup_one_def Let_def)
qed (auto simp: set_up_def Let_def split: if_splits)

lemma desetup_all_going:
  assumes "distinct xs" "m \<in> set xs"
  shows "mod_state (ms_mod (fold desetup_one xs s) m) = GOING"
proof (rule fold_establishes [where P = "\<lambda>_ b _. mod_state b = GOING", OF step_frames(3) _ _ assms])
  show "mod_state (ms_mod (desetup_one m s) m) = GOING" for m :: 'a and s :: "('a, 'w) mods"
    by (auto simp: desetup_one_def Let_def split: prod.splits)
qed


definition example_module :: "string \<Rightarrow> u32 \<Rightarrow> int \<Rightarrow> unit bsp_module" where
  "example_module n p r =
     \<lparr>mod_state = COMING, mod_name = n, mod_version = ''0.1'', mod_descriptor = 0,
      mod_setup = Some (\<lambda>_ w. (r, w)), mod_desetup = None, mod_prepare = Some (\<lambda>_ w. (p, w))\<rparr>"

definition example_mods :: "(nat, unit) mods" where
  "example_mods =
     \<lparr>ms_list = empty_lists,
      ms_mod = (\<lambda>m. if m = 0 then example_module ''TTY1'' 0x24000000 0
                    else example_module ''LCD'' (ERR_PTR (-12)) 0),
      ms_world = (), ms_out = []\<rparr>"

definition example_two :: "(nat, unit) mods" where
  "example_two = snd (bsp_module_append 1 (snd (bsp_module_append 0 example_mods)))"

lemma example_registered: "registered example_two [0, 1]"
proof -
  have "ms_list example_two = fold sys_slist_append [0, 1] empty_lists"
    by (simp add: example_two_def bsp_module_append_def example_mods_def example_module_def)
  moreover have "slist_rep (fold sys_slist_append [0, 1] empty_lists) ([] @ [0, 1 :: nat])"
    by (rule sl.add_many [OF empty_lists_rep]) simp_all
  ultimately show ?thesis by simp
qed


section \<open>Shutting down, removing, finding\<close>

lemma remove_registered:
  assumes "registered s xs" "mod_state (ms_mod s m) \<noteq> LIVE"
  shows "\<exists>l. bsp_module_remove m s = Some (0, s\<lparr>ms_list := l\<rparr>) \<and> slist_rep l (remove1 m xs)"
proof -
  obtain l where "sys_slist_find_and_remove m (ms_list s) = Some (m \<in> set xs, l)"
      "slist_rep l (remove1 m xs)"
    using sl.del_rep [OF assms(1), of m] by blast
  then show ?thesis using assms(2) by (intro exI [of _ l]) (simp add: bsp_module_remove_def)
qed

text \<open>
  C30.  After \<open>desetup_all\<close> every registered module is going, so each of them can be removed with
  the result 0, which takes exactly it off the list; a module that is live is never removed.
\<close>

theorem shut_down_modules:
  assumes "registered s xs"
  shows "\<exists>t. bsp_module_desetup_all s = Some t \<and> registered t xs \<and>
    (\<forall>m \<in> set xs. mod_state (ms_mod t m) = GOING \<and>
       (\<exists>l. bsp_module_remove m t = Some (0, t\<lparr>ms_list := l\<rparr>) \<and> slist_rep l (remove1 m xs))) \<and>
    (\<forall>m. mod_state (ms_mod s m) = LIVE \<longrightarrow> bsp_module_remove m s = Some (- EBUSY, s))"
proof -
  let ?t = "fold desetup_one xs s"
  have d: "distinct xs" by (rule slist_rep_distinct [OF assms])
  have fr: "frame_but (set xs) s ?t" by (rule fold_frame) (rule step_frames)
  then have t: "registered ?t xs" using assms by (simp add: frame_but_def)
  have g: "mod_state (ms_mod ?t m) = GOING" if "m \<in> set xs" for m
    by (rule desetup_all_going [OF d that])
  then have "\<exists>l. bsp_module_remove m ?t = Some (0, ?t\<lparr>ms_list := l\<rparr>) \<and> slist_rep l (remove1 m xs)"
    if "m \<in> set xs" for m
    using remove_registered [OF t, of m] that by simp
  then show ?thesis using all_loops(3) [OF assms] t g by (simp add: bsp_module_remove_def)
qed

lemma shut_down_modules_witness:
  "\<exists>t. bsp_module_desetup_all example_two = Some t \<and> registered t [0, 1] \<and>
       mod_state (ms_mod t 0) = GOING"
  using shut_down_modules [OF example_registered] by auto

lemma list_loop_find:
  "list_loop (\<lambda>m u. ((), if P m then Some m else None)) xs () = ((), find P xs)"
  by (induction xs) auto

lemma find_registered:
  "registered s xs \<Longrightarrow>
   bsp_module_find n s =
     Some (find (\<lambda>m. strncmp_eq BSP_MODULE_NAME_LEN (mod_name (ms_mod s m)) n) xs)"
  by (simp add: bsp_module_find_def FOR_EACH_rep list_loop_find)

section \<open>Registering\<close>

text \<open>
  \<open>bsp_module_append\<close> answers \<open>-EBUSY\<close> whatever happens, although its comment promises 0 on
  success.  A module that is not live and not on the list is added at the end and is then found
  by its name (unless an earlier module has the same name); a live module is not added.
\<close>

theorem append_reports_busy:
  assumes "registered s xs" "m \<notin> set xs" "bsp_module_append m s = (r, t)"
  shows "r = - EBUSY \<and>
    (if mod_state (ms_mod s m) = LIVE then t = s
     else registered t (xs @ [m]) \<and>
          (find (\<lambda>k. strncmp_eq BSP_MODULE_NAME_LEN (mod_name (ms_mod s k)) (mod_name (ms_mod s m))) xs = None
           \<longrightarrow> bsp_module_find (mod_name (ms_mod s m)) t = Some (Some m)))"
proof -
  have r: "registered t (xs @ [m])" if "mod_state (ms_mod s m) \<noteq> LIVE"
    using sl.add_rep [OF assms(1,2)] assms(3) that by (auto simp: bsp_module_append_def)
  have md: "ms_mod t = ms_mod s" using assms(3) by (auto simp: bsp_module_append_def split: if_splits)
  have f: "find P xs = None \<Longrightarrow> P m \<Longrightarrow> find P (xs @ [m]) = Some m" for P
    by (induction xs) (auto split: if_splits)
  show ?thesis using assms(3) r find_registered [of t "xs @ [m]"] md f
    by (auto simp: bsp_module_append_def strncmp_eq_def)
qed

lemma append_reports_busy_witness:
  "\<exists>t. bsp_module_append 2 example_two = (- EBUSY, t) \<and> registered t [0, 1, 2]"
  using append_reports_busy [OF example_registered, of 2]
  by (cases "bsp_module_append 2 example_two")
    (simp add: example_two_def bsp_module_append_def example_mods_def example_module_def)

text \<open>
  The answer \<open>-EBUSY\<close> invites a caller to try again.  Appending the module that is last on
  the list once more makes its \<open>next\<close> field point to itself: \<open>prepare_all\<close>, \<open>setup_all\<close> and
  \<open>desetup_all\<close> then never return when it is the only module, nor does the search for a name no
  module has.
\<close>

theorem append_again_hangs:
  assumes "registered s [m]" "mod_state (ms_mod s m) \<noteq> LIVE" "bsp_module_append m s = (r, t)"
  shows "bsp_module_prepare_all t = None \<and> bsp_module_setup_all t = None \<and>
    bsp_module_desetup_all t = None \<and>
    (\<not> strncmp_eq BSP_MODULE_NAME_LEN (mod_name (ms_mod s m)) n \<longrightarrow> bsp_module_find n t = None)"
proof -
  obtain nx l where s: "ms_list s = (nx, l)" by (cases "ms_list s")
  have t: "t = s\<lparr>ms_list := sys_slist_append m (nx, l)\<rparr>"
    using assms(2,3) s by (simp add: bsp_module_append_def)
  have l: "sl_head l = Some m" "sl_tail l = Some m" using assms(1) s by (auto simp: slist_rep_def)
  have nx: "fst (ms_list t) m = Some m" "sl_head (snd (ms_list t)) = Some m"
    using l t by (auto simp: sys_slist_append_def Let_def)
  have md: "ms_mod t = ms_mod s" by (simp add: t)
  note loop = for_each_self_loop [where nx = "fst (ms_list t)" and n = m, OF nx(1)]
  have "bsp_module_find n t = None" if "\<not> strncmp_eq BSP_MODULE_NAME_LEN (mod_name (ms_mod s m)) n"
    using that nx(2) md
    by (simp add: bsp_module_find_def BSP_MODULE_FOR_EACH_def loop)
  then show ?thesis
    by (simp add: bsp_module_prepare_all_def bsp_module_setup_all_def bsp_module_desetup_all_def
        BSP_MODULE_FOR_EACH_def nx(2) loop)
qed

lemma append_again_hangs_witness:
  "bsp_module_prepare_all (snd (bsp_module_append 0 (snd (bsp_module_append 0 example_mods)))) = None"
proof -
  let ?s = "snd (bsp_module_append 0 example_mods)"
  have "registered example_mods []" by (simp add: example_mods_def empty_lists_rep)
  then have "registered ?s [0]"
    using append_reports_busy [of example_mods "[]" 0]
    by (simp add: bsp_module_append_def example_mods_def example_module_def)
  moreover have "mod_state (ms_mod ?s 0) \<noteq> LIVE"
    by (simp add: bsp_module_append_def example_mods_def example_module_def)
  ultimately show ?thesis
    using append_again_hangs [of ?s 0 "fst (bsp_module_append 0 ?s)" "snd (bsp_module_append 0 ?s)"] by simp
qed

section \<open>Life cycle\<close>

text \<open>
  The calls a program makes, in any order, provided it appends a module only while it is not on
  the list; \<open>world\<close> is anything else that happens meanwhile.
\<close>

inductive mod_step :: "('a, 'w) mods \<Rightarrow> ('a, 'w) mods \<Rightarrow> bool" where
  append: "registered s xs \<Longrightarrow> m \<notin> set xs \<Longrightarrow> mod_step s (snd (bsp_module_append m s))"
| remove: "bsp_module_remove m s = Some (r, t) \<Longrightarrow> mod_step s t"
| prepare_all: "bsp_module_prepare_all s = Some t \<Longrightarrow> mod_step s t"
| setup_all: "bsp_module_setup_all s = Some t \<Longrightarrow> mod_step s t"
| desetup_all: "bsp_module_desetup_all s = Some t \<Longrightarrow> mod_step s t"
| world: "mod_step s (s\<lparr>ms_world := w\<rparr>)"

inductive mod_run :: "('a, 'w) mods \<Rightarrow> ('a, 'w) mods \<Rightarrow> bool" for s0 where
  start: "mod_run s0 s0"
| step: "mod_run s0 s \<Longrightarrow> mod_step s t \<Longrightarrow> mod_run s0 t"

definition live_listed :: "('a, 'w) mods \<Rightarrow> bool" where
  "live_listed s \<longleftrightarrow> (\<exists>xs. registered s xs \<and> (\<forall>m. mod_state (ms_mod s m) = LIVE \<longrightarrow> m \<in> set xs))"

lemma live_listed_frame:
  assumes "registered s xs" "\<forall>m. mod_state (ms_mod s m) = LIVE \<longrightarrow> m \<in> set xs" "frame_but (set xs) s t"
  shows "live_listed t"
proof -
  have "registered t xs" using assms(1,3) by (simp add: frame_but_def)
  moreover have "m \<in> set xs" if "mod_state (ms_mod t m) = LIVE" for m
    using that assms(2,3) by (cases "m \<in> set xs") (auto simp: frame_but_def)
  ultimately show ?thesis by (auto simp: live_listed_def)
qed

lemma mod_step_live_listed:
  assumes "mod_step s t" "live_listed s"
  shows "live_listed t"
proof -
  obtain xs where r: "registered s xs" and l: "\<forall>m. mod_state (ms_mod s m) = LIVE \<longrightarrow> m \<in> set xs"
    using assms(2) by (auto simp: live_listed_def)
  have loop: "live_listed (fold f xs s)" if "\<And>m s. frame_but {m} s (f m s)" for f
    using live_listed_frame [OF r l fold_frame, of f] that by blast
  from assms(1) show ?thesis
  proof (cases rule: mod_step.cases)
    case (append ys m)
    then show ?thesis
      using r l slist_rep_unique [OF r, of ys] append_rep [OF r, of m]
      by (cases "mod_state (ms_mod s m) = LIVE") (auto simp: live_listed_def bsp_module_append_def)
  next
    case (remove m q)
    show ?thesis
    proof (cases "mod_state (ms_mod s m) = LIVE")
      case True
      then show ?thesis using remove assms(2) by (simp add: bsp_module_remove_def)
    next
      case False
      then obtain k where k: "t = s\<lparr>ms_list := k\<rparr>" "slist_rep k (remove1 m xs)"
        using remove_registered [OF r, of m] remove by auto
      have "n \<in> set (remove1 m xs)" if "mod_state (ms_mod s n) = LIVE" for n
        using that False l slist_rep_distinct [OF r] by auto
      then show ?thesis using k by (auto simp: live_listed_def)
    qed
  next
    case prepare_all
    then show ?thesis using loop [of prepare_one] step_frames(1) all_loops(1) [OF r] by auto
  next
    case setup_all
    then show ?thesis using loop [of setup_one] step_frames(2) all_loops(2) [OF r] by auto
  next
    case desetup_all
    then show ?thesis using loop [of desetup_one] step_frames(3) all_loops(3) [OF r] by auto
  next
    case (world w)
    then show ?thesis using r l by (auto simp: live_listed_def)
  qed
qed

text \<open>
  However a program registers, removes, prepares, sets up and shuts down modules, as long as
  it never appends one that is already on the list: every live module is on the list, and every
  operation returns.
\<close>

theorem mod_run_live_listed:
  assumes "mod_run s0 s" "registered s0 []" "\<And>m. mod_state (ms_mod s0 m) \<noteq> LIVE"
  shows "\<exists>xs. registered s xs \<and> (\<forall>m. mod_state (ms_mod s m) = LIVE \<longrightarrow> m \<in> set xs) \<and>
    (\<exists>t. bsp_module_prepare_all s = Some t) \<and> (\<exists>t. bsp_module_setup_all s = Some t) \<and>
    (\<exists>t. bsp_module_desetup_all s = Some t) \<and> (\<forall>m. \<exists>r t. bsp_module_remove m s = Some (r, t)) \<and>
    (\<forall>n. \<exists>r. bsp_module_find n s = Some r)"
proof -
  have "live_listed s" using assms(1)
  proof (induction rule: mod_run.induct)
    case start
    then show ?case using assms(2,3) by (auto simp: live_listed_def)
  next
    case (step s t)
    then show ?case by (blast intro: mod_step_live_listed)
  qed
  then obtain xs where r: "registered s xs" "\<forall>m. mod_state (ms_mod s m) = LIVE \<longrightarrow> m \<in> set xs"
    by (auto simp: live_listed_def)
  have "\<exists>q t. bsp_module_remove m s = Some (q, t)" for m
    using remove_registered [OF r(1), of m]
    by (cases "mod_state (ms_mod s m) = LIVE") (auto simp: bsp_module_remove_def)
  then show ?thesis using r all_loops [OF r(1)] find_registered [OF r(1)] by auto
qed

lemma mod_run_live_listed_witness:
  "\<exists>xs. registered example_two xs \<and> (\<exists>t. bsp_module_prepare_all example_two = Some t)"
proof -
  have r0: "registered example_mods []" by (simp add: example_mods_def empty_lists_rep)
  have s1: "mod_step example_mods (snd (bsp_module_append 0 example_mods))"
    by (rule mod_step.append [OF r0]) simp
  have "mod_state (ms_mod example_mods 0) \<noteq> LIVE" by (simp add: example_mods_def example_module_def)
  then have "registered (snd (bsp_module_append 0 example_mods)) [0]"
    using append_rep [OF r0, of 0] by (simp add: bsp_module_append_def)
  then have "mod_step (snd (bsp_module_append 0 example_mods)) example_two"
    unfolding example_two_def by (rule mod_step.append) simp
  then have "mod_run example_mods example_two" by (rule mod_run.step [OF mod_run.step [OF mod_run.start s1]])
  moreover have "mod_state (ms_mod example_mods m) \<noteq> LIVE" for m
    by (simp add: example_mods_def example_module_def)
  ultimately show ?thesis using mod_run_live_listed [OF _ r0] by blast
qed

end
