(* ===== verification/Bsp_tty.thy ===== *)
theory Bsp_tty
  imports Bsp_utils
begin

text \<open>
  The terminal driver of bsp/bsp_tty.c: its descriptor, the tables of UARTs, DMA streams, requests
  and interrupts, the initialisation of pins, DMA and UART as the events it causes, and the
  transmit ring between the linker symbols \<open>_stty_int_dtcm\<close> and \<open>_etty_int_dtcm\<close>.  Pointers are
  32-bit addresses; the ring pointers wrap as the code makes them wrap.
\<close>

section \<open>Constants\<close>

definition RCC_PERIPHCLK_USART16 :: u64 where
  [hal_consts]: "RCC_PERIPHCLK_USART16 = 0x1"

definition RCC_PERIPHCLK_USART234578 :: u64 where
  [hal_consts]: "RCC_PERIPHCLK_USART234578 = 0x2"

definition RCC_USART16CLKSOURCE_D2PCLK2 :: u32 where
  [hal_consts]: "RCC_USART16CLKSOURCE_D2PCLK2 = 0x0"

definition RCC_USART234578CLKSOURCE_D2PCLK1 :: u32 where
  [hal_consts]: "RCC_USART234578CLKSOURCE_D2PCLK1 = 0x0"

definition UART_WORDLENGTH_8B :: u32 where
  [hal_consts]: "UART_WORDLENGTH_8B = 0x0"

definition UART_STOPBITS_1 :: u32 where
  [hal_consts]: "UART_STOPBITS_1 = 0x0"

definition UART_PARITY_NONE :: u32 where
  [hal_consts]: "UART_PARITY_NONE = 0x0"

definition UART_MODE_TX_RX :: u32 where
  [hal_consts]: "UART_MODE_TX_RX = 0xc"

definition UART_HWCONTROL_NONE :: u32 where
  [hal_consts]: "UART_HWCONTROL_NONE = 0x0"

definition UART_OVERSAMPLING_16 :: u32 where
  [hal_consts]: "UART_OVERSAMPLING_16 = 0x0"

definition UART_ONE_BIT_SAMPLE_DISABLE :: u32 where
  [hal_consts]: "UART_ONE_BIT_SAMPLE_DISABLE = 0x0"

definition UART_PRESCALER_DIV1 :: u32 where
  [hal_consts]: "UART_PRESCALER_DIV1 = 0x0"

definition UART_ADVFEATURE_NO_INIT :: u32 where
  [hal_consts]: "UART_ADVFEATURE_NO_INIT = 0x0"

definition DMA_MEMORY_TO_PERIPH :: u32 where
  [hal_consts]: "DMA_MEMORY_TO_PERIPH = 0x40"

definition DMA_PERIPH_TO_MEMORY :: u32 where
  [hal_consts]: "DMA_PERIPH_TO_MEMORY = 0x0"

definition DMA_PINC_DISABLE :: u32 where
  [hal_consts]: "DMA_PINC_DISABLE = 0x0"

definition DMA_MINC_ENABLE :: u32 where
  [hal_consts]: "DMA_MINC_ENABLE = 0x400"

definition DMA_PDATAALIGN_BYTE :: u32 where
  [hal_consts]: "DMA_PDATAALIGN_BYTE = 0x0"

definition DMA_MDATAALIGN_BYTE :: u32 where
  [hal_consts]: "DMA_MDATAALIGN_BYTE = 0x0"

definition DMA_NORMAL :: u32 where
  [hal_consts]: "DMA_NORMAL = 0x0"

definition DMA_PRIORITY_LOW :: u32 where
  [hal_consts]: "DMA_PRIORITY_LOW = 0x0"

definition DMA_FIFOMODE_DISABLE :: u32 where
  [hal_consts]: "DMA_FIFOMODE_DISABLE = 0x0"

definition DMA_IT_TC :: u32 where
  [hal_consts]: "DMA_IT_TC = 0x10"

definition DMA_IT_TE :: u32 where
  [hal_consts]: "DMA_IT_TE = 0x4"

definition DMA_IT_DME :: u32 where
  [hal_consts]: "DMA_IT_DME = 0x2"

definition DMA_IT_HT :: u32 where
  [hal_consts]: "DMA_IT_HT = 0x8"

definition DMA_SxCR_EN :: u32 where
  [hal_consts]: "DMA_SxCR_EN = 0x1"


section \<open>State\<close>

text \<open>The operations of a descriptor: the driver's own, or a function at some address.\<close>

datatype tty_op = Tty_default | Tty_other u32

record dma_handle =
  dh_instance :: u32
  dh_init :: dma_init
  dh_start_tx :: bool
  dh_linked :: bool

record uart_handle =
  uh_instance :: u32
  uh_init :: uart_init

record bsp_tty_des =
  td_uart :: u32
  td_baud :: u32
  td_port_tx :: u32
  td_pin_tx :: u16
  td_port_rx :: u32
  td_pin_rx :: u16
  td_dma_tx :: u32
  td_dma_rx :: u32
  td_write :: "tty_op option"
  td_read :: "tty_op option"
  td_huart :: uart_handle
  td_hdma_tx :: dma_handle
  td_hdma_rx :: dma_handle
  td_rd_ptr :: u32
  td_wr_ptr :: u32

definition zero_dma_init :: dma_init where
  "zero_dma_init = \<lparr>dma_request = 0, dma_direction = 0, dma_periph_inc = 0, dma_mem_inc = 0,
     dma_periph_align = 0, dma_mem_align = 0, dma_mode = 0, dma_priority = 0, dma_fifo_mode = 0,
     dma_fifo_threshold = 0, dma_mem_burst = 0, dma_periph_burst = 0\<rparr>"

definition zero_uart_init :: uart_init where
  "zero_uart_init = \<lparr>uart_baud_rate = 0, uart_word_length = 0, uart_stop_bits = 0, uart_parity = 0,
     uart_mode = 0, uart_hw_flow_ctl = 0, uart_over_sampling = 0, uart_one_bit_sampling = 0,
     uart_clock_prescaler = 0, uart_adv_feature_init = 0\<rparr>"

definition zero_dma_handle :: dma_handle where
  "zero_dma_handle = \<lparr>dh_instance = 0, dh_init = zero_dma_init, dh_start_tx = False, dh_linked = False\<rparr>"

text \<open>What \<open>calloc\<close> returns.\<close>

definition zero_tty_des :: bsp_tty_des where
  "zero_tty_des = \<lparr>td_uart = 0, td_baud = 0, td_port_tx = 0, td_pin_tx = 0, td_port_rx = 0,
     td_pin_rx = 0, td_dma_tx = 0, td_dma_rx = 0, td_write = None, td_read = None,
     td_huart = \<lparr>uh_instance = 0, uh_init = zero_uart_init\<rparr>, td_hdma_tx = zero_dma_handle,
     td_hdma_rx = zero_dma_handle, td_rd_ptr = 0, td_wr_ptr = 0\<rparr>"

section \<open>Tables\<close>

definition uart_tb :: "u32 list" where
  "uart_tb = [USART1_BASE, USART2_BASE, USART3_BASE, UART4_BASE, UART5_BASE, USART6_BASE,
     UART7_BASE, UART8_BASE]"

definition dma_tb :: "u32 list list" where
  "dma_tb =
     [[DMA1_Stream0_BASE, DMA1_Stream1_BASE, DMA1_Stream2_BASE, DMA1_Stream3_BASE,
       DMA1_Stream4_BASE, DMA1_Stream5_BASE, DMA1_Stream6_BASE, DMA1_Stream7_BASE],
      [DMA2_Stream0_BASE, DMA2_Stream1_BASE, DMA2_Stream2_BASE, DMA2_Stream3_BASE,
       DMA2_Stream4_BASE, DMA2_Stream5_BASE, DMA2_Stream6_BASE, DMA2_Stream7_BASE]]"

definition dma_req_tb :: "u32 list list" where
  "dma_req_tb =
     [[DMA_REQUEST_USART1_TX, DMA_REQUEST_USART1_RX], [DMA_REQUEST_USART2_TX, DMA_REQUEST_USART2_RX],
      [DMA_REQUEST_USART3_TX, DMA_REQUEST_USART3_RX], [DMA_REQUEST_UART4_TX, DMA_REQUEST_UART4_RX],
      [DMA_REQUEST_UART5_TX, DMA_REQUEST_UART5_RX], [DMA_REQUEST_USART6_TX, DMA_REQUEST_USART6_RX],
      [DMA_REQUEST_UART7_TX, DMA_REQUEST_UART7_RX], [DMA_REQUEST_UART8_TX, DMA_REQUEST_UART8_RX]]"

definition dma_irq_tb :: "int list list" where
  "dma_irq_tb =
     [[DMA1_Stream0_IRQn, DMA1_Stream1_IRQn, DMA1_Stream2_IRQn, DMA1_Stream3_IRQn,
       DMA1_Stream4_IRQn, DMA1_Stream5_IRQn, DMA1_Stream6_IRQn, DMA1_Stream7_IRQn],
      [DMA2_Stream0_IRQn, DMA2_Stream1_IRQn, DMA2_Stream2_IRQn, DMA2_Stream3_IRQn,
       DMA2_Stream4_IRQn, DMA2_Stream5_IRQn, DMA2_Stream6_IRQn, DMA2_Stream7_IRQn]]"

section \<open>Look-ups\<close>

text \<open>The position of the first element equal to \<open>x\<close>, or the length of the list.\<close>

fun scan_for :: "'a \<Rightarrow> 'a list \<Rightarrow> nat" where
  "scan_for x [] = 0"
| "scan_for x (y # ys) = (if y = x then 0 else Suc (scan_for x ys))"

definition get_uart_idx :: "bsp_tty_des \<Rightarrow> int" where
  "get_uart_idx des =
     (let i = scan_for (td_uart des) uart_tb
      in if i = length uart_tb then - ENODEV else int i)"

definition get_uart_af :: "bsp_tty_des \<Rightarrow> bool \<Rightarrow> u8" where
  "get_uart_af des tx =
     (if td_uart des = USART1_BASE then
        (if tx \<and> td_port_tx des = GPIOB_BASE \<and> td_pin_tx des = GPIO_PIN_14 then GPIO_AF4_USART1
         else if \<not> tx \<and> td_port_rx des = GPIOB_BASE \<and> td_pin_rx des = GPIO_PIN_15 then GPIO_AF4_USART1
         else GPIO_AF7_USART1)
      else if td_uart des = USART2_BASE then GPIO_AF7_USART2
      else if td_uart des = USART3_BASE then GPIO_AF7_USART3
      else if td_uart des = UART4_BASE then
        (if tx \<and> td_port_tx des = GPIOA_BASE \<and> td_pin_tx des = GPIO_PIN_12 then GPIO_AF6_UART4
         else if \<not> tx \<and> td_port_rx des = GPIOA_BASE \<and> td_pin_rx des = GPIO_PIN_11 then GPIO_AF6_UART4
         else GPIO_AF8_UART4)
      else if td_uart des = UART5_BASE then
        (if tx \<and> td_port_tx des = GPIOC_BASE \<and> td_pin_tx des = GPIO_PIN_12 then GPIO_AF8_UART5
         else if \<not> tx \<and> td_port_rx des = GPIOD_BASE \<and> td_pin_rx des = GPIO_PIN_2 then GPIO_AF8_UART5
         else GPIO_AF14_UART5)
      else if td_uart des = USART6_BASE then GPIO_AF7_USART6
      else if td_uart des = UART7_BASE then
        (if tx \<and> td_port_tx des = GPIOE_BASE \<and> td_pin_tx des = GPIO_PIN_8 then GPIO_AF7_UART7
         else if \<not> tx \<and> td_port_rx des = GPIOE_BASE \<and> td_pin_rx des = GPIO_PIN_7 then GPIO_AF7_UART7
         else if tx \<and> td_port_tx des = GPIOF_BASE \<and> td_pin_tx des = GPIO_PIN_7 then GPIO_AF7_UART7
         else if \<not> tx \<and> td_port_rx des = GPIOF_BASE \<and> td_pin_rx des = GPIO_PIN_6 then GPIO_AF7_UART7
         else GPIO_AF11_UART7)
      else GPIO_AF8_UART8)"

text \<open>
  The result and what is stored through \<open>request\<close>.  The table is indexed by \<open>tx_rx\<close>, which is 1
  for transmission.
\<close>

definition get_dma_request :: "bsp_tty_des \<Rightarrow> nat \<Rightarrow> int \<times> u32 option" where
  "get_dma_request des tx_rx =
     (let uart_idx = get_uart_idx des
      in if uart_idx \<noteq> 0 then (- ENODEV, None)
         else (0, Some (dma_req_tb ! nat uart_idx ! tx_rx)))"

text \<open>The nested search through the stream table; \<open>None\<close> when both loops run to their end.\<close>

fun find_stream :: "u32 \<Rightarrow> u32 list list \<Rightarrow> int list list \<Rightarrow> int option" where
  "find_stream dma (row # rows) (irqs # irqss) =
     (let j = scan_for dma row in if j < length row then Some (irqs ! j) else find_stream dma rows irqss)"
| "find_stream dma _ _ = None"

record irq_cache =
  irq_rx :: int
  irq_tx :: int

definition initial_cache :: irq_cache where
  "initial_cache = \<lparr>irq_rx = NonMaskableInt_IRQn, irq_tx = NonMaskableInt_IRQn\<rparr>"

definition get_dma_irq :: "bsp_tty_des \<Rightarrow> bool \<Rightarrow> bool \<Rightarrow> irq_cache \<Rightarrow> int \<times> int \<times> irq_cache" where
  "get_dma_irq des tx clear_cache c =
     (let dma = (if tx then td_dma_tx des else td_dma_rx des);
          cached = (if tx then irq_tx c else irq_rx c);
          put = (\<lambda>v. if tx then c\<lparr>irq_tx := v\<rparr> else c\<lparr>irq_rx := v\<rparr>)
      in if \<not> clear_cache \<and> cached \<noteq> NonMaskableInt_IRQn then (0, cached, c)
         else (case find_stream dma dma_tb dma_irq_tb of
                 None \<Rightarrow> (- ENODEV, NonMaskableInt_IRQn, put NonMaskableInt_IRQn)
               | Some irq \<Rightarrow> (0, irq, put irq)))"

section \<open>Descriptor defaults\<close>

text \<open>
  The argument and the descriptors in memory; \<open>stty\<close> is the address of the ring, the second
  argument the answer of \<open>calloc\<close>.
\<close>

definition tty_defaults :: "u32 \<Rightarrow> bsp_tty_des \<Rightarrow> bsp_tty_des" where
  "tty_defaults stty d =
     d\<lparr>td_uart := SET_VAL_IF_ZERO (td_uart d) USART1_BASE,
       td_baud := SET_VAL_IF_ZERO (td_baud d) 115200,
       td_pin_tx := SET_VAL_IF_ZERO (td_pin_tx d) GPIO_PIN_6,
       td_port_tx := SET_VAL_IF_ZERO (td_port_tx d) GPIOB_BASE,
       td_pin_rx := SET_VAL_IF_ZERO (td_pin_rx d) GPIO_PIN_7,
       td_port_rx := SET_VAL_IF_ZERO (td_port_rx d) GPIOB_BASE,
       td_dma_tx := SET_VAL_IF_ZERO (td_dma_tx d) DMA1_Stream0_BASE,
       td_dma_rx := SET_VAL_IF_ZERO (td_dma_rx d) DMA1_Stream1_BASE,
       td_write := (if td_write d = None then Some Tty_default else td_write d),
       td_read := (if td_read d = None then Some Tty_default else td_read d),
       td_rd_ptr := SET_VAL_IF_ZERO (td_rd_ptr d) stty,
       td_wr_ptr := SET_VAL_IF_ZERO (td_wr_ptr d) stty\<rparr>"

definition tty_set_default_des ::
  "u32 \<Rightarrow> u32 \<Rightarrow> u32 \<Rightarrow> (u32 \<Rightarrow> bsp_tty_des) \<Rightarrow> u32 \<times> (u32 \<Rightarrow> bsp_tty_des)" where
  "tty_set_default_des stty answer des heap =
     (if des = 0 then
        (if IS_ERR_OR_NULL answer then (ERR_PTR (- ENOMEM), heap)
         else (answer, heap(answer := tty_defaults stty zero_tty_des)))
      else (des, heap(des := tty_defaults stty (heap des))))"

section \<open>Initialisation\<close>

record tty_state =
  ty_des :: bsp_tty_des
  ty_cache :: irq_cache
  ty_log :: log

definition tty_pins :: "bsp_tty_des \<Rightarrow> log" where
  "tty_pins d =
     (let g1 = zero_gpio\<lparr>gpio_pin := ucast (td_pin_tx d), gpio_mode := GPIO_MODE_AF_PP,
                 gpio_pull := GPIO_NOPULL, gpio_speed := GPIO_SPEED_FREQ_LOW,
                 gpio_alternate := ucast (get_uart_af d True)\<rparr>;
          g2 = g1\<lparr>gpio_pin := ucast (td_pin_rx d), gpio_alternate := ucast (get_uart_af d False)\<rparr>
      in [Gpio (Gpio_init (td_port_tx d) g1), Gpio (Gpio_init (td_port_rx d) g2)])"

definition init_gpio :: "tty_state \<Rightarrow> (int \<times> tty_state) option" where
  "init_gpio s = do {
     let d = ty_des s;
     (r1, pd1, l1) \<leftarrow> bsp_utils_periph_clk (zero_periph\<lparr>pd_lo := td_port_tx d\<rparr>) ENABLE (ty_log s);
     if r1 \<noteq> 0 then Some (- ENODEV, s\<lparr>ty_log := l1\<rparr>)
     else do {
       (r2, pd2, l2) \<leftarrow> bsp_utils_periph_clk (pd1\<lparr>pd_lo := td_port_rx d\<rparr>) ENABLE l1;
       if r2 \<noteq> 0 then Some (- ENODEV, s\<lparr>ty_log := l2\<rparr>)
       else Some (0, s\<lparr>ty_log := l2 @ tty_pins d\<rparr>)
     }
   }"

text \<open>The fields set for a stream; those of \<open>FIFOThreshold\<close> and the bursts keep their value.\<close>

definition stream_init :: "u32 \<Rightarrow> u32 \<Rightarrow> dma_init \<Rightarrow> dma_init" where
  "stream_init request direction i =
     i\<lparr>dma_request := request, dma_direction := direction, dma_periph_inc := DMA_PINC_DISABLE,
       dma_mem_inc := DMA_MINC_ENABLE, dma_periph_align := DMA_PDATAALIGN_BYTE,
       dma_mem_align := DMA_MDATAALIGN_BYTE, dma_mode := DMA_NORMAL, dma_priority := DMA_PRIORITY_LOW,
       dma_fifo_mode := DMA_FIFOMODE_DISABLE\<rparr>"

definition enable_irq :: "int \<Rightarrow> log" where
  "enable_irq irq = [Core (Nvic_priority irq 0 0), Core (Nvic_enable irq)]"

definition irq_step ::
  "bool \<Rightarrow> tty_state \<Rightarrow> int \<times> tty_state" where
  "irq_step tx s =
     (let (r, irq, c) = get_dma_irq (ty_des s) tx True (ty_cache s)
      in if r \<noteq> 0 then (r, s\<lparr>ty_cache := c\<rparr>)
         else (0, s\<lparr>ty_cache := c, ty_log := ty_log s @ enable_irq irq\<rparr>))"

definition init_tx_stream :: "hal_env \<Rightarrow> tty_state \<Rightarrow> int \<times> tty_state" where
  "init_tx_stream env s =
     (let d = ty_des s;
          h = (td_hdma_tx d)\<lparr>dh_instance := td_dma_tx d\<rparr>;
          (r, req) = get_dma_request d 1
      in case req of
           None \<Rightarrow> (r, s\<lparr>ty_des := d\<lparr>td_hdma_tx := h\<rparr>\<rparr>)
         | Some q \<Rightarrow>
             (let i = stream_init q DMA_MEMORY_TO_PERIPH (dh_init h);
                  h' = h\<lparr>dh_init := i, dh_start_tx := True\<rparr>;
                  e = Hal (Dma_init (dh_instance h) i);
                  s' = s\<lparr>ty_des := d\<lparr>td_hdma_tx := h'\<rparr>, ty_log := ty_log s @ [e]\<rparr>
              in if hal_answer env (ty_log s) e \<noteq> HAL_OK then (- EAGAIN, s')
                 else (0, s'\<lparr>ty_des := d\<lparr>td_hdma_tx := h'\<lparr>dh_linked := True\<rparr>\<rparr>\<rparr>)))"

definition init_rx_stream :: "hal_env \<Rightarrow> tty_state \<Rightarrow> int \<times> tty_state" where
  "init_rx_stream env s =
     (let d = ty_des s;
          h = (td_hdma_rx d)\<lparr>dh_instance := td_dma_rx d\<rparr>;
          (r, req) = get_dma_request d 0
      in case req of
           None \<Rightarrow> (r, s\<lparr>ty_des := d\<lparr>td_hdma_rx := h\<rparr>\<rparr>)
         | Some q \<Rightarrow>
             (let i = stream_init q DMA_PERIPH_TO_MEMORY (dh_init h);
                  h' = h\<lparr>dh_init := i\<rparr>;
                  e = Hal (Dma_init (dh_instance h) i);
                  s' = s\<lparr>ty_des := d\<lparr>td_hdma_rx := h'\<rparr>, ty_log := ty_log s @ [e]\<rparr>
              in if hal_answer env (ty_log s) e \<noteq> HAL_OK then (- EAGAIN, s')
                 else (0, s'\<lparr>ty_des := d\<lparr>td_hdma_rx := h'\<lparr>dh_linked := True\<rparr>\<rparr>\<rparr>)))"

text \<open>Offsets of the stream registers and of the transmit data register of a UART.\<close>

definition dma_CR :: "u32 \<Rightarrow> u32" where "dma_CR s = s"
definition dma_NDTR :: "u32 \<Rightarrow> u32" where "dma_NDTR s = s + 4"
definition dma_PAR :: "u32 \<Rightarrow> u32" where "dma_PAR s = s + 8"
definition dma_M0AR :: "u32 \<Rightarrow> u32" where "dma_M0AR s = s + 12"
definition usart_TDR :: "u32 \<Rightarrow> u32" where "usart_TDR u = u + 0x28"

definition init_dma :: "hal_env \<Rightarrow> tty_state \<Rightarrow> (int \<times> tty_state) option" where
  "init_dma env s = do {
     (r1, pd1, l1) \<leftarrow> bsp_utils_periph_clk (zero_periph\<lparr>pd_lo := td_dma_tx (ty_des s)\<rparr>) ENABLE (ty_log s);
     if r1 \<noteq> 0 then Some (- ENODEV, s\<lparr>ty_log := l1\<rparr>)
     else do {
       (r2, pd2, l2) \<leftarrow> bsp_utils_periph_clk (pd1\<lparr>pd_lo := td_dma_rx (ty_des s)\<rparr>) ENABLE l1;
       if r2 \<noteq> 0 then Some (r2, s\<lparr>ty_log := l2\<rparr>)
       else
         check (irq_step True (s\<lparr>ty_log := l2\<rparr>)) (\<lambda>s3.
         check (irq_step False s3) (\<lambda>s4.
         check (init_tx_stream env s4) (\<lambda>s5.
         check (init_rx_stream env s5) (\<lambda>s6.
           let inst = dh_instance (td_hdma_tx (ty_des s6));
               l7 = MODIFY_REG env (dma_CR inst) (DMA_IT_TC OR DMA_IT_TE OR DMA_IT_DME OR DMA_IT_HT)
                      DMA_IT_TC (ty_log s6);
               tdr = usart_TDR (uh_instance (td_huart (ty_des s6)))
           in Some (0, s6\<lparr>ty_log := l7 @ [Reg_write (dma_PAR inst) tdr]\<rparr>)))))
     }
   }"

definition uart_config :: "bsp_tty_des \<Rightarrow> uart_init" where
  "uart_config d =
     (uh_init (td_huart d))\<lparr>uart_baud_rate := td_baud d, uart_word_length := UART_WORDLENGTH_8B,
        uart_stop_bits := UART_STOPBITS_1, uart_parity := UART_PARITY_NONE, uart_mode := UART_MODE_TX_RX,
        uart_hw_flow_ctl := UART_HWCONTROL_NONE, uart_over_sampling := UART_OVERSAMPLING_16,
        uart_one_bit_sampling := UART_ONE_BIT_SAMPLE_DISABLE, uart_clock_prescaler := UART_PRESCALER_DIV1,
        uart_adv_feature_init := UART_ADVFEATURE_NO_INIT\<rparr>"

definition uart_clock :: "bsp_tty_des \<Rightarrow> periph_clk_init" where
  "uart_clock d =
     (if td_uart d = USART1_BASE \<or> td_uart d = USART6_BASE
      then zero_periph_clk\<lparr>pc_selection := RCC_PERIPHCLK_USART16, pc_usart16 := RCC_USART16CLKSOURCE_D2PCLK2\<rparr>
      else zero_periph_clk\<lparr>pc_selection := RCC_PERIPHCLK_USART234578, pc_usart16 := RCC_USART234578CLKSOURCE_D2PCLK1\<rparr>)"

definition init_uart :: "hal_env \<Rightarrow> tty_state \<Rightarrow> (int \<times> tty_state) option" where
  "init_uart env s = do {
     let d = ty_des s;
     let e1 = Rcc (Periph_clk_config (uart_clock d));
     let l1 = ty_log s @ [e1];
     if hal_answer env (ty_log s) e1 \<noteq> HAL_OK then Some (- EAGAIN, s\<lparr>ty_log := l1\<rparr>)
     else do {
       (r, pd, l2) \<leftarrow> bsp_utils_periph_clk (zero_periph\<lparr>pd_lo := td_uart d\<rparr>) ENABLE l1;
       if r \<noteq> 0 then Some (- ENODEV, s\<lparr>ty_log := l2\<rparr>)
       else do {
         let d' = d\<lparr>td_huart := \<lparr>uh_instance = td_uart d, uh_init = uart_config d\<rparr>\<rparr>;
         let e2 = Hal (Uart_init (td_uart d) (uart_config d));
         let l3 = l2 @ [e2];
         if hal_answer env l2 e2 \<noteq> HAL_OK then Some (- EAGAIN, s\<lparr>ty_des := d', ty_log := l3\<rparr>)
         else do {
           let e3 = Hal (Uart_disable_fifo (td_uart d));
           Some (if hal_answer env l3 e3 \<noteq> HAL_OK then - EAGAIN else 0,
                 s\<lparr>ty_des := d', ty_log := l3 @ [e3]\<rparr>)
         }
       }
     }
   }"

definition bsp_tty_init :: "hal_env \<Rightarrow> tty_state \<Rightarrow> (int \<times> tty_state) option" where
  "bsp_tty_init env s = do {
     r1 \<leftarrow> init_gpio s;
     check r1 (\<lambda>s1. do {
       r2 \<leftarrow> init_dma env s1;
       check r2 (\<lambda>s2. do {
         r3 \<leftarrow> init_uart env s2;
         check r3 (\<lambda>s3. Some (0, s3))
       })
     })
   }"

section \<open>Transmission\<close>

text \<open>The ring in memory: the bytes and the two linker symbols.\<close>

record tty_ring =
  rg_mem :: "u32 \<Rightarrow> u8"
  rg_stty :: u32
  rg_etty :: u32

text \<open>
  The loop of \<open>write\<close>: \<open>count\<close> bytes are taken from the buffer; \<open>None\<close> is a read behind it.
\<close>

fun tty_put :: "tty_ring \<Rightarrow> nat \<Rightarrow> u8 list \<Rightarrow> u32 \<Rightarrow> (tty_ring \<times> u32) option" where
  "tty_put r 0 bs p = Some (r, p)"
| "tty_put r (Suc n) [] p = None"
| "tty_put r (Suc n) (b # bs) p =
     tty_put (r\<lparr>rg_mem := (rg_mem r)(p := b)\<rparr>) n bs (if p + 1 \<ge> rg_etty r then rg_stty r else p + 1)"

definition start_tx :: "hal_env \<Rightarrow> tty_ring \<Rightarrow> tty_state \<Rightarrow> tty_state option" where
  "start_tx env r s = do {
     let d = ty_des s;
     let dma = td_dma_tx d;
     if td_rd_ptr d = td_wr_ptr d then Some s
     else do {
       l2 \<leftarrow> wait_clear env (dma_CR dma) DMA_SxCR_EN (CLEAR_BIT env (dma_CR dma) DMA_SxCR_EN (ty_log s));
       let ndtr = reg_value env l2 (dma_NDTR dma);
       let rd = td_rd_ptr d - ndtr;
       let cnt = (if rd < td_wr_ptr d then td_wr_ptr d - rd else rg_etty r - rd);
       let rd' = (if rd + cnt \<ge> rg_etty r then rg_stty r else rd + cnt);
       let l3 = l2 @ [Reg_read (dma_NDTR dma), Reg_write (dma_NDTR dma) cnt, Reg_write (dma_M0AR dma) rd'];
       Some (s\<lparr>ty_des := d\<lparr>td_rd_ptr := rd'\<rparr>, ty_log := SET_BIT env (dma_CR dma) DMA_SxCR_EN l3\<rparr>)
     }
   }"

text \<open>\<open>size_t\<close> is 32 bits wide; \<open>count\<close> is \<open>-1\<close> after \<open>while (count--)\<close>.\<close>

definition tty_write ::
  "hal_env \<Rightarrow> u8 list \<Rightarrow> u32 \<Rightarrow> tty_ring \<Rightarrow> tty_state \<Rightarrow> (u32 \<times> tty_ring \<times> tty_state) option" where
  "tty_write env buf count r s =
     (let (res, irq, c) = get_dma_irq (ty_des s) True False (ty_cache s);
          s0 = s\<lparr>ty_cache := c\<rparr>
      in if res \<noteq> 0 then Some (0, r, s0)
         else do {
           (r', p) \<leftarrow> tty_put r (unat count) buf (td_wr_ptr (ty_des s));
           let s1 = s0\<lparr>ty_des := (ty_des s)\<lparr>td_wr_ptr := p\<rparr>,
                       ty_log := ty_log s @ [Core (Nvic_disable irq), Core (Nvic_enable irq)]\<rparr>;
           s2 \<leftarrow> start_tx env r' s1;
           Some (-1, r', s2)
         })"

definition tty_read :: "bsp_tty_des \<Rightarrow> u32 \<Rightarrow> u32" where
  "tty_read des count = 0"

section \<open>What a successful initialisation leaves\<close>

lemma periph_clk_log:
  "bsp_utils_periph_clk pd st l = Some (r, pd', l') \<Longrightarrow> \<exists>m. l' = l @ m"
  by (auto simp: bsp_utils_periph_clk_def Let_def bind_eq_Some_conv split: if_splits sum.splits option.splits)

lemma periph_clk_total: "\<exists>r pd' l'. bsp_utils_periph_clk pd st l = Some (r, pd', l')"
  using get_periph_total [of pd] by (auto simp: bsp_utils_periph_clk_def Let_def split: sum.splits option.splits)

lemma init_gpio_keeps:
  assumes "init_gpio s = Some (r, t)"
  shows "ty_des t = ty_des s \<and> ty_cache t = ty_cache s \<and> (\<exists>m. ty_log t = ty_log s @ m)"
  using assms
  by (auto simp: init_gpio_def Let_def bind_eq_Some_conv split: if_splits
      dest!: periph_clk_log)

lemma get_dma_request_cases:
  obtains (none) "td_uart d \<noteq> USART1_BASE" "get_dma_request d k = (- ENODEV, None)"
    | (usart1) "td_uart d = USART1_BASE" "get_dma_request d k = (0, Some (dma_req_tb ! 0 ! k))"
  by (cases "td_uart d = USART1_BASE")
    (auto simp: get_dma_request_def get_uart_idx_def uart_tb_def Let_def)

lemma irq_step_keeps:
  "irq_step b s = (r, t) \<Longrightarrow> ty_des t = ty_des s \<and> (\<exists>m. ty_log t = ty_log s @ m)"
  by (auto simp: irq_step_def Let_def split: prod.splits if_splits)

lemma init_tx_stream_ok:
  assumes "init_tx_stream env s = (0, t)"
  shows "td_uart (ty_des s) = USART1_BASE \<and>
    dh_instance (td_hdma_tx (ty_des t)) = td_dma_tx (ty_des s) \<and>
    dma_request (dh_init (td_hdma_tx (ty_des t))) = DMA_REQUEST_USART1_RX \<and>
    td_uart (ty_des t) = td_uart (ty_des s) \<and> td_huart (ty_des t) = td_huart (ty_des s) \<and>
    (\<exists>m. ty_log t = ty_log s @ m)"
  using assms
  by (cases rule: get_dma_request_cases [of "ty_des s" 1])
    (auto simp: init_tx_stream_def Let_def dma_req_tb_def stream_init_def split: if_splits)

lemma init_rx_stream_ok:
  assumes "init_rx_stream env s = (0, t)"
  shows "dma_request (dh_init (td_hdma_rx (ty_des t))) = DMA_REQUEST_USART1_TX \<and>
    td_hdma_tx (ty_des t) = td_hdma_tx (ty_des s) \<and> td_huart (ty_des t) = td_huart (ty_des s) \<and>
    (\<exists>m. ty_log t = ty_log s @ m)"
  using assms
  by (cases rule: get_dma_request_cases [of "ty_des s" 0])
    (auto simp: init_rx_stream_def Let_def dma_req_tb_def stream_init_def split: if_splits)

lemma init_dma_ok:
  assumes "init_dma env s = Some (0, t)"
  shows "td_uart (ty_des s) = USART1_BASE \<and>
    dma_request (dh_init (td_hdma_tx (ty_des t))) = DMA_REQUEST_USART1_RX \<and>
    dma_request (dh_init (td_hdma_rx (ty_des t))) = DMA_REQUEST_USART1_TX \<and>
    Reg_write (dma_PAR (td_dma_tx (ty_des s))) (usart_TDR (uh_instance (td_huart (ty_des s)))) \<in> set (ty_log t)"
proof -
  obtain r1 pd1 l1 where c1: "bsp_utils_periph_clk (zero_periph\<lparr>pd_lo := td_dma_tx (ty_des s)\<rparr>) ENABLE
      (ty_log s) = Some (r1, pd1, l1)" using periph_clk_total by blast
  obtain r2 pd2 l2 where c2: "bsp_utils_periph_clk (pd1\<lparr>pd_lo := td_dma_rx (ty_des s)\<rparr>) ENABLE l1 =
      Some (r2, pd2, l2)" using periph_clk_total by blast
  have z: "r1 = 0" "r2 = 0" using assms c1 c2 by (simp_all add: init_dma_def split: if_splits)
  define s3 where "s3 = snd (irq_step True (s\<lparr>ty_log := l2\<rparr>))"
  define s4 where "s4 = snd (irq_step False s3)"
  define s5 where "s5 = snd (init_tx_stream env s4)"
  define s6 where "s6 = snd (init_rx_stream env s5)"
  note defs = s3_def s4_def s5_def s6_def
  have st: "irq_step True (s\<lparr>ty_log := l2\<rparr>) = (0, s3)" "irq_step False s3 = (0, s4)"
      "init_tx_stream env s4 = (0, s5)" "init_rx_stream env s5 = (0, s6)"
      "ty_des t = ty_des s6"
      "Reg_write (dma_PAR (dh_instance (td_hdma_tx (ty_des s6)))) (usart_TDR (uh_instance (td_huart (ty_des s6))))
         \<in> set (ty_log t)"
    using assms c1 c2 z by (auto simp: init_dma_def Let_def prod_eq_iff defs)
  from irq_step_keeps [OF st(1)] irq_step_keeps [OF st(2)] init_tx_stream_ok [OF st(3)]
    init_rx_stream_ok [OF st(4)] st(5,6)
  show ?thesis by simp
qed

lemma init_uart_keeps:
  assumes "init_uart env s = Some (r, t)"
  shows "td_hdma_tx (ty_des t) = td_hdma_tx (ty_des s) \<and> td_hdma_rx (ty_des t) = td_hdma_rx (ty_des s) \<and>
    (\<exists>m. ty_log t = ty_log s @ m)"
  using assms unfolding init_uart_def Let_def
  by (auto simp only: bind_eq_Some_conv prod.case split: if_splits)
    (auto dest!: periph_clk_log)

text \<open>
  C31.  Whenever the terminal initialises successfully, its UART is USART1 (every other one is
  refused), the stream that transmits is programmed with the receive request of USART1 and the
  one that receives with the transmit request, and the destination of the transmit stream is the
  data register of the UART handle as it was before the UART was initialised.
\<close>

theorem tty_init_success:
  assumes "bsp_tty_init env s = Some (0, t)"
  shows "td_uart (ty_des s) = USART1_BASE \<and>
    dma_request (dh_init (td_hdma_tx (ty_des t))) = DMA_REQUEST_USART1_RX \<and>
    dma_request (dh_init (td_hdma_rx (ty_des t))) = DMA_REQUEST_USART1_TX \<and>
    Reg_write (dma_PAR (td_dma_tx (ty_des s))) (usart_TDR (uh_instance (td_huart (ty_des s)))) \<in> set (ty_log t)"
proof -
  obtain s1 s2 where st: "init_gpio s = Some (0, s1)" "init_dma env s1 = Some (0, s2)"
      "init_uart env s2 = Some (0, t)"
    using assms by (auto simp: bsp_tty_init_def bind_eq_Some_conv)
  from init_gpio_keeps [OF st(1)] init_dma_ok [OF st(2)] init_uart_keeps [OF st(3)]
  show ?thesis by auto
qed

section \<open>The first initialisation\<close>

text \<open>The clocks gated for an address.\<close>

lemma clk_at_values:
  "clk_at GPIOB_BASE = Some [''GPIOB'']" "clk_at USART1_BASE = Some [''USART1'']"
  "clk_at DMA1_Stream0_BASE = Some [''DMA2'']" "clk_at DMA1_Stream1_BASE = Some [''DMA2'']"
  by code_simp+

definition first_tty :: "u32 \<Rightarrow> log \<Rightarrow> tty_state" where
  "first_tty stty l = \<lparr>ty_des = tty_defaults stty zero_tty_des, ty_cache = initial_cache, ty_log = l\<rparr>"

lemma tty_defaults_zero:
  "td_uart (tty_defaults stty zero_tty_des) = USART1_BASE"
  "td_port_tx (tty_defaults stty zero_tty_des) = GPIOB_BASE"
  "td_port_rx (tty_defaults stty zero_tty_des) = GPIOB_BASE"
  "td_dma_tx (tty_defaults stty zero_tty_des) = DMA1_Stream0_BASE"
  "td_dma_rx (tty_defaults stty zero_tty_des) = DMA1_Stream1_BASE"
  "uh_instance (td_huart (tty_defaults stty zero_tty_des)) = 0"
  by (simp_all add: tty_defaults_def zero_tty_des_def SET_VAL_IF_ZERO_def)

lemma find_stream_default:
  "find_stream DMA1_Stream0_BASE dma_tb dma_irq_tb = Some DMA1_Stream0_IRQn"
  "find_stream DMA1_Stream1_BASE dma_tb dma_irq_tb = Some DMA1_Stream1_IRQn"
  by code_simp+

lemma clocks_frames [simp]:
  "clocks (tty_pins d) A = A" "clocks (enable_irq i) A = A" "clocks (MODIFY_REG env a b c l) A = clocks l A"
  by (simp_all add: tty_pins_def enable_irq_def MODIFY_REG_def modify_reg_def Let_def)

text \<open>A state with the descriptor of a first initialisation.\<close>

definition default_tty :: "tty_state \<Rightarrow> bool" where
  "default_tty s \<longleftrightarrow>
     td_uart (ty_des s) = USART1_BASE \<and> td_port_tx (ty_des s) = GPIOB_BASE \<and>
     td_port_rx (ty_des s) = GPIOB_BASE \<and> td_dma_tx (ty_des s) = DMA1_Stream0_BASE \<and>
     td_dma_rx (ty_des s) = DMA1_Stream1_BASE"

lemma first_tty_default: "default_tty (first_tty stty l)"
  by (simp add: default_tty_def first_tty_def tty_defaults_zero)

lemma init_gpio_default:
  assumes "default_tty s"
  shows "\<exists>t. init_gpio s = Some (0, t) \<and> ty_des t = ty_des s \<and>
    clocks (ty_log t) A = insert ''GPIOB'' (clocks (ty_log s) A)"
  using assms by (simp add: default_tty_def init_gpio_def periph_clk_at clk_at_values)

lemma irq_step_default:
  assumes "default_tty s"
  shows "fst (irq_step b s) = 0 \<and> ty_des (snd (irq_step b s)) = ty_des s \<and>
    clocks (ty_log (snd (irq_step b s))) A = clocks (ty_log s) A"
  using assms by (cases b)
    (simp_all add: default_tty_def irq_step_def get_dma_irq_def find_stream_default Let_def)

lemma init_tx_stream_default:
  assumes "default_tty s" "hal_ok env"
  shows "fst (init_tx_stream env s) = 0 \<and> default_tty (snd (init_tx_stream env s)) \<and>
    clocks (ty_log (snd (init_tx_stream env s))) A = clocks (ty_log s) A"
  using assms
  by (cases rule: get_dma_request_cases [of "ty_des s" 1])
    (simp_all add: default_tty_def init_tx_stream_def Let_def hal_ok_def)

lemma init_rx_stream_default:
  assumes "default_tty s" "hal_ok env"
  shows "fst (init_rx_stream env s) = 0 \<and> default_tty (snd (init_rx_stream env s)) \<and>
    clocks (ty_log (snd (init_rx_stream env s))) A = clocks (ty_log s) A"
  using assms
  by (cases rule: get_dma_request_cases [of "ty_des s" 0])
    (simp_all add: default_tty_def init_rx_stream_def Let_def hal_ok_def)

lemma check_step: "fst rs = 0 \<Longrightarrow> check rs k = k (snd rs)"
  by (simp add: check_def)

lemma init_dma_default:
  assumes d: "default_tty s" and ok: "hal_ok env"
  shows "\<exists>t. init_dma env s = Some (0, t) \<and> default_tty t \<and>
    clocks (ty_log t) A = insert ''DMA2'' (clocks (ty_log s) A)"
proof -
  let ?l = "ty_log s @ [Clk ''DMA2'' True, Clk ''DMA2'' True]"
  define s3 where "s3 = snd (irq_step True (s\<lparr>ty_log := ?l\<rparr>))"
  define s4 where "s4 = snd (irq_step False s3)"
  define s5 where "s5 = snd (init_tx_stream env s4)"
  have d2: "default_tty (s\<lparr>ty_log := ?l\<rparr>)" using d by (simp add: default_tty_def)
  note r3 = irq_step_default [OF d2, of True A, folded s3_def]
  have d3: "default_tty s3" using r3 d by (simp add: default_tty_def)
  note r4 = irq_step_default [OF d3, of False A, folded s4_def]
  have d4: "default_tty s4" using r4 d3 by (simp add: default_tty_def)
  note r5 = init_tx_stream_default [OF d4 ok, of A, folded s5_def]
  note r6 = init_rx_stream_default [OF conjunct1 [OF conjunct2 [OF r5]] ok, of A]
  show ?thesis
    using d r3 r4 r5 r6
    by (simp add: default_tty_def init_dma_def periph_clk_at clk_at_values check_step Let_def
        flip: s3_def s4_def s5_def)
qed

lemma init_uart_default:
  assumes "default_tty s" "hal_ok env"
  shows "\<exists>t. init_uart env s = Some (0, t) \<and>
    clocks (ty_log t) A = insert ''USART1'' (clocks (ty_log s) A)"
  using assms by (simp add: default_tty_def init_uart_def periph_clk_at clk_at_values hal_ok_def Let_def)

text \<open>
  C32.  The first initialisation, on the descriptor with default values and when no call of the HAL
  fails, succeeds; it opens exactly the clocks of GPIOB, DMA2 and USART1, not that of DMA1, whose
  streams it uses; and it makes address 0x28 the destination of the transmit stream.
\<close>

theorem tty_first_init:
  assumes "hal_ok env"
  shows "\<exists>t. bsp_tty_init env (first_tty stty l) = Some (0, t) \<and>
    clocks (ty_log t) A = {''GPIOB'', ''DMA2'', ''USART1''} \<union> clocks l A \<and>
    Reg_write (DMA1_Stream0_BASE + 8) 0x28 \<in> set (ty_log t)"
proof -
  let ?s = "first_tty stty l"
  obtain s1 where s1: "init_gpio ?s = Some (0, s1)" "ty_des s1 = ty_des ?s"
      "clocks (ty_log s1) A = insert ''GPIOB'' (clocks (ty_log ?s) A)"
    using init_gpio_default [OF first_tty_default] by blast
  have d1: "default_tty s1" using first_tty_default [of stty l] s1(2) by (simp add: default_tty_def)
  obtain s2 where s2: "init_dma env s1 = Some (0, s2)" "default_tty s2"
      "clocks (ty_log s2) A = insert ''DMA2'' (clocks (ty_log s1) A)"
    using init_dma_default [OF d1 assms] by blast
  obtain t where t: "init_uart env s2 = Some (0, t)"
      "clocks (ty_log t) A = insert ''USART1'' (clocks (ty_log s2) A)"
    using init_uart_default [OF s2(2) assms] by blast
  have r: "bsp_tty_init env ?s = Some (0, t)" using s1 s2 t by (simp add: bsp_tty_init_def)
  have "Reg_write (DMA1_Stream0_BASE + 8) 0x28 \<in> set (ty_log s2)"
    using init_dma_ok [OF s2(1)] s1(2)
    by (simp add: first_tty_def tty_defaults_zero dma_PAR_def usart_TDR_def)
  then have "Reg_write (DMA1_Stream0_BASE + 8) 0x28 \<in> set (ty_log t)"
    using init_uart_keeps [OF t(1)] by auto
  then show ?thesis using r s1(3) s2(3) t(2) by (auto simp: first_tty_def)
qed

lemma tty_first_init_witness:
  "\<exists>t. bsp_tty_init ok_env (first_tty 0x20000000 []) = Some (0, t) \<and>
       clocks (ty_log t) {} = {''GPIOB'', ''DMA2'', ''USART1''}"
  using tty_first_init [OF hal_ok_env, of "0x20000000" "[]" "{}"] by auto

lemma tty_init_success_witness:
  "\<exists>t. bsp_tty_init ok_env (first_tty 0x20000000 []) = Some (0, t) \<and>
       dma_request (dh_init (td_hdma_tx (ty_des t))) = DMA_REQUEST_USART1_RX"
proof -
  let ?s = "first_tty 0x20000000 []"
  obtain s1 where s1: "init_gpio ?s = Some (0, s1)" "ty_des s1 = ty_des ?s"
    using init_gpio_default [OF first_tty_default] by blast
  have d1: "default_tty s1" using first_tty_default [of "0x20000000" "[]"] s1(2) by (simp add: default_tty_def)
  obtain s2 where s2: "init_dma ok_env s1 = Some (0, s2)" "default_tty s2"
    using init_dma_default [OF d1 hal_ok_env] by blast
  obtain t where t: "init_uart ok_env s2 = Some (0, t)"
    using init_uart_default [OF s2(2) hal_ok_env] by blast
  have "bsp_tty_init ok_env ?s = Some (0, t)" using s1 s2 t by (simp add: bsp_tty_init_def)
  then show ?thesis using tty_init_success [of ok_env ?s t] by auto
qed

section \<open>The transmit ring\<close>

definition ring_size :: "tty_ring \<Rightarrow> nat" where
  "ring_size r = unat (rg_etty r) - unat (rg_stty r)"

definition ring_addr :: "tty_ring \<Rightarrow> nat \<Rightarrow> u32" where
  "ring_addr r k = rg_stty r + of_nat k"

definition ring_byte :: "tty_ring \<Rightarrow> nat \<Rightarrow> u8" where
  "ring_byte r k = rg_mem r (ring_addr r k)"

lemma unat_ring_addr:
  assumes "k \<le> ring_size r" "rg_stty r < rg_etty r"
  shows "unat (ring_addr r k) = unat (rg_stty r) + k"
proof -
  have l: "unat (rg_stty r) < unat (rg_etty r)" using assms(2) by (simp add: word_less_nat_alt)
  have "unat (rg_etty r) < 2 ^ LENGTH(32)" by (rule unsigned_less)
  then have e: "unat (rg_etty r) < 2 ^ 32" by simp
  have k: "unat (of_nat k :: u32) = k"
    using assms(1) e by (simp add: ring_size_def unsigned_of_nat take_bit_eq_mod)
  have "unat (rg_stty r) + unat (of_nat k :: u32) < 2 ^ 32"
    using assms(1) l e k by (simp add: ring_size_def)
  then show ?thesis by (simp add: ring_addr_def unat_plus_if' k)
qed

lemma ring_addr_inj:
  assumes "k < ring_size r" "j < ring_size r" "rg_stty r < rg_etty r" "ring_addr r k = ring_addr r j"
  shows "k = j"
proof -
  have "unat (rg_stty r) + k = unat (rg_stty r) + j"
    using assms(1,2,3) by (simp only: unat_ring_addr [symmetric] less_imp_le assms(4))
  then show ?thesis by simp
qed

lemma ring_next:
  assumes "k < ring_size r" "rg_stty r < rg_etty r"
  shows "(if ring_addr r k + 1 \<ge> rg_etty r then rg_stty r else ring_addr r k + 1) =
         ring_addr r (Suc k mod ring_size r)"
proof -
  have a: "ring_addr r k + 1 = ring_addr r (Suc k)" by (simp add: ring_addr_def algebra_simps)
  have u: "unat (ring_addr r (Suc k)) = unat (rg_stty r) + Suc k"
    using assms by (intro unat_ring_addr) auto
  have c: "rg_etty r \<le> ring_addr r (Suc k) \<longleftrightarrow> ring_size r \<le> Suc k"
    using u assms(1) by (auto simp: word_le_nat_alt ring_size_def)
  have z: "ring_addr r 0 = rg_stty r" by (simp add: ring_addr_def)
  show ?thesis unfolding a c using assms(1) z by (cases "Suc k = ring_size r") simp_all
qed

lemma tty_put_ring:
  assumes "rg_stty r < rg_etty r" "k < ring_size r" "n \<le> length bs" "n \<le> ring_size r"
  shows "\<exists>r'. tty_put r n bs (ring_addr r k) = Some (r', ring_addr r ((k + n) mod ring_size r)) \<and>
    rg_stty r' = rg_stty r \<and> rg_etty r' = rg_etty r \<and>
    (\<forall>i < n. ring_byte r' ((k + i) mod ring_size r) = bs ! i) \<and>
    (\<forall>a. (\<forall>i < n. a \<noteq> ring_addr r ((k + i) mod ring_size r)) \<longrightarrow> rg_mem r' a = rg_mem r a)"
  using assms
proof (induction n arbitrary: r bs k)
  case 0
  then show ?case by simp
next
  case (Suc n)
  let ?N = "ring_size r" and ?k = "Suc k mod ring_size r"
  obtain b bs' where bs: "bs = b # bs'" using Suc.prems(3) by (cases bs) auto
  define q where "q = r\<lparr>rg_mem := (rg_mem r)(ring_addr r k := b)\<rparr>"
  have q: "rg_stty q = rg_stty r" "rg_etty q = rg_etty r" "ring_size q = ?N"
      "\<And>j. ring_addr q j = ring_addr r j"
    by (simp_all add: q_def ring_size_def ring_addr_def)
  have "0 < ?N" using Suc.prems(2) by simp
  then have k: "?k < ?N" by simp
  have shift: "(?k + i) mod ?N = (k + Suc i) mod ?N" for i by (simp add: mod_simps)
  obtain r' where r': "tty_put q n bs' (ring_addr q ?k) = Some (r', ring_addr q ((?k + n) mod ?N))"
      "rg_stty r' = rg_stty q" "rg_etty r' = rg_etty q"
      "\<forall>i < n. ring_byte r' ((?k + i) mod ?N) = bs' ! i"
      "\<forall>a. (\<forall>i < n. a \<noteq> ring_addr q ((?k + i) mod ?N)) \<longrightarrow> rg_mem r' a = rg_mem q a"
    using Suc.IH [of q ?k bs'] Suc.prems bs k q by auto
  have kept: "rg_mem r' (ring_addr r k) = b"
  proof -
    have "ring_addr r k \<noteq> ring_addr q ((?k + i) mod ?N)" if "i < n" for i
    proof
      assume "ring_addr r k = ring_addr q ((?k + i) mod ?N)"
      then have "k = (k + Suc i) mod ?N"
        using ring_addr_inj [of k r "(?k + i) mod ?N"] Suc.prems(1,2) k q(4) shift by simp
      moreover have "Suc i < ?N" using that Suc.prems(4) by simp
      ultimately show False using Suc.prems(2)
        by (cases "k + Suc i < ?N") (auto simp: le_mod_geq)
    qed
    then show ?thesis using r'(5) by (simp add: q_def)
  qed
  have put: "tty_put r (Suc n) bs (ring_addr r k) = tty_put q n bs' (ring_addr q ?k)"
    using ring_next [OF Suc.prems(2,1)] q by (simp add: bs q_def [symmetric])
  have "ring_byte r' ((k + i) mod ?N) = bs ! i" if "i < Suc n" for i
  proof (cases i)
    case 0
    then show ?thesis using kept Suc.prems(2) q r'(2) bs by (simp add: ring_byte_def ring_addr_def)
  next
    case (Suc j)
    then show ?thesis using r'(4) that shift [of j] bs by auto
  qed
  moreover have "rg_mem r' a = rg_mem r a" if a: "\<forall>i < Suc n. a \<noteq> ring_addr r ((k + i) mod ?N)" for a
  proof -
    have "\<forall>i < n. a \<noteq> ring_addr q ((?k + i) mod ?N)" using a shift q(4) by auto
    moreover have "a \<noteq> ring_addr r k" using a Suc.prems(2) by (metis add_0_right mod_less zero_less_Suc)
    ultimately show ?thesis using r'(5) by (simp add: q_def)
  qed
  ultimately show ?case using put r'(1,2,3) q shift [of n] by auto
qed

text \<open>
  C12.  Writing to the terminal.  The bytes are stored one after the other from the write position,
  continuing at the start of the ring behind its end; nothing else in memory changes and the write
  position advances modulo the size of the ring, for any count up to that size.
\<close>

theorem tty_put_refines_ring:
  assumes "rg_stty r < rg_etty r" "k < ring_size r" "n \<le> length bs" "n \<le> ring_size r"
  shows "\<exists>r'. tty_put r n bs (ring_addr r k) = Some (r', ring_addr r ((k + n) mod ring_size r)) \<and>
    map (\<lambda>i. ring_byte r' ((k + i) mod ring_size r)) [0..<n] = take n bs \<and>
    (\<forall>a. (\<forall>i < n. a \<noteq> ring_addr r ((k + i) mod ring_size r)) \<longrightarrow> rg_mem r' a = rg_mem r a)"
  using tty_put_ring [OF assms] assms(3) by (fastforce intro: nth_equalityI)

definition example_ring :: tty_ring where
  "example_ring = \<lparr>rg_mem = \<lambda>_. 0, rg_stty = 0x20000000, rg_etty = 0x20000004\<rparr>"

lemma tty_put_refines_ring_witness:
  "\<exists>r'. tty_put example_ring 3 [7, 8, 9] (ring_addr example_ring 2) = Some (r', ring_addr example_ring 1) \<and>
        map (\<lambda>i. ring_byte r' ((2 + i) mod 4)) [0..<3] = [7, 8, 9]"
proof -
  have s: "ring_size example_ring = 4" by (simp add: example_ring_def ring_size_def)
  have "rg_stty example_ring < rg_etty example_ring" by (simp add: example_ring_def)
  from tty_put_refines_ring [OF this, of 2 3 "[7, 8, 9]"] show ?thesis by (auto simp: s)
qed

section \<open>The first transmission\<close>

definition idle_stream :: "hal_env \<Rightarrow> u32 \<Rightarrow> bool" where
  "idle_stream env dma \<longleftrightarrow>
     (\<forall>l. reg_value env l (dma_CR dma) AND DMA_SxCR_EN = 0 \<and> reg_value env l (dma_NDTR dma) = 0)"

lemma ring_addr_0 [simp]: "ring_addr r 0 = rg_stty r"
  by (simp add: ring_addr_def)

lemma start_tx_idle:
  assumes "idle_stream env (td_dma_tx (ty_des s))" "td_rd_ptr (ty_des s) < td_wr_ptr (ty_des s)"
    "td_wr_ptr (ty_des s) < rg_etty r"
  shows "\<exists>t. start_tx env r s = Some t \<and> td_rd_ptr (ty_des t) = td_wr_ptr (ty_des s) \<and>
    {Reg_write (dma_NDTR (td_dma_tx (ty_des s))) (td_wr_ptr (ty_des s) - td_rd_ptr (ty_des s)),
     Reg_write (dma_M0AR (td_dma_tx (ty_des s))) (td_wr_ptr (ty_des s))} \<subseteq> set (ty_log t)"
proof -
  let ?dma = "td_dma_tx (ty_des s)" and ?rd = "td_rd_ptr (ty_des s)" and ?wr = "td_wr_ptr (ty_des s)"
  have en: "wait_clear env (dma_CR ?dma) DMA_SxCR_EN l = Some (l @ [Reg_read (dma_CR ?dma)])" for l
    using assms(1) by (simp add: idle_stream_def wait_clear_now)
  have nd: "reg_value env l (dma_NDTR ?dma) = 0" for l using assms(1) by (simp add: idle_stream_def)
  have a: "?rd \<noteq> ?wr" "\<not> rg_etty r \<le> ?wr" using assms(2,3) by auto
  show ?thesis using a assms(2)
    by (simp add: start_tx_def en nd Let_def SET_BIT_def modify_reg_def)
qed

text \<open>
  The first bytes written to the terminal.  On an idle stream and an empty ring, writing
  \<open>n\<close> bytes stores them at the start of the ring, but the transfer of \<open>n\<close> bytes is started at the
  address behind them, and the result is the largest \<open>size_t\<close> instead of \<open>n\<close>.
\<close>

theorem tty_write_first:
  assumes "rg_stty r < rg_etty r" "0 < n" "n < ring_size r" "length buf = n"
    and "td_rd_ptr (ty_des s) = rg_stty r" "td_wr_ptr (ty_des s) = rg_stty r"
    and "idle_stream env (td_dma_tx (ty_des s))"
    and "find_stream (td_dma_tx (ty_des s)) dma_tb dma_irq_tb = Some irq"
  shows "\<exists>r' t. tty_write env buf (of_nat n) r s = Some (2 ^ 32 - 1, r', t) \<and>
    map (ring_byte r') [0..<n] = buf \<and>
    {Reg_write (dma_NDTR (td_dma_tx (ty_des s))) (of_nat n),
     Reg_write (dma_M0AR (td_dma_tx (ty_des s))) (ring_addr r n)} \<subseteq> set (ty_log t)"
proof -
  let ?dma = "td_dma_tx (ty_des s)" and ?N = "ring_size r"
  have "unat (rg_etty r) < 2 ^ LENGTH(32)" by (rule unsigned_less)
  then have n: "unat (of_nat n :: u32) = n"
    using assms(3) by (simp add: ring_size_def unsigned_of_nat take_bit_eq_mod)
  obtain q irq' c where q: "get_dma_irq (ty_des s) True False (ty_cache s) = (0, irq', c)"
    using assms(8) by (cases "irq_tx (ty_cache s) \<noteq> NonMaskableInt_IRQn") (auto simp: get_dma_irq_def Let_def)
  obtain r' where r': "tty_put r n buf (ring_addr r 0) = Some (r', ring_addr r ((0 + n) mod ?N))"
      "rg_stty r' = rg_stty r" "rg_etty r' = rg_etty r" "\<forall>i < n. ring_byte r' ((0 + i) mod ?N) = buf ! i"
    using tty_put_ring [of r 0 n buf] assms(1-4) by auto
  have wr: "ring_addr r (n mod ?N) = ring_addr r n" using assms(3) by simp
  have u: "unat (ring_addr r n) = unat (rg_stty r) + n"
    using assms(1,3) by (intro unat_ring_addr) auto
  have lt: "rg_stty r < ring_addr r n" using u assms(2) by (simp add: word_less_nat_alt)
  have ge: "\<not> rg_etty r \<le> ring_addr r n"
    using u assms(3) by (simp add: word_le_nat_alt ring_size_def)
  have d: "ring_addr r n - rg_stty r = of_nat n" by (simp add: ring_addr_def)
  define s1 where "s1 = s\<lparr>ty_cache := c, ty_des := (ty_des s)\<lparr>td_wr_ptr := ring_addr r n\<rparr>,
                         ty_log := ty_log s @ [Core (Nvic_disable irq'), Core (Nvic_enable irq')]\<rparr>"
  have s1: "td_dma_tx (ty_des s1) = ?dma" "td_rd_ptr (ty_des s1) = rg_stty r"
      "td_wr_ptr (ty_des s1) = ring_addr r n"
    using assms(5) by (simp_all add: s1_def)
  obtain t where t: "start_tx env r' s1 = Some t"
      "{Reg_write (dma_NDTR ?dma) (of_nat n), Reg_write (dma_M0AR ?dma) (ring_addr r n)} \<subseteq> set (ty_log t)"
    using start_tx_idle [of env s1 r'] s1 lt ge assms(7) r'(3) d by (auto simp: not_le)
  have "tty_write env buf (of_nat n) r s = Some (-1, r', t)"
    using q r'(1) t(1) by (simp add: tty_write_def n assms(6) wr s1_def Let_def)
  moreover have "map (ring_byte r') [0..<n] = buf"
    using r'(4) assms(3,4) by (intro nth_equalityI) auto
  ultimately show ?thesis using t(2) by simp
qed

lemma tty_write_first_witness:
  "\<exists>r' t. tty_write ok_env [104, 105] 2 (example_ring\<lparr>rg_etty := 0x20000100\<rparr>) (first_tty 0x20000000 []) =
     Some (0xFFFFFFFF, r', t) \<and>
   Reg_write (dma_M0AR DMA1_Stream0_BASE) 0x20000002 \<in> set (ty_log t)"
proof -
  let ?r = "example_ring\<lparr>rg_etty := 0x20000100\<rparr>" and ?s = "first_tty 0x20000000 []"
  have r: "rg_stty ?r < rg_etty ?r" "ring_size ?r = 256" "rg_stty ?r = 0x20000000"
    by (simp_all add: example_ring_def ring_size_def)
  have s: "td_rd_ptr (ty_des ?s) = rg_stty ?r" "td_wr_ptr (ty_des ?s) = rg_stty ?r"
    by (simp_all add: first_tty_def tty_defaults_def zero_tty_des_def SET_VAL_IF_ZERO_def example_ring_def)
  have dma: "td_dma_tx (ty_des ?s) = DMA1_Stream0_BASE" by (simp add: first_tty_def tty_defaults_zero)
  have e: "idle_stream ok_env (td_dma_tx (ty_des ?s))" by (simp add: idle_stream_def ok_env_def)
  have f: "find_stream (td_dma_tx (ty_des ?s)) dma_tb dma_irq_tb = Some DMA1_Stream0_IRQn"
    by (simp add: dma find_stream_default)
  from tty_write_first [OF r(1) _ _ _ s e f, of 2 "[104, 105]"] show ?thesis
    by (auto simp: r dma ring_addr_def)
qed

text \<open>
  The search through the stream table: the interrupt found is the one at the position of the
  stream, and the cache gives the same answer again.
\<close>

lemma scan_for_nth: "i < length xs \<Longrightarrow> distinct xs \<Longrightarrow> scan_for (xs ! i) xs = i"
  by (induction xs arbitrary: i) (auto simp: nth_Cons split: nat.splits)

lemma scan_for_miss: "x \<notin> set xs \<Longrightarrow> scan_for x xs = length xs"
  by (induction xs) auto

lemma get_dma_irq_cached:
  assumes "get_dma_irq d tx clear c = (0, irq, c')" "irq \<noteq> NonMaskableInt_IRQn"
  shows "get_dma_irq d' tx False c' = (0, irq, c')"
  using assms by (cases tx) (auto simp: get_dma_irq_def Let_def split: if_splits option.splits)

end
