(* ===== verification/Gpio.thy ===== *)
theory Gpio
  imports Stm32
begin

text \<open>
  The pin driver of the HAL, hal/stm32h7xx_hal_gpio.c, on the registers of the ports, the system
  configuration controller and the external interrupt controller.  The board support package
  configures all its pins through it; \<open>gpio_replay\<close> gives a log of the board support package its
  effect on these registers.
\<close>

section \<open>Constants\<close>

definition GPIO_MODE :: u32 where
  [hal_consts]: "GPIO_MODE = 0x3"

definition MODE_OUTPUT :: u32 where
  [hal_consts]: "MODE_OUTPUT = 0x1"

definition MODE_AF :: u32 where
  [hal_consts]: "MODE_AF = 0x2"

definition MODE_ANALOG :: u32 where
  [hal_consts]: "MODE_ANALOG = 0x3"

definition OUTPUT_TYPE :: u32 where
  [hal_consts]: "OUTPUT_TYPE = 0x10"

definition EXTI_MODE :: u32 where
  [hal_consts]: "EXTI_MODE = 0x30000"

definition EXTI_IT :: u32 where
  [hal_consts]: "EXTI_IT = 0x10000"

definition EXTI_EVT :: u32 where
  [hal_consts]: "EXTI_EVT = 0x20000"

definition TRIGGER_RISING :: u32 where
  [hal_consts]: "TRIGGER_RISING = 0x100000"

definition TRIGGER_FALLING :: u32 where
  [hal_consts]: "TRIGGER_FALLING = 0x200000"

definition GPIO_OSPEEDR_OSPEED0 :: u32 where
  [hal_consts]: "GPIO_OSPEEDR_OSPEED0 = 0x3"

definition GPIO_OTYPER_OT0 :: u32 where
  [hal_consts]: "GPIO_OTYPER_OT0 = 0x1"

definition GPIO_PUPDR_PUPD0 :: u32 where
  [hal_consts]: "GPIO_PUPDR_PUPD0 = 0x3"

definition GPIO_MODER_MODE0 :: u32 where
  [hal_consts]: "GPIO_MODER_MODE0 = 0x3"

definition GPIO_MODE_INPUT :: u32 where
  [hal_consts]: "GPIO_MODE_INPUT = 0x0"

definition GPIO_MODE_OUTPUT_OD :: u32 where
  [hal_consts]: "GPIO_MODE_OUTPUT_OD = 0x11"

definition GPIO_MODE_AF_OD :: u32 where
  [hal_consts]: "GPIO_MODE_AF_OD = 0x12"

definition GPIO_MODE_ANALOG :: u32 where
  [hal_consts]: "GPIO_MODE_ANALOG = 0x3"

definition GPIO_MODE_IT_RISING :: u32 where
  [hal_consts]: "GPIO_MODE_IT_RISING = 0x110000"

definition GPIO_MODE_IT_FALLING :: u32 where
  [hal_consts]: "GPIO_MODE_IT_FALLING = 0x210000"

definition GPIO_MODE_IT_RISING_FALLING :: u32 where
  [hal_consts]: "GPIO_MODE_IT_RISING_FALLING = 0x310000"

definition GPIO_MODE_EVT_RISING :: u32 where
  [hal_consts]: "GPIO_MODE_EVT_RISING = 0x120000"

definition GPIO_MODE_EVT_FALLING :: u32 where
  [hal_consts]: "GPIO_MODE_EVT_FALLING = 0x220000"

definition GPIO_MODE_EVT_RISING_FALLING :: u32 where
  [hal_consts]: "GPIO_MODE_EVT_RISING_FALLING = 0x320000"

definition GPIO_SPEED_FREQ_MEDIUM :: u32 where
  [hal_consts]: "GPIO_SPEED_FREQ_MEDIUM = 0x1"

definition GPIO_SPEED_FREQ_HIGH :: u32 where
  [hal_consts]: "GPIO_SPEED_FREQ_HIGH = 0x2"

definition GPIO_PULLUP :: u32 where
  [hal_consts]: "GPIO_PULLUP = 0x1"

definition GPIO_PULLDOWN :: u32 where
  [hal_consts]: "GPIO_PULLDOWN = 0x2"

definition GPIO_PIN_MASK :: u32 where
  [hal_consts]: "GPIO_PIN_MASK = 0xffff"


definition OUTPUT_TYPE_Pos :: nat where "OUTPUT_TYPE_Pos = 4"

definition GPIO_NUMBER :: nat where "GPIO_NUMBER = 16"

section \<open>Registers\<close>

record gpio_regs =
  MODER :: u32
  OTYPER :: u32
  OSPEEDR :: u32
  PUPDR :: u32
  IDR :: u32
  ODR :: u32
  AFR :: "nat \<Rightarrow> u32"

record gpio_hw =
  hw_port :: "u32 \<Rightarrow> gpio_regs"
  hw_exticr :: "nat \<Rightarrow> u32"
  hw_rtsr :: u32
  hw_ftsr :: u32
  hw_emr :: u32
  hw_imr :: u32
  hw_syscfg_clk :: bool

definition GPIO_GET_INDEX :: "u32 \<Rightarrow> u32" where
  "GPIO_GET_INDEX p =
     (if p = GPIOA_BASE then 0 else if p = GPIOB_BASE then 1 else if p = GPIOC_BASE then 2
      else if p = GPIOD_BASE then 3 else if p = GPIOE_BASE then 4 else if p = GPIOF_BASE then 5
      else if p = GPIOG_BASE then 6 else if p = GPIOH_BASE then 7 else if p = GPIOI_BASE then 8
      else if p = GPIOJ_BASE then 9 else 10)"

section \<open>Checks of parameters\<close>

text \<open>
  \<open>assert_param\<close> is active in the configuration of the repository: a parameter that fails its check
  stops the program, which is the value \<open>None\<close> of an operation.
\<close>

definition IS_GPIO_ALL_INSTANCE :: "u32 \<Rightarrow> bool" where
  "IS_GPIO_ALL_INSTANCE p \<longleftrightarrow>
     p \<in> {GPIOA_BASE, GPIOB_BASE, GPIOC_BASE, GPIOD_BASE, GPIOE_BASE, GPIOF_BASE, GPIOG_BASE, GPIOH_BASE,
          GPIOI_BASE, GPIOJ_BASE, GPIOK_BASE}"

definition IS_GPIO_PIN :: "u32 \<Rightarrow> bool" where
  "IS_GPIO_PIN pin \<longleftrightarrow> pin AND GPIO_PIN_MASK \<noteq> 0 \<and> pin AND NOT GPIO_PIN_MASK = 0"

definition IS_GPIO_MODE :: "u32 \<Rightarrow> bool" where
  "IS_GPIO_MODE m \<longleftrightarrow>
     m \<in> {GPIO_MODE_INPUT, GPIO_MODE_OUTPUT_PP, GPIO_MODE_OUTPUT_OD, GPIO_MODE_AF_PP, GPIO_MODE_AF_OD,
          GPIO_MODE_IT_RISING, GPIO_MODE_IT_FALLING, GPIO_MODE_IT_RISING_FALLING, GPIO_MODE_EVT_RISING,
          GPIO_MODE_EVT_FALLING, GPIO_MODE_EVT_RISING_FALLING, GPIO_MODE_ANALOG}"

definition IS_GPIO_SPEED :: "u32 \<Rightarrow> bool" where
  "IS_GPIO_SPEED v \<longleftrightarrow>
     v \<in> {GPIO_SPEED_FREQ_LOW, GPIO_SPEED_FREQ_MEDIUM, GPIO_SPEED_FREQ_HIGH, GPIO_SPEED_FREQ_VERY_HIGH}"

definition IS_GPIO_PULL :: "u32 \<Rightarrow> bool" where
  "IS_GPIO_PULL v \<longleftrightarrow> v \<in> {GPIO_NOPULL, GPIO_PULLUP, GPIO_PULLDOWN}"

definition IS_GPIO_AF :: "u32 \<Rightarrow> bool" where
  "IS_GPIO_AF v \<longleftrightarrow> v \<le> 0xF"

text \<open>
  All checks of \<open>HAL_GPIO_Init\<close>.  Those inside its loop do not depend on the pin, and the check of
  the pins ensures that the loop has a round.
\<close>

definition gpio_init_asserts :: "u32 \<Rightarrow> gpio_init \<Rightarrow> bool" where
  "gpio_init_asserts port g \<longleftrightarrow>
     (let m = gpio_mode g AND GPIO_MODE
      in IS_GPIO_ALL_INSTANCE port \<and> IS_GPIO_PIN (gpio_pin g) \<and> IS_GPIO_MODE (gpio_mode g) \<and>
         (m = MODE_OUTPUT \<or> m = MODE_AF \<longrightarrow> IS_GPIO_SPEED (gpio_speed g)) \<and>
         (m \<noteq> MODE_ANALOG \<longrightarrow> IS_GPIO_PULL (gpio_pull g)) \<and>
         (m = MODE_AF \<longrightarrow> IS_GPIO_AF (gpio_alternate g)))"

section \<open>Operations\<close>

text \<open>\<open>temp &= ~(msk << n); temp |= v << n;\<close>\<close>

definition put_bits :: "u32 \<Rightarrow> nat \<Rightarrow> u32 \<Rightarrow> u32 \<Rightarrow> u32" where
  "put_bits msk n v w = (w AND NOT (push_bit n msk)) OR push_bit n v"

text \<open>The pin part of one round of the loop.\<close>

definition init_pin_regs :: "gpio_init \<Rightarrow> nat \<Rightarrow> gpio_regs \<Rightarrow> gpio_regs" where
  "init_pin_regs g pos r =
     (let m = gpio_mode g AND GPIO_MODE;
          r1 = (if m = MODE_OUTPUT \<or> m = MODE_AF
                then r\<lparr>OSPEEDR := put_bits GPIO_OSPEEDR_OSPEED0 (pos * 2) (gpio_speed g) (OSPEEDR r),
                       OTYPER := put_bits GPIO_OTYPER_OT0 pos
                                   (drop_bit OUTPUT_TYPE_Pos (gpio_mode g AND OUTPUT_TYPE)) (OTYPER r)\<rparr>
                else r);
          r2 = (if m \<noteq> MODE_ANALOG
                then r1\<lparr>PUPDR := put_bits GPIO_PUPDR_PUPD0 (pos * 2) (gpio_pull g) (PUPDR r1)\<rparr>
                else r1);
          r3 = (if m = MODE_AF
                then r2\<lparr>AFR := (AFR r2)(pos div 8 :=
                          put_bits 0xF (pos mod 8 * 4) (gpio_alternate g) (AFR r2 (pos div 8)))\<rparr>
                else r2)
      in r3\<lparr>MODER := put_bits GPIO_MODER_MODE0 (pos * 2) m (MODER r3)\<rparr>)"

text \<open>The interrupt part: \<open>io\<close> is the bit of the pin.\<close>

definition line_bit :: "u32 \<Rightarrow> u32 \<Rightarrow> u32 \<Rightarrow> u32 \<Rightarrow> u32" where
  "line_bit mode flag io w = (if mode AND flag \<noteq> 0 then (w AND NOT io) OR io else w AND NOT io)"

definition init_pin_exti :: "u32 \<Rightarrow> gpio_init \<Rightarrow> nat \<Rightarrow> gpio_hw \<Rightarrow> gpio_hw" where
  "init_pin_exti port g pos h =
     (let io = push_bit pos 1
      in if gpio_mode g AND EXTI_MODE \<noteq> 0
         then h\<lparr>hw_syscfg_clk := True,
                hw_exticr := (hw_exticr h)(pos div 4 :=
                   put_bits 0xF (4 * (pos mod 4)) (GPIO_GET_INDEX port) (hw_exticr h (pos div 4))),
                hw_rtsr := line_bit (gpio_mode g) TRIGGER_RISING io (hw_rtsr h),
                hw_ftsr := line_bit (gpio_mode g) TRIGGER_FALLING io (hw_ftsr h),
                hw_emr := line_bit (gpio_mode g) EXTI_EVT io (hw_emr h),
                hw_imr := line_bit (gpio_mode g) EXTI_IT io (hw_imr h)\<rparr>
         else h)"

definition init_pin :: "u32 \<Rightarrow> gpio_init \<Rightarrow> nat \<Rightarrow> gpio_hw \<Rightarrow> gpio_hw" where
  "init_pin port g pos h =
     init_pin_exti port g pos
       (h\<lparr>hw_port := (hw_port h)(port := init_pin_regs g pos (hw_port h port))\<rparr>)"

lemma drop_bit_nonzero: "drop_bit pos (pins :: u32) \<noteq> 0 \<Longrightarrow> pos < 32"
proof (rule ccontr)
  assume a: "drop_bit pos pins \<noteq> 0" "\<not> pos < 32"
  have "drop_bit pos pins = 0"
    by (rule bit_word_eqI) (use a(2) in \<open>auto simp: bit_drop_bit_eq dest!: bit_imp_le_length\<close>)
  then show False using a(1) by simp
qed

text \<open>\<open>while ((pins >> position) != 0)\<close>; the body runs for the bits that are set.\<close>

function pin_loop :: "u32 \<Rightarrow> (nat \<Rightarrow> 's \<Rightarrow> 's) \<Rightarrow> nat \<Rightarrow> 's \<Rightarrow> 's" where
  "pin_loop pins f pos s =
     (if drop_bit pos pins \<noteq> 0
      then pin_loop pins f (Suc pos) (if pins AND push_bit pos 1 \<noteq> 0 then f pos s else s)
      else s)"
  by pat_completeness auto
termination
proof (relation "measure (\<lambda>(pins :: u32, f, pos, s). 32 - pos)")
  fix pins :: u32 and f :: "nat \<Rightarrow> 's \<Rightarrow> 's" and pos and s :: 's
  assume "drop_bit pos pins \<noteq> 0"
  then have "pos < 32" by (rule drop_bit_nonzero)
  then show "((pins, f, Suc pos, if pins AND push_bit pos 1 \<noteq> 0 then f pos s else s), pins, f, pos, s)
      \<in> measure (\<lambda>(pins, f, pos, s). 32 - pos)" by simp
qed simp

declare pin_loop.simps [simp del]

definition HAL_GPIO_Init :: "u32 \<Rightarrow> gpio_init \<Rightarrow> gpio_hw \<Rightarrow> gpio_hw option" where
  "HAL_GPIO_Init port g h =
     (if gpio_init_asserts port g then Some (pin_loop (gpio_pin g) (init_pin port g) 0 h) else None)"

definition deinit_pin_exti :: "u32 \<Rightarrow> nat \<Rightarrow> gpio_hw \<Rightarrow> gpio_hw" where
  "deinit_pin_exti port pos h =
     (let io = push_bit pos 1; field = push_bit (4 * (pos mod 4)) 0xF
      in if hw_exticr h (pos div 4) AND field = push_bit (4 * (pos mod 4)) (GPIO_GET_INDEX port)
         then h\<lparr>hw_imr := hw_imr h AND NOT io, hw_emr := hw_emr h AND NOT io,
                hw_ftsr := hw_ftsr h AND NOT io, hw_rtsr := hw_rtsr h AND NOT io,
                hw_exticr := (hw_exticr h)(pos div 4 := hw_exticr h (pos div 4) AND NOT field)\<rparr>
         else h)"

definition deinit_pin_regs :: "nat \<Rightarrow> gpio_regs \<Rightarrow> gpio_regs" where
  "deinit_pin_regs pos r =
     r\<lparr>MODER := MODER r OR push_bit (pos * 2) GPIO_MODER_MODE0,
       AFR := (AFR r)(pos div 8 := AFR r (pos div 8) AND NOT (push_bit (pos mod 8 * 4) 0xF)),
       PUPDR := PUPDR r AND NOT (push_bit (pos * 2) GPIO_PUPDR_PUPD0),
       OTYPER := OTYPER r AND NOT (push_bit pos GPIO_OTYPER_OT0),
       OSPEEDR := OSPEEDR r AND NOT (push_bit (pos * 2) GPIO_OSPEEDR_OSPEED0)\<rparr>"

definition deinit_pin :: "u32 \<Rightarrow> nat \<Rightarrow> gpio_hw \<Rightarrow> gpio_hw" where
  "deinit_pin port pos h =
     (let h1 = deinit_pin_exti port pos h
      in h1\<lparr>hw_port := (hw_port h1)(port := deinit_pin_regs pos (hw_port h1 port))\<rparr>)"

definition HAL_GPIO_DeInit :: "u32 \<Rightarrow> u32 \<Rightarrow> gpio_hw \<Rightarrow> gpio_hw option" where
  "HAL_GPIO_DeInit port pins h =
     (if IS_GPIO_ALL_INSTANCE port \<and> IS_GPIO_PIN pins
      then Some (pin_loop pins (deinit_pin port) 0 h) else None)"

definition HAL_GPIO_ReadPin :: "u32 \<Rightarrow> u16 \<Rightarrow> gpio_hw \<Rightarrow> bool option" where
  "HAL_GPIO_ReadPin port pin h =
     (if IS_GPIO_PIN (ucast pin) then Some (IDR (hw_port h port) AND ucast pin \<noteq> 0) else None)"

text \<open>A store to \<open>BSRR\<close>: the lower half sets output bits, the upper half clears those not set.\<close>

definition write_bsrr :: "u32 \<Rightarrow> u32 \<Rightarrow> gpio_hw \<Rightarrow> gpio_hw" where
  "write_bsrr port v h =
     (let r = hw_port h port
      in h\<lparr>hw_port := (hw_port h)(port :=
             r\<lparr>ODR := (ODR r AND NOT (drop_bit 16 v)) OR (v AND 0xFFFF)\<rparr>)\<rparr>)"

definition HAL_GPIO_WritePin :: "u32 \<Rightarrow> u16 \<Rightarrow> bool \<Rightarrow> gpio_hw \<Rightarrow> gpio_hw option" where
  "HAL_GPIO_WritePin port pin pin_set h =
     (if \<not> IS_GPIO_PIN (ucast pin) then None
      else if pin_set then Some (write_bsrr port (ucast pin) h)
      else Some (write_bsrr port (push_bit GPIO_NUMBER (ucast pin)) h))"

definition HAL_GPIO_TogglePin :: "u32 \<Rightarrow> u16 \<Rightarrow> gpio_hw \<Rightarrow> gpio_hw option" where
  "HAL_GPIO_TogglePin port pin h =
     (let odr = ODR (hw_port h port)
      in if \<not> IS_GPIO_PIN (ucast pin) then None
         else Some (write_bsrr port (push_bit GPIO_NUMBER (odr AND ucast pin) OR (NOT odr AND ucast pin)) h))"

text \<open>The effect of a log on the pins.\<close>

fun gpio_replay :: "log \<Rightarrow> gpio_hw \<Rightarrow> gpio_hw option" where
  "gpio_replay [] h = Some h"
| "gpio_replay (e # l) h =
     (case e of
        Gpio (Gpio_init p g) \<Rightarrow> HAL_GPIO_Init p g h \<bind> gpio_replay l
      | Gpio (Gpio_deinit p pins) \<Rightarrow> HAL_GPIO_DeInit p pins h \<bind> gpio_replay l
      | Gpio (Gpio_write p pin v) \<Rightarrow> HAL_GPIO_WritePin p pin v h \<bind> gpio_replay l
      | Gpio (Gpio_toggle p pin) \<Rightarrow> HAL_GPIO_TogglePin p pin h \<bind> gpio_replay l
      | _ \<Rightarrow> gpio_replay l h)"

section \<open>The configuration of a pin\<close>

record pin_config =
  pin_mode :: u32
  pin_otype :: u32
  pin_speed :: u32
  pin_pull :: u32
  pin_af :: u32

definition get_bits :: "nat \<Rightarrow> nat \<Rightarrow> u32 \<Rightarrow> u32" where
  "get_bits n k w = take_bit k (drop_bit n w)"

definition config_of :: "gpio_regs \<Rightarrow> nat \<Rightarrow> pin_config" where
  "config_of r p =
     \<lparr>pin_mode = get_bits (p * 2) 2 (MODER r), pin_otype = get_bits p 1 (OTYPER r),
      pin_speed = get_bits (p * 2) 2 (OSPEEDR r), pin_pull = get_bits (p * 2) 2 (PUPDR r),
      pin_af = get_bits (p mod 8 * 4) 4 (AFR r (p div 8))\<rparr>"

lemma get_put_same:
  assumes "n + k \<le> 32" "take_bit k v = v"
  shows "get_bits n k (put_bits (mask k) n v w) = v"
proof (rule bit_word_eqI)
  fix i assume i: "i < LENGTH(32)"
  have "bit v i \<Longrightarrow> i < k" using assms(2) by (metis bit_take_bit_iff)
  then show "bit (get_bits n k (put_bits (mask k) n v w)) i = bit v i"
    using assms(1) i
    by (auto simp: get_bits_def put_bits_def bit_simps)
qed

lemma get_put_other:
  assumes "take_bit k v = v" "n + k \<le> m \<or> m + j \<le> n"
  shows "get_bits m j (put_bits (mask k) n v w) = get_bits m j w"
proof (rule bit_word_eqI)
  fix i assume i: "i < LENGTH(32)"
  have v: "bit v q \<Longrightarrow> q < k" for q using assms(1) by (metis bit_take_bit_iff)
  show "bit (get_bits m j (put_bits (mask k) n v w)) i = bit (get_bits m j w) i"
  proof (cases "i < j")
    case True
    then have out: "\<not> (n \<le> m + i \<and> m + i - n < k)" using assms(2) by auto
    have "\<not> bit (push_bit n v) (m + i)" "\<not> bit (push_bit n (mask k :: u32)) (m + i)"
      using v out by (auto simp: bit_simps)
    then show ?thesis by (auto simp: get_bits_def put_bits_def bit_simps dest: bit_imp_le_length)
  qed (simp add: get_bits_def bit_simps)
qed

lemma mask_consts: "(3 :: u32) = mask 2" "(1 :: u32) = mask (Suc 0)" "(0xF :: u32) = mask 4"
  by (simp_all add: mask_eq_exp_minus_1)

section \<open>The loop over the pins\<close>

lemma pin_loop_fold:
  "pos \<le> 32 \<Longrightarrow> pin_loop pins f pos s = fold (\<lambda>p s. if bit pins p then f p s else s) [pos..<32] s"
proof (induction pins f pos s rule: pin_loop.induct)
  case (1 pins f pos s)
  show ?case
  proof (cases "drop_bit pos pins = 0")
    case True
    have nb: "\<not> bit pins p" if "pos \<le> p" for p
    proof -
      have "bit (drop_bit pos pins) (p - pos) = bit pins p" using that by (simp add: bit_drop_bit_eq)
      then show ?thesis using True by simp
    qed
    have "fold (\<lambda>p s. if bit pins p then f p s else s) ps s = s" if "\<forall>p \<in> set ps. pos \<le> p" for ps
      using that nb by (induction ps) auto
    then show ?thesis using True by (subst pin_loop.simps) simp
  next
    case False
    then have lt: "pos < 32" by (rule drop_bit_nonzero)
    have "[pos..<32] = pos # [Suc pos..<32]" using lt by (rule upt_conv_Cons)
    then show ?thesis using 1 False lt
      by (subst pin_loop.simps) (simp add: bit_iff_and_push_bit_not_eq_0)
  qed
qed

text \<open>
  When a round changes an observation only for one pin, the loop changes it exactly when that pin
  is selected.
\<close>

lemma pin_loop_observe:
  assumes "\<And>p s. bit pins p \<Longrightarrow> obs (f p s) = (if p = q then v (obs s) else obs s)" "q < 32"
  shows "obs (pin_loop pins f 0 s) = (if bit pins q then v (obs s) else obs s)"
proof -
  have "obs (fold (\<lambda>p s. if bit pins p then f p s else s) ps s) =
      (if q \<in> set ps \<and> bit pins q then v (obs s) else obs s)" if "distinct ps" for ps
    using that
  proof (induction ps arbitrary: s)
    case (Cons p ps)
    then show ?case by (cases "bit pins p") (auto simp: assms(1))
  qed simp
  from this [of "[0..<32]"] assms(2) show ?thesis by (simp add: pin_loop_fold)
qed

lemma low_pins: "drop_bit 16 (pins :: u32) = 0 \<Longrightarrow> bit pins p \<Longrightarrow> p < 16"
proof (rule ccontr)
  assume a: "drop_bit 16 pins = 0" "bit pins p" "\<not> p < 16"
  have "bit (drop_bit 16 pins) (p - 16) = bit pins p" using a(3) by (simp add: bit_drop_bit_eq)
  then show False using a by simp
qed

definition valid_init :: "gpio_init \<Rightarrow> bool" where
  "valid_init g \<longleftrightarrow>
     (let m = take_bit 2 (gpio_mode g)
      in (m = 1 \<or> m = 2 \<longrightarrow> take_bit 2 (gpio_speed g) = gpio_speed g) \<and>
         (m \<noteq> 3 \<longrightarrow> take_bit 2 (gpio_pull g) = gpio_pull g) \<and>
         (m = 2 \<longrightarrow> take_bit 4 (gpio_alternate g) = gpio_alternate g))"

text \<open>What \<open>HAL_GPIO_Init\<close> makes of the configuration of a selected pin.\<close>

definition new_config :: "gpio_init \<Rightarrow> pin_config \<Rightarrow> pin_config" where
  "new_config g c =
     (let m = take_bit 2 (gpio_mode g)
      in c\<lparr>pin_mode := m,
           pin_otype := if m = 1 \<or> m = 2 then drop_bit 4 (gpio_mode g) AND 1 else pin_otype c,
           pin_speed := if m = 1 \<or> m = 2 then gpio_speed g else pin_speed c,
           pin_pull := if m \<noteq> 3 then gpio_pull g else pin_pull c,
           pin_af := if m = 2 then gpio_alternate g else pin_af c\<rparr>)"

lemmas put_rules = get_put_same [where k = 2, folded mask_consts] get_put_same [where k = "Suc 0", folded mask_consts]
  get_put_same [where k = 4, folded mask_consts] get_put_other [where k = 2, folded mask_consts]
  get_put_other [where k = "Suc 0", folded mask_consts] get_put_other [where k = 4, folded mask_consts]

lemma mode_bits: "x AND (3 :: u32) = take_bit 2 x"
  by (simp add: take_bit_eq_mask mask_consts(1))

lemma otype_bits: "take_bit (Suc 0) ((x :: u32) AND 1) = x AND 1"
  by (rule bit_word_eqI) (auto simp: bit_simps bit_0)

lemma otype_put:
  "q < 16 \<Longrightarrow> get_bits q (Suc 0) (put_bits 1 q (x AND 1) w) = x AND 1"
  using get_put_same [OF _ otype_bits, of q x w] mask_consts(2) by simp

lemma otype_other:
  "Suc p \<le> q \<or> Suc q \<le> p \<Longrightarrow> get_bits q (Suc 0) (put_bits 1 p (x AND 1) w) = get_bits q (Suc 0) w"
  using get_put_other [OF otype_bits, of p q "Suc 0" x w] mask_consts(2) by simp

lemma af_fields: "p \<noteq> q \<Longrightarrow> p div 8 = q div 8 \<Longrightarrow> p mod 8 * 4 + 4 \<le> q mod 8 * 4 \<or> q mod 8 * 4 + 4 \<le> p mod (8 :: nat) * 4"
  by (metis (no_types) Suc_leI add.commute div_mult_mod_eq linorder_neqE_nat mult_Suc mult_le_mono1)

lemma config_init_pin:
  assumes "valid_init g" "p < 16" "q < 16"
  shows "config_of (init_pin_regs g p r) q =
    (if p = q then new_config g (config_of r q) else config_of r q)"
proof (cases "p = q")
  case True
  then show ?thesis using assms
    by (auto simp: init_pin_regs_def config_of_def new_config_def Let_def hal_consts OUTPUT_TYPE_Pos_def
        mode_bits otype_put otype_other valid_init_def put_rules)
next
  case False
  have f2: "p * 2 + 2 \<le> q * 2 \<or> q * 2 + 2 \<le> p * 2" and f1: "Suc p \<le> q \<or> Suc q \<le> p"
    using False by auto
  show ?thesis using assms False f1 f2 af_fields [OF False]
    by (auto simp: init_pin_regs_def config_of_def new_config_def Let_def hal_consts OUTPUT_TYPE_Pos_def
        mode_bits otype_put otype_other valid_init_def put_rules)
qed

section \<open>Whole operations\<close>

lemma init_pin_exti_port [simp]: "hw_port (init_pin_exti port g p h) = hw_port h"
  by (simp add: init_pin_exti_def Let_def)

lemma deinit_pin_exti_port [simp]: "hw_port (deinit_pin_exti port p h) = hw_port h"
  by (simp add: deinit_pin_exti_def Let_def)

lemma gpio_init_config_aux:
  assumes "valid_init g" "drop_bit 16 (gpio_pin g) = 0" "q < 16"
  shows "config_of (hw_port (pin_loop (gpio_pin g) (init_pin port g) 0 h) k) q =
    (if k = port \<and> bit (gpio_pin g) q then new_config g (config_of (hw_port h k) q)
     else config_of (hw_port h k) q)"
proof -
  let ?v = "\<lambda>c. if k = port then new_config g c else c"
  have step: "config_of (hw_port (init_pin port g p s) k) q =
      (if p = q then ?v (config_of (hw_port s k) q) else config_of (hw_port s k) q)"
    if "bit (gpio_pin g) p" for p s
    using low_pins [OF assms(2) that] assms(1,3) by (simp add: init_pin_def config_init_pin)
  show ?thesis
    using pin_loop_observe [of "gpio_pin g" "\<lambda>s. config_of (hw_port s k) q" "init_pin port g" q ?v h,
        OF step] assms(3) by simp
qed

text \<open>The checks imply that the parameters fit their fields and that only pins of the port are selected.\<close>

lemma asserted_pins: "IS_GPIO_PIN pins \<Longrightarrow> drop_bit 16 pins = 0"
proof -
  assume a: "IS_GPIO_PIN pins"
  have m: "(0xFFFF :: u32) = mask 16" by (simp add: mask_eq_exp_minus_1)
  have b: "\<not> bit (pins AND NOT (mask 16)) n" for n using a by (simp add: IS_GPIO_PIN_def hal_consts m)
  have "\<not> bit pins n" if "16 \<le> n" for n
    using that b [of n] bit_imp_le_length [of pins n] by (auto simp: bit_and_iff bit_not_iff bit_mask_iff)
  then show "drop_bit 16 pins = 0" by (intro bit_word_eqI) (simp add: bit_drop_bit_eq)
qed

lemma asserted_valid: "gpio_init_asserts port g \<Longrightarrow> valid_init g"
proof -
  assume "gpio_init_asserts port g"
  moreover have "take_bit 4 v = v" if "v \<le> 0xF" for v :: u32
    using that by (simp add: word_unat_eq_iff unsigned_take_bit_eq word_le_nat_alt) (simp add: take_bit_eq_mod)
  ultimately show ?thesis
    by (auto simp: gpio_init_asserts_def valid_init_def Let_def hal_consts mode_bits IS_GPIO_SPEED_def
        IS_GPIO_PULL_def IS_GPIO_AF_def take_bit_eq_mod)
qed

lemma asserted_init:
  assumes "gpio_init_asserts port g"
  shows "\<exists>h'. HAL_GPIO_Init port g h = Some h' \<and>
    (\<forall>k q. q < 16 \<longrightarrow> config_of (hw_port h' k) q =
       (if k = port \<and> bit (gpio_pin g) q then new_config g (config_of (hw_port h k) q)
        else config_of (hw_port h k) q))"
proof -
  have "valid_init g" "drop_bit 16 (gpio_pin g) = 0"
    using asserted_valid [OF assms] asserted_pins assms by (auto simp: gpio_init_asserts_def Let_def)
  then show ?thesis using assms gpio_init_config_aux by (simp add: HAL_GPIO_Init_def)
qed

text \<open>
  C7.  \<open>HAL_GPIO_Init\<close> stops the program exactly when one of its checks fails.  Otherwise it gives
  each selected pin of the port the requested mode, output type, speed, pull and alternate function
  (those that the mode has) and leaves the configuration of every other pin of this and of all
  other ports as it was.
\<close>

theorem gpio_init_config:
  "if gpio_init_asserts port g
   then \<exists>h'. HAL_GPIO_Init port g h = Some h' \<and>
     (\<forall>k. \<forall>q \<in> {0..<16}. config_of (hw_port h' k) q =
        (if k = port \<and> bit (gpio_pin g) q then new_config g (config_of (hw_port h k) q)
         else config_of (hw_port h k) q))
   else HAL_GPIO_Init port g h = None"
  using asserted_init [of port g h] by (auto simp: HAL_GPIO_Init_def)

definition reset_config :: pin_config where
  "reset_config = \<lparr>pin_mode = 3, pin_otype = 0, pin_speed = 0, pin_pull = 0, pin_af = 0\<rparr>"

lemma clear_as_put: "w AND NOT (push_bit n m) = put_bits m n 0 w"
  by (simp add: put_bits_def)

lemma set_as_put: "w OR push_bit n m = put_bits m n m w"
  by (rule bit_word_eqI) (auto simp: put_bits_def bit_simps)

lemma config_deinit_pin:
  assumes "p < 16" "q < 16"
  shows "config_of (deinit_pin_regs p r) q = (if p = q then reset_config else config_of r q)"
proof (cases "p = q")
  case True
  have t: "take_bit 2 (3 :: u32) = 3" by (simp add: mask_consts(1))
  have o0: "get_bits q (Suc 0) (w AND NOT (2 ^ q)) = 0" for w
    using get_put_same [of q "Suc 0" 0 w] assms(2) by (simp add: put_bits_def)
  show ?thesis using True assms
    by (simp add: deinit_pin_regs_def config_of_def reset_config_def hal_consts clear_as_put set_as_put
        put_rules t o0)
next
  case False
  have f2: "p * 2 + 2 \<le> q * 2 \<or> q * 2 + 2 \<le> p * 2" and f1: "p + Suc 0 \<le> q \<or> q + Suc 0 \<le> p"
    using False by auto
  have t: "take_bit 2 (3 :: u32) = 3" by (simp add: mask_consts(1))
  have o1: "get_bits q (Suc 0) (w AND NOT (2 ^ p)) = get_bits q (Suc 0) w" for w
    using get_put_other [of "Suc 0" 0 p q "Suc 0" w] f1 by (simp add: put_bits_def)
  show ?thesis using assms False f2 af_fields [OF False]
    by (auto simp: deinit_pin_regs_def config_of_def reset_config_def hal_consts clear_as_put set_as_put
        put_rules t o1)
qed

lemma asserted_deinit:
  assumes "IS_GPIO_ALL_INSTANCE port" "IS_GPIO_PIN pins"
  shows "\<exists>h'. HAL_GPIO_DeInit port pins h = Some h' \<and>
    (\<forall>k q. q < 16 \<longrightarrow> config_of (hw_port h' k) q =
       (if k = port \<and> bit pins q then reset_config else config_of (hw_port h k) q))"
proof -
  have low: "drop_bit 16 pins = 0" by (rule asserted_pins [OF assms(2)])
  have "config_of (hw_port (pin_loop pins (deinit_pin port) 0 h) k) q =
      (if k = port \<and> bit pins q then reset_config else config_of (hw_port h k) q)" if q: "q < 16" for k q
  proof -
    let ?v = "\<lambda>c. if k = port then reset_config else c"
    have step: "config_of (hw_port (deinit_pin port p s) k) q =
        (if p = q then ?v (config_of (hw_port s k) q) else config_of (hw_port s k) q)"
      if "bit pins p" for p s
      using low_pins [OF low that] q by (simp add: deinit_pin_def Let_def config_deinit_pin)
    show ?thesis
      using pin_loop_observe [of pins "\<lambda>s. config_of (hw_port s k) q" "deinit_pin port" q ?v h,
          OF step] q by simp
  qed
  then show ?thesis using assms by (simp add: HAL_GPIO_DeInit_def)
qed

text \<open>
  \<open>HAL_GPIO_DeInit\<close> stops the program exactly when one of its checks fails.  Otherwise it puts
  each selected pin into analog mode with the reset values of the other fields and leaves every
  other pin's configuration as it was.
\<close>

theorem gpio_deinit_config:
  "if IS_GPIO_ALL_INSTANCE port \<and> IS_GPIO_PIN pins
   then \<exists>h'. HAL_GPIO_DeInit port pins h = Some h' \<and>
     (\<forall>k. \<forall>q \<in> {0..<16}. config_of (hw_port h' k) q =
        (if k = port \<and> bit pins q then reset_config else config_of (hw_port h k) q))
   else HAL_GPIO_DeInit port pins h = None"
  using asserted_deinit [of port pins h] by (auto simp: HAL_GPIO_DeInit_def)

definition zero_hw :: gpio_hw where
  "zero_hw = \<lparr>hw_port = \<lambda>_. \<lparr>MODER = 0, OTYPER = 0, OSPEEDR = 0, PUPDR = 0, IDR = 0, ODR = 0, AFR = \<lambda>_. 0\<rparr>,
     hw_exticr = \<lambda>_. 0, hw_rtsr = 0, hw_ftsr = 0, hw_emr = 0, hw_imr = 0, hw_syscfg_clk = False\<rparr>"

lemma gpio_init_config_witness:
  "\<exists>h'. HAL_GPIO_Init GPIOB_BASE \<lparr>gpio_pin = 0x40, gpio_mode = 2, gpio_pull = 0, gpio_speed = 3, gpio_alternate = 7\<rparr> zero_hw = Some h' \<and>
     pin_af (config_of (hw_port h' GPIOB_BASE) 6) = 7"
proof -
  let ?g = "\<lparr>gpio_pin = 0x40, gpio_mode = 2, gpio_pull = 0, gpio_speed = 3, gpio_alternate = 7\<rparr> :: gpio_init"
  have "gpio_init_asserts GPIOB_BASE ?g"
    by (simp add: gpio_init_asserts_def IS_GPIO_ALL_INSTANCE_def IS_GPIO_PIN_def IS_GPIO_MODE_def IS_GPIO_SPEED_def
        IS_GPIO_PULL_def IS_GPIO_AF_def Let_def hal_consts)
  then obtain h' where "HAL_GPIO_Init GPIOB_BASE ?g zero_hw = Some h'"
      "config_of (hw_port h' GPIOB_BASE) 6 = new_config ?g (config_of (hw_port zero_hw GPIOB_BASE) 6)"
    using gpio_init_config [of GPIOB_BASE ?g zero_hw] by auto
  then show ?thesis by (auto simp: new_config_def)
qed

lemma gpio_deinit_config_witness:
  "\<exists>h'. HAL_GPIO_DeInit GPIOC_BASE 1 zero_hw = Some h' \<and> config_of (hw_port h' GPIOC_BASE) 0 = reset_config"
proof -
  have "IS_GPIO_ALL_INSTANCE GPIOC_BASE \<and> IS_GPIO_PIN 1"
    by (simp add: IS_GPIO_ALL_INSTANCE_def IS_GPIO_PIN_def hal_consts)
  with gpio_deinit_config [of GPIOC_BASE 1 zero_hw] show ?thesis by auto
qed

end
