(* ===== verification/Sdram_hal.thy ===== *)
theory Sdram_hal
  imports Gpio
begin

text \<open>
  The driver of the SDRAM controller, hal/stm32h7xx_hal_sdram.c over hal/stm32h7xx_ll_fmc.c: the
  handle with its state, the registers of the controller, and the operations.  Initialisation
  calls back into the board support package (\<open>HAL_SDRAM_MspInit\<close>); the callbacks are parameters
  here and instantiated in the theory of the board's memory.
\<close>

section \<open>Constants\<close>

definition FMC_SDRAM_BANK1 :: u32 where
  [hal_consts]: "FMC_SDRAM_BANK1 = 0x0"

definition FMC_SDRAM_BANK2 :: u32 where
  [hal_consts]: "FMC_SDRAM_BANK2 = 0x1"

definition FMC_SDRAM_COLUMN_BITS_NUM_9 :: u32 where
  [hal_consts]: "FMC_SDRAM_COLUMN_BITS_NUM_9 = 0x1"

definition FMC_SDRAM_ROW_BITS_NUM_13 :: u32 where
  [hal_consts]: "FMC_SDRAM_ROW_BITS_NUM_13 = 0x8"

definition FMC_SDRAM_MEM_BUS_WIDTH_16 :: u32 where
  [hal_consts]: "FMC_SDRAM_MEM_BUS_WIDTH_16 = 0x10"

definition FMC_SDRAM_INTERN_BANKS_NUM_4 :: u32 where
  [hal_consts]: "FMC_SDRAM_INTERN_BANKS_NUM_4 = 0x40"

definition FMC_SDRAM_CAS_LATENCY_3 :: u32 where
  [hal_consts]: "FMC_SDRAM_CAS_LATENCY_3 = 0x180"

definition FMC_SDRAM_WRITE_PROTECTION_DISABLE :: u32 where
  [hal_consts]: "FMC_SDRAM_WRITE_PROTECTION_DISABLE = 0x0"

definition FMC_SDRAM_WRITE_PROTECTION_ENABLE :: u32 where
  [hal_consts]: "FMC_SDRAM_WRITE_PROTECTION_ENABLE = 0x200"

definition FMC_SDRAM_CLOCK_PERIOD_2 :: u32 where
  [hal_consts]: "FMC_SDRAM_CLOCK_PERIOD_2 = 0x800"

definition FMC_SDRAM_RBURST_ENABLE :: u32 where
  [hal_consts]: "FMC_SDRAM_RBURST_ENABLE = 0x1000"

definition FMC_SDRAM_RPIPE_DELAY_1 :: u32 where
  [hal_consts]: "FMC_SDRAM_RPIPE_DELAY_1 = 0x2000"

definition FMC_SDRAM_CMD_TARGET_BANK1 :: u32 where
  [hal_consts]: "FMC_SDRAM_CMD_TARGET_BANK1 = 0x10"

definition FMC_SDRAM_CMD_CLK_ENABLE :: u32 where
  [hal_consts]: "FMC_SDRAM_CMD_CLK_ENABLE = 0x1"

definition FMC_SDRAM_CMD_PALL :: u32 where
  [hal_consts]: "FMC_SDRAM_CMD_PALL = 0x2"

definition FMC_SDRAM_CMD_AUTOREFRESH_MODE :: u32 where
  [hal_consts]: "FMC_SDRAM_CMD_AUTOREFRESH_MODE = 0x3"

definition FMC_SDRAM_CMD_LOAD_MODE :: u32 where
  [hal_consts]: "FMC_SDRAM_CMD_LOAD_MODE = 0x4"

definition FMC_SDCRx_NC :: u32 where
  [hal_consts]: "FMC_SDCRx_NC = 0x3"

definition FMC_SDCRx_NR :: u32 where
  [hal_consts]: "FMC_SDCRx_NR = 0xc"

definition FMC_SDCRx_MWID :: u32 where
  [hal_consts]: "FMC_SDCRx_MWID = 0x30"

definition FMC_SDCRx_NB :: u32 where
  [hal_consts]: "FMC_SDCRx_NB = 0x40"

definition FMC_SDCRx_CAS :: u32 where
  [hal_consts]: "FMC_SDCRx_CAS = 0x180"

definition FMC_SDCRx_WP :: u32 where
  [hal_consts]: "FMC_SDCRx_WP = 0x200"

definition FMC_SDCRx_SDCLK :: u32 where
  [hal_consts]: "FMC_SDCRx_SDCLK = 0xc00"

definition FMC_SDCRx_RBURST :: u32 where
  [hal_consts]: "FMC_SDCRx_RBURST = 0x1000"

definition FMC_SDCRx_RPIPE :: u32 where
  [hal_consts]: "FMC_SDCRx_RPIPE = 0x6000"

definition FMC_SDTRx_TMRD :: u32 where
  [hal_consts]: "FMC_SDTRx_TMRD = 0xf"

definition FMC_SDTRx_TXSR :: u32 where
  [hal_consts]: "FMC_SDTRx_TXSR = 0xf0"

definition FMC_SDTRx_TRAS :: u32 where
  [hal_consts]: "FMC_SDTRx_TRAS = 0xf00"

definition FMC_SDTRx_TRC :: u32 where
  [hal_consts]: "FMC_SDTRx_TRC = 0xf000"

definition FMC_SDTRx_TWR :: u32 where
  [hal_consts]: "FMC_SDTRx_TWR = 0xf0000"

definition FMC_SDTRx_TRP :: u32 where
  [hal_consts]: "FMC_SDTRx_TRP = 0xf00000"

definition FMC_SDTRx_TRCD :: u32 where
  [hal_consts]: "FMC_SDTRx_TRCD = 0xf000000"

definition FMC_SDCMR_MODE :: u32 where
  [hal_consts]: "FMC_SDCMR_MODE = 0x7"

definition FMC_SDCMR_CTB2 :: u32 where
  [hal_consts]: "FMC_SDCMR_CTB2 = 0x8"

definition FMC_SDCMR_CTB1 :: u32 where
  [hal_consts]: "FMC_SDCMR_CTB1 = 0x10"

definition FMC_SDCMR_NRFS :: u32 where
  [hal_consts]: "FMC_SDCMR_NRFS = 0x1e0"

definition FMC_SDCMR_MRD :: u32 where
  [hal_consts]: "FMC_SDCMR_MRD = 0x3ffe00"

definition FMC_SDRTR_COUNT :: u32 where
  [hal_consts]: "FMC_SDRTR_COUNT = 0x3ffe"

definition FMC_SDSR_MODES1 :: u32 where
  [hal_consts]: "FMC_SDSR_MODES1 = 0x6"

definition FMC_SDSR_MODES2 :: u32 where
  [hal_consts]: "FMC_SDSR_MODES2 = 0x18"

definition FMC_BCR1_FMCEN :: u32 where
  [hal_consts]: "FMC_BCR1_FMCEN = 0x80000000"

definition FMC_SDTRx_TXSR_Pos :: nat where
  [hal_consts]: "FMC_SDTRx_TXSR_Pos = 0x4"

definition FMC_SDTRx_TRAS_Pos :: nat where
  [hal_consts]: "FMC_SDTRx_TRAS_Pos = 0x8"

definition FMC_SDTRx_TRC_Pos :: nat where
  [hal_consts]: "FMC_SDTRx_TRC_Pos = 0xc"

definition FMC_SDTRx_TWR_Pos :: nat where
  [hal_consts]: "FMC_SDTRx_TWR_Pos = 0x10"

definition FMC_SDTRx_TRP_Pos :: nat where
  [hal_consts]: "FMC_SDTRx_TRP_Pos = 0x14"

definition FMC_SDTRx_TRCD_Pos :: nat where
  [hal_consts]: "FMC_SDTRx_TRCD_Pos = 0x18"

definition FMC_SDCMR_NRFS_Pos :: nat where
  [hal_consts]: "FMC_SDCMR_NRFS_Pos = 0x5"

definition FMC_SDCMR_MRD_Pos :: nat where
  [hal_consts]: "FMC_SDCMR_MRD_Pos = 0x9"

definition FMC_SDRTR_COUNT_Pos :: nat where
  [hal_consts]: "FMC_SDRTR_COUNT_Pos = 0x1"

definition FMC_SDRAM_COLUMN_BITS_NUM_8 :: u32 where
  [hal_consts]: "FMC_SDRAM_COLUMN_BITS_NUM_8 = 0x0"

definition FMC_SDRAM_COLUMN_BITS_NUM_10 :: u32 where
  [hal_consts]: "FMC_SDRAM_COLUMN_BITS_NUM_10 = 0x2"

definition FMC_SDRAM_COLUMN_BITS_NUM_11 :: u32 where
  [hal_consts]: "FMC_SDRAM_COLUMN_BITS_NUM_11 = 0x3"

definition FMC_SDRAM_ROW_BITS_NUM_11 :: u32 where
  [hal_consts]: "FMC_SDRAM_ROW_BITS_NUM_11 = 0x0"

definition FMC_SDRAM_ROW_BITS_NUM_12 :: u32 where
  [hal_consts]: "FMC_SDRAM_ROW_BITS_NUM_12 = 0x4"

definition FMC_SDRAM_MEM_BUS_WIDTH_8 :: u32 where
  [hal_consts]: "FMC_SDRAM_MEM_BUS_WIDTH_8 = 0x0"

definition FMC_SDRAM_MEM_BUS_WIDTH_32 :: u32 where
  [hal_consts]: "FMC_SDRAM_MEM_BUS_WIDTH_32 = 0x20"

definition FMC_SDRAM_INTERN_BANKS_NUM_2 :: u32 where
  [hal_consts]: "FMC_SDRAM_INTERN_BANKS_NUM_2 = 0x0"

definition FMC_SDRAM_CAS_LATENCY_1 :: u32 where
  [hal_consts]: "FMC_SDRAM_CAS_LATENCY_1 = 0x80"

definition FMC_SDRAM_CAS_LATENCY_2 :: u32 where
  [hal_consts]: "FMC_SDRAM_CAS_LATENCY_2 = 0x100"

definition FMC_SDRAM_CLOCK_DISABLE :: u32 where
  [hal_consts]: "FMC_SDRAM_CLOCK_DISABLE = 0x0"

definition FMC_SDRAM_CLOCK_PERIOD_3 :: u32 where
  [hal_consts]: "FMC_SDRAM_CLOCK_PERIOD_3 = 0xc00"

definition FMC_SDRAM_RBURST_DISABLE :: u32 where
  [hal_consts]: "FMC_SDRAM_RBURST_DISABLE = 0x0"

definition FMC_SDRAM_RPIPE_DELAY_0 :: u32 where
  [hal_consts]: "FMC_SDRAM_RPIPE_DELAY_0 = 0x0"

definition FMC_SDRAM_RPIPE_DELAY_2 :: u32 where
  [hal_consts]: "FMC_SDRAM_RPIPE_DELAY_2 = 0x4000"

definition FMC_SDRAM_CMD_NORMAL_MODE :: u32 where
  [hal_consts]: "FMC_SDRAM_CMD_NORMAL_MODE = 0x0"

definition FMC_SDRAM_CMD_SELFREFRESH_MODE :: u32 where
  [hal_consts]: "FMC_SDRAM_CMD_SELFREFRESH_MODE = 0x5"

definition FMC_SDRAM_CMD_POWERDOWN_MODE :: u32 where
  [hal_consts]: "FMC_SDRAM_CMD_POWERDOWN_MODE = 0x6"

definition FMC_SDRAM_CMD_TARGET_BANK2 :: u32 where
  [hal_consts]: "FMC_SDRAM_CMD_TARGET_BANK2 = 0x8"

definition FMC_SDRAM_CMD_TARGET_BANK1_2 :: u32 where
  [hal_consts]: "FMC_SDRAM_CMD_TARGET_BANK1_2 = 0x18"


definition FMC_Bank5_6_R_BASE :: u32 where
  [base_defs]: "FMC_Bank5_6_R_BASE = FMC_R_BASE + 0x140"

section \<open>State\<close>

datatype hal_sdram_state =
    HAL_SDRAM_STATE_RESET
  | HAL_SDRAM_STATE_READY
  | HAL_SDRAM_STATE_BUSY
  | HAL_SDRAM_STATE_ERROR
  | HAL_SDRAM_STATE_WRITE_PROTECTED
  | HAL_SDRAM_STATE_PRECHARGED

record fmc_regs =
  SDCR :: "u32 \<Rightarrow> u32"
  SDTR :: "u32 \<Rightarrow> u32"
  SDCMR :: u32
  SDRTR :: u32
  SDSR :: u32

record sdram_handle =
  hs_instance :: u32
  hs_init :: sdram_init
  hs_locked :: bool
  hs_state :: hal_sdram_state

text \<open>
  The controller, the handle, the two variables of the callbacks and the log.  \<open>sy_btcr\<close> is
  \<open>FMC_Bank1_R->BTCR[0]\<close>.
\<close>

record sdram_sys =
  sy_handle :: sdram_handle
  sy_dev :: "u32 \<Rightarrow> fmc_regs"
  sy_btcr :: u32
  sy_fmc_initialized :: bool
  sy_fmc_deinitialized :: bool
  sy_log :: log

section \<open>Checks of parameters\<close>

definition is_sdram_bank :: "u32 \<Rightarrow> bool" where
  "is_sdram_bank b \<longleftrightarrow> b \<in> {FMC_SDRAM_BANK1, FMC_SDRAM_BANK2}"

definition fmc_init_asserts :: "sdram_init \<Rightarrow> bool" where
  "fmc_init_asserts i \<longleftrightarrow> is_sdram_bank (sd_bank i) \<and>
     sd_column_bits i \<in> {FMC_SDRAM_COLUMN_BITS_NUM_8, FMC_SDRAM_COLUMN_BITS_NUM_9, FMC_SDRAM_COLUMN_BITS_NUM_10,
                         FMC_SDRAM_COLUMN_BITS_NUM_11} \<and>
     sd_row_bits i \<in> {FMC_SDRAM_ROW_BITS_NUM_11, FMC_SDRAM_ROW_BITS_NUM_12, FMC_SDRAM_ROW_BITS_NUM_13} \<and>
     sd_data_width i \<in> {FMC_SDRAM_MEM_BUS_WIDTH_8, FMC_SDRAM_MEM_BUS_WIDTH_16, FMC_SDRAM_MEM_BUS_WIDTH_32} \<and>
     sd_internal_banks i \<in> {FMC_SDRAM_INTERN_BANKS_NUM_2, FMC_SDRAM_INTERN_BANKS_NUM_4} \<and>
     sd_cas_latency i \<in> {FMC_SDRAM_CAS_LATENCY_1, FMC_SDRAM_CAS_LATENCY_2, FMC_SDRAM_CAS_LATENCY_3} \<and>
     sd_write_protection i \<in> {FMC_SDRAM_WRITE_PROTECTION_DISABLE, FMC_SDRAM_WRITE_PROTECTION_ENABLE} \<and>
     sd_clock_period i \<in> {FMC_SDRAM_CLOCK_DISABLE, FMC_SDRAM_CLOCK_PERIOD_2, FMC_SDRAM_CLOCK_PERIOD_3} \<and>
     sd_read_burst i \<in> {FMC_SDRAM_RBURST_DISABLE, FMC_SDRAM_RBURST_ENABLE} \<and>
     sd_read_pipe_delay i \<in> {FMC_SDRAM_RPIPE_DELAY_0, FMC_SDRAM_RPIPE_DELAY_1, FMC_SDRAM_RPIPE_DELAY_2}"

definition fmc_timing_asserts :: "sdram_timing \<Rightarrow> bool" where
  "fmc_timing_asserts t \<longleftrightarrow>
     list_all (\<lambda>v. 0 < v \<and> v \<le> 16)
       [st_load_to_active t, st_exit_self_refresh t, st_self_refresh_time t, st_row_cycle t,
        st_write_recovery t, st_rp_delay t, st_rcd_delay t]"

definition fmc_command_asserts :: "sdram_command \<Rightarrow> bool" where
  "fmc_command_asserts c \<longleftrightarrow>
     sc_mode c \<in> {FMC_SDRAM_CMD_NORMAL_MODE, FMC_SDRAM_CMD_CLK_ENABLE, FMC_SDRAM_CMD_PALL,
                  FMC_SDRAM_CMD_AUTOREFRESH_MODE, FMC_SDRAM_CMD_LOAD_MODE, FMC_SDRAM_CMD_SELFREFRESH_MODE,
                  FMC_SDRAM_CMD_POWERDOWN_MODE} \<and>
     sc_target c \<in> {FMC_SDRAM_CMD_TARGET_BANK1, FMC_SDRAM_CMD_TARGET_BANK2, FMC_SDRAM_CMD_TARGET_BANK1_2} \<and>
     0 < sc_auto_refresh c \<and> sc_auto_refresh c \<le> 15 \<and> sc_mode_register c \<le> 8191"

section \<open>Registers\<close>

text \<open>
  The functions of the lower layer check the controller and their parameters and then change
  registers; \<open>None\<close> is a failed check, which stops the program.
\<close>

definition is_fmc_device :: "u32 \<Rightarrow> bool" where
  "is_fmc_device d \<longleftrightarrow> d = FMC_Bank5_6_R_BASE"

definition SDCR_CLEAR_MASK :: u32 where
  "SDCR_CLEAR_MASK = FMC_SDCRx_NC OR FMC_SDCRx_NR OR FMC_SDCRx_MWID OR FMC_SDCRx_NB OR FMC_SDCRx_CAS OR
     FMC_SDCRx_WP OR FMC_SDCRx_SDCLK OR FMC_SDCRx_RBURST OR FMC_SDCRx_RPIPE"

definition SDTR_CLEAR_MASK :: u32 where
  "SDTR_CLEAR_MASK = FMC_SDTRx_TMRD OR FMC_SDTRx_TXSR OR FMC_SDTRx_TRAS OR FMC_SDTRx_TRC OR FMC_SDTRx_TWR OR
     FMC_SDTRx_TRP OR FMC_SDTRx_TRCD"

definition FMC_SDRAM_Init :: "sdram_init \<Rightarrow> fmc_regs \<Rightarrow> fmc_regs option" where
  "FMC_SDRAM_Init i r =
     (if \<not> (fmc_init_asserts i) then None
      else Some (
     (let geometry = sd_column_bits i OR sd_row_bits i OR sd_data_width i OR sd_internal_banks i OR
                     sd_cas_latency i OR sd_write_protection i;
          common = sd_clock_period i OR sd_read_burst i OR sd_read_pipe_delay i;
          c = SDCR r
      in if sd_bank i = FMC_SDRAM_BANK1
         then r\<lparr>SDCR := c(FMC_SDRAM_BANK1 :=
                  modified SDCR_CLEAR_MASK (geometry OR common) (c FMC_SDRAM_BANK1))\<rparr>
         else r\<lparr>SDCR := c(FMC_SDRAM_BANK1 :=
                    modified (FMC_SDCRx_SDCLK OR FMC_SDCRx_RBURST OR FMC_SDCRx_RPIPE) common (c FMC_SDRAM_BANK1),
                  FMC_SDRAM_BANK2 := modified SDCR_CLEAR_MASK geometry (c FMC_SDRAM_BANK2))\<rparr>)))"

definition FMC_SDRAM_Timing_Init :: "sdram_timing \<Rightarrow> u32 \<Rightarrow> fmc_regs \<Rightarrow> fmc_regs option" where
  "FMC_SDRAM_Timing_Init t bank r =
     (if \<not> (fmc_timing_asserts t \<and> is_sdram_bank bank) then None
      else Some (
     (let tmrd = st_load_to_active t - 1;
          txsr = push_bit FMC_SDTRx_TXSR_Pos (st_exit_self_refresh t - 1);
          tras = push_bit FMC_SDTRx_TRAS_Pos (st_self_refresh_time t - 1);
          trc = push_bit FMC_SDTRx_TRC_Pos (st_row_cycle t - 1);
          twr = push_bit FMC_SDTRx_TWR_Pos (st_write_recovery t - 1);
          trp = push_bit FMC_SDTRx_TRP_Pos (st_rp_delay t - 1);
          trcd = push_bit FMC_SDTRx_TRCD_Pos (st_rcd_delay t - 1);
          c = SDTR r
      in if bank = FMC_SDRAM_BANK1
         then r\<lparr>SDTR := c(FMC_SDRAM_BANK1 :=
                  modified SDTR_CLEAR_MASK (tmrd OR txsr OR tras OR trc OR twr OR trp OR trcd)
                    (c FMC_SDRAM_BANK1))\<rparr>
         else r\<lparr>SDTR := c(FMC_SDRAM_BANK1 :=
                    modified (FMC_SDTRx_TRC OR FMC_SDTRx_TRP) (trc OR trp) (c FMC_SDRAM_BANK1),
                  FMC_SDRAM_BANK2 :=
                    modified SDTR_CLEAR_MASK (tmrd OR txsr OR tras OR twr OR trcd) (c FMC_SDRAM_BANK2))\<rparr>)))"

definition FMC_SDRAM_DeInit :: "u32 \<Rightarrow> fmc_regs \<Rightarrow> fmc_regs option" where
  "FMC_SDRAM_DeInit bank r =
     (if \<not> (is_sdram_bank bank) then None
      else Some (
     r\<lparr>SDCR := (SDCR r)(bank := 0x000002D0), SDTR := (SDTR r)(bank := 0x0FFFFFFF),
       SDCMR := 0, SDRTR := 0, SDSR := 0\<rparr>))"

definition FMC_SDRAM_WriteProtection_Enable :: "u32 \<Rightarrow> fmc_regs \<Rightarrow> fmc_regs option" where
  "FMC_SDRAM_WriteProtection_Enable bank r =
     (if \<not> (is_sdram_bank bank) then None
      else Some (
     r\<lparr>SDCR := (SDCR r)(bank := SDCR r bank OR FMC_SDRAM_WRITE_PROTECTION_ENABLE)\<rparr>))"

definition FMC_SDRAM_WriteProtection_Disable :: "u32 \<Rightarrow> fmc_regs \<Rightarrow> fmc_regs option" where
  "FMC_SDRAM_WriteProtection_Disable bank r =
     (if \<not> (is_sdram_bank bank) then None
      else Some (
     r\<lparr>SDCR := (SDCR r)(bank := SDCR r bank AND NOT FMC_SDRAM_WRITE_PROTECTION_ENABLE)\<rparr>))"

definition FMC_SDRAM_SendCommand :: "sdram_command \<Rightarrow> fmc_regs \<Rightarrow> fmc_regs option" where
  "FMC_SDRAM_SendCommand c r =
     (if \<not> (fmc_command_asserts c) then None
      else Some (
     r\<lparr>SDCMR := modified (FMC_SDCMR_MODE OR FMC_SDCMR_CTB2 OR FMC_SDCMR_CTB1 OR FMC_SDCMR_NRFS OR FMC_SDCMR_MRD)
         (sc_mode c OR sc_target c OR push_bit FMC_SDCMR_NRFS_Pos (sc_auto_refresh c - 1) OR
          push_bit FMC_SDCMR_MRD_Pos (sc_mode_register c)) (SDCMR r)\<rparr>))"

definition FMC_SDRAM_ProgramRefreshRate :: "u32 \<Rightarrow> fmc_regs \<Rightarrow> fmc_regs option" where
  "FMC_SDRAM_ProgramRefreshRate rate r =
     (if \<not> (rate \<le> 8191) then None
      else Some (
     r\<lparr>SDRTR := modified FMC_SDRTR_COUNT (push_bit FMC_SDRTR_COUNT_Pos rate) (SDRTR r)\<rparr>))"

definition FMC_SDRAM_SetAutoRefreshNumber :: "u32 \<Rightarrow> fmc_regs \<Rightarrow> fmc_regs option" where
  "FMC_SDRAM_SetAutoRefreshNumber n r =
     (if \<not> (0 < n \<and> n \<le> 15) then None
      else Some (
     r\<lparr>SDCMR := modified FMC_SDCMR_NRFS (push_bit FMC_SDCMR_NRFS_Pos (n - 1)) (SDCMR r)\<rparr>))"

definition FMC_SDRAM_GetModeStatus :: "u32 \<Rightarrow> fmc_regs \<Rightarrow> u32 option" where
  "FMC_SDRAM_GetModeStatus bank r =
     (if \<not> is_sdram_bank bank then None else Some (if bank = FMC_SDRAM_BANK1 then SDSR r AND FMC_SDSR_MODES1 else drop_bit 2 (SDSR r AND FMC_SDSR_MODES2)))"

section \<open>Operations\<close>

definition set_sdram_state :: "hal_sdram_state \<Rightarrow> sdram_sys \<Rightarrow> sdram_sys" where
  "set_sdram_state st s = s\<lparr>sy_handle := (sy_handle s)\<lparr>hs_state := st\<rparr>\<rparr>"

text \<open>A function of the lower layer on the controller of the handle, which it checks.\<close>

definition on_controller :: "(fmc_regs \<Rightarrow> fmc_regs option) \<Rightarrow> sdram_sys \<Rightarrow> sdram_sys option" where
  "on_controller f s =
     (let i = hs_instance (sy_handle s)
      in if is_fmc_device i then f (sy_dev s i) \<bind> (\<lambda>r. Some (s\<lparr>sy_dev := (sy_dev s)(i := r)\<rparr>)) else None)"

definition HAL_SDRAM_Init ::
  "(sdram_sys \<Rightarrow> sdram_sys) \<Rightarrow> sdram_timing \<Rightarrow> sdram_sys \<Rightarrow> (hal_status \<times> sdram_sys) option" where
  "HAL_SDRAM_Init msp_init timing s = do {
     let s1 = (if hs_state (sy_handle s) = HAL_SDRAM_STATE_RESET
               then msp_init (s\<lparr>sy_handle := (sy_handle s)\<lparr>hs_locked := False\<rparr>\<rparr>) else s);
     let s2 = set_sdram_state HAL_SDRAM_STATE_BUSY s1
                \<lparr>sy_log := sy_log s1 @ [Sdram (Sdram_init (hs_instance (sy_handle s1)) (hs_init (sy_handle s1)) timing)]\<rparr>;
     s3 \<leftarrow> on_controller (FMC_SDRAM_Init (hs_init (sy_handle s2))) s2;
     s4 \<leftarrow> on_controller (FMC_SDRAM_Timing_Init timing (sd_bank (hs_init (sy_handle s3)))) s3;
     let s5 = s4\<lparr>sy_btcr := sy_btcr s4 OR FMC_BCR1_FMCEN\<rparr>;
     Some (HAL_OK, set_sdram_state HAL_SDRAM_STATE_READY s5)
   }"

definition HAL_SDRAM_DeInit :: "(sdram_sys \<Rightarrow> sdram_sys) \<Rightarrow> sdram_sys \<Rightarrow> (hal_status \<times> sdram_sys) option" where
  "HAL_SDRAM_DeInit msp_deinit s = do {
     let s1 = msp_deinit s;
     s2 \<leftarrow> on_controller (FMC_SDRAM_DeInit (sd_bank (hs_init (sy_handle s1)))) s1;
     let s3 = set_sdram_state HAL_SDRAM_STATE_RESET s2;
     Some (HAL_OK, s3\<lparr>sy_handle := (sy_handle s3)\<lparr>hs_locked := False\<rparr>\<rparr>)
   }"

text \<open>
  The operations that need one of the states \<open>expected\<close>: they are busy meanwhile and leave the
  state \<open>after\<close>.
\<close>

definition guarded ::
  "hal_sdram_state list \<Rightarrow> hal_sdram_state \<Rightarrow> (fmc_regs \<Rightarrow> fmc_regs option) \<Rightarrow> event list \<Rightarrow> sdram_sys \<Rightarrow>
   (hal_status \<times> sdram_sys) option" where
  "guarded expected after f es s =
     (let st = hs_state (sy_handle s)
      in if st = HAL_SDRAM_STATE_BUSY then Some (HAL_BUSY, s)
         else if st \<in> set expected
         then on_controller f (set_sdram_state HAL_SDRAM_STATE_BUSY s\<lparr>sy_log := sy_log s @ es\<rparr>) \<bind>
                (\<lambda>s'. Some (HAL_OK, set_sdram_state after s'))
         else Some (HAL_ERROR, s))"

definition HAL_SDRAM_WriteProtection_Enable :: "sdram_sys \<Rightarrow> (hal_status \<times> sdram_sys) option" where
  "HAL_SDRAM_WriteProtection_Enable s =
     guarded [HAL_SDRAM_STATE_READY] HAL_SDRAM_STATE_WRITE_PROTECTED
       (FMC_SDRAM_WriteProtection_Enable (sd_bank (hs_init (sy_handle s)))) [] s"

definition HAL_SDRAM_WriteProtection_Disable :: "sdram_sys \<Rightarrow> (hal_status \<times> sdram_sys) option" where
  "HAL_SDRAM_WriteProtection_Disable s =
     guarded [HAL_SDRAM_STATE_WRITE_PROTECTED] HAL_SDRAM_STATE_READY
       (FMC_SDRAM_WriteProtection_Disable (sd_bank (hs_init (sy_handle s)))) [] s"

definition HAL_SDRAM_SendCommand :: "sdram_command \<Rightarrow> u32 \<Rightarrow> sdram_sys \<Rightarrow> (hal_status \<times> sdram_sys) option" where
  "HAL_SDRAM_SendCommand c timeout s =
     guarded [HAL_SDRAM_STATE_READY, HAL_SDRAM_STATE_PRECHARGED]
       (if sc_mode c = FMC_SDRAM_CMD_PALL then HAL_SDRAM_STATE_PRECHARGED else HAL_SDRAM_STATE_READY)
       (FMC_SDRAM_SendCommand c) [Sdram (Sdram_command (hs_instance (sy_handle s)) c timeout)] s"

definition HAL_SDRAM_ProgramRefreshRate :: "u32 \<Rightarrow> sdram_sys \<Rightarrow> (hal_status \<times> sdram_sys) option" where
  "HAL_SDRAM_ProgramRefreshRate rate s =
     guarded [HAL_SDRAM_STATE_READY] HAL_SDRAM_STATE_READY (FMC_SDRAM_ProgramRefreshRate rate)
       [Sdram (Sdram_refresh_rate (hs_instance (sy_handle s)) rate)] s"

definition HAL_SDRAM_SetAutoRefreshNumber :: "u32 \<Rightarrow> sdram_sys \<Rightarrow> (hal_status \<times> sdram_sys) option" where
  "HAL_SDRAM_SetAutoRefreshNumber n s =
     guarded [HAL_SDRAM_STATE_READY] HAL_SDRAM_STATE_READY (FMC_SDRAM_SetAutoRefreshNumber n) [] s"

definition HAL_SDRAM_GetModeStatus :: "sdram_sys \<Rightarrow> u32 option" where
  "HAL_SDRAM_GetModeStatus s =
     (if is_fmc_device (hs_instance (sy_handle s))
      then FMC_SDRAM_GetModeStatus (sd_bank (hs_init (sy_handle s))) (sy_dev s (hs_instance (sy_handle s)))
      else None)"

section \<open>The state machine\<close>

text \<open>What an operation of the driver leaves alone.\<close>

lemmas sdram_ops = HAL_SDRAM_WriteProtection_Enable_def HAL_SDRAM_WriteProtection_Disable_def
  HAL_SDRAM_SendCommand_def HAL_SDRAM_ProgramRefreshRate_def HAL_SDRAM_SetAutoRefreshNumber_def

datatype sdram_op =
    Op_init sdram_timing
  | Op_deinit
  | Op_protect
  | Op_unprotect
  | Op_command sdram_command u32
  | Op_refresh_rate u32
  | Op_auto_refresh u32

fun sdram_apply ::
  "(sdram_sys \<Rightarrow> sdram_sys) \<Rightarrow> (sdram_sys \<Rightarrow> sdram_sys) \<Rightarrow> sdram_op \<Rightarrow> sdram_sys \<Rightarrow> (hal_status \<times> sdram_sys) option" where
  "sdram_apply mi md (Op_init t) s = HAL_SDRAM_Init mi t s"
| "sdram_apply mi md Op_deinit s = HAL_SDRAM_DeInit md s"
| "sdram_apply mi md Op_protect s = HAL_SDRAM_WriteProtection_Enable s"
| "sdram_apply mi md Op_unprotect s = HAL_SDRAM_WriteProtection_Disable s"
| "sdram_apply mi md (Op_command c n) s = HAL_SDRAM_SendCommand c n s"
| "sdram_apply mi md (Op_refresh_rate n) s = HAL_SDRAM_ProgramRefreshRate n s"
| "sdram_apply mi md (Op_auto_refresh n) s = HAL_SDRAM_SetAutoRefreshNumber n s"

inductive sdram_reach :: "(sdram_sys \<Rightarrow> sdram_sys) \<Rightarrow> (sdram_sys \<Rightarrow> sdram_sys) \<Rightarrow> sdram_sys \<Rightarrow> sdram_sys \<Rightarrow> bool"
  for mi md s0 where
  start: "sdram_reach mi md s0 s0"
| step: "sdram_reach mi md s0 s \<Longrightarrow> sdram_apply mi md op s = Some (r, t) \<Longrightarrow> sdram_reach mi md s0 t"

text \<open>
  The protection bit of the bank agrees with the state, and no operation leaves the driver busy or
  in the error state.
\<close>

definition protected_bit :: "sdram_sys \<Rightarrow> bool" where
  "protected_bit s \<longleftrightarrow>
     (let h = sy_handle s in SDCR (sy_dev s (hs_instance h)) (sd_bank (hs_init h)) AND FMC_SDRAM_WRITE_PROTECTION_ENABLE \<noteq> 0)"

definition sdram_inv :: "sdram_sys \<Rightarrow> bool" where
  "sdram_inv s \<longleftrightarrow>
     (case hs_state (sy_handle s) of
        HAL_SDRAM_STATE_RESET \<Rightarrow> True
      | HAL_SDRAM_STATE_READY \<Rightarrow> \<not> protected_bit s
      | HAL_SDRAM_STATE_PRECHARGED \<Rightarrow> \<not> protected_bit s
      | HAL_SDRAM_STATE_WRITE_PROTECTED \<Rightarrow> protected_bit s
      | _ \<Rightarrow> False)"

lemma and_512_bit: "(v :: u32) AND 0x200 \<noteq> 0 \<longleftrightarrow> bit v 9"
proof -
  have "v AND 0x200 = v AND push_bit 9 1" by simp
  then show ?thesis
    by (metis and_exp_eq_0_iff_not_bit bit_word.rep_eq push_bit_of_1 exp_eq_0_imp_not_bit zero_neq_one)
qed

lemma protected_bit_iff:
  "protected_bit s \<longleftrightarrow>
     (let h = sy_handle s in bit (SDCR (sy_dev s (hs_instance h)) (sd_bank (hs_init h))) 9)"
  by (simp add: protected_bit_def Let_def hal_consts and_512_bit)

lemma clear_mask_bit: "bit SDCR_CLEAR_MASK 9"
  by (simp add: SDCR_CLEAR_MASK_def hal_consts flip: and_512_bit)

text \<open>Checked parameters other than the protection keep off the protection bit.\<close>

lemma asserted_bits:
  assumes "fmc_init_asserts i"
  shows "\<not> bit (sd_column_bits i) 9 \<and> \<not> bit (sd_row_bits i) 9 \<and> \<not> bit (sd_data_width i) 9 \<and>
     \<not> bit (sd_internal_banks i) 9 \<and> \<not> bit (sd_cas_latency i) 9 \<and> \<not> bit (sd_clock_period i) 9 \<and>
     \<not> bit (sd_read_burst i) 9 \<and> \<not> bit (sd_read_pipe_delay i) 9"
proof -
  note a = assms [unfolded fmc_init_asserts_def]
  have "\<not> bit (sd_column_bits i) 9"
    using a [THEN conjunct2, THEN conjunct1]
    by (auto simp: hal_consts simp flip: and_512_bit)
  moreover
  have "\<not> bit (sd_row_bits i) 9"
    using a [THEN conjunct2, THEN conjunct2, THEN conjunct1]
    by (auto simp: hal_consts simp flip: and_512_bit)
  moreover
  have "\<not> bit (sd_data_width i) 9"
    using a [THEN conjunct2, THEN conjunct2, THEN conjunct2, THEN conjunct1]
    by (auto simp: hal_consts simp flip: and_512_bit)
  moreover
  have "\<not> bit (sd_internal_banks i) 9"
    using a [THEN conjunct2, THEN conjunct2, THEN conjunct2, THEN conjunct2, THEN conjunct1]
    by (auto simp: hal_consts simp flip: and_512_bit)
  moreover
  have "\<not> bit (sd_cas_latency i) 9"
    using a [THEN conjunct2, THEN conjunct2, THEN conjunct2, THEN conjunct2, THEN conjunct2, THEN conjunct1]
    by (auto simp: hal_consts simp flip: and_512_bit)
  moreover
  have "\<not> bit (sd_clock_period i) 9"
    using a [THEN conjunct2, THEN conjunct2, THEN conjunct2, THEN conjunct2, THEN conjunct2, THEN conjunct2, THEN conjunct2, THEN conjunct1]
    by (auto simp: hal_consts simp flip: and_512_bit)
  moreover
  have "\<not> bit (sd_read_burst i) 9"
    using a [THEN conjunct2, THEN conjunct2, THEN conjunct2, THEN conjunct2, THEN conjunct2, THEN conjunct2, THEN conjunct2, THEN conjunct2, THEN conjunct1]
    by (auto simp: hal_consts simp flip: and_512_bit)
  moreover
  have "\<not> bit (sd_read_pipe_delay i) 9"
    using a [THEN conjunct2, THEN conjunct2, THEN conjunct2, THEN conjunct2, THEN conjunct2, THEN conjunct2, THEN conjunct2, THEN conjunct2, THEN conjunct2]
    by (auto simp: hal_consts simp flip: and_512_bit)
  ultimately show ?thesis by blast
qed

lemma init_protection:
  assumes "FMC_SDRAM_Init i r = Some r'" "sd_write_protection i = FMC_SDRAM_WRITE_PROTECTION_DISABLE"
  shows "\<not> bit (SDCR r' (sd_bank i)) 9"
proof -
  have a: "fmc_init_asserts i" using assms(1) by (simp add: FMC_SDRAM_Init_def split: if_splits)
  have d: "\<not> bit FMC_SDRAM_WRITE_PROTECTION_DISABLE 9" by (simp add: hal_consts)
  have b: "sd_bank i = FMC_SDRAM_BANK1 \<or> sd_bank i = FMC_SDRAM_BANK2"
    using a by (simp add: fmc_init_asserts_def is_sdram_bank_def)
  have n: "FMC_SDRAM_BANK1 \<noteq> FMC_SDRAM_BANK2" by (simp add: hal_consts)
  show ?thesis using assms b d asserted_bits [OF a] clear_mask_bit n
    by (auto simp: FMC_SDRAM_Init_def a Let_def bit_modified bit_or_iff)
qed

lemma timing_keeps_control: "FMC_SDRAM_Timing_Init t b r = Some r' \<Longrightarrow> SDCR r' = SDCR r"
  by (auto simp: FMC_SDRAM_Timing_Init_def Let_def split: if_splits)

lemma command_keeps_control:
  "FMC_SDRAM_SendCommand c r = Some r' \<Longrightarrow> SDCR r' = SDCR r"
  "FMC_SDRAM_ProgramRefreshRate n r = Some r' \<Longrightarrow> SDCR r' = SDCR r"
  "FMC_SDRAM_SetAutoRefreshNumber n r = Some r' \<Longrightarrow> SDCR r' = SDCR r"
  by (auto simp: FMC_SDRAM_SendCommand_def FMC_SDRAM_ProgramRefreshRate_def FMC_SDRAM_SetAutoRefreshNumber_def
      split: if_splits)

lemma protection_is_bit_9: "bit FMC_SDRAM_WRITE_PROTECTION_ENABLE 9"
  by (simp add: hal_consts flip: and_512_bit)

lemma protect_bit:
  "FMC_SDRAM_WriteProtection_Enable b r = Some r' \<Longrightarrow> bit (SDCR r' b) 9"
  "FMC_SDRAM_WriteProtection_Disable b r = Some r' \<Longrightarrow> \<not> bit (SDCR r' b) 9"
  by (auto simp: FMC_SDRAM_WriteProtection_Enable_def FMC_SDRAM_WriteProtection_Disable_def
      bit_or_iff bit_and_iff bit_not_iff protection_is_bit_9 split: if_splits)

lemma on_controller_cases:
  assumes "on_controller f s = Some t"
  obtains r where "is_fmc_device (hs_instance (sy_handle s))" "f (sy_dev s (hs_instance (sy_handle s))) = Some r"
    "t = s\<lparr>sy_dev := (sy_dev s)(hs_instance (sy_handle s) := r)\<rparr>"
  using assms by (auto simp: on_controller_def Let_def bind_eq_Some_conv split: if_splits)

lemma guarded_cases:
  assumes "guarded st after f es s = Some (r, t)"
  obtains (busy) "hs_state (sy_handle s) = HAL_SDRAM_STATE_BUSY" "r = HAL_BUSY" "t = s"
    | (accepted) v where "hs_state (sy_handle s) \<in> set st" "r = HAL_OK"
        "f (sy_dev s (hs_instance (sy_handle s))) = Some v"
        "t = set_sdram_state after (s\<lparr>sy_log := sy_log s @ es, sy_dev := (sy_dev s)(hs_instance (sy_handle s) := v)\<rparr>)"
    | (refused) "hs_state (sy_handle s) \<notin> set st" "r = HAL_ERROR" "t = s"
proof -
  consider "hs_state (sy_handle s) = HAL_SDRAM_STATE_BUSY"
    | "hs_state (sy_handle s) \<noteq> HAL_SDRAM_STATE_BUSY" "hs_state (sy_handle s) \<in> set st"
    | "hs_state (sy_handle s) \<noteq> HAL_SDRAM_STATE_BUSY" "hs_state (sy_handle s) \<notin> set st" by blast
  then show thesis
  proof cases
    case 2
    then obtain s' where s': "on_controller f (set_sdram_state HAL_SDRAM_STATE_BUSY s\<lparr>sy_log := sy_log s @ es\<rparr>) = Some s'"
        "r = HAL_OK" "t = set_sdram_state after s'"
      using assms by (auto simp: guarded_def Let_def bind_eq_Some_conv)
    from s'(1) obtain v where "f (sy_dev s (hs_instance (sy_handle s))) = Some v"
        "s' = set_sdram_state HAL_SDRAM_STATE_BUSY s\<lparr>sy_log := sy_log s @ es, sy_dev := (sy_dev s)(hs_instance (sy_handle s) := v)\<rparr>"
      by (rule on_controller_cases) (simp add: set_sdram_state_def)
    then show thesis using accepted [OF 2(2) s'(2)] s'(3) by (simp add: set_sdram_state_def)
  next
    case 1
    then have "r = HAL_BUSY" "t = s" using assms by (simp_all add: guarded_def)
    then show thesis using busy 1 by blast
  next
    case 3
    then have "r = HAL_ERROR" "t = s" using assms by (simp_all add: guarded_def)
    then show thesis using refused 3 by blast
  qed
qed

text \<open>
  An operation that is accepted in the states \<open>st\<close> only keeps the invariant if it either sets the
  bit as its final state says, or leaves the register alone and runs in unprotected states.
\<close>

lemma guarded_inv:
  assumes "sdram_inv s" "guarded st after f es s = Some (r, t)"
    and "after \<in> {HAL_SDRAM_STATE_READY, HAL_SDRAM_STATE_PRECHARGED, HAL_SDRAM_STATE_WRITE_PROTECTED}"
    and "\<And>v v'. f v = Some v' \<Longrightarrow>
        (bit (SDCR v' (sd_bank (hs_init (sy_handle s)))) 9 \<longleftrightarrow> after = HAL_SDRAM_STATE_WRITE_PROTECTED) \<or>
        SDCR v' = SDCR v \<and> after \<noteq> HAL_SDRAM_STATE_WRITE_PROTECTED \<and>
          set st \<subseteq> {HAL_SDRAM_STATE_READY, HAL_SDRAM_STATE_PRECHARGED}"
  shows "sdram_inv t \<and> hs_init (sy_handle t) = hs_init (sy_handle s)"
  using assms(2)
proof (cases rule: guarded_cases)
  case (accepted v)
  from assms(4) [OF accepted(3)] show ?thesis
  proof
    assume "bit (SDCR v (sd_bank (hs_init (sy_handle s)))) 9 \<longleftrightarrow> after = HAL_SDRAM_STATE_WRITE_PROTECTED"
    then show ?thesis using assms(3) accepted(4)
      by (auto simp: sdram_inv_def protected_bit_iff Let_def set_sdram_state_def)
  next
    assume k: "SDCR v = SDCR (sy_dev s (hs_instance (sy_handle s))) \<and> after \<noteq> HAL_SDRAM_STATE_WRITE_PROTECTED \<and>
          set st \<subseteq> {HAL_SDRAM_STATE_READY, HAL_SDRAM_STATE_PRECHARGED}"
    then have "\<not> protected_bit s" using assms(1) accepted(1) by (auto simp: sdram_inv_def)
    then show ?thesis using k assms(3) accepted(4)
      by (auto simp: sdram_inv_def protected_bit_iff Let_def set_sdram_state_def)
  qed
qed (use assms(1) in auto)

section \<open>The callbacks\<close>

text \<open>What the driver relies on: the callbacks leave the handle and the controller alone.\<close>

locale sdram_callbacks =
  fixes msp_init msp_deinit :: "sdram_sys \<Rightarrow> sdram_sys"
  assumes init_handle: "sy_handle (msp_init s) = sy_handle s"
    and init_dev: "sy_dev (msp_init s) = sy_dev s"
    and deinit_handle: "sy_handle (msp_deinit s) = sy_handle s"
    and deinit_dev: "sy_dev (msp_deinit s) = sy_dev s"
begin

lemma init_inv:
  assumes "sd_write_protection (hs_init (sy_handle s)) = FMC_SDRAM_WRITE_PROTECTION_DISABLE"
    and "HAL_SDRAM_Init msp_init tm s = Some (r, t)"
  shows "sdram_inv t \<and> hs_init (sy_handle t) = hs_init (sy_handle s)"
proof -
  define s1 where "s1 = (if hs_state (sy_handle s) = HAL_SDRAM_STATE_RESET
    then msp_init (s\<lparr>sy_handle := (sy_handle s)\<lparr>hs_locked := False\<rparr>\<rparr>) else s)"
  have h: "hs_init (sy_handle s1) = hs_init (sy_handle s)" by (simp add: s1_def init_handle)
  obtain v w where vw: "FMC_SDRAM_Init (hs_init (sy_handle s1)) (sy_dev s1 (hs_instance (sy_handle s1))) = Some v"
      "FMC_SDRAM_Timing_Init tm (sd_bank (hs_init (sy_handle s1))) v = Some w"
      "hs_init (sy_handle t) = hs_init (sy_handle s1)" "hs_instance (sy_handle t) = hs_instance (sy_handle s1)"
      "hs_state (sy_handle t) = HAL_SDRAM_STATE_READY" "sy_dev t (hs_instance (sy_handle s1)) = w"
    using assms(2) unfolding HAL_SDRAM_Init_def s1_def [symmetric]
    by (auto simp: Let_def bind_eq_Some_conv set_sdram_state_def elim!: on_controller_cases)
  show ?thesis
    using init_protection [OF vw(1)] timing_keeps_control [OF vw(2)] assms(1) h vw(3-)
    by (simp add: sdram_inv_def protected_bit_iff Let_def)
qed

lemma deinit_inv:
  assumes "HAL_SDRAM_DeInit msp_deinit s = Some (r, t)"
  shows "sdram_inv t \<and> hs_init (sy_handle t) = hs_init (sy_handle s)"
  using assms
  by (auto simp: HAL_SDRAM_DeInit_def Let_def bind_eq_Some_conv sdram_inv_def set_sdram_state_def deinit_handle
      elim!: on_controller_cases)

lemma apply_inv:
  assumes "sdram_inv s" "sdram_apply msp_init msp_deinit op s = Some (r, t)"
    and "sd_write_protection (hs_init (sy_handle s)) = FMC_SDRAM_WRITE_PROTECTION_DISABLE"
  shows "sdram_inv t \<and> hs_init (sy_handle t) = hs_init (sy_handle s)"
proof -
  note inv = guarded_inv [OF assms(1)]
  note a = assms(2)
  show ?thesis
  proof (cases op)
    case (Op_init tm)
    then show ?thesis using a assms(3) init_inv by simp
  next
    case Op_deinit
    then show ?thesis using a deinit_inv by simp
  next
    case Op_protect
    show ?thesis
      by (rule inv [OF a [unfolded Op_protect sdram_apply.simps HAL_SDRAM_WriteProtection_Enable_def]])
        (auto dest: protect_bit)
  next
    case Op_unprotect
    show ?thesis
      by (rule inv [OF a [unfolded Op_unprotect sdram_apply.simps HAL_SDRAM_WriteProtection_Disable_def]])
        (auto dest: protect_bit)
  next
    case (Op_command c n)
    show ?thesis
      by (rule inv [OF a [unfolded Op_command sdram_apply.simps HAL_SDRAM_SendCommand_def]])
        (auto dest: command_keeps_control)
  next
    case (Op_refresh_rate n)
    show ?thesis
      by (rule inv [OF a [unfolded Op_refresh_rate sdram_apply.simps HAL_SDRAM_ProgramRefreshRate_def]])
        (auto dest: command_keeps_control)
  next
    case (Op_auto_refresh n)
    show ?thesis
      by (rule inv [OF a [unfolded Op_auto_refresh sdram_apply.simps HAL_SDRAM_SetAutoRefreshNumber_def]])
        (auto dest: command_keeps_control)
  qed
qed

lemma reach_inv:
  assumes "sdram_reach msp_init msp_deinit s0 s" "hs_state (sy_handle s0) = HAL_SDRAM_STATE_RESET"
    and "sd_write_protection (hs_init (sy_handle s0)) = FMC_SDRAM_WRITE_PROTECTION_DISABLE"
  shows "sdram_inv s \<and> hs_init (sy_handle s) = hs_init (sy_handle s0)"
  using assms(1)
proof (induction rule: sdram_reach.induct)
  case start
  then show ?case using assms(2) by (simp add: sdram_inv_def)
next
  case (step s op r t)
  then show ?case using apply_inv [of s op r t] assms(3) by simp
qed

end

end
