(* ===== verification/Bsp_led.thy ===== *)
theory Bsp_led
  imports Gpio
begin

text \<open>
  The light-emitting diodes of bsp/bsp_led.c: the table of ports and pins, their initialisation and
  the three operations.  A diode lights when its output is low.  The effect on the pins is that of
  the pin driver, applied to the events by \<open>gpio_replay\<close>.
\<close>

section \<open>Operations\<close>

datatype bsp_led_inst = BSP_LED_BLUE | BSP_LED_RED | BSP_LED_YELLOW

record led_info =
  led_port :: u32
  led_pin :: u16

definition led_info_list :: "led_info list" where
  "led_info_list =
     [\<lparr>led_port = GPIOC_BASE, led_pin = GPIO_PIN_13\<rparr>,
      \<lparr>led_port = GPIOA_BASE, led_pin = GPIO_PIN_11\<rparr>,
      \<lparr>led_port = GPIOH_BASE, led_pin = GPIO_PIN_7\<rparr>]"

fun led_index :: "bsp_led_inst \<Rightarrow> nat" where
  "led_index BSP_LED_BLUE = 0"
| "led_index BSP_LED_RED = 1"
| "led_index BSP_LED_YELLOW = 2"

definition led_init_one :: "led_info \<Rightarrow> log" where
  "led_init_one i =
     [Gpio (Gpio_write (led_port i) (led_pin i) True),
      Gpio (Gpio_init (led_port i)
        (zero_gpio\<lparr>gpio_mode := GPIO_MODE_OUTPUT_PP, gpio_pull := GPIO_NOPULL,
                   gpio_speed := GPIO_SPEED_FREQ_LOW, gpio_pin := ucast (led_pin i)\<rparr>))]"

definition bsp_led_init :: "log \<Rightarrow> log" where
  "bsp_led_init l = l @ concat (map led_init_one led_info_list)"

definition bsp_led_toggle :: "bsp_led_inst \<Rightarrow> log \<Rightarrow> log" where
  "bsp_led_toggle led l =
     (let i = led_info_list ! led_index led in l @ [Gpio (Gpio_toggle (led_port i) (led_pin i))])"

definition bsp_led_on :: "bsp_led_inst \<Rightarrow> log \<Rightarrow> log" where
  "bsp_led_on led l =
     (let i = led_info_list ! led_index led in l @ [Gpio (Gpio_write (led_port i) (led_pin i) False)])"

definition bsp_led_off :: "bsp_led_inst \<Rightarrow> log \<Rightarrow> log" where
  "bsp_led_off led l =
     (let i = led_info_list ! led_index led in l @ [Gpio (Gpio_write (led_port i) (led_pin i) True)])"

section \<open>Effect on the outputs\<close>

lemma gpio_replay_append: "gpio_replay (l @ m) h = gpio_replay l h \<bind> gpio_replay m"
  by (induction l arbitrary: h) (auto split: event.split gpio_event.split bind_split)

lemma bit_write_bsrr:
  "bit (ODR (hw_port (write_bsrr p v h) p)) q \<longleftrightarrow>
     (bit (ODR (hw_port h p)) q \<and> \<not> bit v (q + 16)) \<or> q < 16 \<and> bit v q"
proof -
  have m: "(0xFFFF :: u32) = mask 16" by (simp add: mask_eq_exp_minus_1)
  show ?thesis unfolding write_bsrr_def m
    by (auto simp: Let_def bit_simps add.commute dest: bit_imp_le_length)
qed

lemma hw_port_write_bsrr_other: "k \<noteq> p \<Longrightarrow> hw_port (write_bsrr p v h) k = hw_port h k"
  by (simp add: write_bsrr_def Let_def)

lemma config_write_bsrr [simp]: "config_of (hw_port (write_bsrr p v h) k) q = config_of (hw_port h k) q"
  by (simp add: write_bsrr_def Let_def config_of_def)

lemma bit_write_pin:
  assumes "HAL_GPIO_WritePin p pin v h = Some h'" "q < 16"
  shows "bit (ODR (hw_port h' p)) q \<longleftrightarrow> (if bit pin q then v else bit (ODR (hw_port h p)) q)"
  using assms bit_imp_le_length [of pin "q + 16"]
  by (auto simp: HAL_GPIO_WritePin_def bit_write_bsrr GPIO_NUMBER_def bit_simps split: if_splits)

lemma bit_toggle_pin:
  assumes "HAL_GPIO_TogglePin p pin h = Some h'" "q < 16"
  shows "bit (ODR (hw_port h' p)) q \<longleftrightarrow>
    (if bit pin q then \<not> bit (ODR (hw_port h p)) q else bit (ODR (hw_port h p)) q)"
  using assms bit_imp_le_length [of pin "q + 16"]
  by (auto simp: HAL_GPIO_TogglePin_def Let_def bit_write_bsrr GPIO_NUMBER_def bit_simps split: if_splits)

lemma pin_other:
  "HAL_GPIO_WritePin p pin v h = Some h' \<Longrightarrow> k \<noteq> p \<Longrightarrow> hw_port h' k = hw_port h k"
  "HAL_GPIO_TogglePin p pin h = Some h' \<Longrightarrow> k \<noteq> p \<Longrightarrow> hw_port h' k = hw_port h k"
  by (auto simp: HAL_GPIO_WritePin_def HAL_GPIO_TogglePin_def Let_def hw_port_write_bsrr_other split: if_splits)

definition led_lit :: "bsp_led_inst \<Rightarrow> gpio_hw \<Rightarrow> bool" where
  "led_lit led h \<longleftrightarrow>
     (let i = led_info_list ! led_index led
      in \<not> bit (ODR (hw_port h (led_port i))) (case led of BSP_LED_BLUE \<Rightarrow> 13 | BSP_LED_RED \<Rightarrow> 11 | BSP_LED_YELLOW \<Rightarrow> 7))"

lemma led_pins:
  "bit (led_pin (led_info_list ! led_index led))
     (case led of BSP_LED_BLUE \<Rightarrow> 13 | BSP_LED_RED \<Rightarrow> 11 | BSP_LED_YELLOW \<Rightarrow> 7)"
  by (cases led) (simp_all add: led_info_list_def hal_consts)

text \<open>The operations switch their own diode and no other.\<close>

lemma led_other:
  assumes "led' \<noteq> led" "pin = led_pin (led_info_list ! led_index led)"
  shows "led_port (led_info_list ! led_index led') \<noteq> led_port (led_info_list ! led_index led)"
  using assms by (cases led; cases led') (simp_all add: led_info_list_def base_defs)

text \<open>
  Switching a diode on lights it, switching it off puts it out, toggling inverts it, and the
  other two diodes keep their state, from any state of the pins.
\<close>

theorem led_switching:
  "\<exists>h1 h2 h3. gpio_replay (bsp_led_on led []) h = Some h1 \<and> gpio_replay (bsp_led_off led []) h = Some h2 \<and>
     gpio_replay (bsp_led_toggle led []) h = Some h3 \<and>
     map (led_lit d) [h1, h2, h3] =
       (if d = led then [True, False, \<not> led_lit led h] else [led_lit d h, led_lit d h, led_lit d h])"
proof -
  let ?i = "led_info_list ! led_index led"
  have a: "IS_GPIO_PIN (ucast (led_pin ?i))"
    by (cases led) (simp_all add: IS_GPIO_PIN_def led_info_list_def hal_consts)
  obtain h1 where h1: "HAL_GPIO_WritePin (led_port ?i) (led_pin ?i) False h = Some h1"
    using a by (simp add: HAL_GPIO_WritePin_def)
  obtain h2 where h2: "HAL_GPIO_WritePin (led_port ?i) (led_pin ?i) True h = Some h2"
    using a by (simp add: HAL_GPIO_WritePin_def)
  obtain h3 where h3: "HAL_GPIO_TogglePin (led_port ?i) (led_pin ?i) h = Some h3"
    using a by (simp add: HAL_GPIO_TogglePin_def Let_def)
  note ops = bsp_led_on_def bsp_led_off_def bsp_led_toggle_def
  show ?thesis
  proof (cases "d = led")
    case True
    have q: "(case led of BSP_LED_BLUE \<Rightarrow> 13 | BSP_LED_RED \<Rightarrow> 11 | BSP_LED_YELLOW \<Rightarrow> 7) < (16 :: nat)"
      by (cases led) simp_all
    show ?thesis
      by (simp add: True ops Let_def led_lit_def h1 h2 h3 bit_write_pin [OF h1 q] bit_write_pin [OF h2 q]
          bit_toggle_pin [OF h3 q] led_pins)
  next
    case False
    have p: "led_port (led_info_list ! led_index d) \<noteq> led_port ?i" by (rule led_other [OF False refl])
    show ?thesis using False
      by (simp add: ops Let_def led_lit_def h1 h2 h3 pin_other(1) [OF h1 p] pin_other(1) [OF h2 p]
          pin_other(2) [OF h3 p])
  qed
qed

end
