(* ===== verification/Itm.thy ===== *)
theory Itm
  imports Stm32
begin

text \<open>
  The trace port of the core, \<open>ITM_SendChar\<close> of cmsis/include/core_cm7.h with the port as a second
  argument, and what is printed through it.  Sending waits for the port as long as the hardware
  keeps it busy.
\<close>

unbundle bit_operations_syntax

section \<open>Sending\<close>

definition ITM_BASE :: u32 where
  [hal_consts]: "ITM_BASE = 0xE0000000"

definition ITM_TCR_ITMENA_Msk :: u32 where
  [hal_consts]: "ITM_TCR_ITMENA_Msk = 1"

text \<open>The registers \<open>PORT[port]\<close>, \<open>TER\<close> and \<open>TCR\<close> of \<open>ITM_Type\<close>.\<close>

definition ITM_PORT :: "u32 \<Rightarrow> u32" where "ITM_PORT port = ITM_BASE + 4 * port"
definition ITM_TER :: u32 where "ITM_TER = ITM_BASE + 0xE00"
definition ITM_TCR :: u32 where "ITM_TCR = ITM_BASE + 0xE80"

text \<open>\<open>None\<close>: a port of which the enable register has no bit, or a port that stays busy.\<close>

definition ITM_SendChar :: "hal_env \<Rightarrow> u32 \<Rightarrow> u32 \<Rightarrow> log \<Rightarrow> (u32 \<times> log) option" where
  "ITM_SendChar env ch port l =
     (let l1 = l @ [Reg_read ITM_TCR]; l2 = l1 @ [Reg_read ITM_TER]
      in if reg_value env l ITM_TCR AND ITM_TCR_ITMENA_Msk = 0 then Some (ch, l1)
         else if 32 \<le> port then None
         else if reg_value env l1 ITM_TER AND push_bit (unat port) 1 = 0 then Some (ch, l2)
         else wait_set env (ITM_PORT port) (- 1) l2 \<bind> (\<lambda>l3. Some (ch, l3 @ [Itm_char (ucast ch) port])))"

text \<open>A buffer sent character by character.\<close>

fun itm_send :: "hal_env \<Rightarrow> u8 list \<Rightarrow> u32 \<Rightarrow> log \<Rightarrow> log option" where
  "itm_send env [] port l = Some l"
| "itm_send env (b # bs) port l = ITM_SendChar env (ucast b) port l \<bind> (\<lambda>(_, l'). itm_send env bs port l')"

section \<open>What arrives\<close>

fun itm_out :: "log \<Rightarrow> (u8 \<times> u32) list" where
  "itm_out [] = []"
| "itm_out (Itm_char b p # l) = (b, p) # itm_out l"
| "itm_out (_ # l) = itm_out l"

lemma itm_out_append [simp]: "itm_out (l @ m) = itm_out l @ itm_out m"
  by (induction l rule: itm_out.induct) auto

lemma itm_out_reads [simp]: "itm_out (replicate n (Reg_read a)) = []"
  by (induction n) auto

lemma byte_round [simp]: "ucast (ucast (b :: u8) :: u32) = b"
  by (rule bit_word_eqI) (auto simp: bit_simps dest: bit_imp_le_length)

text \<open>The port is on and becomes free within \<open>n\<close> reads, whatever was done before.\<close>

definition itm_ready :: "hal_env \<Rightarrow> u32 \<Rightarrow> nat \<Rightarrow> bool" where
  "itm_ready env port n \<longleftrightarrow>
     (\<forall>l. reg_value env l ITM_TCR AND ITM_TCR_ITMENA_Msk \<noteq> 0 \<and>
          reg_value env l ITM_TER AND push_bit (unat port) 1 \<noteq> 0 \<and>
          (\<exists>k \<le> n. reg_value env (l @ replicate k (Reg_read (ITM_PORT port))) (ITM_PORT port) \<noteq> 0))"

definition itm_off :: "hal_env \<Rightarrow> bool" where
  "itm_off env \<longleftrightarrow> (\<forall>l. reg_value env l ITM_TCR AND ITM_TCR_ITMENA_Msk = 0)"

lemma wait_set_within:
  assumes "reg_value env (l @ replicate n (Reg_read a)) a AND msk \<noteq> 0"
  shows "\<exists>k \<le> n. wait_set env a msk l = Some (l @ replicate (Suc k) (Reg_read a))"
  using assms
proof (induction n arbitrary: l)
  case 0
  then show ?case by (auto simp: wait_set_now)
next
  case (Suc n)
  show ?case
  proof (cases "reg_value env l a AND msk = 0")
    case False
    then show ?thesis by (intro exI [of _ 0]) (simp add: wait_set_now)
  next
    case True
    then have "wait_set env a msk l = wait_set env a msk (l @ [Reg_read a])"
      by (subst wait_set.simps) (simp add: Let_def)
    moreover obtain k where "k \<le> n"
        "wait_set env a msk (l @ [Reg_read a]) = Some ((l @ [Reg_read a]) @ replicate (Suc k) (Reg_read a))"
      using Suc.IH [of "l @ [Reg_read a]"] Suc.prems by auto
    ultimately show ?thesis by (intro exI [of _ "Suc k"]) simp
  qed
qed

lemma send_char_ready:
  assumes "itm_ready env port n" "port < 32"
  shows "\<exists>m. ITM_SendChar env ch port l = Some (ch, l @ m) \<and> itm_out m = [(ucast ch, port)]"
proof -
  let ?l2 = "(l @ [Reg_read ITM_TCR]) @ [Reg_read ITM_TER]"
  obtain k where "reg_value env (?l2 @ replicate k (Reg_read (ITM_PORT port))) (ITM_PORT port) AND - 1 \<noteq> 0"
    using assms(1) unfolding itm_ready_def by (metis and.right_neutral)
  then obtain j where "wait_set env (ITM_PORT port) (- 1) ?l2 = Some (?l2 @ replicate (Suc j) (Reg_read (ITM_PORT port)))"
    using wait_set_within by blast
  then show ?thesis using assms
    by (simp add: ITM_SendChar_def Let_def itm_ready_def not_le [symmetric])
qed

lemma send_ready:
  assumes "itm_ready env port n" "port < 32"
  shows "\<exists>m. itm_send env bs port l = Some (l @ m) \<and> itm_out m = map (\<lambda>b. (b, port)) bs"
proof (induction bs arbitrary: l)
  case (Cons b bs)
  obtain m where m: "ITM_SendChar env (ucast b) port l = Some (ucast b, l @ m)" "itm_out m = [(b, port)]"
    using send_char_ready [OF assms, of "ucast b" l] by auto
  obtain m' where "itm_send env bs port (l @ m) = Some ((l @ m) @ m')" "itm_out m' = map (\<lambda>b. (b, port)) bs"
    using Cons.IH by blast
  with m show ?case by simp
qed simp

lemma send_off:
  assumes "itm_off env"
  shows "itm_send env bs port l = Some (l @ replicate (length bs) (Reg_read ITM_TCR))"
proof (induction bs arbitrary: l)
  case (Cons b bs)
  have "ITM_SendChar env (ucast b) port l = Some (ucast b, l @ [Reg_read ITM_TCR])"
    using assms by (simp add: ITM_SendChar_def itm_off_def Let_def)
  then show ?case using Cons.IH by simp
qed simp

definition bytes_of :: "string \<Rightarrow> u8 list" where
  "bytes_of s = map of_char s"

end
