(* ===== verification/Memory.thy ===== *)
theory Memory
  imports Prelude
begin

text \<open>
  Byte-addressed memory: stores and loads of 32 bits, the lowest byte first, at addresses that wrap
  as the machine's do.
\<close>

unbundle bit_operations_syntax

type_synonym memory = "u32 \<Rightarrow> u8"

definition store32 :: "u32 \<Rightarrow> u32 \<Rightarrow> memory \<Rightarrow> memory" where
  "store32 a v m = m(a := ucast v, a + 1 := ucast (drop_bit 8 v), a + 2 := ucast (drop_bit 16 v),
     a + 3 := ucast (drop_bit 24 v))"

definition load32 :: "memory \<Rightarrow> u32 \<Rightarrow> u32" where
  "load32 m a = ucast (m a) OR push_bit 8 (ucast (m (a + 1))) OR push_bit 16 (ucast (m (a + 2))) OR
     push_bit 24 (ucast (m (a + 3)))"

text \<open>Byte \<open>k\<close> of a word.\<close>

definition word_byte :: "u32 \<Rightarrow> nat \<Rightarrow> u8" where
  "word_byte c k = ucast (drop_bit (8 * k) c)"

lemma store32_bytes:
  assumes "uint a + 3 < 2 ^ 32" "uint a \<le> uint b"
  shows "store32 a v m b = (if uint b - uint a \<le> 3 then word_byte v (nat (uint b - uint a)) else m b)"
proof -
  have u: "uint (a + 1) = uint a + 1" "uint (a + 2) = uint a + 2" "uint (a + 3) = uint a + 3"
    using assms(1) by (simp_all add: uint_word_ariths)
  then have e: "b = a + 1 \<longleftrightarrow> uint b - uint a = 1" "b = a + 2 \<longleftrightarrow> uint b - uint a = 2"
      "b = a + 3 \<longleftrightarrow> uint b - uint a = 3" "b = a \<longleftrightarrow> uint b - uint a = 0"
    unfolding word_uint_eq_iff by linarith+
  have "uint b - uint a \<in> {0, 1, 2, 3} \<or> 3 < uint b - uint a" using assms(2) by auto
  then show ?thesis
    by (auto simp: store32_def e word_byte_def)
qed

lemma store32_below: "uint b < uint a \<Longrightarrow> uint a + 3 < 2 ^ 32 \<Longrightarrow> store32 a v m b = m b"
  by (auto simp: store32_def uint_word_ariths)

text \<open>Four bytes make the word they are the bytes of.\<close>

lemma load32_bytes:
  assumes "\<And>k. k < 4 \<Longrightarrow> m (a + of_nat k) = word_byte v k"
  shows "load32 m a = v"
proof -
  have b: "m a = word_byte v 0" "m (a + 1) = word_byte v 1" "m (a + 2) = word_byte v 2" "m (a + 3) = word_byte v 3"
    using assms [of 0] assms [of 1] assms [of 2] assms [of 3] by simp_all
  show ?thesis
  proof (rule bit_word_eqI)
    fix n
    assume "n < LENGTH(32)"
    then have "n < 8 \<or> 8 \<le> n \<and> n < 16 \<or> 16 \<le> n \<and> n < 24 \<or> 24 \<le> n \<and> n < 32" by auto
    then show "bit (load32 m a) n = bit v n"
      by (elim disjE) (auto simp: load32_def b word_byte_def bit_simps)
  qed
qed

end
