(* ===== verification/Bsp_sdram.thy ===== *)
theory Bsp_sdram
  imports Sdram_hal Bsp_led Itm Memory
begin

text \<open>
  The external memory of bsp/bsp_sdram.c: the two callbacks of the controller's driver, which
  configure clock and pins, the start-up sequence, whose assertions are on the driver's answers,
  and the test that fills the memory and reads it back.
\<close>

section \<open>Constants\<close>

definition SDRAM_MODEREG_BURST_LENGTH_1 :: u16 where [hal_consts]: "SDRAM_MODEREG_BURST_LENGTH_1 = 0"
definition SDRAM_MODEREG_BURST_LENGTH_2 :: u16 where [hal_consts]: "SDRAM_MODEREG_BURST_LENGTH_2 = 1"
definition SDRAM_MODEREG_BURST_LENGTH_4 :: u16 where [hal_consts]: "SDRAM_MODEREG_BURST_LENGTH_4 = 2"
definition SDRAM_MODEREG_BURST_LENGTH_8 :: u16 where [hal_consts]: "SDRAM_MODEREG_BURST_LENGTH_8 = 4"
definition SDRAM_MODEREG_BURST_TYPE_SEQUENTIAL :: u16 where [hal_consts]: "SDRAM_MODEREG_BURST_TYPE_SEQUENTIAL = 0"
definition SDRAM_MODEREG_CAS_LATENCY_2 :: u16 where [hal_consts]: "SDRAM_MODEREG_CAS_LATENCY_2 = 0x20"
definition SDRAM_MODEREG_CAS_LATENCY_3 :: u16 where [hal_consts]: "SDRAM_MODEREG_CAS_LATENCY_3 = 0x30"
definition SDRAM_MODEREG_OPERATING_MODE_STANDARD :: u16 where [hal_consts]: "SDRAM_MODEREG_OPERATING_MODE_STANDARD = 0"
definition SDRAM_MODEREG_WRITEBURST_MODE_SINGLE :: u16 where [hal_consts]: "SDRAM_MODEREG_WRITEBURST_MODE_SINGLE = 0x200"

section \<open>Callbacks\<close>

text \<open>The pins of the controller, port by port, in the order of the calls.\<close>

definition fmc_pins :: "(u32 \<times> u16) list" where
  "fmc_pins =
     [(GPIOE_BASE, GPIO_PIN_1 OR GPIO_PIN_0 OR GPIO_PIN_10 OR GPIO_PIN_9 OR GPIO_PIN_11 OR GPIO_PIN_12 OR
         GPIO_PIN_15 OR GPIO_PIN_8 OR GPIO_PIN_13 OR GPIO_PIN_7 OR GPIO_PIN_14),
      (GPIOG_BASE, GPIO_PIN_15 OR GPIO_PIN_8 OR GPIO_PIN_5 OR GPIO_PIN_4 OR GPIO_PIN_2 OR GPIO_PIN_0 OR GPIO_PIN_1),
      (GPIOD_BASE, GPIO_PIN_0 OR GPIO_PIN_1 OR GPIO_PIN_15 OR GPIO_PIN_14 OR GPIO_PIN_10 OR GPIO_PIN_9 OR GPIO_PIN_8),
      (GPIOF_BASE, GPIO_PIN_2 OR GPIO_PIN_1 OR GPIO_PIN_0 OR GPIO_PIN_3 OR GPIO_PIN_5 OR GPIO_PIN_4 OR
         GPIO_PIN_13 OR GPIO_PIN_14 OR GPIO_PIN_12 OR GPIO_PIN_15 OR GPIO_PIN_11),
      (GPIOC_BASE, GPIO_PIN_0),
      (GPIOH_BASE, GPIO_PIN_2 OR GPIO_PIN_3)]"

definition fmc_pin_init :: "u16 \<Rightarrow> gpio_init" where
  "fmc_pin_init pins =
     \<lparr>gpio_pin = ucast pins, gpio_mode = GPIO_MODE_AF_PP, gpio_pull = GPIO_NOPULL,
      gpio_speed = GPIO_SPEED_FREQ_VERY_HIGH, gpio_alternate = ucast GPIO_AF12_FMC\<rparr>"

definition HAL_SDRAM_MspInit :: "sdram_sys \<Rightarrow> sdram_sys" where
  "HAL_SDRAM_MspInit s =
     (if sy_fmc_initialized s then s
      else s\<lparr>sy_fmc_initialized := True,
             sy_log := sy_log s @ Clk ''FMC'' True # map (\<lambda>(p, pins). Gpio (Gpio_init p (fmc_pin_init pins))) fmc_pins\<rparr>)"

definition HAL_SDRAM_MspDeInit :: "sdram_sys \<Rightarrow> sdram_sys" where
  "HAL_SDRAM_MspDeInit s =
     (if sy_fmc_deinitialized s then s
      else s\<lparr>sy_fmc_deinitialized := True,
             sy_log := sy_log s @ Clk ''FMC'' False # map (\<lambda>(p, pins). Gpio (Gpio_deinit p (ucast pins))) fmc_pins\<rparr>)"

section \<open>Test\<close>

text \<open>
  \<open>rd\<close> is what a read of a word from a memory with the given bytes delivers, which for memory that
  works is \<open>load32\<close>.  The loops run while the pointer is below the end and wrap with it.
\<close>

partial_function (option) sdram_fill :: "u32 \<Rightarrow> u32 \<Rightarrow> memory \<Rightarrow> memory option" where
  "sdram_fill e i m = (if i < e then sdram_fill e (i + 4) (store32 i (i * i) m) else Some m)"

text \<open>The second loop: does it reach the end without a difference?\<close>

partial_function (option) sdram_verify ::
  "(memory \<Rightarrow> u32 \<Rightarrow> u32) \<Rightarrow> memory \<Rightarrow> u32 \<Rightarrow> u32 \<Rightarrow> bool option" where
  "sdram_verify rd m e i =
     (if i < e then (if rd m i \<noteq> i * i then Some False else sdram_verify rd m e (i + 4)) else Some True)"

definition bsp_sdram_test ::
  "hal_env \<Rightarrow> (memory \<Rightarrow> u32 \<Rightarrow> u32) \<Rightarrow> u32 \<Rightarrow> u32 \<Rightarrow> memory \<Rightarrow> log \<Rightarrow> (memory \<times> log) option" where
  "bsp_sdram_test env rd sext eext m l = do {
     m1 \<leftarrow> sdram_fill eext sext m;
     ok \<leftarrow> sdram_verify rd m1 eext sext;
     l1 \<leftarrow> (if ok then Some (l @ [Core Clean_invalidate_dcache])
            else itm_send env (bytes_of (''[bsp_sdram]: test failed'' @ [CHR 0x0A])) 1 (l @ [Core Clean_invalidate_dcache]));
     Some (m1, l1)
   }"

section \<open>Start-up\<close>

definition hsdram1_init :: sdram_init where
  "hsdram1_init =
     \<lparr>sd_bank = FMC_SDRAM_BANK1, sd_column_bits = FMC_SDRAM_COLUMN_BITS_NUM_9,
      sd_row_bits = FMC_SDRAM_ROW_BITS_NUM_13, sd_data_width = FMC_SDRAM_MEM_BUS_WIDTH_16,
      sd_internal_banks = FMC_SDRAM_INTERN_BANKS_NUM_4, sd_cas_latency = FMC_SDRAM_CAS_LATENCY_3,
      sd_write_protection = FMC_SDRAM_WRITE_PROTECTION_DISABLE, sd_clock_period = FMC_SDRAM_CLOCK_PERIOD_2,
      sd_read_burst = FMC_SDRAM_RBURST_ENABLE, sd_read_pipe_delay = FMC_SDRAM_RPIPE_DELAY_1\<rparr>"

definition sdram_timings :: sdram_timing where
  "sdram_timings =
     \<lparr>st_load_to_active = 2, st_exit_self_refresh = 7, st_self_refresh_time = 4, st_row_cycle = 7,
      st_write_recovery = 3, st_rp_delay = 2, st_rcd_delay = 2\<rparr>"

definition mode_register :: u32 where
  "mode_register = ucast (SDRAM_MODEREG_BURST_LENGTH_2 OR SDRAM_MODEREG_BURST_TYPE_SEQUENTIAL OR
     SDRAM_MODEREG_CAS_LATENCY_3 OR SDRAM_MODEREG_OPERATING_MODE_STANDARD OR SDRAM_MODEREG_WRITEBURST_MODE_SINGLE)"

text \<open>\<open>assert(f(...) == HAL_OK)\<close>: the program goes on with the state that \<open>f\<close> leaves, or stops.\<close>

definition assert_ok :: "(hal_status \<times> 's) option \<Rightarrow> 's option" where
  "assert_ok r = r \<bind> (\<lambda>(st, s). if st = HAL_OK then Some s else None)"

definition sdram_commands :: "sdram_sys \<Rightarrow> sdram_sys option" where
  "sdram_commands s = do {
     let c1 = \<lparr>sc_mode = FMC_SDRAM_CMD_CLK_ENABLE, sc_target = FMC_SDRAM_CMD_TARGET_BANK1,
               sc_auto_refresh = 1, sc_mode_register = 0\<rparr>;
     s1 \<leftarrow> assert_ok (HAL_SDRAM_SendCommand c1 0x1000 s);
     let c2 = c1\<lparr>sc_mode := FMC_SDRAM_CMD_PALL\<rparr>;
     s2 \<leftarrow> assert_ok (HAL_SDRAM_SendCommand c2 0x1000 (s1\<lparr>sy_log := sy_log s1 @ [Hal (Delay 1)]\<rparr>));
     let c3 = c2\<lparr>sc_auto_refresh := 8, sc_mode := FMC_SDRAM_CMD_AUTOREFRESH_MODE\<rparr>;
     s3 \<leftarrow> assert_ok (HAL_SDRAM_SendCommand c3 0x1000 s2);
     let c4 = c3\<lparr>sc_mode_register := mode_register, sc_mode := FMC_SDRAM_CMD_LOAD_MODE, sc_auto_refresh := 1\<rparr>;
     s4 \<leftarrow> assert_ok (HAL_SDRAM_SendCommand c4 0x1000 s3);
     (_, s5) \<leftarrow> HAL_SDRAM_ProgramRefreshRate 918 s4;
     Some s5
   }"

definition sdram_start :: "sdram_sys \<Rightarrow> sdram_sys option" where
  "sdram_start s =
     (let s0 = s\<lparr>sy_handle := (sy_handle s)\<lparr>hs_instance := FMC_Bank5_6_R_BASE, hs_init := hsdram1_init\<rparr>\<rparr>
      in assert_ok (HAL_SDRAM_Init HAL_SDRAM_MspInit sdram_timings s0) \<bind> sdram_commands)"

definition bsp_sdram_init ::
  "hal_env \<Rightarrow> (memory \<Rightarrow> u32 \<Rightarrow> u32) \<Rightarrow> u32 \<Rightarrow> u32 \<Rightarrow> memory \<Rightarrow> sdram_sys \<Rightarrow> (memory \<times> sdram_sys) option" where
  "bsp_sdram_init env rd sext eext m s = do {
     t \<leftarrow> sdram_start s;
     (m', l) \<leftarrow> bsp_sdram_test env rd sext eext m (sy_log t);
     Some (m', t\<lparr>sy_log := l\<rparr>)
   }"

section \<open>The callbacks keep the driver's contract\<close>

interpretation board: sdram_callbacks HAL_SDRAM_MspInit HAL_SDRAM_MspDeInit
  by unfold_locales (simp_all add: HAL_SDRAM_MspInit_def HAL_SDRAM_MspDeInit_def)

lemma hsdram1_checked: "fmc_init_asserts hsdram1_init \<and> fmc_timing_asserts sdram_timings"
  by (simp add: fmc_init_asserts_def is_sdram_bank_def fmc_timing_asserts_def hsdram1_init_def sdram_timings_def hal_consts)


section \<open>Registers and commands after the start-up\<close>

fun sdram_events :: "log \<Rightarrow> sdram_event list" where
  "sdram_events [] = []"
| "sdram_events (Sdram e # l) = e # sdram_events l"
| "sdram_events (_ # l) = sdram_events l"

lemma sdram_events_append [simp]: "sdram_events (l @ m) = sdram_events l @ sdram_events m"
  by (induction l rule: sdram_events.induct) auto

lemma sdram_events_msp [simp]:
  "sdram_events (sy_log (HAL_SDRAM_MspInit s)) = sdram_events (sy_log s)"
  by (simp add: HAL_SDRAM_MspInit_def fmc_pins_def)

definition board_command :: "u32 \<Rightarrow> u32 \<Rightarrow> u32 \<Rightarrow> sdram_event" where
  "board_command mode refreshes mode_reg =
     Sdram_command FMC_Bank5_6_R_BASE
       \<lparr>sc_mode = mode, sc_target = FMC_SDRAM_CMD_TARGET_BANK1, sc_auto_refresh = refreshes,
        sc_mode_register = mode_reg\<rparr> 0x1000"

text \<open>A command is accepted in the ready and in the precharged state.\<close>

lemma send_accepted:
  assumes "hs_state (sy_handle s) \<in> {HAL_SDRAM_STATE_READY, HAL_SDRAM_STATE_PRECHARGED}"
    and "hs_instance (sy_handle s) = FMC_Bank5_6_R_BASE" "fmc_command_asserts c"
  shows "HAL_SDRAM_SendCommand c n s =
    Some (HAL_OK, set_sdram_state (if sc_mode c = FMC_SDRAM_CMD_PALL then HAL_SDRAM_STATE_PRECHARGED else HAL_SDRAM_STATE_READY)
       (s\<lparr>sy_dev := (sy_dev s)(FMC_Bank5_6_R_BASE := the (FMC_SDRAM_SendCommand c (sy_dev s FMC_Bank5_6_R_BASE))),
          sy_log := sy_log s @ [Sdram (Sdram_command FMC_Bank5_6_R_BASE c n)]\<rparr>))"
  using assms
  by (auto simp: HAL_SDRAM_SendCommand_def guarded_def Let_def set_sdram_state_def on_controller_def is_fmc_device_def
      FMC_SDRAM_SendCommand_def)

lemma refresh_accepted:
  assumes "hs_state (sy_handle s) = HAL_SDRAM_STATE_READY" "hs_instance (sy_handle s) = FMC_Bank5_6_R_BASE" "n \<le> 8191"
  shows "HAL_SDRAM_ProgramRefreshRate n s =
    Some (HAL_OK, set_sdram_state HAL_SDRAM_STATE_READY
       (s\<lparr>sy_dev := (sy_dev s)(FMC_Bank5_6_R_BASE := the (FMC_SDRAM_ProgramRefreshRate n (sy_dev s FMC_Bank5_6_R_BASE))),
          sy_log := sy_log s @ [Sdram (Sdram_refresh_rate FMC_Bank5_6_R_BASE n)]\<rparr>))"
  using assms
  by (auto simp: HAL_SDRAM_ProgramRefreshRate_def guarded_def Let_def set_sdram_state_def on_controller_def is_fmc_device_def
      FMC_SDRAM_ProgramRefreshRate_def)

lemma assert_ok_pass [simp]: "assert_ok (Some (HAL_OK, s)) = Some s"
  by (simp add: assert_ok_def)

lemmas sdram_state_simps = set_sdram_state_def on_controller_def Let_def

lemma sdram_commands_ok:
  assumes "hs_state (sy_handle s) = HAL_SDRAM_STATE_READY" "hs_instance (sy_handle s) = FMC_Bank5_6_R_BASE"
  shows "\<exists>t. sdram_commands s = Some t \<and> hs_state (sy_handle t) = HAL_SDRAM_STATE_READY \<and>
    SDCR (sy_dev t FMC_Bank5_6_R_BASE) = SDCR (sy_dev s FMC_Bank5_6_R_BASE) \<and>
    SDTR (sy_dev t FMC_Bank5_6_R_BASE) = SDTR (sy_dev s FMC_Bank5_6_R_BASE) \<and>
    SDCMR (sy_dev t FMC_Bank5_6_R_BASE) AND 0x3FFFFF = 0x46214 \<and>
    SDRTR (sy_dev t FMC_Bank5_6_R_BASE) AND FMC_SDRTR_COUNT = 2 * 918 \<and> sy_btcr t = sy_btcr s \<and>
    sdram_events (sy_log t) = sdram_events (sy_log s) @
      [board_command FMC_SDRAM_CMD_CLK_ENABLE 1 0, board_command FMC_SDRAM_CMD_PALL 1 0,
       board_command FMC_SDRAM_CMD_AUTOREFRESH_MODE 8 0, board_command FMC_SDRAM_CMD_LOAD_MODE 1 0x231,
       Sdram_refresh_rate FMC_Bank5_6_R_BASE 918]"
proof -
  have m: "mode_register = 0x231" by (simp add: mode_register_def hal_consts)
  have c: "FMC_SDRAM_CMD_CLK_ENABLE \<noteq> FMC_SDRAM_CMD_PALL" "FMC_SDRAM_CMD_AUTOREFRESH_MODE \<noteq> FMC_SDRAM_CMD_PALL"
      "FMC_SDRAM_CMD_LOAD_MODE \<noteq> FMC_SDRAM_CMD_PALL" by (simp_all add: hal_consts)
  have k: "fmc_command_asserts \<lparr>sc_mode = md, sc_target = FMC_SDRAM_CMD_TARGET_BANK1, sc_auto_refresh = n, sc_mode_register = q\<rparr>"
    if "md \<in> {FMC_SDRAM_CMD_CLK_ENABLE, FMC_SDRAM_CMD_PALL, FMC_SDRAM_CMD_AUTOREFRESH_MODE, FMC_SDRAM_CMD_LOAD_MODE}"
      "n \<in> {1, 8}" "q \<in> {0, 0x231}" for md n q
    using that by (auto simp: fmc_command_asserts_def)
  have "modified 0x3FFFFF 0x46214 v AND 0x3FFFFF = 0x46214" for v :: u32
    by (rule modified_and) simp
  moreover have "modified 0x3FFE (2 * 918) v AND 0x3FFE = 2 * 918" for v :: u32
    by (rule modified_and) simp
  ultimately show ?thesis using assms
    by (simp add: sdram_commands_def Let_def send_accepted refresh_accepted c m k set_sdram_state_def board_command_def)
      (simp add: FMC_SDRAM_SendCommand_def FMC_SDRAM_ProgramRefreshRate_def k, simp add: hal_consts)
qed

lemma init_registers:
  assumes "hs_init (sy_handle s) = hsdram1_init" "hs_instance (sy_handle s) = FMC_Bank5_6_R_BASE"
  shows "\<exists>t. HAL_SDRAM_Init HAL_SDRAM_MspInit sdram_timings s = Some (HAL_OK, t) \<and>
    hs_state (sy_handle t) = HAL_SDRAM_STATE_READY \<and>
    hs_instance (sy_handle t) = FMC_Bank5_6_R_BASE \<and> hs_init (sy_handle t) = hsdram1_init \<and>
    SDCR (sy_dev t FMC_Bank5_6_R_BASE) FMC_SDRAM_BANK1 AND SDCR_CLEAR_MASK = 0x39D9 \<and>
    SDTR (sy_dev t FMC_Bank5_6_R_BASE) FMC_SDRAM_BANK1 AND SDTR_CLEAR_MASK = 0x01126361 \<and>
    sy_btcr t AND FMC_BCR1_FMCEN = FMC_BCR1_FMCEN \<and>
    sdram_events (sy_log t) = sdram_events (sy_log s) @
      [Sdram_init FMC_Bank5_6_R_BASE hsdram1_init sdram_timings]"
proof -
  define s1 where "s1 = (if hs_state (sy_handle s) = HAL_SDRAM_STATE_RESET
    then HAL_SDRAM_MspInit (s\<lparr>sy_handle := (sy_handle s)\<lparr>hs_locked := False\<rparr>\<rparr>) else s)"
  have h1: "hs_init (sy_handle s1) = hsdram1_init" "hs_instance (sy_handle s1) = FMC_Bank5_6_R_BASE"
      "sdram_events (sy_log s1) = sdram_events (sy_log s)"
    using assms by (simp_all add: s1_def board.init_handle)
  let ?r = "sy_dev s1 FMC_Bank5_6_R_BASE"
  have b: "sd_bank hsdram1_init = FMC_SDRAM_BANK1" by (simp add: hsdram1_init_def)
  have f1: "FMC_SDRAM_Init hsdram1_init r =
      Some (r\<lparr>SDCR := (SDCR r)(FMC_SDRAM_BANK1 := modified SDCR_CLEAR_MASK 0x39D9 (SDCR r FMC_SDRAM_BANK1))\<rparr>)" for r
    using hsdram1_checked by (simp add: FMC_SDRAM_Init_def b Let_def) (simp add: hsdram1_init_def hal_consts)
  have f2: "FMC_SDRAM_Timing_Init sdram_timings FMC_SDRAM_BANK1 r =
      Some (r\<lparr>SDTR := (SDTR r)(FMC_SDRAM_BANK1 := modified SDTR_CLEAR_MASK 0x01126361 (SDTR r FMC_SDRAM_BANK1))\<rparr>)" for r
    using hsdram1_checked by (simp add: FMC_SDRAM_Timing_Init_def is_sdram_bank_def Let_def)
      (simp add: sdram_timings_def hal_consts)
  have "modified SDCR_CLEAR_MASK 0x39D9 v AND SDCR_CLEAR_MASK = 0x39D9" for v :: u32
    by (rule modified_and) (simp add: SDCR_CLEAR_MASK_def hal_consts)
  moreover have "modified SDTR_CLEAR_MASK 0x01126361 v AND SDTR_CLEAR_MASK = 0x01126361" for v :: u32
    by (rule modified_and) (simp add: SDTR_CLEAR_MASK_def hal_consts)
  moreover have "(v OR FMC_BCR1_FMCEN) AND FMC_BCR1_FMCEN = FMC_BCR1_FMCEN" for v :: u32
    by (simp add: bit.conj_disj_distrib2)
  ultimately show ?thesis
    using h1 unfolding HAL_SDRAM_Init_def s1_def [symmetric]
    by (simp add: sdram_state_simps is_fmc_device_def f1 f2 b)
qed

text \<open>
  C14.  The start-up of the memory.  From every state of driver and controller all assertions pass;
  the controller then has the geometry, timings and refresh count of the board and is enabled, and
  it has got, after its configuration, exactly the commands that the memory needs in their order:
  clock, precharge of all banks, eight refreshes, mode register, refresh rate.
\<close>

theorem sdram_start_ok:
  "\<exists>t. sdram_start s = Some t \<and> hs_state (sy_handle t) = HAL_SDRAM_STATE_READY \<and>
     SDCR (sy_dev t FMC_Bank5_6_R_BASE) FMC_SDRAM_BANK1 AND SDCR_CLEAR_MASK = 0x39D9 \<and>
     SDTR (sy_dev t FMC_Bank5_6_R_BASE) FMC_SDRAM_BANK1 AND SDTR_CLEAR_MASK = 0x01126361 \<and>
     SDCMR (sy_dev t FMC_Bank5_6_R_BASE) AND 0x3FFFFF = 0x46214 \<and>
     SDRTR (sy_dev t FMC_Bank5_6_R_BASE) AND FMC_SDRTR_COUNT = 2 * 918 \<and>
     sy_btcr t AND FMC_BCR1_FMCEN = FMC_BCR1_FMCEN \<and>
     sdram_events (sy_log t) = sdram_events (sy_log s) @
       [Sdram_init FMC_Bank5_6_R_BASE hsdram1_init sdram_timings,
        board_command FMC_SDRAM_CMD_CLK_ENABLE 1 0, board_command FMC_SDRAM_CMD_PALL 1 0,
        board_command FMC_SDRAM_CMD_AUTOREFRESH_MODE 8 0, board_command FMC_SDRAM_CMD_LOAD_MODE 1 0x231,
        Sdram_refresh_rate FMC_Bank5_6_R_BASE 918]"
proof -
  let ?s0 = "s\<lparr>sy_handle := (sy_handle s)\<lparr>hs_instance := FMC_Bank5_6_R_BASE, hs_init := hsdram1_init\<rparr>\<rparr>"
  have "hs_init (sy_handle ?s0) = hsdram1_init" "hs_instance (sy_handle ?s0) = FMC_Bank5_6_R_BASE" by simp_all
  from init_registers [OF this] obtain t where
    t: "HAL_SDRAM_Init HAL_SDRAM_MspInit sdram_timings ?s0 = Some (HAL_OK, t)"
      "hs_state (sy_handle t) = HAL_SDRAM_STATE_READY" "hs_instance (sy_handle t) = FMC_Bank5_6_R_BASE"
      "SDCR (sy_dev t FMC_Bank5_6_R_BASE) FMC_SDRAM_BANK1 AND SDCR_CLEAR_MASK = 0x39D9"
      "SDTR (sy_dev t FMC_Bank5_6_R_BASE) FMC_SDRAM_BANK1 AND SDTR_CLEAR_MASK = 0x01126361"
      "sy_btcr t AND FMC_BCR1_FMCEN = FMC_BCR1_FMCEN"
      "sdram_events (sy_log t) = sdram_events (sy_log s) @ [Sdram_init FMC_Bank5_6_R_BASE hsdram1_init sdram_timings]"
    by auto
  from sdram_commands_ok [OF t(2,3)] t(1,4-) show ?thesis
    by (auto simp: sdram_start_def Let_def)
qed

section \<open>The pins\<close>

text \<open>A list of configurations of distinct ports, and one of resets.\<close>

lemma replay_inits:
  assumes "distinct (map fst ps)" "\<And>p pins. (p, pins) \<in> set ps \<Longrightarrow> gpio_init_asserts p (g pins)"
  shows "\<exists>h'. gpio_replay (map (\<lambda>(p, pins). Gpio (Gpio_init p (g pins))) ps) h = Some h' \<and>
    (\<forall>p pins q. (p, pins) \<in> set ps \<longrightarrow> q < 16 \<longrightarrow> config_of (hw_port h' p) q =
       (if bit (gpio_pin (g pins)) q then new_config (g pins) (config_of (hw_port h p) q) else config_of (hw_port h p) q)) \<and>
    (\<forall>k q. k \<notin> fst ` set ps \<longrightarrow> q < 16 \<longrightarrow> config_of (hw_port h' k) q = config_of (hw_port h k) q)"
  using assms
proof (induction ps arbitrary: h)
  case (Cons a ps)
  obtain p pins where a: "a = (p, pins)" by fastforce
  have v: "gpio_init_asserts p (g pins)" using Cons.prems(2) a by auto
  obtain h1 where h1: "HAL_GPIO_Init p (g pins) h = Some h1"
      "\<And>k q. q < 16 \<Longrightarrow> config_of (hw_port h1 k) q =
       (if k = p \<and> bit (gpio_pin (g pins)) q then new_config (g pins) (config_of (hw_port h k) q)
        else config_of (hw_port h k) q)"
    using asserted_init [OF v] by blast
  have p: "p \<notin> fst ` set ps" using Cons.prems(1) a by simp
  have pne: "p' \<noteq> p" if "(p', x) \<in> set ps" for p' x using p that by force
  obtain h' where h': "gpio_replay (map (\<lambda>(p, pins). Gpio (Gpio_init p (g pins))) ps) h1 = Some h'"
      "\<And>p pins q. (p, pins) \<in> set ps \<Longrightarrow> q < 16 \<Longrightarrow> config_of (hw_port h' p) q =
       (if bit (gpio_pin (g pins)) q then new_config (g pins) (config_of (hw_port h1 p) q) else config_of (hw_port h1 p) q)"
      "\<And>k q. k \<notin> fst ` set ps \<Longrightarrow> q < 16 \<Longrightarrow> config_of (hw_port h' k) q = config_of (hw_port h1 k) q"
    using Cons.IH [of h1] Cons.prems by fastforce
  show ?case using h1 h' p pne by (auto simp: a)
qed simp

lemma replay_deinits:
  assumes "distinct (map fst ps)"
    and "\<And>p pins. (p, pins) \<in> set ps \<Longrightarrow> IS_GPIO_ALL_INSTANCE p \<and> IS_GPIO_PIN (f pins)"
  shows "\<exists>h'. gpio_replay (map (\<lambda>(p, pins). Gpio (Gpio_deinit p (f pins))) ps) h = Some h' \<and>
    (\<forall>p pins q. (p, pins) \<in> set ps \<longrightarrow> q < 16 \<longrightarrow> config_of (hw_port h' p) q =
       (if bit (f pins) q then reset_config else config_of (hw_port h p) q)) \<and>
    (\<forall>k q. k \<notin> fst ` set ps \<longrightarrow> q < 16 \<longrightarrow> config_of (hw_port h' k) q = config_of (hw_port h k) q)"
  using assms
proof (induction ps arbitrary: h)
  case (Cons a ps)
  obtain p pins where a: "a = (p, pins)" by fastforce
  have v: "IS_GPIO_ALL_INSTANCE p" "IS_GPIO_PIN (f pins)" using Cons.prems(2) a by auto
  obtain h1 where h1: "HAL_GPIO_DeInit p (f pins) h = Some h1"
      "\<And>k q. q < 16 \<Longrightarrow> config_of (hw_port h1 k) q =
       (if k = p \<and> bit (f pins) q then reset_config else config_of (hw_port h k) q)"
    using asserted_deinit [OF v] by blast
  have p: "p \<notin> fst ` set ps" using Cons.prems(1) a by simp
  have pne: "p' \<noteq> p" if "(p', x) \<in> set ps" for p' x using p that by force
  obtain h' where h': "gpio_replay (map (\<lambda>(p, pins). Gpio (Gpio_deinit p (f pins))) ps) h1 = Some h'"
      "\<And>p pins q. (p, pins) \<in> set ps \<Longrightarrow> q < 16 \<Longrightarrow> config_of (hw_port h' p) q =
       (if bit (f pins) q then reset_config else config_of (hw_port h1 p) q)"
      "\<And>k q. k \<notin> fst ` set ps \<Longrightarrow> q < 16 \<Longrightarrow> config_of (hw_port h' k) q = config_of (hw_port h1 k) q"
    using Cons.IH [of h1] Cons.prems by fastforce
  show ?case using h1 h' p pne by (auto simp: a)
qed simp

definition fmc_config :: pin_config where
  "fmc_config = \<lparr>pin_mode = 2, pin_otype = 0, pin_speed = 3, pin_pull = 0, pin_af = 12\<rparr>"

lemma fmc_ports: "distinct (map fst fmc_pins)"
  by (simp add: fmc_pins_def base_defs)

lemma fmc_pins_checked:
  "(p, pins) \<in> set fmc_pins \<Longrightarrow> gpio_init_asserts p (fmc_pin_init pins) \<and> IS_GPIO_ALL_INSTANCE p \<and> IS_GPIO_PIN (ucast pins)"
  by (auto simp: fmc_pins_def fmc_pin_init_def gpio_init_asserts_def IS_GPIO_ALL_INSTANCE_def IS_GPIO_PIN_def
      IS_GPIO_MODE_def IS_GPIO_SPEED_def IS_GPIO_PULL_def IS_GPIO_AF_def Let_def hal_consts)

lemma new_fmc_config [simp]: "new_config (fmc_pin_init pins) c = fmc_config"
  by (simp add: new_config_def fmc_pin_init_def fmc_config_def hal_consts Let_def)

lemma clocks_gpio [simp]: "clocks (map (\<lambda>(p, pins). Gpio (f p pins)) ps) A = A"
proof (induction ps)
  case (Cons a ps)
  then show ?case by (cases a) simp
qed simp

lemma sdram_init_log:
  assumes "HAL_SDRAM_Init HAL_SDRAM_MspInit tm s = Some (r, t)"
  shows "hs_state (sy_handle t) = HAL_SDRAM_STATE_READY \<and>
    hs_init (sy_handle t) = hs_init (sy_handle s) \<and> hs_instance (sy_handle t) = hs_instance (sy_handle s) \<and>
    sy_fmc_deinitialized t = sy_fmc_deinitialized s \<and>
    sy_fmc_initialized t = (sy_fmc_initialized s \<or> hs_state (sy_handle s) = HAL_SDRAM_STATE_RESET) \<and>
    (\<exists>e. sy_log t = sy_log s @ (if hs_state (sy_handle s) = HAL_SDRAM_STATE_RESET \<and> \<not> sy_fmc_initialized s
       then Clk ''FMC'' True # map (\<lambda>(p, pins). Gpio (Gpio_init p (fmc_pin_init pins))) fmc_pins else []) @ [Sdram e])"
  using assms
  by (cases "hs_state (sy_handle s) = HAL_SDRAM_STATE_RESET")
    (auto simp: HAL_SDRAM_Init_def HAL_SDRAM_MspInit_def Let_def bind_eq_Some_conv set_sdram_state_def
      elim!: on_controller_cases)

lemma sdram_deinit_log:
  assumes "hs_instance (sy_handle s) = FMC_Bank5_6_R_BASE" "hs_init (sy_handle s) = hsdram1_init"
  shows "\<exists>t. HAL_SDRAM_DeInit HAL_SDRAM_MspDeInit s = Some (HAL_OK, t) \<and>
    hs_state (sy_handle t) = HAL_SDRAM_STATE_RESET \<and> hs_init (sy_handle t) = hsdram1_init \<and>
    hs_instance (sy_handle t) = FMC_Bank5_6_R_BASE \<and> sy_fmc_initialized t = sy_fmc_initialized s \<and>
    sy_log t = sy_log s @ (if sy_fmc_deinitialized s then []
       else Clk ''FMC'' False # map (\<lambda>(p, pins). Gpio (Gpio_deinit p (ucast pins))) fmc_pins)"
proof -
  have "is_sdram_bank (sd_bank hsdram1_init)" by (simp add: is_sdram_bank_def hsdram1_init_def)
  then show ?thesis using assms
    by (cases "sy_fmc_deinitialized s")
      (auto simp: HAL_SDRAM_DeInit_def HAL_SDRAM_MspDeInit_def sdram_state_simps is_fmc_device_def FMC_SDRAM_DeInit_def)
qed

lemma fmc_pin_low: "(p, pins) \<in> set fmc_pins \<Longrightarrow> bit pins q \<Longrightarrow> q < 16 \<and> bit (ucast pins :: u32) q"
  by (auto simp: bit_simps dest: bit_imp_le_length)

text \<open>
  Initialisation, de-initialisation and initialisation again.  The first call connects all 39
  pins of the memory to the controller and opens its clock.  After the last one, which reports
  success with the driver ready, the clock is closed and all pins are disconnected, because the
  callback runs its body once only.
\<close>

theorem sdram_reinit_dead:
  assumes "hs_state (sy_handle s) = HAL_SDRAM_STATE_RESET" "\<not> sy_fmc_initialized s" "\<not> sy_fmc_deinitialized s"
    and "hs_instance (sy_handle s) = FMC_Bank5_6_R_BASE" "hs_init (sy_handle s) = hsdram1_init"
    and "gpio_replay (sy_log s) h0 = Some h"
  shows "\<exists>t1 t2 t3 h1 h3. HAL_SDRAM_Init HAL_SDRAM_MspInit sdram_timings s = Some (HAL_OK, t1) \<and>
    HAL_SDRAM_DeInit HAL_SDRAM_MspDeInit t1 = Some (HAL_OK, t2) \<and>
    HAL_SDRAM_Init HAL_SDRAM_MspInit sdram_timings t2 = Some (HAL_OK, t3) \<and> hs_state (sy_handle t3) = HAL_SDRAM_STATE_READY \<and>
    ''FMC'' \<in> clocks (sy_log t1) A \<and> ''FMC'' \<notin> clocks (sy_log t3) A \<and>
    gpio_replay (sy_log t1) h0 = Some h1 \<and> gpio_replay (sy_log t3) h0 = Some h3 \<and>
    (\<forall>(p, pins) \<in> set fmc_pins. \<forall>q. bit pins q \<longrightarrow>
       config_of (hw_port h1 p) q = fmc_config \<and> config_of (hw_port h3 p) q = reset_config)"
proof -
  obtain t1 where i1: "HAL_SDRAM_Init HAL_SDRAM_MspInit sdram_timings s = Some (HAL_OK, t1)"
    using init_registers [OF assms(5,4)] by blast
  note l1 = sdram_init_log [OF i1]
  obtain t2 where d: "HAL_SDRAM_DeInit HAL_SDRAM_MspDeInit t1 = Some (HAL_OK, t2)"
      "hs_state (sy_handle t2) = HAL_SDRAM_STATE_RESET" "hs_init (sy_handle t2) = hsdram1_init"
      "hs_instance (sy_handle t2) = FMC_Bank5_6_R_BASE" "sy_fmc_initialized t2 = sy_fmc_initialized t1"
      "sy_log t2 = sy_log t1 @ (if sy_fmc_deinitialized t1 then []
         else Clk ''FMC'' False # map (\<lambda>(p, pins). Gpio (Gpio_deinit p (ucast pins))) fmc_pins)"
    using sdram_deinit_log [of t1] l1 assms(4,5) by auto
  obtain t3 where i3: "HAL_SDRAM_Init HAL_SDRAM_MspInit sdram_timings t2 = Some (HAL_OK, t3)"
    using init_registers [OF d(3,4)] by blast
  note l3 = sdram_init_log [OF i3]
  let ?on = "map (\<lambda>(p, pins). Gpio (Gpio_init p (fmc_pin_init pins))) fmc_pins"
  let ?off = "map (\<lambda>(p, pins). Gpio (Gpio_deinit p (ucast pins))) fmc_pins"
  obtain e1 e3 where l: "sy_log t1 = sy_log s @ (Clk ''FMC'' True # ?on) @ [Sdram e1]"
      "sy_log t3 = sy_log t1 @ (Clk ''FMC'' False # ?off) @ [Sdram e3]"
    using l1 l3 d assms by auto
  obtain h1 where h1: "gpio_replay ?on h = Some h1"
      "\<And>p pins q. (p, pins) \<in> set fmc_pins \<Longrightarrow> q < 16 \<Longrightarrow> bit (gpio_pin (fmc_pin_init pins)) q \<Longrightarrow>
         config_of (hw_port h1 p) q = fmc_config"
    using replay_inits [OF fmc_ports, of fmc_pin_init h] fmc_pins_checked by auto
  obtain h3 where h3: "gpio_replay ?off h1 = Some h3"
      "\<And>p pins q. (p, pins) \<in> set fmc_pins \<Longrightarrow> q < 16 \<Longrightarrow> bit (ucast pins :: u32) q \<Longrightarrow>
         config_of (hw_port h3 p) q = reset_config"
    using replay_deinits [OF fmc_ports, of ucast h1] fmc_pins_checked by auto
  have "gpio_replay (sy_log t1) h0 = Some h1" "gpio_replay (sy_log t3) h0 = Some h3"
    using h1(1) h3(1) assms(6) by (simp_all add: l gpio_replay_append)
  moreover have "\<forall>(p, pins) \<in> set fmc_pins. \<forall>q. bit pins q \<longrightarrow>
       config_of (hw_port h1 p) q = fmc_config \<and> config_of (hw_port h3 p) q = reset_config"
    using h1(2) h3(2) fmc_pin_low by (fastforce simp: fmc_pin_init_def)
  moreover have "''FMC'' \<in> clocks (sy_log t1) A" "''FMC'' \<notin> clocks (sy_log t3) A" by (simp_all add: l)
  ultimately show ?thesis
    using i1 d(1) i3 l3 by auto
qed

definition reset_sdram :: sdram_sys where
  "reset_sdram =
     \<lparr>sy_handle = \<lparr>hs_instance = FMC_Bank5_6_R_BASE, hs_init = hsdram1_init, hs_locked = False,
                    hs_state = HAL_SDRAM_STATE_RESET\<rparr>,
      sy_dev = \<lambda>_. \<lparr>SDCR = \<lambda>_. 0x2D0, SDTR = \<lambda>_. 0x0FFFFFFF, SDCMR = 0, SDRTR = 0, SDSR = 0\<rparr>,
      sy_btcr = 0x30DB, sy_fmc_initialized = False, sy_fmc_deinitialized = False, sy_log = []\<rparr>"


lemma sdram_reinit_dead_witness:
  "\<exists>t1 t2 t3. HAL_SDRAM_Init HAL_SDRAM_MspInit sdram_timings reset_sdram = Some (HAL_OK, t1) \<and>
     HAL_SDRAM_DeInit HAL_SDRAM_MspDeInit t1 = Some (HAL_OK, t2) \<and>
     HAL_SDRAM_Init HAL_SDRAM_MspInit sdram_timings t2 = Some (HAL_OK, t3) \<and> ''FMC'' \<notin> clocks (sy_log t3) {}"
  using sdram_reinit_dead [of reset_sdram zero_hw zero_hw "{}"] by (auto simp: reset_sdram_def)

section \<open>The test\<close>

text \<open>The words that the loops visit between \<open>i\<close> and \<open>e\<close>.\<close>

definition visited :: "u32 \<Rightarrow> u32 \<Rightarrow> u32 \<Rightarrow> bool" where
  "visited i e a \<longleftrightarrow> i \<le> a \<and> a < e \<and> unat (a - i) mod 4 = 0"

lemma next_word:
  assumes "i < (e :: u32)" "unat e \<le> 2 ^ 32 - 4"
  shows "unat (i + 4) = unat i + 4"
  using assms by (simp add: word_less_nat_alt unat_word_ariths)

lemma visited_step:
  assumes "i < e" "unat e \<le> 2 ^ 32 - 4"
  shows "visited i e a \<longleftrightarrow> a = i \<or> visited (i + 4) e a"
proof -
  have n: "unat (i + 4) = unat i + 4" by (rule next_word [OF assms])
  show ?thesis
  proof (cases "i \<le> a")
    case True
    then have d: "unat (a - i) = unat a - unat i" by (rule unat_sub)
    show ?thesis
    proof (cases "i + 4 \<le> a")
      case t: True
      then have "unat (a - (i + 4)) = unat a - (unat i + 4)" using unat_sub [of "i + 4" a] n by simp
      moreover have "unat i + 4 \<le> unat a" using t n by (simp add: word_le_nat_alt)
      moreover from this have "(unat a - unat i) mod 4 = (unat a - (unat i + 4)) mod 4"
        by (simp add: le_mod_geq)
      ultimately show ?thesis using True t d n assms(1)
        by (auto simp: visited_def word_le_nat_alt word_less_nat_alt)
    next
      case f: False
      then have "unat a < unat i + 4" using n by (simp add: word_le_nat_alt)
      then have "(unat a - unat i) mod 4 = 0 \<longleftrightarrow> a = i"
        using True by (auto simp: word_le_nat_alt word_unat_eq_iff)
      then show ?thesis using True f d assms(1) by (auto simp: visited_def)
    qed
  next
    case False
    then show ?thesis using n by (auto simp: visited_def word_le_nat_alt)
  qed
qed

lemma visited_end: "\<not> i < e \<Longrightarrow> \<not> visited i e a"
  by (auto simp: visited_def)

text \<open>
  The bytes of these words, up to the last word that begins below \<open>e\<close>, and the word a byte is part of.
\<close>

definition tested :: "u32 \<Rightarrow> u32 \<Rightarrow> u32 \<Rightarrow> bool" where
  "tested i e b \<longleftrightarrow> i \<le> b \<and> unat b - unat i < 4 * ((unat e - unat i + 3) div 4)"

definition pattern_byte :: "u32 \<Rightarrow> u32 \<Rightarrow> u8" where
  "pattern_byte i b =
     (let k = (unat b - unat i) mod 4; w = word_of_int (uint b - int k) in word_byte (w * w) k)"

lemma slot_in:
  assumes "(x :: nat) mod 4 = 0" "x < y" "k < 4"
  shows "x + k < 4 * ((y + 3) div 4)"
proof -
  obtain q where q: "x = 4 * q" using assms(1) by (metis mod_eq_0_iff_dvd dvd_def)
  have "(4 * Suc q) div 4 \<le> (y + 3) div 4" using assms(2) q by (intro div_le_mono) simp
  then show ?thesis using q assms(3) by simp
qed

lemma slot_shift:
  assumes "0 < (y :: nat)"
  shows "d < 4 * ((y - 4 + 3) div 4) \<longleftrightarrow> d + 4 < 4 * ((y + 3) div 4)"
proof (cases "4 \<le> y")
  case True
  then obtain z where "y = z + 4" by (metis le_add_diff_inverse2)
  moreover have "(z + 4 + 3) div 4 = Suc ((z + 3) div 4)" using div_add_self2 [of 4 "z + 3"] by simp
  ultimately show ?thesis by simp
next
  case False
  then have "y = 1 \<or> y = 2 \<or> y = 3" using assms by auto
  then show ?thesis by auto
qed

lemma pattern_here:
  assumes "uint i + 3 < 2 ^ 32" "i \<le> b" "unat b - unat i < 4"
  shows "store32 i v m b = word_byte v (unat b - unat i)"
    and "v = i * i \<Longrightarrow> word_byte v (unat b - unat i) = pattern_byte i b"
proof -
  have le: "unat i \<le> unat b" using assms(2) by (simp add: word_le_nat_alt)
  have d: "uint b - uint i = int (unat b - unat i)"
    unfolding uint_nat [of b] uint_nat [of i] using le by (simp only: of_nat_diff)
  then have n: "nat (uint b - uint i) = unat b - unat i" by (simp only: nat_int)
  have 3: "uint b - uint i \<le> 3" using assms(3) d by linarith
  have "uint i \<le> uint b" using assms(2) by (simp only: word_le_def)
  from store32_bytes [OF assms(1) this, of v m]
  show "store32 i v m b = word_byte v (unat b - unat i)" by (simp only: 3 if_True n)
  have k: "(unat b - unat i) mod 4 = unat b - unat i" using assms(3) by simp
  have "uint b - int (unat b - unat i) = uint i" using d by linarith
  then have w: "word_of_int (uint b - int (unat b - unat i)) = i" by (simp only: word_of_int_uint)
  show "v = i * i \<Longrightarrow> word_byte v (unat b - unat i) = pattern_byte i b"
    unfolding pattern_byte_def Let_def k w by (simp only:)
qed

lemma pattern_step:
  assumes "i < e" "unat e \<le> 2 ^ 32 - 4"
  shows "(if tested (i + 4) e b then pattern_byte (i + 4) b else store32 i (i * i) m b) =
    (if tested i e b then pattern_byte i b else m b)"
proof -
  have n: "unat (i + 4) = unat i + 4" by (rule next_word [OF assms])
  have lt: "unat i < unat e" using assms(1) by (simp add: word_less_nat_alt)
  then have "unat i + 3 < 2 ^ 32" using assms(2) by simp
  then have "int (unat i + 3) < int (2 ^ 32)" by (simp only: of_nat_less_iff)
  then have "int (unat i) + 3 < 2 ^ 32" by simp
  then have i3: "uint i + 3 < 2 ^ 32" by (simp only: uint_nat)
  consider (below) "b < i" | (here) "i \<le> b" "unat b - unat i < 4" | (above) "i \<le> b" "unat i + 4 \<le> unat b"
  proof (cases "i \<le> b")
    case True
    moreover have "unat b - unat i < 4 \<or> unat i + 4 \<le> unat b" by linarith
    ultimately show ?thesis using here above by blast
  next
    case False
    then show ?thesis using below by (simp only: not_le)
  qed
  then show ?thesis
  proof cases
    case below
    then have "uint b < uint i" by (simp only: word_less_def)
    then have "store32 i (i * i) m b = m b" using i3 by (rule store32_below)
    moreover have "\<not> tested i e b" "\<not> tested (i + 4) e b"
      using below n by (simp_all add: tested_def word_le_nat_alt word_less_nat_alt)
    ultimately show ?thesis by simp
  next
    case here
    then have "\<not> tested (i + 4) e b" using n by (simp add: tested_def word_le_nat_alt)
    moreover have "tested i e b"
      using here slot_in [of 0 "unat e - unat i" "unat b - unat i"] lt by (simp add: tested_def)
    ultimately show ?thesis using pattern_here [OF i3 here] by simp
  next
    case above
    have "uint i \<le> uint b" using above(1) by (simp only: word_le_def)
    moreover have "\<not> uint b - uint i \<le> 3" using above(2) uint_nat [of b] uint_nat [of i] by linarith
    ultimately have s: "store32 i (i * i) m b = m b" using store32_bytes [OF i3] by (simp only: if_False)
    have d: "unat b - unat i = (unat b - unat (i + 4)) + 4" "unat e - unat (i + 4) = unat e - unat i - 4"
      using above(2) n by simp_all
    have "i + 4 \<le> b" using above(2) n by (simp add: word_le_nat_alt)
    then have t: "tested (i + 4) e b \<longleftrightarrow> tested i e b"
      unfolding tested_def d(2) using above(1) slot_shift [of "unat e - unat i" "unat b - unat (i + 4)"] lt
      by (simp add: d(1))
    have "(unat b - unat (i + 4)) mod 4 = (unat b - unat i) mod 4" unfolding d(1) by simp
    then have "pattern_byte (i + 4) b = pattern_byte i b" by (simp only: pattern_byte_def)
    then show ?thesis using s t by simp
  qed
qed

lemma tested_end: "\<not> i < e \<Longrightarrow> \<not> tested i e b"
  by (simp add: tested_def word_less_nat_alt)

lemma sdram_fill_spec:
  assumes "unat e \<le> 2 ^ 32 - 4"
  shows "sdram_fill e i m = Some (\<lambda>b. if tested i e b then pattern_byte i b else m b)"
proof (induction "unat e - unat i" arbitrary: i m rule: less_induct)
  case less
  show ?case
  proof (cases "i < e")
    case True
    have "unat e - unat (i + 4) < unat e - unat i"
      using True next_word [OF True assms] by (simp add: word_less_nat_alt)
    then have ih: "sdram_fill e (i + 4) (store32 i (i * i) m) =
        Some (\<lambda>b. if tested (i + 4) e b then pattern_byte (i + 4) b else store32 i (i * i) m b)" by (rule less)
    show ?thesis using True ih
      by (subst sdram_fill.simps) (simp only: if_True pattern_step [OF True assms])
  next
    case False
    then show ?thesis by (subst sdram_fill.simps) (simp add: tested_end)
  qed
qed

text \<open>The pattern is read back by loads.\<close>

lemma pattern_read:
  assumes "visited i e a" "unat e \<le> 2 ^ 32 - 4" "\<And>b. tested i e b \<Longrightarrow> m b = pattern_byte i b"
  shows "load32 m a = a * a"
proof (rule load32_bytes)
  fix k :: nat
  assume k: "k < 4"
  have a: "i \<le> a" "a < e" "(unat a - unat i) mod 4 = 0"
    using assms(1) by (auto simp: visited_def unat_sub)
  have small: "unat (of_nat k :: u32) = k" using k by (simp add: unat_of_nat)
  have "unat a < unat e" using a(2) by (simp add: word_less_nat_alt)
  then have "unat a + k < 2 ^ 32" using k assms(2) by simp
  then have "unat a + unat (of_nat k :: u32) < 2 ^ LENGTH(32)" unfolding small by simp
  then have ua: "unat (a + of_nat k) = unat a + k" using unat_add_lem [of a "of_nat k"] unfolding small by (simp only:)
  then have d: "unat (a + of_nat k) - unat i = (unat a - unat i) + k" using a(1) by (simp add: word_le_nat_alt)
  then have m: "(unat (a + of_nat k) - unat i) mod 4 = k" using a(3) k by (simp add: mod_add_eq [symmetric])
  have "unat a - unat i < unat e - unat i" using a by (simp add: word_less_nat_alt word_le_nat_alt)
  from slot_in [OF a(3) this k] have "tested i e (a + of_nat k)"
    using a(1) ua unfolding tested_def d word_le_nat_alt by simp
  then have "m (a + of_nat k) = pattern_byte i (a + of_nat k)" by (rule assms(3))
  moreover have "uint (a + of_nat k) - int k = uint a"
    using ua uint_nat [of "a + of_nat k"] uint_nat [of a] by linarith
  then have "word_of_int (uint (a + of_nat k) - int k) = a" by (simp only: word_of_int_uint)
  ultimately show "m (a + of_nat k) = word_byte (a * a) k"
    unfolding pattern_byte_def m Let_def by (simp only:)
qed

lemma sdram_verify_spec:
  assumes "unat e \<le> 2 ^ 32 - 4"
  shows "sdram_verify rd m e i = Some (\<forall>a. visited i e a \<longrightarrow> rd m a = a * a)"
proof (induction "unat e - unat i" arbitrary: i rule: less_induct)
  case less
  show ?case
  proof (cases "i < e")
    case True
    have "unat e - unat (i + 4) < unat e - unat i"
      using True next_word [OF True assms] by (simp add: word_less_nat_alt)
    then have ih: "sdram_verify rd m e (i + 4) = Some (\<forall>a. visited (i + 4) e a \<longrightarrow> rd m a = a * a)"
      by (rule less)
    show ?thesis using True ih
      by (subst sdram_verify.simps) (auto simp: visited_step [OF True assms])
  next
    case False
    then show ?thesis by (subst sdram_verify.simps) (simp add: visited_end)
  qed
qed

text \<open>
  C38.  The memory test ends and overwrites exactly the bytes of the tested words, each word with the
  square of its address.  It prints nothing when every word is read back so, in particular when
  reads deliver what was written; otherwise it sends its message to port 1, if the trace port is
  ready.
\<close>

theorem sdram_test_reports:
  assumes "unat eext \<le> 2 ^ 32 - 4" "itm_ready env 1 n"
  shows "\<exists>m' l'. bsp_sdram_test env rd sext eext m l = Some (m', l') \<and>
    m' = (\<lambda>b. if tested sext eext b then pattern_byte sext b else m b) \<and>
    (\<forall>a. visited sext eext a \<longrightarrow> load32 m' a = a * a) \<and>
    itm_out l' = itm_out l @ (if \<forall>a. visited sext eext a \<longrightarrow> rd m' a = a * a then []
      else map (\<lambda>b. (b, 1)) (bytes_of (''[bsp_sdram]: test failed'' @ [CHR 0x0A])))"
proof -
  let ?m = "\<lambda>b. if tested sext eext b then pattern_byte sext b else m b"
  let ?s = "''[bsp_sdram]: test failed'' @ [CHR 0x0A]"
  obtain k where k: "itm_send env (bytes_of ?s) 1 (l @ [Core Clean_invalidate_dcache]) =
      Some ((l @ [Core Clean_invalidate_dcache]) @ k)" "itm_out k = map (\<lambda>b. (b, 1)) (bytes_of ?s)"
    using send_ready [OF assms(2), of "bytes_of ?s"] by fastforce
  have r: "\<forall>a. visited sext eext a \<longrightarrow> load32 ?m a = a * a"
    using pattern_read [OF _ assms(1), of sext _ ?m] by auto
  show ?thesis
  proof (cases "\<forall>a. visited sext eext a \<longrightarrow> rd ?m a = a * a")
    case True
    then show ?thesis using r
      by (auto simp: bsp_sdram_test_def sdram_fill_spec [OF assms(1)] sdram_verify_spec [OF assms(1)])
  next
    case False
    have "bsp_sdram_test env rd sext eext m l = Some (?m, (l @ [Core Clean_invalidate_dcache]) @ k)"
      by (simp only: bsp_sdram_test_def sdram_fill_spec [OF assms(1)] sdram_verify_spec [OF assms(1)]
          bind.bind_lunit if_not_P [OF False] k(1))
    moreover have "itm_out ((l @ [Core Clean_invalidate_dcache]) @ k) = itm_out l @ map (\<lambda>b. (b, 1)) (bytes_of ?s)"
      by (simp add: k(2))
    ultimately show ?thesis using r
      by (intro exI [of _ ?m] exI [of _ "(l @ [Core Clean_invalidate_dcache]) @ k"] conjI)
        (simp_all only: if_not_P [OF False])
  qed
qed

definition on_env :: hal_env where
  "on_env = \<lparr>hal_answer = \<lambda>_ _. HAL_OK, reg_value = \<lambda>_ _. - 1\<rparr>"

lemma on_env_ready: "itm_ready on_env 1 0"
  by (simp add: itm_ready_def on_env_def hal_consts)

lemma sdram_test_reports_witness:
  "\<exists>m' l'. bsp_sdram_test on_env (\<lambda>m a. 0) 0xD0000000 0xD0000008 (\<lambda>_. 1) [] = Some (m', l') \<and>
     load32 m' 0xD0000004 = 0xD0000004 * 0xD0000004 \<and> m' 0xD0000008 = 1"
proof -
  have "unat (0xD0000008 :: u32) \<le> 2 ^ 32 - 4" by simp
  from sdram_test_reports [OF this on_env_ready, of "\<lambda>m a. 0" "0xD0000000" "\<lambda>_. 1" "[]"]
  show ?thesis by (auto simp: visited_def tested_def)
qed

end
