(* ===== verification/Ltdc_hal.thy ===== *)
theory Ltdc_hal
  imports Gpio
begin

text \<open>
  The driver of the display controller, hal/stm32h7xx_hal_ltdc.c, as far as the board uses it: the
  handle with its lock and state, the registers of the controller and its two layers, the
  initialisation, the configuration of a layer, the line event and the interrupt handler.  The
  callbacks of the board are parameters.
\<close>

section \<open>Constants\<close>

definition LTDC_GCR_HSPOL :: u32 where
  [hal_consts]: "LTDC_GCR_HSPOL = 0x80000000"

definition LTDC_GCR_VSPOL :: u32 where
  [hal_consts]: "LTDC_GCR_VSPOL = 0x40000000"

definition LTDC_GCR_DEPOL :: u32 where
  [hal_consts]: "LTDC_GCR_DEPOL = 0x20000000"

definition LTDC_GCR_PCPOL :: u32 where
  [hal_consts]: "LTDC_GCR_PCPOL = 0x10000000"

definition LTDC_GCR_DEN :: u32 where
  [hal_consts]: "LTDC_GCR_DEN = 0x10000"

definition LTDC_GCR_LTDCEN :: u32 where
  [hal_consts]: "LTDC_GCR_LTDCEN = 0x1"

definition LTDC_SSCR_VSH :: u32 where
  [hal_consts]: "LTDC_SSCR_VSH = 0x7ff"

definition LTDC_SSCR_HSW :: u32 where
  [hal_consts]: "LTDC_SSCR_HSW = 0xfff0000"

definition LTDC_BPCR_AVBP :: u32 where
  [hal_consts]: "LTDC_BPCR_AVBP = 0x7ff"

definition LTDC_BPCR_AHBP :: u32 where
  [hal_consts]: "LTDC_BPCR_AHBP = 0xfff0000"

definition LTDC_AWCR_AAH :: u32 where
  [hal_consts]: "LTDC_AWCR_AAH = 0x7ff"

definition LTDC_AWCR_AAW :: u32 where
  [hal_consts]: "LTDC_AWCR_AAW = 0xfff0000"

definition LTDC_TWCR_TOTALH :: u32 where
  [hal_consts]: "LTDC_TWCR_TOTALH = 0x7ff"

definition LTDC_TWCR_TOTALW :: u32 where
  [hal_consts]: "LTDC_TWCR_TOTALW = 0xfff0000"

definition LTDC_BCCR_BCBLUE :: u32 where
  [hal_consts]: "LTDC_BCCR_BCBLUE = 0xff"

definition LTDC_BCCR_BCGREEN :: u32 where
  [hal_consts]: "LTDC_BCCR_BCGREEN = 0xff00"

definition LTDC_BCCR_BCRED :: u32 where
  [hal_consts]: "LTDC_BCCR_BCRED = 0xff0000"

definition LTDC_IT_TE :: u32 where
  [hal_consts]: "LTDC_IT_TE = 0x4"

definition LTDC_IT_FU :: u32 where
  [hal_consts]: "LTDC_IT_FU = 0x2"

definition LTDC_IT_LI :: u32 where
  [hal_consts]: "LTDC_IT_LI = 0x1"

definition LTDC_IT_RR :: u32 where
  [hal_consts]: "LTDC_IT_RR = 0x8"

definition LTDC_FLAG_TE :: u32 where
  [hal_consts]: "LTDC_FLAG_TE = 0x4"

definition LTDC_FLAG_FU :: u32 where
  [hal_consts]: "LTDC_FLAG_FU = 0x2"

definition LTDC_FLAG_LI :: u32 where
  [hal_consts]: "LTDC_FLAG_LI = 0x1"

definition LTDC_FLAG_RR :: u32 where
  [hal_consts]: "LTDC_FLAG_RR = 0x8"

definition LTDC_SRCR_IMR :: u32 where
  [hal_consts]: "LTDC_SRCR_IMR = 0x1"

definition LTDC_LxCR_LEN :: u32 where
  [hal_consts]: "LTDC_LxCR_LEN = 0x1"

definition LTDC_HSPOLARITY_AL :: u32 where
  [hal_consts]: "LTDC_HSPOLARITY_AL = 0x0"

definition LTDC_HSPOLARITY_AH :: u32 where
  [hal_consts]: "LTDC_HSPOLARITY_AH = 0x80000000"

definition LTDC_VSPOLARITY_AL :: u32 where
  [hal_consts]: "LTDC_VSPOLARITY_AL = 0x0"

definition LTDC_VSPOLARITY_AH :: u32 where
  [hal_consts]: "LTDC_VSPOLARITY_AH = 0x40000000"

definition LTDC_DEPOLARITY_AL :: u32 where
  [hal_consts]: "LTDC_DEPOLARITY_AL = 0x0"

definition LTDC_DEPOLARITY_AH :: u32 where
  [hal_consts]: "LTDC_DEPOLARITY_AH = 0x20000000"

definition LTDC_PCPOLARITY_IPC :: u32 where
  [hal_consts]: "LTDC_PCPOLARITY_IPC = 0x0"

definition LTDC_PCPOLARITY_IIPC :: u32 where
  [hal_consts]: "LTDC_PCPOLARITY_IIPC = 0x10000000"

definition LTDC_BLENDING_FACTOR1_CA :: u32 where
  [hal_consts]: "LTDC_BLENDING_FACTOR1_CA = 0x400"

definition LTDC_BLENDING_FACTOR1_PAxCA :: u32 where
  [hal_consts]: "LTDC_BLENDING_FACTOR1_PAxCA = 0x600"

definition LTDC_BLENDING_FACTOR2_CA :: u32 where
  [hal_consts]: "LTDC_BLENDING_FACTOR2_CA = 0x5"

definition LTDC_BLENDING_FACTOR2_PAxCA :: u32 where
  [hal_consts]: "LTDC_BLENDING_FACTOR2_PAxCA = 0x7"

definition LTDC_PIXEL_FORMAT_ARGB8888 :: u32 where
  [hal_consts]: "LTDC_PIXEL_FORMAT_ARGB8888 = 0x0"

definition LTDC_PIXEL_FORMAT_RGB888 :: u32 where
  [hal_consts]: "LTDC_PIXEL_FORMAT_RGB888 = 0x1"

definition LTDC_PIXEL_FORMAT_RGB565 :: u32 where
  [hal_consts]: "LTDC_PIXEL_FORMAT_RGB565 = 0x2"

definition LTDC_PIXEL_FORMAT_ARGB1555 :: u32 where
  [hal_consts]: "LTDC_PIXEL_FORMAT_ARGB1555 = 0x3"

definition LTDC_PIXEL_FORMAT_ARGB4444 :: u32 where
  [hal_consts]: "LTDC_PIXEL_FORMAT_ARGB4444 = 0x4"

definition LTDC_PIXEL_FORMAT_L8 :: u32 where
  [hal_consts]: "LTDC_PIXEL_FORMAT_L8 = 0x5"

definition LTDC_PIXEL_FORMAT_AL44 :: u32 where
  [hal_consts]: "LTDC_PIXEL_FORMAT_AL44 = 0x6"

definition LTDC_PIXEL_FORMAT_AL88 :: u32 where
  [hal_consts]: "LTDC_PIXEL_FORMAT_AL88 = 0x7"

definition LTDC_HORIZONTALSYNC :: u32 where
  [hal_consts]: "LTDC_HORIZONTALSYNC = 0xfff"

definition LTDC_VERTICALSYNC :: u32 where
  [hal_consts]: "LTDC_VERTICALSYNC = 0x7ff"

definition LTDC_STARTPOSITION :: u32 where
  [hal_consts]: "LTDC_STARTPOSITION = 0xfff"

definition LTDC_STOPPOSITION :: u32 where
  [hal_consts]: "LTDC_STOPPOSITION = 0xffff"

definition LTDC_ALPHA :: u32 where
  [hal_consts]: "LTDC_ALPHA = 0xff"

definition LTDC_COLOR_FRAME_BUFFER :: u32 where
  [hal_consts]: "LTDC_COLOR_FRAME_BUFFER = 0x1fff"

definition LTDC_LINE_NUMBER :: u32 where
  [hal_consts]: "LTDC_LINE_NUMBER = 0x7ff"

definition MAX_LAYER :: u32 where
  [hal_consts]: "MAX_LAYER = 0x2"

definition HAL_LTDC_ERROR_NONE :: u32 where
  [hal_consts]: "HAL_LTDC_ERROR_NONE = 0x0"

definition HAL_LTDC_ERROR_TE :: u32 where
  [hal_consts]: "HAL_LTDC_ERROR_TE = 0x1"

definition HAL_LTDC_ERROR_FU :: u32 where
  [hal_consts]: "HAL_LTDC_ERROR_FU = 0x2"


section \<open>State\<close>

datatype hal_ltdc_state =
    HAL_LTDC_STATE_RESET
  | HAL_LTDC_STATE_READY
  | HAL_LTDC_STATE_BUSY
  | HAL_LTDC_STATE_TIMEOUT
  | HAL_LTDC_STATE_ERROR

record ltdc_layer_regs =
  LxCR :: u32
  LxWHPCR :: u32
  LxWVPCR :: u32
  LxPFCR :: u32
  LxCACR :: u32
  LxDCCR :: u32
  LxBFCR :: u32
  LxCFBAR :: u32
  LxCFBLR :: u32
  LxCFBLNR :: u32

record ltdc_regs =
  SSCR :: u32
  BPCR :: u32
  AWCR :: u32
  TWCR :: u32
  GCR :: u32
  SRCR :: u32
  BCCR :: u32
  IER :: u32
  ISR :: u32
  LIPCR :: u32
  LAYER :: "u32 \<Rightarrow> ltdc_layer_regs"

record ltdc_handle =
  lh_instance :: u32
  lh_init :: ltdc_init
  lh_layer_cfg :: "u32 \<Rightarrow> layer_cfg"
  lh_locked :: bool
  lh_state :: hal_ltdc_state
  lh_error :: u32

text \<open>
  A program that keeps the handle inside a larger structure extends this state, as the code finds
  that structure around the handle.
\<close>

record ltdc_sys =
  lt_handle :: ltdc_handle
  lt_regs :: ltdc_regs
  lt_log :: log

section \<open>Checks of parameters\<close>

definition ltdc_init_asserts :: "u32 \<Rightarrow> ltdc_init \<Rightarrow> bool" where
  "ltdc_init_asserts inst i \<longleftrightarrow> inst = LTDC_BASE \<and>
     ltdc_horizontal_sync i \<le> LTDC_HORIZONTALSYNC \<and> ltdc_vertical_sync i \<le> LTDC_VERTICALSYNC \<and>
     ltdc_accumulated_hbp i \<le> LTDC_HORIZONTALSYNC \<and> ltdc_accumulated_vbp i \<le> LTDC_VERTICALSYNC \<and>
     ltdc_accumulated_active_h i \<le> LTDC_VERTICALSYNC \<and> ltdc_accumulated_active_w i \<le> LTDC_HORIZONTALSYNC \<and>
     ltdc_total_heigh i \<le> LTDC_VERTICALSYNC \<and> ltdc_total_width i \<le> LTDC_HORIZONTALSYNC \<and>
     ltdc_hs_polarity i \<in> {LTDC_HSPOLARITY_AL, LTDC_HSPOLARITY_AH} \<and>
     ltdc_vs_polarity i \<in> {LTDC_VSPOLARITY_AL, LTDC_VSPOLARITY_AH} \<and>
     ltdc_de_polarity i \<in> {LTDC_DEPOLARITY_AL, LTDC_DEPOLARITY_AH} \<and>
     ltdc_pc_polarity i \<in> {LTDC_PCPOLARITY_IPC, LTDC_PCPOLARITY_IIPC}"

definition layer_asserts :: "layer_cfg \<Rightarrow> u32 \<Rightarrow> bool" where
  "layer_asserts c idx \<longleftrightarrow> idx < MAX_LAYER \<and>
     lyr_window_x0 c \<le> LTDC_STARTPOSITION \<and> lyr_window_x1 c \<le> LTDC_STOPPOSITION \<and>
     lyr_window_y0 c \<le> LTDC_STARTPOSITION \<and> lyr_window_y1 c \<le> LTDC_STOPPOSITION \<and>
     lyr_pixel_format c \<in> {LTDC_PIXEL_FORMAT_ARGB8888, LTDC_PIXEL_FORMAT_RGB888, LTDC_PIXEL_FORMAT_RGB565,
       LTDC_PIXEL_FORMAT_ARGB1555, LTDC_PIXEL_FORMAT_ARGB4444, LTDC_PIXEL_FORMAT_L8, LTDC_PIXEL_FORMAT_AL44,
       LTDC_PIXEL_FORMAT_AL88} \<and>
     lyr_alpha c \<le> LTDC_ALPHA \<and> lyr_alpha0 c \<le> LTDC_ALPHA \<and>
     lyr_blending_factor1 c \<in> {LTDC_BLENDING_FACTOR1_CA, LTDC_BLENDING_FACTOR1_PAxCA} \<and>
     lyr_blending_factor2 c \<in> {LTDC_BLENDING_FACTOR2_CA, LTDC_BLENDING_FACTOR2_PAxCA} \<and>
     lyr_image_width c \<le> LTDC_COLOR_FRAME_BUFFER \<and> lyr_image_height c \<le> LTDC_LINE_NUMBER"

section \<open>Registers\<close>

text \<open>\<open>reg &= ~clear; reg |= put;\<close>\<close>

definition replaced :: "u32 \<Rightarrow> u32 \<Rightarrow> u32 \<Rightarrow> u32" where
  "replaced clear put v = (v AND NOT clear) OR put"

definition write_init :: "ltdc_init \<Rightarrow> ltdc_regs \<Rightarrow> ltdc_regs" where
  "write_init i r =
     r\<lparr>GCR := replaced (LTDC_GCR_HSPOL OR LTDC_GCR_VSPOL OR LTDC_GCR_DEPOL OR LTDC_GCR_PCPOL)
          (ltdc_hs_polarity i OR ltdc_vs_polarity i OR ltdc_de_polarity i OR ltdc_pc_polarity i) (GCR r) OR LTDC_GCR_LTDCEN,
       SSCR := replaced (LTDC_SSCR_VSH OR LTDC_SSCR_HSW) (push_bit 16 (ltdc_horizontal_sync i) OR ltdc_vertical_sync i) (SSCR r),
       BPCR := replaced (LTDC_BPCR_AVBP OR LTDC_BPCR_AHBP) (push_bit 16 (ltdc_accumulated_hbp i) OR ltdc_accumulated_vbp i) (BPCR r),
       AWCR := replaced (LTDC_AWCR_AAH OR LTDC_AWCR_AAW)
          (push_bit 16 (ltdc_accumulated_active_w i) OR ltdc_accumulated_active_h i) (AWCR r),
       TWCR := replaced (LTDC_TWCR_TOTALH OR LTDC_TWCR_TOTALW) (push_bit 16 (ltdc_total_width i) OR ltdc_total_heigh i) (TWCR r),
       BCCR := replaced (LTDC_BCCR_BCBLUE OR LTDC_BCCR_BCGREEN OR LTDC_BCCR_BCRED)
          (push_bit 16 (ucast (col_red (ltdc_backcolor i))) OR push_bit 8 (ucast (col_green (ltdc_backcolor i))) OR
           ucast (col_blue (ltdc_backcolor i))) (BCCR r),
       IER := IER r OR (LTDC_IT_TE OR LTDC_IT_FU)\<rparr>"

definition bytes_per_pixel :: "u32 \<Rightarrow> u32" where
  "bytes_per_pixel f =
     (if f = LTDC_PIXEL_FORMAT_ARGB8888 then 4
      else if f = LTDC_PIXEL_FORMAT_RGB888 then 3
      else if f = LTDC_PIXEL_FORMAT_ARGB4444 \<or> f = LTDC_PIXEL_FORMAT_RGB565 \<or> f = LTDC_PIXEL_FORMAT_ARGB1555 \<or>
              f = LTDC_PIXEL_FORMAT_AL88 then 2
      else 1)"

text \<open>The second of two stores to a register of a layer counts.\<close>

definition LTDC_SetConfig :: "layer_cfg \<Rightarrow> u32 \<Rightarrow> ltdc_regs \<Rightarrow> ltdc_regs" where
  "LTDC_SetConfig c idx r =
     (let ahbp = drop_bit 16 (BPCR r AND LTDC_BPCR_AHBP);
          avbp = BPCR r AND LTDC_BPCR_AVBP;
          bpp = bytes_per_pixel (lyr_pixel_format c);
          col = lyr_backcolor c;
          y = LAYER r idx
      in r\<lparr>LAYER := (LAYER r)(idx :=
           y\<lparr>LxWHPCR := (lyr_window_x0 c + ahbp + 1) OR push_bit 16 (lyr_window_x1 c + ahbp),
             LxWVPCR := (lyr_window_y0 c + avbp + 1) OR push_bit 16 (lyr_window_y1 c + avbp),
             LxPFCR := lyr_pixel_format c,
             LxDCCR := ucast (col_blue col) OR push_bit 8 (ucast (col_green col)) OR push_bit 16 (ucast (col_red col)) OR
                       push_bit 24 (lyr_alpha0 c),
             LxCACR := lyr_alpha c,
             LxBFCR := lyr_blending_factor1 c OR lyr_blending_factor2 c,
             LxCFBAR := lyr_fb_start_adress c,
             LxCFBLR := push_bit 16 (lyr_image_width c * bpp) OR ((lyr_window_x1 c - lyr_window_x0 c) * bpp + 7),
             LxCFBLNR := lyr_image_height c,
             LxCR := LxCR y OR LTDC_LxCR_LEN\<rparr>)\<rparr>)"

section \<open>Operations\<close>

definition set_ltdc_state :: "hal_ltdc_state \<Rightarrow> 'a ltdc_sys_scheme \<Rightarrow> 'a ltdc_sys_scheme" where
  "set_ltdc_state st s = s\<lparr>lt_handle := (lt_handle s)\<lparr>lh_state := st\<rparr>\<rparr>"

definition set_ltdc_lock :: "bool \<Rightarrow> 'a ltdc_sys_scheme \<Rightarrow> 'a ltdc_sys_scheme" where
  "set_ltdc_lock b s = s\<lparr>lt_handle := (lt_handle s)\<lparr>lh_locked := b\<rparr>\<rparr>"

definition on_ltdc :: "(ltdc_regs \<Rightarrow> ltdc_regs) \<Rightarrow> 'a ltdc_sys_scheme \<Rightarrow> 'a ltdc_sys_scheme" where
  "on_ltdc f s = s\<lparr>lt_regs := f (lt_regs s)\<rparr>"

definition HAL_LTDC_Init :: "('a ltdc_sys_scheme \<Rightarrow> 'a ltdc_sys_scheme) \<Rightarrow> 'a ltdc_sys_scheme \<Rightarrow> (hal_status \<times> 'a ltdc_sys_scheme) option" where
  "HAL_LTDC_Init msp_init s =
     (let h = lt_handle s
      in if \<not> ltdc_init_asserts (lh_instance h) (lh_init h) then None
         else
           (let s1 = (if lh_state h = HAL_LTDC_STATE_RESET then msp_init (set_ltdc_lock False s) else s);
                s2 = set_ltdc_state HAL_LTDC_STATE_BUSY s1;
                s3 = on_ltdc (write_init (lh_init (lt_handle s2))) s2
            in Some (HAL_OK, s3\<lparr>lt_handle := (lt_handle s3)\<lparr>lh_error := HAL_LTDC_ERROR_NONE,
                                                          lh_state := HAL_LTDC_STATE_READY\<rparr>\<rparr>)))"

text \<open>Between \<open>__HAL_LOCK\<close> and \<open>__HAL_UNLOCK\<close>: busy, then ready.\<close>

definition ltdc_locked :: "('a ltdc_sys_scheme \<Rightarrow> 'a ltdc_sys_scheme) \<Rightarrow> 'a ltdc_sys_scheme \<Rightarrow> hal_status \<times> 'a ltdc_sys_scheme" where
  "ltdc_locked f s =
     (if lh_locked (lt_handle s) then (HAL_BUSY, s)
      else (HAL_OK, set_ltdc_lock False (set_ltdc_state HAL_LTDC_STATE_READY
                     (f (set_ltdc_state HAL_LTDC_STATE_BUSY (set_ltdc_lock True s))))))"

definition HAL_LTDC_EnableDither :: "'a ltdc_sys_scheme \<Rightarrow> hal_status \<times> 'a ltdc_sys_scheme" where
  "HAL_LTDC_EnableDither = ltdc_locked (on_ltdc (\<lambda>r. r\<lparr>GCR := GCR r OR LTDC_GCR_DEN\<rparr>))"

definition HAL_LTDC_DisableDither :: "'a ltdc_sys_scheme \<Rightarrow> hal_status \<times> 'a ltdc_sys_scheme" where
  "HAL_LTDC_DisableDither = ltdc_locked (on_ltdc (\<lambda>r. r\<lparr>GCR := GCR r AND NOT LTDC_GCR_DEN\<rparr>))"

definition HAL_LTDC_ConfigLayer :: "layer_cfg \<Rightarrow> u32 \<Rightarrow> 'a ltdc_sys_scheme \<Rightarrow> (hal_status \<times> 'a ltdc_sys_scheme) option" where
  "HAL_LTDC_ConfigLayer c idx s =
     (if \<not> layer_asserts c idx then None
      else Some (ltdc_locked (\<lambda>s1.
        on_ltdc (\<lambda>r. (LTDC_SetConfig c idx r)\<lparr>SRCR := LTDC_SRCR_IMR\<rparr>)
          (s1\<lparr>lt_handle := (lt_handle s1)\<lparr>lh_layer_cfg := (lh_layer_cfg (lt_handle s1))(idx := c)\<rparr>\<rparr>)) s))"

definition HAL_LTDC_ProgramLineEvent :: "u32 \<Rightarrow> 'a ltdc_sys_scheme \<Rightarrow> (hal_status \<times> 'a ltdc_sys_scheme) option" where
  "HAL_LTDC_ProgramLineEvent line s =
     (if \<not> line \<le> 0x7FF then None
      else Some (ltdc_locked (on_ltdc (\<lambda>r.
             r\<lparr>IER := (IER r AND NOT LTDC_IT_LI) OR LTDC_IT_LI, LIPCR := line\<rparr>)) s))"

text \<open>Writing a flag to the interrupt clear register clears it in the status register.\<close>

definition clear_ltdc_flag :: "u32 \<Rightarrow> 'a ltdc_sys_scheme \<Rightarrow> 'a ltdc_sys_scheme" where
  "clear_ltdc_flag f = on_ltdc (\<lambda>r. r\<lparr>ISR := ISR r AND NOT f\<rparr>)"

definition disable_ltdc_it :: "u32 \<Rightarrow> 'a ltdc_sys_scheme \<Rightarrow> 'a ltdc_sys_scheme" where
  "disable_ltdc_it i = on_ltdc (\<lambda>r. r\<lparr>IER := IER r AND NOT i\<rparr>)"

text \<open>
  One of the four sections of the interrupt handler: \<open>isr\<close> and \<open>ier\<close> are the registers as read at
  the start.
\<close>

definition ltdc_irq_section ::
  "u32 \<Rightarrow> u32 \<Rightarrow> u32 \<Rightarrow> u32 \<Rightarrow> u32 \<Rightarrow> hal_ltdc_state \<Rightarrow> ('a ltdc_sys_scheme \<Rightarrow> 'a ltdc_sys_scheme option) \<Rightarrow> 'a ltdc_sys_scheme \<Rightarrow> 'a ltdc_sys_scheme option" where
  "ltdc_irq_section isr ier flag it err st callback s =
     (if isr AND flag \<noteq> 0 \<and> ier AND it \<noteq> 0
      then
        (let s1 = clear_ltdc_flag flag (disable_ltdc_it it s);
             s2 = s1\<lparr>lt_handle := (lt_handle s1)\<lparr>lh_error := lh_error (lt_handle s1) OR err, lh_state := st\<rparr>\<rparr>
         in callback (set_ltdc_lock False s2))
      else Some s)"

text \<open>The error and reload callbacks are the empty ones of the driver; that of the line is the board's.\<close>

definition HAL_LTDC_IRQHandler :: "('a ltdc_sys_scheme \<Rightarrow> 'a ltdc_sys_scheme option) \<Rightarrow> 'a ltdc_sys_scheme \<Rightarrow> 'a ltdc_sys_scheme option" where
  "HAL_LTDC_IRQHandler line_event s = do {
     let isr = ISR (lt_regs s);
     let ier = IER (lt_regs s);
     s1 \<leftarrow> ltdc_irq_section isr ier LTDC_FLAG_TE LTDC_IT_TE HAL_LTDC_ERROR_TE HAL_LTDC_STATE_ERROR Some s;
     s2 \<leftarrow> ltdc_irq_section isr ier LTDC_FLAG_FU LTDC_IT_FU HAL_LTDC_ERROR_FU HAL_LTDC_STATE_ERROR Some s1;
     s3 \<leftarrow> ltdc_irq_section isr ier LTDC_FLAG_LI LTDC_IT_LI 0 HAL_LTDC_STATE_READY line_event s2;
     ltdc_irq_section isr ier LTDC_FLAG_RR LTDC_IT_RR 0 HAL_LTDC_STATE_READY Some s3
   }"

section \<open>Results of the operations\<close>

lemma clear_then_set [simp]: "(x AND NOT b) OR b = (x OR b :: u32)"
  by (rule bit_word_eqI) (auto simp: bit_simps)

lemma set_then_read [simp]: "(x OR b) AND b = (b :: u32)"
  by (rule bit_word_eqI) (auto simp: bit_simps)

lemma clear_then_read [simp]: "(x AND NOT b) AND b = (0 :: u32)"
  by (rule bit_word_eqI) (auto simp: bit_simps)

lemma LTDC_IT_LI_nonzero [simp]: "LTDC_IT_LI \<noteq> 0"
  by (simp add: hal_consts)

lemma ltdc_locked_free:
  "\<not> lh_locked (lt_handle s) \<Longrightarrow>
   ltdc_locked (on_ltdc f) s = (HAL_OK, s\<lparr>lt_handle := (lt_handle s)\<lparr>lh_state := HAL_LTDC_STATE_READY\<rparr>,
     lt_regs := f (lt_regs s)\<rparr>)"
  by (simp add: ltdc_locked_def on_ltdc_def set_ltdc_lock_def set_ltdc_state_def)

lemma program_line_free:
  "\<not> lh_locked (lt_handle s) \<Longrightarrow> line \<le> 0x7FF \<Longrightarrow>
   HAL_LTDC_ProgramLineEvent line s =
     Some (HAL_OK, s\<lparr>lt_handle := (lt_handle s)\<lparr>lh_state := HAL_LTDC_STATE_READY\<rparr>,
       lt_regs := (lt_regs s)\<lparr>IER := IER (lt_regs s) OR LTDC_IT_LI, LIPCR := line\<rparr>\<rparr>)"
  unfolding HAL_LTDC_ProgramLineEvent_def
  by (simp add: ltdc_locked_free)

section \<open>The contract of the callbacks\<close>

text \<open>
  The initialisation callback sets up clocks, pins and interrupts but leaves the handle and the
  controller alone; a line event that returns on a free handle leaves it free and ready, with the
  line interrupt armed and acknowledged.
\<close>

definition line_armed :: "'a ltdc_sys_scheme \<Rightarrow> bool" where
  "line_armed s \<longleftrightarrow> \<not> lh_locked (lt_handle s) \<and> lh_state (lt_handle s) = HAL_LTDC_STATE_READY \<and>
     IER (lt_regs s) AND LTDC_IT_LI \<noteq> 0 \<and> ISR (lt_regs s) AND LTDC_FLAG_LI = 0"

lemma irq_section_local:
  "\<exists>h r. ltdc_irq_section isr ier flag it err st Some s = Some (s\<lparr>lt_handle := h, lt_regs := r\<rparr>) \<and>
     lh_init h = lh_init (lt_handle s)"
proof (cases "isr AND flag \<noteq> 0 \<and> ier AND it \<noteq> 0")
  case True
  let ?s = "clear_ltdc_flag flag (disable_ltdc_it it s)"
  let ?h = "(lt_handle s)\<lparr>lh_error := lh_error (lt_handle s) OR err, lh_state := st, lh_locked := False\<rparr>"
  have "ltdc_irq_section isr ier flag it err st Some s = Some (s\<lparr>lt_handle := ?h, lt_regs := lt_regs ?s\<rparr>)"
    using True
    by (simp add: ltdc_irq_section_def clear_ltdc_flag_def disable_ltdc_it_def on_ltdc_def set_ltdc_lock_def Let_def)
  moreover have "lh_init ?h = lh_init (lt_handle s)" by simp
  ultimately show ?thesis by blast
next
  case False
  then have "ltdc_irq_section isr ier flag it err st Some s = Some (s\<lparr>lt_handle := lt_handle s, lt_regs := lt_regs s\<rparr>)"
    by (auto simp: ltdc_irq_section_def)
  then show ?thesis by blast
qed

lemma irq_section_LIPCR:
  "\<exists>s'. ltdc_irq_section isr ier flag it err st Some s = Some s' \<and> LIPCR (lt_regs s') = LIPCR (lt_regs s)"
  by (simp add: ltdc_irq_section_def clear_ltdc_flag_def disable_ltdc_it_def on_ltdc_def set_ltdc_lock_def Let_def)

lemma irq_reload_armed:
  assumes "line_armed s"
    and "ltdc_irq_section isr ier LTDC_FLAG_RR LTDC_IT_RR 0 HAL_LTDC_STATE_READY Some s = Some s'"
  shows "line_armed s'"
proof -
  have "(x AND NOT LTDC_IT_RR) AND LTDC_IT_LI = x AND LTDC_IT_LI"
       "(x AND NOT LTDC_FLAG_RR) AND LTDC_FLAG_LI = x AND LTDC_FLAG_LI" for x :: u32
    by (auto simp: hal_consts intro!: bit_word_eqI simp: bit_simps)
  then show ?thesis
    using assms
    by (auto simp: ltdc_irq_section_def line_armed_def clear_ltdc_flag_def disable_ltdc_it_def on_ltdc_def
        set_ltdc_lock_def Let_def split: if_splits)
qed

locale ltdc_callbacks =
  fixes msp_init :: "'s ltdc_sys_scheme \<Rightarrow> 's ltdc_sys_scheme"
    and line_event :: "'s ltdc_sys_scheme \<Rightarrow> 's ltdc_sys_scheme option"
  assumes msp_handle [simp]: "lt_handle (msp_init s) = lt_handle s"
    and msp_regs [simp]: "lt_regs (msp_init s) = lt_regs s"
    and line_event_arms: "line_event s = Some s' \<Longrightarrow> \<not> lh_locked (lt_handle s) \<Longrightarrow> line_armed s'"
begin

lemma init_result:
  assumes "ltdc_init_asserts (lh_instance (lt_handle s)) (lh_init (lt_handle s))"
  shows "\<exists>s'. HAL_LTDC_Init msp_init s = Some (HAL_OK, s') \<and>
    lt_regs s' = write_init (lh_init (lt_handle s)) (lt_regs s) \<and>
    lh_init (lt_handle s') = lh_init (lt_handle s) \<and> lh_state (lt_handle s') = HAL_LTDC_STATE_READY \<and>
    lh_locked (lt_handle s') = (lh_state (lt_handle s) \<noteq> HAL_LTDC_STATE_RESET \<and> lh_locked (lt_handle s))"
  using assms by (simp add: HAL_LTDC_Init_def set_ltdc_state_def set_ltdc_lock_def on_ltdc_def)

lemma irq_line:
  assumes "HAL_LTDC_IRQHandler line_event s = Some s'"
    and "ISR (lt_regs s) AND LTDC_FLAG_LI \<noteq> 0" "IER (lt_regs s) AND LTDC_IT_LI \<noteq> 0"
  shows "line_armed s'"
proof -
  obtain s1 s2 s3 where
    "ltdc_irq_section (ISR (lt_regs s)) (IER (lt_regs s)) LTDC_FLAG_LI LTDC_IT_LI 0 HAL_LTDC_STATE_READY line_event s2 = Some s3"
    and "ltdc_irq_section (ISR (lt_regs s)) (IER (lt_regs s)) LTDC_FLAG_RR LTDC_IT_RR 0 HAL_LTDC_STATE_READY Some s3 = Some s'"
    using assms(1) by (auto simp: HAL_LTDC_IRQHandler_def Let_def bind_eq_Some_conv)
  moreover from this(1) have "line_armed s3"
    using assms(2,3) by (auto simp: ltdc_irq_section_def Let_def set_ltdc_lock_def dest!: line_event_arms)
  ultimately show ?thesis by (blast intro: irq_reload_armed)
qed

end

end
