(* ===== verification/Bsp_lcd.thy ===== *)
theory Bsp_lcd
  imports Ltdc_hal Bsp_utils Memory
begin

text \<open>
  The display of bsp/bsp_lcd.c: its descriptor, the initialisation of backlight, controller and
  layers over the controller's driver, the copy of a rectangle by DMA2D and the line event that
  paints the frame buffer.
\<close>

section \<open>Constants\<close>

definition TIM_COUNTERMODE_UP :: u32 where
  [hal_consts]: "TIM_COUNTERMODE_UP = 0x0"

definition TIM_CLOCKDIVISION_DIV1 :: u32 where
  [hal_consts]: "TIM_CLOCKDIVISION_DIV1 = 0x0"

definition TIM_AUTORELOAD_PRELOAD_DISABLE :: u32 where
  [hal_consts]: "TIM_AUTORELOAD_PRELOAD_DISABLE = 0x0"

definition TIM_TRGO_RESET :: u32 where
  [hal_consts]: "TIM_TRGO_RESET = 0x0"

definition TIM_MASTERSLAVEMODE_DISABLE :: u32 where
  [hal_consts]: "TIM_MASTERSLAVEMODE_DISABLE = 0x0"

definition TIM_OCMODE_PWM1 :: u32 where
  [hal_consts]: "TIM_OCMODE_PWM1 = 0x60"

definition TIM_OCPOLARITY_HIGH :: u32 where
  [hal_consts]: "TIM_OCPOLARITY_HIGH = 0x0"

definition TIM_OCFAST_DISABLE :: u32 where
  [hal_consts]: "TIM_OCFAST_DISABLE = 0x0"

definition TIM_CHANNEL_1 :: u32 where
  [hal_consts]: "TIM_CHANNEL_1 = 0x0"

definition TIM_CHANNEL_2 :: u32 where
  [hal_consts]: "TIM_CHANNEL_2 = 0x4"

definition TIM_CHANNEL_3 :: u32 where
  [hal_consts]: "TIM_CHANNEL_3 = 0x8"

definition TIM_CHANNEL_4 :: u32 where
  [hal_consts]: "TIM_CHANNEL_4 = 0xc"

definition TIM_CHANNEL_5 :: u32 where
  [hal_consts]: "TIM_CHANNEL_5 = 0x10"

definition TIM3_BASE :: u32 where
  [base_defs]: "TIM3_BASE = D2_APB1PERIPH_BASE + 0x0400"

definition DMA2D_CR_START :: u32 where
  [hal_consts]: "DMA2D_CR_START = 0x1"

definition DMA2D_M2M :: u32 where
  [hal_consts]: "DMA2D_M2M = 0x0"


section \<open>State\<close>

record lcd_dev =
  lv_hbp :: u32
  lv_vbp :: u32
  lv_hsw :: u32
  lv_vsw :: u32
  lv_hfp :: u32
  lv_vfp :: u32
  lv_width :: u32
  lv_height :: u32

text \<open>A function of the backlight: the one of this file, or the code at some address.\<close>

datatype lcd_op = Lcd_default | Lcd_other u32

record tim_handle =
  th_instance :: u32
  th_init :: tim_base_init

text \<open>The descriptor without \<open>_hltdc\<close>, which is the handle of the controller's state.\<close>

record bsp_lcd_des =
  ld_dev :: lcd_dev
  ld_set_brightness :: "lcd_op option"
  ld_get_brightness :: "lcd_op option"
  ld_bklt_pin :: u16
  ld_bklt_port :: u32
  ld_bklt_timer :: u32
  ld_bklt_timer_ch :: u32
  ld_layer_num :: u32
  ld_gram :: "u32 \<times> u32"
  ld_htim :: tim_handle
  ld_lyr_cfg :: "u32 \<Rightarrow> layer_cfg"

text \<open>With the bytes of memory.\<close>

record lcd_sys = ltdc_sys +
  lc_des :: bsp_lcd_des
  lc_mem :: "u32 \<Rightarrow> u8"

definition lcd_emit :: "event list \<Rightarrow> lcd_sys \<Rightarrow> lcd_sys" where
  "lcd_emit es s = s\<lparr>lt_log := lt_log s @ es\<rparr>"

section \<open>Backlight functions\<close>

text \<open>The compare register of a channel, \<open>__HAL_TIM_SET_COMPARE\<close> and \<open>__HAL_TIM_GET_COMPARE\<close>.\<close>

definition tim_ccr :: "u32 \<Rightarrow> u32 \<Rightarrow> u32" where
  "tim_ccr inst ch =
     inst + (if ch = TIM_CHANNEL_1 then 0x34 else if ch = TIM_CHANNEL_2 then 0x38
             else if ch = TIM_CHANNEL_3 then 0x3C else if ch = TIM_CHANNEL_4 then 0x40
             else if ch = TIM_CHANNEL_5 then 0x58 else 0x5C)"

definition tim_set_compare :: "u32 \<Rightarrow> lcd_sys \<Rightarrow> lcd_sys" where
  "tim_set_compare v s =
     lcd_emit [Reg_write (tim_ccr (th_instance (ld_htim (lc_des s))) (ld_bklt_timer_ch (lc_des s))) v] s"

text \<open>\<open>bsp_lcd_mod.descriptor\<close> is the descriptor of the state.\<close>

definition bklt_set_brightness :: "u8 \<Rightarrow> lcd_sys \<Rightarrow> int \<times> lcd_sys" where
  "bklt_set_brightness brightness s = (0, tim_set_compare (ucast brightness) s)"

definition bklt_get_brightness :: "hal_env \<Rightarrow> lcd_sys \<Rightarrow> int \<times> lcd_sys" where
  "bklt_get_brightness env s =
     (let a = tim_ccr (th_instance (ld_htim (lc_des s))) (ld_bklt_timer_ch (lc_des s))
      in (sint (reg_value env (lt_log s) a), lcd_emit [Reg_read a] s))"

text \<open>
  A function that is not of this file leaves the driver's data alone: \<open>ext\<close> is what it does to the
  hardware.
\<close>

definition call_brightness :: "(u32 \<Rightarrow> u8 \<Rightarrow> lcd_sys \<Rightarrow> event list) \<Rightarrow> lcd_op \<Rightarrow> u8 \<Rightarrow> lcd_sys \<Rightarrow> lcd_sys" where
  "call_brightness ext f b s =
     (case f of Lcd_default \<Rightarrow> snd (bklt_set_brightness b s) | Lcd_other a \<Rightarrow> lcd_emit (ext a b s) s)"

section \<open>Callback of the controller's initialisation\<close>

definition lcd_pin :: "u16 \<Rightarrow> u32 \<Rightarrow> u8 \<Rightarrow> gpio_init" where
  "lcd_pin pins speed af =
     \<lparr>gpio_pin = ucast pins, gpio_mode = GPIO_MODE_AF_PP, gpio_pull = GPIO_NOPULL, gpio_speed = speed,
      gpio_alternate = ucast af\<rparr>"

definition lcd_pins :: "(u32 \<times> gpio_init) list" where
  "lcd_pins =
     [(GPIOK_BASE, lcd_pin (GPIO_PIN_5 OR GPIO_PIN_4 OR GPIO_PIN_6 OR GPIO_PIN_3 OR GPIO_PIN_7 OR GPIO_PIN_2 OR GPIO_PIN_1)
         GPIO_SPEED_FREQ_VERY_HIGH GPIO_AF14_LTDC),
      (GPIOG_BASE, lcd_pin GPIO_PIN_10 GPIO_SPEED_FREQ_VERY_HIGH GPIO_AF9_LTDC),
      (GPIOJ_BASE, lcd_pin (GPIO_PIN_15 OR GPIO_PIN_14 OR GPIO_PIN_12 OR GPIO_PIN_13 OR GPIO_PIN_9 OR GPIO_PIN_0 OR
         GPIO_PIN_8 OR GPIO_PIN_7 OR GPIO_PIN_6 OR GPIO_PIN_1 OR GPIO_PIN_5 OR GPIO_PIN_3 OR GPIO_PIN_2 OR GPIO_PIN_4)
         GPIO_SPEED_FREQ_VERY_HIGH GPIO_AF14_LTDC),
      (GPIOH_BASE, lcd_pin GPIO_PIN_15 GPIO_SPEED_FREQ_VERY_HIGH GPIO_AF14_LTDC),
      (GPIOI_BASE, lcd_pin (GPIO_PIN_12 OR GPIO_PIN_13 OR GPIO_PIN_14 OR GPIO_PIN_15) GPIO_SPEED_FREQ_VERY_HIGH GPIO_AF14_LTDC),
      (GPIOH_BASE, lcd_pin GPIO_PIN_4 GPIO_SPEED_FREQ_VERY_HIGH GPIO_AF9_LTDC),
      (GPIOH_BASE, lcd_pin GPIO_PIN_6 GPIO_SPEED_FREQ_LOW GPIO_AF2_TIM12)]"

definition lcd_msp_events :: "event list" where
  "lcd_msp_events =
     map (\<lambda>n. Clk n True) [''LTDC'', ''GPIOK'', ''GPIOG'', ''GPIOJ'', ''GPIOH'', ''GPIOI'', ''GPIOH''] @
     map (\<lambda>(p, g). Gpio (Gpio_init p g)) lcd_pins @
     [Core (Nvic_priority LTDC_IRQn 1 0), Core (Nvic_enable LTDC_IRQn)]"

definition HAL_LTDC_MspInit :: "'a ltdc_sys_scheme \<Rightarrow> 'a ltdc_sys_scheme" where
  "HAL_LTDC_MspInit s =
     (if lh_instance (lt_handle s) \<noteq> LTDC_BASE then s else s\<lparr>lt_log := lt_log s @ lcd_msp_events\<rparr>)"

section \<open>Descriptor defaults\<close>

definition lcd_dev_defaults :: "lcd_dev \<Rightarrow> lcd_dev" where
  "lcd_dev_defaults v =
     v\<lparr>lv_hsw := SET_VAL_IF_ZERO (lv_hsw v) 1, lv_vsw := SET_VAL_IF_ZERO (lv_vsw v) 1,
       lv_hbp := SET_VAL_IF_ZERO (lv_hbp v) 80, lv_vbp := SET_VAL_IF_ZERO (lv_vbp v) 40,
       lv_hfp := SET_VAL_IF_ZERO (lv_hfp v) 200, lv_vfp := SET_VAL_IF_ZERO (lv_vfp v) 22,
       lv_width := SET_VAL_IF_ZERO (lv_width v) 800, lv_height := SET_VAL_IF_ZERO (lv_height v) 480\<rparr>"

definition lcd_defaults :: "u32 \<Rightarrow> u32 \<Rightarrow> bsp_lcd_des \<Rightarrow> bsp_lcd_des" where
  "lcd_defaults sgram0 sgram1 d =
     d\<lparr>ld_dev := lcd_dev_defaults (ld_dev d),
       ld_set_brightness := (if ld_set_brightness d = None then Some Lcd_default else ld_set_brightness d),
       ld_get_brightness := (if ld_get_brightness d = None then Some Lcd_default else ld_get_brightness d),
       ld_gram := (SET_VAL_IF_ZERO (fst (ld_gram d)) sgram0, SET_VAL_IF_ZERO (snd (ld_gram d)) sgram1),
       ld_layer_num := SET_VAL_IF_ZERO (ld_layer_num d) 1,
       ld_bklt_pin := SET_VAL_IF_ZERO (ld_bklt_pin d) GPIO_PIN_6,
       ld_bklt_port := SET_VAL_IF_ZERO (ld_bklt_port d) GPIOH_BASE,
       ld_bklt_timer := SET_VAL_IF_ZERO (ld_bklt_timer d) TIM12_BASE,
       ld_bklt_timer_ch := SET_VAL_IF_ZERO (ld_bklt_timer_ch d) TIM_CHANNEL_1\<rparr>"

text \<open>What \<open>calloc\<close> returns, and the choice of the descriptor: \<open>answer\<close> is its answer.\<close>

definition zero_layer :: layer_cfg where
  "zero_layer = \<lparr>lyr_window_x0 = 0, lyr_window_x1 = 0, lyr_window_y0 = 0, lyr_window_y1 = 0, lyr_pixel_format = 0,
     lyr_alpha = 0, lyr_alpha0 = 0, lyr_blending_factor1 = 0, lyr_blending_factor2 = 0, lyr_fb_start_adress = 0,
     lyr_image_width = 0, lyr_image_height = 0, lyr_backcolor = \<lparr>col_blue = 0, col_green = 0, col_red = 0\<rparr>\<rparr>"

definition zero_lcd_des :: bsp_lcd_des where
  "zero_lcd_des =
     \<lparr>ld_dev = \<lparr>lv_hbp = 0, lv_vbp = 0, lv_hsw = 0, lv_vsw = 0, lv_hfp = 0, lv_vfp = 0, lv_width = 0, lv_height = 0\<rparr>,
      ld_set_brightness = None, ld_get_brightness = None, ld_bklt_pin = 0, ld_bklt_port = 0, ld_bklt_timer = 0,
      ld_bklt_timer_ch = 0, ld_layer_num = 0, ld_gram = (0, 0),
      ld_htim = \<lparr>th_instance = 0, th_init = \<lparr>tim_prescaler = 0, tim_counter_mode = 0, tim_period = 0,
        tim_clock_division = 0, tim_repetition_counter = 0, tim_auto_reload_preload = 0\<rparr>\<rparr>,
      ld_lyr_cfg = (\<lambda>_. zero_layer)\<rparr>"

definition lcd_set_default_des ::
  "u32 \<Rightarrow> u32 \<Rightarrow> u32 \<Rightarrow> u32 \<Rightarrow> (u32 \<Rightarrow> bsp_lcd_des) \<Rightarrow> u32 \<times> (u32 \<Rightarrow> bsp_lcd_des)" where
  "lcd_set_default_des sgram0 sgram1 answer des heap =
     (if des = 0 then
        (if IS_ERR_OR_NULL answer then (ERR_PTR (- ENOMEM), heap)
         else (answer, heap(answer := lcd_defaults sgram0 sgram1 zero_lcd_des)))
      else (des, heap(des := lcd_defaults sgram0 sgram1 (heap des))))"

section \<open>Initialisation\<close>

definition lcd_ltdc_init :: "lcd_dev \<Rightarrow> ltdc_init" where
  "lcd_ltdc_init v =
     (let hs = lv_hsw v - 1; vs = lv_vsw v - 1;
          ahbp = lv_hbp v + hs; avbp = lv_vbp v + vs;
          aaw = lv_width v + ahbp; aah = lv_height v + avbp
      in \<lparr>ltdc_hs_polarity = LTDC_HSPOLARITY_AL, ltdc_vs_polarity = LTDC_VSPOLARITY_AL,
          ltdc_de_polarity = LTDC_DEPOLARITY_AL, ltdc_pc_polarity = LTDC_PCPOLARITY_IPC,
          ltdc_horizontal_sync = hs, ltdc_vertical_sync = vs,
          ltdc_accumulated_hbp = ahbp, ltdc_accumulated_vbp = avbp,
          ltdc_accumulated_active_w = aaw, ltdc_accumulated_active_h = aah,
          ltdc_total_width = aaw + lv_hfp v, ltdc_total_heigh = aah + lv_vfp v,
          ltdc_backcolor = \<lparr>col_blue = 0, col_green = 0, col_red = 0\<rparr>\<rparr>)"

definition init_ltdc :: "lcd_sys \<Rightarrow> (int \<times> lcd_sys) option" where
  "init_ltdc s = do {
     let h = lt_handle s;
     (r1, s1) \<leftarrow> HAL_LTDC_Init HAL_LTDC_MspInit
       (s\<lparr>lt_handle := h\<lparr>lh_instance := LTDC_BASE, lh_init := lcd_ltdc_init (ld_dev (lc_des s))\<rparr>\<rparr>);
     if r1 \<noteq> HAL_OK then Some (- ENODEV, s1)
     else
       (let (r2, s2) = HAL_LTDC_DisableDither s1
        in Some (if r2 \<noteq> HAL_OK then - ENODEV else 0, s2))
   }"

definition lcd_layer :: "bsp_lcd_des \<Rightarrow> u32 \<Rightarrow> layer_cfg" where
  "lcd_layer d i =
     \<lparr>lyr_window_x0 = 0, lyr_window_x1 = lv_width (ld_dev d), lyr_window_y0 = 0, lyr_window_y1 = lv_height (ld_dev d),
      lyr_pixel_format = LTDC_PIXEL_FORMAT_RGB888, lyr_alpha = 255, lyr_alpha0 = 0,
      lyr_blending_factor1 = LTDC_BLENDING_FACTOR1_CA, lyr_blending_factor2 = LTDC_BLENDING_FACTOR2_CA,
      lyr_fb_start_adress = (if i = 0 then fst (ld_gram d) else snd (ld_gram d)),
      lyr_image_width = lv_width (ld_dev d), lyr_image_height = lv_height (ld_dev d),
      lyr_backcolor = \<lparr>col_blue = 0, col_green = 0, col_red = 0\<rparr>\<rparr>"

text \<open>
  The loop over the layers: \<open>n\<close> rounds are left, \<open>i\<close> is the index.  Above the two layers that the
  descriptor has room for, the code writes behind its arrays: \<open>None\<close>.
\<close>

fun init_layers :: "nat \<Rightarrow> u32 \<Rightarrow> lcd_sys \<Rightarrow> (int \<times> lcd_sys) option" where
  "init_layers 0 i s = Some (0, s)"
| "init_layers (Suc n) i s =
     (if 2 \<le> i then None
      else do {
        let c = lcd_layer (lc_des s) i;
        let s1 = s\<lparr>lc_des := (lc_des s)\<lparr>ld_lyr_cfg := (ld_lyr_cfg (lc_des s))(i := c)\<rparr>\<rparr>;
        (r, s2) \<leftarrow> HAL_LTDC_ConfigLayer c i s1;
        if r \<noteq> HAL_OK then Some (- ENODEV, s2) else init_layers n (i + 1) s2
      })"

definition init_layer :: "lcd_sys \<Rightarrow> (int \<times> lcd_sys) option" where
  "init_layer s = init_layers (unat (ld_layer_num (lc_des s))) 0 s"

definition bklt_tim_init :: "tim_base_init \<Rightarrow> tim_base_init" where
  "bklt_tim_init i =
     i\<lparr>tim_prescaler := 1199, tim_counter_mode := TIM_COUNTERMODE_UP, tim_period := 255,
       tim_clock_division := TIM_CLOCKDIVISION_DIV1, tim_auto_reload_preload := TIM_AUTORELOAD_PRELOAD_DISABLE\<rparr>"

definition bklt_master :: tim_master where
  "bklt_master = \<lparr>master_output_trigger = TIM_TRGO_RESET, master_output_trigger2 = 0,
     master_slave_mode = TIM_MASTERSLAVEMODE_DISABLE\<rparr>"

definition bklt_oc :: tim_oc_init where
  "bklt_oc = \<lparr>oc_mode = TIM_OCMODE_PWM1, oc_pulse = 5, oc_polarity = TIM_OCPOLARITY_HIGH, oc_n_polarity = 0,
     oc_fast_mode = TIM_OCFAST_DISABLE, oc_idle_state = 0, oc_n_idle_state = 0\<rparr>"

text \<open>A call whose status is tested and leads to \<open>-ENODEV\<close>.\<close>

definition lcd_try :: "hal_env \<Rightarrow> event \<Rightarrow> (lcd_sys \<Rightarrow> int \<times> lcd_sys) \<Rightarrow> lcd_sys \<Rightarrow> int \<times> lcd_sys" where
  "lcd_try env e rest s =
     (if hal_answer env (lt_log s) e \<noteq> HAL_OK then (- ENODEV, lcd_emit [e] s) else rest (lcd_emit [e] s))"

definition init_bklt :: "hal_env \<Rightarrow> lcd_sys \<Rightarrow> (int \<times> lcd_sys) option" where
  "init_bklt env s = do {
     let tim = ld_bklt_timer (lc_des s);
     let ch = ld_bklt_timer_ch (lc_des s);
     (r, pd, l) \<leftarrow> bsp_utils_periph_clk (zero_periph\<lparr>pd_lo := tim\<rparr>) ENABLE (lt_log s);
     let s1 = s\<lparr>lt_log := l\<rparr>;
     if r \<noteq> 0 then Some (- ENODEV, s1)
     else
       (let i = bklt_tim_init (th_init (ld_htim (lc_des s)));
            s2 = s1\<lparr>lc_des := (lc_des s1)\<lparr>ld_htim := \<lparr>th_instance = tim, th_init = i\<rparr>\<rparr>\<rparr>
        in Some (
             lcd_try env (Tim (Tim_pwm_init tim i)) (
             lcd_try env (Tim (Tim_master_sync tim bklt_master)) (
             lcd_try env (Tim (Tim_pwm_config tim bklt_oc ch)) (\<lambda>s5.
               (0, lcd_emit [Tim (Tim_pwm_start tim ch)] (tim_set_compare 0 s5))))) s2))
   }"

definition bsp_lcd_init :: "hal_env \<Rightarrow> (u32 \<Rightarrow> u8 \<Rightarrow> lcd_sys \<Rightarrow> event list) \<Rightarrow> lcd_sys \<Rightarrow> (int \<times> lcd_sys) option" where
  "bsp_lcd_init env ext s = do {
     (r1, s1) \<leftarrow> init_bklt env s;
     let s1' = (case ld_set_brightness (lc_des s1) of None \<Rightarrow> s1 | Some f \<Rightarrow> call_brightness ext f 128 s1);
     if r1 \<noteq> 0 then Some (- EBUSY, s1')
     else do {
       (r2, s2) \<leftarrow> init_ltdc s1';
       if r2 \<noteq> 0 then Some (- EBUSY, s2)
       else do {
         (r3, s3) \<leftarrow> init_layer s2;
         if r3 \<noteq> 0 then Some (- EBUSY, s3)
         else do {
           (r4, s4) \<leftarrow> HAL_LTDC_ProgramLineEvent
             (ltdc_accumulated_active_h (lh_init (lt_handle s3)) + 1) s3;
           Some (if r4 \<noteq> HAL_OK then - EBUSY else 0, s4)
         }
       }
     }
   }"

section \<open>Drawing\<close>

text \<open>The registers of DMA2D.\<close>

definition DMA2D_CR :: u32 where "DMA2D_CR = DMA2D_BASE"
definition DMA2D_FGMAR :: u32 where "DMA2D_FGMAR = DMA2D_BASE + 0x0C"
definition DMA2D_FGOR :: u32 where "DMA2D_FGOR = DMA2D_BASE + 0x10"
definition DMA2D_FGPFCCR :: u32 where "DMA2D_FGPFCCR = DMA2D_BASE + 0x1C"
definition DMA2D_OMAR :: u32 where "DMA2D_OMAR = DMA2D_BASE + 0x3C"
definition DMA2D_OOR :: u32 where "DMA2D_OOR = DMA2D_BASE + 0x40"
definition DMA2D_NLR :: u32 where "DMA2D_NLR = DMA2D_BASE + 0x44"

definition bsp_lcd_cpybuf ::
  "hal_env \<Rightarrow> bsp_lcd_des \<Rightarrow> u16 \<Rightarrow> u16 \<Rightarrow> u16 \<Rightarrow> u16 \<Rightarrow> u32 \<Rightarrow> log \<Rightarrow> log option" where
  "bsp_lcd_cpybuf env d x y width height color l =
     (let w = lv_width (ld_dev d);
          l1 = CLEAR_BIT env DMA2D_CR DMA2D_CR_START l;
          l2 = l1 @ [Reg_write DMA2D_CR DMA2D_M2M,
                     Reg_write DMA2D_FGPFCCR LTDC_PIXEL_FORMAT_RGB888,
                     Reg_write DMA2D_FGOR 0,
                     Reg_write DMA2D_OOR (w - ucast width),
                     Reg_write DMA2D_FGMAR color,
                     Reg_write DMA2D_OMAR (fst (ld_gram d) + 3 * (w * ucast y + ucast x)),
                     Reg_write DMA2D_NLR (push_bit 16 (ucast width) OR ucast height)]
      in wait_clear env DMA2D_CR DMA2D_CR_START (SET_BIT env DMA2D_CR DMA2D_CR_START l2))"

fun frame_fill :: "nat \<Rightarrow> u32 \<Rightarrow> u32 \<Rightarrow> (u32 \<Rightarrow> u8) \<Rightarrow> u32 \<Rightarrow> u8" where
  "frame_fill 0 tmp color m = m"
| "frame_fill (Suc n) tmp color m = frame_fill n (tmp + 3) color (store32 tmp color m)"

text \<open>\<open>rnd\<close> is the number that \<open>rand\<close> returns; the operation is called without a test, so that NULL is undefined.\<close>

definition HAL_LTDC_LineEventCallback ::
  "(u32 \<Rightarrow> u8 \<Rightarrow> lcd_sys \<Rightarrow> event list) \<Rightarrow> u32 \<Rightarrow> lcd_sys \<Rightarrow> lcd_sys option" where
  "HAL_LTDC_LineEventCallback ext rnd s = do {
     f \<leftarrow> ld_set_brightness (lc_des s);
     let s1 = call_brightness ext f 128 s;
     let v = ld_dev (lc_des s1);
     let s2 = s1\<lparr>lc_mem := frame_fill (unat (lv_width v * lv_height v)) (fst (ld_gram (lc_des s1))) rnd (lc_mem s1)\<rparr>;
     let s3 = lcd_emit [Core Clean_invalidate_dcache] s2;
     (_, s4) \<leftarrow> HAL_LTDC_ProgramLineEvent (ltdc_accumulated_active_h (lh_init (lt_handle s3)) + 1) s3;
     Some (clear_ltdc_flag LTDC_FLAG_LI s4)
   }"

section \<open>Fields of the controller's registers\<close>

lemma small_bit: "unat (a :: u32) < 2 ^ n \<Longrightarrow> bit a k \<Longrightarrow> k < n"
  using bit_take_bit_iff [of n "unat a" k] by (simp add: bit_unsigned_iff take_bit_nat_eq_self)

lemma replaced_hi:
  assumes "unat a < 2 ^ 12" "unat b < 2 ^ 11"
  shows "drop_bit 16 (replaced (0x7ff OR 0xfff0000) (push_bit 16 a OR b) r AND 0xfff0000) = (a :: u32)"
proof (rule bit_word_eqI)
  fix n assume "n < LENGTH(32)"
  have m: "(0xfff0000 :: u32) = push_bit 16 (mask 12)" by (simp add: mask_eq_exp_minus_1)
  show "bit (drop_bit 16 (replaced (0x7ff OR 0xfff0000) (push_bit 16 a OR b) r AND 0xfff0000)) n = bit a n"
    using small_bit [OF assms(1), of n] small_bit [OF assms(2), of "16 + n"]
      bit_imp_le_length [of a n]
    unfolding replaced_def m
    by (auto simp: bit_simps)
qed

lemma replaced_lo:
  assumes "unat b < 2 ^ 11"
  shows "replaced (0x7ff OR 0xfff0000) (push_bit 16 a OR b) r AND 0x7ff = (b :: u32)"
proof (rule bit_word_eqI)
  fix n assume "n < LENGTH(32)"
  have m: "(0x7ff :: u32) = mask 11" by (simp add: mask_eq_exp_minus_1)
  show "bit (replaced (0x7ff OR 0xfff0000) (push_bit 16 a OR b) r AND 0x7ff) n = bit b n"
    using small_bit [OF assms(1), of n]
    unfolding replaced_def m
    by (auto simp: bit_simps)
qed

text \<open>Two half words in one register.\<close>

lemma halves:
  assumes "unat a < 2 ^ 16" "unat b < 2 ^ 16"
  shows "take_bit 16 (a OR push_bit 16 b) = (a :: u32)" "drop_bit 16 (a OR push_bit 16 b) = b"
  by (auto intro!: bit_word_eqI simp: bit_simps dest: bit_imp_le_length small_bit [OF assms(1)] small_bit [OF assms(2)])

section \<open>The callbacks keep their contract\<close>

lemma lcd_emit_simps [simp]:
  "lt_handle (lcd_emit es s) = lt_handle s" "lt_regs (lcd_emit es s) = lt_regs s"
  "lc_des (lcd_emit es s) = lc_des s" "lc_mem (lcd_emit es s) = lc_mem s"
  "lt_log (lcd_emit es s) = lt_log s @ es"
  by (simp_all add: lcd_emit_def)

lemma call_brightness_simps [simp]:
  "lt_handle (call_brightness ext f b s) = lt_handle s" "lt_regs (call_brightness ext f b s) = lt_regs s"
  "lc_des (call_brightness ext f b s) = lc_des s" "lc_mem (call_brightness ext f b s) = lc_mem s"
  by (cases f; simp add: call_brightness_def bklt_set_brightness_def tim_set_compare_def)+

lemma line_event_result:
  assumes "ld_set_brightness (lc_des s) = Some f" "\<not> lh_locked (lt_handle s)"
    and "ltdc_accumulated_active_h (lh_init (lt_handle s)) + 1 \<le> 0x7FF"
  shows "\<exists>s'. HAL_LTDC_LineEventCallback ext rnd s = Some s' \<and> line_armed s' \<and>
     LIPCR (lt_regs s') = ltdc_accumulated_active_h (lh_init (lt_handle s)) + 1 \<and>
     lc_mem s' = frame_fill (unat (lv_width (ld_dev (lc_des s)) * lv_height (ld_dev (lc_des s))))
       (fst (ld_gram (lc_des s))) rnd (lc_mem s)"
  using assms
  by (simp add: HAL_LTDC_LineEventCallback_def program_line_free clear_ltdc_flag_def on_ltdc_def line_armed_def Let_def)

lemma line_event_returned:
  assumes "HAL_LTDC_LineEventCallback ext rnd s = Some s'" "\<not> lh_locked (lt_handle s)"
  shows "ld_set_brightness (lc_des s) \<noteq> None \<and> ltdc_accumulated_active_h (lh_init (lt_handle s)) + 1 \<le> 0x7FF"
  using assms
  by (auto simp: HAL_LTDC_LineEventCallback_def HAL_LTDC_ProgramLineEvent_def Let_def bind_eq_Some_conv split: if_splits)

interpretation lcd: ltdc_callbacks HAL_LTDC_MspInit "HAL_LTDC_LineEventCallback ext rnd" for ext rnd
proof
  fix s s' :: lcd_sys
  assume "HAL_LTDC_LineEventCallback ext rnd s = Some s'" "\<not> lh_locked (lt_handle s)"
  then show "line_armed s'"
    using line_event_returned [of ext rnd s s'] line_event_result [of s _ ext rnd] by force
qed (simp_all add: HAL_LTDC_MspInit_def)

lemma irq_section_mem:
  "ltdc_irq_section isr ier flag it err st Some s = Some s' \<Longrightarrow> lc_mem s' = lc_mem s"
  by (auto simp: ltdc_irq_section_def clear_ltdc_flag_def disable_ltdc_it_def on_ltdc_def set_ltdc_lock_def Let_def split: if_splits)

lemma lcd_line_detail:
  assumes "ld_set_brightness (lc_des s) = Some f"
    and "ltdc_accumulated_active_h (lh_init (lt_handle s)) + 1 \<le> 0x7FF"
    and "ISR (lt_regs s) AND LTDC_FLAG_LI \<noteq> 0" "IER (lt_regs s) AND LTDC_IT_LI \<noteq> 0"
  shows "\<exists>s'. HAL_LTDC_IRQHandler (HAL_LTDC_LineEventCallback ext rnd) s = Some s' \<and> line_armed s' \<and>
    LIPCR (lt_regs s') = ltdc_accumulated_active_h (lh_init (lt_handle s)) + 1 \<and>
    lc_mem s' = frame_fill (unat (lv_width (ld_dev (lc_des s)) * lv_height (ld_dev (lc_des s)))) (fst (ld_gram (lc_des s))) rnd (lc_mem s)"
proof -
  let ?isr = "ISR (lt_regs s)" and ?ier = "IER (lt_regs s)"
  obtain h1 r1 where
    s1: "ltdc_irq_section ?isr ?ier LTDC_FLAG_TE LTDC_IT_TE HAL_LTDC_ERROR_TE HAL_LTDC_STATE_ERROR Some s
         = Some (s\<lparr>lt_handle := h1, lt_regs := r1\<rparr>)" and h1: "lh_init h1 = lh_init (lt_handle s)"
    using irq_section_local by blast
  obtain h2 r2 where
    s2: "ltdc_irq_section ?isr ?ier LTDC_FLAG_FU LTDC_IT_FU HAL_LTDC_ERROR_FU HAL_LTDC_STATE_ERROR Some (s\<lparr>lt_handle := h1, lt_regs := r1\<rparr>)
         = Some (s\<lparr>lt_handle := h2, lt_regs := r2\<rparr>)" and h2: "lh_init h2 = lh_init (lt_handle s)"
    using irq_section_local [where s = "s\<lparr>lt_handle := h1, lt_regs := r1\<rparr>"] h1 by force
  define t where "t = clear_ltdc_flag LTDC_FLAG_LI (disable_ltdc_it LTDC_IT_LI (s\<lparr>lt_handle := h2, lt_regs := r2\<rparr>))"
  define t' where "t' = set_ltdc_lock False (t\<lparr>lt_handle := (lt_handle t)\<lparr>lh_error := lh_error (lt_handle t) OR 0,
    lh_state := HAL_LTDC_STATE_READY\<rparr>\<rparr>)"
  have t': "lc_des t' = lc_des s" "\<not> lh_locked (lt_handle t')" "lh_init (lt_handle t') = lh_init (lt_handle s)"
    using h2 by (simp_all add: t'_def t_def set_ltdc_lock_def clear_ltdc_flag_def disable_ltdc_it_def on_ltdc_def)
  have m': "lc_mem t' = lc_mem s"
    by (simp add: t'_def t_def set_ltdc_lock_def clear_ltdc_flag_def disable_ltdc_it_def on_ltdc_def)
  obtain s3 where s3: "HAL_LTDC_LineEventCallback ext rnd t' = Some s3"
      "LIPCR (lt_regs s3) = ltdc_accumulated_active_h (lh_init (lt_handle s)) + 1"
      "lc_mem s3 = frame_fill (unat (lv_width (ld_dev (lc_des s)) * lv_height (ld_dev (lc_des s)))) (fst (ld_gram (lc_des s))) rnd (lc_mem s)"
    using line_event_result [of t' f ext rnd] t' m' assms(1,2) by auto
  have "ltdc_irq_section ?isr ?ier LTDC_FLAG_LI LTDC_IT_LI 0 HAL_LTDC_STATE_READY (HAL_LTDC_LineEventCallback ext rnd)
      (s\<lparr>lt_handle := h2, lt_regs := r2\<rparr>) = Some s3"
    using assms(3,4) s3(1) by (simp add: ltdc_irq_section_def t_def t'_def Let_def)
  moreover obtain s4 where "ltdc_irq_section ?isr ?ier LTDC_FLAG_RR LTDC_IT_RR 0 HAL_LTDC_STATE_READY Some s3 = Some s4"
      "LIPCR (lt_regs s4) = LIPCR (lt_regs s3)" "lc_mem s4 = lc_mem s3"
    using irq_section_LIPCR irq_section_mem by blast
  ultimately have "HAL_LTDC_IRQHandler (HAL_LTDC_LineEventCallback ext rnd) s = Some s4"
    by (simp add: HAL_LTDC_IRQHandler_def s1 s2 Let_def)
  then show ?thesis using lcd.irq_line assms(3,4) s3(2,3) \<open>LIPCR (lt_regs s4) = _\<close> \<open>lc_mem s4 = _\<close> by metis
qed

text \<open>
  A line interrupt arms the next one: with the operation for the brightness present and the
  line in range, the handler returns with the interrupt enabled for the first line behind the active
  area, its flag acknowledged, the driver free and ready, whatever errors were pending besides.
\<close>

theorem lcd_line_interrupt:
  assumes "ld_set_brightness (lc_des s) = Some f"
    and "ltdc_accumulated_active_h (lh_init (lt_handle s)) + 1 \<le> 0x7FF"
    and "ISR (lt_regs s) AND LTDC_FLAG_LI \<noteq> 0" "IER (lt_regs s) AND LTDC_IT_LI \<noteq> 0"
  shows "\<exists>s'. HAL_LTDC_IRQHandler (HAL_LTDC_LineEventCallback ext rnd) s = Some s' \<and> line_armed s' \<and>
    LIPCR (lt_regs s') = ltdc_accumulated_active_h (lh_init (lt_handle s)) + 1"
  using lcd_line_detail [OF assms, of ext rnd] by blast

section \<open>What a frame overwrites\<close>

lemma frame_fill_bytes:
  assumes "uint base + 3 * int n < 2 ^ 32"
  shows "frame_fill n base c m a =
    (if uint base \<le> uint a \<and> uint a \<le> uint base + 3 * int n \<and> 0 < n
     then word_byte c (if uint a = uint base + 3 * int n then 3 else nat ((uint a - uint base) mod 3)) else m a)"
  using assms
proof (induction n arbitrary: base m)
  case 0
  then show ?case by simp
next
  case (Suc n)
  have u: "uint (base + 3) = uint base + 3" "uint base + 3 < 2 ^ 32"
    using Suc.prems by (simp_all add: uint_word_ariths)
  have s: "store32 base c m a = (if uint base \<le> uint a \<and> uint a \<le> uint base + 3
     then word_byte c (nat (uint a - uint base)) else m a)"
    using store32_bytes [OF u(2), of a c m] store32_below [OF _ u(2), of a c m] by auto
  have d: "uint a = uint base + 3 \<or> uint a - uint base \<in> {0, 1, 2} \<or> uint a < uint base \<or> uint base + 3 < uint a"
    by auto
  have m: "(uint a - (uint base + 3)) mod 3 = (uint a - uint base) mod 3"
    by (metis diff_diff_eq minus_mod_self2)
  show ?case
    using Suc.IH [of "base + 3" "store32 base c m"] Suc.prems u s m d
    by (auto split: if_splits)
qed

section \<open>Timing\<close>

text \<open>
  Sync widths are positive and the sums fit the twelve and eleven bits of the controller's
  registers; a line behind the active area exists.
\<close>

definition lcd_timing_ok :: "lcd_dev \<Rightarrow> bool" where
  "lcd_timing_ok v \<longleftrightarrow> 1 \<le> unat (lv_hsw v) \<and> 1 \<le> unat (lv_vsw v) \<and>
     unat (lv_hsw v) + unat (lv_hbp v) + unat (lv_width v) + unat (lv_hfp v) \<le> 0x1000 \<and>
     unat (lv_vsw v) + unat (lv_vbp v) + unat (lv_height v) + unat (lv_vfp v) \<le> 0x800 \<and>
     unat (lv_vsw v) + unat (lv_vbp v) + unat (lv_height v) < 0x800"

lemma unat_sum: "unat a + unat b < 2 ^ 32 \<Longrightarrow> unat (a + b :: u32) = unat a + unat b"
  by (simp add: unat_word_ariths)

lemma unat_pred: "1 \<le> unat a \<Longrightarrow> unat (a - 1 :: u32) = unat a - 1"
  by (simp add: unat_sub_if')

lemma porch_sums:
  assumes "1 \<le> unat (sw :: u32)" "unat sw + unat bp + unat act + unat fp < 2 ^ 32"
  shows "unat (bp + (sw - 1)) = unat sw + unat bp - 1"
    "unat (act + (bp + (sw - 1))) = unat sw + unat bp + unat act - 1"
    "unat (act + (bp + (sw - 1)) + fp) = unat sw + unat bp + unat act + unat fp - 1"
proof -
  show a: "unat (bp + (sw - 1)) = unat sw + unat bp - 1"
    using assms unat_sum [of bp "sw - 1"] unat_pred [of sw] by linarith
  show b: "unat (act + (bp + (sw - 1))) = unat sw + unat bp + unat act - 1"
    using assms a unat_sum [of act "bp + (sw - 1)"] by linarith
  show "unat (act + (bp + (sw - 1)) + fp) = unat sw + unat bp + unat act + unat fp - 1"
    using assms b unat_sum [of "act + (bp + (sw - 1))" fp] by linarith
qed

lemma lcd_init_values:
  assumes "lcd_timing_ok v"
  shows "unat (ltdc_horizontal_sync (lcd_ltdc_init v)) = unat (lv_hsw v) - 1"
    "unat (ltdc_vertical_sync (lcd_ltdc_init v)) = unat (lv_vsw v) - 1"
    "unat (ltdc_accumulated_hbp (lcd_ltdc_init v)) = unat (lv_hsw v) + unat (lv_hbp v) - 1"
    "unat (ltdc_accumulated_vbp (lcd_ltdc_init v)) = unat (lv_vsw v) + unat (lv_vbp v) - 1"
    "unat (ltdc_accumulated_active_w (lcd_ltdc_init v)) = unat (lv_hsw v) + unat (lv_hbp v) + unat (lv_width v) - 1"
    "unat (ltdc_accumulated_active_h (lcd_ltdc_init v)) = unat (lv_vsw v) + unat (lv_vbp v) + unat (lv_height v) - 1"
    "unat (ltdc_total_width (lcd_ltdc_init v)) =
       unat (lv_hsw v) + unat (lv_hbp v) + unat (lv_width v) + unat (lv_hfp v) - 1"
    "unat (ltdc_total_heigh (lcd_ltdc_init v)) =
       unat (lv_vsw v) + unat (lv_vbp v) + unat (lv_height v) + unat (lv_vfp v) - 1"
  using assms porch_sums [of "lv_hsw v" "lv_hbp v" "lv_width v" "lv_hfp v"]
    porch_sums [of "lv_vsw v" "lv_vbp v" "lv_height v" "lv_vfp v"]
  by (simp_all add: lcd_timing_ok_def lcd_ltdc_init_def Let_def unat_pred)

lemma lcd_init_asserts:
  assumes "lcd_timing_ok v"
  shows "ltdc_init_asserts LTDC_BASE (lcd_ltdc_init v)"
proof -
  have "w \<le> LTDC_HORIZONTALSYNC \<longleftrightarrow> unat w \<le> 0xFFF" "w \<le> LTDC_VERTICALSYNC \<longleftrightarrow> unat w \<le> 0x7FF" for w
    by (simp_all add: word_le_nat_alt hal_consts)
  moreover have
    "ltdc_hs_polarity (lcd_ltdc_init v) = LTDC_HSPOLARITY_AL" "ltdc_vs_polarity (lcd_ltdc_init v) = LTDC_VSPOLARITY_AL"
    "ltdc_de_polarity (lcd_ltdc_init v) = LTDC_DEPOLARITY_AL" "ltdc_pc_polarity (lcd_ltdc_init v) = LTDC_PCPOLARITY_IPC"
    by (simp_all add: lcd_ltdc_init_def Let_def)
  ultimately show ?thesis
    unfolding ltdc_init_asserts_def
    using lcd_init_values [OF assms] assms by (simp add: lcd_timing_ok_def) linarith
qed

lemma lcd_layer_asserts:
  assumes "lcd_timing_ok (ld_dev d)" "i < 2"
  shows "layer_asserts (lcd_layer d i) i"
  using assms
  by (simp add: layer_asserts_def lcd_layer_def lcd_timing_ok_def word_le_nat_alt hal_consts)

text \<open>What a layer is configured to: its window is the active area, its lines are packed pixels.\<close>

definition lcd_window :: "bsp_lcd_des \<Rightarrow> u32 \<Rightarrow> ltdc_layer_regs \<Rightarrow> bool" where
  "lcd_window d i y \<longleftrightarrow>
     (let v = ld_dev d; first_x = unat (lv_hsw v) + unat (lv_hbp v); first_y = unat (lv_vsw v) + unat (lv_vbp v)
      in unat (take_bit 16 (LxWHPCR y)) = first_x \<and> unat (drop_bit 16 (LxWHPCR y)) + 1 = first_x + unat (lv_width v) \<and>
         unat (take_bit 16 (LxWVPCR y)) = first_y \<and> unat (drop_bit 16 (LxWVPCR y)) + 1 = first_y + unat (lv_height v) \<and>
         unat (drop_bit 16 (LxCFBLR y)) = 3 * unat (lv_width v) \<and> LxCFBLNR y = lv_height v \<and>
         LxCFBAR y = (if i = 0 then fst (ld_gram d) else snd (ld_gram d)) \<and> LxCR y AND LTDC_LxCR_LEN \<noteq> 0)"

lemma LTDC_LxCR_LEN_nonzero: "LTDC_LxCR_LEN \<noteq> 0"
  by (simp add: hal_consts)

lemma set_config_window:
  assumes v: "lcd_timing_ok (ld_dev d)"
    and bh: "unat (drop_bit 16 (BPCR r AND LTDC_BPCR_AHBP)) = unat (lv_hsw (ld_dev d)) + unat (lv_hbp (ld_dev d)) - 1"
    and bv: "unat (BPCR r AND LTDC_BPCR_AVBP) = unat (lv_vsw (ld_dev d)) + unat (lv_vbp (ld_dev d)) - 1"
  shows "lcd_window d i (LAYER (LTDC_SetConfig (lcd_layer d i) i r) i)"
proof -
  let ?v = "ld_dev d"
  define h b where h: "h = drop_bit 16 (BPCR r AND LTDC_BPCR_AHBP)" and b: "b = BPCR r AND LTDC_BPCR_AVBP"
  note bh = bh [folded h] and bv = bv [folded b]
  let ?y = "LAYER (LTDC_SetConfig (lcd_layer d i) i r) i"
  have lim: "1 \<le> unat (lv_hsw ?v)" "1 \<le> unat (lv_vsw ?v)"
      "unat (lv_hsw ?v) + unat (lv_hbp ?v) + unat (lv_width ?v) \<le> 0x1000"
      "unat (lv_vsw ?v) + unat (lv_vbp ?v) + unat (lv_height ?v) < 0x800"
    using v by (simp_all add: lcd_timing_ok_def)
  have s1: "unat (h + 1) = unat (lv_hsw ?v) + unat (lv_hbp ?v)"
    using lim bh by (simp add: unat_sum)
  have s2: "unat (lv_width ?v + h) = unat (lv_hsw ?v) + unat (lv_hbp ?v) + unat (lv_width ?v) - 1"
    using lim bh by (simp add: unat_sum)
  have s3: "unat (b + 1) = unat (lv_vsw ?v) + unat (lv_vbp ?v)"
    using lim bv by (simp add: unat_sum)
  have s4: "unat (lv_height ?v + b) = unat (lv_vsw ?v) + unat (lv_vbp ?v) + unat (lv_height ?v) - 1"
    using lim bv by (simp add: unat_sum)
  note sums = s1 s2 s3 s4
  have triple: "unat (lv_width ?v * 3) = 3 * unat (lv_width ?v)" "unat (lv_width ?v * 3 + 7) = 3 * unat (lv_width ?v) + 7"
    using lim by (simp_all add: unat_word_ariths)
  have regs: "LxWHPCR ?y = (h + 1) OR push_bit 16 (lv_width ?v + h)" "LxWVPCR ?y = (b + 1) OR push_bit 16 (lv_height ?v + b)"
      "LxCFBLR ?y = (lv_width ?v * 3 + 7) OR push_bit 16 (lv_width ?v * 3)" "LxCFBLNR ?y = lv_height ?v"
      "LxCFBAR ?y = (if i = 0 then fst (ld_gram d) else snd (ld_gram d))" "LxCR ?y AND LTDC_LxCR_LEN = LTDC_LxCR_LEN"
    unfolding LTDC_SetConfig_def Let_def h [symmetric] b [symmetric]
    by (simp_all add: lcd_layer_def bytes_per_pixel_def or.commute
        LTDC_PIXEL_FORMAT_RGB888_def LTDC_PIXEL_FORMAT_ARGB8888_def)
  have small: "unat (h + 1) < 2 ^ 16" "unat (lv_width ?v + h) < 2 ^ 16" "unat (b + 1) < 2 ^ 16"
      "unat (lv_height ?v + b) < 2 ^ 16" "unat (lv_width ?v * 3) < 2 ^ 16" "unat (lv_width ?v * 3 + 7) < 2 ^ 16"
    unfolding sums triple using lim by simp_all
  note fields = halves [OF small(1,2), folded regs(1)] halves [OF small(3,4), folded regs(2)]
    halves [OF small(6,5), folded regs(3)]
  show ?thesis
    unfolding lcd_window_def Let_def fields sums triple
    using lim by (simp add: regs LTDC_LxCR_LEN_nonzero)
qed

lemma set_config_other [simp]:
  "BPCR (LTDC_SetConfig c i r) = BPCR r" "AWCR (LTDC_SetConfig c i r) = AWCR r" "TWCR (LTDC_SetConfig c i r) = TWCR r"
  "IER (LTDC_SetConfig c i r) = IER r" "j \<noteq> i \<Longrightarrow> LAYER (LTDC_SetConfig c i r) j = LAYER r j"
  by (simp_all add: LTDC_SetConfig_def Let_def)

lemma config_layer_free:
  "\<not> lh_locked (lt_handle s) \<Longrightarrow> layer_asserts c i \<Longrightarrow>
   \<exists>h. HAL_LTDC_ConfigLayer c i s = Some (HAL_OK, s\<lparr>lt_handle := h,
     lt_regs := (LTDC_SetConfig c i (lt_regs s))\<lparr>SRCR := LTDC_SRCR_IMR\<rparr>\<rparr>) \<and>
     \<not> lh_locked h \<and> lh_init h = lh_init (lt_handle s)"
  by (intro exI [of _ "(lt_handle s)\<lparr>lh_layer_cfg := (lh_layer_cfg (lt_handle s))(i := c),
        lh_locked := False, lh_state := HAL_LTDC_STATE_READY\<rparr>"])
    (simp add: HAL_LTDC_ConfigLayer_def ltdc_locked_def on_ltdc_def set_ltdc_lock_def set_ltdc_state_def)

lemma init_layers_ok:
  assumes "lcd_timing_ok (ld_dev d)" "unat i + n \<le> 2" "\<not> lh_locked (lt_handle s)"
    and "unat (drop_bit 16 (BPCR (lt_regs s) AND LTDC_BPCR_AHBP)) = unat (lv_hsw (ld_dev d)) + unat (lv_hbp (ld_dev d)) - 1"
    and "unat (BPCR (lt_regs s) AND LTDC_BPCR_AVBP) = unat (lv_vsw (ld_dev d)) + unat (lv_vbp (ld_dev d)) - 1"
    and "ld_dev (lc_des s) = ld_dev d" "ld_gram (lc_des s) = ld_gram d"
  shows "\<exists>s'. init_layers n i s = Some (0, s') \<and> \<not> lh_locked (lt_handle s') \<and>
    lh_init (lt_handle s') = lh_init (lt_handle s) \<and> BPCR (lt_regs s') = BPCR (lt_regs s) \<and>
    AWCR (lt_regs s') = AWCR (lt_regs s) \<and> TWCR (lt_regs s') = TWCR (lt_regs s) \<and>
    (\<forall>j. unat j < unat i \<longrightarrow> LAYER (lt_regs s') j = LAYER (lt_regs s) j) \<and>
    (\<forall>j. unat i \<le> unat j \<and> unat j < unat i + n \<longrightarrow> lcd_window d j (LAYER (lt_regs s') j))"
  using assms(2-)
proof (induction n arbitrary: i s)
  case 0
  then show ?case by auto
next
  case (Suc n)
  let ?c = "lcd_layer (lc_des s) i"
  have c: "?c = lcd_layer d i" using Suc.prems by (simp add: lcd_layer_def)
  have i: "\<not> 2 \<le> i" "i < 2" "unat (i + 1) = unat i + 1"
    using Suc.prems(1) by (simp_all add: word_le_nat_alt word_less_nat_alt unat_sum)
  define s1 where "s1 = s\<lparr>lc_des := (lc_des s)\<lparr>ld_lyr_cfg := (ld_lyr_cfg (lc_des s))(i := ?c)\<rparr>\<rparr>"
  obtain h where h: "HAL_LTDC_ConfigLayer ?c i s1 = Some (HAL_OK, s1\<lparr>lt_handle := h,
       lt_regs := (LTDC_SetConfig ?c i (lt_regs s1))\<lparr>SRCR := LTDC_SRCR_IMR\<rparr>\<rparr>)"
      "\<not> lh_locked h" "lh_init h = lh_init (lt_handle s)"
    using config_layer_free [of s1 ?c i] lcd_layer_asserts [OF assms(1) i(2)] Suc.prems(2) c by (auto simp: s1_def)
  define s2 where "s2 = s1\<lparr>lt_handle := h, lt_regs := (LTDC_SetConfig ?c i (lt_regs s1))\<lparr>SRCR := LTDC_SRCR_IMR\<rparr>\<rparr>"
  have w: "lcd_window d i (LAYER (lt_regs s2) i)"
    using set_config_window [OF assms(1) Suc.prems(3,4), of i] by (simp add: s2_def s1_def c)
  have s2: "BPCR (lt_regs s2) = BPCR (lt_regs s)" "AWCR (lt_regs s2) = AWCR (lt_regs s)"
      "TWCR (lt_regs s2) = TWCR (lt_regs s)" "lc_des s2 = lc_des s1" "lt_handle s2 = h"
      "j \<noteq> i \<Longrightarrow> LAYER (lt_regs s2) j = LAYER (lt_regs s) j" for j
    by (simp_all add: s2_def s1_def)
  obtain s' where s': "init_layers n (i + 1) s2 = Some (0, s')" "\<not> lh_locked (lt_handle s')"
      "lh_init (lt_handle s') = lh_init (lt_handle s2)" "BPCR (lt_regs s') = BPCR (lt_regs s2)"
      "AWCR (lt_regs s') = AWCR (lt_regs s2)" "TWCR (lt_regs s') = TWCR (lt_regs s2)"
      "\<forall>j. unat j < unat (i + 1) \<longrightarrow> LAYER (lt_regs s') j = LAYER (lt_regs s2) j"
      "\<forall>j. unat (i + 1) \<le> unat j \<and> unat j < unat (i + 1) + n \<longrightarrow> lcd_window d j (LAYER (lt_regs s') j)"
    using Suc.IH [of "i + 1" s2] Suc.prems h(2) i(3) s2 by (auto simp: s1_def)
  have "init_layers (Suc n) i s = Some (0, s')"
    using i(1) h(1) s'(1) by (simp add: s1_def [symmetric] s2_def [symmetric] Let_def)
  moreover have "\<forall>j. unat j < unat i \<longrightarrow> LAYER (lt_regs s') j = LAYER (lt_regs s) j"
    using s'(7) s2(6) i(3) by (metis less_Suc_eq Suc_eq_plus1 less_irrefl)
  moreover have "lcd_window d j (LAYER (lt_regs s') j)" if "unat i \<le> unat j" "unat j < unat i + Suc n" for j
  proof (cases "j = i")
    case True
    then show ?thesis using w s'(7) i(3) by simp
  next
    case False
    then have "unat i \<noteq> unat j" by (simp add: word_unat_eq_iff)
    then show ?thesis using s'(8) i(3) that by simp
  qed
  ultimately show ?case using s' s2 h(3) by simp
qed

section \<open>The initialisation\<close>

lemma init_bklt_ok:
  assumes "clk_at (ld_bklt_timer (lc_des s)) \<noteq> None" "hal_ok env"
  shows "\<exists>s1. init_bklt env s = Some (0, s1) \<and> ld_dev (lc_des s1) = ld_dev (lc_des s) \<and>
    ld_gram (lc_des s1) = ld_gram (lc_des s) \<and> ld_layer_num (lc_des s1) = ld_layer_num (lc_des s) \<and>
    lt_handle s1 = lt_handle s"
proof -
  obtain ns where "clk_at (ld_bklt_timer (lc_des s)) = Some ns" using assms(1) by auto
  then have "bsp_utils_periph_clk (zero_periph\<lparr>pd_lo := ld_bklt_timer (lc_des s)\<rparr>) ENABLE (lt_log s) =
      Some (0, entry_at (ld_bklt_timer (lc_des s)), lt_log s @ map (\<lambda>n. Clk n True) ns)"
    using periph_clk_at [of "zero_periph\<lparr>pd_lo := ld_bklt_timer (lc_des s)\<rparr>"] by simp
  then show ?thesis
    using assms(2) by (simp add: init_bklt_def lcd_try_def hal_ok_def tim_set_compare_def Let_def)
qed

lemma init_ltdc_ok:
  assumes "lcd_timing_ok (ld_dev (lc_des s))" "\<not> lh_locked (lt_handle s)"
  shows "\<exists>s'. init_ltdc s = Some (0, s') \<and> lc_des s' = lc_des s \<and> \<not> lh_locked (lt_handle s') \<and>
    lh_init (lt_handle s') = lcd_ltdc_init (ld_dev (lc_des s)) \<and>
    (\<exists>r. BPCR (lt_regs s') = BPCR (write_init (lcd_ltdc_init (ld_dev (lc_des s))) r))"
  using assms lcd_init_asserts [OF assms(1)]
  by (auto simp: init_ltdc_def HAL_LTDC_Init_def HAL_LTDC_DisableDither_def ltdc_locked_def set_ltdc_state_def
      set_ltdc_lock_def on_ltdc_def HAL_LTDC_MspInit_def Let_def)

lemma BPCR_write_init:
  "BPCR (write_init i r) = replaced (LTDC_BPCR_AVBP OR LTDC_BPCR_AHBP)
     (push_bit 16 (ltdc_accumulated_hbp i) OR ltdc_accumulated_vbp i) (BPCR r)"
  by (simp add: write_init_def)

lemma written_porches:
  assumes "lcd_timing_ok v"
  shows "unat (drop_bit 16 (BPCR (write_init (lcd_ltdc_init v) r) AND LTDC_BPCR_AHBP)) = unat (lv_hsw v) + unat (lv_hbp v) - 1"
    "unat (BPCR (write_init (lcd_ltdc_init v) r) AND LTDC_BPCR_AVBP) = unat (lv_vsw v) + unat (lv_vbp v) - 1"
proof -
  note vals = lcd_init_values(3,4) [OF assms]
  have "unat (ltdc_accumulated_hbp (lcd_ltdc_init v)) < 2 ^ 12" "unat (ltdc_accumulated_vbp (lcd_ltdc_init v)) < 2 ^ 11"
    unfolding vals using assms by (auto simp: lcd_timing_ok_def)
  then show "unat (drop_bit 16 (BPCR (write_init (lcd_ltdc_init v) r) AND LTDC_BPCR_AHBP)) = unat (lv_hsw v) + unat (lv_hbp v) - 1"
    "unat (BPCR (write_init (lcd_ltdc_init v) r) AND LTDC_BPCR_AVBP) = unat (lv_vsw v) + unat (lv_vbp v) - 1"
    unfolding BPCR_write_init LTDC_BPCR_AHBP_def LTDC_BPCR_AVBP_def
    using replaced_hi [of "ltdc_accumulated_hbp (lcd_ltdc_init v)" "ltdc_accumulated_vbp (lcd_ltdc_init v)" "BPCR r"]
      replaced_lo [of "ltdc_accumulated_vbp (lcd_ltdc_init v)" "ltdc_accumulated_hbp (lcd_ltdc_init v)" "BPCR r"] vals
    by (simp_all only:)
qed

text \<open>
  C25.  Bounds of the picture.  When the porches, sync widths and the active area fit the registers
  of the controller, the clock of the backlight timer can be gated and the vendor's calls succeed,
  the initialisation passes every check and succeeds; the window of each layer is exactly the
  active area, from the first pixel behind sync and back porch, its lines are three bytes per pixel
  apart, its buffer is that of the descriptor, and the line event is set to the first line behind
  the active area.
\<close>

theorem lcd_bring_up_window:
  assumes "lcd_timing_ok (ld_dev (lc_des s))" "ld_layer_num (lc_des s) \<in> {1, 2}"
    and "clk_at (ld_bklt_timer (lc_des s)) \<noteq> None" "hal_ok env" "\<not> lh_locked (lt_handle s)"
  shows "\<exists>s'. bsp_lcd_init env ext s = Some (0, s') \<and>
    (\<forall>i < ld_layer_num (lc_des s). lcd_window (lc_des s) i (LAYER (lt_regs s') i)) \<and>
    unat (LIPCR (lt_regs s')) = unat (lv_vsw (ld_dev (lc_des s))) + unat (lv_vbp (ld_dev (lc_des s))) + unat (lv_height (ld_dev (lc_des s))) \<and>
    IER (lt_regs s') AND LTDC_IT_LI \<noteq> 0"
proof -
  let ?d = "lc_des s" let ?v = "ld_dev ?d" let ?init = "lcd_ltdc_init ?v"
  obtain s1 where s1: "init_bklt env s = Some (0, s1)" "ld_dev (lc_des s1) = ?v" "ld_gram (lc_des s1) = ld_gram ?d"
      "ld_layer_num (lc_des s1) = ld_layer_num ?d" "lt_handle s1 = lt_handle s"
    using init_bklt_ok [OF assms(3,4)] by blast
  define s1' where "s1' = (case ld_set_brightness (lc_des s1) of None \<Rightarrow> s1 | Some f \<Rightarrow> call_brightness ext f 128 s1)"
  have s1': "lc_des s1' = lc_des s1" "lt_handle s1' = lt_handle s"
    using s1(5) by (auto simp: s1'_def split: option.splits)
  obtain s2 where s2: "init_ltdc s1' = Some (0, s2)" "lc_des s2 = lc_des s1" "\<not> lh_locked (lt_handle s2)"
      "lh_init (lt_handle s2) = ?init" "\<exists>r. BPCR (lt_regs s2) = BPCR (write_init ?init r)"
    using init_ltdc_ok [of s1'] assms(1,5) s1' s1(2) by auto
  have n: "unat (ld_layer_num ?d) \<le> 2" using assms(2) by auto
  have bp: "unat (drop_bit 16 (BPCR (lt_regs s2) AND LTDC_BPCR_AHBP)) = unat (lv_hsw ?v) + unat (lv_hbp ?v) - 1"
      "unat (BPCR (lt_regs s2) AND LTDC_BPCR_AVBP) = unat (lv_vsw ?v) + unat (lv_vbp ?v) - 1"
    using s2(5) written_porches [OF assms(1)] by auto
  obtain s3 where s3: "init_layer s2 = Some (0, s3)" "\<not> lh_locked (lt_handle s3)" "lh_init (lt_handle s3) = ?init"
      "\<forall>j. unat j < unat (ld_layer_num ?d) \<longrightarrow> lcd_window ?d j (LAYER (lt_regs s3) j)"
    using init_layers_ok [of ?d 0 "unat (ld_layer_num ?d)" s2] assms(1) n bp s1 s2 by (auto simp: init_layer_def)
  let ?line = "ltdc_accumulated_active_h ?init + 1"
  have line: "unat ?line = unat (lv_vsw ?v) + unat (lv_vbp ?v) + unat (lv_height ?v)" "?line \<le> 0x7FF"
    using lcd_init_values(6) [OF assms(1)] assms(1) unat_sum [of "ltdc_accumulated_active_h ?init" 1]
    by (simp_all add: lcd_timing_ok_def word_le_nat_alt)
  show ?thesis
    using s1(1) s2(1) s3 line
    by (simp add: bsp_lcd_init_def s1'_def [symmetric] Let_def program_line_free word_less_nat_alt)
qed

lemma periph_clk_none:
  assumes "clk_at a = None"
  shows "\<exists>r pd. bsp_utils_periph_clk (zero_periph\<lparr>pd_lo := a\<rparr>) ENABLE l = Some (r, pd, l) \<and> r \<noteq> 0"
proof (cases "a = 0")
  case True
  then show ?thesis
    by (simp add: bsp_utils_periph_clk_def bsp_utils_get_periph_def zero_periph_def ENABLE_def DISABLE_def)
next
  case False
  then show ?thesis
    using assms
    by (auto simp: bsp_utils_periph_clk_def get_periph_addr clk_at_def ENABLE_def DISABLE_def Let_def not_less
        split: if_splits)
qed

text \<open>
  C39.  A backlight timer whose clock the board support cannot gate, as TIM3, which the switch
  forgets.  The initialisation then fails, but not before the brightness has been set through a
  handle without a timer: 128 is stored at the address of the compare register relative to zero.
\<close>

theorem lcd_unknown_timer:
  assumes "clk_at (ld_bklt_timer (lc_des s)) = None" "th_instance (ld_htim (lc_des s)) = 0"
    and "ld_set_brightness (lc_des s) = Some Lcd_default"
  shows "clk_at TIM3_BASE = None \<and>
    bsp_lcd_init env ext s =
      Some (- EBUSY, lcd_emit [Reg_write (tim_ccr 0 (ld_bklt_timer_ch (lc_des s))) 128] s)"
proof
  show "clk_at TIM3_BASE = None" by code_simp
  obtain r pd where "bsp_utils_periph_clk (zero_periph\<lparr>pd_lo := ld_bklt_timer (lc_des s)\<rparr>) ENABLE (lt_log s)
      = Some (r, pd, lt_log s)" "r \<noteq> 0"
    using periph_clk_none [OF assms(1)] by blast
  then have "init_bklt env s = Some (- ENODEV, s)" by (simp add: init_bklt_def Let_def)
  then show "bsp_lcd_init env ext s =
      Some (- EBUSY, lcd_emit [Reg_write (tim_ccr 0 (ld_bklt_timer_ch (lc_des s))) 128] s)"
    using assms(2,3)
    by (simp add: bsp_lcd_init_def call_brightness_def bklt_set_brightness_def tim_set_compare_def)
qed

text \<open>
  Painting a frame writes one byte more than the frame has.  After the line event, the
  three bytes of every pixel hold the colour, the byte behind the frame buffer holds the fourth
  byte of the colour, and no other byte has changed.
\<close>

theorem lcd_frame_overrun:
  assumes "HAL_LTDC_LineEventCallback ext rnd s = Some s'" "\<not> lh_locked (lt_handle s)"
    and "bytes = 3 * int (unat (lv_width (ld_dev (lc_des s))) * unat (lv_height (ld_dev (lc_des s))))"
    and "0 < bytes" "uint (fst (ld_gram (lc_des s))) + bytes < 2 ^ 32"
  shows "lc_mem s' a =
    (let off = uint a - uint (fst (ld_gram (lc_des s)))
     in if 0 \<le> off \<and> off < bytes then word_byte rnd (nat (off mod 3))
        else if off = bytes then word_byte rnd 3
        else lc_mem s a)"
proof -
  let ?v = "ld_dev (lc_des s)" let ?b = "uint (fst (ld_gram (lc_des s)))"
  define n where "n = unat (lv_width ?v) * unat (lv_height ?v)"
  note size = assms(3-5) [unfolded n_def [symmetric]]
  have "int n < 2 ^ 32" using size uint_ge_0 [of "fst (ld_gram (lc_des s))"] by linarith
  then have "n < 2 ^ 32" by simp
  then have n: "unat (lv_width ?v * lv_height ?v) = n" by (simp add: unat_word_ariths n_def)
  obtain f where f: "ld_set_brightness (lc_des s) = Some f" "ltdc_accumulated_active_h (lh_init (lt_handle s)) + 1 \<le> 0x7FF"
    using line_event_returned [OF assms(1,2)] by blast
  have mem: "lc_mem s' = frame_fill n (fst (ld_gram (lc_des s))) rnd (lc_mem s)"
    using line_event_result [OF f(1) assms(2) f(2), of ext rnd] assms(1) n by auto
  have small: "?b + 3 * int n < 2 ^ 32" using size by linarith
  have off: "(?b \<le> uint a \<and> uint a \<le> ?b + 3 * int n \<and> 0 < n) = (0 \<le> uint a - ?b \<and> uint a - ?b \<le> bytes)"
    "(uint a = ?b + 3 * int n) = (uint a - ?b = bytes)"
    using size by auto
  show ?thesis
    unfolding mem frame_fill_bytes [OF small] off Let_def using assms(4) by auto
qed

lemma wait_clear_extends:
  assumes "wait_clear env a msk l = Some r"
  shows "\<exists>m. r = l @ m"
proof (rule wait_clear.raw_induct [where P = "\<lambda>env a msk l r. \<exists>m. r = l @ m", OF _ assms])
  fix wc env a msk l r
  assume ih: "\<And>a msk l b y. wc a msk l b = Some y \<Longrightarrow> \<exists>m. y = b @ m"
    and now: "(let l' = l @ [Reg_read a] in if reg_value env l a AND msk \<noteq> 0 then wc env a msk l' else Some l') = Some r"
  have "r = l @ [Reg_read a] \<or> wc env a msk (l @ [Reg_read a]) = Some r"
    using now by (simp add: Let_def split: if_splits)
  then show "\<exists>m. r = l @ m" using ih [of env a msk "l @ [Reg_read a]" r] by auto
qed

lemma product_below:
  assumes "(y :: nat) + r < h" "x + k < w"
  shows "w * (y + r) + x + k < w * h"
proof -
  have "w * (y + r) + w \<le> w * h" using assms(1) by (metis Suc_leI mult_Suc_right mult_le_mono2 add.commute)
  then show ?thesis using assms(2) by linarith
qed


section \<open>What the initialisation leaves alone\<close>

text \<open>The bytes of memory, and of the descriptor the geometry, the frame buffers and the brightness function.\<close>

definition lcd_frame :: "lcd_sys \<Rightarrow> memory \<times> lcd_dev \<times> (u32 \<times> u32) \<times> lcd_op option" where
  "lcd_frame s = (lc_mem s, ld_dev (lc_des s), ld_gram (lc_des s), ld_set_brightness (lc_des s))"

lemma lcd_frame_updates [simp]:
  "lcd_frame (s\<lparr>lt_handle := h\<rparr>) = lcd_frame s" "lcd_frame (s\<lparr>lt_regs := r\<rparr>) = lcd_frame s"
  "lcd_frame (s\<lparr>lt_log := l\<rparr>) = lcd_frame s" "lcd_frame (s\<lparr>lc_des := (lc_des s)\<lparr>ld_htim := q\<rparr>\<rparr>) = lcd_frame s"
  "lcd_frame (s\<lparr>lt_log := l, lc_des := (lc_des s)\<lparr>ld_htim := q\<rparr>\<rparr>) = lcd_frame s"
  "lcd_frame (s\<lparr>lc_des := (lc_des s)\<lparr>ld_lyr_cfg := c\<rparr>\<rparr>) = lcd_frame s"
  by (simp_all add: lcd_frame_def)

lemma ltdc_ops_frame [simp]:
  "lcd_frame (set_ltdc_state st s) = lcd_frame s" "lcd_frame (set_ltdc_lock b s) = lcd_frame s" "lcd_frame (on_ltdc f s) = lcd_frame s"
  "lcd_frame (HAL_LTDC_MspInit s) = lcd_frame s" "lcd_frame (lcd_emit es s) = lcd_frame s"
  by (simp_all add: set_ltdc_state_def set_ltdc_lock_def on_ltdc_def HAL_LTDC_MspInit_def lcd_emit_def)

lemma ltdc_locked_frame: "(\<And>u :: lcd_sys. lcd_frame (f u) = lcd_frame u) \<Longrightarrow> lcd_frame (snd (ltdc_locked f s)) = lcd_frame s"
  by (simp add: ltdc_locked_def)

lemma config_layer_frame: "HAL_LTDC_ConfigLayer c i s = Some (r, t) \<Longrightarrow> lcd_frame t = lcd_frame (s :: lcd_sys)"
proof -
  assume "HAL_LTDC_ConfigLayer c i s = Some (r, t)"
  then have "t = snd (ltdc_locked (\<lambda>s1.
        on_ltdc (\<lambda>r. (LTDC_SetConfig c i r)\<lparr>SRCR := LTDC_SRCR_IMR\<rparr>)
          (s1\<lparr>lt_handle := (lt_handle s1)\<lparr>lh_layer_cfg := (lh_layer_cfg (lt_handle s1))(i := c)\<rparr>\<rparr>)) s)"
    by (auto simp: HAL_LTDC_ConfigLayer_def split: if_splits)
  then show ?thesis by (simp add: ltdc_locked_frame)
qed

text \<open>What every configuration of a layer keeps, the loop over the layers keeps.\<close>

lemma init_layers_keep:
  assumes layer: "\<And>c i u q v. HAL_LTDC_ConfigLayer c i u = Some (q, v) \<Longrightarrow> F v = F u"
    and cfg: "\<And>u c. F (u\<lparr>lc_des := (lc_des u)\<lparr>ld_lyr_cfg := c\<rparr>\<rparr>) = F u"
  shows "init_layers n i s = Some (r, t) \<Longrightarrow> F t = F s"
proof (induction n i s rule: init_layers.induct)
  case (1 i s)
  then show ?case by simp
next
  case (2 n i s)
  let ?c = "lcd_layer (lc_des s) i"
  let ?s1 = "s\<lparr>lc_des := (lc_des s)\<lparr>ld_lyr_cfg := (ld_lyr_cfg (lc_des s))(i := ?c)\<rparr>\<rparr>"
  obtain q u where u: "\<not> 2 \<le> i" "HAL_LTDC_ConfigLayer ?c i ?s1 = Some (q, u)"
      "(if q \<noteq> HAL_OK then Some (- ENODEV, u) else init_layers n (i + 1) u) = Some (r, t)"
    using 2(2) by (auto simp: Let_def bind_eq_Some_conv split: if_splits)
  have m: "F u = F s" using layer [OF u(2)] cfg by simp
  show ?case
  proof (cases "q = HAL_OK")
    case True
    then have "init_layers n (i + 1) u = Some (r, t)" using u(3) by simp
    then have "F t = F u" using 2(1) [OF u(1) refl refl u(2) refl] True by simp
    then show ?thesis using m by simp
  next
    case False
    then show ?thesis using u(3) m by simp
  qed
qed

lemma init_layers_frame: "init_layers n i s = Some (r, t) \<Longrightarrow> lcd_frame t = lcd_frame s"
  by (rule init_layers_keep [of lcd_frame]) (auto dest: config_layer_frame)

lemma call_brightness_frame [simp]: "lcd_frame (call_brightness ext f v s) = lcd_frame s"
  by (simp add: call_brightness_def bklt_set_brightness_def tim_set_compare_def split: lcd_op.splits)

lemma lcd_try_frame: "(\<And>u. lcd_frame (snd (rest u)) = lcd_frame u) \<Longrightarrow> lcd_frame (snd (lcd_try env e rest s)) = lcd_frame s"
  by (simp add: lcd_try_def)

lemma init_bklt_frame: "init_bklt env s = Some (r, t) \<Longrightarrow> lcd_frame t = lcd_frame s"
proof -
  assume a: "init_bklt env s = Some (r, t)"
  have k: "lcd_frame (snd (lcd_try env (Tim (Tim_pwm_init tim i)) (
             lcd_try env (Tim (Tim_master_sync tim bklt_master)) (
             lcd_try env (Tim (Tim_pwm_config tim bklt_oc ch)) (\<lambda>s5.
               (0, lcd_emit [Tim (Tim_pwm_start tim ch)] (tim_set_compare 0 s5))))) u)) = lcd_frame u" for tim i ch u
    by (intro lcd_try_frame) (simp add: tim_set_compare_def)
  obtain q pd l where p: "bsp_utils_periph_clk (zero_periph\<lparr>pd_lo := ld_bklt_timer (lc_des s)\<rparr>) ENABLE (lt_log s) = Some (q, pd, l)"
    using a by (auto simp: init_bklt_def Let_def bind_eq_Some_conv)
  let ?i = "bklt_tim_init (th_init (ld_htim (lc_des s)))"
  let ?u = "(s\<lparr>lt_log := l\<rparr>)\<lparr>lc_des := (lc_des s)\<lparr>ld_htim := \<lparr>th_instance = ld_bklt_timer (lc_des s), th_init = ?i\<rparr>\<rparr>\<rparr>"
  show ?thesis
  proof (cases "q = 0")
    case True
    then have "t = snd (lcd_try env (Tim (Tim_pwm_init (ld_bklt_timer (lc_des s)) ?i)) (
             lcd_try env (Tim (Tim_master_sync (ld_bklt_timer (lc_des s)) bklt_master)) (
             lcd_try env (Tim (Tim_pwm_config (ld_bklt_timer (lc_des s)) bklt_oc (ld_bklt_timer_ch (lc_des s)))) (\<lambda>s5.
               (0, lcd_emit [Tim (Tim_pwm_start (ld_bklt_timer (lc_des s)) (ld_bklt_timer_ch (lc_des s)))] (tim_set_compare 0 s5))))) ?u)"
      using a p by (simp add: init_bklt_def Let_def prod_eq_iff)
    then show ?thesis by (simp only: k) simp
  next
    case False
    then show ?thesis using a p by (auto simp: init_bklt_def Let_def)
  qed
qed

lemma init_ltdc_frame: "init_ltdc s = Some (r, t) \<Longrightarrow> lcd_frame t = lcd_frame s"
  by (auto simp: init_ltdc_def HAL_LTDC_Init_def Let_def HAL_LTDC_DisableDither_def ltdc_locked_def split: if_splits)

lemma lcd_init_frame:
  assumes "bsp_lcd_init env ext s = Some (r, t)"
  shows "lcd_frame t = lcd_frame s"
proof -
  obtain r1 s1 where s1: "init_bklt env s = Some (r1, s1)" using assms by (auto simp: bsp_lcd_init_def bind_eq_Some_conv)
  define s1' where "s1' = (case ld_set_brightness (lc_des s1) of None \<Rightarrow> s1 | Some f \<Rightarrow> call_brightness ext f 128 s1)"
  have m1: "lcd_frame s1' = lcd_frame s" using init_bklt_frame [OF s1] by (simp add: s1'_def split: option.splits)
  note rest = assms [unfolded bsp_lcd_init_def s1 Let_def bind.bind_lunit prod.case, folded s1'_def]
  have line: "HAL_LTDC_ProgramLineEvent k u = Some (q, v) \<Longrightarrow> lcd_frame v = lcd_frame u" for k q v and u :: lcd_sys
    by (auto simp: HAL_LTDC_ProgramLineEvent_def ltdc_locked_def Let_def split: if_splits)
  show ?thesis
  proof (cases "r1 = 0")
    case True
    obtain r2 s2 where s2: "init_ltdc s1' = Some (r2, s2)" using rest True by (cases "init_ltdc s1'") auto
    have m2: "lcd_frame s2 = lcd_frame s" using init_ltdc_frame [OF s2] m1 by simp
    show ?thesis
    proof (cases "r2 = 0")
      case z2: True
      obtain r3 s3 where s3: "init_layer s2 = Some (r3, s3)" using rest True s2 z2 by (cases "init_layer s2") auto
      have m3: "lcd_frame s3 = lcd_frame s" using init_layers_frame [OF s3 [unfolded init_layer_def]] m2 by simp
      show ?thesis
      proof (cases "r3 = 0")
        case z3: True
        let ?line = "HAL_LTDC_ProgramLineEvent (ltdc_accumulated_active_h (lh_init (lt_handle s3)) + 1) s3"
        obtain r4 s4 where s4: "?line = Some (r4, s4)" using rest True s2 z2 s3 z3 by (cases ?line) auto
        then have "t = s4" using rest True s2 z2 s3 z3 by simp
        then show ?thesis using line [OF s4] m3 by simp
      qed (use rest True s2 z2 s3 m3 in simp)
    qed (use rest True s2 m2 in simp)
  qed (use rest m1 in simp)
qed

text \<open>The parameters that the controller is given stay in its handle.\<close>

lemma config_layer_init: "HAL_LTDC_ConfigLayer c i s = Some (r, t) \<Longrightarrow> lh_init (lt_handle t) = lh_init (lt_handle s)"
  by (auto simp: HAL_LTDC_ConfigLayer_def ltdc_locked_def set_ltdc_state_def set_ltdc_lock_def on_ltdc_def split: if_splits)

lemma init_layers_init: "init_layers n i s = Some (r, t) \<Longrightarrow> lh_init (lt_handle t) = lh_init (lt_handle s)"
  by (rule init_layers_keep [of "\<lambda>u. lh_init (lt_handle u)"]) (auto dest: config_layer_init)

text \<open>
  After a successful initialisation: the frame above is unchanged, the handle holds the parameters
  computed from the geometry, and the line interrupt is enabled for the line they determine.
\<close>

lemma lcd_init_success:
  assumes "bsp_lcd_init env ext s = Some (0, t)"
  shows "lcd_frame t = lcd_frame s \<and> lh_init (lt_handle t) = lcd_ltdc_init (ld_dev (lc_des s)) \<and>
    ltdc_accumulated_active_h (lh_init (lt_handle t)) + 1 \<le> 0x7FF \<and> IER (lt_regs t) AND LTDC_IT_LI \<noteq> 0"
proof -
  obtain r1 s1 where s1: "init_bklt env s = Some (r1, s1)" using assms by (auto simp: bsp_lcd_init_def bind_eq_Some_conv)
  define s1' where "s1' = (case ld_set_brightness (lc_des s1) of None \<Rightarrow> s1 | Some f \<Rightarrow> call_brightness ext f 128 s1)"
  have f1: "lcd_frame s1' = lcd_frame s" using init_bklt_frame [OF s1] by (simp add: s1'_def split: option.splits)
  then have d1: "ld_dev (lc_des s1') = ld_dev (lc_des s)" by (simp add: lcd_frame_def)
  note rest = assms [unfolded bsp_lcd_init_def s1 Let_def bind.bind_lunit prod.case, folded s1'_def]
  have z1: "r1 = 0" using rest by (auto split: if_splits)
  obtain r2 s2 where s2: "init_ltdc s1' = Some (r2, s2)" using rest z1 by (cases "init_ltdc s1'") auto
  have z2: "r2 = 0" using rest z1 s2 by (auto split: if_splits)
  have i2: "lh_init (lt_handle s2) = lcd_ltdc_init (ld_dev (lc_des s))"
    using s2 d1 by (auto simp: init_ltdc_def HAL_LTDC_Init_def HAL_LTDC_DisableDither_def ltdc_locked_def set_ltdc_state_def
      set_ltdc_lock_def on_ltdc_def HAL_LTDC_MspInit_def Let_def split: if_splits)
  obtain r3 s3 where s3: "init_layer s2 = Some (r3, s3)" using rest z1 s2 z2 by (cases "init_layer s2") auto
  have z3: "r3 = 0" using rest z1 s2 z2 s3 by (auto split: if_splits)
  have i3: "lh_init (lt_handle s3) = lcd_ltdc_init (ld_dev (lc_des s))"
    using init_layers_init [OF s3 [unfolded init_layer_def]] i2 by simp
  let ?line = "HAL_LTDC_ProgramLineEvent (ltdc_accumulated_active_h (lh_init (lt_handle s3)) + 1) s3"
  obtain r4 s4 where s4: "?line = Some (r4, s4)" using rest z1 s2 z2 s3 z3 by (cases ?line) auto
  have t: "t = s4" "r4 = HAL_OK" using rest z1 s2 z2 s3 z3 s4 by (auto split: if_splits)
  have "lh_init (lt_handle s4) = lh_init (lt_handle s3) \<and> ltdc_accumulated_active_h (lh_init (lt_handle s3)) + 1 \<le> 0x7FF \<and>
      IER (lt_regs s4) AND LTDC_IT_LI \<noteq> 0"
    using s4 t(2) by (auto simp: HAL_LTDC_ProgramLineEvent_def ltdc_locked_def set_ltdc_state_def set_ltdc_lock_def
        on_ltdc_def Let_def hal_consts split: if_splits)
  then show ?thesis using lcd_init_frame [OF assms] t i3 by simp
qed

text \<open>The descriptor of a first initialisation, and one whose picture has one pixel.\<close>

definition example_handle :: ltdc_handle where
  "example_handle = \<lparr>lh_instance = LTDC_BASE, lh_init = lcd_ltdc_init (lcd_dev_defaults (ld_dev zero_lcd_des)),
     lh_layer_cfg = (\<lambda>_. zero_layer), lh_locked = False, lh_state = HAL_LTDC_STATE_RESET, lh_error = 0\<rparr>"

definition example_regs :: ltdc_regs where
  "example_regs = \<lparr>SSCR = 0, BPCR = 0, AWCR = 0, TWCR = 0, GCR = 0, SRCR = 0, BCCR = 0, IER = LTDC_IT_LI,
     ISR = LTDC_FLAG_LI, LIPCR = 0, LAYER = (\<lambda>_. \<lparr>LxCR = 0, LxWHPCR = 0, LxWVPCR = 0, LxPFCR = 0, LxCACR = 0,
       LxDCCR = 0, LxBFCR = 0, LxCFBAR = 0, LxCFBLR = 0, LxCFBLNR = 0\<rparr>)\<rparr>"

definition example_lcd :: "bsp_lcd_des \<Rightarrow> lcd_sys" where
  "example_lcd d = \<lparr>lt_handle = example_handle, lt_regs = example_regs, lt_log = [], lc_des = d, lc_mem = (\<lambda>_. 0)\<rparr>"

definition default_lcd :: bsp_lcd_des where
  "default_lcd = lcd_defaults 0xD0000000 0xD0200000 zero_lcd_des"

definition pixel_lcd :: bsp_lcd_des where
  "pixel_lcd = default_lcd\<lparr>ld_dev := (ld_dev default_lcd)\<lparr>lv_width := 1, lv_height := 1\<rparr>\<rparr>"

lemma example_line: "ltdc_accumulated_active_h (lh_init example_handle) + 1 \<le> 0x7FF"
  by (simp add: example_handle_def lcd_ltdc_init_def lcd_dev_defaults_def zero_lcd_des_def SET_VAL_IF_ZERO_def Let_def)

lemma default_lcd_values:
  "ld_dev default_lcd = \<lparr>lv_hbp = 80, lv_vbp = 40, lv_hsw = 1, lv_vsw = 1, lv_hfp = 200, lv_vfp = 22, lv_width = 800, lv_height = 480\<rparr>"
  "ld_set_brightness default_lcd = Some Lcd_default" "ld_layer_num default_lcd = 1" "ld_bklt_timer default_lcd = TIM12_BASE"
  "ld_gram default_lcd = (0xD0000000, 0xD0200000)" "th_instance (ld_htim default_lcd) = 0" "ld_bklt_timer_ch default_lcd = 0"
  by (simp_all add: default_lcd_def lcd_defaults_def lcd_dev_defaults_def zero_lcd_des_def SET_VAL_IF_ZERO_def hal_consts)

lemma lcd_line_interrupt_witness:
  "\<exists>s'. HAL_LTDC_IRQHandler (HAL_LTDC_LineEventCallback (\<lambda>_ _ _. []) 0x11223344) (example_lcd pixel_lcd) = Some s' \<and>
     line_armed s' \<and> LIPCR (lt_regs s') = ltdc_accumulated_active_h (lh_init example_handle) + 1"
  using lcd_line_interrupt [where s = "example_lcd pixel_lcd" and f = Lcd_default and ext = "\<lambda>_ _ _. []" and rnd = "0x11223344"] example_line
  by (simp add: example_lcd_def pixel_lcd_def default_lcd_values example_regs_def hal_consts)

lemma lcd_bring_up_window_witness:
  "\<exists>s'. bsp_lcd_init ok_env (\<lambda>_ _ _. []) (example_lcd default_lcd) = Some (0, s') \<and>
    lcd_window default_lcd 0 (LAYER (lt_regs s') 0) \<and> unat (LIPCR (lt_regs s')) = 521"
proof -
  have "clk_at TIM12_BASE \<noteq> None" by code_simp
  then show ?thesis
    using lcd_bring_up_window [of "example_lcd default_lcd" ok_env "\<lambda>_ _ _. []"]
    by (auto simp: example_lcd_def default_lcd_values lcd_timing_ok_def example_handle_def)
qed

lemma lcd_unknown_timer_witness:
  "bsp_lcd_init ok_env (\<lambda>_ _ _. []) (example_lcd (default_lcd\<lparr>ld_bklt_timer := TIM3_BASE\<rparr>)) =
     Some (- EBUSY, lcd_emit [Reg_write 0x34 128] (example_lcd (default_lcd\<lparr>ld_bklt_timer := TIM3_BASE\<rparr>)))"
proof -
  have "clk_at TIM3_BASE = None" by code_simp
  then show ?thesis
    using lcd_unknown_timer [of "example_lcd (default_lcd\<lparr>ld_bklt_timer := TIM3_BASE\<rparr>)" ok_env "\<lambda>_ _ _. []"]
    by (simp add: example_lcd_def default_lcd_values tim_ccr_def hal_consts)
qed

lemma lcd_frame_overrun_witness:
  "\<exists>s'. HAL_LTDC_LineEventCallback (\<lambda>_ _ _. []) 0x11223344 (example_lcd pixel_lcd) = Some s' \<and>
     lc_mem s' 0xD0000003 = 0x11"
proof -
  have v: "ld_set_brightness (lc_des (example_lcd pixel_lcd)) = Some Lcd_default"
      "\<not> lh_locked (lt_handle (example_lcd pixel_lcd))"
      "lv_width (ld_dev (lc_des (example_lcd pixel_lcd))) = 1" "lv_height (ld_dev (lc_des (example_lcd pixel_lcd))) = 1"
      "fst (ld_gram (lc_des (example_lcd pixel_lcd))) = 0xD0000000" "lt_handle (example_lcd pixel_lcd) = example_handle"
    by (simp_all add: example_lcd_def pixel_lcd_def default_lcd_values example_handle_def)
  obtain s' where s': "HAL_LTDC_LineEventCallback (\<lambda>_ _ _. []) 0x11223344 (example_lcd pixel_lcd) = Some s'"
    using line_event_result [OF v(1,2), of "\<lambda>_ _ _. []" "0x11223344"] example_line v(6) by auto
  then show ?thesis
    using lcd_frame_overrun [OF s' v(2), where bytes = 3 and a = "0xD0000003"] v by (simp add: word_byte_def)
qed


end
