(* ===== verification/Syscall.thy ===== *)
theory Syscall
  imports Bsp_led Itm
begin

text \<open>
  The system calls that the C library needs, src/syscall.c: output through the trace port, the break
  of the heap, and the calls that always fail.
\<close>

section \<open>State\<close>

text \<open>The error number, the static \<open>heap_current\<close>, which is NULL at the start, and the log.\<close>

record newlib =
  nl_errno :: int
  nl_break :: u32
  nl_log :: log

section \<open>Output\<close>

definition fd_to_itm_instance :: "u32 list" where
  "fd_to_itm_instance = [1, 1, 1]"

definition sys_read :: "int \<Rightarrow> u32 \<Rightarrow> u32 \<Rightarrow> int" where
  "sys_read fd buf count = -1"

definition sys_lseek :: "int \<Rightarrow> int \<Rightarrow> int \<Rightarrow> int" where
  "sys_lseek fd off whence = 0"

text \<open>
  \<open>mem\<close> are the bytes of memory.  \<open>None\<close>: the descriptor is behind the table, or the port stays
  busy.  The count is returned as a signed number.
\<close>

definition sys_write :: "hal_env \<Rightarrow> (u32 \<Rightarrow> u8) \<Rightarrow> int \<Rightarrow> u32 \<Rightarrow> u32 \<Rightarrow> newlib \<Rightarrow> (int \<times> newlib) option" where
  "sys_write env mem fd buf count s =
     (if fd < 0 \<or> buf = 0 then Some (-1, s\<lparr>nl_errno := EBADF\<rparr>)
      else if count = 0 then Some (0, s)
      else if int (length fd_to_itm_instance) \<le> fd then None
      else do {
        l \<leftarrow> itm_send env (map (\<lambda>i. mem (buf + of_nat i)) [0..<unat count]) (fd_to_itm_instance ! nat fd) (nl_log s);
        Some (sint count, s\<lparr>nl_log := l\<rparr>)
      })"

section \<open>The heap\<close>

text \<open>\<open>lo\<close> and \<open>hi\<close> are the linker symbols at the ends of the heap; pointers wrap as the machine's do.\<close>

definition sys_sbrk :: "u32 \<Rightarrow> u32 \<Rightarrow> int \<Rightarrow> newlib \<Rightarrow> u32 \<times> newlib" where
  "sys_sbrk lo hi incr s =
     (let cur = (if nl_break s = 0 then lo else nl_break s);
          new = cur + word_of_int incr
      in if hi < new
         then (-1, s\<lparr>nl_break := cur, nl_log := bsp_led_on BSP_LED_YELLOW (nl_log s), nl_errno := ENOMEM\<rparr>)
         else (cur, s\<lparr>nl_break := new\<rparr>))"

section \<open>The other calls\<close>

definition sys_open :: "string \<Rightarrow> int \<Rightarrow> int" where "sys_open path flags = -1"
definition sys_close :: "int \<Rightarrow> int" where "sys_close fd = -1"
definition sys_kill :: "int \<Rightarrow> int \<Rightarrow> int" where "sys_kill pid sig = -1"
definition sys_getpid :: int where "sys_getpid = -1"
definition sys_fstat :: "int \<Rightarrow> int" where "sys_fstat fd = -1"
definition sys_stat :: "string \<Rightarrow> int" where "sys_stat path = -1"
definition sys_link :: "string \<Rightarrow> string \<Rightarrow> int" where "sys_link old new = -1"
definition sys_unlink :: "string \<Rightarrow> int" where "sys_unlink path = -1"
definition sys_gettimeofday :: int where "sys_gettimeofday = -1"
definition sys_times :: int where "sys_times = -1"
definition sys_isatty :: "int \<Rightarrow> int" where "sys_isatty fd = (if fd \<le> 2 then 1 else 0)"
definition sys_system :: "string \<Rightarrow> int" where "sys_system command = -1"
definition sys_rename :: "string \<Rightarrow> string \<Rightarrow> int" where "sys_rename old new = -1"
definition sys_fcntl :: "int \<Rightarrow> int \<Rightarrow> int" where "sys_fcntl fd cmd = -1"
definition tls_get_addr :: "u32 \<Rightarrow> u32" where "tls_get_addr got = 0"

text \<open>\<open>_exit\<close> does not return.\<close>

partial_function (option) sys_exit :: "int \<Rightarrow> newlib \<Rightarrow> unit option" where
  "sys_exit status s = sys_exit status s"

section \<open>Writing\<close>

lemma sint_count:
  assumes "unat (count :: u32) < 2 ^ 31"
  shows "sint count = int (unat count)"
proof -
  have "uint count < 2 ^ 31"
    using assms of_nat_less_iff [where 'a = int, of "unat count" "2 ^ 31"] by simp
  then show ?thesis
    using signed_take_bit_int_eq_self [of 31 "uint count"] uint_ge_0 [of count] by (simp add: sint_uint)
qed

text \<open>
  C35.  Writing to an open port.  On the descriptors 0, 1 and 2 the bytes of the buffer arrive on
  port 1 in their order, the number of bytes is returned, and nothing else arrives.
\<close>

theorem sys_write_sends:
  assumes "itm_ready env 1 n" "fd \<in> {0, 1, 2}" "buf \<noteq> 0" "unat count < 2 ^ 31"
  shows "\<exists>s' m. sys_write env mem fd buf count s = Some (int (unat count), s') \<and> nl_log s' = nl_log s @ m \<and>
    itm_out m = map (\<lambda>i. (mem (buf + of_nat i), 1)) [0..<unat count] \<and>
    nl_errno s' = nl_errno s \<and> nl_break s' = nl_break s"
proof (cases "count = 0")
  case True
  then show ?thesis using assms by (auto simp: sys_write_def)
next
  case False
  have c: "sint count = int (unat count)" by (rule sint_count [OF assms(4)])
  have p: "fd_to_itm_instance ! nat fd = 1" using assms(2) by (auto simp: fd_to_itm_instance_def)
  obtain m where "itm_send env (map (\<lambda>i. mem (buf + of_nat i)) [0..<unat count]) 1 (nl_log s) = Some (nl_log s @ m)"
      "itm_out m = map (\<lambda>b. (b, 1)) (map (\<lambda>i. mem (buf + of_nat i)) [0..<unat count])"
    using send_ready [OF assms(1), of "map (\<lambda>i. mem (buf + of_nat i)) [0..<unat count]" "nl_log s"] by auto
  then show ?thesis
    using assms(2,3) False c p by (auto simp: sys_write_def fd_to_itm_instance_def comp_def)
qed

section \<open>The heap as an allocator\<close>

text \<open>The break that counts, and a sequence of requests with the answers.\<close>

definition current_break :: "u32 \<Rightarrow> newlib \<Rightarrow> u32" where
  "current_break lo s = (if nl_break s = 0 then lo else nl_break s)"

fun sbrk_seq :: "u32 \<Rightarrow> u32 \<Rightarrow> int list \<Rightarrow> newlib \<Rightarrow> (u32 \<times> int) list \<times> newlib" where
  "sbrk_seq lo hi [] s = ([], s)"
| "sbrk_seq lo hi (k # ks) s =
     (let (r, s1) = sys_sbrk lo hi k s; (rs, s2) = sbrk_seq lo hi ks s1
      in (if r = -1 then rs else (r, k) # rs, s2))"

definition in_heap :: "u32 \<Rightarrow> u32 \<Rightarrow> newlib \<Rightarrow> bool" where
  "in_heap lo hi s \<longleftrightarrow> lo \<le> current_break lo s \<and> current_break lo s \<le> hi"

lemma sbrk_step:
  assumes "in_heap lo hi s" "lo \<noteq> 0" "0 \<le> k" "uint hi + k + 1 < 2 ^ 32"
  shows "sys_sbrk lo hi k s =
      (if uint hi < uint (current_break lo s) + k
       then (-1, s\<lparr>nl_break := current_break lo s, nl_log := bsp_led_on BSP_LED_YELLOW (nl_log s), nl_errno := ENOMEM\<rparr>)
       else (current_break lo s, s\<lparr>nl_break := current_break lo s + word_of_int k\<rparr>))"
    and "in_heap lo hi (snd (sys_sbrk lo hi k s))"
    and "uint (current_break lo (snd (sys_sbrk lo hi k s))) =
      uint (current_break lo s) + (if uint hi < uint (current_break lo s) + k then 0 else k)"
proof -
  let ?c = "current_break lo s"
  have "uint lo \<noteq> 0" using assms(2) by (simp add: uint_0_iff)
  then have c: "uint lo \<le> uint ?c" "uint ?c \<le> uint hi" "0 < uint lo"
    using assms(1) uint_ge_0 [of lo] by (simp_all add: in_heap_def word_le_def order_le_less)
  have n: "uint (?c + word_of_int k) = uint ?c + k"
    using c assms(3,4) by (simp add: uint_word_ariths uint_word_of_int)
  show 1: "sys_sbrk lo hi k s =
      (if uint hi < uint ?c + k
       then (-1, s\<lparr>nl_break := ?c, nl_log := bsp_led_on BSP_LED_YELLOW (nl_log s), nl_errno := ENOMEM\<rparr>)
       else (?c, s\<lparr>nl_break := ?c + word_of_int k\<rparr>))"
    by (simp add: sys_sbrk_def current_break_def [symmetric] Let_def word_less_def n)
  have nz: "?c \<noteq> 0" "?c + word_of_int k \<noteq> 0"
    using c n assms(3) by (auto simp: word_uint_eq_iff)
  then have cb: "current_break lo (snd (sys_sbrk lo hi k s)) =
      (if uint hi < uint ?c + k then ?c else ?c + word_of_int k)"
    unfolding 1 by (simp add: current_break_def)
  show "uint (current_break lo (snd (sys_sbrk lo hi k s))) = uint ?c + (if uint hi < uint ?c + k then 0 else k)"
    unfolding cb using n by simp
  show "in_heap lo hi (snd (sys_sbrk lo hi k s))"
    unfolding in_heap_def cb using n c assms(3) by (simp add: word_le_def)
qed

lemma sbrk_seq_blocks:
  assumes "lo \<noteq> 0" "\<forall>k \<in> set ks. 0 \<le> k \<and> uint hi + k + 1 < 2 ^ 32"
    and "in_heap lo hi s" "uint hi + 1 < 2 ^ 32" "sbrk_seq lo hi ks s = (blocks, t)"
  shows "in_heap lo hi t \<and>
    (\<forall>(a, k) \<in> set blocks. uint (current_break lo s) \<le> uint a \<and> uint a + k \<le> uint hi) \<and>
    sorted_wrt (\<lambda>(a, k) (b, j). uint a + k \<le> uint b) blocks"
  using assms(2-)
proof (induction ks arbitrary: s blocks)
  case Nil
  then show ?case by simp
next
  case (Cons k ks)
  obtain r s1 where r: "sys_sbrk lo hi k s = (r, s1)" by fastforce
  obtain rs where rs: "sbrk_seq lo hi ks s1 = (rs, t)" "blocks = (if r = -1 then rs else (r, k) # rs)"
    using Cons.prems(4) r by (auto split: prod.splits)
  have k: "0 \<le> k" "uint hi + k + 1 < 2 ^ 32" using Cons.prems(1) by auto
  note st = sbrk_step [OF Cons.prems(2) assms(1) k, unfolded r snd_conv]
  have ih: "in_heap lo hi t \<and> (\<forall>(a, k) \<in> set rs. uint (current_break lo s1) \<le> uint a \<and> uint a + k \<le> uint hi) \<and>
      sorted_wrt (\<lambda>(a, k) (b, j). uint a + k \<le> uint b) rs"
    using Cons.IH [of s1 rs] Cons.prems st(2) rs(1) by simp
  have le: "uint (current_break lo s) \<le> uint (current_break lo s1)" using st(3) k(1) by simp
  show ?case
  proof (cases "r = -1")
    case True
    then show ?thesis using ih le rs(2) by fastforce
  next
    case False
    then have g: "r = current_break lo s" "\<not> uint hi < uint (current_break lo s) + k"
      using st(1) by (auto split: if_splits)
    then have "uint (current_break lo s1) = uint r + k" using st(3) by simp
    then show ?thesis using ih le rs(2) False g k by (fastforce simp: le_diff_eq)
  qed
qed

text \<open>
  C36.  The heap hands out disjoint blocks.  For any requests of sizes that are not negative and
  not so large that an address wraps, granted or refused: the blocks granted lie one behind the
  other between the two ends of the heap, and the break never leaves the heap.
\<close>

theorem sbrk_blocks_disjoint:
  assumes "in_heap lo hi s" "lo \<noteq> 0" "\<forall>k \<in> set ks. 0 \<le> k \<and> uint hi + k + 1 < 2 ^ 32"
    and "uint hi + 1 < 2 ^ 32" "sbrk_seq lo hi ks s = (blocks, t)"
  shows "in_heap lo hi t \<and> (\<forall>(a, k) \<in> set blocks. uint lo \<le> uint a \<and> uint a + k \<le> uint hi) \<and>
    sorted_wrt (\<lambda>(a, k) (b, j). uint a + k \<le> uint b) blocks"
proof -
  have "uint lo \<le> uint (current_break lo s)" using assms(1) by (simp add: in_heap_def word_le_def)
  then show ?thesis using sbrk_seq_blocks [OF assms(2,3,1,4,5)] by fastforce
qed

text \<open>
  A request so large that the address wraps is granted.  The break then lies below its old
  value, and \<open>errno\<close> stays as it was, though the heap has no such block.
\<close>

theorem sbrk_wraps:
  assumes "in_heap lo hi s" "k < 2 ^ 31" "2 ^ 32 \<le> uint (current_break lo s) + k"
  shows "\<exists>t. sys_sbrk lo hi k s = (current_break lo s, t) \<and> nl_errno t = nl_errno s \<and>
    uint (nl_break t) = uint (current_break lo s) + k - 2 ^ 32 \<and> nl_break t < current_break lo s"
proof -
  let ?c = "current_break lo s"
  have k: "0 \<le> k" "uint ?c < 2 ^ 32" using assms(3) uint_bounded [of ?c] by simp_all
  have "(uint ?c + k) mod 2 ^ 32 = uint ?c + k - 2 ^ 32"
    using assms(2,3) k minus_mod_self2 [of "uint ?c + k" "2 ^ 32"] mod_pos_pos_trivial [of "uint ?c + k - 2 ^ 32" "2 ^ 32"]
    by simp
  then have n: "uint (?c + word_of_int k) = uint ?c + k - 2 ^ 32"
    by (simp add: uint_word_ariths uint_word_of_int mod_add_right_eq)
  then have "?c + word_of_int k < ?c" using assms(2) by (simp add: word_less_def)
  moreover have "\<not> hi < ?c + word_of_int k" using assms(1) calculation by (auto simp: in_heap_def)
  ultimately show ?thesis using n by (simp add: sys_sbrk_def current_break_def [symmetric] Let_def)
qed

section \<open>Examples\<close>

definition ready_env :: hal_env where
  "ready_env = ok_env\<lparr>reg_value := \<lambda>_ _. 3\<rparr>"

lemma ready_env_ready: "itm_ready ready_env 1 0"
proof -
  have "(3 :: u32) AND push_bit (unat (1 :: u32)) 1 \<noteq> 0" by simp
  then show ?thesis by (simp add: itm_ready_def ready_env_def ok_env_def ITM_TCR_ITMENA_Msk_def)
qed

definition fresh_newlib :: newlib where
  "fresh_newlib = \<lparr>nl_errno = 0, nl_break = 0, nl_log = []\<rparr>"

lemma sys_write_sends_witness:
  "\<exists>s' m. sys_write ready_env (\<lambda>a. ucast a) 1 0x20000041 2 fresh_newlib = Some (2, s') \<and> nl_log s' = m \<and>
     itm_out m = [(0x41, 1), (0x42, 1)]"
proof -
  have "unat (2 :: u32) = 2" "[0..<2] = [0, 1 :: nat]" by (simp_all add: upt_rec)
  then show ?thesis
    using sys_write_sends [OF ready_env_ready, of 1 "0x20000041" 2 "\<lambda>a. ucast a" fresh_newlib]
    by (auto simp: fresh_newlib_def)
qed

lemma fresh_in_heap: "in_heap 0xC0010000 0xC0020000 fresh_newlib"
  by (simp add: in_heap_def current_break_def fresh_newlib_def)

lemma sbrk_blocks_disjoint_witness:
  "\<exists>blocks t. sbrk_seq 0xC0010000 0xC0020000 [0x100, 0x20000, 0x200] fresh_newlib = (blocks, t) \<and>
     in_heap 0xC0010000 0xC0020000 t \<and> map snd blocks = [0x100, 0x200] \<and>
     sorted_wrt (\<lambda>(a, k) (b, j). uint a + k \<le> uint b) blocks"
proof -
  obtain blocks t where r: "sbrk_seq 0xC0010000 0xC0020000 [0x100, 0x20000, 0x200] fresh_newlib = (blocks, t)"
    by fastforce
  then have "map snd blocks = [0x100, 0x200]"
    by (auto simp: sys_sbrk_def Let_def fresh_newlib_def split: prod.splits if_splits)
  then show ?thesis using sbrk_blocks_disjoint [OF fresh_in_heap _ _ _ r] r by simp
qed

lemma sbrk_wraps_witness:
  "\<exists>t. sys_sbrk 0xC0010000 0xC0020000 0x7FFFFFFF fresh_newlib = (0xC0010000, t) \<and> uint (nl_break t) = 0x4000FFFF"
  using sbrk_wraps [OF fresh_in_heap, of "0x7FFFFFFF"] by (auto simp: current_break_def fresh_newlib_def)

end
