(* ===== verification/Bsp_debug.thy ===== *)
theory Bsp_debug
  imports Syscall Bsp_utils
begin

text \<open>
  The debug components of bsp/bsp_debug.c: the walk over the two ROM tables of the chip, the trace
  port and the timestamp generator; and what becomes of the output that src/syscall.c sends to the
  trace port once they are set up.
\<close>

section \<open>Constants\<close>

definition CoreDebug_DHCSR_S_RETIRE_ST_Msk :: u32 where
  [hal_consts]: "CoreDebug_DHCSR_S_RETIRE_ST_Msk = 0x1000000"

definition SCB_SHCSR_USGFAULTENA_Msk :: u32 where
  [hal_consts]: "SCB_SHCSR_USGFAULTENA_Msk = 0x40000"

definition SCB_SHCSR_BUSFAULTENA_Msk :: u32 where
  [hal_consts]: "SCB_SHCSR_BUSFAULTENA_Msk = 0x20000"

definition SCB_SHCSR_MEMFAULTENA_Msk :: u32 where
  [hal_consts]: "SCB_SHCSR_MEMFAULTENA_Msk = 0x10000"


definition SCB_BASE :: u32 where [hal_consts]: "SCB_BASE = 0xE000ED00"
definition SCB_SHCSR :: u32 where "SCB_SHCSR = SCB_BASE + 0x24"
definition CoreDebug_BASE :: u32 where [hal_consts]: "CoreDebug_BASE = 0xE000EDF0"
definition CoreDebug_DEMCR :: u32 where "CoreDebug_DEMCR = CoreDebug_BASE + 0xC"

definition ROM_TB1_BASE :: u32 where [hal_consts]: "ROM_TB1_BASE = 0x5C000000"
definition ROM_TB1_ENT_PRESENT :: "u32 \<Rightarrow> u32" where "ROM_TB1_ENT_PRESENT entry = entry OR 0x01"
definition ROM_TB1_ENT_ADDROFF :: "u32 \<Rightarrow> u32" where "ROM_TB1_ENT_ADDROFF entry = entry AND 0xFFFFF000"

text \<open>The offsets of the entries in the tables.\<close>

definition tb1_swo :: u32 where "tb1_swo = 0x08"
definition tb1_swtf :: u32 where "tb1_swtf = 0x0C"
definition tb1_tsg :: u32 where "tb1_tsg = 0x10"
definition tb1_sys_rom_tb2 :: u32 where "tb1_sys_rom_tb2 = 0x14"
definition tb2_cti :: u32 where "tb2_cti = 0x00"
definition tb2_cstf :: u32 where "tb2_cstf = 0x08"
definition tb2_etf :: u32 where "tb2_etf = 0x0C"
definition tb2_tpiu :: u32 where "tb2_tpiu = 0x10"

text \<open>The registers of the timestamp generator.\<close>

definition tsg_cntcr :: u32 where "tsg_cntcr = 0x00"
definition tsg_cntcv :: u32 where "tsg_cntcv = 0x08"
definition tsg_cntfid0 :: u32 where "tsg_cntfid0 = 0x20"

section \<open>State\<close>

text \<open>The static pointers of the file, NULL at the start.\<close>

record debug =
  dp_tsg :: u32
  dp_swtf :: u32
  dp_swo :: u32
  dp_sys_rom_tb2 :: u32
  dp_cti :: u32
  dp_cstf :: u32
  dp_etf :: u32
  dp_tpiu :: u32
  dp_log :: log

section \<open>Operations\<close>

text \<open>The macro reads the entry twice; \<open>old\<close> is the pointer's value before.\<close>

definition ROM_PREPARE_COMPONENT :: "hal_env \<Rightarrow> u32 \<Rightarrow> u32 \<Rightarrow> u32 \<Rightarrow> log \<Rightarrow> u32 \<times> log" where
  "ROM_PREPARE_COMPONENT env base entry old l =
     (let l1 = l @ [Reg_read (base + entry)]
      in if ROM_TB1_ENT_PRESENT (reg_value env l (base + entry)) \<noteq> 0
         then (ROM_TB1_ENT_ADDROFF (reg_value env l1 (base + entry)) + base, l1 @ [Reg_read (base + entry)])
         else (old, l1))"

definition itm_gpio :: gpio_init where
  "itm_gpio = \<lparr>gpio_pin = ucast GPIO_PIN_3, gpio_mode = GPIO_MODE_AF_PP, gpio_pull = GPIO_NOPULL,
     gpio_speed = GPIO_SPEED_FREQ_VERY_HIGH, gpio_alternate = ucast GPIO_AF0_TRACE\<rparr>"

definition bsp_debug_itm_init :: "hal_env \<Rightarrow> log \<Rightarrow> log" where
  "bsp_debug_itm_init env l =
     SET_BIT env ITM_TER 1 (SET_BIT env ITM_TCR ITM_TCR_ITMENA_Msk
       (SET_BIT env CoreDebug_DEMCR CoreDebug_DHCSR_S_RETIRE_ST_Msk (l @ [Gpio (Gpio_init GPIOB_BASE itm_gpio)])))"

text \<open>\<open>hclk\<close> is the frequency that \<open>HAL_RCC_GetHCLKFreq\<close> returns; a 64-bit store is two stores.\<close>

definition bsp_debug_tsg_start :: "u32 \<Rightarrow> u64 \<Rightarrow> debug \<Rightarrow> int \<times> debug" where
  "bsp_debug_tsg_start hclk v d =
     (let t = dp_tsg d
      in if t = 0 then (- ENXIO, d)
         else (0, d\<lparr>dp_log := dp_log d @
                [Reg_write (t + tsg_cntcr) 0, Reg_write (t + tsg_cntfid0) hclk,
                 Reg_write (t + tsg_cntcv) (ucast v), Reg_write (t + tsg_cntcv + 4) (ucast (drop_bit 32 v)),
                 Reg_write (t + tsg_cntcr) 1]\<rparr>))"

definition bsp_debug_tsg_stop :: "debug \<Rightarrow> int \<times> debug" where
  "bsp_debug_tsg_stop d =
     (if dp_tsg d = 0 then (- ENXIO, d)
      else (0, d\<lparr>dp_log := dp_log d @ [Reg_write (dp_tsg d + tsg_cntcr) 0]\<rparr>))"

text \<open>The assembly reads two words at a fixed address.\<close>

definition bsp_debug_tsg_get :: "hal_env \<Rightarrow> log \<Rightarrow> u64 \<times> log" where
  "bsp_debug_tsg_get env l =
     (let l1 = l @ [Reg_read 0x5C005008]
      in (ucast (reg_value env l 0x5C005008) OR push_bit 32 (ucast (reg_value env l1 0x5C00500C)),
          l1 @ [Reg_read 0x5C00500C]))"

definition enable_faults :: "hal_env \<Rightarrow> log \<Rightarrow> log" where
  "enable_faults env l =
     SET_BIT env SCB_SHCSR SCB_SHCSR_MEMFAULTENA_Msk (SET_BIT env SCB_SHCSR SCB_SHCSR_BUSFAULTENA_Msk
       (SET_BIT env SCB_SHCSR SCB_SHCSR_USGFAULTENA_Msk l))"

definition find_tb1 :: "hal_env \<Rightarrow> debug \<Rightarrow> debug" where
  "find_tb1 env d =
     (let (tsg, l1) = ROM_PREPARE_COMPONENT env ROM_TB1_BASE tb1_tsg (dp_tsg d) (dp_log d);
          (swtf, l2) = ROM_PREPARE_COMPONENT env ROM_TB1_BASE tb1_swtf (dp_swtf d) l1;
          (swo, l3) = ROM_PREPARE_COMPONENT env ROM_TB1_BASE tb1_swo (dp_swo d) l2;
          (tb2, l4) = ROM_PREPARE_COMPONENT env ROM_TB1_BASE tb1_sys_rom_tb2 (dp_sys_rom_tb2 d) l3
      in d\<lparr>dp_tsg := tsg, dp_swtf := swtf, dp_swo := swo, dp_sys_rom_tb2 := tb2, dp_log := l4\<rparr>)"

definition find_tb2 :: "hal_env \<Rightarrow> debug \<Rightarrow> debug" where
  "find_tb2 env d =
     (let b = dp_sys_rom_tb2 d
      in if b = 0 then d
         else
           (let (cti, l1) = ROM_PREPARE_COMPONENT env b tb2_cti (dp_cti d) (dp_log d);
                (cstf, l2) = ROM_PREPARE_COMPONENT env b tb2_cstf (dp_cstf d) l1;
                (etf, l3) = ROM_PREPARE_COMPONENT env b tb2_etf (dp_etf d) l2;
                (tpiu, l4) = ROM_PREPARE_COMPONENT env b tb2_tpiu (dp_tpiu d) l3
            in d\<lparr>dp_cti := cti, dp_cstf := cstf, dp_etf := etf, dp_tpiu := tpiu, dp_log := l4\<rparr>))"

definition bsp_debug_init :: "hal_env \<Rightarrow> u32 \<Rightarrow> debug \<Rightarrow> int \<times> debug" where
  "bsp_debug_init env hclk d =
     (let d1 = d\<lparr>dp_log := enable_faults env (dp_log d)\<rparr>;
          d2 = find_tb2 env (find_tb1 env d1);
          d3 = (if dp_swo d2 \<noteq> 0 then d2\<lparr>dp_log := bsp_debug_itm_init env (dp_log d2)\<rparr> else d2)
      in (0, snd (bsp_debug_tsg_start hclk 0 d3)))"

section \<open>The walk over the tables\<close>

lemma present_always [simp]: "ROM_TB1_ENT_PRESENT e \<noteq> 0"
proof -
  have "bit (ROM_TB1_ENT_PRESENT e) 0" by (simp add: ROM_TB1_ENT_PRESENT_def bit_simps)
  then show ?thesis by auto
qed

lemma prepare_component:
  "ROM_PREPARE_COMPONENT env base entry old l =
     (ROM_TB1_ENT_ADDROFF (reg_value env (l @ [Reg_read (base + entry)]) (base + entry)) + base,
      l @ [Reg_read (base + entry), Reg_read (base + entry)])"
  by (simp add: ROM_PREPARE_COMPONENT_def Let_def)

text \<open>The log of the walk consists of reads.\<close>

definition reads_only :: "log \<Rightarrow> bool" where
  "reads_only m \<longleftrightarrow> (\<forall>e \<in> set m. \<exists>a. e = Reg_read a)"

lemma find_reads:
  "\<exists>m. dp_log (find_tb1 env d) = dp_log d @ m \<and> reads_only m"
  "\<exists>m. dp_log (find_tb2 env d) = dp_log d @ m \<and> reads_only m"
  by (auto simp: find_tb1_def find_tb2_def prepare_component reads_only_def Let_def)

lemma find_tb2_tsg [simp]: "dp_tsg (find_tb2 env d) = dp_tsg d" "dp_swo (find_tb2 env d) = dp_swo d"
  by (simp_all add: find_tb2_def prepare_component Let_def)

lemma reads_untouched: "reads_only m \<Longrightarrow> Reg_write a v \<notin> set m"
  by (auto simp: reads_only_def)

text \<open>The four component pointers are page addresses relative to the table, whatever the entries say.\<close>

lemma low_sum:
  assumes "take_bit 12 a = (0 :: u32)"
  shows "take_bit 12 (a + b) = take_bit 12 b"
proof -
  have "uint a mod 2 ^ 12 = 0"
    using assms unsigned_take_bit_eq [of 12 a, where 'a = int] by (simp add: take_bit_eq_mod)
  then have "(uint a + uint b) mod 2 ^ 12 = uint b mod 2 ^ 12"
    using mod_add_left_eq [of "uint a" "2 ^ 12" "uint b"] by simp
  moreover have "(2 :: int) ^ 12 dvd 2 ^ 32" by (simp add: le_imp_power_dvd)
  ultimately have "(uint a + uint b) mod 2 ^ 32 mod 2 ^ 12 = uint b mod 2 ^ 12"
    using mod_mod_cancel [of "2 ^ 12" "2 ^ 32" "uint a + uint b"] by simp
  then have "take_bit 12 (uint (a + b)) = take_bit 12 (uint b)"
    by (simp add: take_bit_eq_mod [where 'a = int] uint_word_ariths)
  then have "uint (take_bit 12 (a + b)) = uint (take_bit 12 b)"
    by (simp only: unsigned_take_bit_eq)
  then show ?thesis by (simp add: word_uint_eq_iff)
qed

lemma page_address: "take_bit 12 (ROM_TB1_ENT_ADDROFF e + ROM_TB1_BASE) = 0"
proof -
  have "take_bit 12 (ROM_TB1_ENT_ADDROFF e) = 0" "take_bit 12 ROM_TB1_BASE = 0"
    by (simp_all add: ROM_TB1_ENT_ADDROFF_def ROM_TB1_BASE_def take_bit_and)
  then show ?thesis by (simp add: low_sum)
qed

lemma tsg_page: "take_bit 12 (dp_tsg (find_tb1 env d)) = 0"
  by (simp add: find_tb1_def prepare_component Let_def page_address)


section \<open>Where the output goes\<close>

text \<open>A register that holds what was written to it last.\<close>

definition holds_value :: "hal_env \<Rightarrow> u32 \<Rightarrow> bool" where
  "holds_value env a \<longleftrightarrow>
     (\<forall>l e. reg_value env (l @ [e]) a = (case e of Reg_write b v \<Rightarrow> if b = a then v else reg_value env l a | _ \<Rightarrow> reg_value env l a))"

definition untouched :: "u32 \<Rightarrow> log \<Rightarrow> bool" where
  "untouched a m \<longleftrightarrow> (\<forall>v. Reg_write a v \<notin> set m)"

lemma held:
  assumes "holds_value env a" "untouched a m"
  shows "reg_value env (l @ m) a = reg_value env l a"
  using assms(2)
proof (induction m rule: rev_induct)
  case (snoc e m)
  then show ?case
    using assms(1) by (auto simp: holds_value_def untouched_def append_assoc [symmetric] simp del: append_assoc split: event.splits)
qed simp

lemma send_closed:
  assumes "holds_value env ITM_TER" "port < 32" "reg_value env l ITM_TER AND push_bit (unat port) 1 = 0"
  shows "\<exists>m. itm_send env bs port l = Some (l @ m) \<and> reads_only m"
  using assms(3)
proof (induction bs arbitrary: l)
  case Nil
  then show ?case by (simp add: reads_only_def)
next
  case (Cons b bs)
  have p: "\<not> 32 \<le> port" using assms(2) by simp
  have t: "reg_value env (l @ [Reg_read x]) ITM_TER = reg_value env l ITM_TER" for x
    using assms(1) by (simp add: holds_value_def)
  have "\<exists>m1. ITM_SendChar env (ucast b) port l = Some (ucast b, l @ m1) \<and> reads_only m1"
  proof (cases "reg_value env l ITM_TCR AND ITM_TCR_ITMENA_Msk = 0")
    case True
    then show ?thesis by (simp add: ITM_SendChar_def reads_only_def)
  next
    case False
    then show ?thesis using Cons.prems p t by (simp add: ITM_SendChar_def reads_only_def)
  qed
  then obtain m1 where m1: "ITM_SendChar env (ucast b) port l = Some (ucast b, l @ m1)" "reads_only m1" by blast
  have "untouched ITM_TER m1" using m1(2) by (auto simp: untouched_def reads_only_def)
  then have "reg_value env (l @ m1) ITM_TER AND push_bit (unat port) 1 = 0"
    using held [OF assms(1), of m1 l] Cons.prems by simp
  then obtain m2 where "itm_send env bs port (l @ m1) = Some ((l @ m1) @ m2)" "reads_only m2"
    using Cons.IH by blast
  then show ?case using m1 by (auto simp: reads_only_def)
qed

lemma reads_silent: "reads_only m \<Longrightarrow> itm_out m = []"
  by (induction m rule: itm_out.induct) (auto simp: reads_only_def)

lemma SET_BIT_log: "SET_BIT env a b l = l @ [Reg_read a, Reg_write a (reg_value env l a OR b)]"
  by (simp add: SET_BIT_def modify_reg_def)

lemma port_closed_held:
  assumes "holds_value env ITM_TER" "\<not> bit (reg_value env l ITM_TER) (Suc 0)" "untouched ITM_TER m"
  shows "\<not> bit (reg_value env (l @ m) ITM_TER) (Suc 0)"
  using assms held by simp

lemma port_closed_set_other:
  assumes "holds_value env ITM_TER" "\<not> bit (reg_value env l ITM_TER) (Suc 0)" "a \<noteq> ITM_TER"
  shows "\<not> bit (reg_value env (SET_BIT env a b l) ITM_TER) (Suc 0)"
  unfolding SET_BIT_log using assms by (intro port_closed_held) (simp_all add: untouched_def)

lemma port_closed_set_TER:
  assumes "holds_value env ITM_TER" "\<not> bit (reg_value env l ITM_TER) (Suc 0)"
  shows "\<not> bit (reg_value env (SET_BIT env ITM_TER 1 l) ITM_TER) (Suc 0)"
proof -
  let ?v = "reg_value env l ITM_TER"
  have "reg_value env ((l @ [Reg_read ITM_TER]) @ [Reg_write ITM_TER (?v OR 1)]) ITM_TER = ?v OR 1"
    using assms(1) [unfolded holds_value_def, rule_format, of "l @ [Reg_read ITM_TER]" "Reg_write ITM_TER (?v OR 1)"]
    by (simp only: event.case simp_thms if_True)
  then show ?thesis using assms(2) by (simp add: SET_BIT_log bit_simps)
qed

lemma trace_addresses:
  "ITM_TER = 0xE0000E00" "SCB_SHCSR \<noteq> ITM_TER" "ITM_TCR \<noteq> ITM_TER" "CoreDebug_DEMCR \<noteq> ITM_TER"
  by (simp_all add: ITM_TER_def SCB_SHCSR_def ITM_TCR_def CoreDebug_DEMCR_def hal_consts)

lemma tsg_registers_apart:
  assumes "take_bit 12 t = (0 :: u32)" "take_bit 12 k \<noteq> (0xE00 :: u32)"
  shows "t + k \<noteq> ITM_TER"
proof
  assume "t + k = ITM_TER"
  then have "take_bit 12 (t + k) = (0xE00 :: u32)" by (simp add: trace_addresses)
  then show False using assms by (simp add: low_sum)
qed

lemma debug_init_port:
  assumes h: "holds_value env ITM_TER" and c: "\<not> bit (reg_value env (dp_log d) ITM_TER) (Suc 0)"
  shows "\<not> bit (reg_value env (dp_log (snd (bsp_debug_init env hclk d))) ITM_TER) (Suc 0)"
proof -
  define d1 where "d1 = d\<lparr>dp_log := enable_faults env (dp_log d)\<rparr>"
  have 1: "\<not> bit (reg_value env (dp_log d1) ITM_TER) (Suc 0)"
    using c by (simp add: d1_def enable_faults_def port_closed_set_other [OF h _ trace_addresses(2)])
  define d2 where "d2 = find_tb2 env (find_tb1 env d1)"
  obtain m1 m2 where "dp_log (find_tb1 env d1) = dp_log d1 @ m1" "reads_only m1"
      "dp_log (find_tb2 env (find_tb1 env d1)) = dp_log (find_tb1 env d1) @ m2" "reads_only m2"
    using find_reads(1) [of env d1] find_reads(2) [of env "find_tb1 env d1"] by blast
  then have "dp_log d2 = dp_log d1 @ (m1 @ m2)" "untouched ITM_TER (m1 @ m2)"
    using reads_untouched by (simp_all add: d2_def untouched_def)
  then have 2: "\<not> bit (reg_value env (dp_log d2) ITM_TER) (Suc 0)" using port_closed_held [OF h 1] by simp
  define d3 where "d3 = (if dp_swo d2 \<noteq> 0 then d2\<lparr>dp_log := bsp_debug_itm_init env (dp_log d2)\<rparr> else d2)"
  have "\<not> bit (reg_value env (dp_log d2 @ [Gpio (Gpio_init GPIOB_BASE itm_gpio)]) ITM_TER) (Suc 0)"
    using port_closed_held [OF h 2] by (simp add: untouched_def)
  then have 3: "\<not> bit (reg_value env (dp_log d3) ITM_TER) (Suc 0)"
    using 2
    by (simp add: d3_def bsp_debug_itm_init_def port_closed_set_TER [OF h]
        port_closed_set_other [OF h _ trace_addresses(3)] port_closed_set_other [OF h _ trace_addresses(4)])
  have "dp_tsg d3 = dp_tsg d2" by (simp add: d3_def)
  then have p: "take_bit 12 (dp_tsg d3) = 0" by (simp add: d2_def tsg_page)
  have "untouched ITM_TER
      [Reg_write (dp_tsg d3 + tsg_cntcr) 0, Reg_write (dp_tsg d3 + tsg_cntfid0) hclk,
       Reg_write (dp_tsg d3 + tsg_cntcv) 0, Reg_write (dp_tsg d3 + (tsg_cntcv + 4)) 0, Reg_write (dp_tsg d3 + tsg_cntcr) 1]"
    using tsg_registers_apart [OF p, of tsg_cntcr] tsg_registers_apart [OF p, of tsg_cntfid0]
      tsg_registers_apart [OF p, of tsg_cntcv] tsg_registers_apart [OF p, of "tsg_cntcv + 4"]
    by (auto simp: untouched_def tsg_cntcr_def tsg_cntfid0_def tsg_cntcv_def)
  then have "\<not> bit (reg_value env (dp_log (snd (bsp_debug_tsg_start hclk 0 d3))) ITM_TER) (Suc 0)"
    using port_closed_held [OF h 3] 3 by (simp add: bsp_debug_tsg_start_def Let_def add.assoc)
  moreover have "snd (bsp_debug_init env hclk d) = snd (bsp_debug_tsg_start hclk 0 d3)"
    by (simp only: bsp_debug_init_def Let_def d1_def d2_def d3_def snd_conv)
  ultimately show ?thesis by simp
qed

text \<open>
  C33.  The console is silent.  The initialisation opens port 0 of the trace, the output goes to
  port 1.  If that port was closed before, then after the initialisation and anything that does not
  write the enable register, every write to the descriptors 0, 1 and 2 reports full success, and
  nothing is sent.
\<close>

theorem console_silent:
  assumes "holds_value env ITM_TER" "\<not> bit (reg_value env (dp_log d) ITM_TER) 1"
    and "nl_log s = dp_log (snd (bsp_debug_init env hclk d)) @ m" "untouched ITM_TER m"
    and "fd \<in> {0, 1, 2}" "buf \<noteq> 0" "unat count < 2 ^ 31"
  shows "\<exists>s'. sys_write env mem fd buf count s = Some (int (unat count), s') \<and> itm_out (nl_log s') = itm_out (nl_log s)"
proof (cases "count = 0")
  case True
  then show ?thesis using assms(5,6) by (auto simp: sys_write_def)
next
  case False
  have "\<not> bit (reg_value env (nl_log s) ITM_TER) (Suc 0)"
    unfolding assms(3) by (rule port_closed_held [OF assms(1) debug_init_port [OF assms(1) assms(2) [unfolded One_nat_def]] assms(4)])
  then have "reg_value env (nl_log s) ITM_TER AND push_bit (unat (1 :: u32)) 1 = 0"
    by (auto intro!: bit_word_eqI simp: bit_simps)
  then obtain l where l: "itm_send env (map (\<lambda>i. mem (buf + of_nat i)) [0..<unat count]) 1 (nl_log s) = Some (nl_log s @ l)"
      "itm_out l = []"
    using send_closed [OF assms(1), of 1 "nl_log s"] reads_silent by fastforce
  have "fd_to_itm_instance ! nat fd = 1" using assms(5) by (auto simp: fd_to_itm_instance_def)
  then show ?thesis
    using l assms(5,6) False sint_count [OF assms(7)] by (auto simp: sys_write_def fd_to_itm_instance_def)
qed

section \<open>Examples\<close>

definition zero_debug :: debug where
  "zero_debug = \<lparr>dp_tsg = 0, dp_swtf = 0, dp_swo = 0, dp_sys_rom_tb2 = 0, dp_cti = 0, dp_cstf = 0, dp_etf = 0,
     dp_tpiu = 0, dp_log = []\<rparr>"


text \<open>An environment in which every register holds what was written, from zero.\<close>

fun last_write :: "u32 \<Rightarrow> log \<Rightarrow> u32 \<Rightarrow> u32" where
  "last_write a [] v = v"
| "last_write a (Reg_write b w # l) v = last_write a l (if b = a then w else v)"
| "last_write a (_ # l) v = last_write a l v"

definition memory_env :: hal_env where
  "memory_env = ok_env\<lparr>reg_value := \<lambda>l a. last_write a l 0\<rparr>"

lemma last_write_snoc:
  "last_write a (l @ [e]) v = (case e of Reg_write b w \<Rightarrow> if b = a then w else last_write a l v | _ \<Rightarrow> last_write a l v)"
  by (induction a l v rule: last_write.induct) (auto split: event.splits)

lemma memory_env_holds: "holds_value memory_env a"
  by (simp add: holds_value_def memory_env_def last_write_snoc split: event.split)

lemma console_silent_witness:
  "\<exists>s'. sys_write memory_env (\<lambda>_. 0x41) 1 0x20000000 5
     (fresh_newlib\<lparr>nl_log := dp_log (snd (bsp_debug_init memory_env 240000000 zero_debug))\<rparr>) = Some (5, s')"
  using console_silent [OF memory_env_holds, of zero_debug
      "fresh_newlib\<lparr>nl_log := dp_log (snd (bsp_debug_init memory_env 240000000 zero_debug))\<rparr>" 240000000 "[]" 1
      "0x20000000" 5 "\<lambda>_. 0x41"]
  by (auto simp: memory_env_def zero_debug_def untouched_def)

end
