(* ===== verification/Fault.thy ===== *)
theory Fault
  imports Bsp_debug
begin

text \<open>
  The exception handlers of src/stm32h7xx_it.c: the selection of the stack, the report that
  \<open>print_panic\<close> prints about the stacked registers, the configuration and the fault status
  registers, and the handlers of the display interrupt and of the faults.
\<close>

section \<open>Constants\<close>

definition SCB_CCR_BP_Msk :: u32 where
  [hal_consts]: "SCB_CCR_BP_Msk = 0x40000"

definition SCB_CCR_IC_Msk :: u32 where
  [hal_consts]: "SCB_CCR_IC_Msk = 0x20000"

definition SCB_CCR_DC_Msk :: u32 where
  [hal_consts]: "SCB_CCR_DC_Msk = 0x10000"

definition SCB_CCR_BFHFNMIGN_Msk :: u32 where
  [hal_consts]: "SCB_CCR_BFHFNMIGN_Msk = 0x100"

definition SCB_CCR_DIV_0_TRP_Msk :: u32 where
  [hal_consts]: "SCB_CCR_DIV_0_TRP_Msk = 0x10"

definition SCB_CCR_UNALIGN_TRP_Msk :: u32 where
  [hal_consts]: "SCB_CCR_UNALIGN_TRP_Msk = 0x8"

definition SCB_CCR_USERSETMPEND_Msk :: u32 where
  [hal_consts]: "SCB_CCR_USERSETMPEND_Msk = 0x2"

definition SCB_CCR_NONBASETHRDENA_Msk :: u32 where
  [hal_consts]: "SCB_CCR_NONBASETHRDENA_Msk = 0x1"

definition SCB_CFSR_DIVBYZERO_Msk :: u32 where
  [hal_consts]: "SCB_CFSR_DIVBYZERO_Msk = 0x2000000"

definition SCB_CFSR_UNALIGNED_Msk :: u32 where
  [hal_consts]: "SCB_CFSR_UNALIGNED_Msk = 0x1000000"

definition SCB_CFSR_NOCP_Msk :: u32 where
  [hal_consts]: "SCB_CFSR_NOCP_Msk = 0x80000"

definition SCB_CFSR_INVPC_Msk :: u32 where
  [hal_consts]: "SCB_CFSR_INVPC_Msk = 0x40000"

definition SCB_CFSR_INVSTATE_Msk :: u32 where
  [hal_consts]: "SCB_CFSR_INVSTATE_Msk = 0x20000"

definition SCB_CFSR_UNDEFINSTR_Msk :: u32 where
  [hal_consts]: "SCB_CFSR_UNDEFINSTR_Msk = 0x10000"

definition SCB_CFSR_BFARVALID_Msk :: u32 where
  [hal_consts]: "SCB_CFSR_BFARVALID_Msk = 0x8000"

definition SCB_CFSR_LSPERR_Msk :: u32 where
  [hal_consts]: "SCB_CFSR_LSPERR_Msk = 0x2000"

definition SCB_CFSR_STKERR_Msk :: u32 where
  [hal_consts]: "SCB_CFSR_STKERR_Msk = 0x1000"

definition SCB_CFSR_UNSTKERR_Msk :: u32 where
  [hal_consts]: "SCB_CFSR_UNSTKERR_Msk = 0x800"

definition SCB_CFSR_IMPRECISERR_Msk :: u32 where
  [hal_consts]: "SCB_CFSR_IMPRECISERR_Msk = 0x400"

definition SCB_CFSR_PRECISERR_Msk :: u32 where
  [hal_consts]: "SCB_CFSR_PRECISERR_Msk = 0x200"

definition SCB_CFSR_IBUSERR_Msk :: u32 where
  [hal_consts]: "SCB_CFSR_IBUSERR_Msk = 0x100"

definition SCB_CFSR_MMARVALID_Msk :: u32 where
  [hal_consts]: "SCB_CFSR_MMARVALID_Msk = 0x80"

definition SCB_CFSR_MLSPERR_Msk :: u32 where
  [hal_consts]: "SCB_CFSR_MLSPERR_Msk = 0x20"

definition SCB_CFSR_MSTKERR_Msk :: u32 where
  [hal_consts]: "SCB_CFSR_MSTKERR_Msk = 0x10"

definition SCB_CFSR_MUNSTKERR_Msk :: u32 where
  [hal_consts]: "SCB_CFSR_MUNSTKERR_Msk = 0x8"

definition SCB_CFSR_DACCVIOL_Msk :: u32 where
  [hal_consts]: "SCB_CFSR_DACCVIOL_Msk = 0x2"

definition SCB_CFSR_IACCVIOL_Msk :: u32 where
  [hal_consts]: "SCB_CFSR_IACCVIOL_Msk = 0x1"

definition SCB_ABFSR_AXIM_Msk :: u32 where
  [hal_consts]: "SCB_ABFSR_AXIM_Msk = 0x8"

definition SCB_ABFSR_AXIMTYPE_Msk :: u32 where
  [hal_consts]: "SCB_ABFSR_AXIMTYPE_Msk = 0x300"

definition SCB_ABFSR_EPPB_Msk :: u32 where
  [hal_consts]: "SCB_ABFSR_EPPB_Msk = 0x10"

definition SCB_ABFSR_AHBP_Msk :: u32 where
  [hal_consts]: "SCB_ABFSR_AHBP_Msk = 0x4"

definition SCB_ABFSR_DTCM_Msk :: u32 where
  [hal_consts]: "SCB_ABFSR_DTCM_Msk = 0x2"

definition SCB_ABFSR_ITCM_Msk :: u32 where
  [hal_consts]: "SCB_ABFSR_ITCM_Msk = 0x1"

definition SCB_HFSR_DEBUGEVT_Msk :: u32 where
  [hal_consts]: "SCB_HFSR_DEBUGEVT_Msk = 0x80000000"

definition SCB_HFSR_FORCED_Msk :: u32 where
  [hal_consts]: "SCB_HFSR_FORCED_Msk = 0x40000000"

definition SCB_HFSR_VECTTBL_Msk :: u32 where
  [hal_consts]: "SCB_HFSR_VECTTBL_Msk = 0x2"


abbreviation nl :: char where "nl \<equiv> CHR 0x0A"
abbreviation tb :: char where "tb \<equiv> CHR 0x09"

section \<open>State\<close>

text \<open>The registers of the system control block, which keep their values while the report is printed.\<close>

record scb =
  SCB_CCR :: u32
  SCB_CFSR :: u32
  SCB_HFSR :: u32
  SCB_ABFSR :: u32
  SCB_MMFAR :: u32
  SCB_BFAR :: u32

section \<open>Numbers\<close>

definition hex_digit :: "nat \<Rightarrow> char" where
  "hex_digit n = ''0123456789abcdef'' ! n"

text \<open>\<open>%08lx\<close>.\<close>

definition hex8 :: "u32 \<Rightarrow> string" where
  "hex8 w = map (\<lambda>i. hex_digit (unat (take_bit 4 (drop_bit (4 * i) w)))) [7, 6, 5, 4, 3, 2, 1, 0]"

section \<open>The report\<close>

text \<open>The stacked registers are the eight words at the stack pointer.\<close>

definition panic_stack :: "(u32 \<Rightarrow> u32) \<Rightarrow> u32 \<Rightarrow> string list" where
  "panic_stack mem args =
     (let reg = (\<lambda>i. hex8 (mem (args + 4 * i)))
      in [''[panic_stack]:'' @ [nl],
          [tb] @ ''r0 = '' @ reg 0 @ '', r1 = '' @ reg 1 @ '', r2 = '' @ reg 2 @ '', r3 = '' @ reg 3 @ [nl],
          [tb] @ ''r12 = '' @ reg 4 @ '', lr = '' @ reg 5 @ '', pc = '' @ reg 6 @ '', psr = '' @ reg 7 @ [nl]])"

definition CCR_BIT_TO_STR :: "scb \<Rightarrow> u32 \<Rightarrow> string" where
  "CCR_BIT_TO_STR r m = (if SCB_CCR r AND m \<noteq> 0 then ''enabled'' else ''disabled'')"

definition panic_setting :: "scb \<Rightarrow> string list" where
  "panic_setting r =
     [''[panic_setting]:'' @ [nl],
      [tb] @ '' ccr - configuration and control register'' @ [nl],
      [tb, tb] @ ''bp - branch prediction '' @ CCR_BIT_TO_STR r SCB_CCR_BP_Msk @ [nl],
      [tb, tb] @ ''ic - l1 instruction cache '' @ CCR_BIT_TO_STR r SCB_CCR_IC_Msk @ [nl],
      [tb, tb] @ ''dc - l1 data cache '' @ CCR_BIT_TO_STR r SCB_CCR_DC_Msk @ [nl],
      [tb, tb] @
         ''bfhfnmign - handlers running at priority -1 and -2 ignoring data bus faults caused by load and store instructions is '' @ CCR_BIT_TO_STR r SCB_CCR_BFHFNMIGN_Msk @ [nl],
      [tb, tb] @ ''div_0_trp - trap divide by 0 '' @ CCR_BIT_TO_STR r SCB_CCR_DIV_0_TRP_Msk @ [nl],
      [tb, tb] @ ''unalign_trp - trap unaligned halfword and word accesses '' @ CCR_BIT_TO_STR r SCB_CCR_UNALIGN_TRP_Msk @ [nl],
      [tb, tb] @ ''usersetmpend - unprivileged software access to the stir '' @ CCR_BIT_TO_STR r SCB_CCR_USERSETMPEND_Msk @ [nl],
      [tb, tb] @ ''nonbasethrdena - '' @
        (if SCB_CCR r AND SCB_CCR_NONBASETHRDENA_Msk \<noteq> 0
         then ''processor can enter thread mode from any level under the control of an exc_return value'' @ [nl]
         else ''processor can enter thread mode only when no exception is active'' @ [nl]) @ [nl]]"

text \<open>\<open>if (register & mask) printf(...);\<close> for each line of a table.\<close>

definition report_bits :: "u32 \<Rightarrow> (u32 \<times> string) list \<Rightarrow> string list" where
  "report_bits v tab = concat (map (\<lambda>(m, t). if v AND m \<noteq> 0 then [t] else []) tab)"

definition ufsr_table :: "(u32 \<times> string) list" where
  "ufsr_table =
     [(SCB_CFSR_DIVBYZERO_Msk, [tb, tb] @
         ''divbyzero - a divide instruction was executed where the denominator was zero'' @
         [nl, tb, tb, tb] @
         ''the pc value stacked for the exception return points to the instruction that performed the divide by zero'' @
         [nl]),
      (SCB_CFSR_UNALIGNED_Msk, [tb, tb] @
         ''unaligned - an unaligned access operation occurred'' @
         [nl, tb, tb, tb] @
         ''enable trapping of unaligned accesses by setting the unalign_trp bit in the ccr'' @
         [nl, tb, tb, tb] @
         ''unaligned ldm, stm, ldrd, and strd instructions always fault irrespective of the setting of the unalign_trp bit'' @
         [nl]),
      (SCB_CFSR_NOCP_Msk, [tb, tb] @
         ''nocp - coprocessor instruction was issued but the coprocessor was disabled or not present'' @
         [nl]),
      (SCB_CFSR_INVPC_Msk, [tb, tb] @
         ''invpc - load an illegal exc_return value to the pc as a result of an invalid context switch'' @
         [nl, tb, tb, tb] @
         ''the pc value stacked for the exception return points to the instruction'' @
         [nl, tb, tb, tb] @
         ''a. invalid return due to corrupted stack pointer, link register (lr), or stack content'' @
         [nl, tb, tb, tb] @
         ''b. ici/it bit in psr invalid for an instruction'' @
         [nl]),
      (SCB_CFSR_INVSTATE_Msk, [tb, tb] @
         ''invstate - execute an instruction make illegal use of the execution program status register (epsr)'' @
         [nl, tb, tb, tb] @
         ''the pc value stacked for the exception return points to the instruction'' @
         [nl, tb, tb, tb] @
         ''loading a branch target address to pc with lsb=0'' @
         [nl, tb, tb, tb] @
         ''stacked psr corrupted during exception or interrupt handling'' @
         [nl, tb, tb, tb] @
         ''vector table contains a vector address with lsb=0'' @
         [nl]),
      (SCB_CFSR_UNDEFINSTR_Msk, [tb, tb] @
         ''undefinstr - an undefined instruction was executed'' @
         [nl, tb, tb, tb] @
         ''the pc value stacked for the exception return points to the undefined instruction'' @
         [nl, tb, tb, tb] @
         ''a. use of instructions not supported in the device'' @
         [nl, tb, tb, tb] @
         ''b. bad or corrupted memory contents'' @
         [nl])]"

definition bfsr_table1 :: "(u32 \<times> string) list" where
  "bfsr_table1 =
     [(SCB_CFSR_LSPERR_Msk, [tb, tb] @ ''lsperr - a bus fault occurred during floating-point lazy state preservation'' @ [nl]),
      (SCB_CFSR_STKERR_Msk, [tb, tb] @
         ''stkerr - a bus fault occurred during exception entry'' @
         [nl, tb, tb, tb] @
         ''the sp is adjusted but the values in the context area on the stack might be incorrect'' @
         [nl, tb, tb, tb] @
         ''the processor does not write a fault address to the bfar'' @
         [nl, tb, tb, tb] @
         ''a. stack pointer is corrupted or not initialized'' @
         [nl, tb, tb, tb] @
         ''b. stack is reaching an undefined memory region'' @
         [nl]),
      (SCB_CFSR_UNSTKERR_Msk, [tb, tb] @
         ''unstkerr - a bus fault occurred trying to return from an exception'' @
         [nl, tb, tb, tb] @
         ''the original return stack is still present'' @
         [nl, tb, tb, tb] @
         ''the processor does not adjust the sp from the failing return'' @
         [nl, tb, tb, tb] @
         ''the processor does not performed a new save'' @
         [nl, tb, tb, tb] @
         ''the processor does not write a fault address to bfar'' @
         [nl])]"

definition bfsr_table2 :: "(u32 \<times> string) list" where
  "bfsr_table2 =
     [(SCB_CFSR_PRECISERR_Msk, [tb, tb] @
         ''preciserr - a data bus error has occurred'' @
         [nl, tb, tb, tb] @
         ''pc value stacked to bfar for the exception return points to the instruction that caused the fault'' @
         [nl]),
      (SCB_CFSR_IBUSERR_Msk, [tb, tb] @
         ''ibuserr - a busfault on an instruction prefetch has occurred'' @
         [nl, tb, tb, tb] @
         ''processor does not write a fault address to bfar'' @
         [nl, tb, tb, tb] @
         ''a. branch to invalid memory regions for example caused by incorrect function pointers'' @
         [nl, tb, tb, tb] @
         ''b. invalid return due to corrupted stack pointer or stack content'' @
         [nl, tb, tb, tb] @
         ''c. incorrect entry in the exception vector table'' @
         [nl])]"

definition abfsr_table :: "(u32 \<times> string) list" where
  "abfsr_table =
     [(SCB_ABFSR_EPPB_Msk, [tb, tb, tb, tb] @ ''asynchronous fault on eppb interface'' @ [nl]),
      (SCB_ABFSR_AHBP_Msk, [tb, tb, tb, tb] @ ''asynchronous fault on ahbp interface'' @ [nl]),
      (SCB_ABFSR_DTCM_Msk, [tb, tb, tb, tb] @ ''asynchronous fault on dtcm interface'' @ [nl]),
      (SCB_ABFSR_ITCM_Msk, [tb, tb, tb, tb] @ ''asynchronous fault on itcm interface'' @ [nl])]"

definition mmfsr_table :: "(u32 \<times> string) list" where
  "mmfsr_table =
     [(SCB_CFSR_MLSPERR_Msk, [tb, tb] @ ''mlsperr - a memmanage fault occurred during floating-point lazy state preservation'' @ [nl]),
      (SCB_CFSR_MSTKERR_Msk, [tb, tb] @
         ''mstkerr - a memmanage fault occurred during exception entry'' @
         [nl, tb, tb, tb] @
         ''a. stack pointer is corrupted or not initialized'' @
         [nl, tb, tb, tb] @
         ''b. stack is reaching a region not defined by the mpu as read/write memory'' @
         [nl]),
      (SCB_CFSR_MUNSTKERR_Msk, [tb, tb] @
         ''munstkerr - a memmanage fault occurred trying to return from an exception'' @
         [nl, tb, tb, tb] @
         ''a. stack pointer is corrupted'' @
         [nl, tb, tb, tb] @
         ''b. mpu region for the stack changed during execution of the exception handler'' @
         [nl]),
      (SCB_CFSR_DACCVIOL_Msk, [tb, tb] @
         ''daccviol - a load or store at a location that does not permit the operation'' @
         [nl, tb, tb, tb] @
         ''the processor has loaded the mmfar with the address of the attempted access'' @
         [nl, tb, tb, tb] @
         ''the pc value stacked for the exception return points to the faulting instruction'' @
         [nl]),
      (SCB_CFSR_IACCVIOL_Msk, [tb, tb] @
         ''iavccviol - execute an instruction triggered an mpu execute never (xn) fault even when the mpu is disabled or not present'' @
         [nl, tb, tb, tb] @
         ''the pc value stacked for the exception return points to the faulting instruction'' @
         [nl, tb, tb, tb] @
         ''the processor has not written a fault address to the mmfar'' @
         [nl, tb, tb, tb] @
         ''a. branch to regions that are not defined in the mpu or defined as non-executable'' @
         [nl, tb, tb, tb] @
         ''b. invalid return due to corrupted stack content'' @
         [nl, tb, tb, tb] @
         ''c. Incorrect entry in the exception vector table'' @
         [nl])]"

definition hfsr_table :: "(u32 \<times> string) list" where
  "hfsr_table =
     [(SCB_HFSR_DEBUGEVT_Msk, [tb, tb] @ ''debugevt - a debug event occurred while the debug subsystem was not enabled'' @ [nl]),
      (SCB_HFSR_FORCED_Msk, [tb, tb] @
         ''forced - a configurable fault was escalated to a hardfault'' @
         [nl, tb, tb, tb] @
         ''must read the other fault status registers to find the cause of the fault'' @
         [nl]),
      (SCB_HFSR_VECTTBL_Msk, [tb, tb] @
         ''vecttbl - a fault occurred because of an issue reading from an address in the vector table'' @
         [nl, tb, tb, tb] @
         ''the pc value stacked for the exception return points to the instruction that was preempted by the exception'' @
         [nl])]"

definition bfarvalid_text :: string where
  "bfarvalid_text = [tb, tb] @
         ''bfarvalid - bus fault address register (bfar) holds the address which triggered the fault'' @
         [nl]"

definition impreciserr_text :: string where
  "impreciserr_text = [tb, tb] @
         ''impreciserr - a data bus error has occurred'' @
         [nl, tb, tb, tb] @
         ''the return address in the stack frame is not related to the instruction that caused the error'' @
         [nl, tb, tb, tb] @
         ''bfar is not touched by this fault'' @
         [nl]"

definition mmarvalid_text :: string where
  "mmarvalid_text = [tb, tb] @
         ''mmarvalid - memmanage fault address register (mmfar) holds the address which triggered the memmanage fault'' @
         [nl]"

text \<open>\<open>%lx\<close> of a field of two bits is one digit.\<close>

definition report_abfsr :: "scb \<Rightarrow> string list" where
  "report_abfsr r =
     (let v = SCB_ABFSR r
      in if v = 0 then []
         else [[tb, tb, tb] @ ''abfsr - auxiliary bus fault status register'' @ [nl]] @
           (if v AND SCB_ABFSR_AXIM_Msk \<noteq> 0
            then [[tb, tb, tb, tb] @ ''asynchronous fault on axim interface'' @ [nl],
                  [tb, tb, tb, tb] @ ''aximtype='' @
                  [hex_digit (unat (drop_bit 8 (v AND SCB_ABFSR_AXIMTYPE_Msk)))] @
                  '' 0 - okay; 1 - exokay; 2 - slverr; 3 - decerr'' @ [nl]]
            else []) @
           report_bits v abfsr_table)"

definition report_ufsr :: "scb \<Rightarrow> string list" where
  "report_ufsr r =
     (if SCB_CFSR r AND 0xFFFF0000 = 0 then []
      else [[tb] @ ''ufsr - usagefault status register'' @ [nl]] @ report_bits (SCB_CFSR r) ufsr_table)"

definition report_bfsr :: "scb \<Rightarrow> string list" where
  "report_bfsr r =
     (let v = SCB_CFSR r
      in if v AND 0x0000FF00 = 0 then []
         else [[tb] @ ''bfsr - busfault status register'' @ [nl]] @
           (if v AND SCB_CFSR_BFARVALID_Msk \<noteq> 0
            then [bfarvalid_text,
                  [tb, tb, tb] @ ''bfar = '' @ hex8 (SCB_BFAR r)]
            else []) @
           report_bits v bfsr_table1 @
           (if v AND SCB_CFSR_IMPRECISERR_Msk \<noteq> 0
            then [impreciserr_text] @
                 report_abfsr r
            else []) @
           report_bits v bfsr_table2)"

definition report_mmfsr :: "scb \<Rightarrow> string list" where
  "report_mmfsr r =
     (let v = SCB_CFSR r
      in if v AND 0x000000FF = 0 then []
         else [[tb] @ ''mmfsr - memmanage fault status register'' @ [nl]] @
           (if v AND SCB_CFSR_MMARVALID_Msk \<noteq> 0
            then [mmarvalid_text,
                  [tb, tb, tb] @ ''mmfar = '' @ hex8 (SCB_MMFAR r) @ [nl]]
            else []) @
           report_bits v mmfsr_table)"

definition report_hfsr :: "scb \<Rightarrow> string list" where
  "report_hfsr r =
     (if SCB_HFSR r AND 0xC0000002 = 0 then []
      else [[tb] @ ''hfsr - hardfault status register'' @ [nl]] @ report_bits (SCB_HFSR r) hfsr_table)"

definition status_text :: string where
  "status_text = ''[panic_status]:'' @ [nl]"

text \<open>What \<open>print_panic\<close> prints before it loops for ever.\<close>

definition print_panic :: "(u32 \<Rightarrow> u32) \<Rightarrow> scb \<Rightarrow> u32 \<Rightarrow> string list" where
  "print_panic mem r args =
     panic_stack mem args @ panic_setting r @ [status_text] @
     report_ufsr r @ report_bfsr r @ report_mmfsr r @ report_hfsr r"

section \<open>Handlers\<close>

datatype exception = NMI | HardFault | MemManage | BusFault | UsageFault | SVC | DebugMon | PendSV | SysTick

text \<open>
  What a handler does: it returns, having printed nothing, it returns after one tick, or it prints
  its report and never returns.  Bit 2 of the return code in \<open>lr\<close> selects the stack pointer.
\<close>

datatype outcome = Returns | Ticks | Stops "string list"

fun exception_handler :: "(u32 \<Rightarrow> u32) \<Rightarrow> scb \<Rightarrow> u32 \<Rightarrow> u32 \<Rightarrow> u32 \<Rightarrow> exception \<Rightarrow> outcome" where
  "exception_handler mem r lr msp psp HardFault = Stops (print_panic mem r (if lr AND 4 = 0 then msp else psp))"
| "exception_handler mem r lr msp psp BusFault = Stops (print_panic mem r (if lr AND 4 = 0 then msp else psp))"
| "exception_handler mem r lr msp psp UsageFault = Stops (print_panic mem r (if lr AND 4 = 0 then msp else psp))"
| "exception_handler mem r lr msp psp NMI = Stops []"
| "exception_handler mem r lr msp psp MemManage = Stops []"
| "exception_handler mem r lr msp psp SysTick = Ticks"
| "exception_handler mem r lr msp psp SVC = Returns"
| "exception_handler mem r lr msp psp DebugMon = Returns"
| "exception_handler mem r lr msp psp PendSV = Returns"

section \<open>The report names the faults\<close>

text \<open>
  The bits of the configurable fault status register and of the hard fault status register, as the
  architecture numbers them, with the names the report uses.
\<close>

definition cfsr_names :: "(nat \<times> string) list" where
  "cfsr_names =
     [(0, ''iavccviol''), (1, ''daccviol''), (3, ''munstkerr''), (4, ''mstkerr''), (5, ''mlsperr''), (7, ''mmarvalid''),
      (8, ''ibuserr''), (9, ''preciserr''), (10, ''impreciserr''), (11, ''unstkerr''), (12, ''stkerr''), (13, ''lsperr''),
      (15, ''bfarvalid''), (16, ''undefinstr''), (17, ''invstate''), (18, ''invpc''), (19, ''nocp''),
      (24, ''unaligned''), (25, ''divbyzero'')]"

definition hfsr_names :: "(nat \<times> string) list" where
  "hfsr_names = [(1, ''vecttbl''), (30, ''forced''), (31, ''debugevt'')]"

definition headed :: "string \<Rightarrow> string \<Rightarrow> bool" where
  "headed n t \<longleftrightarrow> take (length n + 5) t = [tb, tb] @ n @ '' - ''"

lemma report_bits_set: "t \<in> set (report_bits v tab) \<longleftrightarrow> (\<exists>m. (m, t) \<in> set tab \<and> v AND m \<noteq> 0)"
  by (auto simp: report_bits_def split: if_splits)

definition masks_for :: "string \<Rightarrow> (u32 \<times> string) list \<Rightarrow> u32 list" where
  "masks_for n tab = map fst (filter (\<lambda>(m, t). headed n t) tab)"

lemma report_bits_headed:
  "(\<exists>t \<in> set (report_bits v tab). headed n t) \<longleftrightarrow> (\<exists>m \<in> set (masks_for n tab). v AND m \<noteq> 0)"
  by (force simp: report_bits_set masks_for_def)

lemma headed_third: "headed n (tb # tb # c # t) \<Longrightarrow> n \<noteq> [] \<Longrightarrow> hd n = c"
  by (cases n) (auto simp: headed_def numeral_eq_Suc)

lemma headed_second: "headed n (tb # c # t) \<Longrightarrow> c = tb"
  by (simp add: headed_def numeral_eq_Suc)

lemma headed_first: "headed n (c # t) \<Longrightarrow> c = tb"
  by (simp add: headed_def numeral_eq_Suc)

text \<open>Names and tables, checked by computation.\<close>

definition all_names :: "string list" where
  "all_names = map snd cfsr_names @ map snd hfsr_names"

lemma names_start: "n \<in> set all_names \<Longrightarrow> n \<noteq> [] \<and> hd n \<noteq> tb"
proof -
  have "list_all (\<lambda>n. n \<noteq> [] \<and> hd n \<noteq> tb) all_names" by code_simp
  then show "n \<in> set all_names \<Longrightarrow> n \<noteq> [] \<and> hd n \<noteq> tb" by (simp add: list_all_iff)
qed

lemma names_apart:
  "list_all (\<lambda>(k, n). (n = ''mmarvalid'') = (k = 7) \<and> (n = ''bfarvalid'') = (k = 15) \<and> (n = ''impreciserr'') = (k = 10)) cfsr_names"
  "list_all (\<lambda>(k, n). n \<noteq> ''mmarvalid'' \<and> n \<noteq> ''bfarvalid'' \<and> n \<noteq> ''impreciserr'') hfsr_names"
  by code_simp+

definition cfsr_table :: "(u32 \<times> string) list" where
  "cfsr_table = ufsr_table @ bfsr_table1 @ bfsr_table2 @ mmfsr_table"

lemma cfsr_masks:
  "list_all (\<lambda>(k, n). masks_for n cfsr_table = (if k \<in> {7, 10, 15} then [] else [2 ^ k])) cfsr_names"
  "list_all (\<lambda>(k, n). masks_for n hfsr_table = []) cfsr_names"
  by code_simp+

lemma hfsr_masks:
  "list_all (\<lambda>(k, n). masks_for n hfsr_table = [2 ^ k]) hfsr_names"
  "list_all (\<lambda>(k, n). masks_for n cfsr_table = []) hfsr_names"
  by code_simp+

lemma inline_headed:
  "list_all (\<lambda>n. headed n bfarvalid_text = (n = ''bfarvalid'') \<and> headed n impreciserr_text = (n = ''impreciserr'') \<and>
     headed n mmarvalid_text = (n = ''mmarvalid'')) all_names"
  by code_simp

lemma setting_not_headed: "n \<in> set all_names \<Longrightarrow> t \<in> set (panic_setting r) \<Longrightarrow> \<not> headed n t"
  by (auto simp: all_names_def cfsr_names_def hfsr_names_def panic_setting_def headed_def)

lemma guard_masks:
  assumes "v AND g = (0 :: u32)" "m AND g = m"
  shows "v AND m = 0"
proof -
  have "v AND m = (v AND g) AND m" using assms(2) by (metis and.assoc and.commute)
  then show ?thesis using assms(1) by simp
qed

lemma masks_in_group:
  "list_all (\<lambda>(m, t). m AND 0xFFFF0000 = m) ufsr_table" "list_all (\<lambda>(m, t). m AND 0xFF00 = m) (bfsr_table1 @ bfsr_table2)"
  "list_all (\<lambda>(m, t). m AND 0xFF = m) mmfsr_table" "list_all (\<lambda>(m, t). m AND 0xC0000002 = m) hfsr_table"
  by (simp_all add: ufsr_table_def bfsr_table1_def bfsr_table2_def mmfsr_table_def hfsr_table_def hal_consts)

lemma report_bits_guard:
  assumes "list_all (\<lambda>(m, t). m AND g = m) tab" "v AND g = 0"
  shows "report_bits v tab = []"
proof -
  have "v AND m = 0" if "(m, t) \<in> set tab" for m t
    using that assms(1) by (intro guard_masks [OF assms(2)]) (auto simp: list_all_iff)
  then show ?thesis by (auto simp: report_bits_def)
qed

lemma masks_for_append [simp]: "masks_for n (a @ b) = masks_for n a @ masks_for n b"
  by (simp add: masks_for_def)

text \<open>A line that starts with one tabulator, or with three, is headed by no name.\<close>

lemma title_not_headed: "c \<noteq> tb \<Longrightarrow> \<not> headed n ([tb] @ c # t)"
  using headed_second by fastforce

lemma deep_not_headed: "n \<in> set all_names \<Longrightarrow> \<not> headed n ([tb, tb, tb] @ t)"
  using headed_third names_start by fastforce

lemma abfsr_not_headed: "n \<in> set all_names \<Longrightarrow> t \<in> set (report_abfsr r) \<Longrightarrow> \<not> headed n t"
  using deep_not_headed [of n]
  by (auto simp: report_abfsr_def Let_def report_bits_set abfsr_table_def split: if_splits)

lemma not_headed_second: "c \<noteq> tb \<Longrightarrow> \<not> headed n (tb # c # t)"
  using headed_second by blast

lemma ufsr_headed:
  "(\<exists>t \<in> set (report_ufsr r). headed n t) \<longleftrightarrow> (\<exists>m \<in> set (masks_for n ufsr_table). SCB_CFSR r AND m \<noteq> 0)"
proof (cases "SCB_CFSR r AND 0xFFFF0000 = 0")
  case True
  then show ?thesis
    using report_bits_guard [OF masks_in_group(1) True] by (simp add: report_ufsr_def report_bits_headed [symmetric])
next
  case False
  have "headed n (tb # CHR ''u'' # x) = False" for x by (simp add: not_headed_second)
  then show ?thesis using False by (simp add: report_ufsr_def report_bits_headed [symmetric])
qed

lemma hfsr_headed:
  "(\<exists>t \<in> set (report_hfsr r). headed n t) \<longleftrightarrow> (\<exists>m \<in> set (masks_for n hfsr_table). SCB_HFSR r AND m \<noteq> 0)"
proof (cases "SCB_HFSR r AND 0xC0000002 = 0")
  case True
  then show ?thesis
    using report_bits_guard [OF masks_in_group(4) True] by (simp add: report_hfsr_def report_bits_headed [symmetric])
next
  case False
  have "headed n (tb # CHR ''h'' # x) = False" for x by (simp add: not_headed_second)
  then show ?thesis using False by (simp add: report_hfsr_def report_bits_headed [symmetric])
qed

lemma stack_not_headed: "t \<in> set (panic_stack mem args) \<Longrightarrow> \<not> headed n t"
  by (auto simp: panic_stack_def Let_def dest: headed_first headed_second)

lemma mmfsr_headed:
  assumes "n \<in> set all_names"
  shows "(\<exists>t \<in> set (report_mmfsr r). headed n t) \<longleftrightarrow>
    (\<exists>m \<in> set (masks_for n mmfsr_table). SCB_CFSR r AND m \<noteq> 0) \<or> n = ''mmarvalid'' \<and> SCB_CFSR r AND SCB_CFSR_MMARVALID_Msk \<noteq> 0"
proof -
  have t: "headed n mmarvalid_text = (n = ''mmarvalid'')" using inline_headed assms by (simp add: list_all_iff)
  show ?thesis
  proof (cases "SCB_CFSR r AND 0xFF = 0")
    case True
    then have "SCB_CFSR r AND SCB_CFSR_MMARVALID_Msk = 0" by (rule guard_masks) (simp add: hal_consts)
    then show ?thesis
      using True report_bits_guard [OF masks_in_group(3) True] by (simp add: report_mmfsr_def report_bits_headed [symmetric])
  next
    case False
    have b: "headed n (tb # CHR ''m'' # x) = False" "headed n (tb # tb # tb # x) = False" for x
      using not_headed_second deep_not_headed [OF assms] by simp_all
    show ?thesis
      using False by (simp add: report_mmfsr_def Let_def report_bits_headed [symmetric] bex_Un ex_disj_distrib conj_disj_distribR t b) blast
  qed
qed

lemma bfsr_headed:
  assumes "n \<in> set all_names"
  shows "(\<exists>t \<in> set (report_bfsr r). headed n t) \<longleftrightarrow>
    (\<exists>m \<in> set (masks_for n (bfsr_table1 @ bfsr_table2)). SCB_CFSR r AND m \<noteq> 0) \<or>
    n = ''bfarvalid'' \<and> SCB_CFSR r AND SCB_CFSR_BFARVALID_Msk \<noteq> 0 \<or>
    n = ''impreciserr'' \<and> SCB_CFSR r AND SCB_CFSR_IMPRECISERR_Msk \<noteq> 0"
proof -
  have t: "headed n bfarvalid_text = (n = ''bfarvalid'')" "headed n impreciserr_text = (n = ''impreciserr'')"
    using inline_headed assms by (simp_all add: list_all_iff)
  have h: "(\<exists>m \<in> set (masks_for n (bfsr_table1 @ bfsr_table2)). SCB_CFSR r AND m \<noteq> 0) \<longleftrightarrow>
      (\<exists>t \<in> set (report_bits (SCB_CFSR r) bfsr_table1). headed n t) \<or>
      (\<exists>t \<in> set (report_bits (SCB_CFSR r) bfsr_table2). headed n t)"
    by (auto simp: report_bits_headed)
  show ?thesis
  proof (cases "SCB_CFSR r AND 0xFF00 = 0")
    case True
    then have "SCB_CFSR r AND SCB_CFSR_BFARVALID_Msk = 0" "SCB_CFSR r AND SCB_CFSR_IMPRECISERR_Msk = 0"
      by (rule guard_masks, simp add: hal_consts)+
    moreover have "report_bits (SCB_CFSR r) (bfsr_table1 @ bfsr_table2) = []"
      using report_bits_guard [OF masks_in_group(2) True] .
    ultimately show ?thesis
      using True unfolding h by (simp add: report_bfsr_def report_bits_def)
  next
    case False
    have b: "headed n (tb # CHR ''b'' # x) = False" "headed n (tb # tb # tb # x) = False" for x
      using not_headed_second deep_not_headed [OF assms] by simp_all
    show ?thesis
      using False unfolding h
      by (auto simp: report_bfsr_def Let_def bex_Un ex_disj_distrib conj_disj_distribR t b dest: abfsr_not_headed [OF assms])
  qed
qed

text \<open>
  C34.  The report of a panic names exactly the faults that are flagged.  For every flag of the
  configurable fault status register and of the hard fault status register that the architecture
  defines, a line headed by its name is printed if and only if the flag is set.
\<close>

theorem panic_names_faults:
  "((k, n) \<in> set cfsr_names \<longrightarrow> (\<exists>t \<in> set (print_panic mem r args). headed n t) = bit (SCB_CFSR r) k) \<and>
   ((k, n) \<in> set hfsr_names \<longrightarrow> (\<exists>t \<in> set (print_panic mem r args). headed n t) = bit (SCB_HFSR r) k)"
proof -
  have other: "(\<exists>t \<in> set (print_panic mem r args). headed n t) \<longleftrightarrow>
      (\<exists>m \<in> set (masks_for n cfsr_table). SCB_CFSR r AND m \<noteq> 0) \<or> (\<exists>m \<in> set (masks_for n hfsr_table). SCB_HFSR r AND m \<noteq> 0) \<or>
      n = ''mmarvalid'' \<and> SCB_CFSR r AND SCB_CFSR_MMARVALID_Msk \<noteq> 0 \<or> n = ''bfarvalid'' \<and> SCB_CFSR r AND SCB_CFSR_BFARVALID_Msk \<noteq> 0 \<or>
      n = ''impreciserr'' \<and> SCB_CFSR r AND SCB_CFSR_IMPRECISERR_Msk \<noteq> 0" if n: "n \<in> set all_names"
  proof -
    have "headed n status_text = False" using headed_first by (fastforce simp: status_text_def)
    moreover have "(\<exists>t \<in> set (panic_stack mem args). headed n t) = False" "(\<exists>t \<in> set (panic_setting r). headed n t) = False"
      using stack_not_headed setting_not_headed [OF n] by blast+
    ultimately have "(\<exists>t \<in> set (print_panic mem r args). headed n t) \<longleftrightarrow>
        (\<exists>t \<in> set (report_ufsr r). headed n t) \<or> (\<exists>t \<in> set (report_bfsr r). headed n t) \<or>
        (\<exists>t \<in> set (report_mmfsr r). headed n t) \<or> (\<exists>t \<in> set (report_hfsr r). headed n t)"
      by (simp add: print_panic_def bex_Un)
    then show ?thesis
      unfolding ufsr_headed bfsr_headed [OF n] mmfsr_headed [OF n] hfsr_headed cfsr_table_def masks_for_append
        set_append bex_Un by blast
  qed
  have masks: "SCB_CFSR_MMARVALID_Msk = 2 ^ 7" "SCB_CFSR_BFARVALID_Msk = 2 ^ 15" "SCB_CFSR_IMPRECISERR_Msk = 2 ^ 10"
    by (simp_all add: hal_consts)
  show ?thesis
  proof (intro conjI impI)
    assume k: "(k, n) \<in> set cfsr_names"
    then have n: "n \<in> set all_names" by (force simp: all_names_def)
    have m: "masks_for n cfsr_table = (if k \<in> {7, 10, 15} then [] else [2 ^ k])" "masks_for n hfsr_table = []"
      using cfsr_masks [unfolded list_all_iff, THEN bspec, OF k] by (simp_all only: split_conv)
    note na = names_apart(1) [unfolded list_all_iff, THEN bspec, OF k, unfolded split_conv]
    show "(\<exists>t \<in> set (print_panic mem r args). headed n t) = bit (SCB_CFSR r) k"
      unfolding other [OF n] m masks conjunct1 [OF na] conjunct1 [OF conjunct2 [OF na]] conjunct2 [OF conjunct2 [OF na]]
        and_exp_eq_0_iff_not_bit
      by (cases "k \<in> {7, 10, 15}") (auto simp: and_exp_eq_0_iff_not_bit)
  next
    assume k: "(k, n) \<in> set hfsr_names"
    then have n: "n \<in> set all_names" by (force simp: all_names_def)
    have m: "masks_for n hfsr_table = [2 ^ k]" "masks_for n cfsr_table = []"
      using hfsr_masks [unfolded list_all_iff, THEN bspec, OF k] by (simp_all only: split_conv)
    note na = names_apart(2) [unfolded list_all_iff, THEN bspec, OF k, unfolded split_conv]
    show "(\<exists>t \<in> set (print_panic mem r args). headed n t) = bit (SCB_HFSR r) k"
      unfolding other [OF n] m
      using conjunct1 [OF na] conjunct1 [OF conjunct2 [OF na]] conjunct2 [OF conjunct2 [OF na]]
      by (simp only: list.set bex_simps simp_thms and_exp_eq_0_iff_not_bit not_not)
  qed
qed

lemma panic_names_faults_witness:
  "\<exists>t \<in> set (print_panic (\<lambda>_. 0)
     \<lparr>SCB_CCR = 0, SCB_CFSR = 0x02000000, SCB_HFSR = 0, SCB_ABFSR = 0, SCB_MMFAR = 0, SCB_BFAR = 0\<rparr> 0x20000000).
     headed ''divbyzero'' t"
proof -
  have "(25, ''divbyzero'') \<in> set cfsr_names" by (simp add: cfsr_names_def)
  then show ?thesis
    using panic_names_faults [of 25 "''divbyzero''" "\<lambda>_. 0"
        "\<lparr>SCB_CCR = 0, SCB_CFSR = 0x02000000, SCB_HFSR = 0, SCB_ABFSR = 0, SCB_MMFAR = 0, SCB_BFAR = 0\<rparr>" "0x20000000"]
    by (simp add: bit_numeral_rec)
qed

end

