(* ===== verification/Mpu.thy ===== *)
theory Mpu
  imports Bsp_debug Bsp_sdram
begin

text \<open>
  The memory protection unit: the operations of hal/stm32h7xx_hal_cortex.c, what the registers they
  write mean for an address, and the regions that bsp/bsp.c configures.
\<close>

section \<open>Constants\<close>

definition MPU_REGION_ENABLE :: u8 where
  [hal_consts]: "MPU_REGION_ENABLE = 0x1"

definition MPU_REGION_DISABLE :: u8 where
  [hal_consts]: "MPU_REGION_DISABLE = 0x0"

definition MPU_REGION_NUMBER0 :: u8 where
  [hal_consts]: "MPU_REGION_NUMBER0 = 0x0"

definition MPU_REGION_NUMBER1 :: u8 where
  [hal_consts]: "MPU_REGION_NUMBER1 = 0x1"

definition MPU_REGION_SIZE_512KB :: u8 where
  [hal_consts]: "MPU_REGION_SIZE_512KB = 0x12"

definition MPU_REGION_SIZE_32MB :: u8 where
  [hal_consts]: "MPU_REGION_SIZE_32MB = 0x18"

definition MPU_REGION_SIZE_32B :: u8 where
  [hal_consts]: "MPU_REGION_SIZE_32B = 0x4"

definition MPU_REGION_SIZE_4GB :: u8 where
  [hal_consts]: "MPU_REGION_SIZE_4GB = 0x1f"

definition MPU_TEX_LEVEL0 :: u8 where
  [hal_consts]: "MPU_TEX_LEVEL0 = 0x0"

definition MPU_TEX_LEVEL1 :: u8 where
  [hal_consts]: "MPU_TEX_LEVEL1 = 0x1"

definition MPU_TEX_LEVEL2 :: u8 where
  [hal_consts]: "MPU_TEX_LEVEL2 = 0x2"

definition MPU_REGION_NO_ACCESS :: u8 where
  [hal_consts]: "MPU_REGION_NO_ACCESS = 0x0"

definition MPU_REGION_PRIV_RW :: u8 where
  [hal_consts]: "MPU_REGION_PRIV_RW = 0x1"

definition MPU_REGION_PRIV_RW_URO :: u8 where
  [hal_consts]: "MPU_REGION_PRIV_RW_URO = 0x2"

definition MPU_REGION_FULL_ACCESS :: u8 where
  [hal_consts]: "MPU_REGION_FULL_ACCESS = 0x3"

definition MPU_REGION_PRIV_RO :: u8 where
  [hal_consts]: "MPU_REGION_PRIV_RO = 0x5"

definition MPU_REGION_PRIV_RO_URO :: u8 where
  [hal_consts]: "MPU_REGION_PRIV_RO_URO = 0x6"

definition MPU_INSTRUCTION_ACCESS_ENABLE :: u8 where
  [hal_consts]: "MPU_INSTRUCTION_ACCESS_ENABLE = 0x0"

definition MPU_INSTRUCTION_ACCESS_DISABLE :: u8 where
  [hal_consts]: "MPU_INSTRUCTION_ACCESS_DISABLE = 0x1"

definition MPU_ACCESS_SHAREABLE :: u8 where
  [hal_consts]: "MPU_ACCESS_SHAREABLE = 0x1"

definition MPU_ACCESS_NOT_SHAREABLE :: u8 where
  [hal_consts]: "MPU_ACCESS_NOT_SHAREABLE = 0x0"

definition MPU_ACCESS_CACHEABLE :: u8 where
  [hal_consts]: "MPU_ACCESS_CACHEABLE = 0x1"

definition MPU_ACCESS_NOT_CACHEABLE :: u8 where
  [hal_consts]: "MPU_ACCESS_NOT_CACHEABLE = 0x0"

definition MPU_ACCESS_BUFFERABLE :: u8 where
  [hal_consts]: "MPU_ACCESS_BUFFERABLE = 0x1"

definition MPU_ACCESS_NOT_BUFFERABLE :: u8 where
  [hal_consts]: "MPU_ACCESS_NOT_BUFFERABLE = 0x0"

definition MPU_PRIVILEGED_DEFAULT :: u32 where
  [hal_consts]: "MPU_PRIVILEGED_DEFAULT = 0x4"

definition MPU_CTRL_ENABLE_Msk :: u32 where
  [hal_consts]: "MPU_CTRL_ENABLE_Msk = 0x1"

definition MPU_BASE :: u32 where
  [hal_consts]: "MPU_BASE = 0xe000ed90"

definition MPU_RASR_XN_Pos :: nat where
  [hal_consts]: "MPU_RASR_XN_Pos = 0x1c"

definition MPU_RASR_AP_Pos :: nat where
  [hal_consts]: "MPU_RASR_AP_Pos = 0x18"

definition MPU_RASR_TEX_Pos :: nat where
  [hal_consts]: "MPU_RASR_TEX_Pos = 0x13"

definition MPU_RASR_S_Pos :: nat where
  [hal_consts]: "MPU_RASR_S_Pos = 0x12"

definition MPU_RASR_C_Pos :: nat where
  [hal_consts]: "MPU_RASR_C_Pos = 0x11"

definition MPU_RASR_B_Pos :: nat where
  [hal_consts]: "MPU_RASR_B_Pos = 0x10"

definition MPU_RASR_SRD_Pos :: nat where
  [hal_consts]: "MPU_RASR_SRD_Pos = 0x8"

definition MPU_RASR_SIZE_Pos :: nat where
  [hal_consts]: "MPU_RASR_SIZE_Pos = 0x1"

definition MPU_RASR_ENABLE_Pos :: nat where
  [hal_consts]: "MPU_RASR_ENABLE_Pos = 0x0"



text \<open>The registers, by their offsets.\<close>

definition MPU_CTRL :: u32 where "MPU_CTRL = MPU_BASE + 0x4"
definition MPU_RNR :: u32 where "MPU_RNR = MPU_BASE + 0x8"
definition MPU_RBAR :: u32 where "MPU_RBAR = MPU_BASE + 0xC"
definition MPU_RASR :: u32 where "MPU_RASR = MPU_BASE + 0x10"

section \<open>Operations\<close>

definition HAL_MPU_Disable :: "hal_env \<Rightarrow> log \<Rightarrow> log" where
  "HAL_MPU_Disable env l = CLEAR_BIT env SCB_SHCSR SCB_SHCSR_MEMFAULTENA_Msk l @ [Reg_write MPU_CTRL 0]"

definition HAL_MPU_Enable :: "hal_env \<Rightarrow> u32 \<Rightarrow> log \<Rightarrow> log" where
  "HAL_MPU_Enable env control l =
     SET_BIT env SCB_SHCSR SCB_SHCSR_MEMFAULTENA_Msk (l @ [Reg_write MPU_CTRL (control OR MPU_CTRL_ENABLE_Msk)])"

text \<open>\<open>IS_MPU_REGION_SIZE\<close> lists the sizes one by one, without a gap.\<close>

definition is_mpu_region_size :: "u8 \<Rightarrow> bool" where
  "is_mpu_region_size s \<longleftrightarrow> MPU_REGION_SIZE_32B \<le> s \<and> s \<le> MPU_REGION_SIZE_4GB"

definition mpu_region_asserts :: "mpu_region \<Rightarrow> bool" where
  "mpu_region_asserts i \<longleftrightarrow>
     mpu_disable_exec i \<in> {MPU_INSTRUCTION_ACCESS_ENABLE, MPU_INSTRUCTION_ACCESS_DISABLE} \<and>
     mpu_access_permission i \<in> {MPU_REGION_NO_ACCESS, MPU_REGION_PRIV_RW, MPU_REGION_PRIV_RW_URO,
       MPU_REGION_FULL_ACCESS, MPU_REGION_PRIV_RO, MPU_REGION_PRIV_RO_URO} \<and>
     mpu_type_ext_field i \<in> {MPU_TEX_LEVEL0, MPU_TEX_LEVEL1, MPU_TEX_LEVEL2} \<and>
     mpu_is_shareable i \<in> {MPU_ACCESS_SHAREABLE, MPU_ACCESS_NOT_SHAREABLE} \<and>
     mpu_is_cacheable i \<in> {MPU_ACCESS_CACHEABLE, MPU_ACCESS_NOT_CACHEABLE} \<and>
     mpu_is_bufferable i \<in> {MPU_ACCESS_BUFFERABLE, MPU_ACCESS_NOT_BUFFERABLE} \<and>
     mpu_sub_region_disable i < 0xFF \<and> is_mpu_region_size (mpu_size i)"

definition mpu_rasr :: "mpu_region \<Rightarrow> u32" where
  "mpu_rasr i =
     push_bit MPU_RASR_XN_Pos (ucast (mpu_disable_exec i)) OR
     push_bit MPU_RASR_AP_Pos (ucast (mpu_access_permission i)) OR
     push_bit MPU_RASR_TEX_Pos (ucast (mpu_type_ext_field i)) OR
     push_bit MPU_RASR_S_Pos (ucast (mpu_is_shareable i)) OR
     push_bit MPU_RASR_C_Pos (ucast (mpu_is_cacheable i)) OR
     push_bit MPU_RASR_B_Pos (ucast (mpu_is_bufferable i)) OR
     push_bit MPU_RASR_SRD_Pos (ucast (mpu_sub_region_disable i)) OR
     push_bit MPU_RASR_SIZE_Pos (ucast (mpu_size i)) OR
     push_bit MPU_RASR_ENABLE_Pos (ucast (mpu_enable i))"

definition HAL_MPU_ConfigRegion :: "mpu_region \<Rightarrow> log \<Rightarrow> log option" where
  "HAL_MPU_ConfigRegion i l =
     (if \<not> (mpu_number i \<le> 15 \<and> mpu_enable i \<in> {MPU_REGION_ENABLE, MPU_REGION_DISABLE}) then None
      else
        (let l1 = l @ [Reg_write MPU_RNR (ucast (mpu_number i))]
         in if mpu_enable i \<noteq> 0
            then (if mpu_region_asserts i
                  then Some (l1 @ [Reg_write MPU_RBAR (mpu_base_address i), Reg_write MPU_RASR (mpu_rasr i)])
                  else None)
            else Some (l1 @ [Reg_write MPU_RBAR 0, Reg_write MPU_RASR 0])))"

text \<open>The regions of the board: the internal SRAM of domain 1 and the external memory.\<close>

definition board_region0 :: mpu_region where
  "board_region0 =
     \<lparr>mpu_enable = MPU_REGION_ENABLE, mpu_number = MPU_REGION_NUMBER0, mpu_base_address = 0x24000000,
      mpu_size = MPU_REGION_SIZE_512KB, mpu_sub_region_disable = 0, mpu_type_ext_field = MPU_TEX_LEVEL1,
      mpu_access_permission = MPU_REGION_FULL_ACCESS, mpu_disable_exec = MPU_INSTRUCTION_ACCESS_ENABLE,
      mpu_is_shareable = MPU_ACCESS_NOT_SHAREABLE, mpu_is_cacheable = MPU_ACCESS_CACHEABLE,
      mpu_is_bufferable = MPU_ACCESS_BUFFERABLE\<rparr>"

definition board_region1 :: mpu_region where
  "board_region1 = board_region0
     \<lparr>mpu_number := MPU_REGION_NUMBER1, mpu_base_address := 0xC0000000, mpu_size := MPU_REGION_SIZE_32MB\<rparr>"

definition bsp_earlyinit_mpu :: "hal_env \<Rightarrow> log \<Rightarrow> log option" where
  "bsp_earlyinit_mpu env l = do {
     l1 \<leftarrow> HAL_MPU_ConfigRegion board_region0 (HAL_MPU_Disable env l);
     l2 \<leftarrow> HAL_MPU_ConfigRegion board_region1 l1;
     Some (HAL_MPU_Enable env MPU_PRIVILEGED_DEFAULT l2)
   }"

section \<open>What the registers mean\<close>

text \<open>
  The unit as the architecture describes it: the base and attribute registers are banked by the
  region number; a write of the base register with bit 4 set changes the region number too.
\<close>

record mpu_hw =
  mh_ctrl :: u32
  mh_rnr :: u32
  mh_rbar :: "u32 \<Rightarrow> u32"
  mh_rasr :: "u32 \<Rightarrow> u32"

fun mpu_write :: "event \<Rightarrow> mpu_hw \<Rightarrow> mpu_hw" where
  "mpu_write (Reg_write a v) h =
     (if a = MPU_CTRL then h\<lparr>mh_ctrl := v\<rparr>
      else if a = MPU_RNR then h\<lparr>mh_rnr := v\<rparr>
      else if a = MPU_RBAR then
        (let n = (if bit v 4 then take_bit 4 v else mh_rnr h)
         in h\<lparr>mh_rnr := n, mh_rbar := (mh_rbar h)(n := v)\<rparr>)
      else if a = MPU_RASR then h\<lparr>mh_rasr := (mh_rasr h)(mh_rnr h := v)\<rparr>
      else h)"
| "mpu_write _ h = h"

definition mpu_after :: "log \<Rightarrow> mpu_hw \<Rightarrow> mpu_hw" where
  "mpu_after l h = fold mpu_write l h"

text \<open>The fields of a region's registers.\<close>

definition mpu_decode :: "mpu_hw \<Rightarrow> u8 \<Rightarrow> mpu_region" where
  "mpu_decode h n =
     (let r = mh_rasr h (ucast n)
      in \<lparr>mpu_enable = ucast (take_bit 1 r), mpu_number = n, mpu_base_address = mh_rbar h (ucast n),
          mpu_size = ucast (take_bit 5 (drop_bit 1 r)), mpu_sub_region_disable = ucast (take_bit 8 (drop_bit 8 r)),
          mpu_type_ext_field = ucast (take_bit 3 (drop_bit 19 r)),
          mpu_access_permission = ucast (take_bit 3 (drop_bit 24 r)),
          mpu_disable_exec = ucast (take_bit 1 (drop_bit 28 r)),
          mpu_is_shareable = ucast (take_bit 1 (drop_bit 18 r)),
          mpu_is_cacheable = ucast (take_bit 1 (drop_bit 17 r)),
          mpu_is_bufferable = ucast (take_bit 1 (drop_bit 16 r))\<rparr>)"

text \<open>
  An address lies in an enabled region if it agrees with the base above the size of the region, and
  the eighth of the region it lies in is not disabled.  The region with the highest number decides.
\<close>

definition mpu_covers :: "mpu_region \<Rightarrow> u32 \<Rightarrow> bool" where
  "mpu_covers i a \<longleftrightarrow>
     mpu_enable i = 1 \<and>
     drop_bit (unat (mpu_size i) + 1) a = drop_bit (unat (mpu_size i) + 1) (mpu_base_address i) \<and>
     \<not> (7 \<le> mpu_size i \<and>
        bit (mpu_sub_region_disable i) (unat (take_bit 3 (drop_bit (unat (mpu_size i) - 2) a))))"

definition mpu_region_at :: "mpu_hw \<Rightarrow> u32 \<Rightarrow> mpu_region option" where
  "mpu_region_at h a =
     (if bit (mh_ctrl h) 0 then find (\<lambda>i. mpu_covers i a) (map (mpu_decode h) (rev [0, 1, 2, 3, 4, 5, 6, 7, 8, 9, 10, 11, 12, 13, 14, 15]))
      else None)"

section \<open>A region reads back as it was configured\<close>

lemma mpu_field_bits:
  assumes "mpu_region_asserts i" "mpu_enable i = 1"
  shows "1 \<le> n \<Longrightarrow> \<not> bit (mpu_disable_exec i) n" "3 \<le> n \<Longrightarrow> \<not> bit (mpu_access_permission i) n"
    "2 \<le> n \<Longrightarrow> \<not> bit (mpu_type_ext_field i) n" "1 \<le> n \<Longrightarrow> \<not> bit (mpu_is_shareable i) n"
    "1 \<le> n \<Longrightarrow> \<not> bit (mpu_is_cacheable i) n" "1 \<le> n \<Longrightarrow> \<not> bit (mpu_is_bufferable i) n"
    "5 \<le> n \<Longrightarrow> \<not> bit (mpu_size i) n" "1 \<le> n \<Longrightarrow> \<not> bit (mpu_enable i) n"
    "8 \<le> n \<Longrightarrow> \<not> bit (mpu_sub_region_disable i) n"
proof -
  have f: "mpu_disable_exec i \<in> {0, 1}" "mpu_access_permission i \<in> {0, 1, 2, 3, 5, 6}" "mpu_type_ext_field i \<in> {0, 1, 2}"
      "mpu_is_shareable i \<in> {0, 1}" "mpu_is_cacheable i \<in> {0, 1}" "mpu_is_bufferable i \<in> {0, 1}" "mpu_size i \<le> 0x1F"
    using assms(1) unfolding mpu_region_asserts_def is_mpu_region_size_def hal_consts by blast+
  have "mpu_disable_exec i < 2 ^ 1" using f(1) by auto
  then show "1 \<le> n \<Longrightarrow> \<not> bit (mpu_disable_exec i) n" by (rule bits_below)
  have "mpu_access_permission i < 2 ^ 3" using f(2) by auto
  then show "3 \<le> n \<Longrightarrow> \<not> bit (mpu_access_permission i) n" by (rule bits_below)
  have "mpu_type_ext_field i < 2 ^ 2" using f(3) by auto
  then show "2 \<le> n \<Longrightarrow> \<not> bit (mpu_type_ext_field i) n" by (rule bits_below)
  have "mpu_is_shareable i < 2 ^ 1" using f(4) by auto
  then show "1 \<le> n \<Longrightarrow> \<not> bit (mpu_is_shareable i) n" by (rule bits_below)
  have "mpu_is_cacheable i < 2 ^ 1" using f(5) by auto
  then show "1 \<le> n \<Longrightarrow> \<not> bit (mpu_is_cacheable i) n" by (rule bits_below)
  have "mpu_is_bufferable i < 2 ^ 1" using f(6) by auto
  then show "1 \<le> n \<Longrightarrow> \<not> bit (mpu_is_bufferable i) n" by (rule bits_below)
  have "mpu_size i < 2 ^ 5" using f(7) by (simp add: word_le_nat_alt word_less_nat_alt)
  then show "5 \<le> n \<Longrightarrow> \<not> bit (mpu_size i) n" by (rule bits_below)
  have "mpu_enable i < 2 ^ 1" using assms(2) by simp
  then show "1 \<le> n \<Longrightarrow> \<not> bit (mpu_enable i) n" by (rule bits_below)
  show "8 \<le> n \<Longrightarrow> \<not> bit (mpu_sub_region_disable i) n" using bit_imp_le_length [of "mpu_sub_region_disable i" n] by auto
qed

lemma mpu_rasr_bit:
  "n < 32 \<Longrightarrow> bit (mpu_rasr i) n \<longleftrightarrow>
     28 \<le> n \<and> bit (mpu_disable_exec i) (n - 28) \<or> 24 \<le> n \<and> bit (mpu_access_permission i) (n - 24) \<or>
     19 \<le> n \<and> bit (mpu_type_ext_field i) (n - 19) \<or> 18 \<le> n \<and> bit (mpu_is_shareable i) (n - 18) \<or>
     17 \<le> n \<and> bit (mpu_is_cacheable i) (n - 17) \<or> 16 \<le> n \<and> bit (mpu_is_bufferable i) (n - 16) \<or>
     8 \<le> n \<and> bit (mpu_sub_region_disable i) (n - 8) \<or> 1 \<le> n \<and> bit (mpu_size i) (n - 1) \<or> bit (mpu_enable i) n"
  unfolding mpu_rasr_def hal_consts bit_or_iff bit_push_bit_iff by (simp add: bit_simps less_imp_diff_less)

lemma mpu_rasr_fields:
  assumes "mpu_region_asserts i" "mpu_enable i = 1"
  shows "ucast (take_bit 1 (mpu_rasr i)) = mpu_enable i"
    "ucast (take_bit 5 (drop_bit 1 (mpu_rasr i))) = mpu_size i"
    "ucast (take_bit 8 (drop_bit 8 (mpu_rasr i))) = mpu_sub_region_disable i"
    "ucast (take_bit 3 (drop_bit 19 (mpu_rasr i))) = mpu_type_ext_field i"
    "ucast (take_bit 3 (drop_bit 24 (mpu_rasr i))) = mpu_access_permission i"
    "ucast (take_bit 1 (drop_bit 28 (mpu_rasr i))) = mpu_disable_exec i"
    "ucast (take_bit 1 (drop_bit 18 (mpu_rasr i))) = mpu_is_shareable i"
    "ucast (take_bit 1 (drop_bit 17 (mpu_rasr i))) = mpu_is_cacheable i"
    "ucast (take_bit 1 (drop_bit 16 (mpu_rasr i))) = mpu_is_bufferable i"
proof -
  note zeros = mpu_field_bits [OF assms]
  have fld: "ucast (take_bit w (drop_bit p (mpu_rasr i))) = (x :: u8)"
    if "\<And>n. n < 8 \<Longrightarrow> (n < w \<and> bit (mpu_rasr i) (p + n)) = bit x n" for w p x
    by (rule bit_word_eqI) (use that in \<open>auto simp: bit_simps\<close>)
  have small: "n < 8 \<longleftrightarrow> n = 0 \<or> n = 1 \<or> n = 2 \<or> n = 3 \<or> n = 4 \<or> n = 5 \<or> n = 6 \<or> n = 7" for n :: nat
    by auto
  show "ucast (take_bit 5 (drop_bit 1 (mpu_rasr i))) = mpu_size i"
    by (rule fld) (auto simp: small mpu_rasr_bit zeros)
  show "ucast (take_bit 8 (drop_bit 8 (mpu_rasr i))) = mpu_sub_region_disable i"
    by (rule fld) (auto simp: small mpu_rasr_bit zeros)
  show "ucast (take_bit 3 (drop_bit 19 (mpu_rasr i))) = mpu_type_ext_field i"
    by (rule fld) (auto simp: small mpu_rasr_bit zeros)
  show "ucast (take_bit 3 (drop_bit 24 (mpu_rasr i))) = mpu_access_permission i"
    by (rule fld) (auto simp: small mpu_rasr_bit zeros)
  show "ucast (take_bit 1 (drop_bit 28 (mpu_rasr i))) = mpu_disable_exec i"
    by (rule fld) (auto simp: small mpu_rasr_bit zeros)
  show "ucast (take_bit 1 (drop_bit 18 (mpu_rasr i))) = mpu_is_shareable i"
    by (rule fld) (auto simp: small mpu_rasr_bit zeros)
  show "ucast (take_bit 1 (drop_bit 17 (mpu_rasr i))) = mpu_is_cacheable i"
    by (rule fld) (auto simp: small mpu_rasr_bit zeros)
  show "ucast (take_bit 1 (drop_bit 16 (mpu_rasr i))) = mpu_is_bufferable i"
    by (rule fld) (auto simp: small mpu_rasr_bit zeros)
  have "ucast (take_bit 1 (drop_bit 0 (mpu_rasr i))) = mpu_enable i"
    by (rule fld) (auto simp: small mpu_rasr_bit zeros)
  then show "ucast (take_bit 1 (mpu_rasr i)) = mpu_enable i" by (simp only: drop_bit_0 id_apply)
qed

lemma mpu_addresses:
  "MPU_CTRL = 0xE000ED94" "MPU_RNR = 0xE000ED98" "MPU_RBAR = 0xE000ED9C" "MPU_RASR = 0xE000EDA0"
  "SCB_SHCSR = 0xE000ED24"
  by (simp_all add: MPU_CTRL_def MPU_RNR_def MPU_RBAR_def MPU_RASR_def SCB_SHCSR_def hal_consts)

lemma mpu_after_append [simp]: "mpu_after (l @ m) h = mpu_after m (mpu_after l h)"
  by (simp add: mpu_after_def)

lemma mpu_after_bits [simp]:
  "mpu_after (SET_BIT env SCB_SHCSR b l) h = mpu_after l h" "mpu_after (CLEAR_BIT env SCB_SHCSR b l) h = mpu_after l h"
  by (simp_all add: SET_BIT_def CLEAR_BIT_def modify_reg_def mpu_after_def mpu_addresses)

text \<open>
  C19.  Whatever region is configured with its checks passed, at a base that respects the smallest
  alignment: the registers of that region then decode to exactly the parameters, those of every
  other region and the control register are as before.
\<close>

theorem mpu_config_roundtrip:
  assumes "HAL_MPU_ConfigRegion i l = Some l'" "mpu_enable i = 1" "take_bit 5 (mpu_base_address i) = 0"
  shows "mpu_decode (mpu_after l' h) (mpu_number i) = i \<and>
    (\<forall>n. n \<noteq> mpu_number i \<longrightarrow> mpu_decode (mpu_after l' h) n = mpu_decode (mpu_after l h) n) \<and>
    mh_ctrl (mpu_after l' h) = mh_ctrl (mpu_after l h)"
proof -
  have c: "mpu_region_asserts i" and l': "l' = l @ [Reg_write MPU_RNR (ucast (mpu_number i)),
      Reg_write MPU_RBAR (mpu_base_address i), Reg_write MPU_RASR (mpu_rasr i)]"
    using assms(1,2) by (auto simp: HAL_MPU_ConfigRegion_def Let_def split: if_splits)
  have "bit (take_bit 5 (mpu_base_address i)) 4 = bit (mpu_base_address i) 4" by (simp add: bit_take_bit_iff)
  then have b: "\<not> bit (mpu_base_address i) 4" using assms(3) by simp
  let ?k = "mpu_after l h" let ?n = "ucast (mpu_number i) :: u32"
  have m: "mpu_after l' h = ?k\<lparr>mh_rnr := ?n, mh_rbar := (mh_rbar ?k)(?n := mpu_base_address i),
      mh_rasr := (mh_rasr ?k)(?n := mpu_rasr i)\<rparr>"
    by (simp add: l') (simp add: mpu_after_def mpu_addresses b Let_def)
  have o: "ucast n \<noteq> ?n" if "n \<noteq> mpu_number i" for n :: u8
    using that by (metis byte_round)
  show ?thesis unfolding m using mpu_rasr_fields [OF c assms(2)] o
    by (simp add: mpu_decode_def Let_def)
qed

section \<open>The regions of the board\<close>

text \<open>The size of a memory in bytes, from the parameters its controller is given.\<close>

definition sdram_bytes :: "sdram_init \<Rightarrow> nat" where
  "sdram_bytes i =
     2 ^ (8 + unat (sd_column_bits i)) * 2 ^ (11 + unat (drop_bit 2 (sd_row_bits i))) *
     (2 * 2 ^ unat (drop_bit 6 (sd_internal_banks i))) * 2 ^ unat (drop_bit 4 (sd_data_width i))"

lemma board_memory_bytes: "sdram_bytes hsdram1_init = 2 ^ 25"
  by (simp add: sdram_bytes_def hsdram1_init_def hal_consts)

lemma drop_bit_range:
  "drop_bit k (a :: u32) = word_of_nat q \<longleftrightarrow> q * 2 ^ k \<le> unat a \<and> unat a < (q + 1) * 2 ^ k" if "q < 2 ^ 32"
proof -
  have "unat (drop_bit k a) = drop_bit k (unat a)" using take_bit_nat_eq_self [of "unat a" 32] unsigned_less [of a, where ?'a = nat]
    by (simp only: unsigned_drop_bit_eq) simp
  then have "unat (drop_bit k a) = unat a div 2 ^ k" by (simp only: drop_bit_eq_div)
  then have "drop_bit k a = word_of_nat q \<longleftrightarrow> unat a div 2 ^ k = q"
    using that by (auto simp: word_unat_eq_iff unat_of_nat)
  also have "\<dots> \<longleftrightarrow> q * 2 ^ k \<le> unat a \<and> unat a < (q + 1) * 2 ^ k"
    using less_eq_div_iff_mult_less_eq [of "2 ^ k" q "unat a"] div_less_iff_less_mult [of "2 ^ k" "unat a" "q + 1"] by auto
  finally show ?thesis .
qed

lemma board_regions_covers:
  "mpu_covers board_region0 a \<longleftrightarrow> 0x24000000 \<le> unat a \<and> unat a < 0x24000000 + 2 ^ 19"
  "mpu_covers board_region1 a \<longleftrightarrow> 0xC0000000 \<le> unat a \<and> unat a < 0xC0000000 + 2 ^ 25"
proof -
  have f0: "mpu_enable board_region0 = 1" "mpu_size board_region0 = 0x12" "mpu_base_address board_region0 = 0x24000000"
      "mpu_sub_region_disable board_region0 = 0"
    and f1: "mpu_enable board_region1 = 1" "mpu_size board_region1 = 0x18" "mpu_base_address board_region1 = 0xC0000000"
      "mpu_sub_region_disable board_region1 = 0"
    by (simp_all add: board_region0_def board_region1_def hal_consts)
  have d: "drop_bit 19 (0x24000000 :: u32) = word_of_nat 0x480" "drop_bit 25 (0xC0000000 :: u32) = word_of_nat 0x60"
    by simp_all
  show "mpu_covers board_region0 a \<longleftrightarrow> 0x24000000 \<le> unat a \<and> unat a < 0x24000000 + 2 ^ 19"
    using drop_bit_range [of "0x480" 19 a] d(1) by (simp add: mpu_covers_def f0)
  show "mpu_covers board_region1 a \<longleftrightarrow> 0xC0000000 \<le> unat a \<and> unat a < 0xC0000000 + 2 ^ 25"
    using drop_bit_range [of "0x60" 25 a] d(2) by (simp add: mpu_covers_def f1)
qed

lemma earlyinit_mpu_log:
  "\<exists>l1 l2. HAL_MPU_ConfigRegion board_region0 (HAL_MPU_Disable env l) = Some l1 \<and>
     HAL_MPU_ConfigRegion board_region1 l1 = Some l2 \<and>
     bsp_earlyinit_mpu env l = Some (HAL_MPU_Enable env MPU_PRIVILEGED_DEFAULT l2)"
proof -
  have "mpu_region_asserts board_region0" "mpu_region_asserts board_region1"
    by (simp_all add: mpu_region_asserts_def is_mpu_region_size_def board_region0_def board_region1_def hal_consts)
  then show ?thesis
    by (simp add: bsp_earlyinit_mpu_def HAL_MPU_ConfigRegion_def Let_def) (simp add: board_region0_def board_region1_def hal_consts)
qed

lemma mpu_disable_after [simp]: "mpu_after (HAL_MPU_Disable env l) h = (mpu_after l h)\<lparr>mh_ctrl := 0\<rparr>"
  by (simp add: HAL_MPU_Disable_def) (simp add: mpu_after_def)

lemma mpu_enable_after [simp]:
  "mpu_after (HAL_MPU_Enable env c l) h = (mpu_after l h)\<lparr>mh_ctrl := c OR MPU_CTRL_ENABLE_Msk\<rparr>"
  by (simp add: HAL_MPU_Enable_def) (simp add: mpu_after_def)

lemma mpu_decode_ctrl [simp]: "mpu_decode (h\<lparr>mh_ctrl := c\<rparr>) n = mpu_decode h n"
  by (simp add: mpu_decode_def)

text \<open>
  C20.  The regions of the board.  Whatever the unit was set to, if no region above the first two was
  enabled: after the initialisation exactly the internal SRAM of domain 1 and the external memory,
  in the full size that its controller is configured for, have the attributes of the two regions,
  normal memory, cached write-back, executable, open to every access; and every other address has
  no region, so that privileged code gets the default map there.
\<close>

theorem mpu_covers_memories:
  assumes "\<forall>n. 2 \<le> n \<and> n \<le> 15 \<longrightarrow> mpu_enable (mpu_decode (mpu_after l h) n) = 0"
  shows "\<exists>l'. bsp_earlyinit_mpu env l = Some l' \<and>
    mh_ctrl (mpu_after l' h) = MPU_PRIVILEGED_DEFAULT OR MPU_CTRL_ENABLE_Msk \<and>
    (\<forall>a. mpu_region_at (mpu_after l' h) a =
      (if 0xC0000000 \<le> unat a \<and> unat a < 0xC0000000 + sdram_bytes hsdram1_init then Some board_region1
       else if 0x24000000 \<le> unat a \<and> unat a < 0x24000000 + 512 * 1024 then Some board_region0 else None))"
proof -
  obtain l1 l2 where l: "HAL_MPU_ConfigRegion board_region0 (HAL_MPU_Disable env l) = Some l1"
      "HAL_MPU_ConfigRegion board_region1 l1 = Some l2"
      "bsp_earlyinit_mpu env l = Some (HAL_MPU_Enable env MPU_PRIVILEGED_DEFAULT l2)"
    using earlyinit_mpu_log by blast
  have p: "mpu_enable board_region0 = 1" "mpu_number board_region0 = 0" "take_bit 5 (mpu_base_address board_region0) = 0"
      "mpu_enable board_region1 = 1" "mpu_number board_region1 = 1" "take_bit 5 (mpu_base_address board_region1) = 0"
    by (simp_all add: board_region0_def board_region1_def hal_consts)
  note r0 = mpu_config_roundtrip [OF l(1) p(1,3), of h, unfolded p(2)]
  note r1 = mpu_config_roundtrip [OF l(2) p(4,6), of h, unfolded p(5)]
  define k where "k = mpu_after (HAL_MPU_Enable env MPU_PRIVILEGED_DEFAULT l2) h"
  have d: "mpu_decode k 0 = board_region0" "mpu_decode k 1 = board_region1"
    using r0 r1 by (simp_all add: k_def)
  have o: "\<not> mpu_covers (mpu_decode k n) a" if "2 \<le> n" "n \<le> 15" for n a
  proof -
    have "n \<noteq> 0" "n \<noteq> 1" using that(1) by (auto simp: word_le_nat_alt)
    then have "mpu_decode k n = mpu_decode (mpu_after l h) n" using r0 r1 by (simp add: k_def)
    then show ?thesis using assms that by (simp add: mpu_covers_def)
  qed
  have c: "mh_ctrl k = MPU_PRIVILEGED_DEFAULT OR MPU_CTRL_ENABLE_Msk" by (simp add: k_def)
  then have e: "bit (mh_ctrl k) 0" by (simp add: hal_consts bit_or_iff)
  have "mpu_region_at k a = (if mpu_covers board_region1 a then Some board_region1
      else if mpu_covers board_region0 a then Some board_region0 else None)" for a
    unfolding mpu_region_at_def if_P [OF e] by (simp add: o d)
  then have r: "\<forall>a. mpu_region_at k a =
      (if 0xC0000000 \<le> unat a \<and> unat a < 0xC0000000 + sdram_bytes hsdram1_init then Some board_region1
       else if 0x24000000 \<le> unat a \<and> unat a < 0x24000000 + 512 * 1024 then Some board_region0 else None)"
    unfolding board_regions_covers board_memory_bytes by simp
  show ?thesis
    by (rule exI [of _ "HAL_MPU_Enable env MPU_PRIVILEGED_DEFAULT l2"], unfold k_def [symmetric], intro conjI l(3) c r)
qed

definition reset_mpu :: mpu_hw where
  "reset_mpu = \<lparr>mh_ctrl = 0, mh_rnr = 0, mh_rbar = (\<lambda>_. 0), mh_rasr = (\<lambda>_. 0)\<rparr>"

lemma mpu_covers_memories_witness:
  "\<exists>l'. bsp_earlyinit_mpu ok_env [] = Some l' \<and>
     mpu_region_at (mpu_after l' reset_mpu) 0xC1FFFFFF = Some board_region1 \<and>
     mpu_region_at (mpu_after l' reset_mpu) 0xC2000000 = None"
  using mpu_covers_memories [of "[]" reset_mpu ok_env]
  by (auto simp: mpu_after_def reset_mpu_def mpu_decode_def board_memory_bytes)

lemma mpu_config_roundtrip_witness:
  "mpu_decode (mpu_after (the (HAL_MPU_ConfigRegion board_region1 [])) reset_mpu) 1 = board_region1"
proof -
  obtain l' where "HAL_MPU_ConfigRegion board_region1 [] = Some l'"
    by (simp add: HAL_MPU_ConfigRegion_def Let_def)
      (simp add: mpu_region_asserts_def is_mpu_region_size_def board_region0_def board_region1_def hal_consts)
  moreover have "mpu_enable board_region1 = 1" "take_bit 5 (mpu_base_address board_region1) = 0" "mpu_number board_region1 = 1"
    by (simp_all add: board_region0_def board_region1_def hal_consts)
  ultimately show ?thesis using mpu_config_roundtrip [of board_region1 "[]" l' reset_mpu] by simp
qed

end
