(* ===== verification/Rcc.thy ===== *)
theory Rcc
  imports Hal Stm32
begin

text \<open>
  Reset and clock control, hal/stm32h7xx_hal_rcc.c: the registers, the ready flags, the waits with a
  timeout, the oscillators and the main PLL with \<open>HAL_RCC_OscConfig\<close>, and the way back,
  \<open>HAL_RCC_GetOscConfig\<close>.
\<close>

unbundle bit_operations_syntax

section \<open>Constants\<close>

definition RCC_OSCILLATORTYPE_HSE :: u32 where
  [hal_consts]: "RCC_OSCILLATORTYPE_HSE = 0x1"

definition RCC_HSE_ON :: u32 where
  [hal_consts]: "RCC_HSE_ON = 0x10000"

definition RCC_PLL_ON :: u32 where
  [hal_consts]: "RCC_PLL_ON = 0x2"

definition RCC_PLLSOURCE_HSE :: u32 where
  [hal_consts]: "RCC_PLLSOURCE_HSE = 0x2"

definition RCC_PLL1VCIRANGE_2 :: u32 where
  [hal_consts]: "RCC_PLL1VCIRANGE_2 = 0x8"

definition RCC_PLL1VCOWIDE :: u32 where
  [hal_consts]: "RCC_PLL1VCOWIDE = 0x0"

definition RCC_CLOCKTYPE_HCLK :: u32 where
  [hal_consts]: "RCC_CLOCKTYPE_HCLK = 0x2"

definition RCC_CLOCKTYPE_SYSCLK :: u32 where
  [hal_consts]: "RCC_CLOCKTYPE_SYSCLK = 0x1"

definition RCC_CLOCKTYPE_PCLK1 :: u32 where
  [hal_consts]: "RCC_CLOCKTYPE_PCLK1 = 0x8"

definition RCC_CLOCKTYPE_PCLK2 :: u32 where
  [hal_consts]: "RCC_CLOCKTYPE_PCLK2 = 0x10"

definition RCC_CLOCKTYPE_D3PCLK1 :: u32 where
  [hal_consts]: "RCC_CLOCKTYPE_D3PCLK1 = 0x20"

definition RCC_CLOCKTYPE_D1PCLK1 :: u32 where
  [hal_consts]: "RCC_CLOCKTYPE_D1PCLK1 = 0x4"

definition RCC_SYSCLKSOURCE_PLLCLK :: u32 where
  [hal_consts]: "RCC_SYSCLKSOURCE_PLLCLK = 0x3"

definition RCC_SYSCLK_DIV1 :: u32 where
  [hal_consts]: "RCC_SYSCLK_DIV1 = 0x0"

definition RCC_HCLK_DIV2 :: u32 where
  [hal_consts]: "RCC_HCLK_DIV2 = 0x8"

definition RCC_APB3_DIV2 :: u32 where
  [hal_consts]: "RCC_APB3_DIV2 = 0x40"

definition RCC_APB1_DIV2 :: u32 where
  [hal_consts]: "RCC_APB1_DIV2 = 0x40"

definition RCC_APB2_DIV2 :: u32 where
  [hal_consts]: "RCC_APB2_DIV2 = 0x400"

definition RCC_APB4_DIV2 :: u32 where
  [hal_consts]: "RCC_APB4_DIV2 = 0x40"

definition FLASH_LATENCY_4 :: u32 where
  [hal_consts]: "FLASH_LATENCY_4 = 0x4"

definition RCC_PLL3VCIRANGE_0 :: u32 where
  [hal_consts]: "RCC_PLL3VCIRANGE_0 = 0x0"

definition RCC_PLL3VCOMEDIUM :: u32 where
  [hal_consts]: "RCC_PLL3VCOMEDIUM = 0x200"

definition RCC_FMCCLKSOURCE_D1HCLK :: u32 where
  [hal_consts]: "RCC_FMCCLKSOURCE_D1HCLK = 0x0"

definition RCC_PERIPHCLK_LTDC :: u64 where
  [hal_consts]: "RCC_PERIPHCLK_LTDC = 0x20000000"

definition RCC_PERIPHCLK_FMC :: u64 where
  [hal_consts]: "RCC_PERIPHCLK_FMC = 0x1000000"

definition HSE_VALUE :: u32 where
  [hal_consts]: "HSE_VALUE = 0x17d7840"

definition RCC_OSCILLATORTYPE_NONE :: u32 where
  [hal_consts]: "RCC_OSCILLATORTYPE_NONE = 0x0"

definition RCC_OSCILLATORTYPE_HSI :: u32 where
  [hal_consts]: "RCC_OSCILLATORTYPE_HSI = 0x2"

definition RCC_OSCILLATORTYPE_CSI :: u32 where
  [hal_consts]: "RCC_OSCILLATORTYPE_CSI = 0x10"

definition RCC_OSCILLATORTYPE_LSI :: u32 where
  [hal_consts]: "RCC_OSCILLATORTYPE_LSI = 0x8"

definition RCC_OSCILLATORTYPE_LSE :: u32 where
  [hal_consts]: "RCC_OSCILLATORTYPE_LSE = 0x4"

definition RCC_OSCILLATORTYPE_HSI48 :: u32 where
  [hal_consts]: "RCC_OSCILLATORTYPE_HSI48 = 0x20"

definition RCC_HSE_OFF :: u32 where
  [hal_consts]: "RCC_HSE_OFF = 0x0"

definition RCC_HSE_BYPASS :: u32 where
  [hal_consts]: "RCC_HSE_BYPASS = 0x50000"

definition RCC_LSE_OFF :: u32 where
  [hal_consts]: "RCC_LSE_OFF = 0x0"

definition RCC_LSE_ON :: u32 where
  [hal_consts]: "RCC_LSE_ON = 0x1"

definition RCC_LSE_BYPASS :: u32 where
  [hal_consts]: "RCC_LSE_BYPASS = 0x5"

definition RCC_HSI_OFF :: u32 where
  [hal_consts]: "RCC_HSI_OFF = 0x0"

definition RCC_HSI_ON :: u32 where
  [hal_consts]: "RCC_HSI_ON = 0x1"

definition RCC_HSI_DIV1 :: u32 where
  [hal_consts]: "RCC_HSI_DIV1 = 0x1"

definition RCC_HSI_DIV2 :: u32 where
  [hal_consts]: "RCC_HSI_DIV2 = 0x9"

definition RCC_HSI_DIV4 :: u32 where
  [hal_consts]: "RCC_HSI_DIV4 = 0x11"

definition RCC_HSI_DIV8 :: u32 where
  [hal_consts]: "RCC_HSI_DIV8 = 0x19"

definition RCC_HSI48_OFF :: u32 where
  [hal_consts]: "RCC_HSI48_OFF = 0x0"

definition RCC_HSI48_ON :: u32 where
  [hal_consts]: "RCC_HSI48_ON = 0x1"

definition RCC_LSI_OFF :: u32 where
  [hal_consts]: "RCC_LSI_OFF = 0x0"

definition RCC_LSI_ON :: u32 where
  [hal_consts]: "RCC_LSI_ON = 0x1"

definition RCC_CSI_OFF :: u32 where
  [hal_consts]: "RCC_CSI_OFF = 0x0"

definition RCC_CSI_ON :: u32 where
  [hal_consts]: "RCC_CSI_ON = 0x80"

definition RCC_PLL_NONE :: u32 where
  [hal_consts]: "RCC_PLL_NONE = 0x0"

definition RCC_PLL_OFF :: u32 where
  [hal_consts]: "RCC_PLL_OFF = 0x1"

definition RCC_PLLSOURCE_HSI :: u32 where
  [hal_consts]: "RCC_PLLSOURCE_HSI = 0x0"

definition RCC_PLLSOURCE_CSI :: u32 where
  [hal_consts]: "RCC_PLLSOURCE_CSI = 0x1"

definition RCC_PLLSOURCE_NONE :: u32 where
  [hal_consts]: "RCC_PLLSOURCE_NONE = 0x3"

definition RCC_PLL1_DIVP :: u32 where
  [hal_consts]: "RCC_PLL1_DIVP = 0x10000"

definition RCC_PLL1_DIVQ :: u32 where
  [hal_consts]: "RCC_PLL1_DIVQ = 0x20000"

definition RCC_PLL1_DIVR :: u32 where
  [hal_consts]: "RCC_PLL1_DIVR = 0x40000"

definition RCC_CFGR_SWS :: u32 where
  [hal_consts]: "RCC_CFGR_SWS = 0x38"

definition RCC_CFGR_SW :: u32 where
  [hal_consts]: "RCC_CFGR_SW = 0x7"

definition RCC_CFGR_SWS_HSI :: u32 where
  [hal_consts]: "RCC_CFGR_SWS_HSI = 0x0"

definition RCC_CFGR_SWS_CSI :: u32 where
  [hal_consts]: "RCC_CFGR_SWS_CSI = 0x8"

definition RCC_CFGR_SWS_HSE :: u32 where
  [hal_consts]: "RCC_CFGR_SWS_HSE = 0x10"

definition RCC_CFGR_SWS_PLL1 :: u32 where
  [hal_consts]: "RCC_CFGR_SWS_PLL1 = 0x18"

definition RCC_PLLCKSELR_PLLSRC :: u32 where
  [hal_consts]: "RCC_PLLCKSELR_PLLSRC = 0x3"

definition RCC_PLLCKSELR_PLLSRC_HSE :: u32 where
  [hal_consts]: "RCC_PLLCKSELR_PLLSRC_HSE = 0x2"

definition RCC_PLLCKSELR_PLLSRC_HSI :: u32 where
  [hal_consts]: "RCC_PLLCKSELR_PLLSRC_HSI = 0x0"

definition RCC_PLLCKSELR_PLLSRC_CSI :: u32 where
  [hal_consts]: "RCC_PLLCKSELR_PLLSRC_CSI = 0x1"

definition RCC_PLLCKSELR_DIVM1 :: u32 where
  [hal_consts]: "RCC_PLLCKSELR_DIVM1 = 0x3f0"

definition RCC_PLL1DIVR_N1 :: u32 where
  [hal_consts]: "RCC_PLL1DIVR_N1 = 0x1ff"

definition RCC_PLL1DIVR_P1 :: u32 where
  [hal_consts]: "RCC_PLL1DIVR_P1 = 0xfe00"

definition RCC_PLL1DIVR_Q1 :: u32 where
  [hal_consts]: "RCC_PLL1DIVR_Q1 = 0x7f0000"

definition RCC_PLL1DIVR_R1 :: u32 where
  [hal_consts]: "RCC_PLL1DIVR_R1 = 0x7f000000"

definition RCC_PLL1FRACR_FRACN1 :: u32 where
  [hal_consts]: "RCC_PLL1FRACR_FRACN1 = 0xfff8"

definition RCC_PLLCFGR_PLL1FRACEN :: u32 where
  [hal_consts]: "RCC_PLLCFGR_PLL1FRACEN = 0x1"

definition RCC_PLLCFGR_PLL1RGE :: u32 where
  [hal_consts]: "RCC_PLLCFGR_PLL1RGE = 0xc"

definition RCC_PLLCFGR_PLL1VCOSEL :: u32 where
  [hal_consts]: "RCC_PLLCFGR_PLL1VCOSEL = 0x2"

definition RCC_PLL1VCIRANGE_0 :: u32 where
  [hal_consts]: "RCC_PLL1VCIRANGE_0 = 0x0"

definition RCC_PLL1VCIRANGE_1 :: u32 where
  [hal_consts]: "RCC_PLL1VCIRANGE_1 = 0x4"

definition RCC_PLL1VCIRANGE_3 :: u32 where
  [hal_consts]: "RCC_PLL1VCIRANGE_3 = 0xc"

definition RCC_PLL1VCOMEDIUM :: u32 where
  [hal_consts]: "RCC_PLL1VCOMEDIUM = 0x2"

definition RCC_CR_HSEON :: u32 where
  [hal_consts]: "RCC_CR_HSEON = 0x10000"

definition RCC_CR_HSEBYP :: u32 where
  [hal_consts]: "RCC_CR_HSEBYP = 0x40000"

definition RCC_CR_HSION :: u32 where
  [hal_consts]: "RCC_CR_HSION = 0x1"

definition RCC_CR_HSIDIV :: u32 where
  [hal_consts]: "RCC_CR_HSIDIV = 0x18"

definition RCC_CR_CSION :: u32 where
  [hal_consts]: "RCC_CR_CSION = 0x80"

definition RCC_CR_HSI48ON :: u32 where
  [hal_consts]: "RCC_CR_HSI48ON = 0x1000"

definition RCC_CR_PLLON :: u32 where
  [hal_consts]: "RCC_CR_PLLON = 0x1000000"

definition RCC_CR_PLL1ON :: u32 where
  [hal_consts]: "RCC_CR_PLL1ON = 0x1000000"

definition RCC_CSR_LSION :: u32 where
  [hal_consts]: "RCC_CSR_LSION = 0x1"

definition RCC_BDCR_LSEON :: u32 where
  [hal_consts]: "RCC_BDCR_LSEON = 0x1"

definition RCC_BDCR_LSEBYP :: u32 where
  [hal_consts]: "RCC_BDCR_LSEBYP = 0x4"

definition RCC_HSICFGR_HSITRIM :: u32 where
  [hal_consts]: "RCC_HSICFGR_HSITRIM = 0x7f000000"

definition RCC_CSICFGR_CSITRIM :: u32 where
  [hal_consts]: "RCC_CSICFGR_CSITRIM = 0x3f000000"

definition HAL_RCC_REV_Y_HSITRIM_Msk :: u32 where
  [hal_consts]: "HAL_RCC_REV_Y_HSITRIM_Msk = 0x3f000"

definition HAL_RCC_REV_Y_CSITRIM_Msk :: u32 where
  [hal_consts]: "HAL_RCC_REV_Y_CSITRIM_Msk = 0x7c000000"

definition RCC_HSICALIBRATION_DEFAULT :: u32 where
  [hal_consts]: "RCC_HSICALIBRATION_DEFAULT = 0x40"

definition RCC_CSICALIBRATION_DEFAULT :: u32 where
  [hal_consts]: "RCC_CSICALIBRATION_DEFAULT = 0x20"

definition REV_ID_Y :: u32 where
  [hal_consts]: "REV_ID_Y = 0x1003"

definition PWR_CR1_DBP :: u32 where
  [hal_consts]: "PWR_CR1_DBP = 0x100"

definition HSE_TIMEOUT_VALUE :: u32 where
  [hal_consts]: "HSE_TIMEOUT_VALUE = 0x64"

definition HSI_TIMEOUT_VALUE :: u32 where
  [hal_consts]: "HSI_TIMEOUT_VALUE = 0x2"

definition HSI48_TIMEOUT_VALUE :: u32 where
  [hal_consts]: "HSI48_TIMEOUT_VALUE = 0x2"

definition CSI_TIMEOUT_VALUE :: u32 where
  [hal_consts]: "CSI_TIMEOUT_VALUE = 0x2"

definition LSI_TIMEOUT_VALUE :: u32 where
  [hal_consts]: "LSI_TIMEOUT_VALUE = 0x2"

definition PLL_TIMEOUT_VALUE :: u32 where
  [hal_consts]: "PLL_TIMEOUT_VALUE = 0x2"

definition PLL_FRAC_TIMEOUT_VALUE :: u32 where
  [hal_consts]: "PLL_FRAC_TIMEOUT_VALUE = 0x1"

definition RCC_DBP_TIMEOUT_VALUE :: u32 where
  [hal_consts]: "RCC_DBP_TIMEOUT_VALUE = 0x64"

definition RCC_LSE_TIMEOUT_VALUE :: u32 where
  [hal_consts]: "RCC_LSE_TIMEOUT_VALUE = 0x1388"

definition RCC_PLLCKSELR_DIVM1_Pos :: nat where
  [hal_consts]: "RCC_PLLCKSELR_DIVM1_Pos = 0x4"

definition RCC_PLL1DIVR_N1_Pos :: nat where
  [hal_consts]: "RCC_PLL1DIVR_N1_Pos = 0x0"

definition RCC_PLL1DIVR_P1_Pos :: nat where
  [hal_consts]: "RCC_PLL1DIVR_P1_Pos = 0x9"

definition RCC_PLL1DIVR_Q1_Pos :: nat where
  [hal_consts]: "RCC_PLL1DIVR_Q1_Pos = 0x10"

definition RCC_PLL1DIVR_R1_Pos :: nat where
  [hal_consts]: "RCC_PLL1DIVR_R1_Pos = 0x18"

definition RCC_PLL1FRACR_FRACN1_Pos :: nat where
  [hal_consts]: "RCC_PLL1FRACR_FRACN1_Pos = 0x3"

definition RCC_PLLCFGR_PLL1VCOSEL_Pos :: nat where
  [hal_consts]: "RCC_PLLCFGR_PLL1VCOSEL_Pos = 0x1"

definition RCC_HSICFGR_HSITRIM_Pos :: nat where
  [hal_consts]: "RCC_HSICFGR_HSITRIM_Pos = 0x18"

definition RCC_CSICFGR_CSITRIM_Pos :: nat where
  [hal_consts]: "RCC_CSICFGR_CSITRIM_Pos = 0x18"

definition HAL_RCC_REV_Y_HSITRIM_Pos :: nat where
  [hal_consts]: "HAL_RCC_REV_Y_HSITRIM_Pos = 0xc"

definition HAL_RCC_REV_Y_CSITRIM_Pos :: nat where
  [hal_consts]: "HAL_RCC_REV_Y_CSITRIM_Pos = 0x1a"

definition RCC_FLAG_HSIRDY :: u8 where
  [hal_consts]: "RCC_FLAG_HSIRDY = 0x22"

definition RCC_FLAG_HSIDIV :: u8 where
  [hal_consts]: "RCC_FLAG_HSIDIV = 0x25"

definition RCC_FLAG_CSIRDY :: u8 where
  [hal_consts]: "RCC_FLAG_CSIRDY = 0x28"

definition RCC_FLAG_HSI48RDY :: u8 where
  [hal_consts]: "RCC_FLAG_HSI48RDY = 0x2d"

definition RCC_FLAG_HSERDY :: u8 where
  [hal_consts]: "RCC_FLAG_HSERDY = 0x31"

definition RCC_FLAG_PLLRDY :: u8 where
  [hal_consts]: "RCC_FLAG_PLLRDY = 0x39"

definition RCC_FLAG_LSERDY :: u8 where
  [hal_consts]: "RCC_FLAG_LSERDY = 0x41"

definition RCC_FLAG_LSIRDY :: u8 where
  [hal_consts]: "RCC_FLAG_LSIRDY = 0x61"

definition RCC_FLAG_MASK :: u8 where
  [hal_consts]: "RCC_FLAG_MASK = 0x1f"


section \<open>State\<close>

text \<open>
  The registers of the clock controller, the latency of the flash memory, the first register of the
  power controller, the device's identity code, the system timer with its priority in the table of
  the processor, the variables of the clocks, the tick counter \<open>uwTick\<close>, and the number of times
  the registers have been polled.
\<close>

record rcc =
  RCC_CR :: u32
  RCC_HSICFGR :: u32
  RCC_CSICFGR :: u32
  RCC_CFGR :: u32
  RCC_D1CFGR :: u32
  RCC_D2CFGR :: u32
  RCC_D3CFGR :: u32
  RCC_PLLCKSELR :: u32
  RCC_PLLCFGR :: u32
  RCC_PLL1DIVR :: u32
  RCC_PLL1FRACR :: u32
  RCC_PLL3DIVR :: u32
  RCC_PLL3FRACR :: u32
  RCC_D1CCIPR :: u32
  RCC_CIFR :: u32
  RCC_BDCR :: u32
  RCC_CSR :: u32
  RCC_RSR :: u32
  FLASH_ACR :: u32
  PWR_CR1 :: u32
  DBGMCU_IDCODE :: u32
  SysTick_LOAD :: u32
  SysTick_VAL :: u32
  SysTick_CTRL :: u32
  SHPR_SysTick :: u8
  SystemCoreClock :: u32
  SystemD2Clock :: u32
  uwTick :: u32
  uwTickPrio :: u32
  rcc_polls :: nat

definition HAL_GetREVID :: "rcc \<Rightarrow> u32" where
  "HAL_GetREVID s = drop_bit 16 (DBGMCU_IDCODE s)"

text \<open>\<open>__HAL_RCC_GET_FLAG\<close>: the upper bits of a flag select the register, the lower ones the bit.\<close>

definition rcc_flag :: "u8 \<Rightarrow> rcc \<Rightarrow> bool" where
  "rcc_flag f s =
     (let r = drop_bit 5 f;
          v = (if r = 1 then RCC_CR s else if r = 2 then RCC_BDCR s else if r = 3 then RCC_CSR s
               else if r = 4 then RCC_RSR s else RCC_CIFR s)
      in v AND push_bit (unat (f AND RCC_FLAG_MASK)) 1 \<noteq> 0)"

definition sysclk_source :: "rcc \<Rightarrow> u32" where
  "sysclk_source s = RCC_CFGR s AND RCC_CFGR_SWS"

section \<open>Waiting\<close>

text \<open>
  What the hardware and the interrupt of the tick do between two reads is a parameter, a function
  on the state.  The first argument of the wait is this function, then the limit, the condition
  and the tick at the start; each round reads the condition and then the tick.  \<open>None\<close>: neither the
  condition nor the tick ever changes.
\<close>

partial_function (option) rcc_wait ::
  "(rcc \<Rightarrow> rcc) \<Rightarrow> u32 \<Rightarrow> (rcc \<Rightarrow> bool) \<Rightarrow> u32 \<Rightarrow> rcc \<Rightarrow> (hal_status \<times> rcc) option" where
  "rcc_wait hw limit ok start s =
     (let s1 = hw s; s2 = hw s1
      in if ok s1 then Some (HAL_OK, s1)
         else if limit < uwTick s2 - start then Some (HAL_TIMEOUT, s2)
         else rcc_wait hw limit ok start s2)"

definition wait_for :: "(rcc \<Rightarrow> rcc) \<Rightarrow> u32 \<Rightarrow> (rcc \<Rightarrow> bool) \<Rightarrow> rcc \<Rightarrow> (hal_status \<times> rcc) option" where
  "wait_for hw limit ok s = rcc_wait hw limit ok (uwTick s) s"

text \<open>\<open>while ((HAL_GetTick() - tickstart) < n);\<close>\<close>

partial_function (option) rcc_delay :: "(rcc \<Rightarrow> rcc) \<Rightarrow> u32 \<Rightarrow> u32 \<Rightarrow> rcc \<Rightarrow> rcc option" where
  "rcc_delay hw n start s =
     (let s1 = hw s in if uwTick s1 - start < n then rcc_delay hw n start s1 else Some s1)"

text \<open>A step that returns its status at once unless it is \<open>HAL_OK\<close>, and then the rest.\<close>

definition and_then ::
  "(rcc \<Rightarrow> (hal_status \<times> rcc) option) \<Rightarrow> (rcc \<Rightarrow> (hal_status \<times> rcc) option) \<Rightarrow> rcc \<Rightarrow> (hal_status \<times> rcc) option"
where
  "and_then f g s = f s \<bind> (\<lambda>(r, t). if r = HAL_OK then g t else Some (r, t))"

section \<open>Oscillators\<close>

text \<open>\<open>assert_param\<close> is active in the configuration of the repository: a failed check is \<open>None\<close>.\<close>

definition hse_config :: "u32 \<Rightarrow> rcc \<Rightarrow> rcc" where
  "hse_config state s =
     (if state = RCC_HSE_ON then s\<lparr>RCC_CR := RCC_CR s OR RCC_CR_HSEON\<rparr>
      else if state = RCC_HSE_BYPASS then s\<lparr>RCC_CR := (RCC_CR s OR RCC_CR_HSEBYP) OR RCC_CR_HSEON\<rparr>
      else s\<lparr>RCC_CR := (RCC_CR s AND NOT RCC_CR_HSEON) AND NOT RCC_CR_HSEBYP\<rparr>)"

definition osc_hse :: "(rcc \<Rightarrow> rcc) \<Rightarrow> osc_init \<Rightarrow> rcc \<Rightarrow> (hal_status \<times> rcc) option" where
  "osc_hse hw i s =
     (let state = osc_hse_state i
      in if osc_type i AND RCC_OSCILLATORTYPE_HSE \<noteq> RCC_OSCILLATORTYPE_HSE then Some (HAL_OK, s)
         else if state \<notin> {RCC_HSE_OFF, RCC_HSE_ON, RCC_HSE_BYPASS} then None
         else if sysclk_source s = RCC_CFGR_SWS_HSE \<or>
              sysclk_source s = RCC_CFGR_SWS_PLL1 \<and> RCC_PLLCKSELR s AND RCC_PLLCKSELR_PLLSRC = RCC_PLLCKSELR_PLLSRC_HSE
         then Some (if rcc_flag RCC_FLAG_HSERDY s \<and> state = RCC_HSE_OFF then HAL_ERROR else HAL_OK, s)
         else wait_for hw HSE_TIMEOUT_VALUE (\<lambda>t. rcc_flag RCC_FLAG_HSERDY t = (state \<noteq> RCC_HSE_OFF))
                (hse_config state s))"

definition hsi_config :: "u32 \<Rightarrow> rcc \<Rightarrow> rcc" where
  "hsi_config state s = s\<lparr>RCC_CR := modified (RCC_CR_HSION OR RCC_CR_HSIDIV) state (RCC_CR s)\<rparr>"

definition hsi_calibration :: "u32 \<Rightarrow> rcc \<Rightarrow> rcc" where
  "hsi_calibration v s =
     (if HAL_GetREVID s \<le> REV_ID_Y then
        s\<lparr>RCC_HSICFGR := modified HAL_RCC_REV_Y_HSITRIM_Msk
            (push_bit HAL_RCC_REV_Y_HSITRIM_Pos (if v = RCC_HSICALIBRATION_DEFAULT then 0x20 else v)) (RCC_HSICFGR s)\<rparr>
      else s\<lparr>RCC_HSICFGR := modified RCC_HSICFGR_HSITRIM (push_bit RCC_HSICFGR_HSITRIM_Pos v) (RCC_HSICFGR s)\<rparr>)"

definition osc_hsi :: "(rcc \<Rightarrow> rcc) \<Rightarrow> osc_init \<Rightarrow> rcc \<Rightarrow> (hal_status \<times> rcc) option" where
  "osc_hsi hw i s =
     (let state = osc_hsi_state i;
          on = and_then (\<lambda>t. wait_for hw HSI_TIMEOUT_VALUE (rcc_flag RCC_FLAG_HSIRDY) (hsi_config state t))
                 (\<lambda>t. Some (HAL_OK, hsi_calibration (osc_hsi_calibration i) t))
      in if osc_type i AND RCC_OSCILLATORTYPE_HSI \<noteq> RCC_OSCILLATORTYPE_HSI then Some (HAL_OK, s)
         else if state \<notin> {RCC_HSI_OFF, RCC_HSI_ON, RCC_HSI_DIV1, RCC_HSI_DIV2, RCC_HSI_DIV4, RCC_HSI_DIV8} \<or>
              0x7F < osc_hsi_calibration i then None
         else if sysclk_source s = RCC_CFGR_SWS_HSI \<or>
              sysclk_source s = RCC_CFGR_SWS_PLL1 \<and> RCC_PLLCKSELR s AND RCC_PLLCKSELR_PLLSRC = RCC_PLLCKSELR_PLLSRC_HSI
         then (if rcc_flag RCC_FLAG_HSIRDY s \<and> state = RCC_HSI_OFF then Some (HAL_ERROR, s) else on s)
         else if state \<noteq> RCC_HSI_OFF then on s
         else wait_for hw HSI_TIMEOUT_VALUE (\<lambda>t. \<not> rcc_flag RCC_FLAG_HSIRDY t)
                (s\<lparr>RCC_CR := RCC_CR s AND NOT RCC_CR_HSION\<rparr>))"

definition csi_calibration :: "u32 \<Rightarrow> rcc \<Rightarrow> rcc" where
  "csi_calibration v s =
     (if HAL_GetREVID s \<le> REV_ID_Y then
        s\<lparr>RCC_HSICFGR := modified HAL_RCC_REV_Y_CSITRIM_Msk
            (push_bit HAL_RCC_REV_Y_CSITRIM_Pos (if v = RCC_CSICALIBRATION_DEFAULT then 0x10 else v)) (RCC_HSICFGR s)\<rparr>
      else s\<lparr>RCC_CSICFGR := modified RCC_CSICFGR_CSITRIM (push_bit RCC_CSICFGR_CSITRIM_Pos v) (RCC_CSICFGR s)\<rparr>)"

definition osc_csi :: "(rcc \<Rightarrow> rcc) \<Rightarrow> osc_init \<Rightarrow> rcc \<Rightarrow> (hal_status \<times> rcc) option" where
  "osc_csi hw i s =
     (let state = osc_csi_state i; adjust = (\<lambda>t. Some (HAL_OK, csi_calibration (osc_csi_calibration i) t))
      in if osc_type i AND RCC_OSCILLATORTYPE_CSI \<noteq> RCC_OSCILLATORTYPE_CSI then Some (HAL_OK, s)
         else if state \<notin> {RCC_CSI_OFF, RCC_CSI_ON} \<or> 0x3F < osc_csi_calibration i then None
         else if sysclk_source s = RCC_CFGR_SWS_CSI \<or>
              sysclk_source s = RCC_CFGR_SWS_PLL1 \<and> RCC_PLLCKSELR s AND RCC_PLLCKSELR_PLLSRC = RCC_PLLCKSELR_PLLSRC_CSI
         then (if rcc_flag RCC_FLAG_CSIRDY s \<and> state \<noteq> RCC_CSI_ON then Some (HAL_ERROR, s) else adjust s)
         else if state \<noteq> RCC_CSI_OFF then
           and_then (wait_for hw CSI_TIMEOUT_VALUE (rcc_flag RCC_FLAG_CSIRDY)) adjust
             (s\<lparr>RCC_CR := RCC_CR s OR RCC_CR_CSION\<rparr>)
         else wait_for hw CSI_TIMEOUT_VALUE (\<lambda>t. \<not> rcc_flag RCC_FLAG_CSIRDY t)
                (s\<lparr>RCC_CR := RCC_CR s AND NOT RCC_CR_CSION\<rparr>))"

definition osc_lsi :: "(rcc \<Rightarrow> rcc) \<Rightarrow> osc_init \<Rightarrow> rcc \<Rightarrow> (hal_status \<times> rcc) option" where
  "osc_lsi hw i s =
     (let state = osc_lsi_state i
      in if osc_type i AND RCC_OSCILLATORTYPE_LSI \<noteq> RCC_OSCILLATORTYPE_LSI then Some (HAL_OK, s)
         else if state \<notin> {RCC_LSI_OFF, RCC_LSI_ON} then None
         else if state \<noteq> RCC_LSI_OFF then
           wait_for hw LSI_TIMEOUT_VALUE (rcc_flag RCC_FLAG_LSIRDY) (s\<lparr>RCC_CSR := RCC_CSR s OR RCC_CSR_LSION\<rparr>)
         else wait_for hw LSI_TIMEOUT_VALUE (\<lambda>t. \<not> rcc_flag RCC_FLAG_LSIRDY t)
                (s\<lparr>RCC_CSR := RCC_CSR s AND NOT RCC_CSR_LSION\<rparr>))"

definition osc_hsi48 :: "(rcc \<Rightarrow> rcc) \<Rightarrow> osc_init \<Rightarrow> rcc \<Rightarrow> (hal_status \<times> rcc) option" where
  "osc_hsi48 hw i s =
     (let state = osc_hsi48_state i
      in if osc_type i AND RCC_OSCILLATORTYPE_HSI48 \<noteq> RCC_OSCILLATORTYPE_HSI48 then Some (HAL_OK, s)
         else if state \<notin> {RCC_HSI48_OFF, RCC_HSI48_ON} then None
         else if state \<noteq> RCC_HSI48_OFF then
           wait_for hw HSI48_TIMEOUT_VALUE (rcc_flag RCC_FLAG_HSI48RDY) (s\<lparr>RCC_CR := RCC_CR s OR RCC_CR_HSI48ON\<rparr>)
         else wait_for hw HSI48_TIMEOUT_VALUE (\<lambda>t. \<not> rcc_flag RCC_FLAG_HSI48RDY t)
                (s\<lparr>RCC_CR := RCC_CR s AND NOT RCC_CR_HSI48ON\<rparr>))"

definition lse_config :: "u32 \<Rightarrow> rcc \<Rightarrow> rcc" where
  "lse_config state s =
     (if state = RCC_LSE_ON then s\<lparr>RCC_BDCR := RCC_BDCR s OR RCC_BDCR_LSEON\<rparr>
      else if state = RCC_LSE_BYPASS then s\<lparr>RCC_BDCR := (RCC_BDCR s OR RCC_BDCR_LSEBYP) OR RCC_BDCR_LSEON\<rparr>
      else s\<lparr>RCC_BDCR := (RCC_BDCR s AND NOT RCC_BDCR_LSEON) AND NOT RCC_BDCR_LSEBYP\<rparr>)"

definition osc_lse :: "(rcc \<Rightarrow> rcc) \<Rightarrow> osc_init \<Rightarrow> rcc \<Rightarrow> (hal_status \<times> rcc) option" where
  "osc_lse hw i s =
     (let state = osc_lse_state i
      in if osc_type i AND RCC_OSCILLATORTYPE_LSE \<noteq> RCC_OSCILLATORTYPE_LSE then Some (HAL_OK, s)
         else if state \<notin> {RCC_LSE_OFF, RCC_LSE_ON, RCC_LSE_BYPASS} then None
         else and_then (wait_for hw RCC_DBP_TIMEOUT_VALUE (\<lambda>t. PWR_CR1 t AND PWR_CR1_DBP \<noteq> 0))
           (\<lambda>t. wait_for hw RCC_LSE_TIMEOUT_VALUE (\<lambda>u. rcc_flag RCC_FLAG_LSERDY u = (state \<noteq> RCC_LSE_OFF))
              (lse_config state t))
           (s\<lparr>PWR_CR1 := PWR_CR1 s OR PWR_CR1_DBP\<rparr>))"

section \<open>The main PLL\<close>

definition pll_asserts :: "pll_init \<Rightarrow> bool" where
  "pll_asserts p \<longleftrightarrow>
     pll_source p \<in> {RCC_PLLSOURCE_CSI, RCC_PLLSOURCE_HSI, RCC_PLLSOURCE_NONE, RCC_PLLSOURCE_HSE} \<and>
     pll_rge p \<in> {RCC_PLL1VCIRANGE_0, RCC_PLL1VCIRANGE_1, RCC_PLL1VCIRANGE_2, RCC_PLL1VCIRANGE_3} \<and>
     pll_vcosel p \<in> {RCC_PLL1VCOWIDE, RCC_PLL1VCOMEDIUM} \<and>
     1 \<le> pll_m p \<and> pll_m p \<le> 63 \<and> 4 \<le> pll_n p \<and> pll_n p \<le> 512 \<and>
     1 \<le> pll_p p \<and> pll_p p \<le> 128 \<and> 1 \<le> pll_q p \<and> pll_q p \<le> 128 \<and> 1 \<le> pll_r p \<and> pll_r p \<le> 128 \<and>
     pll_fracn p \<le> 8191"

text \<open>The divider register of a PLL: each factor less one, in its field.\<close>

definition pll_divr :: "u32 \<Rightarrow> u32 \<Rightarrow> u32 \<Rightarrow> u32 \<Rightarrow> u32" where
  "pll_divr n p q r =
     ((n - 1) AND RCC_PLL1DIVR_N1) OR (push_bit 9 (p - 1) AND RCC_PLL1DIVR_P1) OR
     (push_bit 16 (q - 1) AND RCC_PLL1DIVR_Q1) OR (push_bit 24 (r - 1) AND RCC_PLL1DIVR_R1)"

definition pll_config :: "pll_init \<Rightarrow> rcc \<Rightarrow> rcc" where
  "pll_config p s =
     s\<lparr>RCC_PLLCKSELR := modified (RCC_PLLCKSELR_PLLSRC OR RCC_PLLCKSELR_DIVM1)
         (pll_source p OR push_bit 4 (pll_m p)) (RCC_PLLCKSELR s),
       RCC_PLL1DIVR := pll_divr (pll_n p) (pll_p p) (pll_q p) (pll_r p)\<rparr>"

definition pll_fracn_disable :: "rcc \<Rightarrow> rcc" where
  "pll_fracn_disable s = s\<lparr>RCC_PLLCFGR := RCC_PLLCFGR s AND NOT RCC_PLLCFGR_PLL1FRACEN\<rparr>"

definition pll_fracn_enable :: "rcc \<Rightarrow> rcc" where
  "pll_fracn_enable s = s\<lparr>RCC_PLLCFGR := RCC_PLLCFGR s OR RCC_PLLCFGR_PLL1FRACEN\<rparr>"

definition pll_fracn_config :: "u32 \<Rightarrow> rcc \<Rightarrow> rcc" where
  "pll_fracn_config n s =
     s\<lparr>RCC_PLL1FRACR := modified RCC_PLL1FRACR_FRACN1 (push_bit RCC_PLL1FRACR_FRACN1_Pos n) (RCC_PLL1FRACR s)\<rparr>"

text \<open>Between the two waits: factors, fraction, ranges, outputs.\<close>

definition pll_program :: "pll_init \<Rightarrow> rcc \<Rightarrow> rcc" where
  "pll_program p s =
     (let s1 = pll_fracn_config (pll_fracn p) (pll_fracn_disable (pll_config p s));
          s2 = s1\<lparr>RCC_PLLCFGR := modified RCC_PLLCFGR_PLL1RGE (pll_rge p) (RCC_PLLCFGR s1)\<rparr>;
          s3 = s2\<lparr>RCC_PLLCFGR := modified RCC_PLLCFGR_PLL1VCOSEL (pll_vcosel p) (RCC_PLLCFGR s2)\<rparr>;
          s4 = s3\<lparr>RCC_PLLCFGR := ((RCC_PLLCFGR s3 OR RCC_PLL1_DIVP) OR RCC_PLL1_DIVQ) OR RCC_PLL1_DIVR\<rparr>;
          s5 = pll_fracn_enable s4
      in s5\<lparr>RCC_CR := RCC_CR s5 OR RCC_CR_PLL1ON\<rparr>)"

text \<open>What of a request differs from the running PLL.\<close>

definition pll_differs :: "pll_init \<Rightarrow> rcc \<Rightarrow> bool" where
  "pll_differs p s \<longleftrightarrow>
     pll_state p = RCC_PLL_OFF \<or>
     RCC_PLLCKSELR s AND RCC_PLLCKSELR_PLLSRC \<noteq> pll_source p \<or>
     drop_bit RCC_PLLCKSELR_DIVM1_Pos (RCC_PLLCKSELR s AND RCC_PLLCKSELR_DIVM1) \<noteq> pll_m p \<or>
     RCC_PLL1DIVR s AND RCC_PLL1DIVR_N1 \<noteq> pll_n p - 1 \<or>
     drop_bit RCC_PLL1DIVR_P1_Pos (RCC_PLL1DIVR s AND RCC_PLL1DIVR_P1) \<noteq> pll_p p - 1 \<or>
     drop_bit RCC_PLL1DIVR_Q1_Pos (RCC_PLL1DIVR s AND RCC_PLL1DIVR_Q1) \<noteq> pll_q p - 1 \<or>
     drop_bit RCC_PLL1DIVR_R1_Pos (RCC_PLL1DIVR s AND RCC_PLL1DIVR_R1) \<noteq> pll_r p - 1"

definition pll_fraction :: "(rcc \<Rightarrow> rcc) \<Rightarrow> pll_init \<Rightarrow> rcc \<Rightarrow> (hal_status \<times> rcc) option" where
  "pll_fraction hw p s =
     (if pll_fracn p = drop_bit RCC_PLL1FRACR_FRACN1_Pos (RCC_PLL1FRACR s AND RCC_PLL1FRACR_FRACN1) then Some (HAL_OK, s)
      else if 8191 < pll_fracn p then None
      else rcc_delay hw PLL_FRAC_TIMEOUT_VALUE (uwTick s) (pll_fracn_disable s) \<bind>
        (\<lambda>t. Some (HAL_OK, pll_fracn_enable (pll_fracn_config (pll_fracn p) t))))"

definition osc_pll_config :: "(rcc \<Rightarrow> rcc) \<Rightarrow> pll_init \<Rightarrow> rcc \<Rightarrow> (hal_status \<times> rcc) option" where
  "osc_pll_config hw p s =
     (let off = wait_for hw PLL_TIMEOUT_VALUE (\<lambda>t. \<not> rcc_flag RCC_FLAG_PLLRDY t)
            (s\<lparr>RCC_CR := RCC_CR s AND NOT RCC_CR_PLL1ON\<rparr>)
      in if pll_state p \<notin> {RCC_PLL_NONE, RCC_PLL_OFF, RCC_PLL_ON} then None
         else if pll_state p = RCC_PLL_NONE then Some (HAL_OK, s)
         else if sysclk_source s \<noteq> RCC_CFGR_SWS_PLL1 then
           (if pll_state p = RCC_PLL_ON then
              (if \<not> pll_asserts p then None
               else and_then (\<lambda>_. off)
                 (\<lambda>t. wait_for hw PLL_TIMEOUT_VALUE (rcc_flag RCC_FLAG_PLLRDY) (pll_program p t)) s)
            else off)
         else if pll_differs p s then Some (HAL_ERROR, s)
         else pll_fraction hw p s)"

section \<open>The whole configuration\<close>

definition oscillatortype_ok :: "u32 \<Rightarrow> bool" where
  "oscillatortype_ok t \<longleftrightarrow> t = RCC_OSCILLATORTYPE_NONE \<or>
     (\<exists>x \<in> {RCC_OSCILLATORTYPE_HSE, RCC_OSCILLATORTYPE_HSI, RCC_OSCILLATORTYPE_CSI, RCC_OSCILLATORTYPE_LSI,
        RCC_OSCILLATORTYPE_LSE, RCC_OSCILLATORTYPE_HSI48}. t AND x = x)"

definition HAL_RCC_OscConfig :: "(rcc \<Rightarrow> rcc) \<Rightarrow> osc_init \<Rightarrow> rcc \<Rightarrow> (hal_status \<times> rcc) option" where
  "HAL_RCC_OscConfig hw i s =
     (if \<not> oscillatortype_ok (osc_type i) then None
      else and_then (osc_hse hw i) (and_then (osc_hsi hw i) (and_then (osc_csi hw i) (and_then (osc_lsi hw i)
        (and_then (osc_hsi48 hw i) (and_then (osc_lse hw i) (osc_pll_config hw (osc_pll i))))))) s)"

definition HAL_RCC_GetOscConfig :: "rcc \<Rightarrow> osc_init" where
  "HAL_RCC_GetOscConfig s =
     \<lparr>osc_type = RCC_OSCILLATORTYPE_HSE OR RCC_OSCILLATORTYPE_HSI OR RCC_OSCILLATORTYPE_CSI OR RCC_OSCILLATORTYPE_LSE OR
        RCC_OSCILLATORTYPE_LSI OR RCC_OSCILLATORTYPE_HSI48,
      osc_hse_state = (if RCC_CR s AND RCC_CR_HSEBYP = RCC_CR_HSEBYP then RCC_HSE_BYPASS
        else if RCC_CR s AND RCC_CR_HSEON = RCC_CR_HSEON then RCC_HSE_ON else RCC_HSE_OFF),
      osc_lse_state = (if RCC_BDCR s AND RCC_BDCR_LSEBYP = RCC_BDCR_LSEBYP then RCC_LSE_BYPASS
        else if RCC_BDCR s AND RCC_BDCR_LSEON = RCC_BDCR_LSEON then RCC_LSE_ON else RCC_LSE_OFF),
      osc_hsi_state = (if RCC_CR s AND RCC_CR_HSION = RCC_CR_HSION then RCC_HSI_ON else RCC_HSI_OFF),
      osc_hsi_calibration = (if HAL_GetREVID s \<le> REV_ID_Y
        then drop_bit HAL_RCC_REV_Y_HSITRIM_Pos (RCC_HSICFGR s AND HAL_RCC_REV_Y_HSITRIM_Msk)
        else drop_bit RCC_HSICFGR_HSITRIM_Pos (RCC_HSICFGR s AND RCC_HSICFGR_HSITRIM)),
      osc_lsi_state = (if RCC_CSR s AND RCC_CSR_LSION = RCC_CSR_LSION then RCC_LSI_ON else RCC_LSI_OFF),
      osc_hsi48_state = (if RCC_CR s AND RCC_CR_HSI48ON = RCC_CR_HSI48ON then RCC_HSI48_ON else RCC_HSI48_OFF),
      osc_csi_state = (if RCC_CR s AND RCC_CR_CSION = RCC_CR_CSION then RCC_CSI_ON else RCC_CSI_OFF),
      osc_csi_calibration = (if HAL_GetREVID s \<le> REV_ID_Y
        then drop_bit HAL_RCC_REV_Y_CSITRIM_Pos (RCC_HSICFGR s AND HAL_RCC_REV_Y_CSITRIM_Msk)
        else drop_bit RCC_CSICFGR_CSITRIM_Pos (RCC_CSICFGR s AND RCC_CSICFGR_CSITRIM)),
      osc_pll =
        \<lparr>pll_state = (if RCC_CR s AND RCC_CR_PLLON = RCC_CR_PLLON then RCC_PLL_ON else RCC_PLL_OFF),
         pll_source = RCC_PLLCKSELR s AND RCC_PLLCKSELR_PLLSRC,
         pll_m = drop_bit RCC_PLLCKSELR_DIVM1_Pos (RCC_PLLCKSELR s AND RCC_PLLCKSELR_DIVM1),
         pll_n = drop_bit RCC_PLL1DIVR_N1_Pos (RCC_PLL1DIVR s AND RCC_PLL1DIVR_N1) + 1,
         pll_p = drop_bit RCC_PLL1DIVR_P1_Pos (RCC_PLL1DIVR s AND RCC_PLL1DIVR_P1) + 1,
         pll_q = drop_bit RCC_PLL1DIVR_Q1_Pos (RCC_PLL1DIVR s AND RCC_PLL1DIVR_Q1) + 1,
         pll_r = drop_bit RCC_PLL1DIVR_R1_Pos (RCC_PLL1DIVR s AND RCC_PLL1DIVR_R1) + 1,
         pll_rge = RCC_PLLCFGR s AND RCC_PLLCFGR_PLL1RGE,
         pll_vcosel = drop_bit RCC_PLLCFGR_PLL1VCOSEL_Pos (RCC_PLLCFGR s AND RCC_PLLCFGR_PLL1VCOSEL),
         pll_fracn = drop_bit RCC_PLL1FRACR_FRACN1_Pos (RCC_PLL1FRACR s AND RCC_PLL1FRACR_FRACN1)\<rparr>\<rparr>"

section \<open>What a wait returns\<close>

lemma rcc_wait_keeps:
  assumes keep: "\<And>s. P s \<Longrightarrow> P (hw s)" and run: "rcc_wait hw limit ok start s = Some x" and "P s"
  shows "P (snd x)"
proof -
  have "hw = hw \<longrightarrow> P s \<longrightarrow> P (snd x)"
  proof (rule rcc_wait.raw_induct [where P = "\<lambda>h l k st u y. h = hw \<longrightarrow> P u \<longrightarrow> P (snd y)", OF _ run])
    fix f h l k st u y
    assume ih: "\<And>h l k st u y. f h l k st u = Some y \<Longrightarrow> h = hw \<longrightarrow> P u \<longrightarrow> P (snd y)"
      and eq: "(let s1 = h u; s2 = h s1
        in if k s1 then Some (HAL_OK, s1) else if l < uwTick s2 - st then Some (HAL_TIMEOUT, s2) else f h l k st s2) = Some y"
    show "h = hw \<longrightarrow> P u \<longrightarrow> P (snd y)"
    proof (intro impI)
      assume h: "h = hw" and u: "P u"
      have p: "P (hw u)" "P (hw (hw u))" using keep u by blast+
      show "P (snd y)"
        using eq p ih [of h l k st "hw (hw u)" y] by (auto simp: h Let_def split: if_splits)
    qed
  qed
  then show ?thesis using assms(3) by blast
qed

lemma wait_for_keeps:
  "(\<And>s. P s \<Longrightarrow> P (hw s)) \<Longrightarrow> wait_for hw limit ok s = Some (r, t) \<Longrightarrow> P s \<Longrightarrow> P t"
  unfolding wait_for_def by (drule (1) rcc_wait_keeps [where P = P]) auto

text \<open>The condition comes true within \<open>k\<close> rounds, and until then the limit is not exceeded.\<close>

lemma rcc_wait_ok:
  assumes "ok ((hw ^^ Suc (2 * k)) s)" "\<And>j. j < k \<Longrightarrow> uwTick ((hw ^^ (2 * j + 2)) s) - start \<le> limit"
  shows "\<exists>m \<le> k. rcc_wait hw limit ok start s = Some (HAL_OK, (hw ^^ Suc (2 * m)) s) \<and> ok ((hw ^^ Suc (2 * m)) s)"
  using assms
proof (induction k arbitrary: s)
  case 0
  then show ?case by (subst rcc_wait.simps) simp
next
  case (Suc k)
  show ?case
  proof (cases "ok (hw s)")
    case True
    then show ?thesis by (intro exI [of _ 0]) (subst rcc_wait.simps, simp)
  next
    case False
    let ?s = "hw (hw s)"
    have r: "(hw ^^ n) ?s = (hw ^^ (n + 2)) s" for n by (simp add: funpow_swap1)
    have "uwTick ?s - start \<le> limit" using Suc.prems(2) [of 0] by (simp add: numeral_2_eq_2)
    then have "rcc_wait hw limit ok start s = rcc_wait hw limit ok start ?s"
      using False by (subst rcc_wait.simps) (simp add: Let_def not_less [symmetric])
    moreover have "\<exists>m \<le> k. rcc_wait hw limit ok start ?s = Some (HAL_OK, (hw ^^ Suc (2 * m)) ?s) \<and> ok ((hw ^^ Suc (2 * m)) ?s)"
    proof (rule Suc.IH)
      show "ok ((hw ^^ Suc (2 * k)) ?s)" using Suc.prems(1) unfolding r by (simp add: algebra_simps)
      show "uwTick ((hw ^^ (2 * j + 2)) ?s) - start \<le> limit" if "j < k" for j
        using Suc.prems(2) [of "Suc j"] that unfolding r by (simp add: algebra_simps)
    qed
    ultimately show ?thesis unfolding r by (metis Suc_le_mono add_Suc mult_Suc_right add.commute)
  qed
qed

text \<open>The condition stays false until the limit is exceeded.\<close>

lemma rcc_wait_timeout:
  assumes "\<And>j. j \<le> k \<Longrightarrow> \<not> ok ((hw ^^ Suc (2 * j)) s)" "limit < uwTick ((hw ^^ (2 * k + 2)) s) - start"
  shows "\<exists>t. rcc_wait hw limit ok start s = Some (HAL_TIMEOUT, t)"
  using assms
proof (induction k arbitrary: s)
  case 0
  then show ?case by (subst rcc_wait.simps) (simp add: numeral_2_eq_2 Let_def)
next
  case (Suc k)
  let ?s = "hw (hw s)"
  have r: "(hw ^^ n) ?s = (hw ^^ (n + 2)) s" for n by (simp add: funpow_swap1)
  have "\<exists>t. rcc_wait hw limit ok start ?s = Some (HAL_TIMEOUT, t)"
  proof (rule Suc.IH)
    show "\<not> ok ((hw ^^ Suc (2 * j)) ?s)" if "j \<le> k" for j
      using Suc.prems(1) [of "Suc j"] that unfolding r by (simp add: algebra_simps)
    show "limit < uwTick ((hw ^^ (2 * k + 2)) ?s) - start"
      using Suc.prems(2) unfolding r by (simp add: algebra_simps)
  qed
  then show ?case using Suc.prems(1) [of 0] by (subst rcc_wait.simps) (auto simp: Let_def)
qed

section \<open>The PLL reads back as it was configured\<close>

lemma pll_masks:
  "RCC_PLL1DIVR_N1 = mask 9" "RCC_PLL1DIVR_P1 = push_bit 9 (mask 7)" "RCC_PLL1DIVR_Q1 = push_bit 16 (mask 7)"
  "RCC_PLL1DIVR_R1 = push_bit 24 (mask 7)" "RCC_PLLCKSELR_PLLSRC = mask 2" "RCC_PLLCKSELR_DIVM1 = push_bit 4 (mask 6)"
  "RCC_PLL1FRACR_FRACN1 = push_bit 3 (mask 13)" "RCC_PLLCFGR_PLL1RGE = push_bit 2 (mask 2)"
  "RCC_PLLCFGR_PLL1VCOSEL = push_bit 1 (mask 1)" "RCC_PLLCFGR_PLL1FRACEN = mask 1"
  by code_simp+

lemma pll_divr_bit:
  "k < 32 \<Longrightarrow> bit (pll_divr n p q r) k \<longleftrightarrow>
     k < 9 \<and> bit (n - 1) k \<or> 9 \<le> k \<and> k < 16 \<and> bit (p - 1) (k - 9) \<or> 16 \<le> k \<and> k < 23 \<and> bit (q - 1) (k - 16) \<or>
     24 \<le> k \<and> k < 31 \<and> bit (r - 1) (k - 24)"
  unfolding pll_divr_def pll_masks by (auto simp: bit_simps)

lemma pll_divr_fields:
  assumes "n - 1 < 2 ^ 9" "p - 1 < 2 ^ 7" "q - 1 < 2 ^ 7" "r - 1 < 2 ^ 7"
  shows "pll_divr n p q r AND RCC_PLL1DIVR_N1 = n - 1" "drop_bit 9 (pll_divr n p q r AND RCC_PLL1DIVR_P1) = p - 1"
    "drop_bit 16 (pll_divr n p q r AND RCC_PLL1DIVR_Q1) = q - 1" "drop_bit 24 (pll_divr n p q r AND RCC_PLL1DIVR_R1) = r - 1"
proof -
  note z = bit_below [OF assms(1)] bit_below [OF assms(2)] bit_below [OF assms(3)] bit_below [OF assms(4)]
  have "bit (pll_divr n p q r AND RCC_PLL1DIVR_N1) k = bit (n - 1) k" if "k < 32" for k
    using z(1) [of k] that by (auto simp: pll_masks bit_simps pll_divr_bit)
  then show "pll_divr n p q r AND RCC_PLL1DIVR_N1 = n - 1" by (intro bit_word_eqI) simp
  have "bit (drop_bit 9 (pll_divr n p q r AND RCC_PLL1DIVR_P1)) k = bit (p - 1) k" if "k < 32" for k
    using z(2) [of k] that by (auto simp: pll_masks bit_simps pll_divr_bit)
  then show "drop_bit 9 (pll_divr n p q r AND RCC_PLL1DIVR_P1) = p - 1" by (intro bit_word_eqI) simp
  have "bit (drop_bit 16 (pll_divr n p q r AND RCC_PLL1DIVR_Q1)) k = bit (q - 1) k" if "k < 32" for k
    using z(3) [of k] that by (auto simp: pll_masks bit_simps pll_divr_bit)
  then show "drop_bit 16 (pll_divr n p q r AND RCC_PLL1DIVR_Q1) = q - 1" by (intro bit_word_eqI) simp
  have "bit (drop_bit 24 (pll_divr n p q r AND RCC_PLL1DIVR_R1)) k = bit (r - 1) k" if "k < 32" for k
    using z(4) [of k] that by (auto simp: pll_masks bit_simps pll_divr_bit)
  then show "drop_bit 24 (pll_divr n p q r AND RCC_PLL1DIVR_R1) = r - 1" by (intro bit_word_eqI) simp
qed

text \<open>
  The bits that only the hardware changes: ready flags and the status of the system clock switch.
  \<open>settings\<close> is the rest of the state; \<open>status_only\<close> and \<open>stable_source\<close> say that the hardware leaves the
  rest alone, and that the system clock stays where the switch has been put.
\<close>

definition rcc_status :: u32 where "rcc_status = 0x2A02E124"
definition low_status :: u32 where "low_status = 2"

definition settings :: "rcc \<Rightarrow> rcc" where
  "settings s = s\<lparr>RCC_CR := RCC_CR s AND NOT rcc_status, RCC_CFGR := RCC_CFGR s AND NOT RCC_CFGR_SWS,
     RCC_BDCR := RCC_BDCR s AND NOT low_status, RCC_CSR := RCC_CSR s AND NOT low_status, RCC_CIFR := 0, RCC_RSR := 0,
     SysTick_VAL := 0, SysTick_CTRL := SysTick_CTRL s AND 7, uwTick := 0,
     rcc_polls := 0\<rparr>"

definition status_only :: "(rcc \<Rightarrow> rcc) \<Rightarrow> bool" where
  "status_only hw \<longleftrightarrow> (\<forall>s. settings (hw s) = settings s)"

definition source_settled :: "rcc \<Rightarrow> bool" where
  "source_settled s \<longleftrightarrow> sysclk_source s = push_bit 3 (RCC_CFGR s AND RCC_CFGR_SW)"

definition stable_source :: "(rcc \<Rightarrow> rcc) \<Rightarrow> bool" where
  "stable_source hw \<longleftrightarrow> (\<forall>s. source_settled s \<longrightarrow> sysclk_source (hw s) = sysclk_source s)"

lemma settings_eq:
  assumes "settings t = settings s"
  shows "RCC_PLLCKSELR t = RCC_PLLCKSELR s" "RCC_PLLCFGR t = RCC_PLLCFGR s" "RCC_PLL1DIVR t = RCC_PLL1DIVR s"
    "RCC_PLL1FRACR t = RCC_PLL1FRACR s" "RCC_PLL3DIVR t = RCC_PLL3DIVR s" "RCC_PLL3FRACR t = RCC_PLL3FRACR s"
    "RCC_D1CFGR t = RCC_D1CFGR s" "RCC_D2CFGR t = RCC_D2CFGR s" "RCC_D3CFGR t = RCC_D3CFGR s"
    "RCC_D1CCIPR t = RCC_D1CCIPR s" "FLASH_ACR t = FLASH_ACR s" "RCC_CR t AND NOT rcc_status = RCC_CR s AND NOT rcc_status"
    "RCC_CFGR t AND NOT RCC_CFGR_SWS = RCC_CFGR s AND NOT RCC_CFGR_SWS"
    "SystemCoreClock t = SystemCoreClock s" "SystemD2Clock t = SystemD2Clock s" "uwTickPrio t = uwTickPrio s"
    "SysTick_LOAD t = SysTick_LOAD s"
proof -
  note eq = arg_cong [OF assms]
  show "RCC_PLLCKSELR t = RCC_PLLCKSELR s" using eq [of RCC_PLLCKSELR] by (simp add: settings_def)
  show "RCC_PLLCFGR t = RCC_PLLCFGR s" using eq [of RCC_PLLCFGR] by (simp add: settings_def)
  show "RCC_PLL1DIVR t = RCC_PLL1DIVR s" using eq [of RCC_PLL1DIVR] by (simp add: settings_def)
  show "RCC_PLL1FRACR t = RCC_PLL1FRACR s" using eq [of RCC_PLL1FRACR] by (simp add: settings_def)
  show "RCC_PLL3DIVR t = RCC_PLL3DIVR s" using eq [of RCC_PLL3DIVR] by (simp add: settings_def)
  show "RCC_PLL3FRACR t = RCC_PLL3FRACR s" using eq [of RCC_PLL3FRACR] by (simp add: settings_def)
  show "RCC_D1CFGR t = RCC_D1CFGR s" using eq [of RCC_D1CFGR] by (simp add: settings_def)
  show "RCC_D2CFGR t = RCC_D2CFGR s" using eq [of RCC_D2CFGR] by (simp add: settings_def)
  show "RCC_D3CFGR t = RCC_D3CFGR s" using eq [of RCC_D3CFGR] by (simp add: settings_def)
  show "RCC_D1CCIPR t = RCC_D1CCIPR s" using eq [of RCC_D1CCIPR] by (simp add: settings_def)
  show "FLASH_ACR t = FLASH_ACR s" using eq [of FLASH_ACR] by (simp add: settings_def)
  show "RCC_CR t AND NOT rcc_status = RCC_CR s AND NOT rcc_status" using eq [of RCC_CR] by (simp add: settings_def)
  show "RCC_CFGR t AND NOT RCC_CFGR_SWS = RCC_CFGR s AND NOT RCC_CFGR_SWS" using eq [of RCC_CFGR] by (simp add: settings_def)
  show "SystemCoreClock t = SystemCoreClock s" using eq [of SystemCoreClock] by (simp add: settings_def)
  show "SystemD2Clock t = SystemD2Clock s" using eq [of SystemD2Clock] by (simp add: settings_def)
  show "uwTickPrio t = uwTickPrio s" using eq [of uwTickPrio] by (simp add: settings_def)
  show "SysTick_LOAD t = SysTick_LOAD s" using eq [of SysTick_LOAD] by (simp add: settings_def)
qed

text \<open>A field outside the status bits has the same value in two states with the same settings.\<close>

lemma same_field:
  assumes "(x :: u32) AND NOT m = y AND NOT m" "c AND NOT m = c"
  shows "x AND c = y AND c"
proof -
  have c: "NOT m AND c = c" using assms(2) by (simp add: and.commute)
  have "z AND c = (z AND NOT m) AND c" for z unfolding and.assoc c ..
  then show ?thesis using assms(1) by metis
qed

lemma settings_fields:
  assumes "settings t = settings s"
  shows "RCC_CR t AND RCC_CR_HSEON = RCC_CR s AND RCC_CR_HSEON" "RCC_CR t AND RCC_CR_PLL1ON = RCC_CR s AND RCC_CR_PLL1ON"
    "RCC_CR t AND RCC_CR_PLLON = RCC_CR s AND RCC_CR_PLLON" "RCC_CFGR t AND RCC_CFGR_SW = RCC_CFGR s AND RCC_CFGR_SW"
proof -
  show "RCC_CR t AND RCC_CR_HSEON = RCC_CR s AND RCC_CR_HSEON"
    by (rule same_field [OF settings_eq(12) [OF assms]]) (simp add: hal_consts rcc_status_def)
  show "RCC_CR t AND RCC_CR_PLL1ON = RCC_CR s AND RCC_CR_PLL1ON"
    by (rule same_field [OF settings_eq(12) [OF assms]]) (simp add: hal_consts rcc_status_def)
  show "RCC_CR t AND RCC_CR_PLLON = RCC_CR s AND RCC_CR_PLLON"
    by (rule same_field [OF settings_eq(12) [OF assms]]) (simp add: hal_consts rcc_status_def)
  show "RCC_CFGR t AND RCC_CFGR_SW = RCC_CFGR s AND RCC_CFGR_SW"
    by (rule same_field [OF settings_eq(13) [OF assms]]) (simp add: hal_consts)
qed

lemma wait_for_settings: "status_only hw \<Longrightarrow> wait_for hw limit ok s = Some (r, t) \<Longrightarrow> settings t = settings s"
  by (rule wait_for_keeps [where P = "\<lambda>x. settings x = settings s"]) (simp_all add: status_only_def)

lemma wait_for_result:
  assumes "wait_for hw limit ok s = Some (HAL_OK, t)"
  shows "ok t"
proof -
  have run: "rcc_wait hw limit ok (uwTick s) s = Some (HAL_OK, t)" using assms by (simp add: wait_for_def)
  have "fst (HAL_OK, t) = HAL_OK \<longrightarrow> ok (snd (HAL_OK, t))"
  proof (rule rcc_wait.raw_induct [where P = "\<lambda>h l k st u y. fst y = HAL_OK \<longrightarrow> k (snd y)", OF _ run])
    fix f h l k st u y
    assume ih: "\<And>h l k st u y. f h l k st u = Some y \<Longrightarrow> fst y = HAL_OK \<longrightarrow> k (snd y)"
      and eq: "(let s1 = h u; s2 = h s1
        in if k s1 then Some (HAL_OK, s1) else if l < uwTick s2 - st then Some (HAL_TIMEOUT, s2) else f h l k st s2) = Some y"
    show "fst y = HAL_OK \<longrightarrow> k (snd y)"
      using eq ih [of h l k st "h (h u)" y] by (auto simp: Let_def split: if_splits)
  qed
  then show ?thesis by simp
qed

text \<open>The oscillators are configured without a change of the system clock.\<close>

definition source_kept :: "u32 \<Rightarrow> rcc \<Rightarrow> bool" where
  "source_kept c s \<longleftrightarrow> sysclk_source s = c \<and> source_settled s"

lemma source_kept_updates [simp]:
  "source_kept c (s\<lparr>RCC_CR := v\<rparr>) = source_kept c s" "source_kept c (s\<lparr>RCC_BDCR := v\<rparr>) = source_kept c s"
  "source_kept c (s\<lparr>RCC_CSR := v\<rparr>) = source_kept c s" "source_kept c (s\<lparr>RCC_HSICFGR := v\<rparr>) = source_kept c s"
  "source_kept c (s\<lparr>RCC_CSICFGR := v\<rparr>) = source_kept c s" "source_kept c (s\<lparr>PWR_CR1 := v\<rparr>) = source_kept c s"
  by (simp_all add: source_kept_def sysclk_source_def source_settled_def)

lemma source_kept_hw:
  assumes "status_only hw" "stable_source hw" "source_kept c s"
  shows "source_kept c (hw s)"
proof -
  have "RCC_CFGR (hw s) AND RCC_CFGR_SW = RCC_CFGR s AND RCC_CFGR_SW"
    by (rule settings_fields(4)) (use assms(1) in \<open>simp add: status_only_def\<close>)
  then show ?thesis using assms(2,3) unfolding source_kept_def source_settled_def stable_source_def by metis
qed

lemma and_then_keeps:
  assumes "\<And>s r t. f s = Some (r, t) \<Longrightarrow> P s \<Longrightarrow> P t" "\<And>s r t. g s = Some (r, t) \<Longrightarrow> P s \<Longrightarrow> P t"
    and "and_then f g s = Some (r, u)" "P s"
  shows "P u"
proof -
  obtain q t where t: "f s = Some (q, t)" "(if q = HAL_OK then g t else Some (q, t)) = Some (r, u)"
    using assms(3) by (auto simp: and_then_def bind_eq_Some_conv)
  have "P t" using assms(1) t(1) assms(4) by blast
  then show ?thesis using t(2) assms(2) by (auto split: if_splits)
qed

lemma osc_keeps:
  assumes "status_only hw" "stable_source hw"
  shows "osc_hse hw i s = Some (r, t) \<Longrightarrow> source_kept c s \<Longrightarrow> source_kept c t"
    "osc_hsi hw i s = Some (r, t) \<Longrightarrow> source_kept c s \<Longrightarrow> source_kept c t"
    "osc_csi hw i s = Some (r, t) \<Longrightarrow> source_kept c s \<Longrightarrow> source_kept c t"
    "osc_lsi hw i s = Some (r, t) \<Longrightarrow> source_kept c s \<Longrightarrow> source_kept c t"
    "osc_hsi48 hw i s = Some (r, t) \<Longrightarrow> source_kept c s \<Longrightarrow> source_kept c t"
    "osc_lse hw i s = Some (r, t) \<Longrightarrow> source_kept c s \<Longrightarrow> source_kept c t"
proof -
  note w = wait_for_keeps [where P = "source_kept c" and hw = hw, OF source_kept_hw [OF assms]]
  have w': "source_kept c t" if "wait_for hw l k s = Some (r, t)" "source_kept c s" for l k s r t
    by (rule w [OF _ that])
  show "osc_hse hw i s = Some (r, t) \<Longrightarrow> source_kept c s \<Longrightarrow> source_kept c t"
    by (auto simp: osc_hse_def hse_config_def Let_def split: if_splits dest!: w')
  show "osc_hsi hw i s = Some (r, t) \<Longrightarrow> source_kept c s \<Longrightarrow> source_kept c t"
    by (auto simp: osc_hsi_def hsi_config_def hsi_calibration_def and_then_def bind_eq_Some_conv Let_def split: if_splits dest!: w')
  show "osc_csi hw i s = Some (r, t) \<Longrightarrow> source_kept c s \<Longrightarrow> source_kept c t"
    by (auto simp: osc_csi_def csi_calibration_def and_then_def bind_eq_Some_conv Let_def split: if_splits dest!: w')
  show "osc_lsi hw i s = Some (r, t) \<Longrightarrow> source_kept c s \<Longrightarrow> source_kept c t"
    by (auto simp: osc_lsi_def Let_def split: if_splits dest!: w')
  show "osc_hsi48 hw i s = Some (r, t) \<Longrightarrow> source_kept c s \<Longrightarrow> source_kept c t"
    by (auto simp: osc_hsi48_def Let_def split: if_splits dest!: w')
  show "osc_lse hw i s = Some (r, t) \<Longrightarrow> source_kept c s \<Longrightarrow> source_kept c t"
    by (auto simp: osc_lse_def lse_config_def and_then_def bind_eq_Some_conv Let_def split: if_splits dest!: w')
qed

text \<open>The fields of a programmed PLL.\<close>

lemma and_or_mask:
  "x < 2 ^ 2 \<Longrightarrow> y < 2 ^ 6 \<Longrightarrow> (x OR push_bit 4 y :: u32) AND mask 2 = x"
  "x < 2 ^ 2 \<Longrightarrow> y < 2 ^ 6 \<Longrightarrow> drop_bit 4 ((x OR push_bit 4 y :: u32) AND push_bit 4 (mask 6)) = y"
proof -
  assume a: "x < 2 ^ 2" "y < 2 ^ 6"
  have "bit ((x OR push_bit 4 y) AND mask 2) n = bit x n" for n
    using bit_below [OF a(1), of n] by (auto simp: bit_simps)
  then show "(x OR push_bit 4 y) AND mask 2 = x" by (intro bit_word_eqI) simp
  have "bit (drop_bit 4 ((x OR push_bit 4 y) AND push_bit 4 (mask 6))) n = bit y n" for n
    using bit_below [OF a(1), of "4 + n"] bit_below [OF a(2), of n] by (auto simp: bit_simps)
  then show "drop_bit 4 ((x OR push_bit 4 y) AND push_bit 4 (mask 6)) = y" by (intro bit_word_eqI) simp
qed

lemma modified_part: "d AND c = d \<Longrightarrow> c AND p = p \<Longrightarrow> modified c p v AND d = p AND d"
  using modified_and [of c p v] by (metis and.assoc and.commute)

lemma modified_other: "c AND d = 0 \<Longrightarrow> p AND d = 0 \<Longrightarrow> modified c p v AND d = v AND d"
  by (rule bit_word_eqI) (auto simp: bit_modified bit_and_iff dest: arg_cong [where f = "\<lambda>x. bit x _"])

lemma pll_config_fields:
  assumes "pll_source p < 2 ^ 2" "pll_m p < 2 ^ 6"
  shows "RCC_PLLCKSELR (pll_config p s) AND RCC_PLLCKSELR_PLLSRC = pll_source p"
    "drop_bit RCC_PLLCKSELR_DIVM1_Pos (RCC_PLLCKSELR (pll_config p s) AND RCC_PLLCKSELR_DIVM1) = pll_m p"
proof -
  let ?c = "mask 2 OR push_bit 4 (mask 6) :: u32" and ?p = "pll_source p OR push_bit 4 (pll_m p)"
  have "bit (?c AND ?p) n = bit ?p n" for n
    using bit_below [OF assms(1), of n] bit_below [OF assms(2), of "n - 4"] by (auto simp: bit_simps)
  then have c: "?c AND ?p = ?p" by (intro bit_word_eqI) simp
  have d: "mask 2 AND ?c = mask 2" "push_bit 4 (mask 6) AND ?c = push_bit 4 (mask 6)" by code_simp+
  show "RCC_PLLCKSELR (pll_config p s) AND RCC_PLLCKSELR_PLLSRC = pll_source p"
    using modified_part [OF d(1) c] and_or_mask(1) [OF assms] by (simp add: pll_config_def pll_masks)
  show "drop_bit RCC_PLLCKSELR_DIVM1_Pos (RCC_PLLCKSELR (pll_config p s) AND RCC_PLLCKSELR_DIVM1) = pll_m p"
    using modified_part [OF d(2) c] and_or_mask(2) [OF assms]
    by (simp add: pll_config_def pll_masks RCC_PLLCKSELR_DIVM1_Pos_def)
qed

lemma pll_program_simps:
  "RCC_PLLCKSELR (pll_program p s) = RCC_PLLCKSELR (pll_config p s)"
  "RCC_PLL1DIVR (pll_program p s) = pll_divr (pll_n p) (pll_p p) (pll_q p) (pll_r p)"
  "RCC_PLL1FRACR (pll_program p s) = modified RCC_PLL1FRACR_FRACN1 (push_bit RCC_PLL1FRACR_FRACN1_Pos (pll_fracn p)) (RCC_PLL1FRACR s)"
  "RCC_PLLCFGR (pll_program p s) =
     ((((modified RCC_PLLCFGR_PLL1VCOSEL (pll_vcosel p) (modified RCC_PLLCFGR_PLL1RGE (pll_rge p)
        (RCC_PLLCFGR s AND NOT RCC_PLLCFGR_PLL1FRACEN)) OR RCC_PLL1_DIVP) OR RCC_PLL1_DIVQ) OR RCC_PLL1_DIVR) OR
      RCC_PLLCFGR_PLL1FRACEN)"
  "RCC_CR (pll_program p s) = RCC_CR s OR RCC_CR_PLL1ON"
  by (simp_all add: pll_program_def pll_config_def pll_fracn_config_def pll_fracn_disable_def pll_fracn_enable_def Let_def)

lemma pll_asserts_bounds:
  assumes "pll_asserts p"
  shows "pll_source p < 2 ^ 2" "pll_m p < 2 ^ 6" "pll_n p - 1 < 2 ^ 9" "pll_p p - 1 < 2 ^ 7" "pll_q p - 1 < 2 ^ 7"
    "pll_r p - 1 < 2 ^ 7" "pll_fracn p < 2 ^ 13" "RCC_PLLCFGR_PLL1RGE AND pll_rge p = pll_rge p"
    "RCC_PLLCFGR_PLL1VCOSEL AND pll_vcosel p = pll_vcosel p"
proof -
  have b: "x - 1 < y" if "1 \<le> x" "x \<le> y" for x y :: u32
    using that by (simp add: word_le_nat_alt word_less_nat_alt unat_sub)
  have c: "x < y + 1" if "x \<le> y" "y < y + 1" for x y :: u32 using that by (rule order.strict_trans1)
  show "pll_source p < 2 ^ 2" using assms by (auto simp: pll_asserts_def hal_consts)
  show "pll_m p < 2 ^ 6" using assms c [of "pll_m p" 63] by (simp add: pll_asserts_def)
  have "1 \<le> pll_n p" using assms order_trans [of 1 4 "pll_n p"] by (simp add: pll_asserts_def)
  then show "pll_n p - 1 < 2 ^ 9" using assms b [of "pll_n p" 512] by (simp add: pll_asserts_def)
  show "pll_p p - 1 < 2 ^ 7" "pll_q p - 1 < 2 ^ 7" "pll_r p - 1 < 2 ^ 7"
    using assms b [of "pll_p p" 128] b [of "pll_q p" 128] b [of "pll_r p" 128] by (simp_all add: pll_asserts_def)
  show "pll_fracn p < 2 ^ 13" using assms c [of "pll_fracn p" 8191] by (simp add: pll_asserts_def)
  show "RCC_PLLCFGR_PLL1RGE AND pll_rge p = pll_rge p" "RCC_PLLCFGR_PLL1VCOSEL AND pll_vcosel p = pll_vcosel p"
    using assms by (auto simp: pll_asserts_def hal_consts)
qed

lemma pll_program_fields:
  assumes "pll_asserts p"
  shows "RCC_PLL1FRACR (pll_program p s) AND RCC_PLL1FRACR_FRACN1 = push_bit RCC_PLL1FRACR_FRACN1_Pos (pll_fracn p)"
    "RCC_PLLCFGR (pll_program p s) AND RCC_PLLCFGR_PLL1RGE = pll_rge p"
    "RCC_PLLCFGR (pll_program p s) AND RCC_PLLCFGR_PLL1VCOSEL = pll_vcosel p"
proof -
  note b = pll_asserts_bounds [OF assms]
  have "bit (push_bit 3 (mask 13) AND push_bit 3 (pll_fracn p)) n = bit (push_bit 3 (pll_fracn p)) n" for n
    using bit_below [OF b(7), of "n - 3"] by (auto simp: bit_simps)
  then have "push_bit 3 (mask 13) AND push_bit 3 (pll_fracn p) = push_bit 3 (pll_fracn p)" by (intro bit_word_eqI) simp
  then show "RCC_PLL1FRACR (pll_program p s) AND RCC_PLL1FRACR_FRACN1 = push_bit RCC_PLL1FRACR_FRACN1_Pos (pll_fracn p)"
    unfolding pll_program_simps by (intro modified_and) (simp only: pll_masks RCC_PLL1FRACR_FRACN1_Pos_def)
  have o: "(x OR y) AND d = x AND d" if "y AND d = 0" for x y d :: u32
    using that by (simp add: bit.conj_disj_distrib2)
  have z: "RCC_PLL1_DIVP AND RCC_PLLCFGR_PLL1RGE = 0" "RCC_PLL1_DIVQ AND RCC_PLLCFGR_PLL1RGE = 0"
      "RCC_PLL1_DIVR AND RCC_PLLCFGR_PLL1RGE = 0" "RCC_PLLCFGR_PLL1FRACEN AND RCC_PLLCFGR_PLL1RGE = 0"
      "RCC_PLL1_DIVP AND RCC_PLLCFGR_PLL1VCOSEL = 0" "RCC_PLL1_DIVQ AND RCC_PLLCFGR_PLL1VCOSEL = 0"
      "RCC_PLL1_DIVR AND RCC_PLLCFGR_PLL1VCOSEL = 0" "RCC_PLLCFGR_PLL1FRACEN AND RCC_PLLCFGR_PLL1VCOSEL = 0"
      "RCC_PLLCFGR_PLL1VCOSEL AND RCC_PLLCFGR_PLL1RGE = 0"
    by (simp_all add: hal_consts)
  have "(pll_vcosel p AND RCC_PLLCFGR_PLL1VCOSEL) AND RCC_PLLCFGR_PLL1RGE = 0" unfolding and.assoc z(9) by simp
  then have v: "pll_vcosel p AND RCC_PLLCFGR_PLL1RGE = 0" using b(9) by (simp only: and.commute [of "pll_vcosel p" RCC_PLLCFGR_PLL1VCOSEL])
  show "RCC_PLLCFGR (pll_program p s) AND RCC_PLLCFGR_PLL1RGE = pll_rge p"
    unfolding pll_program_simps o [OF z(1)] o [OF z(2)] o [OF z(3)] o [OF z(4)] modified_other [OF z(9) v]
    by (rule modified_and [OF b(8)])
  show "RCC_PLLCFGR (pll_program p s) AND RCC_PLLCFGR_PLL1VCOSEL = pll_vcosel p"
    unfolding pll_program_simps o [OF z(5)] o [OF z(6)] o [OF z(7)] o [OF z(8)] by (rule modified_and [OF b(9)])
qed

text \<open>A PLL that is switched on and is not the system clock is left programmed and ready.\<close>

lemma pll_switched_on:
  assumes "status_only hw" "osc_pll_config hw p s = Some (HAL_OK, t)" "pll_state p = RCC_PLL_ON"
    and "sysclk_source s \<noteq> RCC_CFGR_SWS_PLL1"
  shows "\<exists>u. settings t = settings (pll_program p u) \<and> pll_asserts p \<and> rcc_flag RCC_FLAG_PLLRDY t"
proof -
  let ?off = "wait_for hw PLL_TIMEOUT_VALUE (\<lambda>t. \<not> rcc_flag RCC_FLAG_PLLRDY t) (s\<lparr>RCC_CR := RCC_CR s AND NOT RCC_CR_PLL1ON\<rparr>)"
  have p: "pll_asserts p" using assms(2-4) by (auto simp: osc_pll_config_def Let_def hal_consts split: if_splits)
  have "RCC_PLL_ON \<noteq> RCC_PLL_NONE" by (simp add: hal_consts)
  then have "and_then (\<lambda>_. ?off) (\<lambda>t. wait_for hw PLL_TIMEOUT_VALUE (rcc_flag RCC_FLAG_PLLRDY) (pll_program p t)) s = Some (HAL_OK, t)"
    using assms(2-4) p by (simp add: osc_pll_config_def Let_def)
  then obtain q u where "?off = Some (q, u)"
      "(if q = HAL_OK then wait_for hw PLL_TIMEOUT_VALUE (rcc_flag RCC_FLAG_PLLRDY) (pll_program p u) else Some (q, u)) = Some (HAL_OK, t)"
    by (auto simp: and_then_def bind_eq_Some_conv)
  then have "wait_for hw PLL_TIMEOUT_VALUE (rcc_flag RCC_FLAG_PLLRDY) (pll_program p u) = Some (HAL_OK, t)"
    by (simp split: if_splits)
  then show ?thesis using wait_for_settings [OF assms(1)] wait_for_result p by blast
qed

lemma pll_kept:
  assumes "osc_pll_config hw p s = Some (HAL_OK, t)" "pll_state p = RCC_PLL_ON" "sysclk_source s = RCC_CFGR_SWS_PLL1"
  shows "\<not> pll_differs p s \<and> pll_fraction hw p s = Some (HAL_OK, t)"
proof -
  have "RCC_PLL_ON \<noteq> RCC_PLL_NONE" by (simp add: hal_consts)
  then show ?thesis using assms by (auto simp: osc_pll_config_def Let_def split: if_splits)
qed

lemma rcc_delay_keeps:
  assumes keep: "\<And>s. P s \<Longrightarrow> P (hw s)" and run: "rcc_delay hw n start s = Some x" and "P s"
  shows "P x"
proof -
  have "hw = hw \<longrightarrow> P s \<longrightarrow> P x"
  proof (rule rcc_delay.raw_induct [where P = "\<lambda>h l st u y. h = hw \<longrightarrow> P u \<longrightarrow> P y", OF _ run])
    fix f h l st u y
    assume ih: "\<And>h l st u y. f h l st u = Some y \<Longrightarrow> h = hw \<longrightarrow> P u \<longrightarrow> P y"
      and eq: "(let s1 = h u in if uwTick s1 - st < l then f h l st s1 else Some s1) = Some y"
    show "h = hw \<longrightarrow> P u \<longrightarrow> P y"
      using eq keep [of u] ih [of h l st "h u" y] by (auto simp: Let_def split: if_splits)
  qed
  then show ?thesis using assms(3) by blast
qed

lemma fraction_kept:
  assumes "status_only hw" "pll_fraction hw p s = Some (HAL_OK, t)"
  shows "RCC_PLLCKSELR t = RCC_PLLCKSELR s" "RCC_PLL1DIVR t = RCC_PLL1DIVR s"
    "drop_bit RCC_PLL1FRACR_FRACN1_Pos (RCC_PLL1FRACR t AND RCC_PLL1FRACR_FRACN1) = pll_fracn p"
proof -
  let ?f = "drop_bit RCC_PLL1FRACR_FRACN1_Pos (RCC_PLL1FRACR t AND RCC_PLL1FRACR_FRACN1)"
  have "RCC_PLLCKSELR t = RCC_PLLCKSELR s \<and> RCC_PLL1DIVR t = RCC_PLL1DIVR s \<and> ?f = pll_fracn p"
  proof (cases "pll_fracn p = drop_bit RCC_PLL1FRACR_FRACN1_Pos (RCC_PLL1FRACR s AND RCC_PLL1FRACR_FRACN1)")
    case True
    then show ?thesis using assms(2) by (simp add: pll_fraction_def)
  next
    case False
    then have le: "pll_fracn p \<le> 8191" using assms(2) by (auto simp: pll_fraction_def split: if_splits)
    obtain u where u: "rcc_delay hw PLL_FRAC_TIMEOUT_VALUE (uwTick s) (pll_fracn_disable s) = Some u"
        "t = pll_fracn_enable (pll_fracn_config (pll_fracn p) u)"
      using assms(2) False le by (auto simp: pll_fraction_def bind_eq_Some_conv split: if_splits)
    have "settings u = settings (pll_fracn_disable s)"
      by (rule rcc_delay_keeps [where P = "\<lambda>x. settings x = settings (pll_fracn_disable s)", OF _ u(1)])
        (use assms(1) in \<open>simp_all add: status_only_def\<close>)
    note e = settings_eq(1,3) [OF this]
    have "pll_fracn p < 2 ^ 13" using le order.strict_trans1 [of "pll_fracn p" 8191 8192] by simp
    note below = bit_below [OF this]
    have "bit ?f n = bit (pll_fracn p) n" for n
      using below [of n] by (auto simp: u(2) pll_fracn_enable_def pll_fracn_config_def bit_modified pll_masks
        RCC_PLL1FRACR_FRACN1_Pos_def bit_drop_bit_eq bit_and_iff bit_push_bit_iff bit_mask_iff)
    then have "?f = pll_fracn p" by (intro bit_word_eqI) simp
    then show ?thesis using e by (simp add: u(2) pll_fracn_enable_def pll_fracn_config_def pll_fracn_disable_def)
  qed
  then show "RCC_PLLCKSELR t = RCC_PLLCKSELR s" "RCC_PLL1DIVR t = RCC_PLL1DIVR s" "?f = pll_fracn p" by blast+
qed

lemma and_then_last:
  assumes "and_then f g s = Some (HAL_OK, u)"
  shows "\<exists>t. f s = Some (HAL_OK, t) \<and> g t = Some (HAL_OK, u)"
  using assms by (auto simp: and_then_def bind_eq_Some_conv split: if_splits)

lemma osc_config_stages:
  assumes "HAL_RCC_OscConfig hw i s = Some (HAL_OK, t)" "status_only hw" "stable_source hw" "source_settled s"
  shows "\<exists>u. osc_pll_config hw (osc_pll i) u = Some (HAL_OK, t) \<and> sysclk_source u = sysclk_source s"
proof -
  note keep = osc_keeps [OF assms(2,3), where c = "sysclk_source s"]
  have 0: "source_kept (sysclk_source s) s" using assms(4) by (simp add: source_kept_def)
  have run: "and_then (osc_hse hw i) (and_then (osc_hsi hw i) (and_then (osc_csi hw i) (and_then (osc_lsi hw i)
      (and_then (osc_hsi48 hw i) (and_then (osc_lse hw i) (osc_pll_config hw (osc_pll i))))))) s = Some (HAL_OK, t)"
    using assms(1) by (simp add: HAL_RCC_OscConfig_def split: if_splits)
  obtain u1 where u1: "osc_hse hw i s = Some (HAL_OK, u1)"
      "and_then (osc_hsi hw i) (and_then (osc_csi hw i) (and_then (osc_lsi hw i)
        (and_then (osc_hsi48 hw i) (and_then (osc_lse hw i) (osc_pll_config hw (osc_pll i)))))) u1 = Some (HAL_OK, t)"
    using and_then_last [OF run] by blast
  obtain u2 where u2: "osc_hsi hw i u1 = Some (HAL_OK, u2)"
      "and_then (osc_csi hw i) (and_then (osc_lsi hw i)
        (and_then (osc_hsi48 hw i) (and_then (osc_lse hw i) (osc_pll_config hw (osc_pll i))))) u2 = Some (HAL_OK, t)"
    using and_then_last [OF u1(2)] by blast
  obtain u3 where u3: "osc_csi hw i u2 = Some (HAL_OK, u3)"
      "and_then (osc_lsi hw i) (and_then (osc_hsi48 hw i) (and_then (osc_lse hw i) (osc_pll_config hw (osc_pll i)))) u3 = Some (HAL_OK, t)"
    using and_then_last [OF u2(2)] by blast
  obtain u4 where u4: "osc_lsi hw i u3 = Some (HAL_OK, u4)"
      "and_then (osc_hsi48 hw i) (and_then (osc_lse hw i) (osc_pll_config hw (osc_pll i))) u4 = Some (HAL_OK, t)"
    using and_then_last [OF u3(2)] by blast
  obtain u5 where u5: "osc_hsi48 hw i u4 = Some (HAL_OK, u5)"
      "and_then (osc_lse hw i) (osc_pll_config hw (osc_pll i)) u5 = Some (HAL_OK, t)"
    using and_then_last [OF u4(2)] by blast
  obtain u where u: "osc_lse hw i u5 = Some (HAL_OK, u)" "osc_pll_config hw (osc_pll i) u = Some (HAL_OK, t)"
    using and_then_last [OF u5(2)] by blast
  have "source_kept (sysclk_source s) u"
    using keep(6) [OF u(1) keep(5) [OF u5(1) keep(4) [OF u4(1) keep(3) [OF u3(1) keep(2) [OF u2(1) keep(1) [OF u1(1) 0]]]]]] .
  then show ?thesis using u(2) by (auto simp: source_kept_def)
qed

text \<open>
  C18.  The configuration of the main PLL reads back.  After \<open>HAL_RCC_OscConfig\<close> has switched the PLL on,
  whatever else it was asked to do, \<open>HAL_RCC_GetOscConfig\<close> gives the source, the factors and the
  fraction that were asked for.  If the PLL was not the system clock, it also gives the state and the
  input range, but the output range shifted by one bit; read back for the medium range, the structure
  no longer passes the checks of \<open>HAL_RCC_OscConfig\<close>.
\<close>

theorem osc_config_roundtrip:
  assumes "HAL_RCC_OscConfig hw i s = Some (HAL_OK, t)" "pll_state (osc_pll i) = RCC_PLL_ON"
    and "status_only hw" "stable_source hw" "source_settled s"
  shows "let p = osc_pll i; q = osc_pll (HAL_RCC_GetOscConfig t)
    in pll_source q = pll_source p \<and> pll_m q = pll_m p \<and> pll_n q = pll_n p \<and> pll_p q = pll_p p \<and>
      pll_q q = pll_q p \<and> pll_r q = pll_r p \<and> pll_fracn q = pll_fracn p \<and>
      (sysclk_source s \<noteq> RCC_CFGR_SWS_PLL1 \<longrightarrow>
         pll_state q = RCC_PLL_ON \<and> pll_rge q = pll_rge p \<and> pll_vcosel q = drop_bit 1 (pll_vcosel p) \<and>
         (pll_vcosel p = RCC_PLL1VCOMEDIUM \<longrightarrow> \<not> pll_asserts q))"
proof -
  let ?p = "osc_pll i"
  obtain u where u: "osc_pll_config hw ?p u = Some (HAL_OK, t)" "sysclk_source u = sysclk_source s"
    using osc_config_stages [OF assms(1,3-5)] by blast
  show ?thesis
  proof (cases "sysclk_source s = RCC_CFGR_SWS_PLL1")
    case True
    then have k: "\<not> pll_differs ?p u" "pll_fraction hw ?p u = Some (HAL_OK, t)"
      using pll_kept [OF u(1) assms(2)] u(2) by simp_all
    show ?thesis
      using k(1) fraction_kept [OF assms(3) k(2)] True
      by (simp add: HAL_RCC_GetOscConfig_def pll_differs_def Let_def RCC_PLL1DIVR_N1_Pos_def)
  next
    case False
    then obtain v where v: "settings t = settings (pll_program ?p v)" "pll_asserts ?p"
      using pll_switched_on [OF assms(3) u(1) assms(2)] u(2) by auto
    note e = settings_eq(1-4) [OF v(1)] settings_fields(3) [OF v(1)]
    note b = pll_asserts_bounds [OF v(2)]
    have on: "(x OR RCC_CR_PLL1ON) AND RCC_CR_PLLON = RCC_CR_PLLON" for x
      by (rule bit_word_eqI) (auto simp: hal_consts bit_simps)
    have m: "\<not> pll_asserts q" if "pll_vcosel q = 1" for q using that by (simp add: pll_asserts_def hal_consts)
    have "bit (drop_bit 3 (push_bit 3 (pll_fracn ?p))) n = bit (pll_fracn ?p) n" for n
      using bit_below [OF b(7), of n] by (auto simp: bit_simps)
    then have f: "drop_bit 3 (push_bit 3 (pll_fracn ?p)) = pll_fracn ?p" by (intro bit_word_eqI) simp
    have "drop_bit 1 RCC_PLL1VCOMEDIUM = 1" by code_simp
    then show ?thesis
      using f pll_divr_fields [OF b(3-6)] pll_config_fields [OF b(1,2), of v] pll_program_fields [OF v(2), of v] m
      by (simp add: HAL_RCC_GetOscConfig_def Let_def e pll_program_simps(1,2,5) on RCC_PLL1DIVR_N1_Pos_def RCC_PLL1DIVR_P1_Pos_def
        RCC_PLL1DIVR_Q1_Pos_def RCC_PLL1DIVR_R1_Pos_def RCC_PLLCFGR_PLL1VCOSEL_Pos_def RCC_PLL1FRACR_FRACN1_Pos_def)
  qed
qed

section \<open>Examples\<close>

text \<open>Hardware that follows its control bits at once, on a device of the last revision.\<close>

definition ready_bits :: "u32 \<Rightarrow> u32" where
  "ready_bits v = push_bit 1 (v AND 0x15011080) OR push_bit 2 (v AND 1)"

definition next_cr :: "u32 \<Rightarrow> u32" where
  "next_cr v = (v AND NOT rcc_status) OR ready_bits v"

definition next_cfgr :: "u32 \<Rightarrow> u32" where
  "next_cfgr v = modified RCC_CFGR_SWS (push_bit 3 (v AND RCC_CFGR_SW)) v"

definition next_low :: "u32 \<Rightarrow> u32" where
  "next_low v = (v AND NOT low_status) OR push_bit 1 (v AND 1)"

definition prompt_clock :: "rcc \<Rightarrow> rcc" where
  "prompt_clock s = s\<lparr>RCC_CR := next_cr (RCC_CR s), RCC_CFGR := next_cfgr (RCC_CFGR s),
     RCC_BDCR := next_low (RCC_BDCR s), RCC_CSR := next_low (RCC_CSR s), rcc_polls := rcc_polls s + 1\<rparr>"

definition reset_clock :: rcc where
  "reset_clock =
     \<lparr>RCC_CR = 0x25, RCC_HSICFGR = 0x40000000, RCC_CSICFGR = 0x20000000, RCC_CFGR = 0, RCC_D1CFGR = 0, RCC_D2CFGR = 0,
      RCC_D3CFGR = 0, RCC_PLLCKSELR = 0x02020200, RCC_PLLCFGR = 0x01FF0000, RCC_PLL1DIVR = 0x01010280, RCC_PLL1FRACR = 0,
      RCC_PLL3DIVR = 0x01010280, RCC_PLL3FRACR = 0, RCC_D1CCIPR = 0, RCC_CIFR = 0, RCC_BDCR = 0, RCC_CSR = 0, RCC_RSR = 0,
      FLASH_ACR = 0x37, PWR_CR1 = 0, DBGMCU_IDCODE = 0x20036450, SysTick_LOAD = 0,
      SysTick_VAL = 0, SysTick_CTRL = 0, SHPR_SysTick = 0, SystemCoreClock = 64000000,
      SystemD2Clock = 64000000, uwTick = 0, uwTickPrio = 0, rcc_polls = 0\<rparr>"

lemma next_status:
  "next_cr v AND NOT rcc_status = v AND NOT rcc_status" "next_cfgr v AND NOT RCC_CFGR_SWS = v AND NOT RCC_CFGR_SWS"
  "next_low v AND NOT low_status = v AND NOT low_status"
proof -
  have "ready_bits v AND NOT rcc_status = 0"
    by (simp add: ready_bits_def rcc_status_def push_bit_and bit.conj_disj_distrib2 and.assoc)
  then show "next_cr v AND NOT rcc_status = v AND NOT rcc_status"
    by (simp add: next_cr_def bit.conj_disj_distrib2 and.assoc)
  have "push_bit 3 (v AND RCC_CFGR_SW) AND NOT RCC_CFGR_SWS = 0" by (simp add: push_bit_and and.assoc hal_consts)
  then show "next_cfgr v AND NOT RCC_CFGR_SWS = v AND NOT RCC_CFGR_SWS"
    unfolding next_cfgr_def by (intro modified_other) simp_all
  have "push_bit 1 (v AND 1) AND NOT low_status = 0" by (simp only: push_bit_and and.assoc low_status_def) simp
  then show "next_low v AND NOT low_status = v AND NOT low_status"
    by (simp add: next_low_def bit.conj_disj_distrib2 and.assoc)
qed

lemma prompt_clock_status: "status_only prompt_clock"
  by (simp add: status_only_def settings_def prompt_clock_def next_status)

definition ext_pll :: pll_init where
  "ext_pll = \<lparr>pll_state = RCC_PLL_ON, pll_source = RCC_PLLSOURCE_HSE, pll_m = 5, pll_n = 192, pll_p = 2, pll_q = 2, pll_r = 2,
     pll_rge = RCC_PLL1VCIRANGE_2, pll_vcosel = RCC_PLL1VCOMEDIUM, pll_fracn = 0\<rparr>"

definition ext_osc :: osc_init where
  "ext_osc = \<lparr>osc_type = RCC_OSCILLATORTYPE_HSE, osc_hse_state = RCC_HSE_ON, osc_lse_state = 0, osc_hsi_state = 0, osc_hsi_calibration = 0,
     osc_lsi_state = 0, osc_hsi48_state = 0, osc_csi_state = 0, osc_csi_calibration = 0, osc_pll = ext_pll\<rparr>"

lemma wait_at_once: "ok (hw s) \<Longrightarrow> wait_for hw limit ok s = Some (HAL_OK, hw s)"
  unfolding wait_for_def by (subst rcc_wait.simps) simp

text \<open>The run: the oscillator is ready at once, and so is the PLL.\<close>

definition ext_hse :: rcc where "ext_hse = prompt_clock (hse_config RCC_HSE_ON reset_clock)"
definition ext_off :: rcc where "ext_off = prompt_clock (ext_hse\<lparr>RCC_CR := RCC_CR ext_hse AND NOT RCC_CR_PLL1ON\<rparr>)"
definition ext_on :: rcc where "ext_on = prompt_clock (pll_program ext_pll ext_off)"

lemma prompt_source:  "stable_source prompt_clock"
proof -
  have "next_cfgr v AND RCC_CFGR_SWS = push_bit 3 (v AND RCC_CFGR_SW)" for v
    unfolding next_cfgr_def by (rule modified_and) (rule bit_word_eqI, auto simp: hal_consts bit_simps)
  then show ?thesis by (simp add: stable_source_def source_settled_def sysclk_source_def prompt_clock_def)
qed

lemma ext_run: "HAL_RCC_OscConfig prompt_clock ext_osc reset_clock = Some (HAL_OK, ext_on)"
proof -
  have a: "rcc_flag RCC_FLAG_HSERDY ext_hse" "\<not> rcc_flag RCC_FLAG_PLLRDY ext_off" "rcc_flag RCC_FLAG_PLLRDY ext_on"
    by code_simp+
  have "sysclk_source reset_clock = 0" "sysclk_source ext_hse = 0" by code_simp+
  note s = this
  have h: "osc_hse prompt_clock ext_osc reset_clock = Some (HAL_OK, ext_hse)"
    using a(1) s unfolding ext_hse_def by (simp add: osc_hse_def wait_at_once ext_osc_def Let_def hal_consts)
  have n: "osc_hsi prompt_clock ext_osc = (\<lambda>s. Some (HAL_OK, s))" "osc_csi prompt_clock ext_osc = (\<lambda>s. Some (HAL_OK, s))"
     "osc_lsi prompt_clock ext_osc = (\<lambda>s. Some (HAL_OK, s))" "osc_hsi48 prompt_clock ext_osc = (\<lambda>s. Some (HAL_OK, s))"
     "osc_lse prompt_clock ext_osc = (\<lambda>s. Some (HAL_OK, s))"
    by (simp_all add: osc_hsi_def osc_csi_def osc_lsi_def osc_hsi48_def osc_lse_def ext_osc_def Let_def hal_consts fun_eq_iff)
  have p: "osc_pll_config prompt_clock ext_pll ext_hse = Some (HAL_OK, ext_on)"
  proof -
    have 1: "wait_for prompt_clock PLL_TIMEOUT_VALUE (\<lambda>t. \<not> rcc_flag RCC_FLAG_PLLRDY t)
        (ext_hse\<lparr>RCC_CR := RCC_CR ext_hse AND NOT RCC_CR_PLL1ON\<rparr>) = Some (HAL_OK, ext_off)"
      unfolding ext_off_def by (rule wait_at_once) (use a(2) in \<open>simp add: ext_off_def\<close>)
    have 2: "wait_for prompt_clock PLL_TIMEOUT_VALUE (rcc_flag RCC_FLAG_PLLRDY) (pll_program ext_pll ext_off) = Some (HAL_OK, ext_on)"
      unfolding ext_on_def by (rule wait_at_once) (use a(3) in \<open>simp add: ext_on_def\<close>)
    have 3: "pll_asserts ext_pll" "pll_state ext_pll = RCC_PLL_ON" "RCC_PLL_ON \<noteq> RCC_PLL_NONE" "sysclk_source ext_hse \<noteq> RCC_CFGR_SWS_PLL1" by code_simp+
    show ?thesis using 3 by (simp add: osc_pll_config_def Let_def and_then_def 1 2)
  qed
  have "oscillatortype_ok (osc_type ext_osc)" "osc_pll ext_osc = ext_pll" by (simp_all add: oscillatortype_ok_def ext_osc_def hal_consts)
  then show ?thesis using h p by (simp add: HAL_RCC_OscConfig_def and_then_def n)
qed

theorem osc_config_roundtrip_witness:
  "HAL_RCC_OscConfig prompt_clock ext_osc reset_clock = Some (HAL_OK, ext_on) \<and>
   pll_n (osc_pll (HAL_RCC_GetOscConfig ext_on)) = 192 \<and> \<not> pll_asserts (osc_pll (HAL_RCC_GetOscConfig ext_on))"
proof -
  have s: "pll_state (osc_pll ext_osc) = RCC_PLL_ON" "source_settled reset_clock" "sysclk_source reset_clock \<noteq> RCC_CFGR_SWS_PLL1" by code_simp+
  have f: "pll_n (osc_pll ext_osc) = 192" "pll_vcosel (osc_pll ext_osc) = RCC_PLL1VCOMEDIUM" by code_simp+
  show ?thesis
    using osc_config_roundtrip [OF ext_run s(1) prompt_clock_status prompt_source s(2)] f s(3) ext_run by (simp add: Let_def)
qed

end
