(* ===== verification/Bsp_boot.thy ===== *)
theory Bsp_boot
  imports Mpu Rcc Bsp_module Bsp_tty Bsp_lcd
begin

text \<open>
  The start of the board, bsp/bsp.c: protection unit, caches, clocks, debug components, external
  memory, the copy of the initialised data into it, and the two modules, terminal and display, in
  the order of \<open>bsp_init\<close>; and src/main.c with the interrupt of the display, src/stm32h7xx_it.c.
\<close>

section \<open>Constants\<close>

definition PWR_LDO_SUPPLY :: u32 where
  [hal_consts]: "PWR_LDO_SUPPLY = 0x2"

definition PWR_D3CR_VOS :: u32 where
  [hal_consts]: "PWR_D3CR_VOS = 0xc000"

definition PWR_D3CR_VOSRDY :: u32 where
  [hal_consts]: "PWR_D3CR_VOSRDY = 0x2000"

definition SYSCFG_PWRCR_ODEN :: u32 where
  [hal_consts]: "SYSCFG_PWRCR_ODEN = 0x1"

definition PWR_BASE :: u32 where
  [hal_consts]: "PWR_BASE = 0x58024800"

definition SYSCFG_CELL_CODE :: u32 where
  [hal_consts]: "SYSCFG_CELL_CODE = 0x0"

definition PWR_REGULATOR_VOLTAGE_SCALE0 :: u32 where
  [hal_consts]: "PWR_REGULATOR_VOLTAGE_SCALE0 = 0"

definition PWR_REGULATOR_VOLTAGE_SCALE1 :: u32 where
  [hal_consts]: "PWR_REGULATOR_VOLTAGE_SCALE1 = 0xC000"

definition PWR_D3CR :: u32 where "PWR_D3CR = PWR_BASE + 0x18"
definition SYSCFG_PWRCR :: u32 where "SYSCFG_PWRCR = SYSCFG_BASE + 0x2C"

section \<open>Clocks\<close>

text \<open>The macro for the voltage of the core; the reads that follow the writes only take time.\<close>

definition HAL_PWR_VOLTAGESCALING_CONFIG :: "hal_env \<Rightarrow> u32 \<Rightarrow> log \<Rightarrow> log" where
  "HAL_PWR_VOLTAGESCALING_CONFIG env regulator l =
     (if regulator = PWR_REGULATOR_VOLTAGE_SCALE0 then
        SET_BIT env SYSCFG_PWRCR SYSCFG_PWRCR_ODEN
          (MODIFY_REG env PWR_D3CR PWR_D3CR_VOS PWR_REGULATOR_VOLTAGE_SCALE1 l @ [Reg_read PWR_D3CR]) @
        [Reg_read SYSCFG_PWRCR]
      else
        MODIFY_REG env PWR_D3CR PWR_D3CR_VOS regulator
          (CLEAR_BIT env SYSCFG_PWRCR SYSCFG_PWRCR_ODEN l @ [Reg_read SYSCFG_PWRCR]) @
        [Reg_read PWR_D3CR])"

definition osc_params :: osc_init where
  "osc_params =
     \<lparr>osc_type = RCC_OSCILLATORTYPE_HSE, osc_hse_state = RCC_HSE_ON, osc_lse_state = 0, osc_hsi_state = 0,
      osc_hsi_calibration = 0, osc_lsi_state = 0, osc_hsi48_state = 0, osc_csi_state = 0, osc_csi_calibration = 0,
      osc_pll = \<lparr>pll_state = RCC_PLL_ON, pll_source = RCC_PLLSOURCE_HSE, pll_m = 5, pll_n = 192, pll_p = 2,
        pll_q = 2, pll_r = 2, pll_rge = RCC_PLL1VCIRANGE_2, pll_vcosel = RCC_PLL1VCOWIDE, pll_fracn = 0\<rparr>\<rparr>"

definition clk_params :: clk_init where
  "clk_params =
     \<lparr>clk_type = RCC_CLOCKTYPE_HCLK OR RCC_CLOCKTYPE_SYSCLK OR RCC_CLOCKTYPE_PCLK1 OR RCC_CLOCKTYPE_PCLK2 OR
        RCC_CLOCKTYPE_D3PCLK1 OR RCC_CLOCKTYPE_D1PCLK1,
      clk_sysclk_source = RCC_SYSCLKSOURCE_PLLCLK, clk_sysclk_divider = RCC_SYSCLK_DIV1,
      clk_ahb_divider = RCC_HCLK_DIV2, clk_apb3_divider = RCC_APB3_DIV2, clk_apb1_divider = RCC_APB1_DIV2,
      clk_apb2_divider = RCC_APB2_DIV2, clk_apb4_divider = RCC_APB4_DIV2\<rparr>"

definition pll3_params :: pll3_init where
  "pll3_params =
     \<lparr>pll3_m = 5, pll3_n = 88, pll3_p = 2, pll3_q = 2, pll3_r = 25, pll3_rge = RCC_PLL3VCIRANGE_0,
      pll3_vcosel = RCC_PLL3VCOMEDIUM, pll3_fracn = 0\<rparr>"

definition periph_clk_params :: periph_clk_init where
  "periph_clk_params = zero_periph_clk
     \<lparr>pc_pll3 := pll3_params, pc_selection := RCC_PERIPHCLK_LTDC OR RCC_PERIPHCLK_FMC,
      pc_fmc := RCC_FMCCLKSOURCE_D1HCLK\<rparr>"

text \<open>\<open>assert(f(...) == HAL_OK)\<close> for a call that the environment answers.\<close>

definition assert_call :: "hal_env \<Rightarrow> event \<Rightarrow> log \<Rightarrow> log option" where
  "assert_call env e l = (if hal_answer env l e = HAL_OK then Some (l @ [e]) else None)"

definition bsp_earlyinit_clk :: "hal_env \<Rightarrow> log \<Rightarrow> log option" where
  "bsp_earlyinit_clk env l = do {
     let l1 = l @ [Clk ''SYSCFG'' True, Rcc (Pwr_supply PWR_LDO_SUPPLY)];
     l2 \<leftarrow> wait_set env PWR_D3CR PWR_D3CR_VOSRDY
       (HAL_PWR_VOLTAGESCALING_CONFIG env PWR_REGULATOR_VOLTAGE_SCALE1 l1);
     l3 \<leftarrow> wait_set env PWR_D3CR PWR_D3CR_VOSRDY
       (HAL_PWR_VOLTAGESCALING_CONFIG env PWR_REGULATOR_VOLTAGE_SCALE0 (l2 @ [Clk ''SYSCFG'' True]));
     l4 \<leftarrow> assert_call env (Rcc (Osc_config osc_params)) l3;
     l5 \<leftarrow> assert_call env (Rcc (Clock_config clk_params FLASH_LATENCY_4)) l4;
     assert_call env (Rcc (Periph_clk_config periph_clk_params)) l5
   }"

definition bsp_earlyinit_cache :: "log \<Rightarrow> log" where
  "bsp_earlyinit_cache l = l @ [Core Enable_icache, Core Enable_dcache]"

definition bsp_earlyinit_misc :: "log \<Rightarrow> log" where
  "bsp_earlyinit_misc l =
     l @ map (\<lambda>n. Clk n True) [''GPIOI'', ''GPIOC'', ''GPIOE'', ''GPIOA'', ''GPIOB'', ''GPIOG'', ''GPIOD'', ''GPIOF'',
       ''GPIOH'', ''SYSCFG''] @
     [Hal (Syscfg_compensation SYSCFG_CELL_CODE), Hal Enable_compensation]"

section \<open>Initialised data\<close>

text \<open>The symbols of the linker script.\<close>

record linker =
  lk_sext :: u32
  lk_eext :: u32
  lk_sidata :: u32
  lk_sdata :: u32
  lk_edata :: u32
  lk_sbss :: u32
  lk_ebss :: u32
  lk_sgram0 :: u32
  lk_sgram1 :: u32
  lk_stty :: u32

lemma below_next:
  assumes "(d :: u32) < e"
  shows "unat (d + 1) = unat d + 1"
proof -
  have "unat d < unat e" "unat e < 2 ^ 32"
    using assms unsigned_less [of e, where ?'a = nat] by (simp_all add: word_less_nat_alt)
  then have "unat d + 1 < 2 ^ 32" by linarith
  then show ?thesis by (simp add: unat_word_ariths)
qed

function copy_loop :: "u32 \<Rightarrow> u32 \<Rightarrow> u32 \<Rightarrow> memory \<Rightarrow> memory" where
  "copy_loop e src dst m = (if dst < e then copy_loop e (src + 1) (dst + 1) (m(dst := m src)) else m)"
  by pat_completeness auto
termination
  by (relation "measure (\<lambda>(e, src, dst, m). unat e - unat dst)") (auto simp: below_next word_less_nat_alt)

function zero_loop :: "u32 \<Rightarrow> u32 \<Rightarrow> memory \<Rightarrow> memory" where
  "zero_loop e dst m = (if dst < e then zero_loop e (dst + 1) (m(dst := 0)) else m)"
  by pat_completeness auto
termination
  by (relation "measure (\<lambda>(e, dst, m). unat e - unat dst)") (auto simp: below_next word_less_nat_alt)

declare copy_loop.simps [simp del] zero_loop.simps [simp del]

definition bsp_earlyinit_crt0 :: "linker \<Rightarrow> memory \<Rightarrow> log \<Rightarrow> memory \<times> log" where
  "bsp_earlyinit_crt0 lk m l =
     (zero_loop (lk_ebss lk) (lk_sbss lk) (copy_loop (lk_edata lk) (lk_sidata lk) (lk_sdata lk) m),
      l @ [Core Clean_dcache, Core Invalidate_dcache])"

text \<open>What the loops leave, when the copy does not overlap its source.\<close>

lemma range_step: "(d :: u32) < e \<Longrightarrow> d \<le> a \<and> a < e \<longleftrightarrow> a = d \<or> d + 1 \<le> a \<and> a < e"
  using below_next [of d e] by (auto simp: word_le_nat_alt word_less_nat_alt word_unat_eq_iff)

lemma range_next: "(d :: u32) < e \<Longrightarrow> unat e - unat (d + 1) < unat e - unat d"
  using below_next [of d e] by (simp add: word_less_nat_alt)

lemma zero_loop_spec: "zero_loop e d m = (\<lambda>a. if d \<le> a \<and> a < e then 0 else m a)"
proof (induction "unat e - unat d" arbitrary: d m rule: less_induct)
  case less
  show ?case
  proof (cases "d < e")
    case True
    have "zero_loop e d m = zero_loop e (d + 1) (m(d := 0))" using True by (subst zero_loop.simps) simp
    also have "\<dots> = (\<lambda>a. if d + 1 \<le> a \<and> a < e then 0 else (m(d := 0)) a)" by (rule less) (rule range_next [OF True])
    finally show ?thesis using range_step [OF True] by (auto simp: fun_eq_iff)
  next
    case False
    then show ?thesis by (subst zero_loop.simps) (auto simp: fun_eq_iff)
  qed
qed

definition copies_apart :: "u32 \<Rightarrow> u32 \<Rightarrow> u32 \<Rightarrow> bool" where
  "copies_apart src d e \<longleftrightarrow> (\<forall>a. d \<le> a \<and> a < e \<longrightarrow> \<not> (d \<le> src + (a - d) \<and> src + (a - d) < e))"

lemma copy_loop_spec:
  "copies_apart src d e \<Longrightarrow> copy_loop e src d m = (\<lambda>a. if d \<le> a \<and> a < e then m (src + (a - d)) else m a)"
proof (induction "unat e - unat d" arbitrary: src d m rule: less_induct)
  case less
  show ?case
  proof (cases "d < e")
    case True
    have o: "src + 1 + (a - (d + 1)) = src + (a - d)" for a by simp
    have in_range: "d \<le> a" if "d + 1 \<le> a" "a < e" for a using that range_step [OF True, of a] by blast
    have "copies_apart (src + 1) (d + 1) e"
      unfolding copies_apart_def o using less.prems in_range unfolding copies_apart_def by blast
    then have ih: "copy_loop e (src + 1) (d + 1) (m(d := m src)) =
        (\<lambda>a. if d + 1 \<le> a \<and> a < e then (m(d := m src)) (src + 1 + (a - (d + 1))) else (m(d := m src)) a)"
      by (rule less(1) [OF range_next [OF True]])
    have s: "copy_loop e src d m = copy_loop e (src + 1) (d + 1) (m(d := m src))"
      using True by (subst copy_loop.simps) simp
    have "src + (a - d) \<noteq> d" if "d \<le> a" "a < e" for a
      using less.prems that True unfolding copies_apart_def by (metis order_refl)
    then show ?thesis unfolding s ih o using range_step [OF True] in_range by (auto simp: fun_eq_iff)
  next
    case False
    then show ?thesis by (subst copy_loop.simps) (auto simp: fun_eq_iff)
  qed
qed

text \<open>
  C21.  The copy loops end for every placement of the sections.  If the stored copy of the data does
  not overlap the data, and the data does not overlap the zeroed section, then afterwards the data is
  equal to its stored copy, the other section is zero, and no other byte has changed.
\<close>

theorem crt0_sections:
  assumes "copies_apart (lk_sidata lk) (lk_sdata lk) (lk_edata lk)"
    and "\<And>a. lk_sbss lk \<le> a \<Longrightarrow> a < lk_ebss lk \<Longrightarrow> \<not> (lk_sdata lk \<le> a \<and> a < lk_edata lk)"
  shows "(\<forall>a. lk_sdata lk \<le> a \<and> a < lk_edata lk \<longrightarrow>
      fst (bsp_earlyinit_crt0 lk m l) a = m (lk_sidata lk + (a - lk_sdata lk))) \<and>
    (\<forall>a. lk_sbss lk \<le> a \<and> a < lk_ebss lk \<longrightarrow> fst (bsp_earlyinit_crt0 lk m l) a = 0) \<and>
    (\<forall>a. \<not> (lk_sdata lk \<le> a \<and> a < lk_edata lk) \<and> \<not> (lk_sbss lk \<le> a \<and> a < lk_ebss lk) \<longrightarrow>
      fst (bsp_earlyinit_crt0 lk m l) a = m a)"
  using assms(2) by (auto simp: bsp_earlyinit_crt0_def zero_loop_spec copy_loop_spec [OF assms(1)])

section \<open>The board\<close>

text \<open>
  What the board is connected to: the hardware's answers, what reads of the external memory deliver,
  what each call of \<open>calloc\<close> returns, the frequency that \<open>HAL_RCC_GetHCLKFreq\<close> reports, brightness functions
  that are not of this program, and the linker's symbols.
\<close>

record platform =
  pf_env :: hal_env
  pf_read :: "memory \<Rightarrow> u32 \<Rightarrow> u32"
  pf_calloc :: "nat \<Rightarrow> u32"
  pf_hclk :: "log \<Rightarrow> u32"
  pf_brightness :: "u32 \<Rightarrow> u8 \<Rightarrow> lcd_sys \<Rightarrow> event list"
  pf_link :: linker

text \<open>
  The state of all drivers.  Descriptors are objects at the addresses that \<open>calloc\<close> returns, apart
  from the bytes of memory.
\<close>

record board =
  bd_log :: log
  bd_allocs :: nat
  bd_mem :: memory
  bd_debug :: debug
  bd_sdram :: sdram_sys
  bd_tty :: "u32 \<Rightarrow> bsp_tty_des"
  bd_irq_cache :: irq_cache
  bd_lcd :: "u32 \<Rightarrow> bsp_lcd_des"
  bd_hltdc :: "u32 \<Rightarrow> ltdc_handle"
  bd_ltdc :: ltdc_regs

definition zero_hltdc :: ltdc_handle where
  "zero_hltdc =
     \<lparr>lh_instance = 0,
      lh_init = \<lparr>ltdc_hs_polarity = 0, ltdc_vs_polarity = 0, ltdc_de_polarity = 0, ltdc_pc_polarity = 0,
        ltdc_horizontal_sync = 0, ltdc_vertical_sync = 0, ltdc_accumulated_hbp = 0, ltdc_accumulated_vbp = 0,
        ltdc_accumulated_active_w = 0, ltdc_accumulated_active_h = 0, ltdc_total_width = 0, ltdc_total_heigh = 0,
        ltdc_backcolor = \<lparr>col_blue = 0, col_green = 0, col_red = 0\<rparr>\<rparr>,
      lh_layer_cfg = (\<lambda>_. zero_layer), lh_locked = False, lh_state = HAL_LTDC_STATE_RESET, lh_error = 0\<rparr>"

section \<open>The modules\<close>

text \<open>
  The callbacks of the two modules.  The world of the module list is the board, or \<open>None\<close> after the
  program has stopped, which makes every later callback void.
\<close>

datatype board_module = Tty_mod | Lcd_mod

definition running :: "(board \<Rightarrow> ('r \<times> board) option) \<Rightarrow> 'r \<Rightarrow> board option \<Rightarrow> 'r \<times> board option" where
  "running f r w =
     (case w \<bind> f of None \<Rightarrow> (r, None) | Some (r', b) \<Rightarrow> (r', Some b))"

text \<open>Without a descriptor from the caller one is allocated.\<close>

definition allocs :: "u32 \<Rightarrow> nat \<Rightarrow> nat" where
  "allocs des n = (if des = 0 then n + 1 else n)"

definition tty_prepare :: "platform \<Rightarrow> u32 \<Rightarrow> board \<Rightarrow> u32 \<times> board" where
  "tty_prepare p des b =
     (let (r, heap) = tty_set_default_des (lk_stty (pf_link p)) (pf_calloc p (bd_allocs b)) des (bd_tty b)
      in (r, b\<lparr>bd_tty := heap, bd_allocs := allocs des (bd_allocs b)\<rparr>))"

definition tty_setup :: "platform \<Rightarrow> u32 \<Rightarrow> board \<Rightarrow> (int \<times> board) option" where
  "tty_setup p des b = do {
     (r, s) \<leftarrow> bsp_tty_init (pf_env p) \<lparr>ty_des = bd_tty b des, ty_cache = bd_irq_cache b, ty_log = bd_log b\<rparr>;
     Some (r, b\<lparr>bd_tty := (bd_tty b)(des := ty_des s), bd_irq_cache := ty_cache s, bd_log := ty_log s\<rparr>)
   }"

text \<open>The handle of the display controller is part of the descriptor and cleared with it.\<close>

definition lcd_prepare :: "platform \<Rightarrow> u32 \<Rightarrow> board \<Rightarrow> u32 \<times> board" where
  "lcd_prepare p des b =
     (let answer = pf_calloc p (bd_allocs b);
          (r, heap) = lcd_set_default_des (lk_sgram0 (pf_link p)) (lk_sgram1 (pf_link p)) answer des (bd_lcd b);
          handles = (if des = 0 \<and> \<not> IS_ERR_OR_NULL answer then (bd_hltdc b)(answer := zero_hltdc) else bd_hltdc b)
      in (r, b\<lparr>bd_lcd := heap, bd_hltdc := handles, bd_allocs := allocs des (bd_allocs b)\<rparr>))"

definition lcd_of :: "u32 \<Rightarrow> board \<Rightarrow> lcd_sys" where
  "lcd_of des b =
     \<lparr>lt_handle = bd_hltdc b des, lt_regs = bd_ltdc b, lt_log = bd_log b, lc_des = bd_lcd b des, lc_mem = bd_mem b\<rparr>"

definition put_lcd :: "u32 \<Rightarrow> lcd_sys \<Rightarrow> board \<Rightarrow> board" where
  "put_lcd des s b = b\<lparr>bd_hltdc := (bd_hltdc b)(des := lt_handle s), bd_ltdc := lt_regs s, bd_log := lt_log s,
     bd_lcd := (bd_lcd b)(des := lc_des s), bd_mem := lc_mem s\<rparr>"

definition lcd_setup :: "platform \<Rightarrow> u32 \<Rightarrow> board \<Rightarrow> (int \<times> board) option" where
  "lcd_setup p des b = do {
     (r, s) \<leftarrow> bsp_lcd_init (pf_env p) (pf_brightness p) (lcd_of des b);
     Some (r, put_lcd des s b)
   }"

definition make_module :: "string \<Rightarrow> (u32 \<Rightarrow> board \<Rightarrow> (int \<times> board) option) \<Rightarrow> (u32 \<Rightarrow> board \<Rightarrow> u32 \<times> board) \<Rightarrow>
    board option bsp_module" where
  "make_module n setup_fn prepare_fn =
     \<lparr>mod_state = COMING, mod_name = n, mod_version = ''0.1'', mod_descriptor = 0,
      mod_setup = Some (\<lambda>d. running (setup_fn d) 0), mod_desetup = None,
      mod_prepare = Some (\<lambda>d. running (\<lambda>b. Some (prepare_fn d b)) 0)\<rparr>"

fun board_modules :: "platform \<Rightarrow> board_module \<Rightarrow> board option bsp_module" where
  "board_modules p Tty_mod = make_module ''TTY1'' (tty_setup p) (tty_prepare p)"
| "board_modules p Lcd_mod = make_module ''LCD'' (lcd_setup p) (lcd_prepare p)"

section \<open>The start\<close>

fun decimal :: "nat \<Rightarrow> string" where
  "decimal n = (if n < 10 then [char_of (48 + n)] else decimal (n div 10) @ [char_of (48 + n mod 10)])"

declare decimal.simps [simp del]

text \<open>\<open>printf("%llu\n", bsp_debug_tsg_get())\<close>\<close>

definition print_stamp :: "hal_env \<Rightarrow> log \<Rightarrow> log" where
  "print_stamp env l = (let (t, l1) = bsp_debug_tsg_get env l in l1 @ [Print (decimal (unat t) @ [CHR 0x0A])])"

text \<open>Up to the external memory.\<close>

definition bsp_early :: "platform \<Rightarrow> board \<Rightarrow> board option" where
  "bsp_early p b = do {
     l1 \<leftarrow> bsp_earlyinit_mpu (pf_env p) (bd_log b);
     l2 \<leftarrow> bsp_earlyinit_clk (pf_env p) (bsp_earlyinit_cache l1 @ [Hal Hal_init]);
     let l3 = bsp_earlyinit_misc l2;
     let d = snd (bsp_debug_init (pf_env p) (pf_hclk p l3) ((bd_debug b)\<lparr>dp_log := l3\<rparr>));
     Some (b\<lparr>bd_debug := d, bd_log := dp_log d\<rparr>)
   }"

text \<open>The external memory and the data in it.\<close>

definition bsp_memory :: "platform \<Rightarrow> board \<Rightarrow> board option" where
  "bsp_memory p b = do {
     let lk = pf_link p;
     (m, s) \<leftarrow> bsp_sdram_init (pf_env p) (pf_read p) (lk_sext lk) (lk_eext lk) (bd_mem b) ((bd_sdram b)\<lparr>sy_log := bd_log b\<rparr>);
     let (m', l) = bsp_earlyinit_crt0 lk m (sy_log s);
     Some (b\<lparr>bd_mem := m', bd_sdram := s, bd_log := l\<rparr>)
   }"

definition print_on :: "platform \<Rightarrow> board \<Rightarrow> board" where
  "print_on p b = b\<lparr>bd_log := print_stamp (pf_env p) (bd_log b)\<rparr>"

definition print_now :: "platform \<Rightarrow> (board_module, board option) mods \<Rightarrow> (board_module, board option) mods" where
  "print_now p s = s\<lparr>ms_world := map_option (print_on p) (ms_world s)\<rparr>"

definition bsp_init :: "platform \<Rightarrow> (board_module, board option) mods \<Rightarrow> (board_module, board option) mods option" where
  "bsp_init p s = do {
     b \<leftarrow> ms_world s;
     b1 \<leftarrow> bsp_early p b;
     let s1 = bsp_module_init s;
     b2 \<leftarrow> bsp_memory p b1;
     let s2 = print_now p (s1\<lparr>ms_world := Some b2\<rparr>);
     let s3 = print_now p (snd (bsp_module_append Lcd_mod (snd (bsp_module_append Tty_mod s2))));
     s4 \<leftarrow> bsp_module_prepare_all s3;
     s5 \<leftarrow> bsp_module_setup_all s4;
     _ \<leftarrow> ms_world s5;
     Some s5
   }"

section \<open>The interrupt of the display\<close>

definition LTDC_IRQHandler :: "platform \<Rightarrow> u32 \<Rightarrow> (board_module, board option) mods \<Rightarrow> (board_module, board option) mods option" where
  "LTDC_IRQHandler p rnd s = do {
     b \<leftarrow> ms_world s;
     let des = mod_descriptor (ms_mod s Lcd_mod);
     t \<leftarrow> HAL_LTDC_IRQHandler (HAL_LTDC_LineEventCallback (pf_brightness p) rnd) (lcd_of des b);
     Some (s\<lparr>ms_world := Some (put_lcd des t b)\<rparr>)
   }"

section \<open>The main program\<close>

text \<open>The first rounds of the loop, which never ends, before the counter overflows.\<close>

fun main_rounds :: "nat \<Rightarrow> nat \<Rightarrow> log \<Rightarrow> log" where
  "main_rounds 0 i l = l"
| "main_rounds (Suc n) i l = main_rounds n (Suc i) (l @ [Print (decimal (Suc i) @ [CHR 0x0A]), Hal (Delay 1000)])"

text \<open>A failed assertion of the HAL prints, turns interrupts off and then loops for ever.\<close>

partial_function (option) assert_loop :: "log \<Rightarrow> log option" where
  "assert_loop l = assert_loop l"

definition assert_failed :: "string \<Rightarrow> nat \<Rightarrow> log \<Rightarrow> log option" where
  "assert_failed file line l =
     assert_loop (l @ [Print (''assertion fail at '' @ file @ '':'' @ decimal line @ [CHR 0x0A]), Core Disable_irq])"

section \<open>The stages return\<close>

lemma earlyinit_clk_ok:
  assumes "hal_ok env" "\<And>l. reg_value env l PWR_D3CR AND PWR_D3CR_VOSRDY \<noteq> 0"
  shows "\<exists>l'. bsp_earlyinit_clk env l = Some l'"
proof -
  have "assert_call env e l = Some (l @ [e])" for e l using assms(1) by (simp add: assert_call_def hal_ok_def)
  then show ?thesis by (simp add: bsp_earlyinit_clk_def Let_def wait_set_now assms(2))
qed

lemma bsp_early_ok:
  assumes "hal_ok (pf_env p)" "\<And>l. reg_value (pf_env p) l PWR_D3CR AND PWR_D3CR_VOSRDY \<noteq> 0"
  shows "\<exists>d l. bsp_early p b = Some (b\<lparr>bd_debug := d, bd_log := l\<rparr>)"
proof -
  obtain l1 where "bsp_earlyinit_mpu (pf_env p) (bd_log b) = Some l1" using earlyinit_mpu_log by blast
  moreover obtain l2 where "bsp_earlyinit_clk (pf_env p) (bsp_earlyinit_cache l1 @ [Hal Hal_init]) = Some l2"
    using earlyinit_clk_ok [OF assms] by blast
  ultimately show ?thesis by (auto simp: bsp_early_def Let_def)
qed

text \<open>What \<open>bsp_memory\<close> leaves when reads deliver what was written.\<close>

definition sections_ok :: "linker \<Rightarrow> bool" where
  "sections_ok lk \<longleftrightarrow> unat (lk_eext lk) \<le> 2 ^ 32 - 4 \<and> copies_apart (lk_sidata lk) (lk_sdata lk) (lk_edata lk) \<and>
     (\<forall>a. lk_sbss lk \<le> a \<and> a < lk_ebss lk \<longrightarrow> \<not> (lk_sdata lk \<le> a \<and> a < lk_edata lk)) \<and>
     (\<forall>a. lk_sdata lk \<le> a \<and> a < lk_edata lk \<longrightarrow> \<not> tested (lk_sext lk) (lk_eext lk) (lk_sidata lk + (a - lk_sdata lk)))"

definition data_loaded :: "linker \<Rightarrow> memory \<Rightarrow> memory \<Rightarrow> bool" where
  "data_loaded lk m m' \<longleftrightarrow>
     (\<forall>a. lk_sdata lk \<le> a \<and> a < lk_edata lk \<longrightarrow> m' a = m (lk_sidata lk + (a - lk_sdata lk))) \<and>
     (\<forall>a. lk_sbss lk \<le> a \<and> a < lk_ebss lk \<longrightarrow> m' a = 0)"

lemma bsp_memory_ok:
  assumes "pf_read p = load32" "sections_ok (pf_link p)"
  shows "\<exists>m s l. bsp_memory p b = Some (b\<lparr>bd_mem := m, bd_sdram := s, bd_log := l\<rparr>) \<and>
    data_loaded (pf_link p) (bd_mem b) m \<and> hs_state (sy_handle s) = HAL_SDRAM_STATE_READY"
proof -
  let ?lk = "pf_link p"
  have e: "unat (lk_eext ?lk) \<le> 2 ^ 32 - 4" using assms(2) by (simp add: sections_ok_def)
  obtain t where t: "sdram_start ((bd_sdram b)\<lparr>sy_log := bd_log b\<rparr>) = Some t" "hs_state (sy_handle t) = HAL_SDRAM_STATE_READY"
    using sdram_start_ok by blast
  let ?m = "\<lambda>a. if tested (lk_sext ?lk) (lk_eext ?lk) a then pattern_byte (lk_sext ?lk) a else bd_mem b a"
  have "\<forall>a. visited (lk_sext ?lk) (lk_eext ?lk) a \<longrightarrow> load32 ?m a = a * a"
    using pattern_read [OF _ e, of "lk_sext ?lk" _ ?m] by auto
  then have "bsp_sdram_test (pf_env p) (pf_read p) (lk_sext ?lk) (lk_eext ?lk) (bd_mem b) (sy_log t) =
      Some (?m, sy_log t @ [Core Clean_invalidate_dcache])"
    by (simp add: bsp_sdram_test_def sdram_fill_spec [OF e] sdram_verify_spec [OF e] assms(1))
  then have A: "bsp_memory p b = Some (b\<lparr>bd_mem := fst (bsp_earlyinit_crt0 ?lk ?m (sy_log t @ [Core Clean_invalidate_dcache])),
      bd_sdram := t\<lparr>sy_log := sy_log t @ [Core Clean_invalidate_dcache]\<rparr>,
      bd_log := snd (bsp_earlyinit_crt0 ?lk ?m (sy_log t @ [Core Clean_invalidate_dcache]))\<rparr>)"
    by (simp add: bsp_memory_def bsp_sdram_init_def t(1) Let_def split: prod.splits)
  have B: "data_loaded ?lk (bd_mem b) (fst (bsp_earlyinit_crt0 ?lk ?m l))" for l
  proof -
    have 1: "copies_apart (lk_sidata ?lk) (lk_sdata ?lk) (lk_edata ?lk)"
      and 2: "\<forall>a. lk_sbss ?lk \<le> a \<and> a < lk_ebss ?lk \<longrightarrow> \<not> (lk_sdata ?lk \<le> a \<and> a < lk_edata ?lk)"
      and 3: "\<forall>a. lk_sdata ?lk \<le> a \<and> a < lk_edata ?lk \<longrightarrow> \<not> tested (lk_sext ?lk) (lk_eext ?lk) (lk_sidata ?lk + (a - lk_sdata ?lk))"
      using assms(2) by (simp_all add: sections_ok_def)
    show ?thesis using 2 3 by (auto simp: data_loaded_def bsp_earlyinit_crt0_def zero_loop_spec copy_loop_spec [OF 1])
  qed
  show ?thesis by (rule exI, rule exI, rule exI, rule conjI, rule A, rule conjI, rule B) (simp add: t(2))
qed

section \<open>The modules come up\<close>

lemma running_some [simp]: "f b = Some (r', b') \<Longrightarrow> running f r (Some b) = (r', Some b')"
  by (simp add: running_def)

lemma make_module_simps [simp]:
  "mod_state (make_module n f g) = COMING" "mod_descriptor (make_module n f g) = 0"
  "mod_prepare (make_module n f g) = Some (\<lambda>d. running (\<lambda>b. Some (g d b)) 0)"
  "mod_setup (make_module n f g) = Some (\<lambda>d. running (f d) 0)"
  by (simp_all add: make_module_def)

text \<open>A module whose callbacks succeed goes through the two steps.\<close>

lemma prepare_one_ok:
  assumes "ms_mod s m = make_module n f g" "ms_world s = Some b" "g 0 b = (d, b')" "\<not> IS_ERR_OR_NULL d"
  shows "prepare_one m s = s\<lparr>ms_world := Some b',
    ms_mod := (ms_mod s)(m := (make_module n f g)\<lparr>mod_descriptor := d, mod_state := COMING\<rparr>)\<rparr>"
  using assms by (simp add: prepare_one_def CALL_IF_NOT_NULL_RET_PTR_def)

lemma setup_one_ok:
  assumes "ms_mod s m = (make_module n f g)\<lparr>mod_descriptor := d, mod_state := COMING\<rparr>" "ms_world s = Some b"
    and "f d b = Some (0, b')"
  shows "setup_one m s = s\<lparr>ms_world := Some b',
    ms_mod := (ms_mod s)(m := (make_module n f g)\<lparr>mod_descriptor := d, mod_state := LIVE\<rparr>)\<rparr>"
  using assms by (simp add: setup_one_def CALL_IF_NOT_NULL_RET_INT_def)

text \<open>The descriptors that the first preparation makes.\<close>

lemma tty_prepare_first:
  assumes "\<not> IS_ERR_OR_NULL (pf_calloc p (bd_allocs b))"
  shows "tty_prepare p 0 b = (pf_calloc p (bd_allocs b),
    b\<lparr>bd_tty := (bd_tty b)(pf_calloc p (bd_allocs b) := tty_defaults (lk_stty (pf_link p)) zero_tty_des), bd_allocs := bd_allocs b + 1\<rparr>)"
  using assms by (simp add: tty_prepare_def allocs_def tty_set_default_des_def)

definition first_lcd :: "linker \<Rightarrow> bsp_lcd_des" where
  "first_lcd lk = lcd_defaults (lk_sgram0 lk) (lk_sgram1 lk) zero_lcd_des"

lemma lcd_prepare_first:
  assumes "\<not> IS_ERR_OR_NULL (pf_calloc p (bd_allocs b))"
  shows "lcd_prepare p 0 b = (pf_calloc p (bd_allocs b),
    b\<lparr>bd_lcd := (bd_lcd b)(pf_calloc p (bd_allocs b) := first_lcd (pf_link p)),
      bd_hltdc := (bd_hltdc b)(pf_calloc p (bd_allocs b) := zero_hltdc), bd_allocs := bd_allocs b + 1\<rparr>)"
  using assms by (simp add: lcd_prepare_def allocs_def lcd_set_default_des_def first_lcd_def Let_def)

lemma first_lcd_values:
  "ld_dev (first_lcd lk) = \<lparr>lv_hbp = 80, lv_vbp = 40, lv_hsw = 1, lv_vsw = 1, lv_hfp = 200, lv_vfp = 22, lv_width = 800, lv_height = 480\<rparr>"
  "ld_set_brightness (first_lcd lk) = Some Lcd_default" "ld_layer_num (first_lcd lk) = 1"
  "ld_bklt_timer (first_lcd lk) = TIM12_BASE" "ld_gram (first_lcd lk) = (lk_sgram0 lk, lk_sgram1 lk)"
  by (simp_all add: first_lcd_def lcd_defaults_def lcd_dev_defaults_def zero_lcd_des_def SET_VAL_IF_ZERO_def hal_consts)

lemma tty_setup_first:
  assumes "hal_ok (pf_env p)" "bd_tty b d = tty_defaults (lk_stty (pf_link p)) zero_tty_des" "bd_irq_cache b = initial_cache"
  shows "\<exists>t :: tty_state. tty_setup p d b = Some (0, b\<lparr>bd_tty := (bd_tty b)(d := ty_des t), bd_irq_cache := ty_cache t, bd_log := ty_log t\<rparr>) \<and>
    clocks (ty_log t) A = {''GPIOB'', ''DMA2'', ''USART1''} \<union> clocks (bd_log b) A"
proof -
  let ?s = "first_tty (lk_stty (pf_link p)) (bd_log b)"
  obtain t where t: "bsp_tty_init (pf_env p) ?s = Some (0, t)"
      "clocks (ty_log t) A = {''GPIOB'', ''DMA2'', ''USART1''} \<union> clocks (bd_log b) A"
    using tty_first_init [OF assms(1), of "lk_stty (pf_link p)" "bd_log b" A] by (elim exE conjE)
  have "\<lparr>ty_des = bd_tty b d, ty_cache = bd_irq_cache b, ty_log = bd_log b\<rparr> = ?s"
    by (simp only: first_tty_def assms(2,3))
  then have "tty_setup p d b = Some (0, b\<lparr>bd_tty := (bd_tty b)(d := ty_des t), bd_irq_cache := ty_cache t, bd_log := ty_log t\<rparr>)"
    by (simp only: tty_setup_def t(1) bind.bind_lunit prod.case)
  then show ?thesis using t(2) by (intro exI [of _ t] conjI)
qed

text \<open>The display as it is after its initialisation.\<close>

definition display_on :: "linker \<Rightarrow> u32 \<Rightarrow> board \<Rightarrow> bool" where
  "display_on lk d b \<longleftrightarrow>
     lcd_window (first_lcd lk) 0 (LAYER (bd_ltdc b) 0) \<and> IER (bd_ltdc b) AND LTDC_IT_LI \<noteq> 0 \<and>
     ltdc_accumulated_active_h (lh_init (bd_hltdc b d)) + 1 \<le> 0x7FF \<and>
     ld_dev (bd_lcd b d) = ld_dev (first_lcd lk) \<and> ld_gram (bd_lcd b d) = ld_gram (first_lcd lk) \<and>
     ld_set_brightness (bd_lcd b d) = Some Lcd_default"

lemma lcd_setup_first:
  assumes "hal_ok (pf_env p)" "bd_lcd b d = first_lcd (pf_link p)" "bd_hltdc b d = zero_hltdc"
  shows "\<exists>b'. lcd_setup p d b = Some (0, b') \<and> bd_mem b' = bd_mem b \<and> display_on (pf_link p) d b'"
proof -
  let ?s = "lcd_of d b" and ?v = "ld_dev (first_lcd (pf_link p))"
  have c: "clk_at TIM12_BASE \<noteq> None" by code_simp
  have h: "lcd_timing_ok (ld_dev (lc_des ?s))" "ld_layer_num (lc_des ?s) \<in> {1, 2}"
      "clk_at (ld_bklt_timer (lc_des ?s)) \<noteq> None" "\<not> lh_locked (lt_handle ?s)"
    using assms(2,3) c by (simp_all add: lcd_of_def first_lcd_values lcd_timing_ok_def zero_hltdc_def)
  obtain t where t: "bsp_lcd_init (pf_env p) (pf_brightness p) ?s = Some (0, t)"
      "\<forall>i < ld_layer_num (lc_des ?s). lcd_window (lc_des ?s) i (LAYER (lt_regs t) i)"
    using lcd_bring_up_window [OF h(1-3) assms(1) h(4), of "pf_brightness p"] by blast
  have "lcd_window (first_lcd (pf_link p)) 0 (LAYER (lt_regs t) 0)"
    using t(2) assms(2) by (simp add: lcd_of_def first_lcd_values)
  moreover note k = lcd_init_success [OF t(1)]
  then have f: "lcd_frame t = lcd_frame ?s" by blast
  then have "ld_dev (lc_des t) = ld_dev (first_lcd (pf_link p))" "ld_gram (lc_des t) = ld_gram (first_lcd (pf_link p))"
      "ld_set_brightness (lc_des t) = Some Lcd_default" "lc_mem t = bd_mem b"
    using assms(2) by (simp_all add: lcd_frame_def lcd_of_def first_lcd_values)
  moreover have "ltdc_accumulated_active_h (lh_init (lt_handle t)) + 1 \<le> 0x7FF" "IER (lt_regs t) AND LTDC_IT_LI \<noteq> 0"
    using k by blast+
  ultimately have "display_on (pf_link p) d (put_lcd d t b)" "bd_mem (put_lcd d t b) = bd_mem b"
    unfolding display_on_def put_lcd_def by simp_all
  then show ?thesis using t(1) by (simp add: lcd_setup_def)
qed

section \<open>The whole start\<close>

text \<open>
  A board that answers: every call of the HAL succeeds, the core voltage becomes ready, memory holds
  what is written, the sections are placed apart, \<open>calloc\<close> finds room, and the module list and the
  cached interrupt numbers are in their initial state.
\<close>

definition board_works :: "platform \<Rightarrow> bool" where
  "board_works p \<longleftrightarrow> hal_ok (pf_env p) \<and> (\<forall>l. reg_value (pf_env p) l PWR_D3CR AND PWR_D3CR_VOSRDY \<noteq> 0) \<and>
     pf_read p = load32 \<and> sections_ok (pf_link p) \<and> (\<forall>l. \<not> IS_ERR_OR_NULL (pf_calloc p l))"

definition both :: "board_module list" where
  "both = [Tty_mod, Lcd_mod]"

lemma append_first:
  assumes "ms_mod s = board_modules p"
  shows "\<exists>l. print_now p (snd (bsp_module_append Lcd_mod (snd (bsp_module_append Tty_mod
        (print_now p ((bsp_module_init s)\<lparr>ms_world := Some b\<rparr>)))))) =
      s\<lparr>ms_list := l, ms_world := Some (print_on p (print_on p b))\<rparr> \<and>
    slist_rep l both"
proof -
  let ?l = "(fst (ms_list s), sys_slist_init (snd (ms_list s)))"
  have "slist_rep (sys_slist_append Tty_mod ?l) ([] @ [Tty_mod])" by (rule append_rep [OF slist_init_rep]) simp
  then have "slist_rep (sys_slist_append Lcd_mod (sys_slist_append Tty_mod ?l)) ([Tty_mod] @ [Lcd_mod])"
    by (intro append_rep) simp_all
  then show ?thesis
    by (intro exI [of _ "sys_slist_append Lcd_mod (sys_slist_append Tty_mod ?l)"])
      (simp add: both_def bsp_module_append_def bsp_module_init_def print_now_def assms)
qed

text \<open>The two modules with a descriptor, in a state.\<close>

definition modules_at :: "platform \<Rightarrow> u32 \<Rightarrow> u32 \<Rightarrow> bsp_module_state \<Rightarrow> bsp_module_state \<Rightarrow> board_module \<Rightarrow> board option bsp_module" where
  "modules_at p a c x y = (board_modules p)
     (Tty_mod := (board_modules p Tty_mod)\<lparr>mod_descriptor := a, mod_state := x\<rparr>,
      Lcd_mod := (board_modules p Lcd_mod)\<lparr>mod_descriptor := c, mod_state := y\<rparr>)"

text \<open>The board after the preparation, with descriptors at \<open>a\<close> and \<open>c\<close>.\<close>

definition prepared_board :: "platform \<Rightarrow> u32 \<Rightarrow> u32 \<Rightarrow> board \<Rightarrow> board" where
  "prepared_board p a c b =
     b\<lparr>bd_tty := (bd_tty b)(a := tty_defaults (lk_stty (pf_link p)) zero_tty_des), bd_allocs := bd_allocs b + 2,
       bd_lcd := (bd_lcd b)(c := first_lcd (pf_link p)), bd_hltdc := (bd_hltdc b)(c := zero_hltdc)\<rparr>"

lemma prepare_both:
  assumes "registered s both" "ms_mod s = board_modules p" "ms_world s = Some b" "\<And>n. \<not> IS_ERR_OR_NULL (pf_calloc p n)"
    and "a = pf_calloc p (bd_allocs b)" "c = pf_calloc p (bd_allocs b + 1)"
  shows "bsp_module_prepare_all s =
    Some (s\<lparr>ms_world := Some (prepared_board p a c b), ms_mod := modules_at p a c COMING COMING\<rparr>)"
proof -
  define b1 where "b1 = snd (tty_prepare p 0 b)"
  have p1: "prepare_one Tty_mod s = s\<lparr>ms_world := Some b1, ms_mod := (board_modules p)(Tty_mod :=
      (board_modules p Tty_mod)\<lparr>mod_descriptor := a, mod_state := COMING\<rparr>)\<rparr>"
    using prepare_one_ok [of s Tty_mod "''TTY1''" "tty_setup p" "tty_prepare p" b a b1] tty_prepare_first [of p b] assms
    by (simp add: b1_def)
  have "prepare_one Lcd_mod (prepare_one Tty_mod s) =
      s\<lparr>ms_world := Some (prepared_board p a c b), ms_mod := modules_at p a c COMING COMING\<rparr>"
    using prepare_one_ok [of "prepare_one Tty_mod s" Lcd_mod "''LCD''" "lcd_setup p" "lcd_prepare p" b1 c "prepared_board p a c b"]
      lcd_prepare_first [of p b1] tty_prepare_first [of p b] assms
    by (simp add: p1 modules_at_def) (simp add: b1_def prepared_board_def)
  then show ?thesis using all_loops(1) [OF assms(1)] by (simp add: both_def)
qed

lemma setup_both:
  assumes "registered s both" "ms_mod s = modules_at p a c COMING COMING" "ms_world s = Some b"
    and "tty_setup p a b = Some (0, b1)" "lcd_setup p c b1 = Some (0, b2)"
  shows "bsp_module_setup_all s = Some (s\<lparr>ms_world := Some b2, ms_mod := modules_at p a c LIVE LIVE\<rparr>)"
proof -
  have q1: "setup_one Tty_mod s = s\<lparr>ms_world := Some b1, ms_mod := modules_at p a c LIVE COMING\<rparr>"
    using setup_one_ok [of s Tty_mod a "''TTY1''" "tty_setup p" "tty_prepare p" b b1] assms
    by (simp add: modules_at_def fun_upd_twist)
  have "setup_one Lcd_mod (setup_one Tty_mod s) = s\<lparr>ms_world := Some b2, ms_mod := modules_at p a c LIVE LIVE\<rparr>"
    using setup_one_ok [of "setup_one Tty_mod s" Lcd_mod c "''LCD''" "lcd_setup p" "lcd_prepare p" b1 b2] assms(5)
    by (simp add: q1 modules_at_def)
  then show ?thesis using all_loops(2) [OF assms(1)] by (simp add: both_def)
qed

text \<open>
  C15.  The start of the board.  On a board that works, whatever state its hardware is in, \<open>bsp_init\<close>
  returns with both modules on the list, in the order of their registration, and live, no message
  printed by the list, the initialised data and the zeroed section of the external memory as the
  linker laid them out, the memory's driver ready, and the display showing its frame buffer with the
  line interrupt on.
\<close>

theorem boot_brings_up:
  assumes "board_works p" "ms_mod s = board_modules p" "ms_world s = Some b" "bd_irq_cache b = initial_cache"
  shows "\<exists>u b'. bsp_init p s = Some u \<and> ms_world u = Some b' \<and> registered u both \<and>
    (\<forall>m. mod_state (ms_mod u m) = LIVE \<and> \<not> IS_ERR_OR_NULL (mod_descriptor (ms_mod u m))) \<and> ms_out u = ms_out s \<and>
    data_loaded (pf_link p) (bd_mem b) (bd_mem b') \<and> hs_state (sy_handle (bd_sdram b')) = HAL_SDRAM_STATE_READY \<and>
    display_on (pf_link p) (mod_descriptor (ms_mod u Lcd_mod)) b'"
proof -
  have ok: "hal_ok (pf_env p)" and vos: "\<And>l. reg_value (pf_env p) l PWR_D3CR AND PWR_D3CR_VOSRDY \<noteq> 0"
    and rd: "pf_read p = load32" "sections_ok (pf_link p)" and al: "\<And>n. \<not> IS_ERR_OR_NULL (pf_calloc p n)"
    using assms(1) by (auto simp: board_works_def)
  obtain d0 l0 where early: "bsp_early p b = Some (b\<lparr>bd_debug := d0, bd_log := l0\<rparr>)"
    using bsp_early_ok [OF ok vos] by blast
  let ?b1 = "b\<lparr>bd_debug := d0, bd_log := l0\<rparr>"
  obtain m sd l2 where mem: "bsp_memory p ?b1 = Some (?b1\<lparr>bd_mem := m, bd_sdram := sd, bd_log := l2\<rparr>)"
      "data_loaded (pf_link p) (bd_mem ?b1) m" "hs_state (sy_handle sd) = HAL_SDRAM_STATE_READY"
    using bsp_memory_ok [OF rd, of ?b1] by blast
  define b2 where "b2 = ?b1\<lparr>bd_mem := m, bd_sdram := sd, bd_log := l2\<rparr>"
  define b3 where "b3 = print_on p (print_on p b2)"
  obtain l where l: "print_now p (snd (bsp_module_append Lcd_mod (snd (bsp_module_append Tty_mod
        (print_now p ((bsp_module_init s)\<lparr>ms_world := Some b2\<rparr>)))))) = s\<lparr>ms_list := l, ms_world := Some b3\<rparr>"
      "slist_rep l both"
    using append_first [OF assms(2), of b2] unfolding b3_def by blast
  define s3 where "s3 = s\<lparr>ms_list := l, ms_world := Some b3\<rparr>"
  have r3: "registered s3 both" using l(2) by (simp add: s3_def)
  define a where "a = pf_calloc p (bd_allocs b3)"
  define c where "c = pf_calloc p (bd_allocs b3 + 1)"
  define b5 where "b5 = prepared_board p a c b3"
  define s4 where "s4 = s3\<lparr>ms_world := Some b5, ms_mod := modules_at p a c COMING COMING\<rparr>"
  have prep: "bsp_module_prepare_all s3 = Some s4"
    using prepare_both [OF r3 _ _ al a_def c_def] assms(2) by (simp add: s4_def b5_def) (simp add: s3_def)
  have b5: "bd_tty b5 a = tty_defaults (lk_stty (pf_link p)) zero_tty_des" "bd_irq_cache b5 = initial_cache"
      "bd_lcd b5 c = first_lcd (pf_link p)" "bd_hltdc b5 c = zero_hltdc" "bd_mem b5 = m" "bd_sdram b5 = sd"
    using assms(4) by (simp_all add: b5_def prepared_board_def b3_def b2_def print_on_def)
  obtain ty :: tty_state where ty: "tty_setup p a b5 = Some (0, b5\<lparr>bd_tty := (bd_tty b5)(a := ty_des ty), bd_irq_cache := ty_cache ty, bd_log := ty_log ty\<rparr>)"
    using tty_setup_first [OF ok b5(1,2), of "{}"] by (elim exE conjE)
  let ?b6 = "b5\<lparr>bd_tty := (bd_tty b5)(a := ty_des ty), bd_irq_cache := ty_cache ty, bd_log := ty_log ty\<rparr>"
  obtain b7 where b7: "lcd_setup p c ?b6 = Some (0, b7)" "bd_mem b7 = bd_mem ?b6" "display_on (pf_link p) c b7"
    using lcd_setup_first [OF ok, of ?b6 c] b5(3,4) by auto
  have sd7: "bd_sdram b7 = sd"
    using b7(1) b5(6) by (auto simp: lcd_setup_def put_lcd_def bind_eq_Some_conv)
  define u where "u = s4\<lparr>ms_world := Some b7, ms_mod := modules_at p a c LIVE LIVE\<rparr>"
  have r4: "registered s4 both" using r3 by (simp add: s4_def)
  have "bsp_module_setup_all s4 = Some u"
    using setup_both [OF r4 _ _ ty b7(1)] by (simp add: u_def) (simp add: s4_def)
  then have init: "bsp_init p s = Some u"
    using early mem(1) l(1) prep assms(3) by (simp add: bsp_init_def b2_def s3_def u_def Let_def)
  have live: "mod_state (ms_mod u n) = LIVE \<and> mod_descriptor (ms_mod u n) \<in> {a, c}" for n
    by (cases n) (simp_all add: u_def modules_at_def)
  then have "\<forall>n. mod_state (ms_mod u n) = LIVE \<and> \<not> IS_ERR_OR_NULL (mod_descriptor (ms_mod u n))"
    using al unfolding a_def c_def by (metis insert_iff singletonD)
  moreover have "mod_descriptor (ms_mod u Lcd_mod) = c" by (simp add: u_def modules_at_def)
  ultimately show ?thesis using init b7 b5(5) mem sd7 r4
    by (intro exI [of _ u] exI [of _ b7]) (simp add: u_def s4_def s3_def)
qed

text \<open>
  C22.  The first line interrupt after the start.  With the line's flag pending the handler paints the
  whole picture, 800 by 480 pixels of three bytes at the linker's symbol for the frame buffer, with
  one colour, and one byte behind it; the interrupt is armed again for the same line, and the module
  list is as it was.
\<close>

theorem boot_line_interrupt:
  assumes "ms_world u = Some b" "display_on lk (mod_descriptor (ms_mod u Lcd_mod)) b" "ISR (bd_ltdc b) AND LTDC_FLAG_LI \<noteq> 0"
    and "uint (lk_sgram0 lk) + 3 * (800 * 480) < 2 ^ 32"
  shows "\<exists>b'. LTDC_IRQHandler p rnd u = Some (u\<lparr>ms_world := Some b'\<rparr>) \<and>
    line_armed (lcd_of (mod_descriptor (ms_mod u Lcd_mod)) b') \<and>
    LIPCR (bd_ltdc b') = ltdc_accumulated_active_h (lh_init (bd_hltdc b (mod_descriptor (ms_mod u Lcd_mod)))) + 1 \<and>
    (\<forall>a. bd_mem b' a =
      (if uint (lk_sgram0 lk) \<le> uint a \<and> uint a < uint (lk_sgram0 lk) + 3 * (800 * 480)
       then word_byte rnd (nat ((uint a - uint (lk_sgram0 lk)) mod 3))
       else if uint a = uint (lk_sgram0 lk) + 3 * (800 * 480) then word_byte rnd 3 else bd_mem b a))"
proof -
  let ?d = "mod_descriptor (ms_mod u Lcd_mod)"
  have h: "ld_set_brightness (lc_des (lcd_of ?d b)) = Some Lcd_default"
      "ltdc_accumulated_active_h (lh_init (lt_handle (lcd_of ?d b))) + 1 \<le> 0x7FF"
      "ISR (lt_regs (lcd_of ?d b)) AND LTDC_FLAG_LI \<noteq> 0" "IER (lt_regs (lcd_of ?d b)) AND LTDC_IT_LI \<noteq> 0"
    and v: "ld_dev (lc_des (lcd_of ?d b)) = ld_dev (first_lcd lk)" "fst (ld_gram (lc_des (lcd_of ?d b))) = lk_sgram0 lk"
    using assms(2,3) by (simp_all add: display_on_def lcd_of_def first_lcd_values)
  obtain t where t: "HAL_LTDC_IRQHandler (HAL_LTDC_LineEventCallback (pf_brightness p) rnd) (lcd_of ?d b) = Some t"
      "line_armed t" "LIPCR (lt_regs t) = ltdc_accumulated_active_h (lh_init (lt_handle (lcd_of ?d b))) + 1"
      "lc_mem t = frame_fill (unat (lv_width (ld_dev (first_lcd lk)) * lv_height (ld_dev (first_lcd lk)))) (lk_sgram0 lk) rnd (lc_mem (lcd_of ?d b))"
    using lcd_line_detail [OF h, of "pf_brightness p" rnd] unfolding v by blast
  have sys: "lcd_of ?d (put_lcd ?d t b) = t" by (simp add: lcd_of_def put_lcd_def)
  have m: "bd_mem (put_lcd ?d t b) = frame_fill (800 * 480) (lk_sgram0 lk) rnd (bd_mem b)"
    using t(4) by (simp add: put_lcd_def lcd_of_def first_lcd_values)
  have "bd_mem (put_lcd ?d t b) a =
      (if uint (lk_sgram0 lk) \<le> uint a \<and> uint a < uint (lk_sgram0 lk) + 3 * (800 * 480)
       then word_byte rnd (nat ((uint a - uint (lk_sgram0 lk)) mod 3))
       else if uint a = uint (lk_sgram0 lk) + 3 * (800 * 480) then word_byte rnd 3 else bd_mem b a)" for a
    unfolding m using frame_fill_bytes [of "lk_sgram0 lk" "800 * 480" rnd "bd_mem b" a] assms(4) by auto
  moreover have "LTDC_IRQHandler p rnd u = Some (u\<lparr>ms_world := Some (put_lcd ?d t b)\<rparr>)"
    by (simp add: LTDC_IRQHandler_def assms(1) t(1) Let_def)
  moreover have "LIPCR (bd_ltdc (put_lcd ?d t b)) = ltdc_accumulated_active_h (lh_init (bd_hltdc b ?d)) + 1"
    using t(3) by (simp add: put_lcd_def lcd_of_def)
  ultimately show ?thesis using t(2) sys by metis
qed

section \<open>Examples\<close>

definition example_linker :: linker where
  "example_linker =
     \<lparr>lk_sext = 0xC0000000, lk_eext = 0xC2000000, lk_sidata = 0x08010000, lk_sdata = 0xC0000000,
      lk_edata = 0xC0000010, lk_sbss = 0xC0000010, lk_ebss = 0xC0000020, lk_sgram0 = 0xC1000080,
      lk_sgram1 = 0xC1300080, lk_stty = 0x20001000\<rparr>"

definition example_platform :: platform where
  "example_platform =
     \<lparr>pf_env = on_env, pf_read = load32, pf_calloc = (\<lambda>_. 0xC0000100), pf_hclk = (\<lambda>_. 240000000),
      pf_brightness = (\<lambda>_ _ _. []), pf_link = example_linker\<rparr>"

lemma example_source:
  assumes "(0xC0000000 :: u32) \<le> a" "a < 0xC0000010"
  shows "0x08010000 + (a - 0xC0000000) < (0xC0000000 :: u32)"
proof -
  have k: "0x08010000 + k < 0xC0000000" if "unat k < 16" for k :: u32
    using that by (simp add: word_less_nat_alt unat_word_ariths)
  have "unat (a - 0xC0000000) = unat a - 0xC0000000" using unat_sub [OF assms(1)] by simp
  moreover have "unat a < 0xC0000010" using assms(2) by (simp add: word_less_nat_alt)
  ultimately have "unat (a - 0xC0000000) < 16" by simp
  then show ?thesis by (rule k)
qed

lemma example_sections: "sections_ok example_linker"
proof -
  have s: "\<not> (0xC0000000 :: u32) \<le> 0x08010000 + (a - 0xC0000000)" if "0xC0000000 \<le> a" "a < 0xC0000010" for a :: u32
    using example_source [OF that] by (simp only: not_le)
  have 1: "copies_apart 0x08010000 0xC0000000 0xC0000010" unfolding copies_apart_def using s by blast
  have 2: "\<not> tested 0xC0000000 0xC2000000 (0x08010000 + (a - 0xC0000000))" if "0xC0000000 \<le> a" "a < 0xC0000010" for a :: u32
    unfolding tested_def using s [OF that] by blast
  have 3: "\<not> (0xC0000000 \<le> a \<and> a < (0xC0000010 :: u32))" if "0xC0000010 \<le> a" for a
    using that by auto
  have 4: "unat (0xC2000000 :: u32) \<le> 2 ^ 32 - 4" by simp
  show ?thesis
    unfolding sections_ok_def example_linker_def linker.simps using 1 2 3 4 by blast
qed

lemma example_works: "board_works example_platform"
proof -
  have "hal_ok on_env" by (simp add: hal_ok_def on_env_def)
  moreover have "\<not> IS_ERR_OR_NULL 0xC0000100" by (simp add: IS_ERR_OR_NULL_alt IS_ERR_uint)
  ultimately show ?thesis
    by (simp add: board_works_def example_platform_def example_sections) (simp add: on_env_def hal_consts)
qed

definition example_board :: board where
  "example_board =
     \<lparr>bd_log = [], bd_allocs = 0, bd_mem = (\<lambda>_. 0x5A), bd_debug = zero_debug, bd_sdram = reset_sdram, bd_tty = (\<lambda>_. zero_tty_des),
      bd_irq_cache = initial_cache, bd_lcd = (\<lambda>_. zero_lcd_des), bd_hltdc = (\<lambda>_. zero_hltdc), bd_ltdc = example_regs\<rparr>"

definition example_start :: "(board_module, board option) mods" where
  "example_start = \<lparr>ms_list = empty_lists, ms_mod = board_modules example_platform, ms_world = Some example_board, ms_out = []\<rparr>"

lemma boot_brings_up_witness:
  "\<exists>u b'. bsp_init example_platform example_start = Some u \<and> ms_world u = Some b' \<and>
     mod_state (ms_mod u Lcd_mod) = LIVE \<and> bd_mem b' 0xC0000001 = 0x5A \<and> bd_mem b' 0xC0000011 = 0"
  using boot_brings_up [OF example_works, of example_start example_board]
  by (fastforce simp: example_start_def example_board_def data_loaded_def example_platform_def example_linker_def)

lemma crt0_sections_witness:
  "fst (bsp_earlyinit_crt0 example_linker (\<lambda>_. 0x5A) []) 0xC0000011 = 0"
proof -
  have "copies_apart (lk_sidata example_linker) (lk_sdata example_linker) (lk_edata example_linker)"
    using example_sections by (simp add: sections_ok_def)
  then have "\<forall>a. lk_sbss example_linker \<le> a \<and> a < lk_ebss example_linker \<longrightarrow>
      fst (bsp_earlyinit_crt0 example_linker (\<lambda>_. 0x5A) []) a = 0"
    using crt0_sections [of example_linker "\<lambda>_. 0x5A" "[]"] example_sections by (simp add: sections_ok_def)
  then show ?thesis by (simp add: example_linker_def)
qed

definition lit_board :: board where
  "lit_board = example_board
     \<lparr>bd_ltdc := example_regs\<lparr>LAYER := \<lambda>_. \<lparr>LxCR = LTDC_LxCR_LEN, LxWHPCR = 0x03700051, LxWVPCR = 0x02080029,
        LxPFCR = LTDC_PIXEL_FORMAT_RGB888, LxCACR = 255, LxDCCR = 0, LxBFCR = LTDC_BLENDING_FACTOR1_CA OR LTDC_BLENDING_FACTOR2_CA,
        LxCFBAR = 0xC1000080, LxCFBLR = 0x09600967, LxCFBLNR = 480\<rparr>\<rparr>,
      bd_hltdc := \<lambda>_. example_handle, bd_lcd := \<lambda>_. first_lcd example_linker\<rparr>"

lemma boot_line_interrupt_witness:
  "\<exists>b'. LTDC_IRQHandler example_platform 0x00332211 (example_start\<lparr>ms_world := Some lit_board\<rparr>) =
      Some (example_start\<lparr>ms_world := Some b'\<rparr>) \<and>
    bd_mem b' 0xC1000081 = 0x22 \<and> bd_mem b' 0xC10000D0 = 0x33"
proof -
  let ?u = "example_start\<lparr>ms_world := Some lit_board\<rparr>"
  have d: "mod_descriptor (ms_mod ?u Lcd_mod) = 0" by (simp add: example_start_def)
  have "display_on example_linker 0 lit_board" by code_simp
  moreover have "ISR (bd_ltdc lit_board) AND LTDC_FLAG_LI \<noteq> 0" by code_simp
  moreover have "uint (lk_sgram0 example_linker) + 3 * (800 * 480) < 2 ^ 32" by (simp add: example_linker_def)
  ultimately obtain b' where "LTDC_IRQHandler example_platform 0x00332211 ?u = Some (?u\<lparr>ms_world := Some b'\<rparr>)"
    "\<forall>a. bd_mem b' a =
      (if uint (lk_sgram0 example_linker) \<le> uint a \<and> uint a < uint (lk_sgram0 example_linker) + 3 * (800 * 480)
       then word_byte 0x00332211 (nat ((uint a - uint (lk_sgram0 example_linker)) mod 3))
       else if uint a = uint (lk_sgram0 example_linker) + 3 * (800 * 480) then word_byte 0x00332211 3 else bd_mem lit_board a)"
    using boot_line_interrupt [of ?u lit_board example_linker example_platform "0x00332211"] unfolding d by auto
  moreover have "word_byte 0x00332211 1 = 0x22" "word_byte 0x00332211 2 = 0x33" by code_simp+
  ultimately show ?thesis by (intro exI [of _ b']) (simp add: example_linker_def)
qed

end
