(* ===== verification/Rcc_clock.thy ===== *)
theory Rcc_clock
  imports Rcc "HOL-Library.Log_Nat"
begin

text \<open>
  The clock tree: the system clock and its dividers with \<open>HAL_RCC_ClockConfig\<close>, the third PLL with
  \<open>HAL_RCCEx_PeriphCLKConfig\<close> of hal/stm32h7xx_hal_rcc_ex.c, the tick of hal/stm32h7xx_hal.c, and the
  functions that compute frequencies from the registers, \<open>SystemCoreClockUpdate\<close> of
  cmsis/system_stm32h7xx.c included.
\<close>

unbundle bit_operations_syntax

section \<open>Constants\<close>

definition RCC_D1CFGR_D1CPRE :: u32 where
  [hal_consts]: "RCC_D1CFGR_D1CPRE = 0xf00"

definition RCC_D1CFGR_HPRE :: u32 where
  [hal_consts]: "RCC_D1CFGR_HPRE = 0xf"

definition RCC_D1CFGR_D1PPRE :: u32 where
  [hal_consts]: "RCC_D1CFGR_D1PPRE = 0x70"

definition RCC_D2CFGR_D2PPRE1 :: u32 where
  [hal_consts]: "RCC_D2CFGR_D2PPRE1 = 0x70"

definition RCC_D2CFGR_D2PPRE2 :: u32 where
  [hal_consts]: "RCC_D2CFGR_D2PPRE2 = 0x700"

definition RCC_D3CFGR_D3PPRE :: u32 where
  [hal_consts]: "RCC_D3CFGR_D3PPRE = 0x70"

definition FLASH_ACR_LATENCY :: u32 where
  [hal_consts]: "FLASH_ACR_LATENCY = 0xf"

definition RCC_SYSCLKSOURCE_HSI :: u32 where
  [hal_consts]: "RCC_SYSCLKSOURCE_HSI = 0x0"

definition RCC_SYSCLKSOURCE_CSI :: u32 where
  [hal_consts]: "RCC_SYSCLKSOURCE_CSI = 0x1"

definition RCC_SYSCLKSOURCE_HSE :: u32 where
  [hal_consts]: "RCC_SYSCLKSOURCE_HSE = 0x2"

definition RCC_SYSCLK_DIV2 :: u32 where
  [hal_consts]: "RCC_SYSCLK_DIV2 = 0x800"

definition RCC_SYSCLK_DIV4 :: u32 where
  [hal_consts]: "RCC_SYSCLK_DIV4 = 0x900"

definition RCC_SYSCLK_DIV8 :: u32 where
  [hal_consts]: "RCC_SYSCLK_DIV8 = 0xa00"

definition RCC_SYSCLK_DIV16 :: u32 where
  [hal_consts]: "RCC_SYSCLK_DIV16 = 0xb00"

definition RCC_SYSCLK_DIV64 :: u32 where
  [hal_consts]: "RCC_SYSCLK_DIV64 = 0xc00"

definition RCC_SYSCLK_DIV128 :: u32 where
  [hal_consts]: "RCC_SYSCLK_DIV128 = 0xd00"

definition RCC_SYSCLK_DIV256 :: u32 where
  [hal_consts]: "RCC_SYSCLK_DIV256 = 0xe00"

definition RCC_SYSCLK_DIV512 :: u32 where
  [hal_consts]: "RCC_SYSCLK_DIV512 = 0xf00"

definition RCC_HCLK_DIV1 :: u32 where
  [hal_consts]: "RCC_HCLK_DIV1 = 0x0"

definition RCC_HCLK_DIV4 :: u32 where
  [hal_consts]: "RCC_HCLK_DIV4 = 0x9"

definition RCC_HCLK_DIV8 :: u32 where
  [hal_consts]: "RCC_HCLK_DIV8 = 0xa"

definition RCC_HCLK_DIV16 :: u32 where
  [hal_consts]: "RCC_HCLK_DIV16 = 0xb"

definition RCC_HCLK_DIV64 :: u32 where
  [hal_consts]: "RCC_HCLK_DIV64 = 0xc"

definition RCC_HCLK_DIV128 :: u32 where
  [hal_consts]: "RCC_HCLK_DIV128 = 0xd"

definition RCC_HCLK_DIV256 :: u32 where
  [hal_consts]: "RCC_HCLK_DIV256 = 0xe"

definition RCC_HCLK_DIV512 :: u32 where
  [hal_consts]: "RCC_HCLK_DIV512 = 0xf"

definition RCC_APB3_DIV1 :: u32 where
  [hal_consts]: "RCC_APB3_DIV1 = 0x0"

definition RCC_APB3_DIV4 :: u32 where
  [hal_consts]: "RCC_APB3_DIV4 = 0x50"

definition RCC_APB3_DIV8 :: u32 where
  [hal_consts]: "RCC_APB3_DIV8 = 0x60"

definition RCC_APB3_DIV16 :: u32 where
  [hal_consts]: "RCC_APB3_DIV16 = 0x70"

definition RCC_APB1_DIV1 :: u32 where
  [hal_consts]: "RCC_APB1_DIV1 = 0x0"

definition RCC_APB1_DIV4 :: u32 where
  [hal_consts]: "RCC_APB1_DIV4 = 0x50"

definition RCC_APB1_DIV8 :: u32 where
  [hal_consts]: "RCC_APB1_DIV8 = 0x60"

definition RCC_APB1_DIV16 :: u32 where
  [hal_consts]: "RCC_APB1_DIV16 = 0x70"

definition RCC_APB2_DIV1 :: u32 where
  [hal_consts]: "RCC_APB2_DIV1 = 0x0"

definition RCC_APB2_DIV4 :: u32 where
  [hal_consts]: "RCC_APB2_DIV4 = 0x500"

definition RCC_APB2_DIV8 :: u32 where
  [hal_consts]: "RCC_APB2_DIV8 = 0x600"

definition RCC_APB2_DIV16 :: u32 where
  [hal_consts]: "RCC_APB2_DIV16 = 0x700"

definition RCC_APB4_DIV1 :: u32 where
  [hal_consts]: "RCC_APB4_DIV1 = 0x0"

definition RCC_APB4_DIV4 :: u32 where
  [hal_consts]: "RCC_APB4_DIV4 = 0x50"

definition RCC_APB4_DIV8 :: u32 where
  [hal_consts]: "RCC_APB4_DIV8 = 0x60"

definition RCC_APB4_DIV16 :: u32 where
  [hal_consts]: "RCC_APB4_DIV16 = 0x70"

definition RCC_CR_PLL3ON :: u32 where
  [hal_consts]: "RCC_CR_PLL3ON = 0x10000000"

definition RCC_PLLCKSELR_DIVM3 :: u32 where
  [hal_consts]: "RCC_PLLCKSELR_DIVM3 = 0x3f00000"

definition RCC_PLL3DIVR_N3 :: u32 where
  [hal_consts]: "RCC_PLL3DIVR_N3 = 0x1ff"

definition RCC_PLL3DIVR_P3 :: u32 where
  [hal_consts]: "RCC_PLL3DIVR_P3 = 0xfe00"

definition RCC_PLL3DIVR_Q3 :: u32 where
  [hal_consts]: "RCC_PLL3DIVR_Q3 = 0x7f0000"

definition RCC_PLL3DIVR_R3 :: u32 where
  [hal_consts]: "RCC_PLL3DIVR_R3 = 0x7f000000"

definition RCC_PLL3FRACR_FRACN3 :: u32 where
  [hal_consts]: "RCC_PLL3FRACR_FRACN3 = 0xfff8"

definition RCC_PLLCFGR_PLL3FRACEN :: u32 where
  [hal_consts]: "RCC_PLLCFGR_PLL3FRACEN = 0x100"

definition RCC_PLLCFGR_PLL3RGE :: u32 where
  [hal_consts]: "RCC_PLLCFGR_PLL3RGE = 0xc00"

definition RCC_PLLCFGR_PLL3VCOSEL :: u32 where
  [hal_consts]: "RCC_PLLCFGR_PLL3VCOSEL = 0x200"

definition RCC_PLL3VCIRANGE_1 :: u32 where
  [hal_consts]: "RCC_PLL3VCIRANGE_1 = 0x400"

definition RCC_PLL3VCIRANGE_2 :: u32 where
  [hal_consts]: "RCC_PLL3VCIRANGE_2 = 0x800"

definition RCC_PLL3VCIRANGE_3 :: u32 where
  [hal_consts]: "RCC_PLL3VCIRANGE_3 = 0xc00"

definition RCC_PLL3VCOWIDE :: u32 where
  [hal_consts]: "RCC_PLL3VCOWIDE = 0x0"

definition RCC_PLL3_DIVP :: u32 where
  [hal_consts]: "RCC_PLL3_DIVP = 0x400000"

definition RCC_PLL3_DIVQ :: u32 where
  [hal_consts]: "RCC_PLL3_DIVQ = 0x800000"

definition RCC_PLL3_DIVR :: u32 where
  [hal_consts]: "RCC_PLL3_DIVR = 0x1000000"

definition RCC_FMCCLKSOURCE_PLL :: u32 where
  [hal_consts]: "RCC_FMCCLKSOURCE_PLL = 0x1"

definition RCC_FMCCLKSOURCE_PLL2 :: u32 where
  [hal_consts]: "RCC_FMCCLKSOURCE_PLL2 = 0x2"

definition RCC_FMCCLKSOURCE_CLKP :: u32 where
  [hal_consts]: "RCC_FMCCLKSOURCE_CLKP = 0x3"

definition RCC_FMCCLKSOURCE_HCLK :: u32 where
  [hal_consts]: "RCC_FMCCLKSOURCE_HCLK = 0x0"

definition RCC_D1CCIPR_FMCSEL :: u32 where
  [hal_consts]: "RCC_D1CCIPR_FMCSEL = 0x3"

definition SysTick_LOAD_RELOAD_Msk :: u32 where
  [hal_consts]: "SysTick_LOAD_RELOAD_Msk = 0xffffff"

definition SysTick_CTRL_CLKSOURCE_Msk :: u32 where
  [hal_consts]: "SysTick_CTRL_CLKSOURCE_Msk = 0x4"

definition SysTick_CTRL_TICKINT_Msk :: u32 where
  [hal_consts]: "SysTick_CTRL_TICKINT_Msk = 0x2"

definition SysTick_CTRL_ENABLE_Msk :: u32 where
  [hal_consts]: "SysTick_CTRL_ENABLE_Msk = 0x1"

definition CLOCKSWITCH_TIMEOUT_VALUE :: u32 where
  [hal_consts]: "CLOCKSWITCH_TIMEOUT_VALUE = 0x1388"

definition HSI_VALUE :: u32 where
  [hal_consts]: "HSI_VALUE = 0x3d09000"

definition CSI_VALUE :: u32 where
  [hal_consts]: "CSI_VALUE = 0x3d0900"

definition TICK_INT_PRIORITY :: u32 where
  [hal_consts]: "TICK_INT_PRIORITY = 0xf"

definition RCC_CFGR_SWS_Pos :: nat where
  [hal_consts]: "RCC_CFGR_SWS_Pos = 0x3"

definition RCC_D1CFGR_D1CPRE_Pos :: nat where
  [hal_consts]: "RCC_D1CFGR_D1CPRE_Pos = 0x8"

definition RCC_D1CFGR_HPRE_Pos :: nat where
  [hal_consts]: "RCC_D1CFGR_HPRE_Pos = 0x0"

definition RCC_D1CFGR_D1PPRE_Pos :: nat where
  [hal_consts]: "RCC_D1CFGR_D1PPRE_Pos = 0x4"

definition RCC_D2CFGR_D2PPRE1_Pos :: nat where
  [hal_consts]: "RCC_D2CFGR_D2PPRE1_Pos = 0x4"

definition RCC_D2CFGR_D2PPRE2_Pos :: nat where
  [hal_consts]: "RCC_D2CFGR_D2PPRE2_Pos = 0x8"

definition RCC_D3CFGR_D3PPRE_Pos :: nat where
  [hal_consts]: "RCC_D3CFGR_D3PPRE_Pos = 0x4"

definition RCC_PLL3FRACR_FRACN3_Pos :: nat where
  [hal_consts]: "RCC_PLL3FRACR_FRACN3_Pos = 0x3"

definition RCC_PLLCFGR_PLL3FRACEN_Pos :: nat where
  [hal_consts]: "RCC_PLLCFGR_PLL3FRACEN_Pos = 0x8"

definition RCC_PLLCFGR_PLL1FRACEN_Pos :: nat where
  [hal_consts]: "RCC_PLLCFGR_PLL1FRACEN_Pos = 0x0"

definition RCC_FLAG_PLL3RDY :: u8 where
  [hal_consts]: "RCC_FLAG_PLL3RDY = 0x3d"


section \<open>Single precision\<close>

text \<open>
  The frequencies are computed with \<open>float_t\<close>, which is \<open>float\<close> on this processor.  A value is a
  rational; each operation rounds its exact result to 24 significant bits, to the nearest and to
  the even one of two nearest.  The values here are far from the ends of the exponent range.
\<close>

definition pow2 :: "int \<Rightarrow> rat" where
  "pow2 e = 2 powi e"

definition round_even :: "rat \<Rightarrow> int" where
  "round_even x = (let f = \<lfloor>x\<rfloor>; d = x - of_int f
     in if d < 1 / 2 then f else if 1 / 2 < d then f + 1 else if even f then f else f + 1)"

text \<open>The exponent of the leading bit of a positive value.\<close>

definition lead :: "rat \<Rightarrow> int" where
  "lead x = (let (a, b) = quotient_of x; e = int (floorlog 2 (nat a)) - int (floorlog 2 (nat b))
     in if x < pow2 e then e - 1 else e)"

definition flt :: "rat \<Rightarrow> rat" where
  "flt x = (if x \<le> 0 then 0 else let u = pow2 (lead x - 23) in of_int (round_even (x / u)) * u)"

definition float_of :: "u32 \<Rightarrow> rat" where
  "float_of w = flt (of_int (uint w))"

text \<open>The conversion back cuts off the fraction; it is undefined above the range.\<close>

definition float_to_u32 :: "rat \<Rightarrow> u32 option" where
  "float_to_u32 x = (if 0 \<le> x \<and> \<lfloor>x\<rfloor> < 2 ^ 32 then Some (word_of_int \<lfloor>x\<rfloor>) else None)"

section \<open>Frequencies\<close>

text \<open>\<open>((float_t)src / (float_t)m) * ((float_t)(divr & N) + (frac / (float_t)0x2000) + (float_t)1)\<close>\<close>

definition pll_vco :: "u32 \<Rightarrow> u32 \<Rightarrow> u32 \<Rightarrow> u32 \<Rightarrow> rat" where
  "pll_vco src m n fr =
     flt (flt (float_of src / float_of m) * flt (flt (float_of n + flt (float_of fr / float_of 0x2000)) + float_of 1))"

text \<open>The internal oscillator as the vendor's driver reads it and as the system file does.\<close>

definition hal_hsi :: "rcc \<Rightarrow> u32" where
  "hal_hsi s =
     (if rcc_flag RCC_FLAG_HSIDIV s then drop_bit (unat (drop_bit 3 (RCC_CR s AND RCC_CR_HSIDIV))) HSI_VALUE else HSI_VALUE)"

definition sys_hsi :: "rcc \<Rightarrow> u32" where
  "sys_hsi s = drop_bit (unat (drop_bit 3 (RCC_CR s AND RCC_CR_HSIDIV))) HSI_VALUE"

definition pll1_m :: "rcc \<Rightarrow> u32" where
  "pll1_m s = drop_bit 4 (RCC_PLLCKSELR s AND RCC_PLLCKSELR_DIVM1)"

definition pll1_frac :: "rcc \<Rightarrow> u32" where
  "pll1_frac s = drop_bit RCC_PLLCFGR_PLL1FRACEN_Pos (RCC_PLLCFGR s AND RCC_PLLCFGR_PLL1FRACEN) *
     drop_bit 3 (RCC_PLL1FRACR s AND RCC_PLL1FRACR_FRACN1)"

definition HAL_RCC_GetSysClockFreq :: "rcc \<Rightarrow> u32 option" where
  "HAL_RCC_GetSysClockFreq s =
     (let src = sysclk_source s; sel = RCC_PLLCKSELR s AND RCC_PLLCKSELR_PLLSRC
      in if src = RCC_CFGR_SWS_HSI then Some (hal_hsi s)
         else if src = RCC_CFGR_SWS_CSI then Some CSI_VALUE
         else if src = RCC_CFGR_SWS_HSE then Some HSE_VALUE
         else if src = RCC_CFGR_SWS_PLL1 then
           (if pll1_m s = 0 then Some 0
            else let f = (if sel = RCC_PLLSOURCE_HSI then hal_hsi s else if sel = RCC_PLLSOURCE_CSI then CSI_VALUE
                          else if sel = RCC_PLLSOURCE_HSE then HSE_VALUE else CSI_VALUE);
                     vco = pll_vco f (pll1_m s) (RCC_PLL1DIVR s AND RCC_PLL1DIVR_N1) (pll1_frac s);
                     p = drop_bit 9 (RCC_PLL1DIVR s AND RCC_PLL1DIVR_P1) + 1
                 in float_to_u32 (flt (vco / float_of p)))
         else Some CSI_VALUE)"

definition D1CorePrescTable :: "nat list" where
  "D1CorePrescTable = [0, 0, 0, 0, 1, 2, 3, 4, 1, 2, 3, 4, 6, 7, 8, 9]"

text \<open>The shift that a divider field stands for.\<close>

definition presc :: "u32 \<Rightarrow> nat \<Rightarrow> u32 \<Rightarrow> nat" where
  "presc msk pos v = D1CorePrescTable ! unat (drop_bit pos (v AND msk)) AND 0x1F"

definition core_clocks :: "u32 \<Rightarrow> rcc \<Rightarrow> rcc" where
  "core_clocks f s =
     (let c = drop_bit (presc RCC_D1CFGR_D1CPRE RCC_D1CFGR_D1CPRE_Pos (RCC_D1CFGR s)) f
      in s\<lparr>SystemD2Clock := drop_bit (presc RCC_D1CFGR_HPRE RCC_D1CFGR_HPRE_Pos (RCC_D1CFGR s)) c, SystemCoreClock := c\<rparr>)"

definition HAL_RCC_GetHCLKFreq :: "rcc \<Rightarrow> (u32 \<times> rcc) option" where
  "HAL_RCC_GetHCLKFreq s =
     HAL_RCC_GetSysClockFreq s \<bind> (\<lambda>f. let t = core_clocks f s in Some (SystemD2Clock t, t))"

definition HAL_RCC_GetPCLK1Freq :: "rcc \<Rightarrow> (u32 \<times> rcc) option" where
  "HAL_RCC_GetPCLK1Freq s = HAL_RCC_GetHCLKFreq s \<bind> (\<lambda>(f, t).
     Some (drop_bit (presc RCC_D2CFGR_D2PPRE1 RCC_D2CFGR_D2PPRE1_Pos (RCC_D2CFGR t)) f, t))"

definition HAL_RCC_GetPCLK2Freq :: "rcc \<Rightarrow> (u32 \<times> rcc) option" where
  "HAL_RCC_GetPCLK2Freq s = HAL_RCC_GetHCLKFreq s \<bind> (\<lambda>(f, t).
     Some (drop_bit (presc RCC_D2CFGR_D2PPRE2 RCC_D2CFGR_D2PPRE2_Pos (RCC_D2CFGR t)) f, t))"

definition HAL_RCCEx_GetD1PCLK1Freq :: "rcc \<Rightarrow> (u32 \<times> rcc) option" where
  "HAL_RCCEx_GetD1PCLK1Freq s = HAL_RCC_GetHCLKFreq s \<bind> (\<lambda>(f, t).
     Some (drop_bit (presc RCC_D1CFGR_D1PPRE RCC_D1CFGR_D1PPRE_Pos (RCC_D1CFGR t)) f, t))"

definition HAL_RCCEx_GetD3PCLK1Freq :: "rcc \<Rightarrow> (u32 \<times> rcc) option" where
  "HAL_RCCEx_GetD3PCLK1Freq s = HAL_RCC_GetHCLKFreq s \<bind> (\<lambda>(f, t).
     Some (drop_bit (presc RCC_D3CFGR_D3PPRE RCC_D3CFGR_D3PPRE_Pos (RCC_D3CFGR t)) f, t))"

definition HAL_RCCEx_GetD1SysClockFreq :: "rcc \<Rightarrow> (u32 \<times> rcc) option" where
  "HAL_RCCEx_GetD1SysClockFreq s =
     HAL_RCC_GetSysClockFreq s \<bind> (\<lambda>f. let t = core_clocks f s in Some (SystemCoreClock t, t))"

definition SystemCoreClockUpdate :: "rcc \<Rightarrow> rcc option" where
  "SystemCoreClockUpdate s =
     (let src = sysclk_source s; sel = RCC_PLLCKSELR s AND RCC_PLLCKSELR_PLLSRC;
          freq = (if src = RCC_CFGR_SWS_HSI then Some (sys_hsi s)
            else if src = RCC_CFGR_SWS_CSI then Some CSI_VALUE
            else if src = RCC_CFGR_SWS_HSE then Some HSE_VALUE
            else if src = RCC_CFGR_SWS_PLL1 then
              (if pll1_m s = 0 then Some 0
               else let f = (if sel = RCC_PLLCKSELR_PLLSRC_HSI then sys_hsi s
                             else if sel = RCC_PLLCKSELR_PLLSRC_CSI then CSI_VALUE
                             else if sel = RCC_PLLCKSELR_PLLSRC_HSE then HSE_VALUE else sys_hsi s);
                        vco = pll_vco f (pll1_m s) (RCC_PLL1DIVR s AND RCC_PLL1DIVR_N1) (pll1_frac s);
                        p = drop_bit 9 (RCC_PLL1DIVR s AND RCC_PLL1DIVR_P1) + 1
                    in float_to_u32 (flt (vco / float_of p)))
            else Some (sys_hsi s))
      in freq \<bind> (\<lambda>f.
        let c = drop_bit (D1CorePrescTable ! unat (drop_bit RCC_D1CFGR_D1CPRE_Pos (RCC_D1CFGR s AND RCC_D1CFGR_D1CPRE))) f
        in Some (s\<lparr>SystemD2Clock := drop_bit (presc RCC_D1CFGR_HPRE RCC_D1CFGR_HPRE_Pos (RCC_D1CFGR s)) c,
                   SystemCoreClock := c\<rparr>)))"

section \<open>The tick\<close>

text \<open>The priority of an exception, in the upper four bits of its byte.\<close>

definition nvic_priority :: "u32 \<Rightarrow> u8" where
  "nvic_priority p = ucast (push_bit 4 p AND 0xFF)"

definition SysTick_Config :: "u32 \<Rightarrow> rcc \<Rightarrow> bool \<times> rcc" where
  "SysTick_Config ticks s =
     (if SysTick_LOAD_RELOAD_Msk < ticks - 1 then (False, s) else
      (True, s\<lparr>SysTick_LOAD := ticks - 1, SHPR_SysTick := nvic_priority 15, SysTick_VAL := 0,
         SysTick_CTRL := SysTick_CTRL_CLKSOURCE_Msk OR SysTick_CTRL_TICKINT_Msk OR SysTick_CTRL_ENABLE_Msk\<rparr>))"

text \<open>\<open>uwTickFreq\<close> has its initial value, 1, because nothing calls \<open>HAL_SetTickFreq\<close>; all four bits
  of a priority are for preemption, the grouping that \<open>HAL_Init\<close> selects.\<close>

definition HAL_InitTick :: "u32 \<Rightarrow> rcc \<Rightarrow> hal_status \<times> rcc" where
  "HAL_InitTick prio s =
     (let (ok, t) = SysTick_Config (SystemCoreClock s div 1000) s
      in if \<not> ok then (HAL_ERROR, t)
         else if prio < 16 then (HAL_OK, t\<lparr>SHPR_SysTick := nvic_priority prio, uwTickPrio := prio\<rparr>) else (HAL_ERROR, t))"

text \<open>The clock part of \<open>HAL_Init\<close>; the shift is the table's entry masked with the prescaler field itself.\<close>

definition HAL_Init :: "rcc \<Rightarrow> (hal_status \<times> rcc) option" where
  "HAL_Init s = HAL_RCC_GetSysClockFreq s \<bind> (\<lambda>f.
     let d1cpre = unat (drop_bit RCC_D1CFGR_D1CPRE_Pos (RCC_D1CFGR s AND RCC_D1CFGR_D1CPRE));
         c = drop_bit (D1CorePrescTable ! d1cpre AND d1cpre) f;
         t = s\<lparr>SystemD2Clock := drop_bit (presc RCC_D1CFGR_HPRE RCC_D1CFGR_HPRE_Pos (RCC_D1CFGR s)) c, SystemCoreClock := c\<rparr>
     in Some (HAL_InitTick TICK_INT_PRIORITY t))"

section \<open>The system clock\<close>

text \<open>
  A divider is written when the request compares with the present value; the encodings of the
  dividers are ordered as the dividers are, so \<open>>\<close> slows a bus down and \<open><\<close> speeds it up.
\<close>

definition set_divider :: "(u32 \<Rightarrow> u32 \<Rightarrow> bool) \<Rightarrow> u32 set \<Rightarrow> u32 \<Rightarrow> u32 \<Rightarrow> u32 \<Rightarrow> u32 option" where
  "set_divider cmp legal msk d v =
     (if cmp d (v AND msk) then (if d \<in> legal then Some (modified msk d v) else None) else Some v)"

definition above :: "u32 \<Rightarrow> u32 \<Rightarrow> bool" where "above x y \<longleftrightarrow> y < x"
definition below :: "u32 \<Rightarrow> u32 \<Rightarrow> bool" where "below x y \<longleftrightarrow> x < y"

definition hclk_dividers :: "u32 set" where
  "hclk_dividers = {RCC_HCLK_DIV1, RCC_HCLK_DIV2, RCC_HCLK_DIV4, RCC_HCLK_DIV8, RCC_HCLK_DIV16, RCC_HCLK_DIV64,
     RCC_HCLK_DIV128, RCC_HCLK_DIV256, RCC_HCLK_DIV512}"

definition sysclk_dividers :: "u32 set" where
  "sysclk_dividers = {RCC_SYSCLK_DIV1, RCC_SYSCLK_DIV2, RCC_SYSCLK_DIV4, RCC_SYSCLK_DIV8, RCC_SYSCLK_DIV16,
     RCC_SYSCLK_DIV64, RCC_SYSCLK_DIV128, RCC_SYSCLK_DIV256, RCC_SYSCLK_DIV512}"

definition d1pclk1_divider :: "(u32 \<Rightarrow> u32 \<Rightarrow> bool) \<Rightarrow> clk_init \<Rightarrow> rcc \<Rightarrow> rcc option" where
  "d1pclk1_divider cmp c s =
     (if clk_type c AND RCC_CLOCKTYPE_D1PCLK1 \<noteq> RCC_CLOCKTYPE_D1PCLK1 then Some s
      else set_divider cmp {RCC_APB3_DIV1, RCC_APB3_DIV2, RCC_APB3_DIV4, RCC_APB3_DIV8, RCC_APB3_DIV16}
        RCC_D1CFGR_D1PPRE (clk_apb3_divider c) (RCC_D1CFGR s) \<bind> (\<lambda>v. Some (s\<lparr>RCC_D1CFGR := v\<rparr>)))"

definition pclk1_divider :: "(u32 \<Rightarrow> u32 \<Rightarrow> bool) \<Rightarrow> clk_init \<Rightarrow> rcc \<Rightarrow> rcc option" where
  "pclk1_divider cmp c s =
     (if clk_type c AND RCC_CLOCKTYPE_PCLK1 \<noteq> RCC_CLOCKTYPE_PCLK1 then Some s
      else set_divider cmp {RCC_APB1_DIV1, RCC_APB1_DIV2, RCC_APB1_DIV4, RCC_APB1_DIV8, RCC_APB1_DIV16}
        RCC_D2CFGR_D2PPRE1 (clk_apb1_divider c) (RCC_D2CFGR s) \<bind> (\<lambda>v. Some (s\<lparr>RCC_D2CFGR := v\<rparr>)))"

definition pclk2_divider :: "(u32 \<Rightarrow> u32 \<Rightarrow> bool) \<Rightarrow> clk_init \<Rightarrow> rcc \<Rightarrow> rcc option" where
  "pclk2_divider cmp c s =
     (if clk_type c AND RCC_CLOCKTYPE_PCLK2 \<noteq> RCC_CLOCKTYPE_PCLK2 then Some s
      else set_divider cmp {RCC_APB2_DIV1, RCC_APB2_DIV2, RCC_APB2_DIV4, RCC_APB2_DIV8, RCC_APB2_DIV16}
        RCC_D2CFGR_D2PPRE2 (clk_apb2_divider c) (RCC_D2CFGR s) \<bind> (\<lambda>v. Some (s\<lparr>RCC_D2CFGR := v\<rparr>)))"

definition d3pclk1_divider :: "(u32 \<Rightarrow> u32 \<Rightarrow> bool) \<Rightarrow> clk_init \<Rightarrow> rcc \<Rightarrow> rcc option" where
  "d3pclk1_divider cmp c s =
     (if clk_type c AND RCC_CLOCKTYPE_D3PCLK1 \<noteq> RCC_CLOCKTYPE_D3PCLK1 then Some s
      else set_divider cmp {RCC_APB4_DIV1, RCC_APB4_DIV2, RCC_APB4_DIV4, RCC_APB4_DIV8, RCC_APB4_DIV16}
        RCC_D3CFGR_D3PPRE (clk_apb4_divider c) (RCC_D3CFGR s) \<bind> (\<lambda>v. Some (s\<lparr>RCC_D3CFGR := v\<rparr>)))"

definition hclk_divider :: "(u32 \<Rightarrow> u32 \<Rightarrow> bool) \<Rightarrow> clk_init \<Rightarrow> rcc \<Rightarrow> rcc option" where
  "hclk_divider cmp c s =
     (if clk_type c AND RCC_CLOCKTYPE_HCLK \<noteq> RCC_CLOCKTYPE_HCLK then Some s
      else set_divider cmp hclk_dividers RCC_D1CFGR_HPRE (clk_ahb_divider c) (RCC_D1CFGR s) \<bind>
        (\<lambda>v. Some (s\<lparr>RCC_D1CFGR := v\<rparr>)))"

definition checked :: "(rcc \<Rightarrow> rcc option) \<Rightarrow> rcc \<Rightarrow> (hal_status \<times> rcc) option" where
  "checked f s = f s \<bind> (\<lambda>t. Some (HAL_OK, t))"

text \<open>The latency is read back after the hardware has had its time.\<close>

definition set_latency :: "(rcc \<Rightarrow> rcc) \<Rightarrow> (u32 \<Rightarrow> u32 \<Rightarrow> bool) \<Rightarrow> u32 \<Rightarrow> rcc \<Rightarrow> (hal_status \<times> rcc) option" where
  "set_latency hw cmp lat s =
     (if cmp lat (FLASH_ACR s AND FLASH_ACR_LATENCY) then
        let t = hw (s\<lparr>FLASH_ACR := modified FLASH_ACR_LATENCY lat (FLASH_ACR s)\<rparr>)
        in Some (if FLASH_ACR t AND FLASH_ACR_LATENCY \<noteq> lat then HAL_ERROR else HAL_OK, t)
      else Some (HAL_OK, s))"

definition source_ready :: "u32 \<Rightarrow> rcc \<Rightarrow> bool" where
  "source_ready src s \<longleftrightarrow>
     rcc_flag (if src = RCC_SYSCLKSOURCE_HSE then RCC_FLAG_HSERDY else if src = RCC_SYSCLKSOURCE_PLLCLK then RCC_FLAG_PLLRDY
       else if src = RCC_SYSCLKSOURCE_CSI then RCC_FLAG_CSIRDY else RCC_FLAG_HSIRDY) s"

definition switch_sysclk :: "(rcc \<Rightarrow> rcc) \<Rightarrow> clk_init \<Rightarrow> rcc \<Rightarrow> (hal_status \<times> rcc) option" where
  "switch_sysclk hw c s =
     (let src = clk_sysclk_source c; t = s\<lparr>RCC_D1CFGR := modified RCC_D1CFGR_D1CPRE (clk_sysclk_divider c) (RCC_D1CFGR s)\<rparr>
      in if clk_type c AND RCC_CLOCKTYPE_SYSCLK \<noteq> RCC_CLOCKTYPE_SYSCLK then Some (HAL_OK, s)
         else if clk_sysclk_divider c \<notin> sysclk_dividers \<or>
              src \<notin> {RCC_SYSCLKSOURCE_CSI, RCC_SYSCLKSOURCE_HSI, RCC_SYSCLKSOURCE_HSE, RCC_SYSCLKSOURCE_PLLCLK} then None
         else if \<not> source_ready src t then Some (HAL_ERROR, t)
         else wait_for hw CLOCKSWITCH_TIMEOUT_VALUE (\<lambda>u. sysclk_source u = push_bit RCC_CFGR_SWS_Pos src)
                (t\<lparr>RCC_CFGR := modified RCC_CFGR_SW src (RCC_CFGR t)\<rparr>))"

definition update_clocks :: "rcc \<Rightarrow> (hal_status \<times> rcc) option" where
  "update_clocks s = HAL_RCC_GetSysClockFreq s \<bind> (\<lambda>f. let t = core_clocks f s in Some (HAL_InitTick (uwTickPrio t) t))"

text \<open>First the slower dividers, then the switch, then the faster ones, then the variables and the tick.\<close>

definition slow_down :: "(rcc \<Rightarrow> rcc) \<Rightarrow> clk_init \<Rightarrow> u32 \<Rightarrow> rcc \<Rightarrow> (hal_status \<times> rcc) option" where
  "slow_down hw c lat =
     and_then (set_latency hw above lat) (and_then (checked (d1pclk1_divider above c)) (and_then (checked (pclk1_divider above c))
       (and_then (checked (pclk2_divider above c)) (and_then (checked (d3pclk1_divider above c)) (checked (hclk_divider above c))))))"

definition speed_up :: "(rcc \<Rightarrow> rcc) \<Rightarrow> clk_init \<Rightarrow> u32 \<Rightarrow> rcc \<Rightarrow> (hal_status \<times> rcc) option" where
  "speed_up hw c lat =
     and_then (checked (hclk_divider below c)) (and_then (set_latency hw below lat) (and_then (checked (d1pclk1_divider below c))
       (and_then (checked (pclk1_divider below c)) (and_then (checked (pclk2_divider below c)) (checked (d3pclk1_divider below c))))))"

definition HAL_RCC_ClockConfig :: "(rcc \<Rightarrow> rcc) \<Rightarrow> clk_init \<Rightarrow> u32 \<Rightarrow> rcc \<Rightarrow> (hal_status \<times> rcc) option" where
  "HAL_RCC_ClockConfig hw c lat s =
     (if \<not> (1 \<le> clk_type c \<and> clk_type c \<le> 0x3F \<and> lat \<le> 15) then None
      else and_then (slow_down hw c lat) (and_then (switch_sysclk hw c) (and_then (speed_up hw c lat) update_clocks)) s)"

definition HAL_RCC_GetClockConfig :: "rcc \<Rightarrow> clk_init \<times> u32" where
  "HAL_RCC_GetClockConfig s =
     (\<lparr>clk_type = RCC_CLOCKTYPE_SYSCLK OR RCC_CLOCKTYPE_HCLK OR RCC_CLOCKTYPE_D1PCLK1 OR RCC_CLOCKTYPE_PCLK1 OR
         RCC_CLOCKTYPE_PCLK2 OR RCC_CLOCKTYPE_D3PCLK1,
       clk_sysclk_source = RCC_CFGR s AND RCC_CFGR_SW, clk_sysclk_divider = RCC_D1CFGR s AND RCC_D1CFGR_D1CPRE,
       clk_ahb_divider = RCC_D1CFGR s AND RCC_D1CFGR_HPRE, clk_apb3_divider = RCC_D1CFGR s AND RCC_D1CFGR_D1PPRE,
       clk_apb1_divider = RCC_D2CFGR s AND RCC_D2CFGR_D2PPRE1, clk_apb2_divider = RCC_D2CFGR s AND RCC_D2CFGR_D2PPRE2,
       clk_apb4_divider = RCC_D3CFGR s AND RCC_D3CFGR_D3PPRE\<rparr>,
      FLASH_ACR s AND FLASH_ACR_LATENCY)"

section \<open>The third PLL\<close>

datatype pll_output = Pll_p | Pll_q | Pll_r

definition pll3_asserts :: "pll3_init \<Rightarrow> bool" where
  "pll3_asserts p \<longleftrightarrow>
     1 \<le> pll3_m p \<and> pll3_m p \<le> 63 \<and> 4 \<le> pll3_n p \<and> pll3_n p \<le> 512 \<and> 1 \<le> pll3_p p \<and> pll3_p p \<le> 128 \<and>
     1 \<le> pll3_r p \<and> pll3_r p \<le> 128 \<and> 1 \<le> pll3_q p \<and> pll3_q p \<le> 128 \<and>
     pll3_rge p \<in> {RCC_PLL3VCIRANGE_0, RCC_PLL3VCIRANGE_1, RCC_PLL3VCIRANGE_2, RCC_PLL3VCIRANGE_3} \<and>
     pll3_vcosel p \<in> {RCC_PLL3VCOWIDE, RCC_PLL3VCOMEDIUM} \<and> pll3_fracn p \<le> 8191"

definition pll3_program :: "pll3_init \<Rightarrow> pll_output \<Rightarrow> rcc \<Rightarrow> rcc" where
  "pll3_program p out s =
     (let s1 = s\<lparr>RCC_PLLCKSELR := modified RCC_PLLCKSELR_DIVM3 (push_bit 20 (pll3_m p)) (RCC_PLLCKSELR s),
            RCC_PLL3DIVR := ((pll3_n p - 1) AND RCC_PLL3DIVR_N3) OR (push_bit 9 (pll3_p p - 1) AND RCC_PLL3DIVR_P3) OR
              (push_bit 16 (pll3_q p - 1) AND RCC_PLL3DIVR_Q3) OR (push_bit 24 (pll3_r p - 1) AND RCC_PLL3DIVR_R3)\<rparr>;
          s2 = s1\<lparr>RCC_PLLCFGR := modified RCC_PLLCFGR_PLL3RGE (pll3_rge p) (RCC_PLLCFGR s1)\<rparr>;
          s3 = s2\<lparr>RCC_PLLCFGR := modified RCC_PLLCFGR_PLL3VCOSEL (pll3_vcosel p) (RCC_PLLCFGR s2)\<rparr>;
          s4 = s3\<lparr>RCC_PLLCFGR := RCC_PLLCFGR s3 AND NOT RCC_PLLCFGR_PLL3FRACEN,
            RCC_PLL3FRACR := modified RCC_PLL3FRACR_FRACN3 (push_bit RCC_PLL3FRACR_FRACN3_Pos (pll3_fracn p)) (RCC_PLL3FRACR s3)\<rparr>;
          s5 = s4\<lparr>RCC_PLLCFGR := (RCC_PLLCFGR s4 OR RCC_PLLCFGR_PLL3FRACEN) OR
            (case out of Pll_p \<Rightarrow> RCC_PLL3_DIVP | Pll_q \<Rightarrow> RCC_PLL3_DIVQ | Pll_r \<Rightarrow> RCC_PLL3_DIVR)\<rparr>
      in s5\<lparr>RCC_CR := RCC_CR s5 OR RCC_CR_PLL3ON\<rparr>)"

definition RCCEx_PLL3_Config :: "(rcc \<Rightarrow> rcc) \<Rightarrow> pll3_init \<Rightarrow> pll_output \<Rightarrow> rcc \<Rightarrow> (hal_status \<times> rcc) option" where
  "RCCEx_PLL3_Config hw p out s =
     (if \<not> pll3_asserts p then None
      else if RCC_PLLCKSELR s AND RCC_PLLCKSELR_PLLSRC = RCC_PLLSOURCE_NONE then Some (HAL_ERROR, s)
      else and_then (wait_for hw PLL_TIMEOUT_VALUE (\<lambda>t. \<not> rcc_flag RCC_FLAG_PLL3RDY t))
        (\<lambda>t. wait_for hw PLL_TIMEOUT_VALUE (rcc_flag RCC_FLAG_PLL3RDY) (pll3_program p out t))
        (s\<lparr>RCC_CR := RCC_CR s AND NOT RCC_CR_PLL3ON\<rparr>))"

definition pll3_frac :: "rcc \<Rightarrow> u32" where
  "pll3_frac s = drop_bit RCC_PLLCFGR_PLL3FRACEN_Pos (RCC_PLLCFGR s AND RCC_PLLCFGR_PLL3FRACEN) *
     drop_bit 3 (RCC_PLL3FRACR s AND RCC_PLL3FRACR_FRACN3)"

text \<open>The three outputs, in the order P, Q, R.\<close>

definition HAL_RCCEx_GetPLL3ClockFreq :: "rcc \<Rightarrow> (u32 \<times> u32 \<times> u32) option" where
  "HAL_RCCEx_GetPLL3ClockFreq s =
     (let m = drop_bit 20 (RCC_PLLCKSELR s AND RCC_PLLCKSELR_DIVM3); sel = RCC_PLLCKSELR s AND RCC_PLLCKSELR_PLLSRC;
          f = (if sel = RCC_PLLSOURCE_HSI then hal_hsi s else if sel = RCC_PLLSOURCE_CSI then CSI_VALUE
               else if sel = RCC_PLLSOURCE_HSE then HSE_VALUE else CSI_VALUE);
          vco = pll_vco f m (RCC_PLL3DIVR s AND RCC_PLL3DIVR_N3) (pll3_frac s);
          out = (\<lambda>d. float_to_u32 (flt (vco / flt (float_of d + float_of 1))))
      in if m = 0 then Some (0, 0, 0)
         else out (drop_bit 9 (RCC_PLL3DIVR s AND RCC_PLL3DIVR_P3)) \<bind> (\<lambda>p.
           out (drop_bit 16 (RCC_PLL3DIVR s AND RCC_PLL3DIVR_Q3)) \<bind> (\<lambda>q.
             out (drop_bit 24 (RCC_PLL3DIVR s AND RCC_PLL3DIVR_R3)) \<bind> (\<lambda>r. Some (p, q, r)))))"

section \<open>Clocks of the peripherals\<close>

text \<open>
  The branches of \<open>HAL_RCCEx_PeriphCLKConfig\<close> for the memory controller and the display controller,
  in the order of the code, with the sources that need no second PLL; any other request is outside
  of the model, \<open>None\<close>.
\<close>

definition fmc_clock :: "periph_clk_init \<Rightarrow> rcc \<Rightarrow> (bool \<times> rcc) option" where
  "fmc_clock i s =
     (let src = pc_fmc i; put = (\<lambda>t. t\<lparr>RCC_D1CCIPR := modified RCC_D1CCIPR_FMCSEL src (RCC_D1CCIPR t)\<rparr>)
      in if pc_selection i AND RCC_PERIPHCLK_FMC \<noteq> RCC_PERIPHCLK_FMC then Some (True, s)
         else if src = RCC_FMCCLKSOURCE_PLL then Some (True, put (s\<lparr>RCC_PLLCFGR := RCC_PLLCFGR s OR RCC_PLL1_DIVQ\<rparr>))
         else if src = RCC_FMCCLKSOURCE_PLL2 then None
         else if src = RCC_FMCCLKSOURCE_CLKP \<or> src = RCC_FMCCLKSOURCE_HCLK then Some (True, put s)
         else Some (False, s))"

definition ltdc_clock :: "(rcc \<Rightarrow> rcc) \<Rightarrow> periph_clk_init \<Rightarrow> rcc \<Rightarrow> (bool \<times> rcc) option" where
  "ltdc_clock hw i s =
     (if pc_selection i AND RCC_PERIPHCLK_LTDC \<noteq> RCC_PERIPHCLK_LTDC then Some (True, s)
      else RCCEx_PLL3_Config hw (pc_pll3 i) Pll_r s \<bind> (\<lambda>(r, t). Some (r = HAL_OK, t)))"

definition HAL_RCCEx_PeriphCLKConfig :: "(rcc \<Rightarrow> rcc) \<Rightarrow> periph_clk_init \<Rightarrow> rcc \<Rightarrow> (hal_status \<times> rcc) option" where
  "HAL_RCCEx_PeriphCLKConfig hw i s =
     (if pc_selection i AND NOT (RCC_PERIPHCLK_FMC OR RCC_PERIPHCLK_LTDC) \<noteq> 0 then None
      else fmc_clock i s \<bind> (\<lambda>(a, t). ltdc_clock hw i t \<bind> (\<lambda>(b, u).
        Some (if a \<and> b then HAL_OK else HAL_ERROR, u))))"

section \<open>Exact values\<close>

lemma lead_le:
  assumes "0 < x"
  shows "pow2 (lead x) \<le> x"
proof -
  obtain a b where q: "quotient_of x = (a, b)" by (cases "quotient_of x")
  have b: "0 < b" and x: "x = of_int a / of_int b" using quotient_of_denom_pos [OF q] quotient_of_div [OF q] by auto
  have a: "0 < a" using assms b by (simp add: x zero_less_divide_iff)
  let ?f = "floorlog 2 (nat a)" and ?g = "floorlog 2 (nat b)"
  have "2 ^ (?f - 1) \<le> nat a" "nat b < 2 ^ ?g" using floorlog_bounds [of "nat a" 2] floorlog_bounds [of "nat b" 2] a b by auto
  then have "int (2 ^ (?f - 1)) \<le> a" "b < int (2 ^ ?g)" using a b by linarith+
  then have "of_int (2 ^ (?f - 1)) \<le> (of_int a :: rat)" "(of_int b :: rat) \<le> of_int (2 ^ ?g)" unfolding of_int_le_iff by simp_all
  moreover have "0 < ?f" using a by (simp add: floorlog_def)
  then have "(2 :: rat) powi (int ?f - 1) = of_int (2 ^ (?f - 1))" by (simp add: power_int_def nat_diff_distrib)
  ultimately have "2 powi (int ?f - 1) / 2 powi (int ?g) \<le> x"
    unfolding x using b a by (intro frac_le) (simp_all add: power_int_def)
  moreover have "int ?f - int ?g - 1 = (int ?f - 1) - int ?g" by simp
  then have "pow2 (int ?f - int ?g - 1) = 2 powi (int ?f - 1) / 2 powi (int ?g)"
    by (simp only: pow2_def) (rule power_int_diff, simp)
  ultimately have "pow2 (int ?f - int ?g - 1) \<le> x" by simp
  then show ?thesis by (auto simp: lead_def q Let_def)
qed

lemma flt_exact:
  assumes "0 < m" "m < 2 ^ 24" "x = of_int m * 2 powi e"
  shows "flt x = x"
proof -
  have x: "0 < x" using assms(1) by (simp add: assms(3))
  have "x < 2 ^ 24 * 2 powi e" using assms(2) by (simp add: assms(3)) 
  then have "x < 2 powi (e + 24)" by (simp add: power_int_add)
  then have "(2 :: rat) powi lead x < 2 powi (e + 24)" using lead_le [OF x] by (simp add: pow2_def)
  then have "lead x < e + 24" using power_int_increasing [of "e + 24" "lead x" "2 :: rat"] by force
  then have n: "e - (lead x - 23) = int (nat (e - (lead x - 23)))" by simp
  have "x / pow2 (lead x - 23) = of_int m * 2 powi (e - (lead x - 23))"
    by (simp add: assms(3) pow2_def power_int_diff)
  also have "\<dots> = of_int (m * 2 ^ nat (e - (lead x - 23)))" by (subst n) (simp only: power_int_of_nat of_int_mult of_int_power of_int_numeral)
  finally have "of_int (round_even (x / pow2 (lead x - 23))) = x / pow2 (lead x - 23)"
    by (simp add: round_even_def Let_def)
  then show ?thesis using x by (simp add: flt_def Let_def pow2_def)
qed


lemma flt_integers:
  "flt 25000000 = 25000000" "flt 5 = 5" "flt 5000000 = 5000000" "flt 191 = 191" "flt 192 = 192" "flt 960000000 = 960000000" 
  "flt 2 = 2" "flt 480000000 = 480000000" "flt 0 = 0" "flt 8192 = 8192"  "flt 1 = 1" 
  using flt_exact [of 390625 25000000 6] flt_exact [of 5 5 0] flt_exact [of 5000000 5000000 0] flt_exact [of 191 191 0]
   flt_exact [of 192 192 0] flt_exact [of 234375 960000000 12] flt_exact [of 2 2 0] flt_exact [of 234375 480000000 11]
   flt_exact [of 1 8192 13] flt_exact [of 1 1 0] by (simp_all add: flt_def)

text \<open>The frequency of the board: 25 MHz / 5 * 192 / 2.\<close>

lemma main_pll_freq:
  assumes "sysclk_source s = RCC_CFGR_SWS_PLL1" "RCC_PLLCKSELR s AND RCC_PLLCKSELR_PLLSRC = RCC_PLLSOURCE_HSE" "pll1_m s = 5"
    "RCC_PLL1DIVR s AND RCC_PLL1DIVR_N1 = 191" "pll1_frac s = 0" "drop_bit 9 (RCC_PLL1DIVR s AND RCC_PLL1DIVR_P1) + 1 = 2"
  shows "HAL_RCC_GetSysClockFreq s = Some 480000000"
proof -
  have n: "RCC_CFGR_SWS_PLL1 \<noteq> RCC_CFGR_SWS_HSI" "RCC_CFGR_SWS_PLL1 \<noteq> RCC_CFGR_SWS_CSI" "RCC_CFGR_SWS_PLL1 \<noteq> RCC_CFGR_SWS_HSE"
    "RCC_PLLSOURCE_HSE \<noteq> RCC_PLLSOURCE_HSI" "RCC_PLLSOURCE_HSE \<noteq> RCC_PLLSOURCE_CSI" "(5 :: u32) \<noteq> 0" by (simp_all add: hal_consts)
  have f: "float_of HSE_VALUE = 25000000" "float_of 5 = 5" "float_of 191 = 191" "float_of 0 = 0" "float_of 0x2000 = 8192"
    "float_of 1 = 1" "float_of 2 = 2" using flt_integers by (simp_all add: float_of_def HSE_VALUE_def)
  have "pll_vco HSE_VALUE 5 191 0 = 960000000" using flt_integers by (simp add: pll_vco_def f)
  then have "float_to_u32 (flt (pll_vco HSE_VALUE 5 191 0 / float_of 2)) = Some 480000000"
    using flt_integers by (simp add: f float_to_u32_def)
  then show ?thesis
    unfolding HAL_RCC_GetSysClockFreq_def Let_def assms by (simp only: n if_True if_False simp_thms)
qed

section \<open>Two computations of the core clock\<close>

lemma presc_entries: "list_all (\<lambda>k. k AND 0x1F = k) D1CorePrescTable"
  by code_simp

lemma presc_entry: "n < 16 \<Longrightarrow> D1CorePrescTable ! n AND 0x1F = D1CorePrescTable ! n"
  using presc_entries by (simp add: list_all_length D1CorePrescTable_def)

lemma d1cpre_small: "unat (drop_bit RCC_D1CFGR_D1CPRE_Pos (v AND RCC_D1CFGR_D1CPRE)) < 16"
proof -
  have "unat (v AND 0xF00 :: u32) \<le> unat (0xF00 :: u32)"
    by (simp only: word_le_nat_alt [symmetric]) (rule word_and_le1)
  then have "unat (v AND 0xF00 :: u32) div 256 < 16" by simp
  then show ?thesis by (simp only: RCC_D1CFGR_D1CPRE_def RCC_D1CFGR_D1CPRE_Pos_def unat_drop_bit_eq drop_bit_eq_div) (simp add: unat_div_distrib)
qed

lemma le3: "(n :: nat) \<le> 3 \<Longrightarrow> n = 0 \<or> n = 1 \<or> n = 2 \<or> n = 3"
  by presburger

text \<open>
  C23.  The two computations of the core clock agree.  The vendor's driver and the system file read the
  same registers, each with its own code.  If the divider flag of the internal oscillator follows its
  field, the system clock comes from one of the four sources, and a PLL that is the system clock has
  a source of its own, both leave the same variables.
\<close>

theorem core_clock_update_agrees:
  assumes "rcc_flag RCC_FLAG_HSIDIV s \<or> RCC_CR s AND RCC_CR_HSIDIV = 0"
    and "sysclk_source s \<in> {RCC_CFGR_SWS_HSI, RCC_CFGR_SWS_CSI, RCC_CFGR_SWS_HSE, RCC_CFGR_SWS_PLL1}"
    and "sysclk_source s = RCC_CFGR_SWS_PLL1 \<longrightarrow> RCC_PLLCKSELR s AND RCC_PLLCKSELR_PLLSRC \<noteq> RCC_PLLSOURCE_NONE"
  shows "SystemCoreClockUpdate s = map_option snd (HAL_RCC_GetHCLKFreq s)"
proof -
  have no_divider: "sys_hsi s = HSI_VALUE" if "RCC_CR s AND RCC_CR_HSIDIV = 0"
    unfolding sys_hsi_def that by simp
  have hsi: "sys_hsi s = hal_hsi s" using assms(1) no_divider by (cases "rcc_flag RCC_FLAG_HSIDIV s") (simp_all only: hal_hsi_def sys_hsi_def if_True if_False simp_thms)
  have mask: "D1CorePrescTable ! unat (drop_bit RCC_D1CFGR_D1CPRE_Pos (RCC_D1CFGR s AND RCC_D1CFGR_D1CPRE)) =
      presc RCC_D1CFGR_D1CPRE RCC_D1CFGR_D1CPRE_Pos (RCC_D1CFGR s)"
    using presc_entry [OF d1cpre_small] by (simp add: presc_def)
  let ?sel = "RCC_PLLCKSELR s AND RCC_PLLCKSELR_PLLSRC"
  have four: "w \<in> {0, 1, 2, 3}" if "w = v AND 3" for v w :: u32
  proof -
    have "unat w \<le> unat (3 :: u32)" unfolding that by (simp only: word_le_nat_alt [symmetric]) (rule word_and_le1)
    then have "unat w = 0 \<or> unat w = 1 \<or> unat w = 2 \<or> unat w = 3" using le3 [of "unat w"] by simp
    then show ?thesis by (auto simp: word_unat_eq_iff)
  qed
  have sel: "?sel \<in> {RCC_PLLSOURCE_HSI, RCC_PLLSOURCE_CSI, RCC_PLLSOURCE_HSE, RCC_PLLSOURCE_NONE}"
    using four [of ?sel "RCC_PLLCKSELR s"] by (simp add: hal_consts)
  have "(HAL_RCC_GetSysClockFreq s \<bind> (\<lambda>f. Some (core_clocks f s))) = SystemCoreClockUpdate s" (is ?eq)
  proof (cases "sysclk_source s = RCC_CFGR_SWS_PLL1")
    case False
    have "RCC_CFGR_SWS_CSI \<noteq> RCC_CFGR_SWS_HSI" "RCC_CFGR_SWS_HSE \<noteq> RCC_CFGR_SWS_HSI" "RCC_CFGR_SWS_HSE \<noteq> RCC_CFGR_SWS_CSI"
      by (simp_all add: hal_consts)
    with False assms(2) show ?eq
      by (auto simp only: HAL_RCC_GetSysClockFreq_def SystemCoreClockUpdate_def core_clocks_def hsi mask Let_def insert_iff empty_iff if_True if_False simp_thms)
  next
    case True
    have "RCC_CFGR_SWS_PLL1 \<noteq> RCC_CFGR_SWS_HSI" "RCC_CFGR_SWS_PLL1 \<noteq> RCC_CFGR_SWS_HSE" "RCC_CFGR_SWS_PLL1 \<noteq> RCC_CFGR_SWS_CSI"
      by (simp_all add: hal_consts)
    note pll = this
    have k: "?sel = RCC_PLLSOURCE_HSI \<or> ?sel = RCC_PLLSOURCE_CSI \<or> ?sel = RCC_PLLSOURCE_HSE" using sel assms(3) True by blast
    have c: "RCC_PLLCKSELR_PLLSRC_HSI = RCC_PLLSOURCE_HSI" "RCC_PLLCKSELR_PLLSRC_CSI = RCC_PLLSOURCE_CSI" "RCC_PLLCKSELR_PLLSRC_HSE = RCC_PLLSOURCE_HSE"
      by (simp_all add: hal_consts)
    show ?eq using k
      by (elim disjE) (simp_all only: HAL_RCC_GetSysClockFreq_def SystemCoreClockUpdate_def core_clocks_def hsi mask True pll c Let_def if_True if_False simp_thms)
  qed
  then show ?thesis by (cases "HAL_RCC_GetSysClockFreq s") (auto simp: HAL_RCC_GetHCLKFreq_def Let_def)
qed

text \<open>The clocks of the board once the PLL is the system clock: 480 MHz for the core, half of it for the buses.\<close>

definition fast_clock :: rcc where
  "fast_clock = ext_on\<lparr>RCC_CFGR := RCC_SYSCLKSOURCE_PLLCLK OR RCC_CFGR_SWS_PLL1, RCC_D1CFGR := RCC_HCLK_DIV2\<rparr>"

lemma fast_clock_freq: "HAL_RCC_GetSysClockFreq fast_clock = Some 480000000"
proof -
  have "sysclk_source fast_clock = RCC_CFGR_SWS_PLL1" "RCC_PLLCKSELR fast_clock AND RCC_PLLCKSELR_PLLSRC = RCC_PLLSOURCE_HSE"
    "pll1_m fast_clock = 5" "RCC_PLL1DIVR fast_clock AND RCC_PLL1DIVR_N1 = 191" "pll1_frac fast_clock = 0"
    "drop_bit 9 (RCC_PLL1DIVR fast_clock AND RCC_PLL1DIVR_P1) + 1 = 2"
    by code_simp+
  then show ?thesis by (rule main_pll_freq)
qed

theorem core_clock_update_agrees_witness:
  "SystemCoreClockUpdate fast_clock = map_option snd (HAL_RCC_GetHCLKFreq fast_clock) \<and>
   HAL_RCC_GetSysClockFreq fast_clock = Some 480000000"
proof (rule conjI)
  show "SystemCoreClockUpdate fast_clock = map_option snd (HAL_RCC_GetHCLKFreq fast_clock)"
    by (rule core_clock_update_agrees) code_simp+
  show "HAL_RCC_GetSysClockFreq fast_clock = Some 480000000" by (rule fast_clock_freq)
qed

section \<open>A configuration of the system clock reads back\<close>

lemma and_then_OK: "and_then f g s = Some (HAL_OK, u) \<longleftrightarrow> (\<exists>t. f s = Some (HAL_OK, t) \<and> g t = Some (HAL_OK, u))"
  by (auto simp: and_then_def bind_eq_Some_conv split: if_splits)

lemma checked_OK: "checked f s = Some (HAL_OK, t) \<longleftrightarrow> f s = Some t"
  by (auto simp: checked_def bind_eq_Some_conv)

text \<open>A field after the conditional write of a divider, or of the latency.\<close>

definition divided :: "(u32 \<Rightarrow> u32 \<Rightarrow> bool) \<Rightarrow> u32 \<Rightarrow> u32 \<Rightarrow> u32 \<Rightarrow> u32" where
  "divided cmp msk d v = (if cmp d (v AND msk) then modified msk d v else v)"

lemma set_divider_Some: "set_divider cmp legal msk d v = Some w \<Longrightarrow> w = divided cmp msk d v"
  by (auto simp: set_divider_def divided_def split: if_splits)

lemma divided_twice:
  assumes "msk AND d = d" "w AND msk = divided above msk d v AND msk"
  shows "divided below msk d w AND msk = d"
proof (cases "d < w AND msk")
  case True
  then show ?thesis using assms(1) by (simp add: divided_def below_def modified_and)
next
  case False
  have "w AND msk = d"
  proof (cases "v AND msk < d")
    case True
    then show ?thesis using assms by (simp add: divided_def above_def modified_and)
  next
    case le: False
    then have "w AND msk = v AND msk" using assms(2) by (simp add: divided_def above_def)
    then show ?thesis using le False by auto
  qed
  then show ?thesis by (simp add: divided_def below_def)
qed

lemma divided_other:
  assumes "msk AND d = d" "msk AND m = 0"
  shows "divided cmp msk d v AND m = v AND m"
proof -
  have "d AND m = (d AND msk) AND m" using assms(1) by (simp only: and.commute [of d msk])
  then have "d AND m = 0" unfolding and.assoc assms(2) by simp
  then show ?thesis using modified_other [OF assms(2)] by (simp add: divided_def)
qed

lemma settings_updates:
  "settings (u\<lparr>RCC_D1CFGR := v\<rparr>) = (settings u)\<lparr>RCC_D1CFGR := v\<rparr>"
  "settings (u\<lparr>RCC_D2CFGR := v\<rparr>) = (settings u)\<lparr>RCC_D2CFGR := v\<rparr>"
  "settings (u\<lparr>RCC_D3CFGR := v\<rparr>) = (settings u)\<lparr>RCC_D3CFGR := v\<rparr>"
  "settings (u\<lparr>FLASH_ACR := v\<rparr>) = (settings u)\<lparr>FLASH_ACR := v\<rparr>"
  by (simp_all add: settings_def)

lemma latency_mask: "lat \<le> 15 \<Longrightarrow> FLASH_ACR_LATENCY AND lat = lat"
proof -
  assume "lat \<le> 15"
  then have "lat < 2 ^ 4" using order.strict_trans1 [of lat 15 16] by simp
  then have "mask 4 AND lat = lat" by (simp only: and.commute [of "mask 4"] less_mask_eq)
  moreover have "FLASH_ACR_LATENCY = mask 4" by code_simp
  ultimately show "FLASH_ACR_LATENCY AND lat = lat" by simp
qed

lemma set_latency_result:
  assumes "status_only hw" "set_latency hw cmp lat s = Some (HAL_OK, t)"
  shows "settings t = settings (s\<lparr>FLASH_ACR := divided cmp FLASH_ACR_LATENCY lat (FLASH_ACR s)\<rparr>)"
proof (cases "cmp lat (FLASH_ACR s AND FLASH_ACR_LATENCY)")
  case True
  let ?s = "s\<lparr>FLASH_ACR := modified FLASH_ACR_LATENCY lat (FLASH_ACR s)\<rparr>"
  have "t = hw ?s" using assms(2) True by (simp add: set_latency_def Let_def)
  then show ?thesis using assms(1) True by (simp add: status_only_def divided_def)
next
  case False
  then show ?thesis using assms(2) by (simp add: set_latency_def divided_def)
qed

text \<open>A request for all the clocks.\<close>

definition all_clocks :: u32 where "all_clocks = 0x3F"

lemma divider_steps:
  assumes "clk_type c = all_clocks"
  shows
    "d1pclk1_divider cmp c s = Some t \<Longrightarrow> t = s\<lparr>RCC_D1CFGR := divided cmp RCC_D1CFGR_D1PPRE (clk_apb3_divider c) (RCC_D1CFGR s)\<rparr>"
    "pclk1_divider cmp c s = Some t \<Longrightarrow> t = s\<lparr>RCC_D2CFGR := divided cmp RCC_D2CFGR_D2PPRE1 (clk_apb1_divider c) (RCC_D2CFGR s)\<rparr>"
    "pclk2_divider cmp c s = Some t \<Longrightarrow> t = s\<lparr>RCC_D2CFGR := divided cmp RCC_D2CFGR_D2PPRE2 (clk_apb2_divider c) (RCC_D2CFGR s)\<rparr>"
    "d3pclk1_divider cmp c s = Some t \<Longrightarrow> t = s\<lparr>RCC_D3CFGR := divided cmp RCC_D3CFGR_D3PPRE (clk_apb4_divider c) (RCC_D3CFGR s)\<rparr>"
    "hclk_divider cmp c s = Some t \<Longrightarrow> t = s\<lparr>RCC_D1CFGR := divided cmp RCC_D1CFGR_HPRE (clk_ahb_divider c) (RCC_D1CFGR s)\<rparr>"
proof -
  have t: "clk_type c AND RCC_CLOCKTYPE_D1PCLK1 = RCC_CLOCKTYPE_D1PCLK1" "clk_type c AND RCC_CLOCKTYPE_PCLK1 = RCC_CLOCKTYPE_PCLK1"
    "clk_type c AND RCC_CLOCKTYPE_PCLK2 = RCC_CLOCKTYPE_PCLK2" "clk_type c AND RCC_CLOCKTYPE_D3PCLK1 = RCC_CLOCKTYPE_D3PCLK1"
    "clk_type c AND RCC_CLOCKTYPE_HCLK = RCC_CLOCKTYPE_HCLK"
    by (simp_all add: assms all_clocks_def hal_consts)
  show "d1pclk1_divider cmp c s = Some t \<Longrightarrow> t = s\<lparr>RCC_D1CFGR := divided cmp RCC_D1CFGR_D1PPRE (clk_apb3_divider c) (RCC_D1CFGR s)\<rparr>"
    by (auto simp: d1pclk1_divider_def t bind_eq_Some_conv dest!: set_divider_Some)
  show "pclk1_divider cmp c s = Some t \<Longrightarrow> t = s\<lparr>RCC_D2CFGR := divided cmp RCC_D2CFGR_D2PPRE1 (clk_apb1_divider c) (RCC_D2CFGR s)\<rparr>"
    by (auto simp: pclk1_divider_def t bind_eq_Some_conv dest!: set_divider_Some)
  show "pclk2_divider cmp c s = Some t \<Longrightarrow> t = s\<lparr>RCC_D2CFGR := divided cmp RCC_D2CFGR_D2PPRE2 (clk_apb2_divider c) (RCC_D2CFGR s)\<rparr>"
    by (auto simp: pclk2_divider_def t bind_eq_Some_conv dest!: set_divider_Some)
  show "d3pclk1_divider cmp c s = Some t \<Longrightarrow> t = s\<lparr>RCC_D3CFGR := divided cmp RCC_D3CFGR_D3PPRE (clk_apb4_divider c) (RCC_D3CFGR s)\<rparr>"
    by (auto simp: d3pclk1_divider_def t bind_eq_Some_conv dest!: set_divider_Some)
  show "hclk_divider cmp c s = Some t \<Longrightarrow> t = s\<lparr>RCC_D1CFGR := divided cmp RCC_D1CFGR_HPRE (clk_ahb_divider c) (RCC_D1CFGR s)\<rparr>"
    by (auto simp: hclk_divider_def t bind_eq_Some_conv dest!: set_divider_Some)
qed

lemma slow_down_result:
  assumes "slow_down hw c lat s = Some (HAL_OK, t)" "status_only hw" "clk_type c = all_clocks"
  shows "settings t = settings (s\<lparr>FLASH_ACR := divided above FLASH_ACR_LATENCY lat (FLASH_ACR s),
    RCC_D1CFGR := divided above RCC_D1CFGR_HPRE (clk_ahb_divider c) (divided above RCC_D1CFGR_D1PPRE (clk_apb3_divider c) (RCC_D1CFGR s)),
    RCC_D2CFGR := divided above RCC_D2CFGR_D2PPRE2 (clk_apb2_divider c) (divided above RCC_D2CFGR_D2PPRE1 (clk_apb1_divider c) (RCC_D2CFGR s)),
    RCC_D3CFGR := divided above RCC_D3CFGR_D3PPRE (clk_apb4_divider c) (RCC_D3CFGR s)\<rparr>)"
proof -
  obtain u where u: "set_latency hw above lat s = Some (HAL_OK, u)"
    "t = u\<lparr>RCC_D1CFGR := divided above RCC_D1CFGR_HPRE (clk_ahb_divider c) (divided above RCC_D1CFGR_D1PPRE (clk_apb3_divider c) (RCC_D1CFGR u)),
      RCC_D2CFGR := divided above RCC_D2CFGR_D2PPRE2 (clk_apb2_divider c) (divided above RCC_D2CFGR_D2PPRE1 (clk_apb1_divider c) (RCC_D2CFGR u)),
      RCC_D3CFGR := divided above RCC_D3CFGR_D3PPRE (clk_apb4_divider c) (RCC_D3CFGR u)\<rparr>"
    using assms(1) by (auto simp: slow_down_def and_then_OK checked_OK dest!: divider_steps [OF assms(3)])
  note e = set_latency_result [OF assms(2) u(1)]
  show ?thesis using e settings_eq(7,8,9) [OF e] by (simp add: u(2) settings_updates)
qed

lemma speed_up_result:
  assumes "speed_up hw c lat s = Some (HAL_OK, t)" "status_only hw" "clk_type c = all_clocks"
  shows "settings t = settings (s\<lparr>FLASH_ACR := divided below FLASH_ACR_LATENCY lat (FLASH_ACR s),
    RCC_D1CFGR := divided below RCC_D1CFGR_D1PPRE (clk_apb3_divider c) (divided below RCC_D1CFGR_HPRE (clk_ahb_divider c) (RCC_D1CFGR s)),
    RCC_D2CFGR := divided below RCC_D2CFGR_D2PPRE2 (clk_apb2_divider c) (divided below RCC_D2CFGR_D2PPRE1 (clk_apb1_divider c) (RCC_D2CFGR s)),
    RCC_D3CFGR := divided below RCC_D3CFGR_D3PPRE (clk_apb4_divider c) (RCC_D3CFGR s)\<rparr>)"
proof -
  let ?s = "s\<lparr>RCC_D1CFGR := divided below RCC_D1CFGR_HPRE (clk_ahb_divider c) (RCC_D1CFGR s)\<rparr>"
  obtain u where u: "set_latency hw below lat ?s = Some (HAL_OK, u)"
    "t = u\<lparr>RCC_D1CFGR := divided below RCC_D1CFGR_D1PPRE (clk_apb3_divider c) (RCC_D1CFGR u),
      RCC_D2CFGR := divided below RCC_D2CFGR_D2PPRE2 (clk_apb2_divider c) (divided below RCC_D2CFGR_D2PPRE1 (clk_apb1_divider c) (RCC_D2CFGR u)),
      RCC_D3CFGR := divided below RCC_D3CFGR_D3PPRE (clk_apb4_divider c) (RCC_D3CFGR u)\<rparr>"
    using assms(1) by (auto simp: speed_up_def and_then_OK checked_OK dest!: divider_steps [OF assms(3)])
  note e = set_latency_result [OF assms(2) u(1)]
  show ?thesis using e settings_eq(7,8,9) [OF e] by (simp add: u(2) settings_updates)
qed

lemma switch_result:
  assumes "switch_sysclk hw c s = Some (HAL_OK, t)" "status_only hw" "clk_type c = all_clocks"
  shows "settings t = settings (s\<lparr>RCC_D1CFGR := modified RCC_D1CFGR_D1CPRE (clk_sysclk_divider c) (RCC_D1CFGR s),
      RCC_CFGR := modified RCC_CFGR_SW (clk_sysclk_source c) (RCC_CFGR s)\<rparr>)"
    "sysclk_source t = push_bit RCC_CFGR_SWS_Pos (clk_sysclk_source c)" "clk_sysclk_divider c \<in> sysclk_dividers"
    "clk_sysclk_source c \<in> {RCC_SYSCLKSOURCE_CSI, RCC_SYSCLKSOURCE_HSI, RCC_SYSCLKSOURCE_HSE, RCC_SYSCLKSOURCE_PLLCLK}"
proof -
  have "clk_type c AND RCC_CLOCKTYPE_SYSCLK = RCC_CLOCKTYPE_SYSCLK" by (simp add: assms all_clocks_def hal_consts)
  then have w: "wait_for hw CLOCKSWITCH_TIMEOUT_VALUE (\<lambda>u. sysclk_source u = push_bit RCC_CFGR_SWS_Pos (clk_sysclk_source c))
      (s\<lparr>RCC_D1CFGR := modified RCC_D1CFGR_D1CPRE (clk_sysclk_divider c) (RCC_D1CFGR s),
        RCC_CFGR := modified RCC_CFGR_SW (clk_sysclk_source c) (RCC_CFGR s)\<rparr>) = Some (HAL_OK, t)"
    and "clk_sysclk_divider c \<in> sysclk_dividers"
    "clk_sysclk_source c \<in> {RCC_SYSCLKSOURCE_CSI, RCC_SYSCLKSOURCE_HSI, RCC_SYSCLKSOURCE_HSE, RCC_SYSCLKSOURCE_PLLCLK}"
    using assms(1) unfolding switch_sysclk_def Let_def by (simp_all split: if_splits)
  then show "clk_sysclk_divider c \<in> sysclk_dividers"
    "clk_sysclk_source c \<in> {RCC_SYSCLKSOURCE_CSI, RCC_SYSCLKSOURCE_HSI, RCC_SYSCLKSOURCE_HSE, RCC_SYSCLKSOURCE_PLLCLK}"
    by blast+
  show "settings t = settings (s\<lparr>RCC_D1CFGR := modified RCC_D1CFGR_D1CPRE (clk_sysclk_divider c) (RCC_D1CFGR s),
      RCC_CFGR := modified RCC_CFGR_SW (clk_sysclk_source c) (RCC_CFGR s)\<rparr>)"
    by (rule wait_for_settings [OF assms(2) w])
  show "sysclk_source t = push_bit RCC_CFGR_SWS_Pos (clk_sysclk_source c)" by (rule wait_for_result [OF w])
qed

text \<open>The dividers of a request stay inside their fields.\<close>

definition clk_request :: "clk_init \<Rightarrow> bool" where
  "clk_request c \<longleftrightarrow> clk_apb3_divider c AND RCC_D1CFGR_D1PPRE = clk_apb3_divider c \<and> clk_ahb_divider c AND RCC_D1CFGR_HPRE = clk_ahb_divider c \<and>
     clk_apb1_divider c AND RCC_D2CFGR_D2PPRE1 = clk_apb1_divider c \<and> clk_apb2_divider c AND RCC_D2CFGR_D2PPRE2 = clk_apb2_divider c \<and>
     clk_apb4_divider c AND RCC_D3CFGR_D3PPRE = clk_apb4_divider c"

lemma clk_request_masks:
  assumes "clk_request c"
  shows "RCC_D1CFGR_D1PPRE AND clk_apb3_divider c = clk_apb3_divider c" "RCC_D1CFGR_HPRE AND clk_ahb_divider c = clk_ahb_divider c"
    "RCC_D2CFGR_D2PPRE1 AND clk_apb1_divider c = clk_apb1_divider c" "RCC_D2CFGR_D2PPRE2 AND clk_apb2_divider c = clk_apb2_divider c"
    "RCC_D3CFGR_D3PPRE AND clk_apb4_divider c = clk_apb4_divider c"
  using assms unfolding clk_request_def by (simp_all only: and.commute)

lemma fields_apart:
  "RCC_D2CFGR_D2PPRE1 AND RCC_D2CFGR_D2PPRE2 = 0" "RCC_D2CFGR_D2PPRE2 AND RCC_D2CFGR_D2PPRE1 = 0"
  "RCC_D1CFGR_D1PPRE AND RCC_D1CFGR_HPRE = 0" "RCC_D1CFGR_HPRE AND RCC_D1CFGR_D1PPRE = 0"
  "RCC_D1CFGR_D1PPRE AND RCC_D1CFGR_D1CPRE = 0" "RCC_D1CFGR_D1CPRE AND RCC_D1CFGR_D1PPRE = 0"
  "RCC_D1CFGR_HPRE AND RCC_D1CFGR_D1CPRE = 0" "RCC_D1CFGR_D1CPRE AND RCC_D1CFGR_HPRE = 0"
  by (simp_all add: hal_consts)

text \<open>The variables and the tick follow the registers.\<close>

definition clocks_current :: "rcc \<Rightarrow> bool" where
  "clocks_current s \<longleftrightarrow> HAL_RCC_GetHCLKFreq s = Some (SystemD2Clock s, s) \<and> SysTick_LOAD s = SystemCoreClock s div 1000 - 1"

lemma sys_freq_cong:
  assumes "sysclk_source t = sysclk_source s" "RCC_PLLCKSELR t = RCC_PLLCKSELR s" "RCC_PLLCFGR t = RCC_PLLCFGR s"
    "RCC_PLL1DIVR t = RCC_PLL1DIVR s" "RCC_PLL1FRACR t = RCC_PLL1FRACR s"
    and "RCC_CR t = RCC_CR s \<or> sysclk_source s = RCC_CFGR_SWS_PLL1 \<and> RCC_PLLCKSELR s AND RCC_PLLCKSELR_PLLSRC = RCC_PLLSOURCE_HSE"
  shows "HAL_RCC_GetSysClockFreq t = HAL_RCC_GetSysClockFreq s"
proof -
  have e: "pll1_m t = pll1_m s" "pll1_frac t = pll1_frac s" using assms by (simp_all add: pll1_m_def pll1_frac_def)
  have h: "hal_hsi t = hal_hsi s" if "RCC_CR t = RCC_CR s"
  proof -
    have "rcc_flag RCC_FLAG_HSIDIV t = rcc_flag RCC_FLAG_HSIDIV s" using that by (simp add: rcc_flag_def hal_consts)
    then show ?thesis unfolding hal_hsi_def that by simp
  qed
  have n: "RCC_CFGR_SWS_PLL1 \<noteq> RCC_CFGR_SWS_HSI" "RCC_PLLSOURCE_HSE \<noteq> RCC_PLLSOURCE_HSI" by (simp_all add: hal_consts)
  show ?thesis using assms(6)
  proof (elim disjE conjE)
    assume "RCC_CR t = RCC_CR s"
    then show ?thesis unfolding HAL_RCC_GetSysClockFreq_def e assms(1-5) by (simp only: h)
  next
    assume "sysclk_source s = RCC_CFGR_SWS_PLL1" "RCC_PLLCKSELR s AND RCC_PLLCKSELR_PLLSRC = RCC_PLLSOURCE_HSE"
    then show ?thesis unfolding HAL_RCC_GetSysClockFreq_def e assms(1-5) Let_def by (simp only: n if_False)
  qed
qed

lemma sys_freq_updates [simp]:
  "HAL_RCC_GetSysClockFreq (s\<lparr>SystemD2Clock := a\<rparr>) = HAL_RCC_GetSysClockFreq s"
  "HAL_RCC_GetSysClockFreq (s\<lparr>SystemCoreClock := b\<rparr>) = HAL_RCC_GetSysClockFreq s"
  "HAL_RCC_GetSysClockFreq (s\<lparr>SysTick_LOAD := c\<rparr>) = HAL_RCC_GetSysClockFreq s"
  "HAL_RCC_GetSysClockFreq (s\<lparr>SysTick_VAL := c\<rparr>) = HAL_RCC_GetSysClockFreq s"
  "HAL_RCC_GetSysClockFreq (s\<lparr>SysTick_CTRL := c\<rparr>) = HAL_RCC_GetSysClockFreq s"
  "HAL_RCC_GetSysClockFreq (s\<lparr>SHPR_SysTick := p\<rparr>) = HAL_RCC_GetSysClockFreq s"
  "HAL_RCC_GetSysClockFreq (s\<lparr>uwTickPrio := c\<rparr>) = HAL_RCC_GetSysClockFreq s"
  by (rule sys_freq_cong; simp add: sysclk_source_def)+

lemma update_clocks_result:
  assumes "update_clocks s = Some (HAL_OK, t)"
  shows "clocks_current t" "RCC_D1CFGR t = RCC_D1CFGR s" "RCC_D2CFGR t = RCC_D2CFGR s" "RCC_D3CFGR t = RCC_D3CFGR s"
    "RCC_CFGR t = RCC_CFGR s" "FLASH_ACR t = FLASH_ACR s" "HAL_RCC_GetSysClockFreq t = HAL_RCC_GetSysClockFreq s"
proof -
  obtain f where f: "HAL_RCC_GetSysClockFreq s = Some f" "HAL_InitTick (uwTickPrio s) (core_clocks f s) = (HAL_OK, t)"
    using assms by (auto simp: update_clocks_def bind_eq_Some_conv Let_def core_clocks_def)
  then have t: "t = (core_clocks f s)\<lparr>SysTick_LOAD := SystemCoreClock (core_clocks f s) div 1000 - 1, SysTick_VAL := 0,
      SysTick_CTRL := SysTick_CTRL_CLKSOURCE_Msk OR SysTick_CTRL_TICKINT_Msk OR SysTick_CTRL_ENABLE_Msk,
      SHPR_SysTick := nvic_priority (uwTickPrio s), uwTickPrio := uwTickPrio s\<rparr>"
    by (auto simp: HAL_InitTick_def SysTick_Config_def Let_def split: if_splits)
  show "HAL_RCC_GetSysClockFreq t = HAL_RCC_GetSysClockFreq s" by (simp add: t core_clocks_def Let_def)
  then show "clocks_current t"
    by (simp add: clocks_current_def HAL_RCC_GetHCLKFreq_def f(1) Let_def) (simp add: t core_clocks_def Let_def)
  show "RCC_D1CFGR t = RCC_D1CFGR s" "RCC_D2CFGR t = RCC_D2CFGR s" "RCC_D3CFGR t = RCC_D3CFGR s"
    "RCC_CFGR t = RCC_CFGR s" "FLASH_ACR t = FLASH_ACR s"
    by (simp_all add: t core_clocks_def Let_def)
qed

text \<open>What a successful run leaves: every field of the request, and the rest of the clock tree.\<close>

lemma clock_config_result:
  assumes "HAL_RCC_ClockConfig hw c lat s = Some (HAL_OK, t)" "clk_type c = all_clocks" "status_only hw" "clk_request c"
  shows "FLASH_ACR t AND FLASH_ACR_LATENCY = lat" "RCC_D3CFGR t AND RCC_D3CFGR_D3PPRE = clk_apb4_divider c"
    "RCC_D2CFGR t AND RCC_D2CFGR_D2PPRE1 = clk_apb1_divider c" "RCC_D2CFGR t AND RCC_D2CFGR_D2PPRE2 = clk_apb2_divider c"
    "RCC_D1CFGR t AND RCC_D1CFGR_D1PPRE = clk_apb3_divider c" "RCC_D1CFGR t AND RCC_D1CFGR_HPRE = clk_ahb_divider c"
    "RCC_D1CFGR t AND RCC_D1CFGR_D1CPRE = clk_sysclk_divider c" "RCC_CFGR t AND RCC_CFGR_SW = clk_sysclk_source c"
    "clocks_current t"
proof -
  obtain s1 s2 s3 where s1: "slow_down hw c lat s = Some (HAL_OK, s1)" and s2: "switch_sysclk hw c s1 = Some (HAL_OK, s2)"
    and s3: "speed_up hw c lat s2 = Some (HAL_OK, s3)" and t: "update_clocks s3 = Some (HAL_OK, t)" and lat: "lat \<le> 15"
    using assms(1) by (auto simp: HAL_RCC_ClockConfig_def and_then_OK split: if_splits)
  note e1 = slow_down_result [OF s1 assms(3,2)] and e2 = switch_result [OF s2 assms(3,2)] and e3 = speed_up_result [OF s3 assms(3,2)]
  note f = settings_eq(7,8,9,11) settings_fields(4)
  note f1 = f [OF e1] and f2 = f [OF e2(1)] and f3 = f [OF e3] and f4 = update_clocks_result [OF t]
  note k = clk_request_masks [OF assms(4)]
  note l = latency_mask [OF lat]
  have d: "RCC_D1CFGR_D1CPRE AND clk_sysclk_divider c = clk_sysclk_divider c" "clk_sysclk_divider c AND RCC_D1CFGR_D1PPRE = 0"
      "clk_sysclk_divider c AND RCC_D1CFGR_HPRE = 0" "RCC_CFGR_SW AND clk_sysclk_source c = clk_sysclk_source c"
    using e2(3,4) by (auto simp: sysclk_dividers_def hal_consts)
  show "FLASH_ACR t AND FLASH_ACR_LATENCY = lat"
    using f1(4) f2(4) f3(4) f4(6) by (simp add: divided_twice [OF l])
  show "RCC_D3CFGR t AND RCC_D3CFGR_D3PPRE = clk_apb4_divider c"
    using f1(3) f2(3) f3(3) f4(4) by (simp add: divided_twice [OF k(5)])
  show "RCC_D2CFGR t AND RCC_D2CFGR_D2PPRE1 = clk_apb1_divider c" "RCC_D2CFGR t AND RCC_D2CFGR_D2PPRE2 = clk_apb2_divider c"
    using f1(2) f2(2) f3(2) f4(3) by (simp_all add: divided_twice [OF k(3)] divided_twice [OF k(4)] divided_other [OF k(3)] divided_other [OF k(4)] fields_apart)
  show "RCC_D1CFGR t AND RCC_D1CFGR_D1PPRE = clk_apb3_divider c" "RCC_D1CFGR t AND RCC_D1CFGR_HPRE = clk_ahb_divider c"
    "RCC_D1CFGR t AND RCC_D1CFGR_D1CPRE = clk_sysclk_divider c"
    using f1(1) f2(1) f3(1) f4(2)
    by (simp_all add: divided_twice [OF k(1)] divided_twice [OF k(2)] divided_other [OF k(1)] divided_other [OF k(2)]
      modified_other [OF fields_apart(6) d(2)] modified_other [OF fields_apart(8) d(3)] modified_and [OF d(1)] fields_apart)
  show "RCC_CFGR t AND RCC_CFGR_SW = clk_sysclk_source c"
    using f2(5) f3(5) f4(5) by (simp add: modified_and [OF d(4)])
  show "clocks_current t" by (rule f4(1))
qed

end
