(* ===== verification/Boot_clocks.thy ===== *)
theory Boot_clocks
  imports Bsp_boot Rcc_clock
begin

text \<open>
  The clocks of the board: the three calls of \<open>bsp_earlyinit_clk\<close> on the driver of the clock controller.
  With hardware whose oscillator and PLLs start, each returns \<open>HAL_OK\<close>, and the clock tree runs at
  the frequencies the board needs.
\<close>

unbundle bit_operations_syntax

section \<open>Hardware that works\<close>

text \<open>The input of the PLLs is there: the external oscillator is their source, and it is switched on.\<close>

definition pll_fed :: "rcc \<Rightarrow> bool" where
  "pll_fed s \<longleftrightarrow> RCC_PLLCKSELR s AND RCC_PLLCKSELR_PLLSRC = RCC_PLLSOURCE_HSE \<and> RCC_CR s AND RCC_CR_HSEON \<noteq> 0"

text \<open>
  The state that the hardware reaches if the registers stay as they are: the external oscillator is
  ready if it is on, a PLL that is off is not ready, one that is on and has its input is, and
  the system clock is where the switch is, if that source is ready.
\<close>

definition settled :: "rcc \<Rightarrow> bool" where
  "settled s \<longleftrightarrow>
     (RCC_CR s AND RCC_CR_HSEON \<noteq> 0 \<longrightarrow> rcc_flag RCC_FLAG_HSERDY s) \<and>
     (RCC_CR s AND RCC_CR_PLL1ON = 0 \<longrightarrow> \<not> rcc_flag RCC_FLAG_PLLRDY s) \<and>
     (RCC_CR s AND RCC_CR_PLL1ON \<noteq> 0 \<and> pll_fed s \<longrightarrow> rcc_flag RCC_FLAG_PLLRDY s) \<and>
     (RCC_CR s AND RCC_CR_PLL3ON = 0 \<longrightarrow> \<not> rcc_flag RCC_FLAG_PLL3RDY s) \<and>
     (RCC_CR s AND RCC_CR_PLL3ON \<noteq> 0 \<and> pll_fed s \<longrightarrow> rcc_flag RCC_FLAG_PLL3RDY s) \<and>
     (source_ready (RCC_CFGR s AND RCC_CFGR_SW) s \<longrightarrow> source_settled s)"

text \<open>A PLL that is ready, on and fed stays ready.\<close>

definition pll_locked :: "rcc \<Rightarrow> bool" where
  "pll_locked s \<longleftrightarrow> rcc_flag RCC_FLAG_PLLRDY s \<and> RCC_CR s AND RCC_CR_PLL1ON \<noteq> 0 \<and> pll_fed s"

text \<open>
  The hardware only changes status bits, keeps a settled system clock and a locked PLL, and reaches
  a settled state within two ticks.
\<close>

definition clock_works :: "(rcc \<Rightarrow> rcc) \<Rightarrow> bool" where
  "clock_works hw \<longleftrightarrow> status_only hw \<and> stable_source hw \<and> (\<forall>s. pll_locked s \<longrightarrow> pll_locked (hw s)) \<and>
     (\<forall>s. \<exists>k. settled ((hw ^^ Suc (2 * k)) s) \<and> (\<forall>j < k. uwTick ((hw ^^ (2 * j + 2)) s) - uwTick s \<le> 2))"

lemma clock_works_status: "clock_works hw \<Longrightarrow> status_only hw"
  and clock_works_source: "clock_works hw \<Longrightarrow> stable_source hw"
  and clock_works_locked: "clock_works hw \<Longrightarrow> pll_locked s \<Longrightarrow> pll_locked (hw s)"
  by (simp_all add: clock_works_def)

lemma settings_funpow: "status_only hw \<Longrightarrow> settings ((hw ^^ n) s) = settings s"
  by (induction n) (simp_all add: status_only_def)

lemma works_wait:
  assumes "clock_works hw" "2 \<le> limit" "\<And>t. settled t \<Longrightarrow> settings t = settings s \<Longrightarrow> ok t"
  shows "\<exists>t. wait_for hw limit ok s = Some (HAL_OK, t)"
proof -
  obtain k where k: "settled ((hw ^^ Suc (2 * k)) s)" "\<And>j. j < k \<Longrightarrow> uwTick ((hw ^^ (2 * j + 2)) s) - uwTick s \<le> 2"
    using assms(1) unfolding clock_works_def by blast
  have "ok ((hw ^^ Suc (2 * k)) s)" by (rule assms(3) [OF k(1) settings_funpow [OF clock_works_status [OF assms(1)]]])
  moreover have "uwTick ((hw ^^ (2 * j + 2)) s) - uwTick s \<le> limit" if "j < k" for j
    using k(2) [OF that] assms(2) by (rule order_trans)
  ultimately show ?thesis using rcc_wait_ok [where ok = ok and hw = hw and k = k and s = s and start = "uwTick s" and limit = limit] unfolding wait_for_def by blast
qed

section \<open>The oscillator and the main PLL\<close>

lemma control_bits:
  "x AND RCC_CR_HSEON = 0 \<longleftrightarrow> \<not> bit x 16" "x AND RCC_CR_PLL1ON = 0 \<longleftrightarrow> \<not> bit x 24" "x AND RCC_CR_PLL3ON = 0 \<longleftrightarrow> \<not> bit x 28"
proof -
  have "RCC_CR_HSEON = 2 ^ 16" "RCC_CR_PLL1ON = 2 ^ 24" "RCC_CR_PLL3ON = 2 ^ 28" by (simp_all add: hal_consts)
  note this [symmetric]
  then show "x AND RCC_CR_HSEON = 0 \<longleftrightarrow> \<not> bit x 16" "x AND RCC_CR_PLL1ON = 0 \<longleftrightarrow> \<not> bit x 24"
    "x AND RCC_CR_PLL3ON = 0 \<longleftrightarrow> \<not> bit x 28"
    using and_exp_eq_0_iff_not_bit [of x 16] and_exp_eq_0_iff_not_bit [of x 24] and_exp_eq_0_iff_not_bit [of x 28] by simp_all
qed

lemma control_writes [simp]:
  "bit (x OR RCC_CR_HSEON) 16" "bit (x OR RCC_CR_PLL1ON) 24" "bit (x OR RCC_CR_PLL3ON) 28"
  "\<not> bit (x AND NOT RCC_CR_PLL1ON) 24" "\<not> bit (x AND NOT RCC_CR_PLL3ON) 28"
  "bit (x AND NOT RCC_CR_PLL1ON) 16 = bit x 16" "bit (x OR RCC_CR_PLL1ON) 16 = bit x 16"
  "bit (x AND NOT RCC_CR_PLL3ON) 16 = bit x 16" "bit (x OR RCC_CR_PLL3ON) 16 = bit x 16"
  "bit (x AND NOT RCC_CR_PLL3ON) 24 = bit x 24" "bit (x OR RCC_CR_PLL3ON) 24 = bit x 24"
  by (simp_all add: hal_consts bit_simps)

lemma settings_bits:
  assumes "settings t = settings s"
  shows "bit (RCC_CR t) 16 = bit (RCC_CR s) 16" "bit (RCC_CR t) 24 = bit (RCC_CR s) 24" "bit (RCC_CR t) 28 = bit (RCC_CR s) 28"
proof -
  have "bit (RCC_CR t) n = bit (RCC_CR s) n" if "\<not> bit rcc_status n" "n < 32" for n
    using arg_cong [OF settings_eq(12) [OF assms], of "\<lambda>x. bit x n"] that by (simp add: bit_simps)
  moreover have "\<not> bit rcc_status 16" "\<not> bit rcc_status 24" "\<not> bit rcc_status 28" by code_simp+
  ultimately show "bit (RCC_CR t) 16 = bit (RCC_CR s) 16" "bit (RCC_CR t) 24 = bit (RCC_CR s) 24" "bit (RCC_CR t) 28 = bit (RCC_CR s) 28"
    by simp_all
qed

lemma settings_fed: "settings t = settings s \<Longrightarrow> pll_fed t = pll_fed s"
  using settings_bits(1) [of t s] settings_eq(1) [of t s] by (simp add: pll_fed_def control_bits)

lemma osc_config_ok:
  assumes w: "clock_works hw" and s: "sysclk_source s = RCC_CFGR_SWS_HSI" "source_settled s"
    and i: "osc_type i = RCC_OSCILLATORTYPE_HSE" "osc_hse_state i = RCC_HSE_ON" "pll_state (osc_pll i) = RCC_PLL_ON"
      "pll_source (osc_pll i) = RCC_PLLSOURCE_HSE" "pll_asserts (osc_pll i)"
  shows "\<exists>t u. HAL_RCC_OscConfig hw i s = Some (HAL_OK, t) \<and> settings t = settings (pll_program (osc_pll i) u) \<and> pll_locked t \<and>
    uwTickPrio t = uwTickPrio s"
proof -
  let ?p = "osc_pll i" and ?s = "hse_config RCC_HSE_ON s"
  note st = clock_works_status [OF w]
  have hse: "RCC_HSE_ON \<in> {RCC_HSE_OFF, RCC_HSE_ON, RCC_HSE_BYPASS}" "RCC_HSE_ON \<noteq> RCC_HSE_OFF" "RCC_CFGR_SWS_HSI \<noteq> RCC_CFGR_SWS_HSE"
      "RCC_CFGR_SWS_HSI \<noteq> RCC_CFGR_SWS_PLL1" "RCC_PLL_ON \<noteq> RCC_PLL_NONE" by (simp_all add: hal_consts)
  have "\<exists>t. wait_for hw HSE_TIMEOUT_VALUE (\<lambda>t. rcc_flag RCC_FLAG_HSERDY t = (RCC_HSE_ON \<noteq> RCC_HSE_OFF)) ?s = Some (HAL_OK, t)"
  proof (rule works_wait [OF w])
    show "rcc_flag RCC_FLAG_HSERDY t = (RCC_HSE_ON \<noteq> RCC_HSE_OFF)" if "settled t" "settings t = settings ?s" for t
      using that(1) settings_bits(1) [OF that(2)] hse(2) by (simp add: settled_def control_bits hse_config_def)
  qed (simp add: hal_consts)
  then obtain t where t: "wait_for hw HSE_TIMEOUT_VALUE (\<lambda>t. rcc_flag RCC_FLAG_HSERDY t = (RCC_HSE_ON \<noteq> RCC_HSE_OFF)) ?s = Some (HAL_OK, t)" ..
  have osc: "osc_hse hw i s = Some (HAL_OK, t)"
    using t s(1) i(1,2) hse(1,3,4) by (simp add: osc_hse_def Let_def)
  note et = wait_for_settings [OF st t]
  have src: "sysclk_source t \<noteq> RCC_CFGR_SWS_PLL1"
    using osc_keeps(1) [OF st clock_works_source [OF w] osc, of "sysclk_source s"] s hse(4) by (simp add: source_kept_def)
  let ?t = "t\<lparr>RCC_CR := RCC_CR t AND NOT RCC_CR_PLL1ON\<rparr>"
  have "\<exists>u. wait_for hw PLL_TIMEOUT_VALUE (\<lambda>u. \<not> rcc_flag RCC_FLAG_PLLRDY u) ?t = Some (HAL_OK, u)"
  proof (rule works_wait [OF w])
    show "\<not> rcc_flag RCC_FLAG_PLLRDY u" if "settled u" "settings u = settings ?t" for u
      using that(1) settings_bits(2) [OF that(2)] by (simp add: settled_def control_bits)
  qed (simp add: hal_consts)
  then obtain u where u: "wait_for hw PLL_TIMEOUT_VALUE (\<lambda>u. \<not> rcc_flag RCC_FLAG_PLLRDY u) ?t = Some (HAL_OK, u)" ..
  note eu = wait_for_settings [OF st u]
  have fed: "pll_fed (pll_program ?p u)"
    using settings_bits(1) [OF eu] settings_bits(1) [OF et] i(4) pll_config_fields(1) [OF pll_asserts_bounds(1,2) [OF i(5)], of u]
    by (simp add: pll_fed_def pll_program_simps control_bits hse_config_def)
  have ready: "rcc_flag RCC_FLAG_PLLRDY v" if "settled v" "settings v = settings (pll_program ?p u)" for v
    using that(1) settings_fed [OF that(2)] fed settings_bits(2) [OF that(2)] by (simp add: settled_def control_bits pll_program_simps)
  then have "\<exists>v. wait_for hw PLL_TIMEOUT_VALUE (rcc_flag RCC_FLAG_PLLRDY) (pll_program ?p u) = Some (HAL_OK, v)"
    by (intro works_wait [OF w]) (simp_all add: hal_consts)
  then obtain v where v: "wait_for hw PLL_TIMEOUT_VALUE (rcc_flag RCC_FLAG_PLLRDY) (pll_program ?p u) = Some (HAL_OK, v)" ..
  note ev = wait_for_settings [OF st v]
  have run: "osc_pll_config hw ?p t = Some (HAL_OK, v)"
    using u v src i(3,5) hse(5) by (simp add: osc_pll_config_def Let_def and_then_def)
  have "osc_hsi hw i = (\<lambda>s. Some (HAL_OK, s))" "osc_csi hw i = (\<lambda>s. Some (HAL_OK, s))"
     "osc_lsi hw i = (\<lambda>s. Some (HAL_OK, s))" "osc_hsi48 hw i = (\<lambda>s. Some (HAL_OK, s))" "osc_lse hw i = (\<lambda>s. Some (HAL_OK, s))"
    by (simp_all add: osc_hsi_def osc_csi_def osc_lsi_def osc_hsi48_def osc_lse_def i(1) Let_def hal_consts fun_eq_iff)
  moreover have "oscillatortype_ok (osc_type i)" by (simp add: oscillatortype_ok_def i(1))
  ultimately have "HAL_RCC_OscConfig hw i s = Some (HAL_OK, v)"
    using osc run by (simp add: HAL_RCC_OscConfig_def and_then_def)
  moreover have "pll_locked v"
    using wait_for_result [OF v] settings_fed [OF ev] fed settings_bits(2) [OF ev] by (simp add: pll_locked_def control_bits pll_program_simps)
  moreover have "uwTickPrio v = uwTickPrio s"
    using settings_eq(16) [OF ev] settings_eq(16) [OF eu] settings_eq(16) [OF et]
    by (simp add: pll_program_def Let_def pll_fracn_enable_def pll_fracn_config_def pll_fracn_disable_def pll_config_def hse_config_def)
  ultimately show ?thesis using ev by blast
qed

section \<open>The system clock\<close>

text \<open>A step that returns \<open>HAL_OK\<close> and keeps a property of the state.\<close>

definition step_ok :: "(rcc \<Rightarrow> (hal_status \<times> rcc) option) \<Rightarrow> (rcc \<Rightarrow> bool) \<Rightarrow> bool" where
  "step_ok f P \<longleftrightarrow> (\<forall>s. P s \<longrightarrow> (\<exists>t. f s = Some (HAL_OK, t) \<and> P t))"

lemma step_okI: "(\<And>s. P s \<Longrightarrow> \<exists>t. f s = Some (HAL_OK, t) \<and> P t) \<Longrightarrow> step_ok f P"
  and step_okD: "step_ok f P \<Longrightarrow> P s \<Longrightarrow> \<exists>t. f s = Some (HAL_OK, t) \<and> P t"
  by (simp_all add: step_ok_def)

lemma step_ok_then: "step_ok f P \<Longrightarrow> step_ok g P \<Longrightarrow> step_ok (and_then f g) P"
  by (fastforce simp: step_ok_def and_then_def)

text \<open>A property that does not look at the dividers or the latency, and that the hardware keeps.\<close>

definition blind :: "(rcc \<Rightarrow> rcc) \<Rightarrow> (rcc \<Rightarrow> bool) \<Rightarrow> bool" where
  "blind hw P \<longleftrightarrow> (\<forall>s v. P s \<longrightarrow> P (hw s) \<and> P (s\<lparr>RCC_D1CFGR := v\<rparr>) \<and> P (s\<lparr>RCC_D2CFGR := v\<rparr>) \<and> P (s\<lparr>RCC_D3CFGR := v\<rparr>) \<and>
     P (s\<lparr>FLASH_ACR := v\<rparr>))"

definition legal_dividers :: "clk_init \<Rightarrow> bool" where
  "legal_dividers c \<longleftrightarrow>
     clk_apb3_divider c \<in> {RCC_APB3_DIV1, RCC_APB3_DIV2, RCC_APB3_DIV4, RCC_APB3_DIV8, RCC_APB3_DIV16} \<and>
     clk_apb1_divider c \<in> {RCC_APB1_DIV1, RCC_APB1_DIV2, RCC_APB1_DIV4, RCC_APB1_DIV8, RCC_APB1_DIV16} \<and>
     clk_apb2_divider c \<in> {RCC_APB2_DIV1, RCC_APB2_DIV2, RCC_APB2_DIV4, RCC_APB2_DIV8, RCC_APB2_DIV16} \<and>
     clk_apb4_divider c \<in> {RCC_APB4_DIV1, RCC_APB4_DIV2, RCC_APB4_DIV4, RCC_APB4_DIV8, RCC_APB4_DIV16} \<and>
     clk_ahb_divider c \<in> hclk_dividers \<and> clk_sysclk_divider c \<in> sysclk_dividers"

lemma set_divider_legal: "d \<in> legal \<Longrightarrow> set_divider cmp legal msk d v = Some (divided cmp msk d v)"
  by (simp add: set_divider_def divided_def)

lemma divider_ok:
  assumes "legal_dividers c" "blind hw P"
  shows "step_ok (checked (d1pclk1_divider cmp c)) P" "step_ok (checked (pclk1_divider cmp c)) P"
    "step_ok (checked (pclk2_divider cmp c)) P" "step_ok (checked (d3pclk1_divider cmp c)) P" "step_ok (checked (hclk_divider cmp c)) P"
proof -
  note l = assms(1) [unfolded legal_dividers_def, THEN conjunct1, THEN set_divider_legal]
    assms(1) [unfolded legal_dividers_def, THEN conjunct2, THEN conjunct1, THEN set_divider_legal]
    assms(1) [unfolded legal_dividers_def, THEN conjunct2, THEN conjunct2, THEN conjunct1, THEN set_divider_legal]
    assms(1) [unfolded legal_dividers_def, THEN conjunct2, THEN conjunct2, THEN conjunct2, THEN conjunct1, THEN set_divider_legal]
    assms(1) [unfolded legal_dividers_def, THEN conjunct2, THEN conjunct2, THEN conjunct2, THEN conjunct2, THEN conjunct1, THEN set_divider_legal]
  have b: "P s \<Longrightarrow> P (s\<lparr>RCC_D1CFGR := v\<rparr>)" "P s \<Longrightarrow> P (s\<lparr>RCC_D2CFGR := v\<rparr>)" "P s \<Longrightarrow> P (s\<lparr>RCC_D3CFGR := v\<rparr>)" for s v
    using assms(2) by (simp_all add: blind_def)
  show "step_ok (checked (d1pclk1_divider cmp c)) P" "step_ok (checked (pclk1_divider cmp c)) P"
    "step_ok (checked (pclk2_divider cmp c)) P" "step_ok (checked (d3pclk1_divider cmp c)) P" "step_ok (checked (hclk_divider cmp c)) P"
    by (simp_all add: step_ok_def checked_def d1pclk1_divider_def pclk1_divider_def pclk2_divider_def d3pclk1_divider_def hclk_divider_def l b)
qed

lemma latency_ok:
  assumes "status_only hw" "lat \<le> 15" "blind hw P"
  shows "step_ok (set_latency hw cmp lat) P"
proof (rule step_okI)
  fix s assume p: "P s"
  let ?s = "s\<lparr>FLASH_ACR := modified FLASH_ACR_LATENCY lat (FLASH_ACR s)\<rparr>"
  have "FLASH_ACR (hw ?s) = FLASH_ACR ?s" by (rule settings_eq(11)) (use assms(1) in \<open>simp add: status_only_def\<close>)
  then have "FLASH_ACR (hw ?s) AND FLASH_ACR_LATENCY = lat" using modified_and [OF latency_mask [OF assms(2)]] by simp
  moreover have "P (hw ?s)" using assms(3) p by (simp add: blind_def)
  ultimately show "\<exists>t. set_latency hw cmp lat s = Some (HAL_OK, t) \<and> P t"
    using p by (simp add: set_latency_def Let_def)
qed

lemma dividers_ok:
  assumes "status_only hw" "lat \<le> 15" "blind hw P" "legal_dividers c"
  shows "step_ok (slow_down hw c lat) P" "step_ok (speed_up hw c lat) P"
  unfolding slow_down_def speed_up_def
  by (intro step_ok_then latency_ok [OF assms(1-3)] divider_ok [OF assms(4,3)])+

text \<open>The registers of the main PLL as \<open>osc_params\<close> sets them, and a legal priority of the tick.\<close>

definition board_pll :: "rcc \<Rightarrow> bool" where
  "board_pll s \<longleftrightarrow> pll_fed s \<and> RCC_CR s AND RCC_CR_PLL1ON \<noteq> 0 \<and> pll1_m s = 5 \<and> RCC_PLL1DIVR s AND RCC_PLL1DIVR_N1 = 191 \<and>
     pll1_frac s = 0 \<and> drop_bit 9 (RCC_PLL1DIVR s AND RCC_PLL1DIVR_P1) + 1 = 2 \<and> uwTickPrio s < 16"

lemma board_pll_settings:
  assumes "settings t = settings s"
  shows "board_pll t = board_pll s"
proof -
  have "pll1_m t = pll1_m s" "pll1_frac t = pll1_frac s"
    using settings_eq [OF assms] by (simp_all add: pll1_m_def pll1_frac_def)
  then show ?thesis
    using settings_eq(3,16) [OF assms] settings_bits(2) [OF assms] settings_fed [OF assms] by (simp add: board_pll_def control_bits)
qed

lemma board_pll_updates [simp]:
  "board_pll (s\<lparr>RCC_D1CFGR := v\<rparr>) = board_pll s" "board_pll (s\<lparr>RCC_D2CFGR := v\<rparr>) = board_pll s"
  "board_pll (s\<lparr>RCC_D3CFGR := v\<rparr>) = board_pll s" "board_pll (s\<lparr>FLASH_ACR := v\<rparr>) = board_pll s"
  "board_pll (s\<lparr>RCC_CFGR := v\<rparr>) = board_pll s"
  by (simp_all add: board_pll_def pll_fed_def pll1_m_def pll1_frac_def)

lemma blind_locked: "clock_works hw \<Longrightarrow> blind hw (\<lambda>s. pll_locked s \<and> board_pll s)"
proof -
  assume w: "clock_works hw"
  have "board_pll (hw s) = board_pll s" for s
    by (rule board_pll_settings) (use clock_works_status [OF w] in \<open>simp add: status_only_def\<close>)
  moreover have "pll_locked (s\<lparr>RCC_D1CFGR := v\<rparr>) = pll_locked s" "pll_locked (s\<lparr>RCC_D2CFGR := v\<rparr>) = pll_locked s"
    "pll_locked (s\<lparr>RCC_D3CFGR := v\<rparr>) = pll_locked s" "pll_locked (s\<lparr>FLASH_ACR := v\<rparr>) = pll_locked s" for s v
    by (simp_all add: pll_locked_def rcc_flag_def pll_fed_def)
  ultimately show ?thesis using clock_works_locked [OF w] by (simp add: blind_def)
qed

lemma blind_source: "clock_works hw \<Longrightarrow> blind hw (\<lambda>s. source_kept c s \<and> board_pll s)"
proof -
  assume w: "clock_works hw"
  have "board_pll (hw s) = board_pll s" for s
    by (rule board_pll_settings) (use clock_works_status [OF w] in \<open>simp add: status_only_def\<close>)
  moreover have "source_kept c (s\<lparr>RCC_D1CFGR := v\<rparr>) = source_kept c s" "source_kept c (s\<lparr>RCC_D2CFGR := v\<rparr>) = source_kept c s"
    "source_kept c (s\<lparr>RCC_D3CFGR := v\<rparr>) = source_kept c s" "source_kept c (s\<lparr>FLASH_ACR := v\<rparr>) = source_kept c s" for s v
    by (simp_all add: source_kept_def sysclk_source_def source_settled_def)
  ultimately show ?thesis
    using source_kept_hw [OF clock_works_status [OF w] clock_works_source [OF w]] by (simp add: blind_def)
qed

lemma board_freq:
  assumes "source_kept RCC_CFGR_SWS_PLL1 s" "board_pll s"
  shows "HAL_RCC_GetSysClockFreq s = Some 480000000"
  using assms by (intro main_pll_freq) (simp_all add: source_kept_def board_pll_def pll_fed_def)

text \<open>Whatever the divider of the core, the tick fits its counter.\<close>

lemma presc_cases:
  "presc RCC_D1CFGR_D1CPRE RCC_D1CFGR_D1CPRE_Pos v \<in> set D1CorePrescTable"
proof -
  have "length D1CorePrescTable = 16" by (simp add: D1CorePrescTable_def)
  then show ?thesis
    using d1cpre_small [of v] presc_entry [OF d1cpre_small [of v]] by (simp only: presc_def) (rule nth_mem, simp)
qed

lemma tick_fits:
  assumes "k \<in> set D1CorePrescTable"
  shows "\<not> SysTick_LOAD_RELOAD_Msk < drop_bit k 480000000 div 1000 - 1"
proof -
  have "list_all (\<lambda>k. \<not> SysTick_LOAD_RELOAD_Msk < drop_bit k 480000000 div 1000 - 1) D1CorePrescTable" by code_simp
  then show ?thesis using assms unfolding list_all_iff by blast
qed

lemma update_clocks_ok:
  assumes "source_kept RCC_CFGR_SWS_PLL1 s" "board_pll s"
  shows "\<exists>t. update_clocks s = Some (HAL_OK, t)"
  using tick_fits [OF presc_cases [of "RCC_D1CFGR s"]] assms(2)
  by (simp add: update_clocks_def board_freq [OF assms] Let_def core_clocks_def HAL_InitTick_def SysTick_Config_def board_pll_def)

lemma switch_ok:
  assumes w: "clock_works hw" and c: "clk_sysclk_source c = RCC_SYSCLKSOURCE_PLLCLK" "clk_sysclk_divider c \<in> sysclk_dividers"
      "clk_type c = all_clocks"
    and s: "pll_locked s" "board_pll s"
  shows "\<exists>t. switch_sysclk hw c s = Some (HAL_OK, t) \<and> source_kept RCC_CFGR_SWS_PLL1 t \<and> board_pll t"
proof -
  note st = clock_works_status [OF w]
  let ?t = "s\<lparr>RCC_D1CFGR := modified RCC_D1CFGR_D1CPRE (clk_sysclk_divider c) (RCC_D1CFGR s),
      RCC_CFGR := modified RCC_CFGR_SW RCC_SYSCLKSOURCE_PLLCLK (RCC_CFGR s)\<rparr>"
  let ?ok = "\<lambda>u. sysclk_source u = push_bit RCC_CFGR_SWS_Pos RCC_SYSCLKSOURCE_PLLCLK"
  have n: "RCC_SYSCLKSOURCE_PLLCLK \<noteq> RCC_SYSCLKSOURCE_HSE" "RCC_CFGR_SW AND RCC_SYSCLKSOURCE_PLLCLK = RCC_SYSCLKSOURCE_PLLCLK"
    "RCC_CFGR_SWS_Pos = 3" "push_bit RCC_CFGR_SWS_Pos RCC_SYSCLKSOURCE_PLLCLK = RCC_CFGR_SWS_PLL1" by (simp_all add: hal_consts)
  have at: "RCC_CFGR u AND RCC_CFGR_SW = RCC_SYSCLKSOURCE_PLLCLK" if "settings u = settings ?t" for u
    using settings_fields(4) [OF that] modified_and [OF n(2)] by simp
  have board: "board_pll u" if "settings u = settings ?t" for u using board_pll_settings [OF that] s(2) by simp
  have "\<exists>u. wait_for hw CLOCKSWITCH_TIMEOUT_VALUE ?ok ?t = Some (HAL_OK, u)"
  proof (rule works_wait [OF w])
    fix u assume u: "settled u" "settings u = settings ?t"
    have "rcc_flag RCC_FLAG_PLLRDY u" using u(1) board [OF u(2)] by (simp add: settled_def board_pll_def)
    then have "source_settled u" using u(1) at [OF u(2)] n(1) by (simp add: settled_def source_ready_def)
    then show "?ok u" using at [OF u(2)] n(3) by (simp add: source_settled_def)
  qed (simp add: hal_consts)
  then obtain u where u: "wait_for hw CLOCKSWITCH_TIMEOUT_VALUE ?ok ?t = Some (HAL_OK, u)" ..
  note e = wait_for_settings [OF st u]
  have "clk_type c AND RCC_CLOCKTYPE_SYSCLK = RCC_CLOCKTYPE_SYSCLK" by (simp add: c(3) all_clocks_def hal_consts)
  moreover have "rcc_flag f (s\<lparr>RCC_D1CFGR := v\<rparr>) = rcc_flag f s" for f v by (simp add: rcc_flag_def)
  then have "rcc_flag RCC_FLAG_PLLRDY (s\<lparr>RCC_D1CFGR := v\<rparr>)" for v using s(1) by (simp add: pll_locked_def)
  ultimately have "switch_sysclk hw c s = Some (HAL_OK, u)"
    using u c(1,2) n(1) by (simp add: switch_sysclk_def source_ready_def Let_def)
  moreover have "source_kept RCC_CFGR_SWS_PLL1 u"
    using wait_for_result [OF u] at [OF e] n(3,4) by (simp add: source_kept_def source_settled_def)
  ultimately show ?thesis using board [OF e] by blast
qed

lemma clock_config_ok:
  assumes w: "clock_works hw" and c: "clk_type c = all_clocks" "clk_sysclk_source c = RCC_SYSCLKSOURCE_PLLCLK" "legal_dividers c" "lat \<le> 15"
    and s: "pll_locked s" "board_pll s"
  shows "\<exists>t. HAL_RCC_ClockConfig hw c lat s = Some (HAL_OK, t) \<and> source_kept RCC_CFGR_SWS_PLL1 t \<and> board_pll t"
proof -
  note st = clock_works_status [OF w]
  obtain s1 where s1: "slow_down hw c lat s = Some (HAL_OK, s1)" "pll_locked s1" "board_pll s1"
    using step_okD [OF dividers_ok(1) [OF st c(4) blind_locked [OF w] c(3)]] s by blast
  obtain s2 where s2: "switch_sysclk hw c s1 = Some (HAL_OK, s2)" "source_kept RCC_CFGR_SWS_PLL1 s2" "board_pll s2"
    using switch_ok [OF w c(2) _ c(1) s1(2,3)] c(3) by (auto simp: legal_dividers_def)
  obtain s3 where s3: "speed_up hw c lat s2 = Some (HAL_OK, s3)" "source_kept RCC_CFGR_SWS_PLL1 s3" "board_pll s3"
    using step_okD [OF dividers_ok(2) [OF st c(4) blind_source [OF w] c(3)]] s2(2,3) by blast
  obtain t where t: "update_clocks s3 = Some (HAL_OK, t)" using update_clocks_ok [OF s3(2,3)] ..
  have "1 \<le> clk_type c \<and> clk_type c \<le> 0x3F \<and> lat \<le> 15" using c(1,4) by (simp add: all_clocks_def)
  then have "HAL_RCC_ClockConfig hw c lat s = Some (HAL_OK, t)"
    using s1(1) s2(1) s3(1) t by (simp add: HAL_RCC_ClockConfig_def and_then_def)
  moreover have "source_kept RCC_CFGR_SWS_PLL1 t \<and> board_pll t"
    using t s3(2,3)
    by (auto simp: update_clocks_def bind_eq_Some_conv Let_def core_clocks_def HAL_InitTick_def SysTick_Config_def source_kept_def
      source_settled_def sysclk_source_def board_pll_def pll_fed_def pll1_m_def pll1_frac_def split: if_splits)
  ultimately show ?thesis by blast
qed

section \<open>The third PLL\<close>

lemma pll3_registers:
  "RCC_PLLCKSELR (pll3_program pll3_params Pll_r s) = modified RCC_PLLCKSELR_DIVM3 0x500000 (RCC_PLLCKSELR s)"
  "RCC_PLL3DIVR (pll3_program pll3_params Pll_r s) = 0x18010257"
  "RCC_PLL3FRACR (pll3_program pll3_params Pll_r s) = modified RCC_PLL3FRACR_FRACN3 0 (RCC_PLL3FRACR s)"
  "RCC_PLLCFGR (pll3_program pll3_params Pll_r s) =
     ((modified RCC_PLLCFGR_PLL3VCOSEL RCC_PLL3VCOMEDIUM (modified RCC_PLLCFGR_PLL3RGE RCC_PLL3VCIRANGE_0 (RCC_PLLCFGR s)) AND
        NOT RCC_PLLCFGR_PLL3FRACEN) OR RCC_PLLCFGR_PLL3FRACEN) OR RCC_PLL3_DIVR"
  "RCC_CR (pll3_program pll3_params Pll_r s) = RCC_CR s OR RCC_CR_PLL3ON"
  by (simp_all add: pll3_program_def pll3_params_def Let_def RCC_PLL3FRACR_FRACN3_Pos_def
    RCC_PLL3DIVR_N3_def RCC_PLL3DIVR_P3_def RCC_PLL3DIVR_Q3_def RCC_PLL3DIVR_R3_def)

lemma pll3_keeps:
  "RCC_CFGR (pll3_program p out s) = RCC_CFGR s" "RCC_PLL1DIVR (pll3_program p out s) = RCC_PLL1DIVR s"
  "RCC_PLL1FRACR (pll3_program p out s) = RCC_PLL1FRACR s" "RCC_D1CFGR (pll3_program p out s) = RCC_D1CFGR s"
  "RCC_D2CFGR (pll3_program p out s) = RCC_D2CFGR s" "RCC_D3CFGR (pll3_program p out s) = RCC_D3CFGR s"
  "FLASH_ACR (pll3_program p out s) = FLASH_ACR s" "SystemCoreClock (pll3_program p out s) = SystemCoreClock s"
  "SystemD2Clock (pll3_program p out s) = SystemD2Clock s" "SysTick_LOAD (pll3_program p out s) = SysTick_LOAD s"
  "uwTickPrio (pll3_program p out s) = uwTickPrio s"
  by (simp_all add: pll3_program_def Let_def)

lemma pll3_source: "source_kept c (pll3_program p out s) = source_kept c s"
  by (simp add: source_kept_def source_settled_def sysclk_source_def pll3_keeps)

lemma pll3_main: "board_pll (pll3_program pll3_params Pll_r s) = board_pll s"
proof -
  let ?t = "pll3_program pll3_params Pll_r s"
  have a: "modified RCC_PLLCKSELR_DIVM3 0x500000 v AND RCC_PLLCKSELR_PLLSRC = v AND RCC_PLLCKSELR_PLLSRC"
    "modified RCC_PLLCKSELR_DIVM3 0x500000 v AND RCC_PLLCKSELR_DIVM1 = v AND RCC_PLLCKSELR_DIVM1" for v
    by (rule modified_other; simp add: hal_consts)+
  have o: "(x OR y) AND d = x AND d" if "y AND d = 0" for x y d :: u32
    using that by (simp add: bit.conj_disj_distrib2)
  have n: "(x AND NOT y) AND d = x AND d" if "y AND d = 0" for x y d :: u32
    using arg_cong [OF that, of "bit"] by (intro bit_word_eqI) (auto simp: bit_simps fun_eq_iff)
  have "RCC_PLLCFGR ?t AND RCC_PLLCFGR_PLL1FRACEN = RCC_PLLCFGR s AND RCC_PLLCFGR_PLL1FRACEN"
  proof -
    have z: "RCC_PLL3_DIVR AND RCC_PLLCFGR_PLL1FRACEN = 0" "RCC_PLLCFGR_PLL3FRACEN AND RCC_PLLCFGR_PLL1FRACEN = 0"
      "RCC_PLLCFGR_PLL3VCOSEL AND RCC_PLLCFGR_PLL1FRACEN = 0" "RCC_PLL3VCOMEDIUM AND RCC_PLLCFGR_PLL1FRACEN = 0"
      "RCC_PLLCFGR_PLL3RGE AND RCC_PLLCFGR_PLL1FRACEN = 0" "RCC_PLL3VCIRANGE_0 AND RCC_PLLCFGR_PLL1FRACEN = 0"
      by (simp_all add: hal_consts)
    show ?thesis
      unfolding pll3_registers(4) o [OF z(1)] o [OF z(2)] n [OF z(2)] modified_other [OF z(3,4)] modified_other [OF z(5,6)] ..
  qed
  then have "pll1_frac ?t = pll1_frac s" by (simp add: pll1_frac_def pll3_keeps)
  moreover have "pll1_m ?t = pll1_m s" by (simp add: pll1_m_def pll3_registers a)
  moreover have "pll_fed ?t = pll_fed s" by (simp add: pll_fed_def control_bits pll3_registers a)
  ultimately show ?thesis by (simp add: board_pll_def pll3_keeps control_bits pll3_registers)
qed

lemma flt_integers3:
  "flt 87 = 87" "flt 88 = 88" "flt 440000000 = 440000000" "flt 220000000 = 220000000" "flt 24 = 24" "flt 25 = 25"
  "flt 17600000 = 17600000"
  using flt_exact [of 87 87 0] flt_exact [of 88 88 0] flt_exact [of 859375 440000000 9] flt_exact [of 859375 220000000 8]
    flt_exact [of 24 24 0] flt_exact [of 25 25 0] flt_exact [of 34375 17600000 9]
  by simp_all

lemma pll3_freq:
  assumes "RCC_PLLCKSELR s AND RCC_PLLCKSELR_PLLSRC = RCC_PLLSOURCE_HSE"
    "drop_bit 20 (RCC_PLLCKSELR s AND RCC_PLLCKSELR_DIVM3) = 5"
    "RCC_PLL3DIVR s = 0x18010257" "pll3_frac s = 0"
  shows "HAL_RCCEx_GetPLL3ClockFreq s = Some (220000000, 220000000, 17600000)"
proof -
  have n: "RCC_PLLSOURCE_HSE \<noteq> RCC_PLLSOURCE_HSI" "RCC_PLLSOURCE_HSE \<noteq> RCC_PLLSOURCE_CSI" "(5 :: u32) \<noteq> 0" by (simp_all add: hal_consts)
  have d: "0x18010257 AND RCC_PLL3DIVR_N3 = 87" "drop_bit 9 (0x18010257 AND RCC_PLL3DIVR_P3) = 1"
    "drop_bit 16 (0x18010257 AND RCC_PLL3DIVR_Q3) = 1" "drop_bit 24 (0x18010257 AND RCC_PLL3DIVR_R3) = 24" by code_simp+
  have f: "float_of HSE_VALUE = 25000000" "float_of 5 = 5" "float_of 87 = 87" "float_of 0 = 0" "float_of 0x2000 = 8192"
    "float_of 1 = 1" "float_of 24 = 24" using flt_integers flt_integers3 by (simp_all add: float_of_def HSE_VALUE_def)
  have v: "pll_vco HSE_VALUE 5 87 0 = 440000000" using flt_integers flt_integers3 by (simp add: pll_vco_def f)
  have "float_to_u32 (flt (440000000 / flt (float_of 1 + float_of 1))) = Some 220000000"
    "float_to_u32 (flt (440000000 / flt (float_of 24 + float_of 1))) = Some 17600000"
    using flt_integers flt_integers3 by (simp_all add: f float_to_u32_def)
  then show ?thesis
    unfolding HAL_RCCEx_GetPLL3ClockFreq_def Let_def assms d by (simp only: n v if_True if_False simp_thms bind.bind_lunit)
qed

lemma pll3_settings:
  assumes "settings t = settings (pll3_program pll3_params Pll_r s)"
  shows "drop_bit 20 (RCC_PLLCKSELR t AND RCC_PLLCKSELR_DIVM3) = 5" "RCC_PLL3DIVR t = 0x18010257" "pll3_frac t = 0"
proof -
  note e = settings_eq(1,5,6) [OF assms]
  have m: "RCC_PLLCKSELR_DIVM3 AND 0x500000 = 0x500000" "RCC_PLL3FRACR_FRACN3 AND 0 = 0" by code_simp+
  have "RCC_PLLCKSELR t AND RCC_PLLCKSELR_DIVM3 = 0x500000" by (simp only: e(1) pll3_registers(1) modified_and [OF m(1)])
  then show "drop_bit 20 (RCC_PLLCKSELR t AND RCC_PLLCKSELR_DIVM3) = 5" by (simp only:) code_simp
  show "RCC_PLL3DIVR t = 0x18010257" by (simp only: e(2) pll3_registers(2))
  have "RCC_PLL3FRACR t AND RCC_PLL3FRACR_FRACN3 = 0" by (simp only: e(3) pll3_registers(3) modified_and [OF m(2)])
  then show "pll3_frac t = 0" unfolding pll3_frac_def by simp
qed

lemma periph_clock_ok:
  assumes w: "clock_works hw" and s: "source_kept RCC_CFGR_SWS_PLL1 s" "board_pll s"
  shows "\<exists>t u. HAL_RCCEx_PeriphCLKConfig hw periph_clk_params s = Some (HAL_OK, t) \<and> source_kept RCC_CFGR_SWS_PLL1 t \<and>
    settings t = settings (pll3_program pll3_params Pll_r u) \<and> board_pll u \<and> RCC_D1CFGR u = RCC_D1CFGR s \<and> RCC_D2CFGR u = RCC_D2CFGR s \<and>
    RCC_D3CFGR u = RCC_D3CFGR s \<and> FLASH_ACR u = FLASH_ACR s \<and> SystemCoreClock u = SystemCoreClock s \<and>
    SystemD2Clock u = SystemD2Clock s \<and> SysTick_LOAD u = SysTick_LOAD s"
proof -
  note st = clock_works_status [OF w]
  note keep = source_kept_hw [OF st clock_works_source [OF w]]
  let ?f = "s\<lparr>RCC_D1CCIPR := modified RCC_D1CCIPR_FMCSEL RCC_FMCCLKSOURCE_D1HCLK (RCC_D1CCIPR s)\<rparr>"
  let ?g = "?f\<lparr>RCC_CR := RCC_CR ?f AND NOT RCC_CR_PLL3ON\<rparr>"
  have d: "source_kept c (x\<lparr>RCC_D1CCIPR := v\<rparr>) = source_kept c x" for c x v
    by (simp add: source_kept_def source_settled_def sysclk_source_def)
  have fb: "board_pll ?g" "source_kept RCC_CFGR_SWS_PLL1 ?g"
    using s by (simp_all add: d) (simp add: board_pll_def pll_fed_def pll1_m_def pll1_frac_def control_bits)
  have "\<exists>u. wait_for hw PLL_TIMEOUT_VALUE (\<lambda>u. \<not> rcc_flag RCC_FLAG_PLL3RDY u) ?g = Some (HAL_OK, u)"
  proof (rule works_wait [OF w])
    show "\<not> rcc_flag RCC_FLAG_PLL3RDY u" if "settled u" "settings u = settings ?g" for u
      using that(1) settings_bits(3) [OF that(2)] by (simp add: settled_def control_bits)
  qed (simp add: hal_consts)
  then obtain u where u: "wait_for hw PLL_TIMEOUT_VALUE (\<lambda>u. \<not> rcc_flag RCC_FLAG_PLL3RDY u) ?g = Some (HAL_OK, u)" ..
  note eu = wait_for_settings [OF st u]
  have ub: "board_pll u" "source_kept RCC_CFGR_SWS_PLL1 u"
    using board_pll_settings [OF eu] fb(1) wait_for_keeps [where P = "source_kept RCC_CFGR_SWS_PLL1", OF keep u fb(2)] by simp_all
  let ?p = "pll3_program pll3_params Pll_r u"
  have pb: "board_pll ?p" "source_kept RCC_CFGR_SWS_PLL1 ?p"
    using ub by (simp_all add: pll3_main pll3_source)
  have "\<exists>t. wait_for hw PLL_TIMEOUT_VALUE (rcc_flag RCC_FLAG_PLL3RDY) ?p = Some (HAL_OK, t)"
  proof (rule works_wait [OF w])
    show "rcc_flag RCC_FLAG_PLL3RDY t" if "settled t" "settings t = settings ?p" for t
      using that(1) settings_bits(3) [OF that(2)] board_pll_settings [OF that(2)] pb(1)
      by (simp add: settled_def control_bits pll3_registers board_pll_def)
  qed (simp add: hal_consts)
  then obtain t where t: "wait_for hw PLL_TIMEOUT_VALUE (rcc_flag RCC_FLAG_PLL3RDY) ?p = Some (HAL_OK, t)" ..
  have "pll3_asserts pll3_params" by (simp add: pll3_asserts_def pll3_params_def)
  moreover have "RCC_PLLCKSELR ?f AND RCC_PLLCKSELR_PLLSRC \<noteq> RCC_PLLSOURCE_NONE"
    using s(2) by (simp add: board_pll_def pll_fed_def) (simp add: hal_consts)
  ultimately have "RCCEx_PLL3_Config hw pll3_params Pll_r ?f = Some (HAL_OK, t)"
    using u t by (simp add: RCCEx_PLL3_Config_def and_then_def)
  moreover have "RCC_FMCCLKSOURCE_D1HCLK \<noteq> RCC_FMCCLKSOURCE_PLL" "RCC_FMCCLKSOURCE_D1HCLK \<noteq> RCC_FMCCLKSOURCE_PLL2"
    "RCC_FMCCLKSOURCE_D1HCLK = RCC_FMCCLKSOURCE_HCLK" by (simp_all add: hal_consts)
  moreover have "pc_selection periph_clk_params AND NOT (RCC_PERIPHCLK_FMC OR RCC_PERIPHCLK_LTDC) = 0"
    "pc_selection periph_clk_params AND RCC_PERIPHCLK_FMC = RCC_PERIPHCLK_FMC"
    "pc_selection periph_clk_params AND RCC_PERIPHCLK_LTDC = RCC_PERIPHCLK_LTDC" by code_simp+
  moreover have "pc_fmc periph_clk_params = RCC_FMCCLKSOURCE_D1HCLK" "pc_pll3 periph_clk_params = pll3_params"
    by (simp_all add: periph_clk_params_def)
  ultimately have "HAL_RCCEx_PeriphCLKConfig hw periph_clk_params s = Some (HAL_OK, t)"
    by (simp add: HAL_RCCEx_PeriphCLKConfig_def fmc_clock_def ltdc_clock_def Let_def)
  moreover have "source_kept RCC_CFGR_SWS_PLL1 t" by (rule wait_for_keeps [where P = "source_kept RCC_CFGR_SWS_PLL1", OF keep t pb(2)])
  ultimately show ?thesis
    using wait_for_settings [OF st t] ub(1) settings_eq(7-9,11,14,15,17) [OF eu] by (intro exI [of _ t] exI [of _ u]) simp
qed

section \<open>The start of the clocks\<close>

text \<open>What an event of the log does to the clock controller; other events leave it alone.\<close>

definition rcc_step :: "(rcc \<Rightarrow> rcc) \<Rightarrow> event \<Rightarrow> rcc \<Rightarrow> (hal_status \<times> rcc) option" where
  "rcc_step hw e s = (case e of
     Rcc (Osc_config i) \<Rightarrow> HAL_RCC_OscConfig hw i s
   | Rcc (Clock_config c lat) \<Rightarrow> HAL_RCC_ClockConfig hw c lat s
   | Rcc (Periph_clk_config i) \<Rightarrow> HAL_RCCEx_PeriphCLKConfig hw i s
   | Hal Hal_init \<Rightarrow> HAL_Init s
   | _ \<Rightarrow> Some (HAL_OK, s))"

fun rcc_replay :: "(rcc \<Rightarrow> rcc) \<Rightarrow> rcc \<Rightarrow> log \<Rightarrow> rcc option" where
  "rcc_replay hw s [] = Some s"
| "rcc_replay hw s (e # l) = rcc_step hw e s \<bind> (\<lambda>(r, t). rcc_replay hw t l)"

lemma rcc_replay_append: "rcc_replay hw s (l @ m) = rcc_replay hw s l \<bind> (\<lambda>t. rcc_replay hw t m)"
proof (induction l arbitrary: s)
  case (Cons e l)
  then show ?case by (cases "rcc_step hw e s") auto
qed simp

text \<open>The environment whose answers are those of the driver.\<close>

definition driver_env :: "(rcc \<Rightarrow> rcc) \<Rightarrow> rcc \<Rightarrow> (log \<Rightarrow> u32 \<Rightarrow> u32) \<Rightarrow> hal_env" where
  "driver_env hw s0 rd =
     \<lparr>hal_answer = (\<lambda>l e. case rcc_replay hw s0 l \<bind> rcc_step hw e of Some (r, _) \<Rightarrow> r | None \<Rightarrow> HAL_ERROR), reg_value = rd\<rparr>"

lemma driver_call:
  assumes "rcc_replay hw s0 l = Some s" "rcc_step hw e s = Some (HAL_OK, t)"
  shows "assert_call (driver_env hw s0 rd) e l = Some (l @ [e])" "rcc_replay hw s0 (l @ [e]) = Some t"
  using assms by (simp_all add: assert_call_def driver_env_def rcc_replay_append)

lemma osc_params_board:
  assumes "settings t = settings (pll_program (osc_pll osc_params) u)" "pll_locked t" "uwTickPrio t < 16"
  shows "board_pll t"
proof -
  let ?p = "osc_pll osc_params"
  have p: "pll_asserts ?p" "pll_m ?p = 5" "pll_n ?p = 192" "pll_p ?p = 2" "pll_fracn ?p = 0" by code_simp+
  note b = pll_asserts_bounds [OF p(1)] and e = settings_eq(1,3,4) [OF assms(1)]
  have "pll1_m t = 5"
    using pll_config_fields(2) [OF b(1,2), of u] e(1) by (simp add: pll1_m_def pll_program_simps p RCC_PLLCKSELR_DIVM1_Pos_def)
  moreover have "RCC_PLL1DIVR t AND RCC_PLL1DIVR_N1 = 191" "drop_bit 9 (RCC_PLL1DIVR t AND RCC_PLL1DIVR_P1) + 1 = 2"
    using pll_divr_fields(1,2) [OF b(3-6)] e(2) by (simp_all add: pll_program_simps p)
  moreover have "RCC_PLL1FRACR t AND RCC_PLL1FRACR_FRACN1 = 0" using pll_program_fields(1) [OF p(1), of u] e(3) by (simp add: p)
  then have "pll1_frac t = 0" unfolding pll1_frac_def by simp
  ultimately show ?thesis using assms(2,3) by (simp add: board_pll_def pll_locked_def)
qed

lemma tree_freqs:
  assumes f: "HAL_RCC_GetSysClockFreq t = Some 480000000" and v: "SystemCoreClock t = 480000000" "SystemD2Clock t = 240000000"
    and d: "RCC_D1CFGR t AND RCC_D1CFGR_D1CPRE = 0" "RCC_D1CFGR t AND RCC_D1CFGR_HPRE = 8" "RCC_D1CFGR t AND RCC_D1CFGR_D1PPRE = 0x40"
      "RCC_D2CFGR t AND RCC_D2CFGR_D2PPRE1 = 0x40" "RCC_D2CFGR t AND RCC_D2CFGR_D2PPRE2 = 0x400" "RCC_D3CFGR t AND RCC_D3CFGR_D3PPRE = 0x40"
  shows "HAL_RCC_GetHCLKFreq t = Some (240000000, t)" "HAL_RCC_GetPCLK1Freq t = Some (120000000, t)"
    "HAL_RCC_GetPCLK2Freq t = Some (120000000, t)" "HAL_RCCEx_GetD1PCLK1Freq t = Some (120000000, t)"
    "HAL_RCCEx_GetD3PCLK1Freq t = Some (120000000, t)"
proof -
  have table: "D1CorePrescTable ! 0 AND 0x1F = 0" "D1CorePrescTable ! 8 AND 0x1F = 1" "D1CorePrescTable ! 4 AND 0x1F = 1" by code_simp+
  have p: "presc RCC_D1CFGR_D1CPRE RCC_D1CFGR_D1CPRE_Pos (RCC_D1CFGR t) = 0" "presc RCC_D1CFGR_HPRE RCC_D1CFGR_HPRE_Pos (RCC_D1CFGR t) = 1"
    "presc RCC_D1CFGR_D1PPRE RCC_D1CFGR_D1PPRE_Pos (RCC_D1CFGR t) = 1" "presc RCC_D2CFGR_D2PPRE1 RCC_D2CFGR_D2PPRE1_Pos (RCC_D2CFGR t) = 1"
    "presc RCC_D2CFGR_D2PPRE2 RCC_D2CFGR_D2PPRE2_Pos (RCC_D2CFGR t) = 1" "presc RCC_D3CFGR_D3PPRE RCC_D3CFGR_D3PPRE_Pos (RCC_D3CFGR t) = 1"
    unfolding presc_def d using table
    by (simp_all add: RCC_D1CFGR_D1CPRE_Pos_def RCC_D1CFGR_HPRE_Pos_def RCC_D1CFGR_D1PPRE_Pos_def RCC_D2CFGR_D2PPRE1_Pos_def
      RCC_D2CFGR_D2PPRE2_Pos_def RCC_D3CFGR_D3PPRE_Pos_def)
  have "core_clocks 480000000 t = t\<lparr>SystemD2Clock := SystemD2Clock t, SystemCoreClock := SystemCoreClock t\<rparr>"
    by (simp add: core_clocks_def p v Let_def)
  then have c: "core_clocks 480000000 t = t" by simp
  show h: "HAL_RCC_GetHCLKFreq t = Some (240000000, t)" by (simp add: HAL_RCC_GetHCLKFreq_def f c v Let_def)
  show "HAL_RCC_GetPCLK1Freq t = Some (120000000, t)" "HAL_RCC_GetPCLK2Freq t = Some (120000000, t)"
    "HAL_RCCEx_GetD1PCLK1Freq t = Some (120000000, t)" "HAL_RCCEx_GetD3PCLK1Freq t = Some (120000000, t)"
    by (simp_all add: HAL_RCC_GetPCLK1Freq_def HAL_RCC_GetPCLK2Freq_def HAL_RCCEx_GetD1PCLK1Freq_def HAL_RCCEx_GetD3PCLK1Freq_def h p)
qed

lemma current_vars:
  assumes "clocks_current c" "HAL_RCC_GetSysClockFreq c = Some 480000000"
    "RCC_D1CFGR c AND RCC_D1CFGR_D1CPRE = 0" "RCC_D1CFGR c AND RCC_D1CFGR_HPRE = 8"
  shows "SystemCoreClock c = 480000000" "SystemD2Clock c = 240000000" "SysTick_LOAD c = 479999"
proof -
  have table: "D1CorePrescTable ! 0 AND 0x1F = 0" "D1CorePrescTable ! 8 AND 0x1F = 1" by code_simp+
  have p: "presc RCC_D1CFGR_D1CPRE RCC_D1CFGR_D1CPRE_Pos (RCC_D1CFGR c) = 0" "presc RCC_D1CFGR_HPRE RCC_D1CFGR_HPRE_Pos (RCC_D1CFGR c) = 1"
    unfolding presc_def assms(3,4) using table by (simp_all add: RCC_D1CFGR_D1CPRE_Pos_def RCC_D1CFGR_HPRE_Pos_def)
  have "core_clocks 480000000 c = c" using assms(1,2) by (simp add: clocks_current_def HAL_RCC_GetHCLKFreq_def Let_def)
  from arg_cong [OF this, of SystemCoreClock] arg_cong [OF this, of SystemD2Clock]
  show v: "SystemCoreClock c = 480000000" "SystemD2Clock c = 240000000" by (simp_all add: core_clocks_def p Let_def)
  then show "SysTick_LOAD c = 479999" using assms(1) by (simp add: clocks_current_def)
qed

text \<open>The log up to the first call: the events of the power supply leave the clock controller alone.\<close>

lemma voltage_log:
  "\<exists>x. HAL_PWR_VOLTAGESCALING_CONFIG env v l = l @ x \<and> (\<forall>hw s. rcc_replay hw s x = Some s)"
  by (simp add: HAL_PWR_VOLTAGESCALING_CONFIG_def MODIFY_REG_def SET_BIT_def CLEAR_BIT_def modify_reg_def rcc_step_def)

lemma earlyinit_clk_log:
  assumes "\<And>l. reg_value env l PWR_D3CR AND PWR_D3CR_VOSRDY \<noteq> 0"
  obtains l3 where "bsp_earlyinit_clk env l =
      assert_call env (Rcc (Osc_config osc_params)) l3 \<bind> (\<lambda>l4. assert_call env (Rcc (Clock_config clk_params FLASH_LATENCY_4)) l4 \<bind>
        assert_call env (Rcc (Periph_clk_config periph_clk_params)))"
    "rcc_replay hw start l3 = rcc_replay hw start l"
proof -
  let ?l1 = "l @ [Clk ''SYSCFG'' True, Rcc (Pwr_supply PWR_LDO_SUPPLY)]"
  obtain x where x: "HAL_PWR_VOLTAGESCALING_CONFIG env PWR_REGULATOR_VOLTAGE_SCALE1 ?l1 = ?l1 @ x" "\<And>hw s. rcc_replay hw s x = Some s"
    using voltage_log by blast
  let ?l2 = "((?l1 @ x) @ [Reg_read PWR_D3CR]) @ [Clk ''SYSCFG'' True]"
  obtain y where y: "HAL_PWR_VOLTAGESCALING_CONFIG env PWR_REGULATOR_VOLTAGE_SCALE0 ?l2 = ?l2 @ y" "\<And>hw s. rcc_replay hw s y = Some s"
    using voltage_log by blast
  show ?thesis
  proof (rule that)
    show "bsp_earlyinit_clk env l =
      assert_call env (Rcc (Osc_config osc_params)) ((?l2 @ y) @ [Reg_read PWR_D3CR]) \<bind>
        (\<lambda>l4. assert_call env (Rcc (Clock_config clk_params FLASH_LATENCY_4)) l4 \<bind>
          assert_call env (Rcc (Periph_clk_config periph_clk_params)))"
      by (simp only: bsp_earlyinit_clk_def Let_def x(1) wait_set_now [OF assms] bind.bind_lunit y(1))
    show "rcc_replay hw start ((?l2 @ y) @ [Reg_read PWR_D3CR]) = rcc_replay hw start l"
      by (cases "rcc_replay hw start l") (simp_all add: rcc_replay_append rcc_step_def x(2) y(2))
  qed
qed


section \<open>Examples\<close>

lemma ready_flags:
  "rcc_flag RCC_FLAG_HSERDY s \<longleftrightarrow> bit (RCC_CR s) 17" "rcc_flag RCC_FLAG_PLLRDY s \<longleftrightarrow> bit (RCC_CR s) 25"
  "rcc_flag RCC_FLAG_PLL3RDY s \<longleftrightarrow> bit (RCC_CR s) 29"
proof -
  have d: "drop_bit 5 RCC_FLAG_HSERDY = 1" "drop_bit 5 RCC_FLAG_PLLRDY = 1" "drop_bit 5 RCC_FLAG_PLL3RDY = 1"
    "unat (RCC_FLAG_HSERDY AND RCC_FLAG_MASK) = 17" "unat (RCC_FLAG_PLLRDY AND RCC_FLAG_MASK) = 25"
    "unat (RCC_FLAG_PLL3RDY AND RCC_FLAG_MASK) = 29" by code_simp+
  have p: "x AND push_bit n 1 \<noteq> 0 \<longleftrightarrow> bit x n" for x :: u32 and n
    by (simp add: push_bit_eq_mult and_exp_eq_0_iff_not_bit)
  show "rcc_flag RCC_FLAG_HSERDY s \<longleftrightarrow> bit (RCC_CR s) 17" "rcc_flag RCC_FLAG_PLLRDY s \<longleftrightarrow> bit (RCC_CR s) 25"
    "rcc_flag RCC_FLAG_PLL3RDY s \<longleftrightarrow> bit (RCC_CR s) 29"
    unfolding rcc_flag_def Let_def d p by simp_all
qed

lemma next_ready:
  "bit (next_cr v) 16 = bit v 16" "bit (next_cr v) 24 = bit v 24" "bit (next_cr v) 28 = bit v 28"
  "bit (next_cr v) 17 = bit v 16" "bit (next_cr v) 25 = bit v 24" "bit (next_cr v) 29 = bit v 28"
proof -
  have d: "bit (x * 2) n \<longleftrightarrow> 0 < n \<and> n < 32 \<and> bit x (n - 1)" for x :: u32 and n
    by (auto simp: mult.commute [of x] bit_double_iff)
  show "bit (next_cr v) 16 = bit v 16" "bit (next_cr v) 24 = bit v 24" "bit (next_cr v) 28 = bit v 28"
    "bit (next_cr v) 17 = bit v 16" "bit (next_cr v) 25 = bit v 24" "bit (next_cr v) 29 = bit v 28"
    by (simp_all add: next_cr_def ready_bits_def rcc_status_def bit_simps d)
qed

lemma prompt_settled: "source_settled (prompt_clock s)"
proof -
  have "next_cfgr v AND RCC_CFGR_SWS = push_bit 3 (v AND RCC_CFGR_SW)" for v
    unfolding next_cfgr_def by (rule modified_and) (rule bit_word_eqI, auto simp: hal_consts bit_simps)
  moreover have "next_cfgr v AND RCC_CFGR_SW = v AND RCC_CFGR_SW" for v
    by (rule same_field [OF next_status(2)]) (simp add: hal_consts)
  ultimately show ?thesis by (simp add: source_settled_def sysclk_source_def prompt_clock_def)
qed

lemma prompt_works: "clock_works prompt_clock"
proof -
  have cr: "RCC_CR (prompt_clock s) = next_cr (RCC_CR s)" for s by (simp add: prompt_clock_def)
  have "settled (prompt_clock s)" for s
    by (simp add: settled_def prompt_settled control_bits ready_flags cr next_ready)
  then have k: "\<exists>k. settled ((prompt_clock ^^ Suc (2 * k)) s) \<and> (\<forall>j < k. uwTick ((prompt_clock ^^ (2 * j + 2)) s) - uwTick s \<le> 2)" for s
    by (intro exI [of _ 0]) simp
  have "pll_locked (prompt_clock s)" if "pll_locked s" for s
    using that settings_fed [of "prompt_clock s" s] prompt_clock_status
    by (simp add: pll_locked_def control_bits ready_flags cr next_ready status_only_def)
  then show ?thesis unfolding clock_works_def using prompt_clock_status prompt_source k by blast
qed

lemma reset_init:
  "\<exists>s. rcc_replay prompt_clock reset_clock [Hal Hal_init] = Some s \<and> RCC_CFGR s = RCC_CFGR reset_clock \<and> uwTickPrio s < 16"
proof -
  have f: "HAL_RCC_GetSysClockFreq reset_clock = Some 64000000" by code_simp
  have p: "drop_bit RCC_D1CFGR_D1CPRE_Pos (RCC_D1CFGR reset_clock AND RCC_D1CFGR_D1CPRE) = 0"
    "presc RCC_D1CFGR_HPRE RCC_D1CFGR_HPRE_Pos (RCC_D1CFGR reset_clock) = 0" by code_simp+
  have "HAL_Init reset_clock =
      Some (HAL_InitTick TICK_INT_PRIORITY (reset_clock\<lparr>SystemD2Clock := 64000000, SystemCoreClock := 64000000\<rparr>))"
    unfolding HAL_Init_def f p by simp
  moreover have "\<not> SysTick_LOAD_RELOAD_Msk < 64000000 div 1000 - 1" "TICK_INT_PRIORITY < 16" by code_simp+
  ultimately show ?thesis
    by (simp add: rcc_step_def HAL_InitTick_def SysTick_Config_def)
qed


text \<open>
  C17.  The configuration of the system clock reads back.  After a request for all the clocks has
  returned \<open>HAL_OK\<close>, \<open>HAL_RCC_GetClockConfig\<close> gives the request and its latency, whatever dividers were
  set before and in whichever order they had to be written; the variables \<open>SystemCoreClock\<close> and
  \<open>SystemD2Clock\<close> are the frequencies of the registers, and the reload value of the tick is a
  millisecond of the new clock.
\<close>

theorem clock_config_roundtrip:
  assumes "HAL_RCC_ClockConfig hw c lat s = Some (HAL_OK, t)" "clk_type c = all_clocks"
    and "status_only hw" "clk_request c"
  shows "HAL_RCC_GetClockConfig t = (c, lat) \<and> clocks_current t"
proof -
  have "RCC_CLOCKTYPE_SYSCLK OR RCC_CLOCKTYPE_HCLK OR RCC_CLOCKTYPE_D1PCLK1 OR RCC_CLOCKTYPE_PCLK1 OR
      RCC_CLOCKTYPE_PCLK2 OR RCC_CLOCKTYPE_D3PCLK1 = all_clocks" by code_simp
  then show ?thesis
    using clock_config_result [OF assms] by (simp add: HAL_RCC_GetClockConfig_def assms(2) [symmetric])
qed

theorem clock_config_roundtrip_witness:
  "\<exists>t. HAL_RCC_ClockConfig prompt_clock clk_params 4 ext_on = Some (HAL_OK, t) \<and> HAL_RCC_GetClockConfig t = (clk_params, 4)"
proof -
  have c: "clk_type clk_params = all_clocks" "clk_sysclk_source clk_params = RCC_SYSCLKSOURCE_PLLCLK" "legal_dividers clk_params"
    "(4 :: u32) \<le> 15" "clk_request clk_params" by code_simp+
  have "pll_locked ext_on" "board_pll ext_on" by code_simp+
  then obtain t where t: "HAL_RCC_ClockConfig prompt_clock clk_params 4 ext_on = Some (HAL_OK, t)"
    using clock_config_ok [OF prompt_works c(1-4)] by blast
  then show ?thesis using clock_config_roundtrip [OF t c(1) prompt_clock_status c(5)] by blast
qed

section \<open>A board without its crystal\<close>

lemma osc_timeout:
  assumes "\<And>s. \<not> rcc_flag RCC_FLAG_HSERDY (hw s)" "\<And>s. \<exists>k. HSE_TIMEOUT_VALUE < uwTick ((hw ^^ (2 * k + 2)) s) - uwTick s"
    and "sysclk_source s = RCC_CFGR_SWS_HSI"
  shows "\<exists>t. HAL_RCC_OscConfig hw osc_params s = Some (HAL_TIMEOUT, t)"
proof -
  let ?s = "hse_config RCC_HSE_ON s"
  have n: "RCC_HSE_ON \<noteq> RCC_HSE_OFF" "RCC_CFGR_SWS_HSI \<noteq> RCC_CFGR_SWS_HSE" "RCC_CFGR_SWS_HSI \<noteq> RCC_CFGR_SWS_PLL1"
    "osc_type osc_params = RCC_OSCILLATORTYPE_HSE" "osc_hse_state osc_params = RCC_HSE_ON" "oscillatortype_ok RCC_OSCILLATORTYPE_HSE"
    by (simp_all add: hal_consts osc_params_def oscillatortype_ok_def)
  obtain k where "HSE_TIMEOUT_VALUE < uwTick ((hw ^^ (2 * k + 2)) ?s) - uwTick ?s" using assms(2) by blast
  then have "\<exists>t. wait_for hw HSE_TIMEOUT_VALUE (\<lambda>t. rcc_flag RCC_FLAG_HSERDY t = (RCC_HSE_ON \<noteq> RCC_HSE_OFF)) ?s = Some (HAL_TIMEOUT, t)"
    unfolding wait_for_def by (intro rcc_wait_timeout) (simp_all add: n(1) assms(1))
  then obtain t where "osc_hse hw osc_params s = Some (HAL_TIMEOUT, t)"
    using n assms(3) by (auto simp: osc_hse_def Let_def)
  then show ?thesis using n by (simp add: HAL_RCC_OscConfig_def and_then_def)
qed

text \<open>
  C24.  A crystal that never starts.  If the external oscillator does not become ready while time goes on,
  \<open>HAL_RCC_OscConfig\<close> gives up after its 100 ms and returns \<open>HAL_TIMEOUT\<close> instead of waiting for ever, and
  the start of the clocks ends in the assertion that checks the call.
\<close>

theorem boot_without_crystal:
  assumes "\<And>s. \<not> rcc_flag RCC_FLAG_HSERDY (hw s)" "\<And>s. \<exists>k. HSE_TIMEOUT_VALUE < uwTick ((hw ^^ (2 * k + 2)) s) - uwTick s"
    and "rcc_replay hw s0 l = Some s" "sysclk_source s = RCC_CFGR_SWS_HSI"
    and "\<And>m. rd m PWR_D3CR AND PWR_D3CR_VOSRDY \<noteq> 0"
  shows "(\<exists>t. HAL_RCC_OscConfig hw osc_params s = Some (HAL_TIMEOUT, t)) \<and> bsp_earlyinit_clk (driver_env hw s0 rd) l = None"
proof -
  let ?env = "driver_env hw s0 rd"
  obtain t where t: "HAL_RCC_OscConfig hw osc_params s = Some (HAL_TIMEOUT, t)" using osc_timeout [OF assms(1,2,4)] ..
  obtain l3 where l3: "bsp_earlyinit_clk ?env l =
      assert_call ?env (Rcc (Osc_config osc_params)) l3 \<bind> (\<lambda>l4. assert_call ?env (Rcc (Clock_config clk_params FLASH_LATENCY_4)) l4 \<bind>
        assert_call ?env (Rcc (Periph_clk_config periph_clk_params)))" "rcc_replay hw s0 l3 = Some s"
    using earlyinit_clk_log [where env = ?env and l = l and hw = hw and start = s0] assms(3,5) by (auto simp: driver_env_def)
  have "assert_call ?env (Rcc (Osc_config osc_params)) l3 = None"
    using l3(2) t by (simp add: assert_call_def driver_env_def rcc_step_def)
  then show ?thesis using l3(1) t by simp
qed

definition dead_clock :: "rcc \<Rightarrow> rcc" where
  "dead_clock s = s\<lparr>RCC_CR := RCC_CR s AND NOT 0x20000, uwTick := uwTick s + 1\<rparr>"

theorem boot_without_crystal_witness:
  "(\<exists>t. HAL_RCC_OscConfig dead_clock osc_params reset_clock = Some (HAL_TIMEOUT, t)) \<and>
   bsp_earlyinit_clk (driver_env dead_clock reset_clock (\<lambda>_ _. - 1)) [] = None"
proof (rule boot_without_crystal)
  show "\<not> rcc_flag RCC_FLAG_HSERDY (dead_clock s)" for s by (simp add: ready_flags dead_clock_def bit_simps)
  have "uwTick ((dead_clock ^^ n) s) = uwTick s + of_nat n" for n s
    by (induction n) (simp_all add: dead_clock_def algebra_simps)
  then show "\<exists>k. HSE_TIMEOUT_VALUE < uwTick ((dead_clock ^^ (2 * k + 2)) s) - uwTick s" for s
    by (intro exI [of _ 50]) (simp add: HSE_TIMEOUT_VALUE_def del: funpow.simps)
  show "rcc_replay dead_clock reset_clock [] = Some reset_clock" by simp
  show "sysclk_source reset_clock = RCC_CFGR_SWS_HSI" by code_simp
  show "(- 1 :: u32) AND PWR_D3CR_VOSRDY \<noteq> 0" by code_simp
qed

end
