(* ===== verification/Spec2Isabelle.thy ===== *)
theory Spec2Isabelle
  imports Genconfig Mktool Bsp_module Bsp_tty Bsp_sdram Bsp_lcd Fault Bsp_boot Boot_clocks
begin

text \<open>
  A verification library for the firmware of an STM32H743 board and the two tools of its build.

  The program.  The repository has three parts of its own.  \<open>tools/genconfig\<close> runs on the host: it
  rewrites a configuration header, replacing references to variables and the \<open>#cmakedefine\<close>
  directives by the values given on the command line.  \<open>tools/mkimage\<close> runs on the host: it reads
  a configuration file, places the components of a boot image (interrupt vector table, device
  configuration data, boot code header, data) and writes or lists the image.  \<open>bsp\<close> and \<open>src\<close> run on the
  board: start-up, module list, terminal, display, external memory, debug components, system calls
  and fault handlers, over the vendor's hardware abstraction layer in \<open>hal\<close> and \<open>cmsis\<close>, and an
  intrusive list of \<open>include/zephyr/sys\<close>.

  Theories of the tools.
  \<^item> \<open>Dict\<close> is tools/genconfig/dict.c: three parallel arrays with NULL entries, the hash, the growth
    by doubling.  \<open>dict_wf\<close> is the invariant of the arrays, \<open>dict_map\<close> the finite map they stand
    for; the operations refine those of the map.  The locale \<open>assoc_store\<close> is what the generator needs
    of a store.
  \<^item> \<open>Genconfig\<close> is tools/genconfig/genconfig.c: the four patterns of a reference, the replacement
    with the sizes of its buffers, the directives, the main loop over lines.
  \<^item> \<open>Bytes\<close> has stores and loads of little-endian fields at an offset, \<open>None\<close> outside the buffer.
  \<^item> \<open>Dcd\<close>, \<open>Layout\<close>, \<open>Mkconfig\<close> and \<open>Mkimage\<close> are tools/mkimage/mkimage.c: the array of configuration
    words, the placement of the components, the parser of the configuration file, and writing, checking
    and printing the header.  \<open>Qsort\<close> is the contract of the C library's function, a locale,
    interpreted by insertion sort.  \<open>Mktool\<close> is tools/mkimage/main.c.

  Theories of the board.
  \<^item> \<open>Hal\<close> is the boundary to the hardware: a log of events (calls of HAL functions with their
    parameter structures, clock gates, register accesses, characters sent), and an environment that
    answers a call or a read from the log so far.  \<open>Stm32\<close> has the constants of the device headers.
  \<^item> \<open>Gpio\<close>, \<open>Sdram_hal\<close>, \<open>Ltdc_hal\<close>, \<open>Mpu\<close> and \<open>Itm\<close> look behind that boundary, at the vendor's drivers of
    pins, SDRAM controller, display controller, memory protection unit and trace port, down to the
    registers.  The callbacks of the SDRAM and display drivers into the board support package are
    the locales \<open>sdram_callbacks\<close> and \<open>ltdc_callbacks\<close>, interpreted on the functions of \<open>bsp\<close>.
  \<^item> \<open>Rcc\<close> and \<open>Rcc_clock\<close> do the same for reset and clock control: the oscillators and PLLs, the system clock
    and its dividers, the flash latency and the tick of hal/stm32h7xx_hal_rcc.c, rcc_ex.c and hal.c, and the
    functions that compute frequencies in single precision, that of cmsis/system_stm32h7xx.c included.
    The hardware is a function on the state that runs between two reads of a wait.
  \<^item> \<open>Slist\<close> is the intrusive list: a map of next fields, the path through it, and its refinement of
    lists (locale \<open>intrusive_list\<close>).  \<open>Bsp_module\<close> is bsp/bsp_module.c over it: modules with a state, a
    descriptor and callbacks on a world of their own.
  \<^item> \<open>Bsp_utils\<close> (error pointers, tables of peripherals, clock switch), \<open>Bsp_tty\<close>, \<open>Bsp_led\<close>, \<open>Bsp_sdram\<close> with
    \<open>Memory\<close>, \<open>Bsp_lcd\<close> and \<open>Bsp_debug\<close> are the files of the same name under bsp.  \<open>Syscall\<close> and \<open>Fault\<close> are
    src/syscall.c and src/stm32h7xx_it.c.
  \<^item> \<open>Bsp_boot\<close> composes them: bsp/bsp.c from the protection unit to the modules, src/main.c, and the
    interrupt of the display.  \<open>Boot_clocks\<close> puts the clock part of the start on the driver of
    \<open>Rcc_clock\<close>: the environment of the log answers what the driver returns.

  Correspondence.  A definition has the name of the function it models, or that name with the
  component's prefix where several files use it (\<open>tty_set_default_des\<close>).  Structures are records with
  shortened field names, enumerations datatypes, \<open>uintN_t\<close> a word of N bits; \<open>int\<close> values that are
  only return codes are \<open>int\<close>.  A pointer into the board's address space is a word of 32 bits, NULL
  is 0, and pointers that carry an error code are as in bsp/include/bsp_utils.h.  The memory of the
  board is a map from addresses to bytes; descriptors from \<open>calloc\<close> are typed objects at their
  address, apart from those bytes, and module objects are taken as the start-up code initialises them.

  Failure.  \<open>None\<close> is the outcome of a step that C leaves undefined (a store outside a buffer, a read
  through NULL), of a failed assertion of the vendor's code, which the configuration of the
  repository turns on and which does not return, and of a wait that never ends.  So a theorem that
  a function returns \<open>Some\<close> excludes all three.  Error codes are values of the result.  The outcome
  of an allocation or of a system call is a parameter of the function that makes it.

  Loops.  Loops over arrays and lists are structural recursion.  The copy loops of \<open>Bsp_boot\<close> have a
  termination proof by the distance to the end.  The search for a free slot of the dictionary has
  fuel, the number of slots, which is enough because it visits every slot once (\<open>dict_wf\<close> leaves one
  free).  A loop that waits for the hardware is a \<open>partial_function\<close>, and the theorems that it returns
  assume that the hardware answers; so are the loops of the memory test, whose address may wrap, and
  the loop over an intrusive list, because a cyclic list is reachable (\<open>append_again_hangs\<close>).

  What is shown.  For the tools: the dictionary refines a map; a run of the generator replaces what it
  should, and exactly when its buffers overflow; the layout of an image has no overlap and keeps
  the alignments; what is written is what is read back and printed.  For the board: the list
  refines lists; modules become live and go; the drivers program the registers to what they were
  asked for; the clock tree comes up at the frequencies of the board, or the start
  stops when the crystal does not run; the whole start returns with the modules live, the memory
  loaded and the display on; its interrupt paints the picture and arms itself again.  Defects that the proofs met are theorems
  too, for example \<open>console_silent\<close>, \<open>boot_line_interrupt\<close> and \<open>osc_config_roundtrip\<close>.

  Not modelled.  The C library and the assembly of the reset code and the vector table are not in the
  C sources.  Calls of the vendor's drivers of DMA, serial port, timers and power are events of
  the log, with the answers of the environment: their register programs are not modelled, nor are
  the handlers of DMA 1, which only forward to them.  Of the clock driver the second PLL, the clocks of
  peripherals that the board does not select and the recovery systems are left out.  The drivers, headers and device tree bindings
  that nothing in the program uses are left out.  Caches are events: memory is as the processor sees
  it.  Interrupts happen between operations, not inside them.
\<close>

end
